(* ===== verification/Prelude.thy ===== *)
theory Prelude
  imports Main
begin

text \<open>
  Shared vocabulary of the development.

  The program is asynchronous Python over a transactional store. Every use case is a
  computation that reads and updates a state and may raise an exception; the exception does
  not undo the state changes made before it (only the surrounding transaction does).
  \<open>('e, 's, 'a) op\<close> is that kind of computation, with \<open>bnd\<close> for sequencing,
  \<open>throw\<close> for \<open>raise\<close>, \<open>raise_if\<close> for a guarded \<open>raise\<close>, \<open>gets\<close> for
  a read and \<open>lift\<close> for a pure function that may raise. The lemmas are what the component
  proofs share: evaluation rules (collection \<open>op_simps\<close>), inversion of a successful or a
  failed run, and facts about lists used as tables.
\<close>

named_theorems op_simps
named_theorems op_inv
named_theorems row_defs

subsection \<open>Computations with state and exceptions\<close>

type_synonym ('e, 's, 'a) op = "'s \<Rightarrow> ('e + 'a) \<times> 's"

definition ret :: "'a \<Rightarrow> ('e, 's, 'a) op" where
  "ret a = (\<lambda>s. (Inr a, s))"

definition throw :: "'e \<Rightarrow> ('e, 's, 'a) op" where
  "throw e = (\<lambda>s. (Inl e, s))"

definition bnd :: "('e, 's, 'a) op \<Rightarrow> ('a \<Rightarrow> ('e, 's, 'b) op) \<Rightarrow> ('e, 's, 'b) op" where
  "bnd m f = (\<lambda>s. case m s of (r, s') \<Rightarrow> (case r of Inl e \<Rightarrow> (Inl e, s') | Inr a \<Rightarrow> f a s'))"

definition raise_if :: "bool \<Rightarrow> 'e \<Rightarrow> ('e, 's, unit) op" where
  "raise_if c e = (if c then throw e else ret ())"

definition lift :: "'e + 'a \<Rightarrow> ('e, 's, 'a) op" where
  "lift r = (\<lambda>s. (r, s))"

definition gets :: "('s \<Rightarrow> 'a) \<Rightarrow> ('e, 's, 'a) op" where
  "gets g = (\<lambda>s. (Inr (g s), s))"

text \<open>\<open>try: m except e when sel e: h e\<close>; the handler runs in the state the failure left.\<close>

definition catch :: "('e, 's, 'a) op \<Rightarrow> ('e \<Rightarrow> ('e, 's, 'a) op option) \<Rightarrow> ('e, 's, 'a) op" where
  "catch m sel = (\<lambda>s. case m s of (r, s') \<Rightarrow>
     (case r of Inl e \<Rightarrow> (case sel e of None \<Rightarrow> (Inl e, s') | Some h \<Rightarrow> h s') | Inr a \<Rightarrow> (Inr a, s')))"

text \<open>A read of the state that may fail, and leaves the state alone.\<close>

definition reads :: "('s \<Rightarrow> 'e + 'a) \<Rightarrow> ('e, 's, 'a) op" where
  "reads f = (\<lambda>s. (f s, s))"

lemma run_reads [op_simps, simp]: "reads f s = (f s, s)"
  by (simp add: reads_def)

lemma run_ret [op_simps, simp]: "ret a s = (Inr a, s)"
  by (simp add: ret_def)

lemma run_throw [op_simps, simp]: "throw e s = (Inl e, s)"
  by (simp add: throw_def)

lemma run_raise_if [op_simps, simp]: "raise_if c e s = (if c then Inl e else Inr (), s)"
  by (simp add: raise_if_def)

lemma run_lift [op_simps, simp]: "lift r s = (r, s)"
  by (simp add: lift_def)

lemma run_gets [op_simps, simp]: "gets g s = (Inr (g s), s)"
  by (simp add: gets_def)

lemma run_bnd [op_simps]:
  "bnd m f s = (case m s of (r, s') \<Rightarrow> (case r of Inl e \<Rightarrow> (Inl e, s') | Inr a \<Rightarrow> f a s'))"
  by (simp add: bnd_def)

lemma run_bnd_Inl [simp]: "m s = (Inl e, s') \<Longrightarrow> bnd m f s = (Inl e, s')"
  by (simp add: bnd_def)

lemma run_bnd_Inr [simp]: "m s = (Inr a, s') \<Longrightarrow> bnd m f s = f a s'"
  by (simp add: bnd_def)

text \<open>Inversion: what a successful, and what a failed, sequence did.\<close>

lemma bnd_Inr_iff [op_inv]:
  "bnd m f s = (Inr b, s'') \<longleftrightarrow> (\<exists>a s'. m s = (Inr a, s') \<and> f a s' = (Inr b, s''))"
  by (auto simp: bnd_def split: prod.splits sum.splits)

lemma bnd_Inl_iff:
  "bnd m f s = (Inl e, s'') \<longleftrightarrow>
     m s = (Inl e, s'') \<or> (\<exists>a s'. m s = (Inr a, s') \<and> f a s' = (Inl e, s''))"
  by (auto simp: bnd_def split: prod.splits sum.splits)

lemma raise_if_Inr_iff [op_inv]:
  "raise_if c e s = (Inr u, s') \<longleftrightarrow> \<not> c \<and> s' = s"
  by auto

lemma lift_Inr_iff [op_inv]: "lift r s = (Inr a, s') \<longleftrightarrow> r = Inr a \<and> s' = s"
  by auto

lemma gets_Inr_iff [op_inv]: "gets g s = (Inr a, s') \<longleftrightarrow> a = g s \<and> s' = s"
  by auto

lemma reads_Inr_iff [op_inv]: "reads f s = (Inr a, s') \<longleftrightarrow> f s = Inr a \<and> s' = s"
  by auto

lemma ret_Inr_iff [op_inv]: "ret b s = (Inr a, s') \<longleftrightarrow> a = b \<and> s' = s"
  by auto

lemma throw_Inr_iff [op_inv]: "throw e s = (Inr a, s') \<longleftrightarrow> False"
  by simp

text \<open>A property of the state a run leaves, by the two ways it can end.\<close>

lemma run_cases:
  assumes "\<And>e s'. m s = (Inl e, s') \<Longrightarrow> P s'" "\<And>a s'. m s = (Inr a, s') \<Longrightarrow> P s'"
  shows "P (snd (m s))"
  using assms by (cases "m s"; cases "fst (m s)") auto

subsection \<open>Operations that keep a part of the state\<close>

text \<open>
  \<open>keeps v m\<close>: the computation \<open>m\<close> never changes the view \<open>v\<close> of the state, whether
  it returns or raises. It is closed under the combinators, so that it is proved for a use
  case by following its text.
\<close>

definition keeps :: "('s \<Rightarrow> 'v) \<Rightarrow> ('e, 's, 'a) op \<Rightarrow> bool" where
  "keeps v m \<longleftrightarrow> (\<forall>s. v (snd (m s)) = v s)"

lemma keepsI: "(\<And>s. v (snd (m s)) = v s) \<Longrightarrow> keeps v m"
  by (simp add: keeps_def)

lemma keepsD: "keeps v m \<Longrightarrow> m s = (r, s') \<Longrightarrow> v s' = v s"
  by (metis keeps_def snd_conv)

lemma keeps_basic [simp, intro]:
  "keeps v (ret a)" "keeps v (throw e)" "keeps v (raise_if c e)"
  "keeps v (lift r)" "keeps v (gets g)" "keeps v (reads h)"
  by (simp_all add: keeps_def)

lemma keeps_bnd [intro]:
  assumes m: "keeps v m" and f: "\<And>a. keeps v (f a)"
  shows "keeps v (bnd m f)"
proof (rule keepsI)
  fix s
  obtain r s' where ms: "m s = (r, s')" by fastforce
  then have s': "v s' = v s" using keepsD [OF m] by blast
  show "v (snd (bnd m f s)) = v s"
  proof (cases r)
    case Inl
    then show ?thesis using ms s' by simp
  next
    case (Inr a)
    have "v (snd (f a s')) = v s'" using f [of a] by (simp add: keeps_def)
    then show ?thesis using ms s' Inr by simp
  qed
qed

lemma keeps_if [intro]:
  "keeps v m \<Longrightarrow> keeps v n \<Longrightarrow> keeps v (if c then m else n)"
  by simp

lemma keeps_case_option [intro]:
  "keeps v m \<Longrightarrow> (\<And>x. keeps v (f x)) \<Longrightarrow> keeps v (case o' of None \<Rightarrow> m | Some x \<Rightarrow> f x)"
  by (cases o') auto

subsection \<open>Pure functions that may raise\<close>

definition and_then :: "'e + 'a \<Rightarrow> ('a \<Rightarrow> 'e + 'b) \<Rightarrow> 'e + 'b" where
  "and_then r f = (case r of Inl e \<Rightarrow> Inl e | Inr a \<Rightarrow> f a)"

lemma and_then_simps [simp]:
  "and_then (Inl e) f = Inl e" "and_then (Inr a) f = f a"
  by (simp_all add: and_then_def)

lemma and_then_Inr_iff: "and_then r f = Inr b \<longleftrightarrow> (\<exists>a. r = Inr a \<and> f a = Inr b)"
  by (cases r) auto

lemma map_sum_Inr_iff: "map_sum id g r = Inr x \<longleftrightarrow> (\<exists>a. r = Inr a \<and> x = g a)"
  by (cases r) auto

text \<open>Converting every element of a list, stopping at the first failure.\<close>

fun map_res :: "('a \<Rightarrow> 'e + 'b) \<Rightarrow> 'a list \<Rightarrow> 'e + 'b list" where
  "map_res f [] = Inr []"
| "map_res f (x # xs) = and_then (f x) (\<lambda>y. and_then (map_res f xs) (\<lambda>ys. Inr (y # ys)))"

lemma map_res_all:
  "\<forall>x \<in> set xs. f x = Inr (g x) \<Longrightarrow> map_res f xs = Inr (map g xs)"
  by (induction xs) auto

text \<open>The first of a list of guarded failures, or success.\<close>

fun first_failure :: "(bool \<times> 'e) list \<Rightarrow> 'e option" where
  "first_failure [] = None"
| "first_failure ((c, e) # cs) = (if c then Some e else first_failure cs)"

definition checked :: "(bool \<times> 'e) list \<Rightarrow> 'a \<Rightarrow> 'e + 'a" where
  "checked cs a = (case first_failure cs of None \<Rightarrow> Inr a | Some e \<Rightarrow> Inl e)"

lemma first_failure_None_iff: "first_failure cs = None \<longleftrightarrow> (\<forall>(c, e) \<in> set cs. \<not> c)"
  by (induction cs rule: first_failure.induct) auto

lemma checked_simps [simp]:
  "checked [] a = Inr a"
  "checked ((c, e) # cs) a = (if c then Inl e else checked cs a)"
  by (simp_all add: checked_def)

lemma first_failure_in: "first_failure cs = Some e \<Longrightarrow> \<exists>c. (c, e) \<in> set cs \<and> c"
  by (induction cs rule: first_failure.induct) (auto split: if_splits)

subsection \<open>Lists as tables\<close>

text \<open>
  A table is the list of its rows in insertion order. \<open>row_of key k rows\<close> is the primary-key
  lookup; \<open>update_rows\<close> is \<open>UPDATE ... WHERE\<close>.
\<close>

definition row_of :: "('r \<Rightarrow> 'k) \<Rightarrow> 'k \<Rightarrow> 'r list \<Rightarrow> 'r option" where
  "row_of key k rows = find (\<lambda>r. key r = k) rows"

definition update_rows :: "('r \<Rightarrow> bool) \<Rightarrow> ('r \<Rightarrow> 'r) \<Rightarrow> 'r list \<Rightarrow> 'r list" where
  "update_rows p f rows = map (\<lambda>r. if p r then f r else r) rows"

lemma row_of_Nil [simp]: "row_of key k [] = None"
  by (simp add: row_of_def)

lemma row_of_Cons [simp]:
  "row_of key k (r # rows) = (if key r = k then Some r else row_of key k rows)"
  by (simp add: row_of_def)

lemma row_of_append:
  "row_of key k (rows @ rows') = (case row_of key k rows of None \<Rightarrow> row_of key k rows' | Some r \<Rightarrow> Some r)"
  by (induction rows) auto

lemma row_of_None_iff: "row_of key k rows = None \<longleftrightarrow> k \<notin> key ` set rows"
  by (induction rows) auto

lemma row_of_SomeD: "row_of key k rows = Some r \<Longrightarrow> r \<in> set rows \<and> key r = k"
  by (induction rows) (auto split: if_splits)

lemma row_of_Some_iff:
  "distinct (map key rows) \<Longrightarrow> row_of key k rows = Some r \<longleftrightarrow> r \<in> set rows \<and> key r = k"
  by (induction rows) (auto simp: rev_image_eqI)

lemma row_of_update_rows:
  assumes "\<And>r. key (f r) = key r"
  shows "row_of key k (update_rows p f rows) =
    map_option (\<lambda>r. if p r then f r else r) (row_of key k rows)"
  by (induction rows) (auto simp: update_rows_def assms)

lemma map_key_update_rows:
  assumes "\<And>r. key (f r) = key r"
  shows "map key (update_rows p f rows) = map key rows"
  by (auto simp: update_rows_def assms)

lemma set_update_rows: "set (update_rows p f rows) = (\<lambda>r. if p r then f r else r) ` set rows"
  by (simp add: update_rows_def)

lemma length_update_rows [simp]: "length (update_rows p f rows) = length rows"
  by (simp add: update_rows_def)

lemma filter_length_split:
  "length (filter p xs) = length (filter (\<lambda>x. p x \<and> q x) xs) + length (filter (\<lambda>x. p x \<and> \<not> q x) xs)"
  by (induction xs) auto

end
