(* ===== verification/Platform.thy ===== *)
theory Platform
  imports Prelude "HOL-Library.Word"
begin

text \<open>
  The parts of Python and of its standard library that the program computes with: text as a
  list of code points (\<open>str.split\<close>, \<open>str.strip\<close>, \<open>str.join\<close>, \<open>casefold\<close>), UUIDs
  as 128-bit words with their printed form and the constructor \<open>UUID(text)\<close>.

  What the program takes from outside itself is a field of \<open>platform\<close>: the Unicode tables
  beyond ASCII (case folding, decimal digits), SHA-256 and HMAC-SHA256 as functions to lower
  case hexadecimal text, the offset of the process's local zone at a wall-clock time, and the
  offset in which the database session returns an instant.
\<close>

type_synonym uuid = "128 word"
type_synonym pystr = "nat list"

definition lit :: "string \<Rightarrow> pystr" where
  "lit s = map of_char s"

lemma lit_simps: "lit [] = []" "lit (c # s) = of_char c # lit s"
  by (simp_all add: lit_def)

lemma length_lit [simp]: "length (lit s) = length s"
  by (simp add: lit_def)

record platform =
  fold_table :: "nat \<Rightarrow> nat list"
  digit_table :: "nat \<Rightarrow> nat option"
  sha256_hex :: "pystr \<Rightarrow> pystr"
  hmac_hex :: "pystr \<Rightarrow> pystr \<Rightarrow> pystr"
  local_offset :: "int \<Rightarrow> int"
  session_offset :: "int \<Rightarrow> int"

subsection \<open>Whitespace, words, canonical names\<close>

text \<open>\<open>str.isspace\<close> for one code point: the complete table.\<close>

definition py_isspace :: "nat \<Rightarrow> bool" where
  "py_isspace c \<longleftrightarrow> (9 \<le> c \<and> c \<le> 13) \<or> (28 \<le> c \<and> c \<le> 32) \<or> c = 133 \<or> c = 160 \<or> c = 5760
     \<or> (8192 \<le> c \<and> c \<le> 8202) \<or> c = 8232 \<or> c = 8233 \<or> c = 8239 \<or> c = 8287 \<or> c = 12288"

fun split_from :: "pystr \<Rightarrow> pystr \<Rightarrow> pystr list" where
  "split_from w [] = (if w = [] then [] else [w])"
| "split_from w (c # cs) =
     (if py_isspace c then (if w = [] then split_from [] cs else w # split_from [] cs)
      else split_from (w @ [c]) cs)"

definition py_split :: "pystr \<Rightarrow> pystr list" where
  "py_split s = split_from [] s"

fun py_join :: "pystr \<Rightarrow> pystr list \<Rightarrow> pystr" where
  "py_join sep [] = []"
| "py_join sep [w] = w"
| "py_join sep (w # v # ws) = w @ sep @ py_join sep (v # ws)"

definition py_strip :: "pystr \<Rightarrow> pystr" where
  "py_strip s = rev (dropWhile py_isspace (rev (dropWhile py_isspace s)))"

text \<open>The expression \<open>" ".join(value.split())\<close>, which every named entity applies.\<close>

definition canonical :: "pystr \<Rightarrow> pystr" where
  "canonical s = py_join [32] (py_split s)"

definition word_text :: "pystr \<Rightarrow> bool" where
  "word_text w \<longleftrightarrow> w \<noteq> [] \<and> (\<forall>c \<in> set w. \<not> py_isspace c)"

lemma split_from_words:
  "\<forall>c \<in> set w. \<not> py_isspace c \<Longrightarrow> v \<in> set (split_from w s) \<Longrightarrow> word_text v"
proof (induction w s rule: split_from.induct)
  case (1 w)
  then show ?case by (cases "w = []") (auto simp: word_text_def)
next
  case (2 w c cs)
  show ?case
  proof (cases "py_isspace c")
    case True
    with 2 show ?thesis by (cases "w = []") (auto simp: word_text_def)
  next
    case False
    with 2 show ?thesis by simp
  qed
qed

lemma py_split_words: "w \<in> set (py_split s) \<Longrightarrow> word_text w"
  unfolding py_split_def by (rule split_from_words) auto

lemma split_from_word:
  "\<forall>c \<in> set w. \<not> py_isspace c \<Longrightarrow> split_from p (w @ s) = split_from (p @ w) s"
  by (induction w arbitrary: p) auto

lemma space_is_space [simp]: "py_isspace 32"
  by (simp add: py_isspace_def)

lemma split_join:
  "\<forall>w \<in> set ws. word_text w \<Longrightarrow> split_from [] (py_join [32] ws) = ws"
proof (induction "[32] :: pystr" ws rule: py_join.induct)
  case 1
  then show ?case by simp
next
  case (2 w)
  then show ?case
    using split_from_word [of w "[]" "[]"] by (auto simp: word_text_def)
next
  case (3 w v ws)
  then show ?case
    using split_from_word [of w "[]" "32 # py_join [32] (v # ws)"]
    by (auto simp: word_text_def)
qed

lemma canonical_idem [simp]: "canonical (canonical s) = canonical s"
proof -
  have "py_split (canonical s) = py_split s"
    unfolding canonical_def py_split_def
    by (rule split_join) (metis py_split_def py_split_words)
  then show ?thesis by (simp add: canonical_def)
qed

lemma length_split_from:
  "length (py_join [32] (split_from w s)) \<le> length w + length s"
proof (induction w s rule: split_from.induct)
  case (1 w)
  then show ?case by simp
next
  case (2 w c cs)
  have shape: "length (py_join [32] (w # vs)) \<le> length w + 1 + length (py_join [32] vs)" for vs
    by (cases vs) auto
  show ?case
    using 2 shape [of "split_from [] cs"] by (auto split: if_splits)
qed

lemma length_canonical: "length (canonical s) \<le> length s"
  using length_split_from [of "[]" s] by (simp add: canonical_def py_split_def)

lemma strip_idem [simp]: "py_strip (py_strip s) = py_strip s"
proof -
  have edge: "dropWhile p (rev (dropWhile p (rev xs))) = rev (dropWhile p (rev xs))"
    if "xs = dropWhile p xs" for p and xs :: pystr
  proof (cases "rev (dropWhile p (rev xs))")
    case Nil
    show ?thesis unfolding Nil by simp
  next
    case (Cons y ys)
    have "xs = rev (dropWhile p (rev xs)) @ rev (takeWhile p (rev xs))"
      by (metis rev_append rev_rev_ident takeWhile_dropWhile_id)
    then have "hd xs = y" and "xs \<noteq> []" unfolding Cons by (metis append_Cons list.sel(1), auto)
    then have "\<not> p y" using that
      by (metis dropWhile_eq_self_iff)
    then show ?thesis using Cons by simp
  qed
  show ?thesis
    unfolding py_strip_def
    using edge [of "dropWhile py_isspace s" py_isspace]
    by (metis dropWhile_idem rev_rev_ident)
qed

lemma length_strip: "length (py_strip s) \<le> length s"
proof -
  have "length (py_strip s) \<le> length (dropWhile py_isspace s)"
    unfolding py_strip_def by (metis length_dropWhile_le length_rev)
  also have "\<dots> \<le> length s" by (rule length_dropWhile_le)
  finally show ?thesis .
qed

text \<open>
  \<open>str.casefold\<close> folds each code point on its own. The ASCII part is written out, the rest is
  the Unicode table of the platform (a code point may fold to up to three).
\<close>

definition fold_point :: "platform \<Rightarrow> nat \<Rightarrow> pystr" where
  "fold_point pf c =
     (if c < 128 then [if 65 \<le> c \<and> c \<le> 90 then c + 32 else c] else fold_table pf c)"

definition casefold :: "platform \<Rightarrow> pystr \<Rightarrow> pystr" where
  "casefold pf s = concat (map (fold_point pf) s)"

lemma casefold_append: "casefold pf (s @ t) = casefold pf s @ casefold pf t"
  by (simp add: casefold_def)

lemma length_casefold_ascii: "\<forall>c \<in> set s. c < 128 \<Longrightarrow> length (casefold pf s) = length s"
  by (induction s) (auto simp: casefold_def fold_point_def)

subsection \<open>Hexadecimal text and UUIDs\<close>

definition hex_digit :: "nat \<Rightarrow> nat" where
  "hex_digit n = (if n < 10 then 48 + n else 87 + n)"

fun hex_fixed :: "nat \<Rightarrow> nat \<Rightarrow> pystr" where
  "hex_fixed 0 n = []"
| "hex_fixed (Suc k) n = hex_fixed k (n div 16) @ [hex_digit (n mod 16)]"

definition uuid_str :: "uuid \<Rightarrow> pystr" where
  "uuid_str u = (let h = hex_fixed 32 (unat u) in
     take 8 h @ [45] @ take 4 (drop 8 h) @ [45] @ take 4 (drop 12 h) @ [45]
       @ take 4 (drop 16 h) @ [45] @ drop 20 h)"

text \<open>\<open>is_hex64\<close>: the shape both audit fingerprints and secret verifiers must have.\<close>

definition lower_hex :: "nat \<Rightarrow> bool" where
  "lower_hex c \<longleftrightarrow> (48 \<le> c \<and> c \<le> 57) \<or> (97 \<le> c \<and> c \<le> 102)"

definition is_hex64 :: "pystr \<Rightarrow> bool" where
  "is_hex64 s \<longleftrightarrow> length s = 64 \<and> (\<forall>c \<in> set s. lower_hex c)"

function remove_all :: "pystr \<Rightarrow> pystr \<Rightarrow> pystr" where
  "remove_all pat [] = []"
| "remove_all pat (c # cs) =
     (if pat \<noteq> [] \<and> take (length pat) (c # cs) = pat
      then remove_all pat (drop (length pat) (c # cs))
      else c # remove_all pat cs)"
  by pat_completeness auto
termination
  by (relation "measure (\<lambda>(p, s). length s)") (auto simp: neq_Nil_conv)

definition strip_of :: "pystr \<Rightarrow> pystr \<Rightarrow> pystr" where
  "strip_of cs s = (let p = (\<lambda>c. c \<in> set cs) in rev (dropWhile p (rev (dropWhile p s))))"

definition hex_value :: "nat \<Rightarrow> nat option" where
  "hex_value c =
     (if 48 \<le> c \<and> c \<le> 57 then Some (c - 48)
      else if 97 \<le> c \<and> c \<le> 102 then Some (c - 87)
      else if 65 \<le> c \<and> c \<le> 70 then Some (c - 55) else None)"

text \<open>
  \<open>int(text, 16)\<close>: code points beyond ASCII are first mapped to the ASCII digit, to a blank,
  or to an invalid character; then blanks are skipped on both sides, one sign and one
  \<open>0x\<close> are allowed, and single underscores may separate digits.
\<close>

definition int_char :: "platform \<Rightarrow> nat \<Rightarrow> nat" where
  "int_char pf c =
     (if c < 127 then c else if py_isspace c then 32
      else (case digit_table pf c of Some d \<Rightarrow> 48 + d | None \<Rightarrow> 63))"

fun digits_from :: "nat \<Rightarrow> bool \<Rightarrow> pystr \<Rightarrow> nat option" where
  "digits_from acc after [] = (if after then Some acc else None)"
| "digits_from acc after (c # cs) =
     (if c = 95 then (if after then digits_from acc False cs else None)
      else (case hex_value c of None \<Rightarrow> None | Some d \<Rightarrow> digits_from (16 * acc + d) True cs))"

definition int_base16 :: "platform \<Rightarrow> pystr \<Rightarrow> int option" where
  "int_base16 pf s =
     (let t = py_strip (map (int_char pf) s);
          (neg, u) = (case t of [] \<Rightarrow> (False, [])
             | c # cs \<Rightarrow> if c = 43 then (False, cs) else if c = 45 then (True, cs) else (False, t));
          v = (case u of z # x # ds \<Rightarrow>
                 if z = 48 \<and> (x = 120 \<or> x = 88)
                 then (case ds of d # ds' \<Rightarrow> if d = 95 then ds' else ds | [] \<Rightarrow> ds) else u
               | _ \<Rightarrow> u)
      in map_option (\<lambda>n. if neg then - int n else int n) (digits_from 0 False v))"

text \<open>\<open>UUID(text)\<close>; \<open>None\<close> is its \<open>ValueError\<close>.\<close>

definition uuid_of_text :: "platform \<Rightarrow> pystr \<Rightarrow> uuid option" where
  "uuid_of_text pf s =
     (let h = remove_all (lit ''-'')
                (strip_of (lit ''{}'') (remove_all (lit ''uuid:'') (remove_all (lit ''urn:'') s)))
      in if length h \<noteq> 32 then None
         else (case int_base16 pf h of None \<Rightarrow> None
               | Some i \<Rightarrow> if 0 \<le> i \<and> i < 2 ^ 128 then Some (word_of_int i) else None))"

lemma length_hex_fixed [simp]: "length (hex_fixed k n) = k"
  by (induction k arbitrary: n) auto

lemma hex_digit_value: "n < 16 \<Longrightarrow> hex_value (hex_digit n) = Some n"
  by (auto simp: hex_value_def hex_digit_def)

lemma hex_digit_lower: "n < 16 \<Longrightarrow> lower_hex (hex_digit n)"
  by (auto simp: lower_hex_def hex_digit_def)

lemma hex_fixed_lower: "c \<in> set (hex_fixed k n) \<Longrightarrow> lower_hex c"
  by (induction k arbitrary: n) (auto simp: hex_digit_lower)

lemma lower_hex_facts:
  assumes "lower_hex c"
  shows "c \<noteq> 45" "c \<noteq> 43" "c \<noteq> 95" "c \<noteq> 120" "c \<noteq> 88" "c \<noteq> 58" "c \<noteq> 123" "c \<noteq> 125"
    "\<not> py_isspace c" "int_char pf c = c" "c < 128"
  using assms by (auto simp: lower_hex_def py_isspace_def int_char_def)

lemma digits_from_append:
  "\<forall>c \<in> set xs. lower_hex c \<Longrightarrow> xs \<noteq> [] \<Longrightarrow>
     digits_from acc b (xs @ ys) =
       (case digits_from acc b xs of None \<Rightarrow> None | Some a \<Rightarrow> digits_from a True ys)"
proof (induction xs arbitrary: acc b)
  case Nil
  then show ?case by simp
next
  case (Cons x xs)
  then obtain d where d: "hex_value x = Some d" and x: "x \<noteq> 95"
    by (auto simp: lower_hex_def hex_value_def)
  show ?case using Cons d x by (cases "xs = []") auto
qed

lemma digits_hex_fixed: "digits_from 0 True (hex_fixed k n) = Some (n mod 16 ^ k)"
proof (induction k arbitrary: n)
  case 0
  then show ?case by simp
next
  case (Suc k)
  have low: "\<forall>c \<in> set (hex_fixed k (n div 16)). lower_hex c"
    using hex_fixed_lower by blast
  have last: "digits_from a True [hex_digit (n mod 16)] = Some (16 * a + n mod 16)" for a
    using hex_digit_lower [of "n mod 16"] lower_hex_facts(3) [of "hex_digit (n mod 16)"]
    by (simp add: hex_digit_value)
  have "n mod 16 ^ Suc k = 16 * (n div 16 mod 16 ^ k) + n mod 16"
    by (simp add: mod_mult2_eq)
  then show ?case
    using Suc [of "n div 16"] last digits_from_append [OF low]
    by (cases "hex_fixed k (n div 16) = []") auto
qed

lemma digits_start:
  "xs \<noteq> [] \<Longrightarrow> \<forall>c \<in> set xs. lower_hex c \<Longrightarrow> digits_from acc False xs = digits_from acc True xs"
  by (cases xs) (auto simp: lower_hex_def)

lemma strip_no_space: "\<forall>c \<in> set s. \<not> py_isspace c \<Longrightarrow> py_strip s = s"
  unfolding py_strip_def
  by (metis dropWhile_eq_self_iff hd_in_set rev_rev_ident set_rev)

lemma remove_all_absent: "\<forall>c \<in> set s. c \<noteq> p \<Longrightarrow> p \<in> set pat \<Longrightarrow> remove_all pat s = s"
proof (induction pat s rule: remove_all.induct)
  case (1 pat)
  then show ?case by simp
next
  case (2 pat c cs)
  have "take (length pat) (c # cs) \<noteq> pat"
    using 2(3,4) by (metis in_set_takeD)
  then show ?case using 2 by auto
qed

lemma remove_char: "remove_all [p] s = filter (\<lambda>c. c \<noteq> p) s"
  by (induction s) auto

lemma strip_of_absent: "\<forall>c \<in> set s. c \<notin> set cs \<Longrightarrow> strip_of cs s = s"
  unfolding strip_of_def Let_def
  by (metis dropWhile_eq_self_iff hd_in_set rev_rev_ident set_rev)

lemma int_base16_hex:
  assumes "k \<noteq> 0"
  shows "int_base16 pf (hex_fixed k n) = Some (int (n mod 16 ^ k))"
proof -
  let ?h = "hex_fixed k n"
  have low: "\<forall>c \<in> set ?h. lower_hex c" using hex_fixed_lower by blast
  have ne: "?h \<noteq> []" using assms by (metis length_hex_fixed list.size(3))
  have m: "map (int_char pf) ?h = ?h"
    using low lower_hex_facts(10) by (simp add: map_idI)
  have st: "py_strip ?h = ?h"
    using low lower_hex_facts(9) by (blast intro: strip_no_space)
  obtain c cs where h: "?h = c # cs" using ne by (cases ?h) auto
  have c: "c \<noteq> 43" "c \<noteq> 45" using low h lower_hex_facts by auto
  have v: "(case c # cs of z # x # ds \<Rightarrow>
                 if z = 48 \<and> (x = 120 \<or> x = 88)
                 then (case ds of d # ds' \<Rightarrow> if d = 95 then ds' else ds | [] \<Rightarrow> ds) else c # cs
               | _ \<Rightarrow> c # cs) = c # cs"
    using low lower_hex_facts(4,5) unfolding h by (auto split: list.split)
  have "digits_from 0 False ?h = Some (n mod 16 ^ k)"
    using digits_start [OF ne low] digits_hex_fixed by simp
  then show ?thesis
    using c v m st unfolding int_base16_def Let_def h
    by (simp del: digits_from.simps)
qed

lemma uuid_str_chars: "c \<in> set (uuid_str u) \<Longrightarrow> lower_hex c \<or> c = 45"
  unfolding uuid_str_def Let_def
  using hex_fixed_lower by (auto dest!: in_set_takeD in_set_dropD)

lemma uuid_str_plain: "\<forall>c \<in> set (uuid_str u). c \<noteq> 95 \<and> c \<noteq> 58 \<and> c \<noteq> 123 \<and> c \<noteq> 125 \<and> c \<noteq> 10"
  using uuid_str_chars lower_hex_facts by (auto simp: lower_hex_def dest!: uuid_str_chars)

lemma uuid_str_digits: "filter (\<lambda>c. c \<noteq> 45) (uuid_str u) = hex_fixed 32 (unat u)"
proof -
  let ?h = "hex_fixed 32 (unat u)"
  have f: "filter (\<lambda>c. c \<noteq> 45) xs = xs" if "set xs \<subseteq> set ?h" for xs
    using that hex_fixed_lower lower_hex_facts(1) by (metis (mono_tags, lifting) filter_True subsetD)
  have s: "set (take i (drop j ?h)) \<subseteq> set ?h" "set (drop j ?h) \<subseteq> set ?h" "set (take i ?h) \<subseteq> set ?h"
    for i j by (auto dest: in_set_takeD in_set_dropD)
  have "filter (\<lambda>c. c \<noteq> 45) (uuid_str u) =
      take 8 ?h @ take 4 (drop 8 ?h) @ take 4 (drop 12 ?h) @ take 4 (drop 16 ?h) @ drop 20 ?h"
    unfolding uuid_str_def Let_def by (simp only: filter_append) (simp add: f s)
  also have "\<dots> = ?h"
  proof -
    have "take 4 (drop 16 ?h) @ drop 20 ?h = drop 16 ?h"
      "take 4 (drop 12 ?h) @ drop 16 ?h = drop 12 ?h"
      "take 4 (drop 8 ?h) @ drop 12 ?h = drop 8 ?h"
      using append_take_drop_id [of 4 "drop 16 ?h"] append_take_drop_id [of 4 "drop 12 ?h"]
        append_take_drop_id [of 4 "drop 8 ?h"] by simp_all
    then show ?thesis by (simp only: append_take_drop_id)
  qed
  finally show ?thesis .
qed

lemma uuid_roundtrip: "uuid_of_text pf (uuid_str u) = Some u"
proof -
  have plain: "remove_all (lit ''urn:'') (uuid_str u) = uuid_str u"
    "remove_all (lit ''uuid:'') (uuid_str u) = uuid_str u"
    using uuid_str_plain by (auto intro!: remove_all_absent [where p = 58] simp: lit_simps)
  have strip: "strip_of (lit ''{}'') (uuid_str u) = uuid_str u"
    using uuid_str_plain by (auto intro!: strip_of_absent simp: lit_simps)
  have remove_dash: "remove_all (lit ''-'') s = filter (\<lambda>c. c \<noteq> 45) s" for s
    by (simp add: lit_simps remove_char)
  have bound: "unat u < 2 ^ 128" using unsigned_less [of u] by simp
  then have "unat u mod 16 ^ 32 = unat u" by simp
  then have "int_base16 pf (hex_fixed 32 (unat u)) = Some (int (unat u))"
    using int_base16_hex [of 32 pf "unat u"] by simp
  moreover have "int (unat u) < 2 ^ 128" using bound by (metis of_nat_less_iff of_nat_numeral of_nat_power)
  moreover have "word_of_int (int (unat u)) = u" by simp
  ultimately show ?thesis
    by (simp add: uuid_of_text_def Let_def plain strip remove_dash uuid_str_digits)
qed

lemma uuid_str_inj: "uuid_str u = uuid_str v \<longleftrightarrow> u = v"
  by (metis option.inject uuid_roundtrip)

end
