(* ===== verification/PyTime.thy ===== *)
theory PyTime
  imports Platform
begin

text \<open>
  Python's \<open>datetime\<close>. A value is a wall-clock reading in microseconds since
  0001-01-01T00:00, with a UTC offset when it is aware (\<open>utcoffset()\<close> is not \<open>None\<close>).
  Aware values compare by their instant. A reading must lie in years 1 to 9999: arithmetic
  that leaves that range is \<open>None\<close> here, Python's \<open>OverflowError\<close>.

  The windows of the program are here too: the UTC day that budgets count in, the UTC hour
  that authentication evidence is bucketed by, and the closed-open query range of at most
  31 days that three contexts validate with the same text.
\<close>

datatype datetime = Naive (wall: int) | Aware (wall: int) (utc_offset: int)

fun is_aware :: "datetime \<Rightarrow> bool" where
  "is_aware (Naive w) = False"
| "is_aware (Aware w z) = True"

fun instant :: "datetime \<Rightarrow> int" where
  "instant (Naive w) = w"
| "instant (Aware w z) = w - z"

definition hour_us :: int where "hour_us = 3600000000"
definition day_us :: int where "day_us = 86400000000"
definition max_wall :: int where "max_wall = 3652059 * day_us"

definition representable :: "int \<Rightarrow> bool" where
  "representable w \<longleftrightarrow> 0 \<le> w \<and> w < max_wall"

text \<open>\<open>datetime.now(UTC)\<close> at an instant of the clock.\<close>

definition utc_now :: "int \<Rightarrow> datetime" where
  "utc_now t = Aware t 0"

text \<open>\<open>value.astimezone(UTC)\<close>.\<close>

definition astimezone_utc :: "platform \<Rightarrow> datetime \<Rightarrow> datetime option" where
  "astimezone_utc pf d =
     (let t = (case d of Naive w \<Rightarrow> w - local_offset pf w | Aware w z \<Rightarrow> w - z)
      in if representable t then Some (Aware t 0) else None)"

text \<open>\<open>value + timedelta\<close>.\<close>

definition dt_plus :: "datetime \<Rightarrow> int \<Rightarrow> datetime option" where
  "dt_plus d delta =
     (if representable (wall d + delta)
      then Some (case d of Naive w \<Rightarrow> Naive (w + delta) | Aware w z \<Rightarrow> Aware (w + delta) z)
      else None)"

text \<open>\<open>value.replace(...=0)\<close> down to a multiple of the unit, on the wall reading.\<close>

definition floor_wall :: "int \<Rightarrow> datetime \<Rightarrow> datetime" where
  "floor_wall unit d =
     (case d of Naive w \<Rightarrow> Naive (w - w mod unit) | Aware w z \<Rightarrow> Aware (w - w mod unit) z)"

text \<open>
  A \<open>timestamptz\<close> column keeps the instant; reading it gives an aware value in the zone of the
  database session.
\<close>

definition from_db :: "platform \<Rightarrow> int \<Rightarrow> datetime" where
  "from_db pf t = Aware (t + session_offset pf t) (session_offset pf t)"

lemma instant_from_db [simp]: "instant (from_db pf t) = t"
  by (simp add: from_db_def)

lemma aware_from_db [simp]: "is_aware (from_db pf t)"
  by (simp add: from_db_def)

lemma utc_now_simps [simp]:
  "is_aware (utc_now t)" "instant (utc_now t) = t" "utc_now t = Aware t 0"
  by (simp_all add: utc_now_def)

lemma astimezone_Aware:
  "astimezone_utc pf (Aware w z) = (if representable (w - z) then Some (Aware (w - z) 0) else None)"
  by (simp add: astimezone_utc_def)

lemma astimezone_SomeD:
  "astimezone_utc pf d = Some u \<Longrightarrow> is_aware d \<Longrightarrow> u = Aware (instant d) 0 \<and> representable (instant d)"
  by (cases d) (auto simp: astimezone_utc_def Let_def split: if_splits)

lemma unit_pos [simp]: "0 < hour_us" "0 < day_us"
  by (simp_all add: hour_us_def day_us_def)

lemma floor_bounds:
  fixes t u :: int
  assumes "0 < u"
  shows "t - t mod u \<le> t" "t < t - t mod u + u"
  using assms pos_mod_bound [of u t] by simp_all

lemma floor_representable: "representable t \<Longrightarrow> 0 < u \<Longrightarrow> representable (t - t mod u)"
proof -
  assume t: "representable t" and u: "0 < u"
  have "t - t mod u = t div u * u" by (simp add: minus_mod_eq_div_mult)
  moreover have "0 \<le> t div u * u"
    using t u by (simp add: representable_def pos_imp_zdiv_nonneg_iff)
  moreover have "t - t mod u \<le> t" using u by simp
  ultimately show ?thesis using t by (simp add: representable_def)
qed

lemma floor_eq_iff:
  fixes s t u :: int
  assumes "0 < u"
  shows "s - s mod u = t - t mod u \<longleftrightarrow> t - t mod u \<le> s \<and> s < t - t mod u + u"
proof -
  have eqs: "s - s mod u = s div u * u" "t - t mod u = t div u * u"
    by (simp_all add: minus_mod_eq_div_mult)
  show ?thesis
  proof
    assume "s - s mod u = t - t mod u"
    then show "t - t mod u \<le> s \<and> s < t - t mod u + u"
      using floor_bounds [OF assms, of s] by simp
  next
    assume a: "t - t mod u \<le> s \<and> s < t - t mod u + u"
    have "s div u = t div u"
    proof (rule int_div_pos_eq)
      show "s = u * (t div u) + (s - u * (t div u))" by simp
      show "0 \<le> s - u * (t div u)" "s - u * (t div u) < u"
        using a eqs by (simp_all add: mult.commute)
    qed
    then show "s - s mod u = t - t mod u" using eqs by simp
  qed
qed

subsection \<open>Printing: \<open>isoformat\<close>\<close>

text \<open>
  The proleptic Gregorian date of a day number, by the cycle decomposition of the standard
  library (400, 100, 4 and 1 years), then the month by its length.
\<close>

definition is_leap :: "int \<Rightarrow> bool" where
  "is_leap y \<longleftrightarrow> y mod 4 = 0 \<and> (y mod 100 \<noteq> 0 \<or> y mod 400 = 0)"

definition month_lengths :: "bool \<Rightarrow> int list" where
  "month_lengths leap = [31, if leap then 29 else 28, 31, 30, 31, 30, 31, 31, 30, 31, 30, 31]"

fun month_day :: "int list \<Rightarrow> int \<Rightarrow> int \<Rightarrow> int \<times> int" where
  "month_day [] m n = (m, n + 1)"
| "month_day (l # ls) m n = (if n < l then (m, n + 1) else month_day ls (m + 1) (n - l))"

definition ymd_of_days :: "int \<Rightarrow> int \<times> int \<times> int" where
  "ymd_of_days days =
     (let n400 = days div 146097; r400 = days mod 146097;
          n100 = r400 div 36524; r100 = r400 mod 36524;
          n4 = r100 div 1461; r4 = r100 mod 1461;
          n1 = r4 div 365; r1 = r4 mod 365;
          y = n400 * 400 + n100 * 100 + n4 * 4 + n1 + 1
      in if n1 = 4 \<or> n100 = 4 then (y - 1, 12, 31)
         else (case month_day (month_lengths (is_leap y)) 1 r1 of (m, d) \<Rightarrow> (y, m, d)))"

fun dec_fixed :: "nat \<Rightarrow> int \<Rightarrow> pystr" where
  "dec_fixed 0 n = []"
| "dec_fixed (Suc k) n = dec_fixed k (n div 10) @ [48 + nat (n mod 10)]"

definition offset_text :: "int \<Rightarrow> pystr" where
  "offset_text z =
     (let a = \<bar>z\<bar>; s = a div 1000000 in
       [if z < 0 then 45 else 43] @ dec_fixed 2 (s div 3600) @ [58] @ dec_fixed 2 (s div 60 mod 60)
       @ (if s mod 60 \<noteq> 0 \<or> a mod 1000000 \<noteq> 0 then [58] @ dec_fixed 2 (s mod 60) else [])
       @ (if a mod 1000000 \<noteq> 0 then [46] @ dec_fixed 6 (a mod 1000000) else []))"

definition isoformat :: "datetime \<Rightarrow> pystr" where
  "isoformat d =
     (let w = wall d; us = w mod 1000000; s = w div 1000000 mod 86400 in
      case ymd_of_days (w div day_us) of (y, mo, da) \<Rightarrow>
        dec_fixed 4 y @ [45] @ dec_fixed 2 mo @ [45] @ dec_fixed 2 da @ [84]
        @ dec_fixed 2 (s div 3600) @ [58] @ dec_fixed 2 (s div 60 mod 60) @ [58] @ dec_fixed 2 (s mod 60)
        @ (if us \<noteq> 0 then [46] @ dec_fixed 6 us else [])
        @ (case d of Naive _ \<Rightarrow> [] | Aware _ z \<Rightarrow> offset_text z))"

end
