(* ===== verification/PyDecimal.thy ===== *)
theory PyDecimal
  imports Prelude Complex_Main
begin

text \<open>
  Python's \<open>decimal.Decimal\<close> on finite values, with the context precision of each operation:
  50 digits inside \<open>attribute_cost\<close>, the default 28 everywhere else. A value is an integer
  coefficient and a decimal exponent; \<open>dval\<close> is the rational number it denotes. Rounding is
  half-even throughout, as in the default context. \<open>None\<close> is \<open>InvalidOperation\<close> (or
  division by zero). The exponent bounds of the contexts (999999) are never near and are not
  modelled, nor are signed zeros, infinities and NaN, which the settings reject.

  A \<open>NUMERIC(p, 12)\<close> column is the integer number of \<open>10^-12\<close> units.
\<close>

datatype dec = Dec (coef: int) (dexp: int)

definition dval :: "dec \<Rightarrow> rat" where
  "dval d = (if 0 \<le> dexp d then of_int (coef d) * 10 ^ nat (dexp d)
             else of_int (coef d) / 10 ^ nat (- dexp d))"

fun ndigits :: "nat \<Rightarrow> nat" where
  "ndigits n = (if n < 10 then 1 else Suc (ndigits (n div 10)))"

declare ndigits.simps [simp del]

text \<open>Rounded quotient, ties to even; the divisor is positive.\<close>

definition round_div :: "int \<Rightarrow> int \<Rightarrow> int" where
  "round_div a b =
     (let q = a div b; r = a mod b in
      if 2 * r < b then q else if b < 2 * r then q + 1 else if even q then q else q + 1)"

text \<open>\<open>Decimal._fix\<close>: round the coefficient to the precision.\<close>

definition dec_fix :: "nat \<Rightarrow> dec \<Rightarrow> dec" where
  "dec_fix prec d =
     (let k = ndigits (nat \<bar>coef d\<bar>) in
      if k \<le> prec then d
      else let n = k - prec; c = round_div (coef d) (10 ^ n) in
        if prec < ndigits (nat \<bar>c\<bar>) then Dec (c div 10) (dexp d + int n + 1)
        else Dec c (dexp d + int n))"

definition coef_at :: "int \<Rightarrow> dec \<Rightarrow> int" where
  "coef_at e d = coef d * 10 ^ nat (dexp d - e)"

definition dec_sum :: "dec \<Rightarrow> dec \<Rightarrow> dec" where
  "dec_sum a b = (let e = min (dexp a) (dexp b) in Dec (coef_at e a + coef_at e b) e)"

definition dec_add :: "nat \<Rightarrow> dec \<Rightarrow> dec \<Rightarrow> dec" where
  "dec_add prec a b = dec_fix prec (dec_sum a b)"

definition dec_mul :: "nat \<Rightarrow> dec \<Rightarrow> dec \<Rightarrow> dec" where
  "dec_mul prec a b = dec_fix prec (Dec (coef a * coef b) (dexp a + dexp b))"

fun drop_zeros :: "nat \<Rightarrow> int \<Rightarrow> int \<Rightarrow> int \<times> int" where
  "drop_zeros 0 c e = (c, e)"
| "drop_zeros (Suc n) c e = (if c mod 10 = 0 then drop_zeros n (c div 10) (e + 1) else (c, e))"

definition dec_div :: "nat \<Rightarrow> dec \<Rightarrow> dec \<Rightarrow> dec option" where
  "dec_div prec a b =
     (if coef b = 0 then None
      else if coef a = 0 then Some (Dec 0 (dexp a - dexp b))
      else
        let m = \<bar>coef a\<bar>; n = \<bar>coef b\<bar>;
            shift = int (ndigits (nat n)) - int (ndigits (nat m)) + int prec + 1;
            e = dexp a - dexp b - shift;
            num = (if 0 \<le> shift then m * 10 ^ nat shift else m);
            den = (if 0 \<le> shift then n else n * 10 ^ nat (- shift));
            q = num div den; r = num mod den;
            (c, e') = (if r \<noteq> 0 then (if q mod 5 = 0 then q + 1 else q, e)
                       else drop_zeros (nat (dexp a - dexp b - e)) q e)
        in Some (dec_fix prec (Dec (sgn (coef a) * sgn (coef b) * c) e')))"

definition dec_rescale :: "int \<Rightarrow> dec \<Rightarrow> dec" where
  "dec_rescale e d =
     (if e \<le> dexp d then Dec (coef_at e d) e
      else Dec (round_div (coef d) (10 ^ nat (e - dexp d))) e)"

definition dec_quantize :: "nat \<Rightarrow> int \<Rightarrow> dec \<Rightarrow> dec option" where
  "dec_quantize prec e d =
     (let r = dec_rescale e d in if prec < ndigits (nat \<bar>coef r\<bar>) then None else Some r)"

definition dec_le :: "dec \<Rightarrow> dec \<Rightarrow> bool" where
  "dec_le a b \<longleftrightarrow> (let e = min (dexp a) (dexp b) in coef_at e a \<le> coef_at e b)"

definition dec_less :: "dec \<Rightarrow> dec \<Rightarrow> bool" where
  "dec_less a b \<longleftrightarrow> \<not> dec_le b a"

definition dec_eq :: "dec \<Rightarrow> dec \<Rightarrow> bool" where
  "dec_eq a b \<longleftrightarrow> dec_le a b \<and> dec_le b a"

definition dec_of_int :: "int \<Rightarrow> dec" where
  "dec_of_int n = Dec n 0"

abbreviation dec_zero :: dec where
  "dec_zero \<equiv> Dec 0 0"

text \<open>Columns: \<open>NUMERIC(digits, 12)\<close>, written with rounding half away from zero.\<close>

definition to_numeric :: "dec \<Rightarrow> int" where
  "to_numeric d =
     (if -12 \<le> dexp d then coef_at (-12) d
      else let b = 10 ^ nat (- 12 - dexp d)
           in sgn (coef d) * ((2 * \<bar>coef d\<bar> + b) div (2 * b)))"

definition numeric_fits :: "nat \<Rightarrow> dec \<Rightarrow> bool" where
  "numeric_fits digits d \<longleftrightarrow> \<bar>to_numeric d\<bar> < 10 ^ digits"

definition from_numeric :: "int \<Rightarrow> dec" where
  "from_numeric n = Dec n (-12)"

subsection \<open>Values\<close>

lemma dval_Dec_neg: "dval (Dec c (- int k)) = of_int c / 10 ^ k"
proof (cases "k = 0")
  case False
  then show ?thesis by (simp add: dval_def)
qed (simp add: dval_def)

lemma dval_coef_at:
  assumes "e \<le> dexp d"
  shows "dval d = dval (Dec (coef_at e d) e)"
proof (cases "0 \<le> e")
  case True
  then have "nat (dexp d) = nat e + nat (dexp d - e)" using assms by linarith
  then show ?thesis using True assms
    by (simp add: dval_def coef_at_def power_add mult.assoc mult.commute)
next
  case False
  show ?thesis
  proof (cases "0 \<le> dexp d")
    case True
    then have "nat (dexp d - e) = nat (dexp d) + nat (- e)" using False by linarith
    then show ?thesis using True False by (simp add: dval_def coef_at_def power_add)
  next
    case neg: False
    then have "nat (- e) = nat (- dexp d) + nat (dexp d - e)" using assms by linarith
    then show ?thesis using neg False by (simp add: dval_def coef_at_def power_add)
  qed
qed

lemma dval_less_coef: "dval (Dec a e) \<le> dval (Dec b e) \<longleftrightarrow> a \<le> b"
  by (auto simp: dval_def divide_le_cancel)

lemma dval_add_coef: "dval (Dec (a + b) e) = dval (Dec a e) + dval (Dec b e)"
  by (simp add: dval_def distrib_right add_divide_distrib)

lemma dec_le_iff: "dec_le a b \<longleftrightarrow> dval a \<le> dval b"
proof -
  let ?e = "min (dexp a) (dexp b)"
  have "dval a = dval (Dec (coef_at ?e a) ?e)" "dval b = dval (Dec (coef_at ?e b) ?e)"
    by (rule dval_coef_at, simp)+
  then show ?thesis by (simp add: dec_le_def Let_def dval_less_coef)
qed

lemma dec_less_iff: "dec_less a b \<longleftrightarrow> dval a < dval b"
  by (simp add: dec_less_def dec_le_iff not_le)

lemma dec_eq_iff: "dec_eq a b \<longleftrightarrow> dval a = dval b"
  by (auto simp: dec_eq_def dec_le_iff)

lemma dval_zero [simp]: "dval (Dec 0 e) = 0"
  by (simp add: dval_def)

lemma dval_of_int [simp]: "dval (dec_of_int n) = of_int n"
  by (simp add: dval_def dec_of_int_def)

lemma dval_sum: "dval (dec_sum a b) = dval a + dval b"
proof -
  let ?e = "min (dexp a) (dexp b)"
  have "dval a = dval (Dec (coef_at ?e a) ?e)" "dval b = dval (Dec (coef_at ?e b) ?e)"
    by (rule dval_coef_at, simp)+
  then show ?thesis by (simp add: dec_sum_def Let_def dval_add_coef)
qed

lemma dval_nonneg_iff: "0 \<le> dval d \<longleftrightarrow> 0 \<le> coef d"
proof -
  have "\<not> (10::rat) ^ k \<le> 0" for k by (simp add: not_le)
  then show ?thesis by (auto simp: dval_def zero_le_mult_iff zero_le_divide_iff)
qed

lemma from_numeric_val: "dval (from_numeric n) = of_int n / 10 ^ 12"
  using dval_Dec_neg [of n 12] by (simp add: from_numeric_def)

lemma to_numeric_val: "-12 \<le> dexp d \<Longrightarrow> of_int (to_numeric d) = dval d * 10 ^ 12"
  using dval_coef_at [of "-12" d] dval_Dec_neg [of "coef_at (-12) d" 12]
  by (simp add: to_numeric_def)

lemma to_from_numeric [simp]: "to_numeric (from_numeric n) = n"
  by (simp add: to_numeric_def from_numeric_def coef_at_def)

lemma from_to_numeric: "-12 \<le> dexp d \<Longrightarrow> dval (from_numeric (to_numeric d)) = dval d"
  by (simp add: from_numeric_val to_numeric_val)

subsection \<open>Digits and rounding\<close>

lemma ndigits_pos [simp]: "0 < ndigits n"
  by (subst ndigits.simps) simp

lemma ndigits_bound: "n < 10 ^ ndigits n"
proof (induction n rule: ndigits.induct)
  case (1 n)
  show ?case
  proof (cases "n < 10")
    case True
    then show ?thesis by (simp add: ndigits.simps [of n])
  next
    case False
    then have "n div 10 < 10 ^ ndigits (n div 10)" using 1 by simp
    then have "n < 10 * 10 ^ ndigits (n div 10)" by linarith
    then show ?thesis using False by (simp add: ndigits.simps [of n])
  qed
qed

lemma ndigits_le_iff: "0 < k \<Longrightarrow> ndigits n \<le> k \<longleftrightarrow> n < 10 ^ k"
proof (induction n arbitrary: k rule: ndigits.induct)
  case (1 n)
  show ?case
  proof (cases "n < 10")
    case True
    have "(10::nat) ^ 1 \<le> 10 ^ k" using "1.prems" by (intro power_increasing) auto
    then show ?thesis using True "1.prems" by (simp add: ndigits.simps [of n])
  next
    case False
    obtain j where k: "k = Suc j" using "1.prems" by (cases k) auto
    show ?thesis
    proof (cases j)
      case 0
      then show ?thesis using False k ndigits_pos [of "n div 10"] by (simp add: ndigits.simps [of n])
    next
      case (Suc i)
      then have "ndigits (n div 10) \<le> j \<longleftrightarrow> n div 10 < 10 ^ j" using 1 False by simp
      also have "\<dots> \<longleftrightarrow> n < 10 ^ k" using k by (simp add: less_mult_imp_div_less) linarith
      finally show ?thesis using False k by (simp add: ndigits.simps [of n])
    qed
  qed
qed

lemma dec_fix_id: "0 < prec \<Longrightarrow> \<bar>coef d\<bar> < 10 ^ prec \<Longrightarrow> dec_fix prec d = d"
  by (simp add: dec_fix_def Let_def ndigits_le_iff nat_less_iff)

lemma dec_add_exact:
  assumes "0 < prec" and "\<bar>coef (dec_sum a b)\<bar> < 10 ^ prec"
  shows "dval (dec_add prec a b) = dval a + dval b"
  using assms by (simp add: dec_add_def dec_fix_id dval_sum)

lemma round_div_nonneg: "0 \<le> a \<Longrightarrow> 0 < b \<Longrightarrow> 0 \<le> round_div a b"
  by (auto simp: round_div_def Let_def pos_imp_zdiv_nonneg_iff)

lemma round_div_error:
  assumes "0 < b"
  shows "2 * \<bar>a - b * round_div a b\<bar> \<le> b"
proof -
  define q r where "q = a div b" and "r = a mod b"
  have a: "a = b * q + r" and r: "0 \<le> r" "r < b"
    using assms by (simp_all add: q_def r_def)
  consider "round_div a b = q" "2 * r \<le> b" | "round_div a b = q + 1" "b \<le> 2 * r"
    by (cases "2 * r < b"; cases "b < 2 * r"; cases "even q")
      (auto simp: round_div_def Let_def q_def r_def)
  then show ?thesis
  proof cases
    case 1
    then show ?thesis using a r by simp
  next
    case 2
    then have "a - b * round_div a b = r - b" using a by (simp add: distrib_left)
    then show ?thesis using 2 r by simp
  qed
qed

lemma dec_fix_nonneg: "0 \<le> coef d \<Longrightarrow> 0 \<le> coef (dec_fix prec d)"
  by (auto simp: dec_fix_def Let_def round_div_nonneg pos_imp_zdiv_nonneg_iff)

lemma coef_at_nonneg: "0 \<le> coef d \<Longrightarrow> 0 \<le> coef_at e d"
  by (simp add: coef_at_def)

lemma dec_quantize_nonneg:
  "0 \<le> coef d \<Longrightarrow> dec_quantize prec e d = Some q \<Longrightarrow> 0 \<le> coef q"
  by (auto simp: dec_quantize_def dec_rescale_def Let_def coef_at_nonneg round_div_nonneg split: if_splits)

lemma dec_quantize_exp: "dec_quantize prec e d = Some q \<Longrightarrow> dexp q = e"
  by (auto simp: dec_quantize_def dec_rescale_def Let_def split: if_splits)

end
