(* ===== verification/Errors.thy ===== *)
theory Errors
  imports PyTime PyDecimal
begin

text \<open>
  The exceptions of the program: the built-in ones it can raise, the two kinds the database
  raises (a violated constraint, a value that does not fit its column), and one constructor
  for each exception class of the bounded contexts. \<open>request\<close> is what one request draws from
  the process: the values that successive calls of the id factory and of the clock return, the
  random secret of \<open>secrets.token_urlsafe\<close>, the transaction time of the database, and whether
  the n-th read the request makes outside a unit of work reaches the database.
\<close>

datatype violation =
    UniqueViolation string
  | ForeignKeyViolation string
  | CheckViolation string

datatype (plugins only: size) exc =
  \<comment> \<open>Python and its libraries\<close>
    ValueError string
  | TypeError string
  | OverflowError
  | DecimalInvalidOperation
  | RuntimeError string
  | RequestValidationError
  \<comment> \<open>the database driver\<close>
  | IntegrityError violation
  | DataError string
  | SQLAlchemyError string
  \<comment> \<open>identity and tenancy\<close>
  | InvalidTenantName string
  | TenantNotFound uuid
  | TenantNameAlreadyExists
  \<comment> \<open>AI asset registry\<close>
  | InvalidAgentName string
  | InvalidModelName string
  | InvalidProviderModelReference string
  | AgentNotFound uuid
  | AgentNameAlreadyExists
  | ModelNotFound uuid
  | ModelNameAlreadyExists
  | OwningTenantNotFound uuid
  \<comment> \<open>policy and risk\<close>
  | PolicyTenantNotAvailable uuid
  | PolicyAgentNotAvailable uuid
  | PolicyModelNotAvailable uuid
  | PermissionNotFound uuid
  \<comment> \<open>runtime gateway\<close>
  | InvalidInvocationInput string
  | InvalidInvocationOutput string
  | TenantNotAvailable uuid
  | AgentNotAvailable uuid
  | ModelNotAvailable uuid
  | ProviderNotSupportedForRuntime pystr
  | ProviderTransportError string
  | ProviderInvocationFailed uuid
  | InvocationNotFound uuid
  | InvocationDenied uuid uuid
  | InvocationUsageLimited uuid datetime
  | UsageLimitUnavailable
  | TenantCostBudgetConfigurationUnavailable
  | TenantCostBudgetCheckUnavailable
  | InvocationCostLimited uuid datetime
  | InvalidReportRange string
  | TenantRuntimeReportNotFound
  | RuntimeReportUnavailable
  \<comment> \<open>security\<close>
  | ManagementAuthenticationFailed
  | TenantManagementAccessDenied
  | RuntimeAuthenticationFailed
  \<comment> \<open>management audit\<close>
  | InvalidAuditRange string
  | TenantAuditNotFound
  | ManagementAuditUnavailable
  \<comment> \<open>management identity\<close>
  | ManagementPrincipalNotFound
  | ManagementCredentialNotFound
  | PrincipalManagementDenied
  | InvalidManagementIdentityCommand string
  | LastPrincipalManagerConflict
  | BootstrapAuthenticationFailed
  | BootstrapAlreadyCompleted
  | InvalidAuthenticationEvidenceQuery string
  \<comment> \<open>runtime identity\<close>
  | RuntimePrincipalNotFound
  | RuntimeCredentialNotFound
  | RuntimeBindingNotFound
  | InvalidRuntimeIdentityCommand string
  | RuntimePrincipalManagementDenied
  | RuntimeUsageLimitsAlreadyInitialized
  | RuntimeIdentityContinuityConflict

record request =
  id_at :: "nat \<Rightarrow> uuid"
  clock_at :: "nat \<Rightarrow> int"
  secret_token :: pystr
  db_now :: int
  db_up :: "nat \<Rightarrow> bool"

definition clock :: "request \<Rightarrow> nat \<Rightarrow> datetime" where
  "clock rq n = utc_now (clock_at rq n)"

lemma clock_simps [simp]:
  "is_aware (clock rq n)" "instant (clock rq n) = clock_at rq n" "clock rq n = Aware (clock_at rq n) 0"
  by (simp_all add: clock_def)

text \<open>\<open>value.tzinfo is None or value.utcoffset() is None\<close> guards raise this way.\<close>

definition require_aware :: "exc \<Rightarrow> datetime \<Rightarrow> exc + unit" where
  "require_aware e d = (if is_aware d then Inr () else Inl e)"

definition overflow_guard :: "'a option \<Rightarrow> exc + 'a" where
  "overflow_guard r = (case r of None \<Rightarrow> Inl OverflowError | Some a \<Rightarrow> Inr a)"

text \<open>
  The closed-open query range that Runtime reports, audit queries and authentication-evidence
  queries validate: both ends aware, start before end, at most 31 days. The four messages are
  each context's own.
\<close>

definition max_range_us :: int where "max_range_us = 31 * day_us"

definition validated_range ::
  "platform \<Rightarrow> (string \<Rightarrow> exc) \<Rightarrow> string \<Rightarrow> datetime \<Rightarrow> datetime \<Rightarrow> exc + (datetime \<times> datetime)" where
  "validated_range pf err too_long s e =
     (if \<not> is_aware s then Inl (err ''start must include a timezone offset'')
      else if \<not> is_aware e then Inl (err ''end must include a timezone offset'')
      else and_then (overflow_guard (astimezone_utc pf s)) (\<lambda>us.
           and_then (overflow_guard (astimezone_utc pf e)) (\<lambda>ue.
             if instant ue \<le> instant us then Inl (err ''start must be earlier than end'')
             else if max_range_us < instant ue - instant us then Inl (err too_long)
             else Inr (us, ue))))"

lemma validated_range_InrD:
  assumes "validated_range pf err m s e = Inr (us, ue)"
  shows "is_aware s" "is_aware e" "us = Aware (instant s) 0" "ue = Aware (instant e) 0"
    "instant s < instant e" "instant e - instant s \<le> max_range_us"
  using assms
  by (auto simp: validated_range_def overflow_guard_def and_then_Inr_iff
      split: if_splits option.splits dest!: astimezone_SomeD)

lemma validated_range_accepts:
  assumes "is_aware s" "is_aware e" "representable (instant s)" "representable (instant e)"
    "instant s < instant e" "instant e - instant s \<le> max_range_us"
  shows "validated_range pf err m s e = Inr (Aware (instant s) 0, Aware (instant e) 0)"
  using assms
  by (cases s; cases e) (auto simp: validated_range_def overflow_guard_def astimezone_Aware)

end
