(* ===== verification/Store.thy ===== *)
theory Store
  imports Errors
begin

text \<open>
  The relational store: one record per table row, as the SQLAlchemy models declare it, one
  record \<open>db\<close> of all tables, and the insertion of a row with the constraints of its table in
  the order PostgreSQL checks them (column widths, checks, unique keys, foreign keys). Enum
  columns keep the enum value, whose check constraint (\<open>IN (...)\<close>) therefore always holds.
  Timestamps are instants, \<open>NUMERIC\<close> columns integers in units of \<open>10^-12\<close>, \<open>INTEGER\<close>
  columns must fit 32 bits, text columns their width, without the NUL character.

  \<open>session\<close> is one transaction: what is committed and what the session has written. The unit
  of work of the program opens a session, runs the body and rolls back on exit, so only what
  the body committed survives.
\<close>

subsection \<open>Enumerations stored in columns\<close>

datatype provider = OPENAI | ANTHROPIC | GOOGLE | AZURE_OPENAI | AWS_BEDROCK | OTHER

datatype policy_effect = ALLOW | DENY

datatype invocation_status = SUCCEEDED | FAILED | DENIED | LIMITED | COST_LIMITED

datatype auth_outcome =
  AuthSucceeded | CREDENTIAL_MISMATCH | REVOKED | EXPIRED | PRINCIPAL_DISABLED

datatype audit_action =
    AGENT_MODEL_PERMISSION_SET
  | MANAGEMENT_PRINCIPAL_CREATED
  | MANAGEMENT_CREDENTIAL_ISSUED
  | MANAGEMENT_CREDENTIAL_REVOKED
  | MANAGEMENT_PRINCIPAL_DISABLED
  | MANAGEMENT_PRINCIPAL_SCOPES_SET
  | RUNTIME_PRINCIPAL_CREATED
  | RUNTIME_CREDENTIAL_ISSUED
  | RUNTIME_CREDENTIAL_REVOKED
  | RUNTIME_PRINCIPAL_DISABLED
  | RUNTIME_PRINCIPAL_USAGE_LIMITS_INITIALIZED
  | RUNTIME_PRINCIPAL_IDENTITY_CONTINUITY_BOUND

datatype audit_resource =
    AGENT_MODEL_PERMISSION
  | MANAGEMENT_PRINCIPAL
  | MANAGEMENT_CREDENTIAL
  | RUNTIME_PRINCIPAL
  | RUNTIME_CREDENTIAL

datatype audit_outcome = AuditSucceeded | AuditFailed

subsection \<open>Rows\<close>

record tenant_row =
  tr_id :: uuid
  tr_name :: pystr
  tr_normalized_name :: pystr
  tr_created_at :: int

record agent_row =
  ar_id :: uuid
  ar_tenant_id :: uuid
  ar_name :: pystr
  ar_normalized_name :: pystr
  ar_created_at :: int

record model_row =
  mr_id :: uuid
  mr_tenant_id :: uuid
  mr_name :: pystr
  mr_normalized_name :: pystr
  mr_provider :: provider
  mr_provider_model_reference :: pystr
  mr_created_at :: int

record permission_row =
  pr_id :: uuid
  pr_tenant_id :: uuid
  pr_agent_id :: uuid
  pr_model_id :: uuid
  pr_effect :: policy_effect
  pr_created_at :: int
  pr_updated_at :: int

record decision_row =
  dr_id :: uuid
  dr_invocation_id :: uuid
  dr_tenant_id :: uuid
  dr_agent_id :: uuid
  dr_model_id :: uuid
  dr_permission_id :: "uuid option"
  dr_effect :: policy_effect
  dr_decided_at :: int

record invocation_row =
  ir_id :: uuid
  ir_tenant_id :: uuid
  ir_agent_id :: uuid
  ir_model_id :: uuid
  ir_status :: invocation_status
  ir_input_text :: pystr
  ir_output_text :: "pystr option"
  ir_started_at :: int
  ir_completed_at :: int
  ir_policy_decision_id :: "uuid option"
  ir_runtime_principal_id :: "pystr option"
  ir_duration_ms :: "int option"
  ir_input_units :: "int option"
  ir_output_units :: "int option"
  ir_total_units :: "int option"
  ir_provider_response_id :: "pystr option"
  ir_usage_consumed_units :: "int option"
  ir_usage_limit_units :: "int option"
  ir_usage_allowance_units :: "int option"
  ir_usage_window_start :: "int option"
  ir_usage_window_end :: "int option"
  ir_cost_currency :: "pystr option"
  ir_cost_input :: "int option"
  ir_cost_output :: "int option"
  ir_cost_total :: "int option"
  ir_pricing_version :: "pystr option"
  ir_pricing_basis_units :: "int option"
  ir_pricing_input_rate :: "int option"
  ir_pricing_output_rate :: "int option"
  ir_cost_budget_consumed :: "int option"
  ir_cost_budget_limit :: "int option"
  ir_cost_budget_allowance :: "int option"
  ir_cost_budget_window_start :: "int option"
  ir_cost_budget_window_end :: "int option"

record audit_row =
  au_audit_id :: uuid
  au_principal_id :: pystr
  au_tenant_id :: "uuid option"
  au_action :: audit_action
  au_resource_type :: audit_resource
  au_resource_id :: uuid
  au_outcome :: audit_outcome
  au_occurred_at :: int
  au_before_fingerprint :: "pystr option"
  au_after_fingerprint :: "pystr option"

record mgmt_principal_row =
  mp_principal_id :: uuid
  mp_display_name :: pystr
  mp_can_manage_principals :: bool
  mp_created_at :: int
  mp_disabled_at :: "int option"

record scope_row =
  sc_principal_id :: uuid
  sc_tenant_id :: uuid

record mgmt_credential_row =
  mc_credential_id :: uuid
  mc_principal_id :: uuid
  mc_secret_verifier :: pystr
  mc_label :: "pystr option"
  mc_created_at :: int
  mc_expires_at :: "int option"
  mc_revoked_at :: "int option"

record evidence_row =
  ev_credential_id :: uuid
  ev_principal_id :: uuid
  ev_outcome :: auth_outcome
  ev_bucket_started_at :: int
  ev_first_observed_at :: int

record runtime_principal_row =
  rp_principal_id :: uuid
  rp_tenant_id :: uuid
  rp_agent_id :: uuid
  rp_created_at :: int
  rp_disabled_at :: "int option"
  rp_daily_usage_limit_units :: "int option"
  rp_per_invocation_allowance_units :: "int option"
  rp_legacy_runtime_principal_id :: "pystr option"
  rp_identity_continuity_bound_at :: "int option"

record runtime_credential_row =
  rc_credential_id :: uuid
  rc_principal_id :: uuid
  rc_secret_verifier :: pystr
  rc_label :: "pystr option"
  rc_created_at :: int
  rc_expires_at :: "int option"
  rc_revoked_at :: "int option"

record db =
  tenants :: "tenant_row list"
  agents :: "agent_row list"
  models :: "model_row list"
  permissions :: "permission_row list"
  decisions :: "decision_row list"
  invocations :: "invocation_row list"
  audits :: "audit_row list"
  mgmt_principals :: "mgmt_principal_row list"
  mgmt_scopes :: "scope_row list"
  mgmt_credentials :: "mgmt_credential_row list"
  mgmt_evidence :: "evidence_row list"
  runtime_principals :: "runtime_principal_row list"
  runtime_credentials :: "runtime_credential_row list"

definition empty_db :: db where
  "empty_db = \<lparr>tenants = [], agents = [], models = [], permissions = [], decisions = [],
     invocations = [], audits = [], mgmt_principals = [], mgmt_scopes = [], mgmt_credentials = [],
     mgmt_evidence = [], runtime_principals = [], runtime_credentials = []\<rparr>"

subsection \<open>Column types\<close>

definition text_fits :: "nat \<Rightarrow> pystr \<Rightarrow> bool" where
  "text_fits n s \<longleftrightarrow> length s \<le> n \<and> 0 \<notin> set s"

definition text_ok :: "pystr \<Rightarrow> bool" where
  "text_ok s \<longleftrightarrow> 0 \<notin> set s"

definition int4_fits :: "int \<Rightarrow> bool" where
  "int4_fits n \<longleftrightarrow> - (2 ^ 31) \<le> n \<and> n < 2 ^ 31"

definition opt_ok :: "('a \<Rightarrow> bool) \<Rightarrow> 'a option \<Rightarrow> bool" where
  "opt_ok p v = (case v of None \<Rightarrow> True | Some a \<Rightarrow> p a)"

lemma opt_ok_simps [simp]: "opt_ok p None" "opt_ok p (Some a) = p a"
  by (simp_all add: opt_ok_def)

text \<open>A check over nullable columns passes when it is unknown.\<close>

definition unique_failure :: "bool \<Rightarrow> string \<Rightarrow> bool \<times> exc" where
  "unique_failure c name = (c, IntegrityError (UniqueViolation name))"

definition fk_failure :: "bool \<Rightarrow> string \<Rightarrow> bool \<times> exc" where
  "fk_failure c name = (c, IntegrityError (ForeignKeyViolation name))"

definition check_failure :: "bool \<Rightarrow> string \<Rightarrow> bool \<times> exc" where
  "check_failure c name = (c, IntegrityError (CheckViolation name))"

definition data_failure :: "bool \<Rightarrow> string \<Rightarrow> bool \<times> exc" where
  "data_failure c name = (c, DataError name)"

lemmas failure_defs = unique_failure_def fk_failure_def check_failure_def data_failure_def

subsection \<open>Insertions\<close>

definition tenant_insert :: "tenant_row \<Rightarrow> db \<Rightarrow> exc + db" where
  "tenant_insert r d = checked
     [data_failure (\<not> text_fits 100 (tr_name r)) ''tenants.name'',
      data_failure (\<not> text_fits 200 (tr_normalized_name r)) ''tenants.normalized_name'',
      unique_failure (tr_id r \<in> tr_id ` set (tenants d)) ''pk_tenants'',
      unique_failure (tr_normalized_name r \<in> tr_normalized_name ` set (tenants d))
        ''uq_tenants_normalized_name'']
     (d\<lparr>tenants := tenants d @ [r]\<rparr>)"

definition agent_insert :: "agent_row \<Rightarrow> db \<Rightarrow> exc + db" where
  "agent_insert r d = checked
     [data_failure (\<not> text_fits 100 (ar_name r)) ''agents.name'',
      data_failure (\<not> text_fits 200 (ar_normalized_name r)) ''agents.normalized_name'',
      unique_failure (ar_id r \<in> ar_id ` set (agents d)) ''pk_agents'',
      unique_failure ((ar_tenant_id r, ar_normalized_name r)
          \<in> (\<lambda>a. (ar_tenant_id a, ar_normalized_name a)) ` set (agents d))
        ''uq_agents_tenant_id_normalized_name'',
      fk_failure (ar_tenant_id r \<notin> tr_id ` set (tenants d)) ''fk_agents_tenant_id_tenants'']
     (d\<lparr>agents := agents d @ [r]\<rparr>)"

definition model_insert :: "model_row \<Rightarrow> db \<Rightarrow> exc + db" where
  "model_insert r d = checked
     [data_failure (\<not> text_fits 100 (mr_name r)) ''models.name'',
      data_failure (\<not> text_fits 200 (mr_normalized_name r)) ''models.normalized_name'',
      data_failure (\<not> text_fits 255 (mr_provider_model_reference r)) ''models.provider_model_reference'',
      unique_failure (mr_id r \<in> mr_id ` set (models d)) ''pk_models'',
      unique_failure ((mr_tenant_id r, mr_normalized_name r)
          \<in> (\<lambda>a. (mr_tenant_id a, mr_normalized_name a)) ` set (models d))
        ''uq_models_tenant_id_normalized_name'',
      fk_failure (mr_tenant_id r \<notin> tr_id ` set (tenants d)) ''fk_models_tenant_id_tenants'']
     (d\<lparr>models := models d @ [r]\<rparr>)"

definition decision_insert :: "decision_row \<Rightarrow> db \<Rightarrow> exc + db" where
  "decision_insert r d = checked
     [unique_failure (dr_id r \<in> dr_id ` set (decisions d)) ''pk_policy_decisions'',
      unique_failure (dr_invocation_id r \<in> dr_invocation_id ` set (decisions d))
        ''ix_policy_decisions_invocation_id'',
      fk_failure (dr_tenant_id r \<notin> tr_id ` set (tenants d)) ''fk_policy_decisions_tenant_id_tenants'',
      fk_failure (dr_agent_id r \<notin> ar_id ` set (agents d)) ''fk_policy_decisions_agent_id_agents'',
      fk_failure (dr_model_id r \<notin> mr_id ` set (models d)) ''fk_policy_decisions_model_id_models'',
      fk_failure (\<not> opt_ok (\<lambda>p. p \<in> pr_id ` set (permissions d)) (dr_permission_id r))
        ''fk_policy_decisions_permission_id_permissions'']
     (d\<lparr>decisions := decisions d @ [r]\<rparr>)"

text \<open>
  \<open>INSERT ... ON CONFLICT ON CONSTRAINT uq_permissions_tenant_agent_model DO UPDATE\<close>: the
  existing row keeps its identity and creation time.
\<close>

definition permission_key :: "permission_row \<Rightarrow> uuid \<times> uuid \<times> uuid" where
  "permission_key r = (pr_tenant_id r, pr_agent_id r, pr_model_id r)"

definition permission_upsert :: "permission_row \<Rightarrow> db \<Rightarrow> exc + (permission_row \<times> db)" where
  "permission_upsert r d =
     (case find (\<lambda>p. permission_key p = permission_key r) (permissions d) of
        Some p \<Rightarrow>
          (let touch = (\<lambda>q. q\<lparr>pr_effect := pr_effect r, pr_updated_at := pr_updated_at r\<rparr>) in
           Inr (touch p, d\<lparr>permissions :=
             update_rows (\<lambda>q. permission_key q = permission_key r) touch (permissions d)\<rparr>))
      | None \<Rightarrow> checked
          [unique_failure (pr_id r \<in> pr_id ` set (permissions d)) ''pk_agent_model_permissions'',
           fk_failure (pr_tenant_id r \<notin> tr_id ` set (tenants d)) ''fk_permissions_tenant_id_tenants'',
           fk_failure (pr_agent_id r \<notin> ar_id ` set (agents d)) ''fk_permissions_agent_id_agents'',
           fk_failure (pr_model_id r \<notin> mr_id ` set (models d)) ''fk_permissions_model_id_models'']
          (r, d\<lparr>permissions := permissions d @ [r]\<rparr>))"

text \<open>
  The invocation table. The check on usage evidence adds two \<open>INTEGER\<close> columns, and the sum
  must fit as well. \<open>refuted p v\<close> is a comparison that is definitely false: on a
  missing value it is unknown, which no check constraint rejects.
\<close>

definition refuted :: "('a \<Rightarrow> bool) \<Rightarrow> 'a option \<Rightarrow> bool" where
  "refuted p v = (case v of None \<Rightarrow> False | Some a \<Rightarrow> \<not> p a)"

lemma refuted_simps [simp]: "refuted p None = False" "refuted p (Some a) = (\<not> p a)"
  by (simp_all add: refuted_def)

definition status_output_ok :: "invocation_row \<Rightarrow> bool" where
  "status_output_ok r \<longleftrightarrow>
     (ir_status r = SUCCEEDED \<and> ir_output_text r \<noteq> None)
     \<or> (ir_status r \<in> {FAILED, DENIED, LIMITED, COST_LIMITED} \<and> ir_output_text r = None)"

definition limited_evidence_ok :: "invocation_row \<Rightarrow> bool" where
  "limited_evidence_ok r \<longleftrightarrow>
     (ir_status r = LIMITED \<and> ir_usage_window_start r \<noteq> None \<and> ir_usage_window_end r \<noteq> None
      \<and> (case (ir_usage_consumed_units r, ir_usage_limit_units r, ir_usage_allowance_units r) of
           (Some c, Some l, Some a) \<Rightarrow> l < c + a \<and> a \<le> l | _ \<Rightarrow> False)
      \<and> ir_total_units r = None \<and> ir_provider_response_id r = None)
     \<or> (ir_status r \<noteq> LIMITED \<and> ir_usage_consumed_units r = None \<and> ir_usage_limit_units r = None
        \<and> ir_usage_allowance_units r = None \<and> ir_usage_window_start r = None
        \<and> ir_usage_window_end r = None)"

definition cost_snapshot_ok :: "invocation_row \<Rightarrow> bool" where
  "cost_snapshot_ok r \<longleftrightarrow>
     (ir_cost_currency r = None \<and> ir_cost_input r = None \<and> ir_cost_output r = None
      \<and> ir_cost_total r = None \<and> ir_pricing_version r = None \<and> ir_pricing_basis_units r = None
      \<and> ir_pricing_input_rate r = None \<and> ir_pricing_output_rate r = None)
     \<or> \<not> (refuted (\<lambda>c. c = lit ''USD'') (ir_cost_currency r)
          \<or> refuted (\<lambda>v. 0 \<le> v) (ir_cost_input r) \<or> refuted (\<lambda>v. 0 \<le> v) (ir_cost_output r)
          \<or> (case (ir_cost_input r, ir_cost_output r, ir_cost_total r) of
               (Some i, Some out, Some t) \<Rightarrow> t \<noteq> i + out | _ \<Rightarrow> False)
          \<or> ir_pricing_version r = None
          \<or> refuted (\<lambda>v. 0 < v) (ir_pricing_basis_units r)
          \<or> refuted (\<lambda>v. 0 \<le> v) (ir_pricing_input_rate r)
          \<or> refuted (\<lambda>v. 0 \<le> v) (ir_pricing_output_rate r))"

definition cost_budget_evidence_ok :: "invocation_row \<Rightarrow> bool" where
  "cost_budget_evidence_ok r \<longleftrightarrow>
     (ir_status r = COST_LIMITED
      \<and> (case (ir_cost_budget_consumed r, ir_cost_budget_limit r, ir_cost_budget_allowance r) of
           (Some c, Some l, Some a) \<Rightarrow> 0 \<le> c \<and> 0 < l \<and> 0 < a \<and> a \<le> l \<and> l < c + a | _ \<Rightarrow> False)
      \<and> (case (ir_cost_budget_window_start r, ir_cost_budget_window_end r) of
           (Some s, Some e) \<Rightarrow> s < e | _ \<Rightarrow> False)
      \<and> ir_input_units r = None \<and> ir_output_units r = None \<and> ir_total_units r = None
      \<and> ir_provider_response_id r = None \<and> ir_cost_total r = None)
     \<or> (ir_status r \<noteq> COST_LIMITED \<and> ir_cost_budget_consumed r = None \<and> ir_cost_budget_limit r = None
        \<and> ir_cost_budget_allowance r = None \<and> ir_cost_budget_window_start r = None
        \<and> ir_cost_budget_window_end r = None)"

definition invocation_columns_fit :: "invocation_row \<Rightarrow> bool" where
  "invocation_columns_fit r \<longleftrightarrow>
     text_ok (ir_input_text r) \<and> opt_ok text_ok (ir_output_text r)
     \<and> opt_ok (text_fits 255) (ir_runtime_principal_id r)
     \<and> opt_ok int4_fits (ir_duration_ms r) \<and> opt_ok int4_fits (ir_input_units r)
     \<and> opt_ok int4_fits (ir_output_units r) \<and> opt_ok int4_fits (ir_total_units r)
     \<and> opt_ok (text_fits 255) (ir_provider_response_id r)
     \<and> opt_ok int4_fits (ir_usage_consumed_units r) \<and> opt_ok int4_fits (ir_usage_limit_units r)
     \<and> opt_ok int4_fits (ir_usage_allowance_units r)
     \<and> (case (ir_usage_consumed_units r, ir_usage_allowance_units r) of
           (Some c, Some a) \<Rightarrow> int4_fits (c + a) | _ \<Rightarrow> True)
     \<and> opt_ok (text_fits 3) (ir_cost_currency r)
     \<and> opt_ok (\<lambda>v. \<bar>v\<bar> < 10 ^ 30) (ir_cost_input r) \<and> opt_ok (\<lambda>v. \<bar>v\<bar> < 10 ^ 30) (ir_cost_output r)
     \<and> opt_ok (\<lambda>v. \<bar>v\<bar> < 10 ^ 30) (ir_cost_total r)
     \<and> opt_ok (text_fits 255) (ir_pricing_version r) \<and> opt_ok int4_fits (ir_pricing_basis_units r)
     \<and> opt_ok (\<lambda>v. \<bar>v\<bar> < 10 ^ 18) (ir_pricing_input_rate r)
     \<and> opt_ok (\<lambda>v. \<bar>v\<bar> < 10 ^ 18) (ir_pricing_output_rate r)
     \<and> opt_ok (\<lambda>v. \<bar>v\<bar> < 10 ^ 30) (ir_cost_budget_consumed r)
     \<and> opt_ok (\<lambda>v. \<bar>v\<bar> < 10 ^ 30) (ir_cost_budget_limit r)
     \<and> opt_ok (\<lambda>v. \<bar>v\<bar> < 10 ^ 30) (ir_cost_budget_allowance r)"

definition invocation_checks_ok :: "invocation_row \<Rightarrow> bool" where
  "invocation_checks_ok r \<longleftrightarrow>
     status_output_ok r
     \<and> opt_ok (\<lambda>v. 0 \<le> v) (ir_duration_ms r) \<and> opt_ok (\<lambda>v. 0 \<le> v) (ir_input_units r)
     \<and> opt_ok (\<lambda>v. 0 \<le> v) (ir_output_units r) \<and> opt_ok (\<lambda>v. 0 \<le> v) (ir_total_units r)
     \<and> opt_ok (\<lambda>v. 0 \<le> v) (ir_usage_consumed_units r) \<and> opt_ok (\<lambda>v. 0 < v) (ir_usage_limit_units r)
     \<and> opt_ok (\<lambda>v. 0 < v) (ir_usage_allowance_units r)
     \<and> limited_evidence_ok r \<and> cost_snapshot_ok r \<and> cost_budget_evidence_ok r"

definition invocation_insert :: "invocation_row \<Rightarrow> db \<Rightarrow> exc + db" where
  "invocation_insert r d = checked
     [data_failure (\<not> invocation_columns_fit r) ''invocations'',
      check_failure (\<not> invocation_checks_ok r) ''ck_invocations'',
      unique_failure (ir_id r \<in> ir_id ` set (invocations d)) ''pk_invocations'',
      fk_failure (ir_tenant_id r \<notin> tr_id ` set (tenants d)) ''fk_invocations_tenant_id_tenants'',
      fk_failure (ir_agent_id r \<notin> ar_id ` set (agents d)) ''fk_invocations_agent_id_agents'',
      fk_failure (ir_model_id r \<notin> mr_id ` set (models d)) ''fk_invocations_model_id_models'',
      fk_failure (\<not> opt_ok (\<lambda>p. p \<in> dr_id ` set (decisions d)) (ir_policy_decision_id r))
        ''fk_invocations_policy_decision_id_policy_decisions'']
     (d\<lparr>invocations := invocations d @ [r]\<rparr>)"

definition audit_insert :: "audit_row \<Rightarrow> db \<Rightarrow> exc + db" where
  "audit_insert r d = checked
     [data_failure (\<not> text_fits 255 (au_principal_id r)) ''management_audit_records.principal_id'',
      data_failure (\<not> opt_ok (text_fits 64) (au_before_fingerprint r))
        ''management_audit_records.before_fingerprint'',
      data_failure (\<not> opt_ok (text_fits 64) (au_after_fingerprint r))
        ''management_audit_records.after_fingerprint'',
      check_failure (\<not> opt_ok is_hex64 (au_before_fingerprint r)) ''ck_management_audit_before_fingerprint'',
      check_failure (\<not> opt_ok is_hex64 (au_after_fingerprint r)) ''ck_management_audit_after_fingerprint'',
      check_failure (au_outcome r = AuditSucceeded \<and> au_after_fingerprint r = None)
        ''ck_management_audit_success_after'',
      unique_failure (au_audit_id r \<in> au_audit_id ` set (audits d)) ''management_audit_records_pkey'',
      fk_failure (\<not> opt_ok (\<lambda>t. t \<in> tr_id ` set (tenants d)) (au_tenant_id r))
        ''fk_management_audit_tenant_id_tenants'']
     (d\<lparr>audits := audits d @ [r]\<rparr>)"

definition mgmt_principal_insert :: "mgmt_principal_row \<Rightarrow> db \<Rightarrow> exc + db" where
  "mgmt_principal_insert r d = checked
     [data_failure (\<not> text_fits 100 (mp_display_name r)) ''management_principals.display_name'',
      unique_failure (mp_principal_id r \<in> mp_principal_id ` set (mgmt_principals d))
        ''management_principals_pkey'']
     (d\<lparr>mgmt_principals := mgmt_principals d @ [r]\<rparr>)"

definition scope_insert :: "scope_row \<Rightarrow> db \<Rightarrow> exc + db" where
  "scope_insert r d = checked
     [unique_failure (r \<in> set (mgmt_scopes d)) ''management_principal_tenant_scopes_pkey'',
      fk_failure (sc_principal_id r \<notin> mp_principal_id ` set (mgmt_principals d))
        ''fk_management_scope_principal'',
      fk_failure (sc_tenant_id r \<notin> tr_id ` set (tenants d)) ''fk_management_scope_tenant'']
     (d\<lparr>mgmt_scopes := mgmt_scopes d @ [r]\<rparr>)"

fun scopes_insert :: "scope_row list \<Rightarrow> db \<Rightarrow> exc + db" where
  "scopes_insert [] d = Inr d"
| "scopes_insert (r # rs) d = and_then (scope_insert r d) (scopes_insert rs)"

definition mgmt_credential_insert :: "mgmt_credential_row \<Rightarrow> db \<Rightarrow> exc + db" where
  "mgmt_credential_insert r d = checked
     [data_failure (\<not> text_fits 64 (mc_secret_verifier r)) ''management_credentials.secret_verifier'',
      data_failure (\<not> opt_ok (text_fits 100) (mc_label r)) ''management_credentials.label'',
      check_failure (\<not> is_hex64 (mc_secret_verifier r)) ''ck_management_credential_verifier'',
      unique_failure (mc_credential_id r \<in> mc_credential_id ` set (mgmt_credentials d))
        ''management_credentials_pkey'',
      fk_failure (mc_principal_id r \<notin> mp_principal_id ` set (mgmt_principals d))
        ''fk_management_credential_principal'']
     (d\<lparr>mgmt_credentials := mgmt_credentials d @ [r]\<rparr>)"

text \<open>\<open>INSERT ... ON CONFLICT DO NOTHING\<close> on the evidence key.\<close>

definition evidence_key :: "evidence_row \<Rightarrow> uuid \<times> auth_outcome \<times> int" where
  "evidence_key r = (ev_credential_id r, ev_outcome r, ev_bucket_started_at r)"

definition evidence_insert :: "evidence_row \<Rightarrow> db \<Rightarrow> exc + db" where
  "evidence_insert r d =
     (if evidence_key r \<in> evidence_key ` set (mgmt_evidence d) then Inr d
      else checked
        [fk_failure (ev_credential_id r \<notin> mc_credential_id ` set (mgmt_credentials d))
           ''fk_management_auth_evidence_credential'',
         fk_failure (ev_principal_id r \<notin> mp_principal_id ` set (mgmt_principals d))
           ''fk_management_auth_evidence_principal'']
        (d\<lparr>mgmt_evidence := mgmt_evidence d @ [r]\<rparr>))"

definition runtime_principal_checks_ok :: "runtime_principal_row \<Rightarrow> bool" where
  "runtime_principal_checks_ok r \<longleftrightarrow>
     (rp_daily_usage_limit_units r = None) = (rp_per_invocation_allowance_units r = None)
     \<and> opt_ok (\<lambda>v. 0 < v) (rp_daily_usage_limit_units r)
     \<and> opt_ok (\<lambda>v. 0 < v) (rp_per_invocation_allowance_units r)
     \<and> (case (rp_daily_usage_limit_units r, rp_per_invocation_allowance_units r) of
          (Some l, Some a) \<Rightarrow> a \<le> l | _ \<Rightarrow> True)
     \<and> (rp_legacy_runtime_principal_id r = None) = (rp_identity_continuity_bound_at r = None)
     \<and> opt_ok (\<lambda>s. \<exists>c \<in> set s. c \<noteq> 32) (rp_legacy_runtime_principal_id r)"

definition runtime_principal_columns_fit :: "runtime_principal_row \<Rightarrow> bool" where
  "runtime_principal_columns_fit r \<longleftrightarrow>
     opt_ok int4_fits (rp_daily_usage_limit_units r)
     \<and> opt_ok int4_fits (rp_per_invocation_allowance_units r)
     \<and> opt_ok (text_fits 255) (rp_legacy_runtime_principal_id r)"

definition runtime_principal_insert :: "runtime_principal_row \<Rightarrow> db \<Rightarrow> exc + db" where
  "runtime_principal_insert r d = checked
     [data_failure (\<not> runtime_principal_columns_fit r) ''runtime_principals'',
      check_failure (\<not> runtime_principal_checks_ok r) ''ck_runtime_principal'',
      unique_failure (rp_principal_id r \<in> rp_principal_id ` set (runtime_principals d))
        ''runtime_principals_pkey'',
      unique_failure (rp_legacy_runtime_principal_id r \<noteq> None
          \<and> rp_legacy_runtime_principal_id r \<in> rp_legacy_runtime_principal_id ` set (runtime_principals d))
        ''uq_runtime_principals_legacy_identity'',
      fk_failure (rp_tenant_id r \<notin> tr_id ` set (tenants d)) ''fk_runtime_principal_tenant'',
      fk_failure (rp_agent_id r \<notin> ar_id ` set (agents d)) ''fk_runtime_principal_agent'']
     (d\<lparr>runtime_principals := runtime_principals d @ [r]\<rparr>)"

definition runtime_credential_insert :: "runtime_credential_row \<Rightarrow> db \<Rightarrow> exc + db" where
  "runtime_credential_insert r d = checked
     [data_failure (\<not> text_fits 64 (rc_secret_verifier r)) ''runtime_credentials.secret_verifier'',
      data_failure (\<not> opt_ok (text_fits 100) (rc_label r)) ''runtime_credentials.label'',
      check_failure (\<not> is_hex64 (rc_secret_verifier r)) ''ck_runtime_credential_verifier'',
      unique_failure (rc_credential_id r \<in> rc_credential_id ` set (runtime_credentials d))
        ''runtime_credentials_pkey'',
      fk_failure (rc_principal_id r \<notin> rp_principal_id ` set (runtime_principals d))
        ''fk_runtime_credential_principal'']
     (d\<lparr>runtime_credentials := runtime_credentials d @ [r]\<rparr>)"

subsection \<open>Sessions and units of work\<close>

record session =
  committed :: db
  working :: db

type_synonym 'a tx = "(exc, session, 'a) op"

text \<open>\<open>session.flush()\<close> of pending inserts: a function of the working tables that may raise.\<close>

definition flush :: "(db \<Rightarrow> exc + db) \<Rightarrow> unit tx" where
  "flush ins = (\<lambda>s. case ins (working s) of
       Inl e \<Rightarrow> (Inl e, s) | Inr d \<Rightarrow> (Inr (), s\<lparr>working := d\<rparr>))"

definition query :: "(db \<Rightarrow> 'a) \<Rightarrow> 'a tx" where
  "query q = gets (\<lambda>s. q (working s))"

definition execute :: "(db \<Rightarrow> db) \<Rightarrow> unit tx" where
  "execute u = (\<lambda>s. (Inr (), s\<lparr>working := u (working s)\<rparr>))"

definition uow_commit :: "unit tx" where
  "uow_commit = (\<lambda>s. (Inr (), s\<lparr>committed := working s\<rparr>))"

definition uow_rollback :: "unit tx" where
  "uow_rollback = (\<lambda>s. (Inr (), s\<lparr>working := committed s\<rparr>))"

text \<open>
  \<open>async with unit_of_work\<close>: \<open>__aenter__\<close> opens a session on the committed tables,
  \<open>__aexit__\<close> rolls back and closes, whether the body returned or raised.
\<close>

definition with_uow :: "'a tx \<Rightarrow> (exc, db, 'a) op" where
  "with_uow body = (\<lambda>d. case body \<lparr>committed = d, working = d\<rparr> of
       (r, s) \<Rightarrow> (r, committed (snd (uow_rollback s))))"

text \<open>
  A read in a session of its own, outside any unit of work: the n-th of its request. It fails
  with a driver error when the database cannot be reached.
\<close>

definition read_db :: "request \<Rightarrow> nat \<Rightarrow> (db \<Rightarrow> 'a) \<Rightarrow> db \<Rightarrow> exc + 'a" where
  "read_db rq n q d = (if db_up rq n then Inr (q d) else Inl (SQLAlchemyError ''OperationalError''))"

text \<open>\<open>except SQLAlchemyError as error: raise e from error\<close>.\<close>

definition translate_db_error :: "exc \<Rightarrow> exc + 'a \<Rightarrow> exc + 'a" where
  "translate_db_error e r = (case r of
       Inl (SQLAlchemyError _) \<Rightarrow> Inl e | Inl (IntegrityError _) \<Rightarrow> Inl e | Inl (DataError _) \<Rightarrow> Inl e
     | Inl x \<Rightarrow> Inl x | Inr a \<Rightarrow> Inr a)"

lemma translate_read [simp]:
  "translate_db_error e (read_db rq n q d) = (if db_up rq n then Inr (q d) else Inl e)"
  by (simp add: translate_db_error_def read_db_def)

lemma run_flush: "flush ins s = (case ins (working s) of
    Inl e \<Rightarrow> (Inl e, s) | Inr d \<Rightarrow> (Inr (), s\<lparr>working := d\<rparr>))"
  by (simp add: flush_def)

lemma flush_Inr_iff [op_inv]:
  "flush ins s = (Inr u, s') \<longleftrightarrow> (\<exists>d. ins (working s) = Inr d \<and> s' = s\<lparr>working := d\<rparr>)"
  by (auto simp: flush_def split: sum.splits)

lemma query_run [simp, op_simps]: "query q s = (Inr (q (working s)), s)"
  by (simp add: query_def)

lemma query_Inr_iff [op_inv]: "query q s = (Inr a, s') \<longleftrightarrow> a = q (working s) \<and> s' = s"
  by auto

lemma execute_run [simp, op_simps]: "execute u s = (Inr (), s\<lparr>working := u (working s)\<rparr>)"
  by (simp add: execute_def)

lemma execute_Inr_iff [op_inv]: "execute u s = (Inr a, s') \<longleftrightarrow> s' = s\<lparr>working := u (working s)\<rparr>"
  by auto

lemma uow_commit_run [simp, op_simps]: "uow_commit s = (Inr (), s\<lparr>committed := working s\<rparr>)"
  by (simp add: uow_commit_def)

lemma uow_commit_Inr_iff [op_inv]:
  "uow_commit s = (Inr a, s') \<longleftrightarrow> s' = s\<lparr>committed := working s\<rparr>"
  by auto

lemma with_uow_eq:
  "with_uow body d = (case body \<lparr>committed = d, working = d\<rparr> of (r, s) \<Rightarrow> (r, committed s))"
  by (simp add: with_uow_def uow_rollback_def split: prod.split)

lemma with_uow_Inr_iff:
  "with_uow body d = (Inr a, d') \<longleftrightarrow>
     (\<exists>s. body \<lparr>committed = d, working = d\<rparr> = (Inr a, s) \<and> d' = committed s)"
  by (auto simp: with_uow_eq split: prod.splits)

lemma keeps_committed [simp, intro]:
  "keeps committed (flush ins)" "keeps committed (query q)" "keeps committed (execute u)"
  by (auto simp: keeps_def run_flush split: sum.split)

lemma keeps_session_query [simp, intro]: "keeps v (query q)"
  by (simp add: keeps_def)

text \<open>
  The shape of every mutating use case: a body that never commits, then one commit, then a pure
  result. It is atomic: an exception leaves the tables as they were, a return publishes exactly
  what the body wrote.
\<close>

definition commit_after :: "'a tx \<Rightarrow> 'a tx" where
  "commit_after m = bnd m (\<lambda>a. bnd uow_commit (\<lambda>_. ret a))"

lemma commit_after_atomic:
  assumes "keeps committed m" and "with_uow (commit_after m) d = (Inl e, d')"
  shows "d' = d"
proof -
  let ?s0 = "\<lparr>committed = d, working = d\<rparr>"
  obtain r s1 where m: "m ?s0 = (r, s1)" by fastforce
  then have c: "committed s1 = d" using keepsD [OF assms(1)] by force
  have "r = Inl e \<and> d' = committed s1"
    using assms(2) m by (cases r) (auto simp: with_uow_eq commit_after_def)
  then show ?thesis using c by simp
qed

lemma commit_after_publishes:
  "with_uow (commit_after m) d = (Inr a, d') \<longleftrightarrow>
     (\<exists>s. m \<lparr>committed = d, working = d\<rparr> = (Inr a, s) \<and> d' = working s)"
  by (auto simp: with_uow_Inr_iff commit_after_def op_inv)

lemma read_only_uow:
  assumes "keeps committed m"
  shows "snd (with_uow m d) = d"
  using assms by (auto simp: with_uow_eq keeps_def split: prod.split)
      (metis session.select_convs(1) snd_conv)

end
