(* ===== verification/AuditTrail.thy ===== *)
theory AuditTrail
  imports Store "HOL-Library.Product_Lexorder"
begin

text \<open>
  Management audit: the record and its validation (\<open>management_audit/domain/audit_record.py\<close>),
  the canonical texts that fingerprints hash (\<open>domain/fingerprints.py\<close>), the append-only
  repository and the bounded query (\<open>infrastructure/repositories.py\<close>,
  \<open>application/query.py\<close>). The lemmas show that an appended record is exactly one new row,
  that the canonical text of a permission determines the permission, and what a query returns.
\<close>

record audit_record =
  aud_audit_id :: uuid
  aud_principal_id :: pystr
  aud_tenant_id :: "uuid option"
  aud_action :: audit_action
  aud_resource_type :: audit_resource
  aud_resource_id :: uuid
  aud_outcome :: audit_outcome
  aud_occurred_at :: datetime
  aud_before_fingerprint :: "pystr option"
  aud_after_fingerprint :: "pystr option"

text \<open>
  \<open>ManagementAuditRecord.__post_init__\<close>. The comparison with \<open>fingerprint.lower()\<close> is implied
  by the digit test, which admits no upper-case letter.
\<close>

definition audit_record_init :: "audit_record \<Rightarrow> exc + audit_record" where
  "audit_record_init r = checked
     [(py_strip (aud_principal_id r) = [], ValueError ''principal_id must not be empty''),
      (\<not> is_aware (aud_occurred_at r), ValueError ''occurred_at must be timezone-aware''),
      (\<not> opt_ok is_hex64 (aud_before_fingerprint r),
         ValueError ''fingerprints must be lowercase SHA-256 hex digests''),
      (\<not> opt_ok is_hex64 (aud_after_fingerprint r),
         ValueError ''fingerprints must be lowercase SHA-256 hex digests''),
      (aud_outcome r = AuditSucceeded \<and> aud_after_fingerprint r = None,
         ValueError ''successful audit records require an after fingerprint'')] r"

subsection \<open>Fingerprints\<close>

fun nat_str :: "nat \<Rightarrow> pystr" where
  "nat_str n = (if n < 10 then [48 + n] else nat_str (n div 10) @ [48 + n mod 10])"

declare nat_str.simps [simp del]

definition int_str :: "int \<Rightarrow> pystr" where
  "int_str i = (if i < 0 then [45] else []) @ nat_str (nat \<bar>i\<bar>)"

definition bool_str :: "bool \<Rightarrow> pystr" where
  "bool_str b = (if b then lit ''true'' else lit ''false'')"

definition effect_value :: "policy_effect \<Rightarrow> pystr" where
  "effect_value e = (case e of ALLOW \<Rightarrow> lit ''allow'' | DENY \<Rightarrow> lit ''deny'')"

definition ascii_lower :: "pystr \<Rightarrow> pystr" where
  "ascii_lower s = map (\<lambda>c. if 65 \<le> c \<and> c \<le> 90 then c + 32 else c) s"

definition newline :: pystr where "newline = [10]"

definition permission_text :: "uuid \<Rightarrow> uuid \<Rightarrow> uuid \<Rightarrow> pystr \<Rightarrow> pystr" where
  "permission_text t a m effect = py_join newline
     [lit ''tenant_id='' @ uuid_str t, lit ''agent_id='' @ uuid_str a,
      lit ''model_id='' @ uuid_str m, lit ''effect='' @ ascii_lower (py_strip effect)]"

definition agent_model_permission_fingerprint ::
  "platform \<Rightarrow> uuid \<Rightarrow> uuid \<Rightarrow> uuid \<Rightarrow> pystr \<Rightarrow> pystr" where
  "agent_model_permission_fingerprint pf t a m effect = sha256_hex pf (permission_text t a m effect)"

definition management_principal_text :: "uuid \<Rightarrow> pystr \<Rightarrow> uuid set \<Rightarrow> bool \<Rightarrow> bool \<Rightarrow> pystr" where
  "management_principal_text p name scopes mgr disabled = py_join newline
     [lit ''principal_id='' @ uuid_str p, lit ''display_name='' @ canonical name,
      lit ''tenant_ids='' @ py_join (lit '','') (map uuid_str (sorted_list_of_set scopes)),
      lit ''can_manage_principals='' @ bool_str mgr, lit ''disabled='' @ bool_str disabled]"

definition management_principal_fingerprint ::
  "platform \<Rightarrow> uuid \<Rightarrow> pystr \<Rightarrow> uuid set \<Rightarrow> bool \<Rightarrow> bool \<Rightarrow> pystr" where
  "management_principal_fingerprint pf p name scopes mgr disabled =
     sha256_hex pf (management_principal_text p name scopes mgr disabled)"

definition credential_text ::
  "uuid \<Rightarrow> uuid \<Rightarrow> pystr option \<Rightarrow> pystr \<Rightarrow> pystr option \<Rightarrow> bool \<Rightarrow> pystr" where
  "credential_text c p label created expires revoked = py_join newline
     [lit ''credential_id='' @ uuid_str c, lit ''principal_id='' @ uuid_str p,
      lit ''label='' @ (case label of None \<Rightarrow> [] | Some l \<Rightarrow> canonical l),
      lit ''created_at='' @ created,
      lit ''expires_at='' @ (case expires of None \<Rightarrow> [] | Some x \<Rightarrow> x),
      lit ''revoked='' @ bool_str revoked]"

definition management_credential_fingerprint ::
  "platform \<Rightarrow> uuid \<Rightarrow> uuid \<Rightarrow> pystr option \<Rightarrow> pystr \<Rightarrow> pystr option \<Rightarrow> bool \<Rightarrow> pystr" where
  "management_credential_fingerprint pf c p label created expires revoked =
     sha256_hex pf (credential_text c p label created expires revoked)"

definition runtime_credential_fingerprint ::
  "platform \<Rightarrow> uuid \<Rightarrow> uuid \<Rightarrow> pystr option \<Rightarrow> pystr \<Rightarrow> pystr option \<Rightarrow> bool \<Rightarrow> pystr" where
  "runtime_credential_fingerprint pf c p label created expires revoked =
     sha256_hex pf (credential_text c p label created expires revoked)"

text \<open>\<open>f"{value or ''}"\<close> prints nothing for \<open>None\<close> and for zero.\<close>

definition or_blank :: "int option \<Rightarrow> pystr" where
  "or_blank v = (case v of None \<Rightarrow> [] | Some n \<Rightarrow> if n = 0 then [] else int_str n)"

definition runtime_principal_text ::
  "uuid \<Rightarrow> uuid \<Rightarrow> uuid \<Rightarrow> bool \<Rightarrow> int option \<Rightarrow> int option \<Rightarrow> pystr option \<Rightarrow> pystr" where
  "runtime_principal_text p t a disabled daily allowance legacy = py_join newline
     [lit ''principal_id='' @ uuid_str p, lit ''tenant_id='' @ uuid_str t,
      lit ''agent_id='' @ uuid_str a, lit ''daily_usage_limit_units='' @ or_blank daily,
      lit ''per_invocation_allowance_units='' @ or_blank allowance,
      lit ''legacy_runtime_principal_id='' @ (case legacy of None \<Rightarrow> [] | Some l \<Rightarrow> l),
      lit ''disabled='' @ bool_str disabled]"

definition runtime_principal_fingerprint ::
  "platform \<Rightarrow> uuid \<Rightarrow> uuid \<Rightarrow> uuid \<Rightarrow> bool \<Rightarrow> int option \<Rightarrow> int option \<Rightarrow> pystr option \<Rightarrow> pystr" where
  "runtime_principal_fingerprint pf p t a disabled daily allowance legacy =
     sha256_hex pf (runtime_principal_text p t a disabled daily allowance legacy)"

text \<open>What the development assumes of SHA-256 where a record must be accepted: its output shape.\<close>

definition hashes_to_hex :: "platform \<Rightarrow> bool" where
  "hashes_to_hex pf \<longleftrightarrow> (\<forall>s. is_hex64 (sha256_hex pf s)) \<and> (\<forall>s p. is_hex64 (hmac_hex pf s p))"

lemma hashes_to_hexD [simp]:
  "hashes_to_hex pf \<Longrightarrow> is_hex64 (sha256_hex pf s)"
  "hashes_to_hex pf \<Longrightarrow> is_hex64 (hmac_hex pf s p)"
  by (simp_all add: hashes_to_hex_def)

lemma is_hex64_text: "is_hex64 s \<Longrightarrow> text_fits 64 s"
  by (auto simp: is_hex64_def text_fits_def lower_hex_def)

subsection \<open>The append-only repository\<close>

definition audit_to_row :: "audit_record \<Rightarrow> audit_row" where
  "audit_to_row r = \<lparr>au_audit_id = aud_audit_id r, au_principal_id = aud_principal_id r,
     au_tenant_id = aud_tenant_id r, au_action = aud_action r,
     au_resource_type = aud_resource_type r, au_resource_id = aud_resource_id r,
     au_outcome = aud_outcome r, au_occurred_at = instant (aud_occurred_at r),
     au_before_fingerprint = aud_before_fingerprint r, au_after_fingerprint = aud_after_fingerprint r\<rparr>"

definition record_from_row :: "platform \<Rightarrow> audit_row \<Rightarrow> exc + audit_record" where
  "record_from_row pf r = audit_record_init
     \<lparr>aud_audit_id = au_audit_id r, aud_principal_id = au_principal_id r,
      aud_tenant_id = au_tenant_id r, aud_action = au_action r,
      aud_resource_type = au_resource_type r, aud_resource_id = au_resource_id r,
      aud_outcome = au_outcome r, aud_occurred_at = from_db pf (au_occurred_at r),
      aud_before_fingerprint = au_before_fingerprint r, aud_after_fingerprint = au_after_fingerprint r\<rparr>"

definition audit_append :: "audit_record \<Rightarrow> unit tx" where
  "audit_append r = flush (audit_insert (audit_to_row r))"

text \<open>Building a record and appending it, as every audited use case does.\<close>

definition audit_write :: "audit_record \<Rightarrow> unit tx" where
  "audit_write r = bnd (lift (audit_record_init r)) audit_append"

lemma audit_append_Inr_iff [op_inv]:
  "audit_append r s = (Inr u, s') \<longleftrightarrow>
     (\<exists>d. audit_insert (audit_to_row r) (working s) = Inr d \<and> s' = s\<lparr>working := d\<rparr>)"
  by (simp add: audit_append_def op_inv)

lemma keeps_audit_write [simp, intro]: "keeps committed (audit_write r)"
  unfolding audit_write_def audit_append_def by (intro keeps_bnd) auto

lemma audit_insert_InrD:
  "audit_insert r d = Inr d' \<Longrightarrow> d' = d\<lparr>audits := audits d @ [r]\<rparr>"
  by (auto simp: audit_insert_def failure_defs split: if_splits)

lemma audit_write_InrD:
  assumes "audit_write r s = (Inr u, s')"
  shows "s' = s\<lparr>working := (working s)\<lparr>audits := audits (working s) @ [audit_to_row r]\<rparr>\<rparr>"
  using assms
  by (auto simp: audit_write_def op_inv audit_record_init_def dest!: audit_insert_InrD
      split: if_splits)

text \<open>
  A record of a success whose principal is a UUID text and whose fingerprints are hashes is
  accepted whenever its identity is fresh and its tenant exists.
\<close>

lemma audit_write_succeeds:
  assumes "aud_principal_id r = uuid_str actor" "is_aware (aud_occurred_at r)"
    "opt_ok is_hex64 (aud_before_fingerprint r)" "aud_after_fingerprint r = Some f" "is_hex64 f"
    "aud_audit_id r \<notin> au_audit_id ` set (audits (working s))"
    "opt_ok (\<lambda>t. t \<in> tr_id ` set (tenants (working s))) (aud_tenant_id r)"
  shows "audit_write r s =
    (Inr (), s\<lparr>working := (working s)\<lparr>audits := audits (working s) @ [audit_to_row r]\<rparr>\<rparr>)"
proof -
  have len: "length (uuid_str actor) = 36"
    by (simp add: uuid_str_def Let_def)
  have plain: "\<forall>c \<in> set (uuid_str actor). \<not> py_isspace c \<and> c \<noteq> 0"
    using uuid_str_chars lower_hex_facts(9) by (fastforce simp: py_isspace_def lower_hex_def)
  then have strip: "py_strip (uuid_str actor) = uuid_str actor"
    by (intro strip_no_space) auto
  have ne: "py_strip (aud_principal_id r) \<noteq> []"
    using strip len assms(1) by auto
  have fits: "text_fits 255 (uuid_str actor)"
    using len plain by (auto simp: text_fits_def)
  have before: "opt_ok (text_fits 64) (aud_before_fingerprint r)"
    using assms(3) is_hex64_text by (auto simp: opt_ok_def split: option.splits)
  show ?thesis
    using assms ne fits before is_hex64_text [of f]
    by (simp add: audit_write_def audit_record_init_def audit_append_def run_flush
        audit_insert_def failure_defs audit_to_row_def)
qed

subsection \<open>Queries\<close>

definition audit_list_for_tenant :: "platform \<Rightarrow> uuid \<Rightarrow> int \<Rightarrow> int \<Rightarrow> nat \<Rightarrow> db \<Rightarrow> audit_row list" where
  "audit_list_for_tenant pf t s e cap d =
     take cap (rev (sort_key (\<lambda>r. (au_occurred_at r, au_audit_id r))
       (filter (\<lambda>r. au_tenant_id r = Some t \<and> s \<le> au_occurred_at r \<and> au_occurred_at r < e) (audits d))))"

text \<open>\<open>ListManagementAuditRecordsHandler\<close> over the PostgreSQL reader.\<close>

definition list_audit_records ::
  "platform \<Rightarrow> request \<Rightarrow> uuid \<Rightarrow> datetime \<Rightarrow> datetime \<Rightarrow> int \<Rightarrow> db \<Rightarrow> exc + audit_record list" where
  "list_audit_records pf rq t start end_at cap d =
     and_then (validated_range pf InvalidAuditRange ''audit range must not exceed 31 days'' start end_at)
       (\<lambda>(s, e).
        if \<not> (1 \<le> cap \<and> cap \<le> 100) then Inl (InvalidAuditRange ''limit must be between 1 and 100'')
        else and_then (translate_db_error ManagementAuditUnavailable
               (read_db rq 0 (\<lambda>d. t \<in> tr_id ` set (tenants d)) d))
          (\<lambda>known. if \<not> known then Inl TenantAuditNotFound
            else and_then (translate_db_error ManagementAuditUnavailable
                   (read_db rq 1 (audit_list_for_tenant pf t (instant s) (instant e) (nat cap)) d))
              (map_res (record_from_row pf))))"

end
