(* ===== verification/MgmtIdentity.thy ===== *)
theory MgmtIdentity
  imports AuditTrail
begin

text \<open>
  Management identity: the principals and credentials that administer the control plane
  (\<open>management_identity/domain/models.py\<close>), their bearer tokens (\<open>application/secrets.py\<close>),
  the PostgreSQL repositories (\<open>infrastructure/repositories.py\<close>) and the service
  \<open>ManagementIdentityService\<close> (\<open>application/handlers.py\<close>): bootstrap, creating and reading a
  principal, issuing and revoking a credential, replacing tenant scopes, disabling a principal.

  Tenant scopes are a set of tenant ids. The advisory lock of the service orders concurrent
  transactions and changes no table, so it has no counterpart in a run. What the operations
  keep and promise is in the theory MgmtLifecycle.
\<close>

subsection \<open>Principals and credentials\<close>

record mgmt_principal =
  mpr_id :: uuid
  mpr_display_name :: pystr
  mpr_can_manage :: bool
  mpr_tenant_ids :: "uuid set"
  mpr_created_at :: datetime
  mpr_disabled_at :: "datetime option"

definition normalize_display_name :: "pystr \<Rightarrow> exc + pystr" where
  "normalize_display_name v = (let n = canonical v in checked
     [(n = [], ValueError ''display_name must not be empty''),
      (100 < length n, ValueError ''display_name must not exceed 100 characters'')] n)"

definition mgmt_principal_init :: "mgmt_principal \<Rightarrow> exc + mgmt_principal" where
  "mgmt_principal_init p = and_then (normalize_display_name (mpr_display_name p)) (\<lambda>n. checked
     [(\<not> is_aware (mpr_created_at p) \<or> \<not> opt_ok is_aware (mpr_disabled_at p),
        ValueError ''principal timestamps must be timezone-aware'')] (p\<lparr>mpr_display_name := n\<rparr>))"

definition mgmt_is_active :: "mgmt_principal \<Rightarrow> bool" where
  "mgmt_is_active p \<longleftrightarrow> mpr_disabled_at p = None"

definition mgmt_disable :: "mgmt_principal \<Rightarrow> datetime \<Rightarrow> exc + mgmt_principal" where
  "mgmt_disable p now = (if \<not> mgmt_is_active p then Inl (ValueError ''principal is already disabled'')
     else mgmt_principal_init (p\<lparr>mpr_disabled_at := Some now\<rparr>))"

definition with_tenant_scopes :: "mgmt_principal \<Rightarrow> uuid set \<Rightarrow> exc + mgmt_principal" where
  "with_tenant_scopes p ts = mgmt_principal_init (p\<lparr>mpr_tenant_ids := ts\<rparr>)"

record mgmt_credential =
  mcr_id :: uuid
  mcr_principal_id :: uuid
  mcr_verifier :: pystr
  mcr_label :: "pystr option"
  mcr_created_at :: datetime
  mcr_expires_at :: "datetime option"
  mcr_revoked_at :: "datetime option"

text \<open>A label is canonicalised, and an empty one is no label.\<close>

definition normalized_label :: "pystr option \<Rightarrow> pystr option" where
  "normalized_label v = (case v of None \<Rightarrow> None
     | Some l \<Rightarrow> if canonical l = [] then None else Some (canonical l))"

definition mgmt_credential_init :: "mgmt_credential \<Rightarrow> exc + mgmt_credential" where
  "mgmt_credential_init c = (let l = normalized_label (mcr_label c) in checked
     [(\<not> opt_ok (\<lambda>l. length l \<le> 100) l, ValueError ''credential label must not exceed 100 characters''),
      (\<not> is_hex64 (mcr_verifier c), ValueError ''secret_verifier must be lowercase HMAC-SHA256 hex''),
      (\<not> is_aware (mcr_created_at c) \<or> \<not> opt_ok is_aware (mcr_expires_at c)
         \<or> \<not> opt_ok is_aware (mcr_revoked_at c), ValueError ''credential timestamps must be timezone-aware''),
      (\<not> opt_ok (\<lambda>x. instant (mcr_created_at c) < instant x) (mcr_expires_at c),
         ValueError ''expires_at must be later than created_at'')] (c\<lparr>mcr_label := l\<rparr>))"

definition mgmt_is_usable_at :: "mgmt_credential \<Rightarrow> datetime \<Rightarrow> bool" where
  "mgmt_is_usable_at c now \<longleftrightarrow> mcr_revoked_at c = None
     \<and> (case mcr_expires_at c of None \<Rightarrow> True | Some x \<Rightarrow> instant now < instant x)"

definition mgmt_revoke :: "mgmt_credential \<Rightarrow> datetime \<Rightarrow> exc + mgmt_credential" where
  "mgmt_revoke c now = (if mcr_revoked_at c \<noteq> None then Inl (ValueError ''credential is already revoked'')
     else mgmt_credential_init (c\<lparr>mcr_revoked_at := Some now\<rparr>))"

subsection \<open>Bearer tokens\<close>

definition bearer_prefix :: pystr where "bearer_prefix = lit ''valor_mgmt''"

definition generate_bearer_token :: "request \<Rightarrow> uuid \<Rightarrow> pystr \<times> pystr" where
  "generate_bearer_token rq c =
     (bearer_prefix @ [95] @ uuid_str c @ [95] @ secret_token rq, secret_token rq)"

text \<open>\<open>str.partition\<close>: before the first separator, whether there was one, and the rest.\<close>

fun partition_at :: "nat \<Rightarrow> pystr \<Rightarrow> pystr \<times> bool \<times> pystr" where
  "partition_at sep [] = ([], False, [])"
| "partition_at sep (c # cs) = (if c = sep then ([], True, cs)
     else (case partition_at sep cs of (a, b, r) \<Rightarrow> (c # a, b, r)))"

text \<open>A prefix, then \<open>uuid_secret\<close>: both bearer-token formats of the program.\<close>

definition parse_prefixed :: "platform \<Rightarrow> pystr \<Rightarrow> pystr \<Rightarrow> (uuid \<times> pystr) option" where
  "parse_prefixed pf prefix token =
     (if take (length prefix) token \<noteq> prefix then None
      else (case partition_at 95 (drop (length prefix) token) of (c, sep, secret) \<Rightarrow>
        if \<not> sep \<or> secret = [] then None
        else map_option (\<lambda>u. (u, secret)) (uuid_of_text pf c)))"

definition parse_bearer_token :: "platform \<Rightarrow> pystr \<Rightarrow> (uuid \<times> pystr) option" where
  "parse_bearer_token pf token = parse_prefixed pf (bearer_prefix @ [95]) token"

definition secret_verifier :: "platform \<Rightarrow> pystr \<Rightarrow> pystr \<Rightarrow> pystr" where
  "secret_verifier pf secret pepper = hmac_hex pf pepper secret"

text \<open>\<open>compare_digest\<close> on two strings raises \<open>TypeError\<close> unless both are ASCII.\<close>

definition compare_digest :: "pystr \<Rightarrow> pystr \<Rightarrow> exc + bool" where
  "compare_digest a b = (if \<forall>c \<in> set (a @ b). c < 128 then Inr (a = b)
     else Inl (TypeError ''comparing strings with non-ASCII characters is not supported''))"

definition verifier_matches :: "platform \<Rightarrow> pystr \<Rightarrow> pystr \<Rightarrow> pystr \<Rightarrow> exc + bool" where
  "verifier_matches pf secret pepper expected = compare_digest (secret_verifier pf secret pepper) expected"

lemma partition_at_absent: "\<forall>c \<in> set a. c \<noteq> sep \<Longrightarrow> partition_at sep (a @ sep # r) = (a, True, r)"
  by (induction a) auto

lemma parse_prefixed_generated:
  assumes "secret \<noteq> []"
  shows "parse_prefixed pf prefix (prefix @ uuid_str c @ [95] @ secret) = Some (c, secret)"
proof -
  have "partition_at 95 (uuid_str c @ 95 # secret) = (uuid_str c, True, secret)"
    using uuid_str_plain by (intro partition_at_absent) auto
  then show ?thesis using assms by (simp add: parse_prefixed_def uuid_roundtrip)
qed

lemma parse_generated:
  "secret_token rq \<noteq> [] \<Longrightarrow> parse_bearer_token pf (fst (generate_bearer_token rq c)) = Some (c, secret_token rq)"
  using parse_prefixed_generated [of "secret_token rq" pf "bearer_prefix @ [95]" c]
  by (simp add: parse_bearer_token_def generate_bearer_token_def)

lemma is_hex64_ascii: "is_hex64 s \<Longrightarrow> c \<in> set s \<Longrightarrow> c < 128"
  by (auto simp: is_hex64_def lower_hex_def)

lemma verifier_matches_hex:
  "hashes_to_hex pf \<Longrightarrow> is_hex64 v \<Longrightarrow> verifier_matches pf secret pepper v = Inr (hmac_hex pf pepper secret = v)"
  using is_hex64_ascii [of v] is_hex64_ascii [of "hmac_hex pf pepper secret"]
  by (auto simp: verifier_matches_def compare_digest_def secret_verifier_def)

subsection \<open>The repositories\<close>

definition principal_rows :: "mgmt_principal \<Rightarrow> mgmt_principal_row" where
  "principal_rows p = \<lparr>mp_principal_id = mpr_id p, mp_display_name = mpr_display_name p,
     mp_can_manage_principals = mpr_can_manage p, mp_created_at = instant (mpr_created_at p),
     mp_disabled_at = map_option instant (mpr_disabled_at p)\<rparr>"

definition scope_rows :: "mgmt_principal \<Rightarrow> scope_row list" where
  "scope_rows p = map (\<lambda>t. \<lparr>sc_principal_id = mpr_id p, sc_tenant_id = t\<rparr>)
     (sorted_list_of_set (mpr_tenant_ids p))"

definition mgmt_principal_add :: "mgmt_principal \<Rightarrow> unit tx" where
  "mgmt_principal_add p = flush (\<lambda>d. and_then (mgmt_principal_insert (principal_rows p) d)
     (scopes_insert (scope_rows p)))"

definition scopes_of :: "uuid \<Rightarrow> db \<Rightarrow> uuid set" where
  "scopes_of i d = sc_tenant_id ` set (filter (\<lambda>r. sc_principal_id r = i) (mgmt_scopes d))"

definition mgmt_principal_of :: "platform \<Rightarrow> mgmt_principal_row \<Rightarrow> db \<Rightarrow> exc + mgmt_principal" where
  "mgmt_principal_of pf r d = mgmt_principal_init
     \<lparr>mpr_id = mp_principal_id r, mpr_display_name = mp_display_name r,
      mpr_can_manage = mp_can_manage_principals r, mpr_tenant_ids = scopes_of (mp_principal_id r) d,
      mpr_created_at = from_db pf (mp_created_at r),
      mpr_disabled_at = map_option (from_db pf) (mp_disabled_at r)\<rparr>"

definition mgmt_principal_get :: "platform \<Rightarrow> uuid \<Rightarrow> mgmt_principal option tx" where
  "mgmt_principal_get pf i = bnd (query (\<lambda>d. d)) (\<lambda>d.
     case row_of mp_principal_id i (mgmt_principals d) of None \<Rightarrow> ret None
     | Some r \<Rightarrow> lift (map_sum id Some (mgmt_principal_of pf r d)))"

definition mgmt_replace_scopes :: "mgmt_principal \<Rightarrow> unit tx" where
  "mgmt_replace_scopes p =
     bnd (execute (\<lambda>d. d\<lparr>mgmt_scopes := filter (\<lambda>r. sc_principal_id r \<noteq> mpr_id p) (mgmt_scopes d)\<rparr>))
       (\<lambda>_. flush (scopes_insert (scope_rows p)))"

definition mgmt_disable_row :: "mgmt_principal \<Rightarrow> unit tx" where
  "mgmt_disable_row p = execute (\<lambda>d. d\<lparr>mgmt_principals :=
     update_rows (\<lambda>r. mp_principal_id r = mpr_id p)
       (\<lambda>r. r\<lparr>mp_disabled_at := map_option instant (mpr_disabled_at p)\<rparr>) (mgmt_principals d)\<rparr>)"

definition mgmt_principal_count :: "db \<Rightarrow> nat" where
  "mgmt_principal_count d = length (mgmt_principals d)"

text \<open>A credential row that is neither revoked nor expired at a time.\<close>

definition live_at :: "int \<Rightarrow> mgmt_credential_row \<Rightarrow> bool" where
  "live_at t c \<longleftrightarrow> mc_revoked_at c = None \<and> opt_ok (\<lambda>x. t < x) (mc_expires_at c)"

definition has_recoverable_manager :: "int \<Rightarrow> uuid option \<Rightarrow> db \<Rightarrow> bool" where
  "has_recoverable_manager t excluding d \<longleftrightarrow>
     (\<exists>p \<in> set (mgmt_principals d). mp_disabled_at p = None \<and> mp_can_manage_principals p
        \<and> (\<exists>c \<in> set (mgmt_credentials d). mc_principal_id c = mp_principal_id p \<and> live_at t c)
        \<and> opt_ok (\<lambda>e. mp_principal_id p \<noteq> e) excluding)"

definition mgmt_credential_to_row :: "mgmt_credential \<Rightarrow> mgmt_credential_row" where
  "mgmt_credential_to_row c = \<lparr>mc_credential_id = mcr_id c, mc_principal_id = mcr_principal_id c,
     mc_secret_verifier = mcr_verifier c, mc_label = mcr_label c,
     mc_created_at = instant (mcr_created_at c), mc_expires_at = map_option instant (mcr_expires_at c),
     mc_revoked_at = map_option instant (mcr_revoked_at c)\<rparr>"

definition mgmt_credential_add :: "mgmt_credential \<Rightarrow> unit tx" where
  "mgmt_credential_add c = flush (mgmt_credential_insert (mgmt_credential_to_row c))"

definition mgmt_credential_of :: "platform \<Rightarrow> mgmt_credential_row \<Rightarrow> exc + mgmt_credential" where
  "mgmt_credential_of pf r = mgmt_credential_init
     \<lparr>mcr_id = mc_credential_id r, mcr_principal_id = mc_principal_id r,
      mcr_verifier = mc_secret_verifier r, mcr_label = mc_label r,
      mcr_created_at = from_db pf (mc_created_at r),
      mcr_expires_at = map_option (from_db pf) (mc_expires_at r),
      mcr_revoked_at = map_option (from_db pf) (mc_revoked_at r)\<rparr>"

definition mgmt_credential_get :: "platform \<Rightarrow> uuid \<Rightarrow> mgmt_credential option tx" where
  "mgmt_credential_get pf i = bnd (query (\<lambda>d. row_of mc_credential_id i (mgmt_credentials d)))
     (\<lambda>row. case row of None \<Rightarrow> ret None | Some r \<Rightarrow> lift (map_sum id Some (mgmt_credential_of pf r)))"

definition mgmt_credentials_of :: "platform \<Rightarrow> uuid \<Rightarrow> mgmt_credential list tx" where
  "mgmt_credentials_of pf i =
     bnd (query (\<lambda>d. filter (\<lambda>r. mc_principal_id r = i) (mgmt_credentials d)))
       (\<lambda>rows. lift (map_res (mgmt_credential_of pf) rows))"

definition mgmt_revoke_row :: "mgmt_credential \<Rightarrow> unit tx" where
  "mgmt_revoke_row c = execute (\<lambda>d. d\<lparr>mgmt_credentials :=
     update_rows (\<lambda>r. mc_credential_id r = mcr_id c)
       (\<lambda>r. r\<lparr>mc_revoked_at := map_option instant (mcr_revoked_at c)\<rparr>) (mgmt_credentials d)\<rparr>)"

definition all_exist :: "uuid set \<Rightarrow> db \<Rightarrow> bool" where
  "all_exist ts d \<longleftrightarrow> length (filter (\<lambda>r. tr_id r \<in> ts) (tenants d)) = card ts"

subsection \<open>The service\<close>

record actor =
  act_id :: uuid
  act_can_manage :: bool

record mgmt_service =
  ms_pepper :: pystr
  ms_bootstrap_token :: pystr

text \<open>\<open>except ValueError as error: raise InvalidManagementIdentityCommand(str(error))\<close>.\<close>

definition value_error_as :: "(string \<Rightarrow> exc) \<Rightarrow> exc + 'a \<Rightarrow> exc + 'a" where
  "value_error_as err r = (case r of Inl (ValueError m) \<Rightarrow> Inl (err m) | _ \<Rightarrow> r)"

definition require_manager :: "actor \<Rightarrow> (exc, 's, unit) op" where
  "require_manager a = raise_if (\<not> act_can_manage a) PrincipalManagementDenied"

definition require_tenants :: "uuid set \<Rightarrow> unit tx" where
  "require_tenants ts = bnd (query (\<lambda>d. ts \<noteq> {} \<and> \<not> all_exist ts d)) (\<lambda>bad.
     raise_if bad (InvalidManagementIdentityCommand ''one or more Tenant scopes do not exist''))"

definition new_principal :: "request \<Rightarrow> nat \<Rightarrow> pystr \<Rightarrow> bool \<Rightarrow> uuid set \<Rightarrow> exc + mgmt_principal" where
  "new_principal rq i name mgr ts = value_error_as InvalidManagementIdentityCommand (mgmt_principal_init
     \<lparr>mpr_id = id_at rq i, mpr_display_name = name, mpr_can_manage = mgr, mpr_tenant_ids = ts,
      mpr_created_at = clock rq 0, mpr_disabled_at = None\<rparr>)"

definition new_credential :: "platform \<Rightarrow> mgmt_service \<Rightarrow> request \<Rightarrow> nat \<Rightarrow> uuid \<Rightarrow> pystr option \<Rightarrow>
    datetime option \<Rightarrow> exc + (mgmt_credential \<times> pystr)" where
  "new_credential pf sv rq i p label expires =
     (case generate_bearer_token rq (id_at rq i) of (token, secret) \<Rightarrow>
        map_sum id (\<lambda>c. (c, token)) (value_error_as InvalidManagementIdentityCommand (mgmt_credential_init
          \<lparr>mcr_id = id_at rq i, mcr_principal_id = p, mcr_verifier = secret_verifier pf secret (ms_pepper sv),
           mcr_label = label, mcr_created_at = clock rq 0, mcr_expires_at = expires,
           mcr_revoked_at = None\<rparr>)))"

definition principal_fingerprint :: "platform \<Rightarrow> mgmt_principal \<Rightarrow> pystr" where
  "principal_fingerprint pf p = management_principal_fingerprint pf (mpr_id p) (mpr_display_name p)
     (mpr_tenant_ids p) (mpr_can_manage p) (\<not> mgmt_is_active p)"

definition utc_text :: "platform \<Rightarrow> datetime \<Rightarrow> exc + pystr" where
  "utc_text pf t = map_sum id isoformat (overflow_guard (astimezone_utc pf t))"

definition credential_fingerprint :: "platform \<Rightarrow> mgmt_credential \<Rightarrow> exc + pystr" where
  "credential_fingerprint pf c = and_then (utc_text pf (mcr_created_at c)) (\<lambda>created.
     and_then (case mcr_expires_at c of None \<Rightarrow> Inr None | Some x \<Rightarrow> map_sum id Some (utc_text pf x))
       (\<lambda>expires. Inr (management_credential_fingerprint pf (mcr_id c) (mcr_principal_id c) (mcr_label c)
          created expires (mcr_revoked_at c \<noteq> None))))"

definition principal_audit :: "platform \<Rightarrow> request \<Rightarrow> nat \<Rightarrow> uuid \<Rightarrow> mgmt_principal \<Rightarrow>
    mgmt_principal option \<Rightarrow> audit_action \<Rightarrow> audit_record" where
  "principal_audit pf rq i actor after before action =
     \<lparr>aud_audit_id = id_at rq i, aud_principal_id = uuid_str actor, aud_tenant_id = None,
      aud_action = action, aud_resource_type = MANAGEMENT_PRINCIPAL, aud_resource_id = mpr_id after,
      aud_outcome = AuditSucceeded, aud_occurred_at = clock rq 0,
      aud_before_fingerprint = map_option (principal_fingerprint pf) before,
      aud_after_fingerprint = Some (principal_fingerprint pf after)\<rparr>"

definition audit_principal :: "platform \<Rightarrow> request \<Rightarrow> nat \<Rightarrow> uuid \<Rightarrow> mgmt_principal \<Rightarrow>
    mgmt_principal option \<Rightarrow> audit_action \<Rightarrow> unit tx" where
  "audit_principal pf rq i actor after before action =
     audit_write (principal_audit pf rq i actor after before action)"

definition credential_audit :: "request \<Rightarrow> nat \<Rightarrow> uuid \<Rightarrow> mgmt_credential \<Rightarrow> pystr option \<Rightarrow> pystr \<Rightarrow>
    audit_action \<Rightarrow> audit_record" where
  "credential_audit rq i actor after fb fa action =
     \<lparr>aud_audit_id = id_at rq i, aud_principal_id = uuid_str actor, aud_tenant_id = None,
      aud_action = action, aud_resource_type = MANAGEMENT_CREDENTIAL, aud_resource_id = mcr_id after,
      aud_outcome = AuditSucceeded, aud_occurred_at = clock rq 0,
      aud_before_fingerprint = fb, aud_after_fingerprint = Some fa\<rparr>"

definition audit_credential :: "platform \<Rightarrow> request \<Rightarrow> nat \<Rightarrow> uuid \<Rightarrow> mgmt_credential \<Rightarrow>
    mgmt_credential option \<Rightarrow> audit_action \<Rightarrow> unit tx" where
  "audit_credential pf rq i actor after before action =
     bnd (lift (case before of None \<Rightarrow> Inr None | Some b \<Rightarrow> map_sum id Some (credential_fingerprint pf b)))
       (\<lambda>fb. bnd (lift (credential_fingerprint pf after))
       (\<lambda>fa. audit_write (credential_audit rq i actor after fb fa action)))"

definition bootstrap :: "platform \<Rightarrow> mgmt_service \<Rightarrow> request \<Rightarrow> pystr \<Rightarrow> pystr \<Rightarrow> uuid set \<Rightarrow>
    (exc, db, mgmt_principal \<times> mgmt_credential \<times> pystr) op" where
  "bootstrap pf sv rq token name ts =
     bnd (lift (compare_digest token (ms_bootstrap_token sv))) (\<lambda>same.
     bnd (raise_if (\<not> same) BootstrapAuthenticationFailed) (\<lambda>_.
     with_uow (commit_after (
       bnd (query mgmt_principal_count) (\<lambda>n.
       bnd (raise_if (n \<noteq> 0) BootstrapAlreadyCompleted) (\<lambda>_.
       bnd (require_tenants ts) (\<lambda>_.
       bnd (lift (new_principal rq 0 name True ts)) (\<lambda>p.
       bnd (lift (new_credential pf sv rq 1 (mpr_id p) (Some (lit ''bootstrap'')) None)) (\<lambda>issued.
       bnd (mgmt_principal_add p) (\<lambda>_.
       bnd (mgmt_credential_add (fst issued)) (\<lambda>_.
       ret (p, issued))))))))))))"

definition create_principal :: "platform \<Rightarrow> request \<Rightarrow> actor \<Rightarrow> pystr \<Rightarrow> uuid set \<Rightarrow> bool \<Rightarrow>
    (exc, db, mgmt_principal) op" where
  "create_principal pf rq a name ts mgr = bnd (require_manager a) (\<lambda>_.
     with_uow (commit_after (
       bnd (require_tenants ts) (\<lambda>_.
       bnd (lift (new_principal rq 0 name mgr ts)) (\<lambda>p.
       bnd (mgmt_principal_add p) (\<lambda>_.
       bnd (audit_principal pf rq 1 (act_id a) p None MANAGEMENT_PRINCIPAL_CREATED) (\<lambda>_.
       ret p)))))))"

definition get_principal :: "platform \<Rightarrow> actor \<Rightarrow> uuid \<Rightarrow> (exc, db, mgmt_principal) op" where
  "get_principal pf a i = bnd (require_manager a) (\<lambda>_.
     bnd (with_uow (mgmt_principal_get pf i)) (\<lambda>p.
     case p of None \<Rightarrow> throw ManagementPrincipalNotFound | Some p \<Rightarrow> ret p))"

definition future_expiry :: "request \<Rightarrow> datetime option \<Rightarrow> exc + unit" where
  "future_expiry rq expires = (case expires of None \<Rightarrow> Inr () | Some x \<Rightarrow> checked
     [(\<not> is_aware x, InvalidManagementIdentityCommand ''expires_at must include a timezone offset''),
      (instant x \<le> clock_at rq 0, InvalidManagementIdentityCommand ''expires_at must be in the future'')] ())"

definition issue_credential :: "platform \<Rightarrow> mgmt_service \<Rightarrow> request \<Rightarrow> actor \<Rightarrow> uuid \<Rightarrow> pystr option \<Rightarrow>
    datetime option \<Rightarrow> (exc, db, mgmt_credential \<times> pystr) op" where
  "issue_credential pf sv rq a i label expires = bnd (require_manager a) (\<lambda>_.
     bnd (lift (future_expiry rq expires)) (\<lambda>_.
     with_uow (commit_after (
       bnd (mgmt_principal_get pf i) (\<lambda>p.
       case p of None \<Rightarrow> throw ManagementPrincipalNotFound
       | Some p \<Rightarrow>
         bnd (raise_if (\<not> mgmt_is_active p) ManagementPrincipalNotFound) (\<lambda>_.
         bnd (lift (new_credential pf sv rq 0 (mpr_id p) label expires)) (\<lambda>issued.
         bnd (mgmt_credential_add (fst issued)) (\<lambda>_.
         bnd (audit_credential pf rq 1 (act_id a) (fst issued) None MANAGEMENT_CREDENTIAL_ISSUED) (\<lambda>_.
         ret issued)))))))))"

definition set_scopes :: "platform \<Rightarrow> request \<Rightarrow> actor \<Rightarrow> uuid \<Rightarrow> uuid set \<Rightarrow> (exc, db, mgmt_principal) op" where
  "set_scopes pf rq a i ts = bnd (require_manager a) (\<lambda>_.
     with_uow (commit_after (
       bnd (mgmt_principal_get pf i) (\<lambda>p.
       case p of None \<Rightarrow> throw ManagementPrincipalNotFound
       | Some p \<Rightarrow>
         bnd (require_tenants ts) (\<lambda>_.
         bnd (lift (with_tenant_scopes p ts)) (\<lambda>updated.
         bnd (mgmt_replace_scopes updated) (\<lambda>_.
         bnd (audit_principal pf rq 0 (act_id a) updated (Some p) MANAGEMENT_PRINCIPAL_SCOPES_SET) (\<lambda>_.
         ret updated))))))))"

text \<open>
  The guard of a revocation: the last usable credential of an enabled manager may go only when
  another manager can still sign in.
\<close>

definition keeps_a_manager :: "platform \<Rightarrow> request \<Rightarrow> mgmt_principal \<Rightarrow> mgmt_credential \<Rightarrow> unit tx" where
  "keeps_a_manager pf rq p c =
     (if mgmt_is_active p \<and> mpr_can_manage p
      then bnd (query (has_recoverable_manager (db_now rq) (Some (mpr_id p)))) (\<lambda>other.
           bnd (mgmt_credentials_of pf (mpr_id p)) (\<lambda>items.
           raise_if (\<not> other \<and> length (filter (\<lambda>x. mcr_id x \<noteq> mcr_id c \<and> mgmt_is_usable_at x (clock rq 0)) items) = 0)
             LastPrincipalManagerConflict))
      else ret ())"

definition revoke_credential :: "platform \<Rightarrow> request \<Rightarrow> actor \<Rightarrow> uuid \<Rightarrow> uuid \<Rightarrow>
    (exc, db, mgmt_credential) op" where
  "revoke_credential pf rq a i ci = bnd (require_manager a) (\<lambda>_.
     with_uow (commit_after (
       bnd (mgmt_principal_get pf i) (\<lambda>p.
       bnd (mgmt_credential_get pf ci) (\<lambda>c.
       case (p, c) of
         (None, _) \<Rightarrow> throw ManagementPrincipalNotFound
       | (Some p, None) \<Rightarrow> throw ManagementCredentialNotFound
       | (Some p, Some c) \<Rightarrow>
         bnd (raise_if (mcr_principal_id c \<noteq> mpr_id p) ManagementCredentialNotFound) (\<lambda>_.
         bnd (raise_if (mcr_revoked_at c \<noteq> None) ManagementCredentialNotFound) (\<lambda>_.
         bnd (keeps_a_manager pf rq p c) (\<lambda>_.
         bnd (lift (mgmt_revoke c (clock rq 0))) (\<lambda>revoked.
         bnd (mgmt_revoke_row revoked) (\<lambda>_.
         bnd (audit_credential pf rq 0 (act_id a) revoked (Some c) MANAGEMENT_CREDENTIAL_REVOKED) (\<lambda>_.
         ret revoked)))))))))))"

definition disable_principal :: "platform \<Rightarrow> request \<Rightarrow> actor \<Rightarrow> uuid \<Rightarrow> (exc, db, mgmt_principal) op" where
  "disable_principal pf rq a i = bnd (require_manager a) (\<lambda>_.
     with_uow (commit_after (
       bnd (mgmt_principal_get pf i) (\<lambda>p.
       case p of None \<Rightarrow> throw ManagementPrincipalNotFound
       | Some p \<Rightarrow>
         bnd (raise_if (\<not> mgmt_is_active p) ManagementPrincipalNotFound) (\<lambda>_.
         bnd (query (has_recoverable_manager (db_now rq) (Some (mpr_id p)))) (\<lambda>other.
         bnd (raise_if (mpr_can_manage p \<and> \<not> other) LastPrincipalManagerConflict) (\<lambda>_.
         bnd (lift (mgmt_disable p (clock rq 0))) (\<lambda>disabled.
         bnd (mgmt_disable_row disabled) (\<lambda>_.
         bnd (audit_principal pf rq 0 (act_id a) disabled (Some p) MANAGEMENT_PRINCIPAL_DISABLED) (\<lambda>_.
         ret disabled))))))))))"

end
