(* ===== verification/WriteOnce.thy ===== *)
theory WriteOnce
  imports Store
begin

text \<open>
  A table whose rows are never deleted and in which one nullable column is written at most
  once: revocation of a credential, disabling of a principal, usage limits and identity
  continuity of a runtime principal. The locale states the contract of one step; its lemmas
  lift it to every sequence of steps. The identity services interpret it on their tables.
\<close>

locale write_once =
  fixes rows :: "'s \<Rightarrow> 'r list"
    and key :: "'r \<Rightarrow> 'k"
    and column :: "'r \<Rightarrow> 'v option"
    and core :: "'r \<Rightarrow> 'c"
    and step :: "'s \<Rightarrow> 's \<Rightarrow> bool"
  assumes step_row: "step s s' \<Longrightarrow> r \<in> set (rows s) \<Longrightarrow>
      \<exists>r' \<in> set (rows s'). key r' = key r \<and> core r' = core r \<and> (column r' = column r \<or> column r = None)"
    and step_distinct: "step s s' \<Longrightarrow> distinct (map key (rows s)) \<Longrightarrow> distinct (map key (rows s'))"
begin

lemma steps_distinct:
  "step\<^sup>*\<^sup>* s s' \<Longrightarrow> distinct (map key (rows s)) \<Longrightarrow> distinct (map key (rows s'))"
  by (induction rule: rtranclp_induct) (auto dest: step_distinct)

lemma steps_row:
  assumes "step\<^sup>*\<^sup>* s s'" "r \<in> set (rows s)"
  shows "\<exists>r' \<in> set (rows s'). key r' = key r \<and> core r' = core r \<and> (column r' = column r \<or> column r = None)"
  using assms
proof (induction rule: rtranclp_induct)
  case (step y z)
  then obtain r' where r': "r' \<in> set (rows y)" "key r' = key r" "core r' = core r"
    "column r' = column r \<or> column r = None" by blast
  from step_row [OF step.hyps(2) r'(1)] show ?case using r' by auto
qed auto

text \<open>The primary-key lookup after any steps: the same row, the written column unchanged.\<close>

lemma lookup_kept:
  assumes "step\<^sup>*\<^sup>* s s'" "distinct (map key (rows s))" "row_of key k (rows s) = Some r"
  shows "\<exists>r'. row_of key k (rows s') = Some r' \<and> core r' = core r
    \<and> (\<forall>v. column r = Some v \<longrightarrow> column r' = Some v)"
proof -
  have r: "r \<in> set (rows s)" "key r = k" using assms(3) by (auto dest: row_of_SomeD)
  obtain r' where r': "r' \<in> set (rows s')" "key r' = k" "core r' = core r"
    "column r' = column r \<or> column r = None"
    using steps_row [OF assms(1) r(1)] r(2) by blast
  have "row_of key k (rows s') = Some r'"
    using steps_distinct [OF assms(1,2)] r'(1,2) by (simp add: row_of_Some_iff)
  then show ?thesis using r' by auto
qed

end

text \<open>The two ways a step touches such a table: appending rows, and writing the column.\<close>

lemma write_once_append:
  "r \<in> set rs \<Longrightarrow> \<exists>r' \<in> set (rs @ new). key r' = key r \<and> core r' = core r \<and> (column r' = column r \<or> column r = None)"
  by (intro bexI [of _ r]) auto

lemma write_once_update:
  assumes "r \<in> set rs" "\<And>q. q \<in> set rs \<Longrightarrow> p q \<Longrightarrow> column q = None"
    "\<And>q. key (f q) = key q" "\<And>q. core (f q) = core q"
  shows "\<exists>r' \<in> set (update_rows p f rs). key r' = key r \<and> core r' = core r
    \<and> (column r' = column r \<or> column r = None)"
  using assms by (intro bexI [of _ "if p r then f r else r"]) (auto simp: set_update_rows)

end
