(* ===== verification/Atomicity.thy ===== *)
theory Atomicity
  imports Store
begin

text \<open>
  Atomic use cases: one that raises leaves the tables as it found them. The property is closed
  under the shapes the handlers have, checks that only read followed by one unit of work that
  commits last, so it is proved for a handler by following its text.
\<close>

definition atomic :: "('e, 's, 'a) op \<Rightarrow> bool" where
  "atomic m \<longleftrightarrow> (\<forall>s e s'. m s = (Inl e, s') \<longrightarrow> s' = s)"

definition void :: "('e, 's, 'a) op \<Rightarrow> ('e, 's, unit) op" where
  "void m = bnd m (\<lambda>_. ret ())"

lemma atomicD: "atomic m \<Longrightarrow> m s = (Inl e, s') \<Longrightarrow> s' = s"
  by (simp add: atomic_def)

lemma atomic_uow: "keeps committed m \<Longrightarrow> atomic (with_uow (commit_after m))"
  unfolding atomic_def using commit_after_atomic by blast

lemma atomic_checks [intro, simp]:
  "atomic (lift r)" "atomic (raise_if c e)" "atomic (throw e)" "atomic (ret a)" "atomic (reads f)"
  by (simp_all add: atomic_def)

lemma atomic_bnd:
  assumes "keeps (\<lambda>s. s) m" "\<And>a. atomic (f a)"
  shows "atomic (bnd m f)"
  unfolding atomic_def
proof (intro allI impI)
  fix s e s'
  assume run: "bnd m f s = (Inl e, s')"
  then consider "m s = (Inl e, s')" | a t where "m s = (Inr a, t)" "f a t = (Inl e, s')"
    by (auto simp: bnd_Inl_iff)
  then show "s' = s"
  proof cases
    case 1
    then show ?thesis using keepsD [OF assms(1)] by blast
  next
    case 2
    then show ?thesis using keepsD [OF assms(1) 2(1)] atomicD [OF assms(2) 2(2)] by simp
  qed
qed

lemma void_Inr_iff: "void m s = (Inr u, s') \<longleftrightarrow> (\<exists>a. m s = (Inr a, s'))"
  by (auto simp: void_def op_inv)

lemma void_Inl_iff: "void m s = (Inl e, s') \<longleftrightarrow> m s = (Inl e, s')"
  by (auto simp: void_def bnd_Inl_iff)

lemma atomic_void [simp]: "atomic (void m) = atomic m"
  by (simp add: atomic_def void_Inl_iff)

lemma keeps_throw_None [intro]:
  "(\<And>p. keeps v (f p)) \<Longrightarrow> keeps v (case o' of None \<Rightarrow> throw x | Some p \<Rightarrow> f p)"
  by (cases o') auto

lemmas atomic_intros = atomic_bnd atomic_uow keeps_bnd

end
