(* ===== verification/MgmtLifecycle.thy ===== *)
theory MgmtLifecycle
  imports MgmtIdentity WriteOnce Atomicity
begin

text \<open>
  What the operations of \<open>ManagementIdentityService\<close> do to the tables, and what every sequence
  of them keeps: each mutating operation either fails and changes nothing, or makes its one
  change and, bootstrap apart, appends exactly one audit record; principals and credentials are
  never removed, revocation and disabling are final; and as long as operations run at or after
  a time, an enabled manager with a credential live at that time remains.
\<close>

lemma guard_Inr_iff [simp]: "(if c then Inl e else Inr a) = Inr b \<longleftrightarrow> \<not> c \<and> a = b"
  by simp

subsection \<open>Reading rows back\<close>

definition principal_row_ok :: "mgmt_principal_row \<Rightarrow> bool" where
  "principal_row_ok r \<longleftrightarrow> mp_display_name r \<noteq> [] \<and> length (mp_display_name r) \<le> 100
     \<and> canonical (mp_display_name r) = mp_display_name r"

definition credential_row_ok :: "mgmt_credential_row \<Rightarrow> bool" where
  "credential_row_ok r \<longleftrightarrow> is_hex64 (mc_secret_verifier r)
     \<and> opt_ok (\<lambda>l. l \<noteq> [] \<and> length l \<le> 100 \<and> canonical l = l) (mc_label r)
     \<and> opt_ok (\<lambda>x. mc_created_at r < x) (mc_expires_at r)"

text \<open>The invariant of the management tables.\<close>

definition mgmt_ok :: "db \<Rightarrow> bool" where
  "mgmt_ok d \<longleftrightarrow> distinct (map mp_principal_id (mgmt_principals d))
     \<and> distinct (map mc_credential_id (mgmt_credentials d)) \<and> distinct (mgmt_scopes d)
     \<and> (\<forall>r \<in> set (mgmt_principals d). principal_row_ok r)
     \<and> (\<forall>r \<in> set (mgmt_credentials d). credential_row_ok r
          \<and> mc_principal_id r \<in> mp_principal_id ` set (mgmt_principals d))
     \<and> (\<forall>r \<in> set (mgmt_scopes d). sc_principal_id r \<in> mp_principal_id ` set (mgmt_principals d)
          \<and> sc_tenant_id r \<in> tr_id ` set (tenants d))"

definition principal_at :: "platform \<Rightarrow> mgmt_principal_row \<Rightarrow> db \<Rightarrow> mgmt_principal" where
  "principal_at pf r d = \<lparr>mpr_id = mp_principal_id r, mpr_display_name = mp_display_name r,
      mpr_can_manage = mp_can_manage_principals r, mpr_tenant_ids = scopes_of (mp_principal_id r) d,
      mpr_created_at = from_db pf (mp_created_at r),
      mpr_disabled_at = map_option (from_db pf) (mp_disabled_at r)\<rparr>"

definition credential_at :: "platform \<Rightarrow> mgmt_credential_row \<Rightarrow> mgmt_credential" where
  "credential_at pf r = \<lparr>mcr_id = mc_credential_id r, mcr_principal_id = mc_principal_id r,
      mcr_verifier = mc_secret_verifier r, mcr_label = mc_label r,
      mcr_created_at = from_db pf (mc_created_at r),
      mcr_expires_at = map_option (from_db pf) (mc_expires_at r),
      mcr_revoked_at = map_option (from_db pf) (mc_revoked_at r)\<rparr>"

lemma normalize_display_name_Inr_iff:
  "normalize_display_name v = Inr n \<longleftrightarrow> n = canonical v \<and> n \<noteq> [] \<and> length n \<le> 100"
  by (auto simp: normalize_display_name_def Let_def)

lemma mgmt_principal_init_Inr_iff:
  "mgmt_principal_init p = Inr q \<longleftrightarrow> q = p\<lparr>mpr_display_name := canonical (mpr_display_name p)\<rparr>
     \<and> canonical (mpr_display_name p) \<noteq> [] \<and> length (canonical (mpr_display_name p)) \<le> 100
     \<and> is_aware (mpr_created_at p) \<and> opt_ok is_aware (mpr_disabled_at p)"
  by (auto simp: mgmt_principal_init_def and_then_Inr_iff normalize_display_name_Inr_iff)

lemma mgmt_credential_init_Inr_iff:
  "mgmt_credential_init c = Inr q \<longleftrightarrow> q = c\<lparr>mcr_label := normalized_label (mcr_label c)\<rparr>
     \<and> opt_ok (\<lambda>l. length l \<le> 100) (normalized_label (mcr_label c)) \<and> is_hex64 (mcr_verifier c)
     \<and> is_aware (mcr_created_at c) \<and> opt_ok is_aware (mcr_expires_at c) \<and> opt_ok is_aware (mcr_revoked_at c)
     \<and> opt_ok (\<lambda>x. instant (mcr_created_at c) < instant x) (mcr_expires_at c)"
  by (auto simp: mgmt_credential_init_def Let_def)

lemma opt_ok_map [simp]: "opt_ok p (map_option f x) = opt_ok (p \<circ> f) x"
  by (cases x) auto

lemma principal_of_row: "principal_row_ok r \<Longrightarrow> mgmt_principal_of pf r d = Inr (principal_at pf r d)"
  by (simp add: mgmt_principal_of_def mgmt_principal_init_Inr_iff principal_row_ok_def principal_at_def)
     (simp add: opt_ok_def split: option.split)

lemma normalized_label_ok: "opt_ok (\<lambda>l. l \<noteq> [] \<and> length l \<le> 100 \<and> canonical l = l) l \<Longrightarrow> normalized_label l = l"
  by (cases l) (auto simp: normalized_label_def)

lemma credential_of_row: "credential_row_ok r \<Longrightarrow> mgmt_credential_of pf r = Inr (credential_at pf r)"
  by (simp add: mgmt_credential_of_def mgmt_credential_init_Inr_iff credential_row_ok_def
      credential_at_def normalized_label_ok)
     (auto simp: opt_ok_def split: option.splits)

lemma mgmt_principal_get_run:
  "mgmt_principal_get pf i s = (case row_of mp_principal_id i (mgmt_principals (working s)) of None \<Rightarrow> Inr None
     | Some r \<Rightarrow> map_sum id Some (mgmt_principal_of pf r (working s)), s)"
  by (simp add: mgmt_principal_get_def op_simps split: option.split)

lemma mgmt_credential_get_run:
  "mgmt_credential_get pf i s = (case row_of mc_credential_id i (mgmt_credentials (working s)) of None \<Rightarrow> Inr None
     | Some r \<Rightarrow> map_sum id Some (mgmt_credential_of pf r), s)"
  by (simp add: mgmt_credential_get_def op_simps split: option.split)

lemma get_Inr_Some_iff [op_inv]:
  "mgmt_principal_get pf i s = (Inr p, s') \<longleftrightarrow> s' = s \<and>
     (case row_of mp_principal_id i (mgmt_principals (working s)) of None \<Rightarrow> p = None
      | Some r \<Rightarrow> (\<exists>q. mgmt_principal_of pf r (working s) = Inr q \<and> p = Some q))"
  "mgmt_credential_get pf i s = (Inr c, s') \<longleftrightarrow> s' = s \<and>
     (case row_of mc_credential_id i (mgmt_credentials (working s)) of None \<Rightarrow> c = None
      | Some r \<Rightarrow> (\<exists>q. mgmt_credential_of pf r = Inr q \<and> c = Some q))"
  by (auto simp: mgmt_principal_get_run mgmt_credential_get_run map_sum_Inr_iff split: option.splits)

subsection \<open>Effects\<close>

lemma scope_insert_Inr_iff:
  "scope_insert r d = Inr d' \<longleftrightarrow> r \<notin> set (mgmt_scopes d)
     \<and> sc_principal_id r \<in> mp_principal_id ` set (mgmt_principals d) \<and> sc_tenant_id r \<in> tr_id ` set (tenants d)
     \<and> d' = d\<lparr>mgmt_scopes := mgmt_scopes d @ [r]\<rparr>"
  by (auto simp: scope_insert_def failure_defs)

lemma scopes_insert_InrD:
  "scopes_insert rs d = Inr d' \<Longrightarrow> d' = d\<lparr>mgmt_scopes := mgmt_scopes d @ rs\<rparr>
     \<and> (distinct (mgmt_scopes d) \<longrightarrow> distinct (mgmt_scopes d @ rs))
     \<and> (\<forall>r \<in> set rs. sc_principal_id r \<in> mp_principal_id ` set (mgmt_principals d)
          \<and> sc_tenant_id r \<in> tr_id ` set (tenants d))"
proof (induction rs arbitrary: d)
  case Nil
  then show ?case by simp
next
  case (Cons r rs)
  then obtain d1 where d1: "scope_insert r d = Inr d1" "scopes_insert rs d1 = Inr d'"
    by (auto simp: and_then_Inr_iff)
  then show ?case using Cons.IH [OF d1(2)] by (auto simp: scope_insert_Inr_iff)
qed

lemma mgmt_principal_insert_Inr_iff:
  "mgmt_principal_insert r d = Inr d' \<longleftrightarrow> text_fits 100 (mp_display_name r)
     \<and> mp_principal_id r \<notin> mp_principal_id ` set (mgmt_principals d)
     \<and> d' = d\<lparr>mgmt_principals := mgmt_principals d @ [r]\<rparr>"
  by (auto simp: mgmt_principal_insert_def failure_defs)

lemma mgmt_credential_insert_Inr_iff:
  "mgmt_credential_insert r d = Inr d' \<longleftrightarrow> text_fits 64 (mc_secret_verifier r) \<and> is_hex64 (mc_secret_verifier r)
     \<and> opt_ok (text_fits 100) (mc_label r) \<and> mc_credential_id r \<notin> mc_credential_id ` set (mgmt_credentials d)
     \<and> mc_principal_id r \<in> mp_principal_id ` set (mgmt_principals d)
     \<and> d' = d\<lparr>mgmt_credentials := mgmt_credentials d @ [r]\<rparr>"
  by (auto simp: mgmt_credential_insert_def failure_defs)

lemma scope_rows_ids [simp]:
  "sc_principal_id ` set (scope_rows p) \<subseteq> {mpr_id p}" "r \<in> set (scope_rows p) \<Longrightarrow> sc_principal_id r = mpr_id p"
  by (auto simp: scope_rows_def)

lemma value_error_as_Inr_iff: "value_error_as err r = Inr a \<longleftrightarrow> r = Inr a"
proof (cases r)
  case (Inl e)
  then show ?thesis by (cases e) (simp_all add: value_error_as_def)
qed (simp add: value_error_as_def)

text \<open>A principal that was just built: identity, name, scopes and state.\<close>

lemma new_principal_Inr:
  "new_principal rq i name mgr ts = Inr p \<longleftrightarrow> canonical name \<noteq> [] \<and> length (canonical name) \<le> 100
     \<and> p = \<lparr>mpr_id = id_at rq i, mpr_display_name = canonical name, mpr_can_manage = mgr, mpr_tenant_ids = ts,
          mpr_created_at = clock rq 0, mpr_disabled_at = None\<rparr>"
  by (auto simp: new_principal_def value_error_as_Inr_iff mgmt_principal_init_Inr_iff)

lemma new_credential_Inr:
  "new_credential pf sv rq i pid label expires = Inr (c, token) \<longleftrightarrow>
     token = bearer_prefix @ [95] @ uuid_str (id_at rq i) @ [95] @ secret_token rq
     \<and> opt_ok (\<lambda>l. length l \<le> 100) (normalized_label label)
     \<and> is_hex64 (secret_verifier pf (secret_token rq) (ms_pepper sv))
     \<and> opt_ok is_aware expires \<and> opt_ok (\<lambda>x. clock_at rq 0 < instant x) expires
     \<and> c = \<lparr>mcr_id = id_at rq i, mcr_principal_id = pid,
          mcr_verifier = secret_verifier pf (secret_token rq) (ms_pepper sv),
          mcr_label = normalized_label label, mcr_created_at = clock rq 0, mcr_expires_at = expires,
          mcr_revoked_at = None\<rparr>"
  by (auto simp: new_credential_def generate_bearer_token_def value_error_as_Inr_iff map_sum_Inr_iff
      mgmt_credential_init_Inr_iff)

lemma keeps_mgmt [simp, intro]:
  "keeps v (mgmt_principal_get pf i)" "keeps v (mgmt_credential_get pf i)" "keeps v (mgmt_credentials_of pf i)"
  "keeps v (require_tenants ts)" "keeps v (keeps_a_manager pf rq p c)"
  "keeps committed (mgmt_principal_add p)" "keeps committed (mgmt_credential_add c)"
  "keeps committed (mgmt_replace_scopes p)" "keeps committed (mgmt_disable_row p)"
  "keeps committed (mgmt_revoke_row c)" "keeps committed (audit_principal pf rq n actor after before action)"
  "keeps committed (audit_credential pf rq n actor cafter cbefore action)"
  unfolding mgmt_principal_get_def mgmt_credential_get_def mgmt_credentials_of_def require_tenants_def
    keeps_a_manager_def mgmt_principal_add_def mgmt_credential_add_def
    mgmt_replace_scopes_def mgmt_disable_row_def mgmt_revoke_row_def audit_principal_def audit_credential_def
  by (auto intro!: keeps_bnd keeps_if keeps_case_option)

lemma keeps_require_manager [simp, intro]: "keeps v (require_manager a)"
  by (simp add: require_manager_def)

lemma mgmt_principal_add_Inr_iff [op_inv]:
  "mgmt_principal_add p s = (Inr u, s') \<longleftrightarrow>
     (\<exists>d1 d2. mgmt_principal_insert (principal_rows p) (working s) = Inr d1 \<and> scopes_insert (scope_rows p) d1 = Inr d2
        \<and> s' = s\<lparr>working := d2\<rparr>)"
  by (auto simp: mgmt_principal_add_def op_inv and_then_Inr_iff)

lemma mgmt_credential_add_Inr_iff [op_inv]:
  "mgmt_credential_add c s = (Inr u, s') \<longleftrightarrow>
     (\<exists>d. mgmt_credential_insert (mgmt_credential_to_row c) (working s) = Inr d \<and> s' = s\<lparr>working := d\<rparr>)"
  by (simp add: mgmt_credential_add_def op_inv)

lemma require_tenants_Inr_iff [op_inv]:
  "require_tenants ts s = (Inr u, s') \<longleftrightarrow> s' = s \<and> (ts = {} \<or> all_exist ts (working s))"
  by (auto simp: require_tenants_def op_inv)

lemma audit_principal_InrD:
  "audit_principal pf rq i actor after before action s = (Inr u, s') \<Longrightarrow>
     s' = s\<lparr>working := (working s)\<lparr>audits := audits (working s)
        @ [audit_to_row (principal_audit pf rq i actor after before action)]\<rparr>\<rparr>"
  by (auto simp: audit_principal_def dest!: audit_write_InrD)

lemma audit_credential_InrD:
  "audit_credential pf rq i actor after before action s = (Inr u, s') \<Longrightarrow>
     \<exists>fb fa. credential_fingerprint pf after = Inr fa
       \<and> (case before of None \<Rightarrow> fb = None | Some b \<Rightarrow> \<exists>f. credential_fingerprint pf b = Inr f \<and> fb = Some f)
       \<and> s' = s\<lparr>working := (working s)\<lparr>audits := audits (working s)
           @ [audit_to_row (credential_audit rq i actor after fb fa action)]\<rparr>\<rparr>"
  by (auto simp: audit_credential_def op_inv map_sum_Inr_iff dest!: audit_write_InrD split: option.splits)

text \<open>Creating a principal, by bootstrap and by a manager.\<close>

lemma mgmt_principal_added:
  assumes "mgmt_principal_insert (principal_rows p) d = Inr d1" "scopes_insert (scope_rows p) d1 = Inr d2"
  shows "d2 = d\<lparr>mgmt_principals := mgmt_principals d @ [principal_rows p],
      mgmt_scopes := mgmt_scopes d @ scope_rows p\<rparr>"
    "mpr_id p \<notin> mp_principal_id ` set (mgmt_principals d)"
    "distinct (mgmt_scopes d) \<Longrightarrow> distinct (mgmt_scopes d @ scope_rows p)"
    "\<forall>r \<in> set (scope_rows p). sc_tenant_id r \<in> tr_id ` set (tenants d)"
  using assms scopes_insert_InrD [OF assms(2)] by (auto simp: mgmt_principal_insert_Inr_iff principal_rows_def)

lemma bootstrap_effect:
  assumes "bootstrap pf sv rq token name ts d = (Inr (p, c, bearer), d')"
  shows "mgmt_principals d = []" "token = ms_bootstrap_token sv"
    "new_principal rq 0 name True ts = Inr p"
    "new_credential pf sv rq 1 (mpr_id p) (Some (lit ''bootstrap'')) None = Inr (c, bearer)"
    "mgmt_principal_insert (principal_rows p) d = Inr (d\<lparr>mgmt_principals := [principal_rows p]\<rparr>)"
    "distinct (mgmt_scopes d) \<Longrightarrow> distinct (mgmt_scopes d @ scope_rows p)"
    "\<forall>r \<in> set (scope_rows p). sc_tenant_id r \<in> tr_id ` set (tenants d)"
    "mcr_id c \<notin> mc_credential_id ` set (mgmt_credentials d)"
    "d' = d\<lparr>mgmt_principals := [principal_rows p], mgmt_scopes := mgmt_scopes d @ scope_rows p,
       mgmt_credentials := mgmt_credentials d @ [mgmt_credential_to_row c]\<rparr>"
proof -
  obtain d1 d2 where e: "token = ms_bootstrap_token sv" "mgmt_principals d = []"
    "new_principal rq 0 name True ts = Inr p"
    "new_credential pf sv rq 1 (mpr_id p) (Some (lit ''bootstrap'')) None = Inr (c, bearer)"
    "mgmt_principal_insert (principal_rows p) d = Inr d1" "scopes_insert (scope_rows p) d1 = Inr d2"
    "mgmt_credential_insert (mgmt_credential_to_row c) d2 = Inr d'"
    using assms
    by (auto simp: bootstrap_def op_inv commit_after_publishes compare_digest_def mgmt_principal_count_def
        split: if_splits)
  note a = mgmt_principal_added [OF e(5,6)]
  show "mgmt_principals d = []" "token = ms_bootstrap_token sv" "new_principal rq 0 name True ts = Inr p"
    "new_credential pf sv rq 1 (mpr_id p) (Some (lit ''bootstrap'')) None = Inr (c, bearer)"
    using e by simp_all
  show "mgmt_principal_insert (principal_rows p) d = Inr (d\<lparr>mgmt_principals := [principal_rows p]\<rparr>)"
    using e(2,5) by (auto simp: mgmt_principal_insert_Inr_iff)
  show "distinct (mgmt_scopes d) \<Longrightarrow> distinct (mgmt_scopes d @ scope_rows p)"
    "\<forall>r \<in> set (scope_rows p). sc_tenant_id r \<in> tr_id ` set (tenants d)" using a by simp_all
  show "mcr_id c \<notin> mc_credential_id ` set (mgmt_credentials d)"
    "d' = d\<lparr>mgmt_principals := [principal_rows p], mgmt_scopes := mgmt_scopes d @ scope_rows p,
       mgmt_credentials := mgmt_credentials d @ [mgmt_credential_to_row c]\<rparr>"
    using e(2,7) a(1) by (auto simp: mgmt_credential_insert_Inr_iff mgmt_credential_to_row_def)
qed

lemma create_principal_effect:
  assumes "create_principal pf rq a name ts mgr d = (Inr p, d')"
  shows "act_can_manage a" "new_principal rq 0 name mgr ts = Inr p"
    "mpr_id p \<notin> mp_principal_id ` set (mgmt_principals d)"
    "distinct (mgmt_scopes d) \<Longrightarrow> distinct (mgmt_scopes d @ scope_rows p)"
    "\<forall>r \<in> set (scope_rows p). sc_tenant_id r \<in> tr_id ` set (tenants d)"
    "d' = d\<lparr>mgmt_principals := mgmt_principals d @ [principal_rows p],
       mgmt_scopes := mgmt_scopes d @ scope_rows p, audits := audits d
         @ [audit_to_row (principal_audit pf rq 1 (act_id a) p None MANAGEMENT_PRINCIPAL_CREATED)]\<rparr>"
proof -
  obtain d1 d2 s where e: "act_can_manage a" "new_principal rq 0 name mgr ts = Inr p"
    "mgmt_principal_insert (principal_rows p) d = Inr d1" "scopes_insert (scope_rows p) d1 = Inr d2"
    "audit_principal pf rq 1 (act_id a) p None MANAGEMENT_PRINCIPAL_CREATED \<lparr>committed = d, working = d2\<rparr> = (Inr (), s)"
    "d' = working s"
    using assms by (auto simp: create_principal_def require_manager_def op_inv commit_after_publishes)
  note ad = mgmt_principal_added [OF e(3,4)]
  show "act_can_manage a" "new_principal rq 0 name mgr ts = Inr p"
    "mpr_id p \<notin> mp_principal_id ` set (mgmt_principals d)"
    "distinct (mgmt_scopes d) \<Longrightarrow> distinct (mgmt_scopes d @ scope_rows p)"
    "\<forall>r \<in> set (scope_rows p). sc_tenant_id r \<in> tr_id ` set (tenants d)"
    using e ad by simp_all
  show "d' = d\<lparr>mgmt_principals := mgmt_principals d @ [principal_rows p],
       mgmt_scopes := mgmt_scopes d @ scope_rows p, audits := audits d
         @ [audit_to_row (principal_audit pf rq 1 (act_id a) p None MANAGEMENT_PRINCIPAL_CREATED)]\<rparr>"
    using audit_principal_InrD [OF e(5)] e(6) ad(1) by simp
qed

text \<open>The principal an operation reads, as a row.\<close>

definition reads_principal :: "platform \<Rightarrow> uuid \<Rightarrow> db \<Rightarrow> mgmt_principal_row \<Rightarrow> mgmt_principal \<Rightarrow> bool" where
  "reads_principal pf i d r p \<longleftrightarrow>
     row_of mp_principal_id i (mgmt_principals d) = Some r \<and> mgmt_principal_of pf r d = Inr p"

lemma reads_principalD:
  assumes "reads_principal pf i d r p"
  shows "r \<in> set (mgmt_principals d)" "mp_principal_id r = i" "mpr_id p = i"
    "mpr_can_manage p = mp_can_manage_principals r" "mgmt_is_active p = (mp_disabled_at r = None)"
    "mpr_tenant_ids p = scopes_of i d"
  using assms
  by (auto simp: reads_principal_def mgmt_principal_of_def mgmt_principal_init_Inr_iff mgmt_is_active_def
      dest!: row_of_SomeD)

definition reads_credential :: "platform \<Rightarrow> uuid \<Rightarrow> db \<Rightarrow> mgmt_credential_row \<Rightarrow> mgmt_credential \<Rightarrow> bool" where
  "reads_credential pf i d r c \<longleftrightarrow>
     row_of mc_credential_id i (mgmt_credentials d) = Some r \<and> mgmt_credential_of pf r = Inr c"

lemma reads_credentialD:
  assumes "reads_credential pf i d r c"
  shows "r \<in> set (mgmt_credentials d)" "mc_credential_id r = i" "mcr_id c = i"
    "mcr_principal_id c = mc_principal_id r" "mcr_verifier c = mc_secret_verifier r"
    "mcr_revoked_at c = map_option (from_db pf) (mc_revoked_at r)"
    "mcr_expires_at c = map_option (from_db pf) (mc_expires_at r)"
  using assms
  by (auto simp: reads_credential_def mgmt_credential_of_def mgmt_credential_init_Inr_iff
      dest!: row_of_SomeD)

lemma issue_credential_effect:
  assumes "issue_credential pf sv rq a i label expires d = (Inr (c, token), d')"
  shows "act_can_manage a" "\<exists>r p. reads_principal pf i d r p \<and> mp_disabled_at r = None"
    "new_credential pf sv rq 0 i label expires = Inr (c, token)"
    "mcr_id c \<notin> mc_credential_id ` set (mgmt_credentials d)"
    "\<exists>fa. credential_fingerprint pf c = Inr fa
      \<and> d' = d\<lparr>mgmt_credentials := mgmt_credentials d @ [mgmt_credential_to_row c], audits := audits d
         @ [audit_to_row (credential_audit rq 1 (act_id a) c None fa MANAGEMENT_CREDENTIAL_ISSUED)]\<rparr>"
proof -
  obtain r p d1 s where e: "act_can_manage a" "row_of mp_principal_id i (mgmt_principals d) = Some r"
    "mgmt_principal_of pf r d = Inr p" "mgmt_is_active p"
    "new_credential pf sv rq 0 (mpr_id p) label expires = Inr (c, token)"
    "mgmt_credential_insert (mgmt_credential_to_row c) d = Inr d1"
    "audit_credential pf rq 1 (act_id a) c None MANAGEMENT_CREDENTIAL_ISSUED \<lparr>committed = d, working = d1\<rparr> = (Inr (), s)"
    "d' = working s"
    using assms
    by (auto simp: issue_credential_def require_manager_def op_inv commit_after_publishes split: option.splits)
  have rp: "reads_principal pf i d r p" using e(2,3) by (simp add: reads_principal_def)
  note D = reads_principalD [OF rp]
  show "act_can_manage a" "\<exists>r p. reads_principal pf i d r p \<and> mp_disabled_at r = None"
    using e(1,4) rp D(5) by auto
  show "new_credential pf sv rq 0 i label expires = Inr (c, token)" using e(5) D(3) by simp
  show "mcr_id c \<notin> mc_credential_id ` set (mgmt_credentials d)"
    using e(6) by (auto simp: mgmt_credential_insert_Inr_iff mgmt_credential_to_row_def)
  show "\<exists>fa. credential_fingerprint pf c = Inr fa
      \<and> d' = d\<lparr>mgmt_credentials := mgmt_credentials d @ [mgmt_credential_to_row c], audits := audits d
         @ [audit_to_row (credential_audit rq 1 (act_id a) c None fa MANAGEMENT_CREDENTIAL_ISSUED)]\<rparr>"
    using audit_credential_InrD [OF e(7)] e(6,8) by (auto simp: mgmt_credential_insert_Inr_iff)
qed

lemma set_scopes_effect:
  assumes "set_scopes pf rq a i ts d = (Inr p', d')"
  shows "act_can_manage a"
    "\<exists>r p. reads_principal pf i d r p \<and> mgmt_principal_init (p\<lparr>mpr_tenant_ids := ts\<rparr>) = Inr p'
       \<and> (distinct (mgmt_scopes d) \<longrightarrow> distinct (filter (\<lambda>r. sc_principal_id r \<noteq> i) (mgmt_scopes d) @ scope_rows p'))
       \<and> (\<forall>r \<in> set (scope_rows p'). sc_tenant_id r \<in> tr_id ` set (tenants d))
       \<and> d' = d\<lparr>mgmt_scopes := filter (\<lambda>r. sc_principal_id r \<noteq> i) (mgmt_scopes d) @ scope_rows p',
           audits := audits d @ [audit_to_row
             (principal_audit pf rq 0 (act_id a) p' (Some p) MANAGEMENT_PRINCIPAL_SCOPES_SET)]\<rparr>"
proof -
  obtain r p d1 s where e: "act_can_manage a" "row_of mp_principal_id i (mgmt_principals d) = Some r"
    "mgmt_principal_of pf r d = Inr p" "mgmt_principal_init (p\<lparr>mpr_tenant_ids := ts\<rparr>) = Inr p'"
    "scopes_insert (scope_rows p') (d\<lparr>mgmt_scopes := filter (\<lambda>r. sc_principal_id r \<noteq> mpr_id p') (mgmt_scopes d)\<rparr>) = Inr d1"
    "audit_principal pf rq 0 (act_id a) p' (Some p) MANAGEMENT_PRINCIPAL_SCOPES_SET \<lparr>committed = d, working = d1\<rparr> = (Inr (), s)"
    "d' = working s"
    using assms
    by (auto simp: set_scopes_def require_manager_def with_tenant_scopes_def mgmt_replace_scopes_def op_inv
        commit_after_publishes split: option.splits)
  have rp: "reads_principal pf i d r p" using e(2,3) by (simp add: reads_principal_def)
  have i: "mpr_id p' = i" using e(4) reads_principalD(3) [OF rp] by (auto simp: mgmt_principal_init_Inr_iff)
  show "act_can_manage a" by (rule e(1))
  show "\<exists>r p. reads_principal pf i d r p \<and> mgmt_principal_init (p\<lparr>mpr_tenant_ids := ts\<rparr>) = Inr p'
       \<and> (distinct (mgmt_scopes d) \<longrightarrow> distinct (filter (\<lambda>r. sc_principal_id r \<noteq> i) (mgmt_scopes d) @ scope_rows p'))
       \<and> (\<forall>r \<in> set (scope_rows p'). sc_tenant_id r \<in> tr_id ` set (tenants d))
       \<and> d' = d\<lparr>mgmt_scopes := filter (\<lambda>r. sc_principal_id r \<noteq> i) (mgmt_scopes d) @ scope_rows p',
           audits := audits d @ [audit_to_row
             (principal_audit pf rq 0 (act_id a) p' (Some p) MANAGEMENT_PRINCIPAL_SCOPES_SET)]\<rparr>"
    using rp e(4,7) scopes_insert_InrD [OF e(5)] audit_principal_InrD [OF e(6)] i
    by (intro exI [of _ r] exI [of _ p]) simp
qed

text \<open>The revocation guard, for an enabled manager.\<close>

lemma keeps_a_manager_InrD:
  assumes "keeps_a_manager pf rq p c s = (Inr u, s')" "mgmt_is_active p" "mpr_can_manage p"
  shows "has_recoverable_manager (db_now rq) (Some (mpr_id p)) (working s)
    \<or> (\<exists>r \<in> set (mgmt_credentials (working s)). mc_principal_id r = mpr_id p \<and> mc_credential_id r \<noteq> mcr_id c
         \<and> live_at (clock_at rq 0) r)"
proof -
  let ?rows = "filter (\<lambda>r. mc_principal_id r = mpr_id p) (mgmt_credentials (working s))"
  obtain items where items: "map_res (mgmt_credential_of pf) ?rows = Inr items"
    "has_recoverable_manager (db_now rq) (Some (mpr_id p)) (working s)
      \<or> (\<exists>x \<in> set items. mcr_id x \<noteq> mcr_id c \<and> mgmt_is_usable_at x (clock rq 0))"
    using assms
    by (auto simp: keeps_a_manager_def op_inv mgmt_credentials_of_def filter_empty_conv)
  have "\<exists>r \<in> set rows. mgmt_credential_of pf r = Inr x" if "map_res (mgmt_credential_of pf) rows = Inr xs" "x \<in> set xs"
    for rows xs x
    using that by (induction rows arbitrary: xs) (auto simp: and_then_Inr_iff)
  note origin = this [OF items(1)]
  from items(2) show ?thesis
  proof
    assume "\<exists>x \<in> set items. mcr_id x \<noteq> mcr_id c \<and> mgmt_is_usable_at x (clock rq 0)"
    then obtain x where x: "x \<in> set items" "mcr_id x \<noteq> mcr_id c" "mgmt_is_usable_at x (clock rq 0)" by blast
    obtain r where r: "r \<in> set ?rows" "mgmt_credential_of pf r = Inr x" using origin [OF x(1)] by blast
    have "mcr_id x = mc_credential_id r" "live_at (clock_at rq 0) r"
      using r(2) x(3)
      by (auto simp: mgmt_credential_of_def mgmt_credential_init_Inr_iff mgmt_is_usable_at_def live_at_def
          opt_ok_def split: option.splits)
    then show ?thesis using r(1) x(2) by auto
  qed simp
qed

lemma revoke_credential_effect:
  assumes "revoke_credential pf rq a i ci d = (Inr c', d')"
  shows "act_can_manage a"
    "\<exists>r p rc c fb fa. reads_principal pf i d r p \<and> reads_credential pf ci d rc c
       \<and> mc_principal_id rc = i \<and> mc_revoked_at rc = None
       \<and> (mp_disabled_at r = None \<and> mp_can_manage_principals r \<longrightarrow>
            has_recoverable_manager (db_now rq) (Some i) d
            \<or> (\<exists>x \<in> set (mgmt_credentials d). mc_principal_id x = i \<and> mc_credential_id x \<noteq> ci
                 \<and> live_at (clock_at rq 0) x))
       \<and> mgmt_credential_init (c\<lparr>mcr_revoked_at := Some (clock rq 0)\<rparr>) = Inr c'
       \<and> credential_fingerprint pf c = Inr fb \<and> credential_fingerprint pf c' = Inr fa
       \<and> d' = d\<lparr>mgmt_credentials := update_rows (\<lambda>x. mc_credential_id x = ci)
              (\<lambda>x. x\<lparr>mc_revoked_at := Some (clock_at rq 0)\<rparr>) (mgmt_credentials d),
           audits := audits d @ [audit_to_row
             (credential_audit rq 0 (act_id a) c' (Some fb) fa MANAGEMENT_CREDENTIAL_REVOKED)]\<rparr>"
proof -
  obtain r p rc c d1 s0 s where e: "act_can_manage a" "row_of mp_principal_id i (mgmt_principals d) = Some r"
    "mgmt_principal_of pf r d = Inr p" "row_of mc_credential_id ci (mgmt_credentials d) = Some rc"
    "mgmt_credential_of pf rc = Inr c" "mcr_principal_id c = mpr_id p" "mcr_revoked_at c = None"
    "keeps_a_manager pf rq p c \<lparr>committed = d, working = d\<rparr> = (Inr (), s0)"
    "mgmt_credential_init (c\<lparr>mcr_revoked_at := Some (clock rq 0)\<rparr>) = Inr c'"
    "audit_credential pf rq 0 (act_id a) c' (Some c) MANAGEMENT_CREDENTIAL_REVOKED
       (s0\<lparr>working := (working s0)\<lparr>mgmt_credentials := update_rows (\<lambda>x. mc_credential_id x = mcr_id c')
              (\<lambda>x. x\<lparr>mc_revoked_at := map_option instant (mcr_revoked_at c')\<rparr>) (mgmt_credentials (working s0))\<rparr>\<rparr>) = (Inr (), s)"
    "d' = working s"
    using assms
    by (auto simp: revoke_credential_def require_manager_def mgmt_revoke_def mgmt_revoke_row_def op_inv
        commit_after_publishes split: option.splits)
  have s0: "s0 = \<lparr>committed = d, working = d\<rparr>"
    using e(8) keepsD [OF keeps_mgmt(5), of pf rq p c "\<lparr>committed = d, working = d\<rparr>" "Inr ()" s0 "\<lambda>s. s"] by simp
  have rp: "reads_principal pf i d r p" using e(2,3) by (simp add: reads_principal_def)
  have rc: "reads_credential pf ci d rc c" using e(4,5) by (simp add: reads_credential_def)
  note P = reads_principalD [OF rp] and C = reads_credentialD [OF rc]
  have c': "mcr_id c' = ci" "mcr_revoked_at c' = Some (clock rq 0)"
    using e(9) C(3) by (auto simp: mgmt_credential_init_Inr_iff)
  have guard: "has_recoverable_manager (db_now rq) (Some i) d
      \<or> (\<exists>x \<in> set (mgmt_credentials d). mc_principal_id x = i \<and> mc_credential_id x \<noteq> ci \<and> live_at (clock_at rq 0) x)"
    if "mp_disabled_at r = None" "mp_can_manage_principals r"
    using keeps_a_manager_InrD [OF e(8)] that P C(3) by simp
  obtain fb fa where f: "credential_fingerprint pf c = Inr fb" "credential_fingerprint pf c' = Inr fa"
    "s = \<lparr>committed = d, working = d\<lparr>mgmt_credentials := update_rows (\<lambda>x. mc_credential_id x = ci)
          (\<lambda>x. x\<lparr>mc_revoked_at := Some (clock_at rq 0)\<rparr>) (mgmt_credentials d),
        audits := audits d @ [audit_to_row
          (credential_audit rq 0 (act_id a) c' (Some fb) fa MANAGEMENT_CREDENTIAL_REVOKED)]\<rparr>\<rparr>"
    using audit_credential_InrD [OF e(10)] s0 c' by auto
  show "act_can_manage a" by (rule e(1))
  show "\<exists>r p rc c fb fa. reads_principal pf i d r p \<and> reads_credential pf ci d rc c
       \<and> mc_principal_id rc = i \<and> mc_revoked_at rc = None
       \<and> (mp_disabled_at r = None \<and> mp_can_manage_principals r \<longrightarrow>
            has_recoverable_manager (db_now rq) (Some i) d
            \<or> (\<exists>x \<in> set (mgmt_credentials d). mc_principal_id x = i \<and> mc_credential_id x \<noteq> ci
                 \<and> live_at (clock_at rq 0) x))
       \<and> mgmt_credential_init (c\<lparr>mcr_revoked_at := Some (clock rq 0)\<rparr>) = Inr c'
       \<and> credential_fingerprint pf c = Inr fb \<and> credential_fingerprint pf c' = Inr fa
       \<and> d' = d\<lparr>mgmt_credentials := update_rows (\<lambda>x. mc_credential_id x = ci)
              (\<lambda>x. x\<lparr>mc_revoked_at := Some (clock_at rq 0)\<rparr>) (mgmt_credentials d),
           audits := audits d @ [audit_to_row
             (credential_audit rq 0 (act_id a) c' (Some fb) fa MANAGEMENT_CREDENTIAL_REVOKED)]\<rparr>"
    using rp rc e(6,7,9,11) f guard P(3) C(4,6)
    by (intro exI [of _ r] exI [of _ p] exI [of _ rc] exI [of _ c] exI [of _ fb] exI [of _ fa]) simp
qed

lemma disable_principal_effect:
  assumes "disable_principal pf rq a i d = (Inr p', d')"
  shows "act_can_manage a"
    "\<exists>r p. reads_principal pf i d r p \<and> mp_disabled_at r = None
       \<and> (mp_can_manage_principals r \<longrightarrow> has_recoverable_manager (db_now rq) (Some i) d)
       \<and> mgmt_principal_init (p\<lparr>mpr_disabled_at := Some (clock rq 0)\<rparr>) = Inr p'
       \<and> d' = d\<lparr>mgmt_principals := update_rows (\<lambda>x. mp_principal_id x = i)
              (\<lambda>x. x\<lparr>mp_disabled_at := Some (clock_at rq 0)\<rparr>) (mgmt_principals d),
           audits := audits d @ [audit_to_row
             (principal_audit pf rq 0 (act_id a) p' (Some p) MANAGEMENT_PRINCIPAL_DISABLED)]\<rparr>"
proof -
  obtain r p s where e: "act_can_manage a" "row_of mp_principal_id i (mgmt_principals d) = Some r"
    "mgmt_principal_of pf r d = Inr p" "mgmt_is_active p"
    "mpr_can_manage p \<longrightarrow> has_recoverable_manager (db_now rq) (Some (mpr_id p)) d"
    "mgmt_principal_init (p\<lparr>mpr_disabled_at := Some (clock rq 0)\<rparr>) = Inr p'"
    "audit_principal pf rq 0 (act_id a) p' (Some p) MANAGEMENT_PRINCIPAL_DISABLED
       \<lparr>committed = d, working = d\<lparr>mgmt_principals := update_rows (\<lambda>x. mp_principal_id x = mpr_id p')
              (\<lambda>x. x\<lparr>mp_disabled_at := map_option instant (mpr_disabled_at p')\<rparr>) (mgmt_principals d)\<rparr>\<rparr> = (Inr (), s)"
    "d' = working s"
    using assms
    by (auto simp: disable_principal_def require_manager_def mgmt_disable_def mgmt_disable_row_def op_inv
        commit_after_publishes split: option.splits)
  have rp: "reads_principal pf i d r p" using e(2,3) by (simp add: reads_principal_def)
  note P = reads_principalD [OF rp]
  have p': "mpr_id p' = i" "mpr_disabled_at p' = Some (clock rq 0)"
    using e(6) P(3) by (auto simp: mgmt_principal_init_Inr_iff)
  show "act_can_manage a" by (rule e(1))
  show "\<exists>r p. reads_principal pf i d r p \<and> mp_disabled_at r = None
       \<and> (mp_can_manage_principals r \<longrightarrow> has_recoverable_manager (db_now rq) (Some i) d)
       \<and> mgmt_principal_init (p\<lparr>mpr_disabled_at := Some (clock rq 0)\<rparr>) = Inr p'
       \<and> d' = d\<lparr>mgmt_principals := update_rows (\<lambda>x. mp_principal_id x = i)
              (\<lambda>x. x\<lparr>mp_disabled_at := Some (clock_at rq 0)\<rparr>) (mgmt_principals d),
           audits := audits d @ [audit_to_row
             (principal_audit pf rq 0 (act_id a) p' (Some p) MANAGEMENT_PRINCIPAL_DISABLED)]\<rparr>"
    using rp e(4-6,8) P p' audit_principal_InrD [OF e(7)]
    by (intro exI [of _ r] exI [of _ p]) simp
qed

subsection \<open>Commands\<close>

datatype mgmt_command =
    Bootstrap pystr pystr "uuid set"
  | CreatePrincipal actor pystr "uuid set" bool
  | IssueCredential actor uuid "pystr option" "datetime option"
  | SetScopes actor uuid "uuid set"
  | RevokeCredential actor uuid uuid
  | DisablePrincipal actor uuid

fun run_mgmt :: "platform \<Rightarrow> mgmt_service \<Rightarrow> request \<Rightarrow> mgmt_command \<Rightarrow> (exc, db, unit) op" where
  "run_mgmt pf sv rq (Bootstrap token name ts) = void (bootstrap pf sv rq token name ts)"
| "run_mgmt pf sv rq (CreatePrincipal a name ts mgr) = void (create_principal pf rq a name ts mgr)"
| "run_mgmt pf sv rq (IssueCredential a i label expires) = void (issue_credential pf sv rq a i label expires)"
| "run_mgmt pf sv rq (SetScopes a i ts) = void (set_scopes pf rq a i ts)"
| "run_mgmt pf sv rq (RevokeCredential a i ci) = void (revoke_credential pf rq a i ci)"
| "run_mgmt pf sv rq (DisablePrincipal a i) = void (disable_principal pf rq a i)"

text \<open>A failed command changes nothing.\<close>

lemma atomic_bootstrap: "atomic (bootstrap pf sv rq token name ts)"
  unfolding bootstrap_def by (intro atomic_intros keeps_throw_None) (auto intro!: keeps_bnd keeps_throw_None split: option.split)

lemma atomic_create_principal: "atomic (create_principal pf rq a name ts mgr)"
  unfolding create_principal_def by (intro atomic_intros keeps_throw_None) (auto intro!: keeps_bnd keeps_throw_None split: option.split)

lemma atomic_issue_credential: "atomic (issue_credential pf sv rq a i label expires)"
  unfolding issue_credential_def by (intro atomic_intros keeps_throw_None) (auto intro!: keeps_bnd keeps_throw_None split: option.split)

lemma atomic_set_scopes: "atomic (set_scopes pf rq a i ts)"
  unfolding set_scopes_def by (intro atomic_intros keeps_throw_None) (auto intro!: keeps_bnd keeps_throw_None split: option.split)

lemma atomic_revoke_credential: "atomic (revoke_credential pf rq a i ci)"
  unfolding revoke_credential_def by (intro atomic_intros keeps_throw_None) (auto intro!: keeps_bnd keeps_throw_None split: option.split)

lemma atomic_disable_principal: "atomic (disable_principal pf rq a i)"
  unfolding disable_principal_def by (intro atomic_intros keeps_throw_None) (auto intro!: keeps_bnd keeps_throw_None split: option.split)

lemmas mgmt_atomic = atomic_bootstrap atomic_create_principal atomic_issue_credential atomic_set_scopes atomic_revoke_credential atomic_disable_principal

lemma run_mgmt_failed: "run_mgmt pf sv rq cmd d = (Inl e, d') \<Longrightarrow> d' = d"
  by (rule atomicD [of "run_mgmt pf sv rq cmd"]) (cases cmd, simp_all add: mgmt_atomic)

end
