(* ===== verification/MgmtInvariants.thy ===== *)
theory MgmtInvariants
  imports MgmtLifecycle
begin

text \<open>
  Sequences of management commands. A step runs any command, by any actor, at or after a time
  \<open>t\<close> of both clocks. Its cases are the ways a command can succeed; the invariants follow by
  these cases and lift to every reachable state.
\<close>

text \<open>What a successful command did, one constructor per command.\<close>

inductive mgmt_change :: "int \<Rightarrow> db \<Rightarrow> db \<Rightarrow> bool" for t where
  add_principal: "\<lbrakk>mp_principal_id r \<notin> mp_principal_id ` set (mgmt_principals d); principal_row_ok r;
      distinct (mgmt_scopes d) \<Longrightarrow> distinct (mgmt_scopes d @ scs);
      \<forall>x \<in> set scs. sc_principal_id x = mp_principal_id r \<and> sc_tenant_id x \<in> tr_id ` set (tenants d);
      mp_disabled_at r = None; set cs \<subseteq> {c}; length cs \<le> 1;
      cs \<noteq> [] \<longrightarrow> mgmt_principals d = [] \<and> credential_row_ok c \<and> mc_principal_id c = mp_principal_id r
        \<and> mc_revoked_at c = None \<and> mc_credential_id c \<notin> mc_credential_id ` set (mgmt_credentials d)\<rbrakk>
    \<Longrightarrow> mgmt_change t d (d\<lparr>mgmt_principals := mgmt_principals d @ [r], mgmt_scopes := mgmt_scopes d @ scs,
          mgmt_credentials := mgmt_credentials d @ cs, audits := audits d @ as\<rparr>)"
| add_credential: "\<lbrakk>credential_row_ok c; mc_principal_id c \<in> mp_principal_id ` set (mgmt_principals d);
      mc_credential_id c \<notin> mc_credential_id ` set (mgmt_credentials d); mc_revoked_at c = None\<rbrakk>
    \<Longrightarrow> mgmt_change t d (d\<lparr>mgmt_credentials := mgmt_credentials d @ [c], audits := audits d @ as\<rparr>)"
| replace_scopes: "\<lbrakk>i \<in> mp_principal_id ` set (mgmt_principals d);
      distinct (mgmt_scopes d) \<Longrightarrow> distinct (filter (\<lambda>x. sc_principal_id x \<noteq> i) (mgmt_scopes d) @ scs);
      \<forall>x \<in> set scs. sc_principal_id x = i \<and> sc_tenant_id x \<in> tr_id ` set (tenants d)\<rbrakk>
    \<Longrightarrow> mgmt_change t d (d\<lparr>mgmt_scopes := filter (\<lambda>x. sc_principal_id x \<noteq> i) (mgmt_scopes d) @ scs,
          audits := audits d @ as\<rparr>)"
| revoke: "\<lbrakk>row_of mp_principal_id i (mgmt_principals d) = Some p; row_of mc_credential_id ci (mgmt_credentials d) = Some c;
      mc_principal_id c = i; mc_revoked_at c = None; t \<le> now; t \<le> dbnow;
      mp_disabled_at p = None \<and> mp_can_manage_principals p \<longrightarrow> has_recoverable_manager dbnow (Some i) d
        \<or> (\<exists>x \<in> set (mgmt_credentials d). mc_principal_id x = i \<and> mc_credential_id x \<noteq> ci \<and> live_at now x)\<rbrakk>
    \<Longrightarrow> mgmt_change t d (d\<lparr>mgmt_credentials := update_rows (\<lambda>x. mc_credential_id x = ci)
          (\<lambda>x. x\<lparr>mc_revoked_at := Some now\<rparr>) (mgmt_credentials d), audits := audits d @ as\<rparr>)"
| disable: "\<lbrakk>row_of mp_principal_id i (mgmt_principals d) = Some p; mp_disabled_at p = None; t \<le> dbnow;
      mp_can_manage_principals p \<longrightarrow> has_recoverable_manager dbnow (Some i) d\<rbrakk>
    \<Longrightarrow> mgmt_change t d (d\<lparr>mgmt_principals := update_rows (\<lambda>x. mp_principal_id x = i)
          (\<lambda>x. x\<lparr>mp_disabled_at := Some now\<rparr>) (mgmt_principals d), audits := audits d @ as\<rparr>)"

text \<open>A step of the service: any command whose clocks are not before \<open>t\<close>.\<close>

inductive mgmt_step :: "platform \<Rightarrow> mgmt_service \<Rightarrow> int \<Rightarrow> db \<Rightarrow> db \<Rightarrow> bool" for pf sv t where
  command: "t \<le> clock_at rq 0 \<Longrightarrow> t \<le> db_now rq \<Longrightarrow> run_mgmt pf sv rq cmd d = (r, d') \<Longrightarrow> mgmt_step pf sv t d d'"

inductive_cases mgmt_stepE: "mgmt_step pf sv t d d'"

lemma new_principal_row:
  assumes "new_principal rq i name mgr ts = Inr p"
  shows "principal_row_ok (principal_rows p)" "mp_principal_id (principal_rows p) = mpr_id p"
    "mp_disabled_at (principal_rows p) = None" "mp_can_manage_principals (principal_rows p) = mgr"
  using assms by (auto simp: new_principal_Inr principal_row_ok_def principal_rows_def)

lemma normalized_label_facts: "opt_ok (\<lambda>l. l \<noteq> [] \<and> canonical l = l) (normalized_label l)"
  by (auto simp: normalized_label_def split: option.split)

lemma new_credential_row:
  assumes "new_credential pf sv rq i pid label expires = Inr (c, token)"
  shows "credential_row_ok (mgmt_credential_to_row c)" "mc_principal_id (mgmt_credential_to_row c) = pid"
    "mc_revoked_at (mgmt_credential_to_row c) = None" "mc_credential_id (mgmt_credential_to_row c) = mcr_id c"
    "mc_expires_at (mgmt_credential_to_row c) = map_option instant expires"
  using assms normalized_label_facts [of label]
  by (auto simp: new_credential_Inr credential_row_ok_def mgmt_credential_to_row_def opt_ok_def
      split: option.splits)

lemmas scope_rows_of = scope_rows_ids(2)

lemma run_mgmt_change:
  assumes run: "run_mgmt pf sv rq cmd d = (Inr u, d')" and t: "t \<le> clock_at rq 0" "t \<le> db_now rq"
  shows "mgmt_change t d d'"
proof (cases cmd)
  case (Bootstrap token name ts)
  then obtain p c bearer where "bootstrap pf sv rq token name ts d = (Inr (p, c, bearer), d')"
    using run by (auto simp: void_Inr_iff)
  note e = bootstrap_effect [OF this]
  note pr = new_principal_row [OF e(3)] and cr = new_credential_row [OF e(4)]
  have "mgmt_change t d (d\<lparr>mgmt_principals := mgmt_principals d @ [principal_rows p],
      mgmt_scopes := mgmt_scopes d @ scope_rows p,
      mgmt_credentials := mgmt_credentials d @ [mgmt_credential_to_row c], audits := audits d @ []\<rparr>)"
    using e pr cr scope_rows_of
    by (intro add_principal [where c = "mgmt_credential_to_row c"]) auto
  then show ?thesis using e(1,9) by simp
next
  case (CreatePrincipal a name ts mgr)
  then obtain p where "create_principal pf rq a name ts mgr d = (Inr p, d')" using run by (auto simp: void_Inr_iff)
  note e = create_principal_effect [OF this]
  note pr = new_principal_row [OF e(2)]
  have "mgmt_change t d (d\<lparr>mgmt_principals := mgmt_principals d @ [principal_rows p],
      mgmt_scopes := mgmt_scopes d @ scope_rows p, mgmt_credentials := mgmt_credentials d @ [],
      audits := audits d @ [audit_to_row (principal_audit pf rq 1 (act_id a) p None MANAGEMENT_PRINCIPAL_CREATED)]\<rparr>)"
    using e pr scope_rows_of by (intro add_principal) auto
  then show ?thesis using e(6) by simp
next
  case (IssueCredential a i label expires)
  then obtain c token where "issue_credential pf sv rq a i label expires d = (Inr (c, token), d')"
    using run by (auto simp: void_Inr_iff)
  note e = issue_credential_effect [OF this]
  note cr = new_credential_row [OF e(3)]
  obtain r p where "reads_principal pf i d r p" using e(2) by blast
  then have i: "i \<in> mp_principal_id ` set (mgmt_principals d)" using reads_principalD by fastforce
  obtain fa where d': "d' = d\<lparr>mgmt_credentials := mgmt_credentials d @ [mgmt_credential_to_row c],
      audits := audits d @ [audit_to_row
        (credential_audit rq 1 (act_id a) c None fa MANAGEMENT_CREDENTIAL_ISSUED)]\<rparr>" using e(5) by blast
  show ?thesis unfolding d' by (rule add_credential) (use e(4) cr i in simp_all)
next
  case (SetScopes a i ts)
  then obtain p' where "set_scopes pf rq a i ts d = (Inr p', d')" using run by (auto simp: void_Inr_iff)
  note e = set_scopes_effect [OF this]
  obtain r p where rp: "reads_principal pf i d r p" "mgmt_principal_init (p\<lparr>mpr_tenant_ids := ts\<rparr>) = Inr p'"
    "distinct (mgmt_scopes d) \<longrightarrow> distinct (filter (\<lambda>r. sc_principal_id r \<noteq> i) (mgmt_scopes d) @ scope_rows p')"
    "\<forall>r \<in> set (scope_rows p'). sc_tenant_id r \<in> tr_id ` set (tenants d)"
    "d' = d\<lparr>mgmt_scopes := filter (\<lambda>r. sc_principal_id r \<noteq> i) (mgmt_scopes d) @ scope_rows p',
        audits := audits d @ [audit_to_row
          (principal_audit pf rq 0 (act_id a) p' (Some p) MANAGEMENT_PRINCIPAL_SCOPES_SET)]\<rparr>"
    using e(2) by blast
  have "mpr_id p' = i" using rp(2) reads_principalD(3) [OF rp(1)] by (auto simp: mgmt_principal_init_Inr_iff)
  moreover have "i \<in> mp_principal_id ` set (mgmt_principals d)"
    using reads_principalD(1,2) [OF rp(1)] by blast
  ultimately show ?thesis unfolding rp(5) using rp(3,4) scope_rows_of
    by (intro replace_scopes) simp_all
next
  case (RevokeCredential a i ci)
  then obtain c' where "revoke_credential pf rq a i ci d = (Inr c', d')" using run by (auto simp: void_Inr_iff)
  from revoke_credential_effect(2) [OF this] t show ?thesis
    by (auto simp: reads_principal_def reads_credential_def intro!: revoke [where dbnow = "db_now rq"])
next
  case (DisablePrincipal a i)
  then obtain p' where "disable_principal pf rq a i d = (Inr p', d')" using run by (auto simp: void_Inr_iff)
  from disable_principal_effect(2) [OF this] t show ?thesis
    by (auto simp: reads_principal_def intro!: disable [where dbnow = "db_now rq"])
qed

lemma mgmt_step_change: "mgmt_step pf sv t d d' \<Longrightarrow> d' = d \<or> mgmt_change t d d'"
proof (elim mgmt_stepE)
  fix rq cmd r
  assume t: "t \<le> clock_at rq 0" "t \<le> db_now rq" and run: "run_mgmt pf sv rq cmd d = (r, d')"
  show "d' = d \<or> mgmt_change t d d'"
    using run run_mgmt_failed run_mgmt_change [OF _ t] by (cases r) blast+
qed

subsection \<open>The invariant of the tables\<close>

lemma update_rows_keys:
  "(\<And>r. key (f r) = key r) \<Longrightarrow> key ` set (update_rows p f rows) = key ` set rows"
  by (metis map_key_update_rows set_map)

lemma mgmt_change_ok:
  assumes "mgmt_change t d d'" "mgmt_ok d"
  shows "mgmt_ok d'"
  using assms
proof (cases rule: mgmt_change.cases)
  case (add_principal r scs cs c as)
  have "cs = [] \<or> cs = [c]" using add_principal(7,8) by (cases cs) auto
  then show ?thesis using assms(2) add_principal by (auto simp: mgmt_ok_def)
next
  case (add_credential c as)
  then show ?thesis using assms(2) by (auto simp: mgmt_ok_def)
next
  case (replace_scopes i scs as)
  then show ?thesis using assms(2) by (auto simp: mgmt_ok_def)
next
  case (revoke i p ci c now dbnow as)
  then show ?thesis using assms(2)
    by (auto simp: mgmt_ok_def map_key_update_rows set_update_rows credential_row_ok_def)
next
  case (disable i p dbnow now as)
  then show ?thesis using assms(2)
    by (auto simp: mgmt_ok_def map_key_update_rows update_rows_keys)
       (auto simp: set_update_rows principal_row_ok_def)
qed

text \<open>Over any sequence of steps.\<close>

lemma mgmt_step_ok: "mgmt_step pf sv t d d' \<Longrightarrow> mgmt_ok d \<Longrightarrow> mgmt_ok d'"
  using mgmt_step_change mgmt_change_ok by blast

lemma mgmt_steps_ok: "(mgmt_step pf sv t)\<^sup>*\<^sup>* d d' \<Longrightarrow> mgmt_ok d \<Longrightarrow> mgmt_ok d'"
  by (induction rule: rtranclp_induct) (auto dest: mgmt_step_ok)

subsection \<open>Revocation and disabling are final\<close>

definition unrevoked :: "mgmt_credential_row \<Rightarrow> mgmt_credential_row" where
  "unrevoked r = r\<lparr>mc_revoked_at := None\<rparr>"

definition undisabled :: "mgmt_principal_row \<Rightarrow> mgmt_principal_row" where
  "undisabled r = r\<lparr>mp_disabled_at := None\<rparr>"

definition mgmt_ok_step :: "platform \<Rightarrow> mgmt_service \<Rightarrow> int \<Rightarrow> db \<Rightarrow> db \<Rightarrow> bool" where
  "mgmt_ok_step pf sv t d d' \<longleftrightarrow> mgmt_ok d \<and> mgmt_step pf sv t d d'"

lemma mgmt_ok_steps:
  "(mgmt_step pf sv t)\<^sup>*\<^sup>* d d' \<Longrightarrow> mgmt_ok d \<Longrightarrow> (mgmt_ok_step pf sv t)\<^sup>*\<^sup>* d d'"
proof (induction rule: rtranclp_induct)
  case (step y z)
  then have "mgmt_ok_step pf sv t y z" using mgmt_steps_ok by (auto simp: mgmt_ok_step_def)
  then show ?case using step by (auto intro: rtranclp.rtrancl_into_rtrancl)
qed simp

lemma only_row: "distinct (map key rows) \<Longrightarrow> row_of key k rows = Some c \<Longrightarrow> q \<in> set rows \<Longrightarrow> key q = k \<Longrightarrow> q = c"
  by (simp add: row_of_Some_iff) (metis distinct_map inj_onD)

lemma credential_written_once:
  assumes "mgmt_change t d d'" "mgmt_ok d" "r \<in> set (mgmt_credentials d)"
  shows "\<exists>r' \<in> set (mgmt_credentials d'). mc_credential_id r' = mc_credential_id r \<and> unrevoked r' = unrevoked r
    \<and> (mc_revoked_at r' = mc_revoked_at r \<or> mc_revoked_at r = None)"
  using assms(1)
proof (cases rule: mgmt_change.cases)
  case (revoke i p ci c now dbnow as)
  then show ?thesis
    using assms(2,3) only_row [of mc_credential_id "mgmt_credentials d" ci c]
    by (auto simp: unrevoked_def mgmt_ok_def intro!: write_once_update)
qed (use assms(3) in auto)

lemma principal_written_once:
  assumes "mgmt_change t d d'" "mgmt_ok d" "r \<in> set (mgmt_principals d)"
  shows "\<exists>r' \<in> set (mgmt_principals d'). mp_principal_id r' = mp_principal_id r \<and> undisabled r' = undisabled r
    \<and> (mp_disabled_at r' = mp_disabled_at r \<or> mp_disabled_at r = None)"
  using assms(1)
proof (cases rule: mgmt_change.cases)
  case (disable i p dbnow now as)
  then show ?thesis
    using assms(2,3) only_row [of mp_principal_id "mgmt_principals d" i p]
    by (auto simp: undisabled_def mgmt_ok_def intro!: write_once_update)
qed (use assms(3) in auto)

interpretation mgmt_credential_life: write_once mgmt_credentials mc_credential_id mc_revoked_at unrevoked
  "mgmt_ok_step pf sv t" for pf sv t
proof (unfold_locales, goal_cases)
  case (1 s s' r)
  then show ?case using mgmt_step_change [of pf sv t s s'] credential_written_once [of t s s' r]
    by (auto simp: mgmt_ok_step_def)
next
  case (2 s s')
  then show ?case using mgmt_step_ok [of pf sv t s s'] by (simp add: mgmt_ok_step_def mgmt_ok_def)
qed

interpretation mgmt_principal_life: write_once mgmt_principals mp_principal_id mp_disabled_at undisabled
  "mgmt_ok_step pf sv t" for pf sv t
proof (unfold_locales, goal_cases)
  case (1 s s' r)
  then show ?case using mgmt_step_change [of pf sv t s s'] principal_written_once [of t s s' r]
    by (auto simp: mgmt_ok_step_def)
next
  case (2 s s')
  then show ?case using mgmt_step_ok [of pf sv t s s'] by (simp add: mgmt_ok_step_def mgmt_ok_def)
qed

end
