(* ===== verification/MgmtAuth.thy ===== *)
theory MgmtAuth
  imports MgmtInvariants
begin

text \<open>
  Management authentication: hourly evidence (\<open>domain/authentication_evidence.py\<close>, the
  repository's \<open>observe\<close>), \<open>ManagementAuthenticator\<close> (\<open>application/authentication.py\<close>), and
  the three bounded queries of the context: evidence, credential inventory and principal
  inventory (\<open>application/evidence_query.py\<close>, \<open>credential_inventory.py\<close>,
  \<open>principal_inventory.py\<close> and their PostgreSQL readers).
\<close>

subsection \<open>Evidence\<close>

record auth_evidence =
  ae_credential_id :: uuid
  ae_principal_id :: uuid
  ae_outcome :: auth_outcome
  ae_bucket_started_at :: datetime
  ae_first_observed_at :: datetime

definition naive_evidence :: exc where
  "naive_evidence = ValueError ''authentication evidence timestamp must be timezone-aware''"

definition hourly_bucket :: "platform \<Rightarrow> datetime \<Rightarrow> exc + datetime" where
  "hourly_bucket pf tm = (if \<not> is_aware tm then Inl naive_evidence
     else map_sum id (floor_wall hour_us) (overflow_guard (astimezone_utc pf tm)))"

definition auth_evidence_init :: "platform \<Rightarrow> auth_evidence \<Rightarrow> exc + auth_evidence" where
  "auth_evidence_init pf e = (if \<not> is_aware (ae_first_observed_at e) then Inl naive_evidence
     else and_then (hourly_bucket pf (ae_first_observed_at e)) (\<lambda>b.
       if \<not> (is_aware (ae_bucket_started_at e) \<and> instant (ae_bucket_started_at e) = instant b)
       then Inl (ValueError ''authentication evidence must use its UTC hourly bucket'') else Inr e))"

definition retention_us :: int where "retention_us = 90 * day_us"

definition evidence_to_row :: "auth_evidence \<Rightarrow> evidence_row" where
  "evidence_to_row e = \<lparr>ev_credential_id = ae_credential_id e, ev_principal_id = ae_principal_id e,
     ev_outcome = ae_outcome e, ev_bucket_started_at = instant (ae_bucket_started_at e),
     ev_first_observed_at = instant (ae_first_observed_at e)\<rparr>"

definition evidence_observe :: "auth_evidence \<Rightarrow> unit tx" where
  "evidence_observe e =
     bnd (lift (overflow_guard (dt_plus (ae_bucket_started_at e) (- retention_us)))) (\<lambda>horizon.
     bnd (execute (\<lambda>d. d\<lparr>mgmt_evidence :=
            filter (\<lambda>r. \<not> ev_bucket_started_at r < instant horizon) (mgmt_evidence d)\<rparr>)) (\<lambda>_.
     flush (evidence_insert (evidence_to_row e))))"

subsection \<open>The authenticator\<close>

record mgmt_identity =
  mi_principal_id :: uuid
  mi_credential_id :: uuid
  mi_tenant_ids :: "uuid set"
  mi_can_manage :: bool

definition observe :: "platform \<Rightarrow> uuid \<Rightarrow> uuid \<Rightarrow> auth_outcome \<Rightarrow> datetime \<Rightarrow> unit tx" where
  "observe pf c p outcome tm =
     bnd (lift (hourly_bucket pf tm)) (\<lambda>b.
     bnd (lift (auth_evidence_init pf \<lparr>ae_credential_id = c, ae_principal_id = p, ae_outcome = outcome,
            ae_bucket_started_at = b, ae_first_observed_at = tm\<rparr>)) (\<lambda>e.
     bnd (evidence_observe e) (\<lambda>_. uow_commit)))"

text \<open>The outcome for a known credential: the first check that fails, in the order of the code.\<close>

definition auth_outcome_of :: "bool \<Rightarrow> datetime \<Rightarrow> mgmt_credential \<Rightarrow> mgmt_principal \<Rightarrow> auth_outcome" where
  "auth_outcome_of match now c p =
     (if \<not> match then CREDENTIAL_MISMATCH
      else if mcr_revoked_at c \<noteq> None then REVOKED
      else if (case mcr_expires_at c of None \<Rightarrow> False | Some x \<Rightarrow> instant x \<le> instant now) then EXPIRED
      else if \<not> mgmt_is_active p then PRINCIPAL_DISABLED
      else AuthSucceeded)"

definition authenticate :: "platform \<Rightarrow> pystr \<Rightarrow> request \<Rightarrow> pystr \<Rightarrow> (exc, db, mgmt_identity option) op" where
  "authenticate pf pepper rq token =
     (case parse_bearer_token pf token of
        None \<Rightarrow> ret None
      | Some (ci, secret) \<Rightarrow> with_uow (
          bnd (mgmt_credential_get pf ci) (\<lambda>c. case c of None \<Rightarrow> ret None | Some c \<Rightarrow>
          bnd (mgmt_principal_get pf (mcr_principal_id c)) (\<lambda>p. case p of None \<Rightarrow> ret None | Some p \<Rightarrow>
          bnd (lift (verifier_matches pf secret pepper (mcr_verifier c))) (\<lambda>match.
          let outcome = auth_outcome_of match (clock rq 0) c p in
          bnd (observe pf ci (mcr_principal_id c) outcome (clock rq 0)) (\<lambda>_.
          ret (if outcome = AuthSucceeded
               then Some \<lparr>mi_principal_id = mpr_id p, mi_credential_id = mcr_id c,
                      mi_tenant_ids = mpr_tenant_ids p, mi_can_manage = mpr_can_manage p\<rparr>
               else None)))))))"

subsection \<open>Queries\<close>

text \<open>
  Outcomes in the order of their stored text, which the query sorts by: their first letters
  differ (\<open>credential_mismatch\<close>, \<open>expired\<close>, \<open>principal_disabled\<close>, \<open>revoked\<close>,
  \<open>succeeded\<close>), so the order does not depend on the collation.
\<close>

definition outcome_rank :: "auth_outcome \<Rightarrow> nat" where
  "outcome_rank x = (case x of CREDENTIAL_MISMATCH \<Rightarrow> 0 | EXPIRED \<Rightarrow> 1 | PRINCIPAL_DISABLED \<Rightarrow> 2
     | REVOKED \<Rightarrow> 3 | AuthSucceeded \<Rightarrow> 4)"

lemma outcome_rank_inj: "outcome_rank x = outcome_rank y \<longleftrightarrow> x = y"
  by (cases x; cases y) (simp_all add: outcome_rank_def)

instantiation auth_outcome :: linorder
begin

definition less_eq_auth_outcome :: "auth_outcome \<Rightarrow> auth_outcome \<Rightarrow> bool" where
  "less_eq_auth_outcome x y \<longleftrightarrow> outcome_rank x \<le> outcome_rank y"

definition less_auth_outcome :: "auth_outcome \<Rightarrow> auth_outcome \<Rightarrow> bool" where
  "less_auth_outcome x y \<longleftrightarrow> outcome_rank x < outcome_rank y"

instance
  by standard (auto simp: less_eq_auth_outcome_def less_auth_outcome_def outcome_rank_inj)

end

definition list_evidence_rows ::
  "uuid option \<Rightarrow> uuid option \<Rightarrow> int \<Rightarrow> int \<Rightarrow> nat \<Rightarrow> db \<Rightarrow> evidence_row list" where
  "list_evidence_rows c p s e cap d = take cap
     (sort_key (\<lambda>r. (- ev_first_observed_at r, ev_credential_id r, ev_outcome r))
       (filter (\<lambda>r. s \<le> ev_first_observed_at r \<and> ev_first_observed_at r < e
          \<and> opt_ok (\<lambda>c. ev_credential_id r = c) c \<and> opt_ok (\<lambda>p. ev_principal_id r = p) p)
         (mgmt_evidence d)))"

definition evidence_from_row :: "platform \<Rightarrow> evidence_row \<Rightarrow> exc + auth_evidence" where
  "evidence_from_row pf r = auth_evidence_init pf
     \<lparr>ae_credential_id = ev_credential_id r, ae_principal_id = ev_principal_id r, ae_outcome = ev_outcome r,
      ae_bucket_started_at = from_db pf (ev_bucket_started_at r),
      ae_first_observed_at = from_db pf (ev_first_observed_at r)\<rparr>"

definition list_authentication_evidence ::
  "platform \<Rightarrow> request \<Rightarrow> uuid option \<Rightarrow> uuid option \<Rightarrow> datetime \<Rightarrow> datetime \<Rightarrow> int \<Rightarrow> db \<Rightarrow>
   exc + auth_evidence list" where
  "list_authentication_evidence pf rq c p start end_at cap d =
     (if (c = None) = (p = None)
      then Inl (InvalidAuthenticationEvidenceQuery ''exactly one of credential_id or principal_id is required'')
      else and_then (validated_range pf InvalidAuthenticationEvidenceQuery
             ''authentication evidence range must not exceed 31 days'' start end_at) (\<lambda>(s, e).
           if \<not> (1 \<le> cap \<and> cap \<le> 100)
           then Inl (InvalidAuthenticationEvidenceQuery ''limit must be between 1 and 100'')
           else and_then (read_db rq 0 (list_evidence_rows c p (instant s) (instant e) (nat cap)) d)
             (map_res (evidence_from_row pf))))"

datatype inventory_state = InvActive | InvExpired | InvRevoked | InvPrincipalDisabled

record credential_item =
  it_credential_id :: uuid
  it_principal_id :: uuid
  it_label :: "pystr option"
  it_created_at :: datetime
  it_expires_at :: "datetime option"
  it_revoked_at :: "datetime option"
  it_usable :: bool
  it_state :: inventory_state

definition inventory_item :: "platform \<Rightarrow> bool \<Rightarrow> datetime \<Rightarrow> mgmt_credential_row \<Rightarrow> credential_item" where
  "inventory_item pf disabled now r =
     (let st = (if disabled then InvPrincipalDisabled
        else if mc_revoked_at r \<noteq> None then InvRevoked
        else if (case mc_expires_at r of None \<Rightarrow> False | Some x \<Rightarrow> x \<le> instant now) then InvExpired
        else InvActive)
      in \<lparr>it_credential_id = mc_credential_id r, it_principal_id = mc_principal_id r, it_label = mc_label r,
          it_created_at = from_db pf (mc_created_at r),
          it_expires_at = map_option (from_db pf) (mc_expires_at r),
          it_revoked_at = map_option (from_db pf) (mc_revoked_at r),
          it_usable = (st = InvActive), it_state = st\<rparr>)"

text \<open>The reader: \<open>None\<close> for an unknown principal, else its state and its newest credentials.\<close>

definition credential_inventory_rows ::
  "uuid \<Rightarrow> nat \<Rightarrow> db \<Rightarrow> (bool \<times> mgmt_credential_row list) option" where
  "credential_inventory_rows i cap d = map_option
     (\<lambda>p. (mp_disabled_at p \<noteq> None, take cap (rev (sort_key (\<lambda>r. (mc_created_at r, mc_credential_id r))
        (filter (\<lambda>r. mc_principal_id r = i) (mgmt_credentials d))))))
     (row_of mp_principal_id i (mgmt_principals d))"

definition list_credential_inventory ::
  "platform \<Rightarrow> request \<Rightarrow> uuid \<Rightarrow> int \<Rightarrow> db \<Rightarrow> exc + (credential_item list \<times> bool)" where
  "list_credential_inventory pf rq i cap d =
     (if \<not> (1 \<le> cap \<and> cap \<le> 100) then Inl (ValueError ''limit must be between 1 and 100'')
      else and_then (read_db rq 0 (credential_inventory_rows i (nat (cap + 1))) d) (\<lambda>found.
        case found of None \<Rightarrow> Inl ManagementPrincipalNotFound
        | Some (disabled, rows) \<Rightarrow>
            Inr (map (inventory_item pf disabled (clock rq 0)) (take (nat cap) rows), nat cap < length rows)))"

record principal_item =
  pit_principal_id :: uuid
  pit_display_name :: pystr
  pit_created_at :: datetime
  pit_disabled_at :: "datetime option"
  pit_active :: bool
  pit_can_manage :: bool
  pit_scope_count :: nat
  pit_credential_count :: nat
  pit_usable_count :: nat

definition principal_inventory_item :: "platform \<Rightarrow> int \<Rightarrow> db \<Rightarrow> mgmt_principal_row \<Rightarrow> principal_item" where
  "principal_inventory_item pf now d r =
     (let own = filter (\<lambda>c. mc_principal_id c = mp_principal_id r) (mgmt_credentials d) in
      \<lparr>pit_principal_id = mp_principal_id r, pit_display_name = mp_display_name r,
       pit_created_at = from_db pf (mp_created_at r), pit_disabled_at = map_option (from_db pf) (mp_disabled_at r),
       pit_active = (mp_disabled_at r = None), pit_can_manage = mp_can_manage_principals r,
       pit_scope_count = length (filter (\<lambda>s. sc_principal_id s = mp_principal_id r) (mgmt_scopes d)),
       pit_credential_count = length own,
       pit_usable_count = (if mp_disabled_at r \<noteq> None then 0 else length (filter (live_at now) own))\<rparr>)"

definition principal_inventory_rows :: "nat \<Rightarrow> db \<Rightarrow> mgmt_principal_row list" where
  "principal_inventory_rows cap d =
     take cap (rev (sort_key (\<lambda>r. (mp_created_at r, mp_principal_id r)) (mgmt_principals d)))"

definition list_principal_inventory ::
  "platform \<Rightarrow> request \<Rightarrow> int \<Rightarrow> db \<Rightarrow> exc + (principal_item list \<times> bool)" where
  "list_principal_inventory pf rq cap d =
     (if \<not> (1 \<le> cap \<and> cap \<le> 100) then Inl (ValueError ''limit must be between 1 and 100'')
      else and_then (read_db rq 0 (\<lambda>d. map (principal_inventory_item pf (clock_at rq 0) d)
             (principal_inventory_rows (nat (cap + 1)) d)) d)
        (\<lambda>items. Inr (take (nat cap) items, nat cap < length items)))"

end
