(* ===== verification/Settings.thy ===== *)
theory Settings
  imports Errors
begin

text \<open>
  Configuration (\<open>bootstrap/settings.py\<close>): the entries for pricing, tenant cost budgets, the
  secrets and the statically configured runtime principals, with the field constraints pydantic
  enforces and the validators the classes add. A constructor returns the settings or raises
  \<open>ValueError\<close>; the lemmas show that what validates can be looked up unambiguously.
\<close>

subsection \<open>Field constraints\<close>

text \<open>
  \<open>StringConstraints(strip_whitespace=True)\<close> strips Unicode white space, which unlike
  \<open>str.strip\<close> leaves the four separator control characters.
\<close>

definition unicode_space :: "nat \<Rightarrow> bool" where
  "unicode_space c \<longleftrightarrow> py_isspace c \<and> \<not> (28 \<le> c \<and> c \<le> 31)"

definition strip_whitespace :: "pystr \<Rightarrow> pystr" where
  "strip_whitespace s = rev (dropWhile unicode_space (rev (dropWhile unicode_space s)))"

definition constrained_text :: "nat \<Rightarrow> pystr \<Rightarrow> exc + pystr" where
  "constrained_text n s = (let t = strip_whitespace s in
     if t = [] \<or> n < length t then Inl (ValueError ''string length'') else Inr t)"

text \<open>
  \<open>Field(max_digits=m, decimal_places=p)\<close>: a multiple of \<open>10^-p\<close> with at most \<open>m - p\<close> digits
  before the point.
\<close>

definition decimal_within :: "nat \<Rightarrow> nat \<Rightarrow> dec \<Rightarrow> bool" where
  "decimal_within m p d \<longleftrightarrow>
     (- int p \<le> dexp d \<or> coef d mod 10 ^ nat (- int p - dexp d) = 0) \<and> \<bar>dval d\<bar> < 10 ^ (m - p)"

subsection \<open>Pricing\<close>

record pricing_entry =
  pe_provider :: pystr
  pe_reference :: pystr
  pe_version :: pystr
  pe_basis_units :: int
  pe_input_price :: dec
  pe_output_price :: dec
  pe_currency :: pystr

definition pricing_entry_init :: "pricing_entry \<Rightarrow> exc + pricing_entry" where
  "pricing_entry_init e =
     and_then (constrained_text 50 (pe_provider e)) (\<lambda>p.
     and_then (constrained_text 255 (pe_reference e)) (\<lambda>r.
     and_then (constrained_text 255 (pe_version e)) (\<lambda>v.
     checked
       [(pe_basis_units e \<le> 0, ValueError ''price_basis_units''),
        (\<not> (0 \<le> coef (pe_input_price e) \<and> decimal_within 18 12 (pe_input_price e)),
           ValueError ''input_price_per_basis''),
        (\<not> (0 \<le> coef (pe_output_price e) \<and> decimal_within 18 12 (pe_output_price e)),
           ValueError ''output_price_per_basis''),
        (pe_currency e \<noteq> lit ''USD'', ValueError ''currency'')]
       (e\<lparr>pe_provider := p, pe_reference := r, pe_version := v\<rparr>))))"

definition pricing_key :: "pricing_entry \<Rightarrow> pystr \<times> pystr" where
  "pricing_key e = (pe_provider e, pe_reference e)"

definition PricingSettings :: "pricing_entry list \<Rightarrow> exc + pricing_entry list" where
  "PricingSettings raw = and_then (map_res pricing_entry_init raw) (\<lambda>es. checked
     [(\<not> distinct (map pricing_key es), ValueError ''Provider pricing keys must be unique.''),
      (\<not> distinct (map pe_version es), ValueError ''Pricing versions must be unique.'')] es)"

subsection \<open>Tenant cost budgets\<close>

record budget_entry =
  be_tenant_id :: uuid
  be_budget :: dec
  be_allowance :: dec
  be_currency :: pystr

definition budget_entry_init :: "budget_entry \<Rightarrow> exc + budget_entry" where
  "budget_entry_init e = checked
     [(\<not> (0 < coef (be_budget e) \<and> decimal_within 30 12 (be_budget e)),
         ValueError ''daily_estimated_cost_budget''),
      (\<not> (0 < coef (be_allowance e) \<and> decimal_within 30 12 (be_allowance e)),
         ValueError ''per_invocation_cost_allowance''),
      (be_currency e \<noteq> lit ''USD'', ValueError ''currency''),
      (dec_less (be_budget e) (be_allowance e),
         ValueError ''Tenant cost allowance must not exceed its daily budget.'')] e"

definition TenantBudgetSettings :: "budget_entry list \<Rightarrow> exc + budget_entry list" where
  "TenantBudgetSettings raw = and_then (map_res budget_entry_init raw) (\<lambda>es. checked
     [(\<not> distinct (map be_tenant_id es), ValueError ''Tenant cost budget IDs must be unique.'')] es)"

subsection \<open>Secrets and configured runtime principals\<close>

record security_settings =
  management_bootstrap_token :: pystr
  management_credential_pepper :: pystr
  runtime_credential_pepper :: pystr

definition SecuritySettings :: "security_settings \<Rightarrow> exc + security_settings" where
  "SecuritySettings s = checked
     [(length (management_bootstrap_token s) < 32, ValueError ''management_bootstrap_token''),
      (length (management_credential_pepper s) < 32, ValueError ''management_credential_pepper''),
      (length (runtime_credential_pepper s) < 32, ValueError ''runtime_credential_pepper''),
      (card {management_bootstrap_token s, management_credential_pepper s, runtime_credential_pepper s} \<noteq> 3,
         ValueError ''Bootstrap, Management pepper, and Runtime pepper must be distinct.'')] s"

record runtime_principal_entry =
  re_principal_id :: pystr
  re_tenant_id :: uuid
  re_agent_id :: uuid
  re_credential :: pystr
  re_usage_limit :: int
  re_allowance :: int

definition runtime_principal_entry_init :: "runtime_principal_entry \<Rightarrow> exc + runtime_principal_entry" where
  "runtime_principal_entry_init e = and_then (constrained_text 255 (re_principal_id e)) (\<lambda>p. checked
     [(length (re_credential e) < 32, ValueError ''credential''),
      (re_usage_limit e \<le> 0, ValueError ''usage_limit''),
      (re_allowance e \<le> 0, ValueError ''per_invocation_allowance''),
      (re_usage_limit e < re_allowance e,
         ValueError ''Runtime principal allowance must not exceed its usage limit.'')]
     (e\<lparr>re_principal_id := p\<rparr>))"

definition RuntimeAuthenticationSettings ::
  "runtime_principal_entry list \<Rightarrow> exc + runtime_principal_entry list" where
  "RuntimeAuthenticationSettings raw = and_then (map_res runtime_principal_entry_init raw) (\<lambda>es. checked
     [(\<not> distinct (map re_principal_id es), ValueError ''Runtime principal IDs must be unique.''),
      (\<not> distinct (map re_credential es), ValueError ''Runtime principal credentials must be unique.''),
      (\<not> distinct (map (\<lambda>e. (re_tenant_id e, re_agent_id e)) es),
         ValueError ''Only one runtime principal may be configured per Agent.'')] es)"

record settings =
  st_openai_api_key :: "pystr option"
  st_pricing :: "pricing_entry list"
  st_tenant_budgets :: "budget_entry list"
  st_security :: security_settings
  st_runtime_auth :: "runtime_principal_entry list"

definition Settings :: "settings \<Rightarrow> exc + settings" where
  "Settings raw =
     and_then (PricingSettings (st_pricing raw)) (\<lambda>pricing.
     and_then (TenantBudgetSettings (st_tenant_budgets raw)) (\<lambda>budgets.
     and_then (SecuritySettings (st_security raw)) (\<lambda>security.
     and_then (RuntimeAuthenticationSettings (st_runtime_auth raw)) (\<lambda>auth.
     checked
       [(\<exists>e \<in> set auth. re_credential e = management_bootstrap_token security,
           ValueError ''Management bootstrap and runtime credentials must be distinct.'')]
       (raw\<lparr>st_pricing := pricing, st_tenant_budgets := budgets, st_security := security,
          st_runtime_auth := auth\<rparr>)))))"

subsection \<open>What validated settings satisfy\<close>

lemma map_res_Inr_all: "map_res f xs = Inr ys \<Longrightarrow> \<forall>y \<in> set ys. \<exists>x \<in> set xs. f x = Inr y"
  by (induction xs arbitrary: ys) (fastforce simp: and_then_Inr_iff)+

lemma constrained_text_Inr_iff:
  "constrained_text n s = Inr t \<longleftrightarrow> t = strip_whitespace s \<and> t \<noteq> [] \<and> length t \<le> n"
  by (auto simp: constrained_text_def Let_def)

definition pricing_entry_ok :: "pricing_entry \<Rightarrow> bool" where
  "pricing_entry_ok e \<longleftrightarrow> pe_provider e \<noteq> [] \<and> pe_reference e \<noteq> [] \<and> pe_version e \<noteq> []
     \<and> length (pe_version e) \<le> 255 \<and> 0 < pe_basis_units e
     \<and> 0 \<le> coef (pe_input_price e) \<and> decimal_within 18 12 (pe_input_price e)
     \<and> 0 \<le> coef (pe_output_price e) \<and> decimal_within 18 12 (pe_output_price e)
     \<and> pe_currency e = lit ''USD''"

definition budget_entry_ok :: "budget_entry \<Rightarrow> bool" where
  "budget_entry_ok e \<longleftrightarrow> 0 < coef (be_budget e) \<and> decimal_within 30 12 (be_budget e)
     \<and> 0 < coef (be_allowance e) \<and> decimal_within 30 12 (be_allowance e)
     \<and> dval (be_allowance e) \<le> dval (be_budget e) \<and> be_currency e = lit ''USD''"

lemma pricing_entry_init_ok: "pricing_entry_init e = Inr e' \<Longrightarrow> pricing_entry_ok e'"
  by (auto simp: pricing_entry_init_def and_then_Inr_iff constrained_text_Inr_iff pricing_entry_ok_def
      split: if_splits)

lemma budget_entry_init_ok: "budget_entry_init e = Inr e' \<Longrightarrow> budget_entry_ok e'"
  by (auto simp: budget_entry_init_def budget_entry_ok_def dec_less_iff split: if_splits)

lemma PricingSettings_ok:
  assumes "PricingSettings raw = Inr es"
  shows "distinct (map pricing_key es)" "distinct (map pe_version es)" "\<forall>e \<in> set es. pricing_entry_ok e"
  using assms map_res_Inr_all pricing_entry_init_ok
  by (fastforce simp: PricingSettings_def and_then_Inr_iff split: if_splits)+

lemma TenantBudgetSettings_ok:
  assumes "TenantBudgetSettings raw = Inr es"
  shows "distinct (map be_tenant_id es)" "\<forall>e \<in> set es. budget_entry_ok e"
  using assms map_res_Inr_all budget_entry_init_ok
  by (fastforce simp: TenantBudgetSettings_def and_then_Inr_iff split: if_splits)+

text \<open>\<open>{key: value for entry in entries}\<close>: the last entry of a key wins.\<close>

definition dict_of :: "('e \<Rightarrow> 'k) \<Rightarrow> ('e \<Rightarrow> 'v) \<Rightarrow> 'e list \<Rightarrow> 'k \<Rightarrow> 'v option" where
  "dict_of key val es k = map_option val (row_of key k (rev es))"

lemma dict_of_distinct:
  assumes "distinct (map key es)"
  shows "dict_of key val es k = Some v \<longleftrightarrow> (\<exists>e \<in> set es. key e = k \<and> val e = v)"
proof -
  have "distinct (map key (rev es))" using assms by (simp add: rev_map [symmetric])
  then show ?thesis by (auto simp: dict_of_def row_of_Some_iff)
qed

lemma dict_of_None_iff: "dict_of key val es k = None \<longleftrightarrow> k \<notin> key ` set es"
  by (simp add: dict_of_def row_of_None_iff)

end
