(* ===== verification/Security.thy ===== *)
theory Security
  imports MgmtAuth Settings
begin

text \<open>
  Who makes a request: the principals (\<open>security/application/principal.py\<close>,
  \<open>runtime_principal.py\<close>), tenant authorization (\<open>authorization.py\<close>) and the two bearer
  dependencies (\<open>security/presentation/authentication.py\<close>, \<open>runtime_authentication.py\<close>). What
  FastAPI's \<open>HTTPBearer\<close> extracts from the Authorization header is an input: nothing, or a
  scheme and its credentials.
\<close>

datatype principal_kind = MANAGEMENT

record authenticated_principal =
  ap_principal_id :: uuid
  ap_credential_id :: uuid
  ap_kind :: principal_kind
  ap_tenant_ids :: "uuid set"
  ap_can_manage :: bool

definition authenticated_principal_init :: "authenticated_principal \<Rightarrow> exc + authenticated_principal" where
  "authenticated_principal_init p = checked
     [(ap_principal_id p = 0 \<or> ap_credential_id p = 0,
         ValueError ''principal and credential IDs must not be nil UUIDs'')] p"

definition authorize_tenant :: "authenticated_principal \<Rightarrow> uuid \<Rightarrow> exc + unit" where
  "authorize_tenant p t =
     (if ap_kind p \<noteq> MANAGEMENT \<or> t \<notin> ap_tenant_ids p then Inl TenantManagementAccessDenied else Inr ())"

record http_credentials =
  hc_scheme :: pystr
  hc_token :: pystr

text \<open>
  \<open>scheme.lower() != "bearer"\<close>: no character beyond ASCII lowers to a letter of that word, so
  the ASCII part of \<open>str.lower\<close> decides.
\<close>

definition bearer_token_of :: "http_credentials option \<Rightarrow> pystr option" where
  "bearer_token_of c = (case c of None \<Rightarrow> None
     | Some h \<Rightarrow> if map (\<lambda>x. if 65 \<le> x \<and> x \<le> 90 then x + 32 else x) (hc_scheme h) = lit ''bearer''
         then Some (hc_token h) else None)"

definition require_management_principal ::
  "platform \<Rightarrow> pystr \<Rightarrow> request \<Rightarrow> http_credentials option \<Rightarrow> (exc, db, authenticated_principal) op" where
  "require_management_principal pf pepper rq creds = (case bearer_token_of creds of
       None \<Rightarrow> throw ManagementAuthenticationFailed
     | Some token \<Rightarrow> bnd (authenticate pf pepper rq token) (\<lambda>found. case found of
           None \<Rightarrow> throw ManagementAuthenticationFailed
         | Some m \<Rightarrow> lift (authenticated_principal_init
             \<lparr>ap_principal_id = mi_principal_id m, ap_credential_id = mi_credential_id m,
              ap_kind = MANAGEMENT, ap_tenant_ids = mi_tenant_ids m, ap_can_manage = mi_can_manage m\<rparr>)))"

subsection \<open>Runtime principals\<close>

record workload =
  wl_principal_id :: pystr
  wl_tenant_id :: uuid
  wl_agent_id :: uuid
  wl_usage_limit :: int
  wl_allowance :: int

definition workload_init :: "workload \<Rightarrow> exc + workload" where
  "workload_init p = checked
     [(py_strip (wl_principal_id p) = [], ValueError ''runtime principal_id must not be empty''),
      (wl_usage_limit p \<le> 0 \<or> wl_allowance p \<le> 0,
         ValueError ''runtime usage limit and allowance must be positive''),
      (wl_usage_limit p < wl_allowance p, ValueError ''runtime allowance must not exceed usage limit'')] p"

definition workload_of :: "runtime_principal_entry \<Rightarrow> exc + workload" where
  "workload_of e = workload_init \<lparr>wl_principal_id = re_principal_id e, wl_tenant_id = re_tenant_id e,
     wl_agent_id = re_agent_id e, wl_usage_limit = re_usage_limit e, wl_allowance = re_allowance e\<rparr>"

text \<open>
  UTF-8 is injective and \<open>compare_digest\<close> on bytes is equality, so the entries that match are
  those whose credential is the supplied text. (A text with lone surrogates has no encoding.)
\<close>

definition require_runtime_principal ::
  "runtime_principal_entry list \<Rightarrow> http_credentials option \<Rightarrow> exc + workload" where
  "require_runtime_principal entries creds = (case bearer_token_of creds of
       None \<Rightarrow> Inl RuntimeAuthenticationFailed
     | Some supplied \<Rightarrow> (case filter (\<lambda>e. re_credential e = supplied) entries of
           [matched] \<Rightarrow> workload_of matched
         | _ \<Rightarrow> Inl RuntimeAuthenticationFailed))"

subsection \<open>Lemmas\<close>

lemma principal_kind_only [simp]: "k = MANAGEMENT"
  by (cases k) simp

lemma authorize_tenant_Inr_iff [simp]: "authorize_tenant p t = Inr () \<longleftrightarrow> t \<in> ap_tenant_ids p"
  by (simp add: authorize_tenant_def)

lemma require_management_Inr_iff:
  "require_management_principal pf pepper rq creds d = (Inr p, d') \<longleftrightarrow>
     (\<exists>token m. bearer_token_of creds = Some token \<and> authenticate pf pepper rq token d = (Inr (Some m), d')
        \<and> mi_principal_id m \<noteq> 0 \<and> mi_credential_id m \<noteq> 0
        \<and> p = \<lparr>ap_principal_id = mi_principal_id m, ap_credential_id = mi_credential_id m,
              ap_kind = MANAGEMENT, ap_tenant_ids = mi_tenant_ids m, ap_can_manage = mi_can_manage m\<rparr>)"
  by (auto simp: require_management_principal_def op_inv authenticated_principal_init_def
      split: option.splits)

lemma one_match:
  assumes "distinct (map key xs)" "x \<in> set xs"
  shows "filter (\<lambda>y. key y = key x) xs = [x]"
proof -
  have "filter (\<lambda>y. key y = k) xs = []" if "k \<notin> key ` set xs" for k xs
    using that by (auto simp: filter_empty_conv)
  then show ?thesis using assms by (induction xs) auto
qed

end
