(* ===== verification/Problem.thy ===== *)
theory Problem
  imports Errors
begin

text \<open>
  What a client sees of a failure: the problem documents of \<open>api/errors.py\<close> and the exception
  handlers that each context installs (\<open>*/presentation/errors.py\<close>), as functions from the
  exception, with the order in which \<open>create_app\<close> installs them. Every other exception is
  answered by the handler for \<open>Exception\<close>.
\<close>

record problem =
  pb_title :: string
  pb_status :: nat
  pb_detail :: string
  pb_instance :: pystr
  pb_decision_id :: "uuid option"
  pb_invocation_id :: "uuid option"
  pb_window_end :: "datetime option"
  pb_authenticate :: bool

text \<open>\<open>pb_authenticate\<close> is the header \<open>WWW-Authenticate: Bearer\<close>.\<close>

definition problem_response :: "pystr \<Rightarrow> string \<Rightarrow> nat \<Rightarrow> string \<Rightarrow> problem" where
  "problem_response path title code detail =
     \<lparr>pb_title = title, pb_status = code, pb_detail = detail, pb_instance = path, pb_decision_id = None,
      pb_invocation_id = None, pb_window_end = None, pb_authenticate = False\<rparr>"

definition unauthorized :: "pystr \<Rightarrow> problem" where
  "unauthorized path = (problem_response path ''Unauthorized'' 401
     ''Authentication credentials are missing or invalid.'')\<lparr>pb_authenticate := True\<rparr>"

definition base_problem :: "pystr \<Rightarrow> exc \<Rightarrow> problem" where
  "base_problem path e = (case e of
       RequestValidationError \<Rightarrow> problem_response path ''Request Validation Failed'' 422
         ''The request did not satisfy the API contract.''
     | _ \<Rightarrow> problem_response path ''Internal Server Error'' 500 ''An unexpected error occurred.'')"

definition tenancy_problem :: "pystr \<Rightarrow> exc \<Rightarrow> problem option" where
  "tenancy_problem path e = (case e of
       InvalidTenantName m \<Rightarrow> Some (problem_response path ''Invalid Tenant Name'' 422 m)
     | TenantNameAlreadyExists \<Rightarrow> Some (problem_response path ''Tenant Name Already Exists'' 409
         ''A tenant with the same normalized name already exists.'')
     | TenantNotFound _ \<Rightarrow> Some (problem_response path ''Tenant Not Found'' 404
         ''The requested tenant was not found.'')
     | _ \<Rightarrow> None)"

definition registry_problem :: "pystr \<Rightarrow> exc \<Rightarrow> problem option" where
  "registry_problem path e = (case e of
       InvalidAgentName m \<Rightarrow> Some (problem_response path ''Invalid Agent Name'' 422 m)
     | AgentNameAlreadyExists \<Rightarrow> Some (problem_response path ''Agent Name Already Exists'' 409
         ''An Agent with the same normalized name already exists for this tenant.'')
     | OwningTenantNotFound _ \<Rightarrow> Some (problem_response path ''Owning Tenant Not Found'' 404
         ''The requested owning tenant was not found.'')
     | AgentNotFound _ \<Rightarrow> Some (problem_response path ''Agent Not Found'' 404
         ''The requested Agent was not found.'')
     | InvalidModelName m \<Rightarrow> Some (problem_response path ''Invalid Model Name'' 422 m)
     | InvalidProviderModelReference m \<Rightarrow>
         Some (problem_response path ''Invalid Provider Model Reference'' 422 m)
     | ModelNameAlreadyExists \<Rightarrow> Some (problem_response path ''Model Name Already Exists'' 409
         ''A Model with the same normalized name already exists for this tenant.'')
     | ModelNotFound _ \<Rightarrow> Some (problem_response path ''Model Not Found'' 404
         ''The requested Model was not found.'')
     | _ \<Rightarrow> None)"

definition unavailable_resource :: "pystr \<Rightarrow> problem" where
  "unavailable_resource path = problem_response path ''Runtime Resource Not Found'' 404
     ''A requested runtime resource was not found for this tenant.''"

definition cost_budget_unavailable :: "pystr \<Rightarrow> problem" where
  "cost_budget_unavailable path = problem_response path ''Tenant Cost Budget Check Unavailable'' 503
     ''Tenant estimated-cost budget enforcement is temporarily unavailable.''"

definition gateway_problem :: "pystr \<Rightarrow> exc \<Rightarrow> problem option" where
  "gateway_problem path e = (case e of
       InvalidReportRange m \<Rightarrow> Some (problem_response path ''Invalid Runtime Report Range'' 422 m)
     | TenantRuntimeReportNotFound \<Rightarrow> Some (problem_response path ''Tenant Runtime Report Not Found'' 404
         ''The requested Tenant Runtime report was not found.'')
     | RuntimeReportUnavailable \<Rightarrow> Some (problem_response path ''Runtime Reporting Unavailable'' 503
         ''Runtime reporting is temporarily unavailable.'')
     | TenantNotAvailable _ \<Rightarrow> Some (unavailable_resource path)
     | AgentNotAvailable _ \<Rightarrow> Some (unavailable_resource path)
     | ModelNotAvailable _ \<Rightarrow> Some (unavailable_resource path)
     | InvalidInvocationInput m \<Rightarrow> Some (problem_response path ''Invalid Invocation Input'' 422 m)
     | ProviderNotSupportedForRuntime _ \<Rightarrow>
         Some (problem_response path ''Provider Not Supported for Runtime'' 422
           ''The governed Model provider is not supported for runtime invocation.'')
     | ProviderInvocationFailed _ \<Rightarrow> Some (problem_response path ''Model Provider Invocation Failed'' 502
         ''The upstream model provider could not complete the invocation.'')
     | InvocationNotFound _ \<Rightarrow> Some (problem_response path ''Invocation Not Found'' 404
         ''The requested Invocation was not found.'')
     | InvocationDenied _ did \<Rightarrow> Some ((problem_response path ''Invocation Denied'' 403
         ''The requested invocation is not permitted.'')\<lparr>pb_decision_id := Some did\<rparr>)
     | InvocationUsageLimited i w \<Rightarrow> Some ((problem_response path ''Runtime Usage Limit Reached'' 429
         ''Runtime usage allowance for the current UTC day has been exhausted.'')
           \<lparr>pb_invocation_id := Some i, pb_window_end := Some w\<rparr>)
     | UsageLimitUnavailable \<Rightarrow> Some (problem_response path ''Runtime Usage Check Unavailable'' 503
         ''Runtime usage could not be verified safely.'')
     | InvocationCostLimited i w \<Rightarrow> Some ((problem_response path ''Tenant Estimated-Cost Budget Reached'' 429
         ''Tenant estimated-cost allowance for the current window has been exhausted.'')
           \<lparr>pb_invocation_id := Some i, pb_window_end := Some w\<rparr>)
     | TenantCostBudgetConfigurationUnavailable \<Rightarrow> Some (cost_budget_unavailable path)
     | TenantCostBudgetCheckUnavailable \<Rightarrow> Some (cost_budget_unavailable path)
     | _ \<Rightarrow> None)"

definition policy_unavailable :: "pystr \<Rightarrow> problem" where
  "policy_unavailable path = problem_response path ''Policy Resource Not Found'' 404
     ''A requested policy resource was not found for this tenant.''"

definition policy_problem :: "pystr \<Rightarrow> exc \<Rightarrow> problem option" where
  "policy_problem path e = (case e of
       PolicyTenantNotAvailable _ \<Rightarrow> Some (policy_unavailable path)
     | PolicyAgentNotAvailable _ \<Rightarrow> Some (policy_unavailable path)
     | PolicyModelNotAvailable _ \<Rightarrow> Some (policy_unavailable path)
     | PermissionNotFound _ \<Rightarrow> Some (problem_response path ''Permission Not Found'' 404
         ''The requested Agent-to-Model permission was not found.'')
     | _ \<Rightarrow> None)"

definition audit_problem :: "pystr \<Rightarrow> exc \<Rightarrow> problem option" where
  "audit_problem path e = (case e of
       InvalidAuditRange m \<Rightarrow> Some (problem_response path ''Invalid Audit Range'' 422 m)
     | TenantAuditNotFound \<Rightarrow> Some (problem_response path ''Tenant Audit Records Not Found'' 404
         ''The requested Tenant audit records were not found.'')
     | ManagementAuditUnavailable \<Rightarrow> Some (problem_response path ''Management Audit Unavailable'' 503
         ''Management audit records are temporarily unavailable.'')
     | _ \<Rightarrow> None)"

definition mgmt_not_found :: "pystr \<Rightarrow> problem" where
  "mgmt_not_found path = problem_response path ''Management Identity Not Found'' 404
     ''The requested Management identity resource was not found.''"

definition mgmt_problem :: "pystr \<Rightarrow> exc \<Rightarrow> problem option" where
  "mgmt_problem path e = (case e of
       BootstrapAuthenticationFailed \<Rightarrow> Some (unauthorized path)
     | BootstrapAlreadyCompleted \<Rightarrow> Some (unauthorized path)
     | ManagementPrincipalNotFound \<Rightarrow> Some (mgmt_not_found path)
     | ManagementCredentialNotFound \<Rightarrow> Some (mgmt_not_found path)
     | PrincipalManagementDenied \<Rightarrow> Some (mgmt_not_found path)
     | InvalidManagementIdentityCommand m \<Rightarrow>
         Some (problem_response path ''Invalid Management Identity Command'' 422 m)
     | InvalidAuthenticationEvidenceQuery m \<Rightarrow>
         Some (problem_response path ''Invalid Management Authentication Evidence Query'' 422 m)
     | LastPrincipalManagerConflict \<Rightarrow> Some (problem_response path ''Management Recovery Conflict'' 409
         ''The operation would remove the last recoverable Management principal manager.'')
     | _ \<Rightarrow> None)"

definition runtime_hidden :: "pystr \<Rightarrow> problem" where
  "runtime_hidden path = problem_response path ''Runtime Identity Not Found'' 404
     ''The requested Runtime identity resource was not found.''"

definition runtime_problem :: "pystr \<Rightarrow> exc \<Rightarrow> problem option" where
  "runtime_problem path e = (case e of
       RuntimeBindingNotFound \<Rightarrow> Some (runtime_hidden path)
     | RuntimeCredentialNotFound \<Rightarrow> Some (runtime_hidden path)
     | RuntimePrincipalManagementDenied \<Rightarrow> Some (runtime_hidden path)
     | RuntimePrincipalNotFound \<Rightarrow> Some (runtime_hidden path)
     | InvalidRuntimeIdentityCommand m \<Rightarrow>
         Some (problem_response path ''Invalid Runtime Identity Command'' 422 m)
     | RuntimeUsageLimitsAlreadyInitialized \<Rightarrow>
         Some (problem_response path ''Runtime Usage Limits Already Initialized'' 409
           ''Runtime usage limits can only be initialized once.'')
     | RuntimeIdentityContinuityConflict \<Rightarrow>
         Some (problem_response path ''Runtime Identity Continuity Conflict'' 409
           ''The Runtime identity continuity binding is already claimed.'')
     | _ \<Rightarrow> None)"

definition security_problem :: "pystr \<Rightarrow> exc \<Rightarrow> problem option" where
  "security_problem path e = (case e of
       ManagementAuthenticationFailed \<Rightarrow> Some (unauthorized path)
     | RuntimeAuthenticationFailed \<Rightarrow> Some (unauthorized path)
     | _ \<Rightarrow> None)"

text \<open>
  The handler of an exception is the one registered for its class. No class is registered by two
  contexts, so the order of installation does not matter.
\<close>

definition installed_handlers :: "(pystr \<Rightarrow> exc \<Rightarrow> problem option) list" where
  "installed_handlers = [tenancy_problem, registry_problem, gateway_problem, policy_problem, audit_problem,
     mgmt_problem, runtime_problem, security_problem]"

definition problem_of :: "pystr \<Rightarrow> exc \<Rightarrow> problem" where
  "problem_of path e = (case concat (map (\<lambda>h. case h path e of None \<Rightarrow> [] | Some p \<Rightarrow> [p]) installed_handlers) of
       [] \<Rightarrow> base_problem path e | p # _ \<Rightarrow> p)"

lemmas problem_simps = problem_of_def installed_handlers_def tenancy_problem_def registry_problem_def
  gateway_problem_def policy_problem_def audit_problem_def mgmt_problem_def runtime_problem_def
  security_problem_def base_problem_def

end
