(* ===== verification/Repository.thy ===== *)
theory Repository
  imports Store
begin

text \<open>
  What a use case relies on when it persists an aggregate: the repository port that every
  bounded context declares (\<open>async def add\<close>, \<open>async def get\<close>) and the two shapes of handler
  over it, \<open>add\<close> then \<open>commit\<close> in a unit of work, and \<open>get\<close> in a unit of work. The locale
  \<open>repository\<close> states the laws of the port; its lemmas are proved once and hold for the
  tenant, agent, model and invocation repositories, which interpret it in their own theories.
\<close>

definition persist :: "('e \<Rightarrow> unit tx) \<Rightarrow> 'e \<Rightarrow> (exc, db, 'e) op" where
  "persist add e = with_uow (commit_after (bnd (add e) (\<lambda>_. ret e)))"

fun persist_all :: "('e \<Rightarrow> unit tx) \<Rightarrow> 'e list \<Rightarrow> db \<Rightarrow> db" where
  "persist_all add [] d = d"
| "persist_all add (e # es) d = persist_all add es (snd (persist add e d))"

definition lookup :: "('k \<Rightarrow> 'e option tx) \<Rightarrow> 'k \<Rightarrow> (exc, db, 'e option) op" where
  "lookup get k = with_uow (get k)"

lemma persist_eq:
  "persist add e d = (case add e \<lparr>committed = d, working = d\<rparr> of
      (Inl x, s) \<Rightarrow> (Inl x, committed s) | (Inr _, s) \<Rightarrow> (Inr e, working s))"
  by (auto simp: persist_def with_uow_eq commit_after_def bnd_def split: prod.split sum.split)

lemma persist_Inr_iff:
  "persist add e d = (Inr a, d') \<longleftrightarrow>
     a = e \<and> (\<exists>s. add e \<lparr>committed = d, working = d\<rparr> = (Inr (), s) \<and> d' = working s)"
  by (auto simp: persist_eq split: prod.splits sum.splits)

text \<open>Translating a violation of one named constraint into an application error.\<close>

definition translating :: "(exc \<Rightarrow> exc option) \<Rightarrow> unit tx \<Rightarrow> unit tx" where
  "translating sel m = catch m (\<lambda>e. map_option throw (sel e))"

lemma translating_run:
  "translating sel m s = (case m s of (Inl e, s') \<Rightarrow> (Inl (case sel e of None \<Rightarrow> e | Some x \<Rightarrow> x), s')
     | (Inr a, s') \<Rightarrow> (Inr a, s'))"
  by (auto simp: translating_def catch_def split: prod.split sum.split option.split)

lemma translating_Inr_iff [op_inv]: "translating sel m s = (Inr u, s') \<longleftrightarrow> m s = (Inr u, s')"
  by (auto simp: translating_run split: prod.splits sum.splits)

lemma keeps_translating [intro]: "keeps v m \<Longrightarrow> keeps v (translating sel m)"
  by (auto simp: keeps_def translating_run split: prod.split sum.split) (metis snd_conv)+

locale repository =
  fixes add :: "'e \<Rightarrow> unit tx"
    and get :: "'k \<Rightarrow> 'e option tx"
    and key :: "'e \<Rightarrow> 'k"
    and wf :: "'e \<Rightarrow> bool"
    and view :: "'e \<Rightarrow> 'e"
  assumes add_keeps: "keeps committed (add e)"
    and get_pure: "snd (get k s) = s"
    and get_local: "working s = working s' \<Longrightarrow> fst (get k s) = fst (get k s')"
    and get_added: "wf e \<Longrightarrow> add e s = (Inr (), s') \<Longrightarrow> fst (get (key e) s') = Inr (Some (view e))"
    and get_other: "add e s = (Inr (), s') \<Longrightarrow> k \<noteq> key e \<Longrightarrow> fst (get k s') = fst (get k s)"
    and add_fresh: "add e s = (Inr (), s') \<Longrightarrow> fst (get (key e) s) = Inr None"
begin

lemma lookup_result: "lookup get k d = (fst (get k \<lparr>committed = d, working = d\<rparr>), d)"
proof -
  have "snd (get k \<lparr>committed = d, working = d\<rparr>) = \<lparr>committed = d, working = d\<rparr>" by (rule get_pure)
  then show ?thesis by (auto simp: lookup_def with_uow_eq split: prod.split)
qed

lemma lookup_in: "working s = d \<Longrightarrow> lookup get k d = (fst (get k s), d)"
  by (simp add: lookup_result) (rule get_local, simp)

lemma persist_failed: "persist add e d = (Inl x, d') \<Longrightarrow> d' = d"
  unfolding persist_def by (rule commit_after_atomic) (auto intro: add_keeps)

lemma lookup_persisted:
  assumes "wf e" "persist add e d = (Inr a, d')"
  shows "lookup get (key e) d' = (Inr (Some (view e)), d')"
proof -
  obtain s where s: "add e \<lparr>committed = d, working = d\<rparr> = (Inr (), s)" "d' = working s"
    using assms(2) by (auto simp: persist_Inr_iff)
  show ?thesis using get_added [OF assms(1) s(1)] s(2) by (simp add: lookup_in)
qed

lemma persist_fresh:
  assumes "persist add e d = (Inr a, d')"
  shows "lookup get (key e) d = (Inr None, d)"
  using assms add_fresh by (fastforce simp: persist_Inr_iff lookup_result)

lemma lookup_other:
  assumes "persist add e d = (Inr a, d')" "k \<noteq> key e"
  shows "fst (lookup get k d') = fst (lookup get k d)"
proof -
  obtain s where s: "add e \<lparr>committed = d, working = d\<rparr> = (Inr (), s)" "d' = working s"
    using assms(1) by (auto simp: persist_Inr_iff)
  show ?thesis
    using get_other [OF s(1) assms(2)] lookup_in [of s d' k] s(2) by (simp add: lookup_result)
qed

lemma persist_twice:
  assumes "wf e" "persist add e d = (Inr a, d')" "key e' = key e"
  shows "\<exists>x. persist add e' d' = (Inl x, d')"
proof (cases "persist add e' d'")
  case (Pair r d'')
  show ?thesis
  proof (cases r)
    case (Inl x)
    then show ?thesis using Pair persist_failed by blast
  next
    case (Inr b)
    then have "lookup get (key e') d' = (Inr None, d')" using persist_fresh Pair by blast
    then show ?thesis using lookup_persisted [OF assms(1,2)] assms(3) by simp
  qed
qed

text \<open>What has been stored stays readable, unchanged, whatever is attempted afterwards.\<close>

lemma lookup_step:
  assumes "lookup get k d = (Inr (Some v), d)"
  shows "lookup get k (snd (persist add e d)) = (Inr (Some v), snd (persist add e d))"
proof (cases "persist add e d")
  case (Pair r d')
  show ?thesis
  proof (cases r)
    case (Inl x)
    then show ?thesis using Pair persist_failed assms by auto
  next
    case (Inr a)
    then have p: "persist add e d = (Inr a, d')" using Pair by simp
    then have "k \<noteq> key e" using persist_fresh [OF p] assms by auto
    then show ?thesis using lookup_other [OF p] assms p by (simp add: lookup_result)
  qed
qed

lemma lookup_stable:
  "lookup get k d = (Inr (Some v), d) \<Longrightarrow>
   lookup get k (persist_all add es d) = (Inr (Some v), persist_all add es d)"
  by (induction es arbitrary: d) (use lookup_step in \<open>auto\<close>)

end

end
