(* ===== verification/Tenancy.thy ===== *)
theory Tenancy
  imports Repository
begin

text \<open>
  Identity and Tenancy: the \<open>TenantName\<close> and \<open>Tenant\<close> values (\<open>domain/tenant.py\<close>), the
  PostgreSQL repository (\<open>infrastructure/repository.py\<close>) and the handlers
  \<open>CreateTenantHandler\<close> and \<open>GetTenantHandler\<close>. The theory also holds \<open>unique_name\<close>, the
  constructor text that the names of tenants, agents and models share but for the exception.
\<close>

record entity_name =
  name_value :: pystr
  name_normalized :: pystr

definition max_name_length :: nat where "max_name_length = 100"

definition unique_name ::
  "platform \<Rightarrow> (string \<Rightarrow> exc) \<Rightarrow> string \<Rightarrow> string \<Rightarrow> pystr \<Rightarrow> exc + entity_name" where
  "unique_name pf err empty_msg long_msg v =
     (let c = canonical v in
      if c = [] then Inl (err empty_msg)
      else if max_name_length < length c then Inl (err long_msg)
      else Inr \<lparr>name_value = c, name_normalized = casefold pf c\<rparr>)"

definition TenantName :: "platform \<Rightarrow> pystr \<Rightarrow> exc + entity_name" where
  "TenantName pf = unique_name pf InvalidTenantName ''Tenant name must not be empty.''
     ''Tenant name must be at most 100 characters.''"

text \<open>The names a constructor can return, and their reconstruction from the stored value.\<close>

definition name_ok :: "platform \<Rightarrow> entity_name \<Rightarrow> bool" where
  "name_ok pf n \<longleftrightarrow> name_value n \<noteq> [] \<and> length (name_value n) \<le> 100
     \<and> canonical (name_value n) = name_value n \<and> name_normalized n = casefold pf (name_value n)"

lemma unique_name_Inr_iff:
  "unique_name pf err m1 m2 v = Inr n \<longleftrightarrow> name_ok pf n \<and> name_value n = canonical v"
  by (auto simp: unique_name_def name_ok_def Let_def max_name_length_def)

lemma unique_name_again: "name_ok pf n \<Longrightarrow> unique_name pf err m1 m2 (name_value n) = Inr n"
  by (simp add: unique_name_Inr_iff name_ok_def)

lemma unique_name_normalized:
  "unique_name pf err m1 m2 v = Inr n \<Longrightarrow> unique_name pf err' m1' m2' w = Inr k \<Longrightarrow>
   name_normalized n = name_normalized k \<longleftrightarrow> casefold pf (canonical v) = casefold pf (canonical w)"
  by (auto simp: unique_name_Inr_iff name_ok_def)

record tenant =
  ten_id :: uuid
  ten_name :: entity_name
  ten_created_at :: datetime

definition tenant_init :: "tenant \<Rightarrow> exc + tenant" where
  "tenant_init t = checked
     [(\<not> is_aware (ten_created_at t), ValueError ''Tenant creation time must be timezone-aware.'')] t"

definition tenant_create :: "platform \<Rightarrow> uuid \<Rightarrow> pystr \<Rightarrow> datetime \<Rightarrow> exc + tenant" where
  "tenant_create pf i name created = and_then (TenantName pf name)
     (\<lambda>n. tenant_init \<lparr>ten_id = i, ten_name = n, ten_created_at = created\<rparr>)"

definition tenant_ok :: "platform \<Rightarrow> tenant \<Rightarrow> bool" where
  "tenant_ok pf t \<longleftrightarrow> name_ok pf (ten_name t) \<and> is_aware (ten_created_at t)"

lemma tenant_create_Inr_iff:
  "tenant_create pf i name c = Inr t \<longleftrightarrow>
     tenant_ok pf t \<and> ten_id t = i \<and> ten_created_at t = c \<and> name_value (ten_name t) = canonical name"
  by (auto simp: tenant_create_def and_then_Inr_iff TenantName_def unique_name_Inr_iff tenant_init_def
      tenant_ok_def)

subsection \<open>The repository\<close>

definition tenant_to_row :: "tenant \<Rightarrow> tenant_row" where
  "tenant_to_row t = \<lparr>tr_id = ten_id t, tr_name = name_value (ten_name t),
     tr_normalized_name = name_normalized (ten_name t), tr_created_at = instant (ten_created_at t)\<rparr>"

definition tenant_add :: "tenant \<Rightarrow> unit tx" where
  "tenant_add t = translating
     (\<lambda>e. if e = IntegrityError (UniqueViolation ''uq_tenants_normalized_name'')
          then Some TenantNameAlreadyExists else None)
     (flush (tenant_insert (tenant_to_row t)))"

definition tenant_of_row :: "platform \<Rightarrow> tenant_row \<Rightarrow> exc + tenant" where
  "tenant_of_row pf r = and_then (TenantName pf (tr_name r))
     (\<lambda>n. tenant_init \<lparr>ten_id = tr_id r, ten_name = n, ten_created_at = from_db pf (tr_created_at r)\<rparr>)"

definition tenant_get :: "platform \<Rightarrow> uuid \<Rightarrow> tenant option tx" where
  "tenant_get pf i = bnd (query (\<lambda>d. row_of tr_id i (tenants d)))
     (\<lambda>row. case row of None \<Rightarrow> ret None | Some r \<Rightarrow> lift (map_sum id Some (tenant_of_row pf r)))"

text \<open>What reading back gives: the same tenant, its creation time in the zone of the session.\<close>

definition tenant_view :: "platform \<Rightarrow> tenant \<Rightarrow> tenant" where
  "tenant_view pf t = t\<lparr>ten_created_at := from_db pf (instant (ten_created_at t))\<rparr>"

lemma tenant_of_row_to_row: "tenant_ok pf t \<Longrightarrow> tenant_of_row pf (tenant_to_row t) = Inr (tenant_view pf t)"
  by (simp add: tenant_of_row_def tenant_to_row_def tenant_ok_def TenantName_def unique_name_again
      tenant_init_def tenant_view_def)

lemma tenant_get_result: "tenant_get pf i s = (case row_of tr_id i (tenants (working s)) of
    None \<Rightarrow> Inr None | Some r \<Rightarrow> map_sum id Some (tenant_of_row pf r), s)"
  by (simp add: tenant_get_def op_simps split: option.split)

lemma tenant_insert_Inr_iff:
  "tenant_insert r d = Inr d' \<longleftrightarrow>
     text_fits 100 (tr_name r) \<and> text_fits 200 (tr_normalized_name r)
     \<and> tr_id r \<notin> tr_id ` set (tenants d) \<and> tr_normalized_name r \<notin> tr_normalized_name ` set (tenants d)
     \<and> d' = d\<lparr>tenants := tenants d @ [r]\<rparr>"
  by (auto simp: tenant_insert_def failure_defs)

lemma tenant_add_Inr_iff [op_inv]:
  "tenant_add t s = (Inr u, s') \<longleftrightarrow>
     (\<exists>d. tenant_insert (tenant_to_row t) (working s) = Inr d \<and> s' = s\<lparr>working := d\<rparr>)"
  by (simp add: tenant_add_def op_inv)

interpretation tenant_repo: repository tenant_add "tenant_get pf" ten_id "tenant_ok pf" "tenant_view pf" for pf
proof (unfold_locales, goal_cases)
  case (1 e)
  show ?case by (auto simp: tenant_add_def)
next
  case (2 k s)
  show ?case by (simp add: tenant_get_result)
next
  case (3 s s' k)
  then show ?case by (simp add: tenant_get_result)
next
  case (4 e s s')
  have "row_of tr_id (ten_id e) (tenants (working s)) = None" if "tr_id (tenant_to_row e) \<notin> tr_id ` set (tenants (working s))"
    using that by (simp add: row_of_None_iff tenant_to_row_def)
  then show ?case using 4 tenant_of_row_to_row
    by (auto simp: tenant_get_result tenant_add_Inr_iff tenant_insert_Inr_iff row_of_append)
       (auto simp: tenant_to_row_def)
next
  case (5 e s s' k)
  then show ?case
    by (auto simp: tenant_get_result tenant_add_Inr_iff tenant_insert_Inr_iff row_of_append
        tenant_to_row_def split: option.split)
next
  case (6 e s s')
  then have "row_of tr_id (ten_id e) (tenants (working s)) = None"
    by (auto simp: tenant_add_Inr_iff tenant_insert_Inr_iff row_of_None_iff tenant_to_row_def)
  then show ?case by (simp add: tenant_get_result)
qed

subsection \<open>The handlers\<close>

definition create_tenant :: "platform \<Rightarrow> request \<Rightarrow> pystr \<Rightarrow> (exc, db, tenant) op" where
  "create_tenant pf rq name =
     bnd (lift (tenant_create pf (id_at rq 0) name (clock rq 0))) (persist tenant_add)"

definition get_tenant :: "platform \<Rightarrow> uuid \<Rightarrow> (exc, db, tenant) op" where
  "get_tenant pf i = bnd (lookup (tenant_get pf) i)
     (\<lambda>t. case t of None \<Rightarrow> throw (TenantNotFound i) | Some t' \<Rightarrow> ret t')"

text \<open>The store never holds two tenants of one identity, nor two of one normalized name.\<close>

definition tenants_ok :: "platform \<Rightarrow> db \<Rightarrow> bool" where
  "tenants_ok pf d \<longleftrightarrow> distinct (map tr_id (tenants d)) \<and> distinct (map tr_normalized_name (tenants d))
     \<and> (\<forall>r \<in> set (tenants d). tr_name r \<noteq> [] \<and> length (tr_name r) \<le> 100
          \<and> canonical (tr_name r) = tr_name r \<and> tr_normalized_name r = casefold pf (tr_name r))"

lemma create_tenant_Inr_iff:
  "create_tenant pf rq name d = (Inr t, d') \<longleftrightarrow>
     tenant_create pf (id_at rq 0) name (clock rq 0) = Inr t
     \<and> tenant_insert (tenant_to_row t) d = Inr d'"
  by (auto simp: create_tenant_def op_inv persist_Inr_iff)

lemma create_tenant_failed: "create_tenant pf rq name d = (Inl e, d') \<Longrightarrow> d' = d"
  by (auto simp: create_tenant_def bnd_Inl_iff lift_def dest: tenant_repo.persist_failed)

lemma create_tenant_keeps_ok:
  assumes "tenants_ok pf d"
  shows "tenants_ok pf (snd (create_tenant pf rq name d))"
proof (rule run_cases)
  fix t d'
  assume "create_tenant pf rq name d = (Inr t, d')"
  then show "tenants_ok pf d'" using assms
    by (auto simp: create_tenant_Inr_iff tenant_create_Inr_iff tenant_insert_Inr_iff tenants_ok_def
        tenant_ok_def name_ok_def tenant_to_row_def)
qed (use assms in \<open>auto dest: create_tenant_failed\<close>)

end
