(* ===== verification/Registry.thy ===== *)
theory Registry
  imports Tenancy
begin

text \<open>
  AI Asset Registry: governed agents and model references, each owned by a tenant
  (\<open>domain/agent.py\<close>, \<open>domain/model.py\<close>), their PostgreSQL repositories, the tenant-existence
  port, and the handlers \<open>RegisterAgentHandler\<close>, \<open>GetAgentHandler\<close>,
  \<open>RegisterModelHandler\<close>, \<open>GetModelHandler\<close>.
\<close>

definition AgentName :: "platform \<Rightarrow> pystr \<Rightarrow> exc + entity_name" where
  "AgentName pf = unique_name pf InvalidAgentName ''Agent name must not be empty.''
     ''Agent name must be at most 100 characters.''"

definition ModelName :: "platform \<Rightarrow> pystr \<Rightarrow> exc + entity_name" where
  "ModelName pf = unique_name pf InvalidModelName ''Model name must not be empty.''
     ''Model name must be at most 100 characters.''"

definition max_provider_model_reference_length :: nat where
  "max_provider_model_reference_length = 255"

definition ProviderModelReference :: "pystr \<Rightarrow> exc + pystr" where
  "ProviderModelReference v =
     (let c = py_strip v in
      if c = [] then Inl (InvalidProviderModelReference ''Provider model reference must not be empty.'')
      else if max_provider_model_reference_length < length c
      then Inl (InvalidProviderModelReference ''Provider model reference must be at most 255 characters.'')
      else Inr c)"

definition provider_value :: "provider \<Rightarrow> string" where
  "provider_value p = (case p of OPENAI \<Rightarrow> ''openai'' | ANTHROPIC \<Rightarrow> ''anthropic''
     | GOOGLE \<Rightarrow> ''google'' | AZURE_OPENAI \<Rightarrow> ''azure_openai'' | AWS_BEDROCK \<Rightarrow> ''aws_bedrock''
     | OTHER \<Rightarrow> ''other'')"

definition reference_ok :: "pystr \<Rightarrow> bool" where
  "reference_ok v \<longleftrightarrow> v \<noteq> [] \<and> length v \<le> 255 \<and> py_strip v = v"

lemma ProviderModelReference_Inr_iff:
  "ProviderModelReference v = Inr r \<longleftrightarrow> reference_ok r \<and> r = py_strip v"
  by (auto simp: ProviderModelReference_def reference_ok_def Let_def max_provider_model_reference_length_def)

subsection \<open>Agents\<close>

record agent =
  ag_id :: uuid
  ag_tenant_id :: uuid
  ag_name :: entity_name
  ag_created_at :: datetime

definition agent_init :: "agent \<Rightarrow> exc + agent" where
  "agent_init a = checked
     [(\<not> is_aware (ag_created_at a), ValueError ''Agent registration time must be timezone-aware.'')] a"

definition agent_register :: "platform \<Rightarrow> uuid \<Rightarrow> uuid \<Rightarrow> pystr \<Rightarrow> datetime \<Rightarrow> exc + agent" where
  "agent_register pf i t name created = and_then (AgentName pf name)
     (\<lambda>n. agent_init \<lparr>ag_id = i, ag_tenant_id = t, ag_name = n, ag_created_at = created\<rparr>)"

definition agent_ok :: "platform \<Rightarrow> agent \<Rightarrow> bool" where
  "agent_ok pf a \<longleftrightarrow> name_ok pf (ag_name a) \<and> is_aware (ag_created_at a)"

lemma agent_register_Inr_iff:
  "agent_register pf i t name c = Inr a \<longleftrightarrow>
     agent_ok pf a \<and> ag_id a = i \<and> ag_tenant_id a = t \<and> ag_created_at a = c
     \<and> name_value (ag_name a) = canonical name"
  by (auto simp: agent_register_def and_then_Inr_iff AgentName_def unique_name_Inr_iff agent_init_def
      agent_ok_def)

definition agent_to_row :: "agent \<Rightarrow> agent_row" where
  "agent_to_row a = \<lparr>ar_id = ag_id a, ar_tenant_id = ag_tenant_id a,
     ar_name = name_value (ag_name a), ar_normalized_name = name_normalized (ag_name a),
     ar_created_at = instant (ag_created_at a)\<rparr>"

definition agent_add :: "agent \<Rightarrow> unit tx" where
  "agent_add a = translating
     (\<lambda>e. if e = IntegrityError (UniqueViolation ''uq_agents_tenant_id_normalized_name'')
          then Some AgentNameAlreadyExists
          else if e = IntegrityError (ForeignKeyViolation ''fk_agents_tenant_id_tenants'')
          then Some (OwningTenantNotFound (ag_tenant_id a)) else None)
     (flush (agent_insert (agent_to_row a)))"

definition agent_of_row :: "platform \<Rightarrow> agent_row \<Rightarrow> exc + agent" where
  "agent_of_row pf r = and_then (AgentName pf (ar_name r))
     (\<lambda>n. agent_init \<lparr>ag_id = ar_id r, ag_tenant_id = ar_tenant_id r, ag_name = n,
        ag_created_at = from_db pf (ar_created_at r)\<rparr>)"

definition agent_get :: "platform \<Rightarrow> uuid \<Rightarrow> agent option tx" where
  "agent_get pf i = bnd (query (\<lambda>d. row_of ar_id i (agents d)))
     (\<lambda>row. case row of None \<Rightarrow> ret None | Some r \<Rightarrow> lift (map_sum id Some (agent_of_row pf r)))"

definition agent_view :: "platform \<Rightarrow> agent \<Rightarrow> agent" where
  "agent_view pf a = a\<lparr>ag_created_at := from_db pf (instant (ag_created_at a))\<rparr>"

lemma agent_of_row_to_row: "agent_ok pf a \<Longrightarrow> agent_of_row pf (agent_to_row a) = Inr (agent_view pf a)"
  by (simp add: agent_of_row_def agent_to_row_def agent_ok_def AgentName_def unique_name_again
      agent_init_def agent_view_def)

lemma agent_get_result: "agent_get pf i s = (case row_of ar_id i (agents (working s)) of
    None \<Rightarrow> Inr None | Some r \<Rightarrow> map_sum id Some (agent_of_row pf r), s)"
  by (simp add: agent_get_def op_simps split: option.split)

lemma agent_insert_Inr_iff:
  "agent_insert r d = Inr d' \<longleftrightarrow>
     text_fits 100 (ar_name r) \<and> text_fits 200 (ar_normalized_name r)
     \<and> ar_id r \<notin> ar_id ` set (agents d)
     \<and> (ar_tenant_id r, ar_normalized_name r)
          \<notin> (\<lambda>a. (ar_tenant_id a, ar_normalized_name a)) ` set (agents d)
     \<and> ar_tenant_id r \<in> tr_id ` set (tenants d) \<and> d' = d\<lparr>agents := agents d @ [r]\<rparr>"
  by (auto simp: agent_insert_def failure_defs)

lemma agent_add_Inr_iff [op_inv]:
  "agent_add a s = (Inr u, s') \<longleftrightarrow>
     (\<exists>d. agent_insert (agent_to_row a) (working s) = Inr d \<and> s' = s\<lparr>working := d\<rparr>)"
  by (simp add: agent_add_def op_inv)

interpretation agent_repo: repository agent_add "agent_get pf" ag_id "agent_ok pf" "agent_view pf" for pf
proof (unfold_locales, goal_cases)
  case (1 e)
  show ?case by (auto simp: agent_add_def)
next
  case (2 k s)
  show ?case by (simp add: agent_get_result)
next
  case (3 s s' k)
  then show ?case by (simp add: agent_get_result)
next
  case (4 e s s')
  have "row_of ar_id (ag_id e) (agents (working s)) = None"
    if "ar_id (agent_to_row e) \<notin> ar_id ` set (agents (working s))"
    using that by (simp add: row_of_None_iff agent_to_row_def)
  then show ?case using 4 agent_of_row_to_row
    by (auto simp: agent_get_result agent_add_Inr_iff agent_insert_Inr_iff row_of_append)
       (auto simp: agent_to_row_def)
next
  case (5 e s s' k)
  then show ?case
    by (auto simp: agent_get_result agent_add_Inr_iff agent_insert_Inr_iff row_of_append
        agent_to_row_def split: option.split)
next
  case (6 e s s')
  then have "row_of ar_id (ag_id e) (agents (working s)) = None"
    by (auto simp: agent_add_Inr_iff agent_insert_Inr_iff row_of_None_iff agent_to_row_def)
  then show ?case by (simp add: agent_get_result)
qed

subsection \<open>Models\<close>

record model =
  mo_id :: uuid
  mo_tenant_id :: uuid
  mo_name :: entity_name
  mo_provider :: provider
  mo_reference :: pystr
  mo_created_at :: datetime

definition model_init :: "model \<Rightarrow> exc + model" where
  "model_init m = checked
     [(\<not> is_aware (mo_created_at m), ValueError ''Model registration time must be timezone-aware.'')] m"

definition model_register ::
  "platform \<Rightarrow> uuid \<Rightarrow> uuid \<Rightarrow> pystr \<Rightarrow> provider \<Rightarrow> pystr \<Rightarrow> datetime \<Rightarrow> exc + model" where
  "model_register pf i t name p reference created = and_then (ModelName pf name)
     (\<lambda>n. and_then (ProviderModelReference reference)
     (\<lambda>ref. model_init \<lparr>mo_id = i, mo_tenant_id = t, mo_name = n, mo_provider = p,
        mo_reference = ref, mo_created_at = created\<rparr>))"

definition model_ok :: "platform \<Rightarrow> model \<Rightarrow> bool" where
  "model_ok pf m \<longleftrightarrow> name_ok pf (mo_name m) \<and> reference_ok (mo_reference m) \<and> is_aware (mo_created_at m)"

lemma model_register_Inr_iff:
  "model_register pf i t name p ref c = Inr m \<longleftrightarrow>
     model_ok pf m \<and> mo_id m = i \<and> mo_tenant_id m = t \<and> mo_created_at m = c \<and> mo_provider m = p
     \<and> name_value (mo_name m) = canonical name \<and> mo_reference m = py_strip ref"
  by (auto simp: model_register_def and_then_Inr_iff ModelName_def unique_name_Inr_iff model_init_def
      model_ok_def ProviderModelReference_Inr_iff)

definition model_to_row :: "model \<Rightarrow> model_row" where
  "model_to_row m = \<lparr>mr_id = mo_id m, mr_tenant_id = mo_tenant_id m,
     mr_name = name_value (mo_name m), mr_normalized_name = name_normalized (mo_name m),
     mr_provider = mo_provider m, mr_provider_model_reference = mo_reference m,
     mr_created_at = instant (mo_created_at m)\<rparr>"

definition model_add :: "model \<Rightarrow> unit tx" where
  "model_add m = translating
     (\<lambda>e. if e = IntegrityError (UniqueViolation ''uq_models_tenant_id_normalized_name'')
          then Some ModelNameAlreadyExists
          else if e = IntegrityError (ForeignKeyViolation ''fk_models_tenant_id_tenants'')
          then Some (OwningTenantNotFound (mo_tenant_id m)) else None)
     (flush (model_insert (model_to_row m)))"

definition model_of_row :: "platform \<Rightarrow> model_row \<Rightarrow> exc + model" where
  "model_of_row pf r = and_then (ModelName pf (mr_name r))
     (\<lambda>n. and_then (ProviderModelReference (mr_provider_model_reference r))
     (\<lambda>ref. model_init \<lparr>mo_id = mr_id r, mo_tenant_id = mr_tenant_id r, mo_name = n,
        mo_provider = mr_provider r, mo_reference = ref, mo_created_at = from_db pf (mr_created_at r)\<rparr>))"

definition model_get :: "platform \<Rightarrow> uuid \<Rightarrow> model option tx" where
  "model_get pf i = bnd (query (\<lambda>d. row_of mr_id i (models d)))
     (\<lambda>row. case row of None \<Rightarrow> ret None | Some r \<Rightarrow> lift (map_sum id Some (model_of_row pf r)))"

definition model_view :: "platform \<Rightarrow> model \<Rightarrow> model" where
  "model_view pf m = m\<lparr>mo_created_at := from_db pf (instant (mo_created_at m))\<rparr>"

lemma model_of_row_to_row: "model_ok pf m \<Longrightarrow> model_of_row pf (model_to_row m) = Inr (model_view pf m)"
  by (simp add: model_of_row_def model_to_row_def model_ok_def ModelName_def unique_name_again
      model_init_def model_view_def ProviderModelReference_def reference_ok_def Let_def
      max_provider_model_reference_length_def)

lemma model_get_result: "model_get pf i s = (case row_of mr_id i (models (working s)) of
    None \<Rightarrow> Inr None | Some r \<Rightarrow> map_sum id Some (model_of_row pf r), s)"
  by (simp add: model_get_def op_simps split: option.split)

lemma model_insert_Inr_iff:
  "model_insert r d = Inr d' \<longleftrightarrow>
     text_fits 100 (mr_name r) \<and> text_fits 200 (mr_normalized_name r)
     \<and> text_fits 255 (mr_provider_model_reference r)
     \<and> mr_id r \<notin> mr_id ` set (models d)
     \<and> (mr_tenant_id r, mr_normalized_name r)
          \<notin> (\<lambda>a. (mr_tenant_id a, mr_normalized_name a)) ` set (models d)
     \<and> mr_tenant_id r \<in> tr_id ` set (tenants d) \<and> d' = d\<lparr>models := models d @ [r]\<rparr>"
  by (auto simp: model_insert_def failure_defs)

lemma model_add_Inr_iff [op_inv]:
  "model_add m s = (Inr u, s') \<longleftrightarrow>
     (\<exists>d. model_insert (model_to_row m) (working s) = Inr d \<and> s' = s\<lparr>working := d\<rparr>)"
  by (simp add: model_add_def op_inv)

interpretation model_repo: repository model_add "model_get pf" mo_id "model_ok pf" "model_view pf" for pf
proof (unfold_locales, goal_cases)
  case (1 e)
  show ?case by (auto simp: model_add_def)
next
  case (2 k s)
  show ?case by (simp add: model_get_result)
next
  case (3 s s' k)
  then show ?case by (simp add: model_get_result)
next
  case (4 e s s')
  have "row_of mr_id (mo_id e) (models (working s)) = None"
    if "mr_id (model_to_row e) \<notin> mr_id ` set (models (working s))"
    using that by (simp add: row_of_None_iff model_to_row_def)
  then show ?case using 4 model_of_row_to_row
    by (auto simp: model_get_result model_add_Inr_iff model_insert_Inr_iff row_of_append)
       (auto simp: model_to_row_def)
next
  case (5 e s s' k)
  then show ?case
    by (auto simp: model_get_result model_add_Inr_iff model_insert_Inr_iff row_of_append
        model_to_row_def split: option.split)
next
  case (6 e s s')
  then have "row_of mr_id (mo_id e) (models (working s)) = None"
    by (auto simp: model_add_Inr_iff model_insert_Inr_iff row_of_None_iff model_to_row_def)
  then show ?case by (simp add: model_get_result)
qed

subsection \<open>The handlers\<close>

definition tenant_exists :: "uuid \<Rightarrow> db \<Rightarrow> bool" where
  "tenant_exists t d \<longleftrightarrow> t \<in> tr_id ` set (tenants d)"

definition register_agent :: "platform \<Rightarrow> request \<Rightarrow> uuid \<Rightarrow> pystr \<Rightarrow> (exc, db, agent) op" where
  "register_agent pf rq t name =
     bnd (lift (agent_register pf (id_at rq 0) t name (clock rq 0))) (\<lambda>agent.
     bnd (reads (read_db rq 0 (tenant_exists t))) (\<lambda>known.
     bnd (raise_if (\<not> known) (OwningTenantNotFound t)) (\<lambda>_.
     persist agent_add agent)))"

definition get_agent :: "platform \<Rightarrow> uuid \<Rightarrow> (exc, db, agent) op" where
  "get_agent pf i = bnd (lookup (agent_get pf) i)
     (\<lambda>a. case a of None \<Rightarrow> throw (AgentNotFound i) | Some a' \<Rightarrow> ret a')"

definition register_model ::
  "platform \<Rightarrow> request \<Rightarrow> uuid \<Rightarrow> pystr \<Rightarrow> provider \<Rightarrow> pystr \<Rightarrow> (exc, db, model) op" where
  "register_model pf rq t name p ref =
     bnd (lift (model_register pf (id_at rq 0) t name p ref (clock rq 0))) (\<lambda>model.
     bnd (reads (read_db rq 0 (tenant_exists t))) (\<lambda>known.
     bnd (raise_if (\<not> known) (OwningTenantNotFound t)) (\<lambda>_.
     persist model_add model)))"

definition get_model :: "platform \<Rightarrow> uuid \<Rightarrow> (exc, db, model) op" where
  "get_model pf i = bnd (lookup (model_get pf) i)
     (\<lambda>m. case m of None \<Rightarrow> throw (ModelNotFound i) | Some m' \<Rightarrow> ret m')"

lemma read_db_Inr_iff: "read_db rq n q d = Inr a \<longleftrightarrow> db_up rq n \<and> a = q d"
  by (auto simp: read_db_def)

lemma register_agent_Inr_iff:
  "register_agent pf rq t name d = (Inr a, d') \<longleftrightarrow>
     agent_register pf (id_at rq 0) t name (clock rq 0) = Inr a \<and> db_up rq 0
     \<and> tenant_exists t d \<and> agent_insert (agent_to_row a) d = Inr d'"
  by (auto simp: register_agent_def op_inv persist_Inr_iff read_db_Inr_iff)

lemma register_model_Inr_iff:
  "register_model pf rq t name p ref d = (Inr m, d') \<longleftrightarrow>
     model_register pf (id_at rq 0) t name p ref (clock rq 0) = Inr m \<and> db_up rq 0
     \<and> tenant_exists t d \<and> model_insert (model_to_row m) d = Inr d'"
  by (auto simp: register_model_def op_inv persist_Inr_iff read_db_Inr_iff)

lemma register_agent_failed: "register_agent pf rq t name d = (Inl e, d') \<Longrightarrow> d' = d"
  by (auto simp: register_agent_def bnd_Inl_iff lift_def reads_def split: if_splits
      dest: agent_repo.persist_failed)

lemma register_model_failed: "register_model pf rq t name p ref d = (Inl e, d') \<Longrightarrow> d' = d"
  by (auto simp: register_model_def bnd_Inl_iff lift_def reads_def split: if_splits
      dest: model_repo.persist_failed)

text \<open>Every asset is owned by an existing tenant, under one identity and one name per tenant.\<close>

definition assets_ok :: "db \<Rightarrow> bool" where
  "assets_ok d \<longleftrightarrow>
     distinct (map ar_id (agents d)) \<and> distinct (map (\<lambda>a. (ar_tenant_id a, ar_normalized_name a)) (agents d))
     \<and> distinct (map mr_id (models d)) \<and> distinct (map (\<lambda>m. (mr_tenant_id m, mr_normalized_name m)) (models d))
     \<and> (\<forall>a \<in> set (agents d). ar_tenant_id a \<in> tr_id ` set (tenants d))
     \<and> (\<forall>m \<in> set (models d). mr_tenant_id m \<in> tr_id ` set (tenants d))"

lemma register_agent_keeps_assets:
  assumes "assets_ok d"
  shows "assets_ok (snd (register_agent pf rq t name d))"
proof (rule run_cases)
  fix a d'
  assume "register_agent pf rq t name d = (Inr a, d')"
  then show "assets_ok d'" using assms
    by (auto simp: register_agent_Inr_iff agent_insert_Inr_iff assets_ok_def)
qed (use assms in \<open>auto dest: register_agent_failed\<close>)

lemma register_model_keeps_assets:
  assumes "assets_ok d"
  shows "assets_ok (snd (register_model pf rq t name p ref d))"
proof (rule run_cases)
  fix a d'
  assume "register_model pf rq t name p ref d = (Inr a, d')"
  then show "assets_ok d'" using assms
    by (auto simp: register_model_Inr_iff model_insert_Inr_iff assets_ok_def)
qed (use assms in \<open>auto dest: register_model_failed\<close>)

end
