(* ===== verification/Policy.thy ===== *)
theory Policy
  imports AuditTrail Registry
begin

text \<open>
  Policy and Risk: the explicit agent-to-model permission and the evaluated decision
  (\<open>domain/policy.py\<close>), their PostgreSQL repositories (\<open>infrastructure/repositories.py\<close>), the
  admission reads (\<open>infrastructure/admission.py\<close>) and the handlers
  \<open>SetAgentModelPermissionHandler\<close>, \<open>GetAgentModelPermissionHandler\<close> and
  \<open>EvaluateRuntimePermissionHandler\<close>, with the adapter the runtime gateway calls
  (\<open>infrastructure/runtime_policy.py\<close>). Rows of permissions and decisions carry no free text, so
  only keys can make a write fail.
\<close>

record permission =
  am_id :: uuid
  am_tenant_id :: uuid
  am_agent_id :: uuid
  am_model_id :: uuid
  am_effect :: policy_effect
  am_created_at :: datetime
  am_updated_at :: datetime

record decision =
  de_id :: uuid
  de_invocation_id :: uuid
  de_tenant_id :: uuid
  de_agent_id :: uuid
  de_model_id :: uuid
  de_permission_id :: "uuid option"
  de_effect :: policy_effect
  de_decided_at :: datetime

definition naive_policy_time :: exc where
  "naive_policy_time = ValueError ''Policy timestamps must be timezone-aware.''"

definition permission_init :: "permission \<Rightarrow> exc + permission" where
  "permission_init p = checked
     [(\<not> is_aware (am_created_at p), naive_policy_time),
      (\<not> is_aware (am_updated_at p), naive_policy_time),
      (instant (am_updated_at p) < instant (am_created_at p),
         ValueError ''Permission update cannot precede creation.'')] p"

definition decision_init :: "decision \<Rightarrow> exc + decision" where
  "decision_init x = checked [(\<not> is_aware (de_decided_at x), naive_policy_time)] x"

subsection \<open>The repositories\<close>

definition permission_to_row :: "permission \<Rightarrow> permission_row" where
  "permission_to_row p = \<lparr>pr_id = am_id p, pr_tenant_id = am_tenant_id p, pr_agent_id = am_agent_id p,
     pr_model_id = am_model_id p, pr_effect = am_effect p, pr_created_at = instant (am_created_at p),
     pr_updated_at = instant (am_updated_at p)\<rparr>"

definition permission_from_row :: "platform \<Rightarrow> permission_row \<Rightarrow> exc + permission" where
  "permission_from_row pf r = permission_init
     \<lparr>am_id = pr_id r, am_tenant_id = pr_tenant_id r, am_agent_id = pr_agent_id r,
      am_model_id = pr_model_id r, am_effect = pr_effect r,
      am_created_at = from_db pf (pr_created_at r), am_updated_at = from_db pf (pr_updated_at r)\<rparr>"

text \<open>A statement with \<open>RETURNING\<close>: the row it wrote, and the tables after it.\<close>

definition execute_returning :: "(db \<Rightarrow> exc + ('a \<times> db)) \<Rightarrow> 'a tx" where
  "execute_returning f = (\<lambda>s. case f (working s) of
       Inl e \<Rightarrow> (Inl e, s) | Inr (a, d) \<Rightarrow> (Inr a, s\<lparr>working := d\<rparr>))"

definition translate_fk :: "permission \<Rightarrow> exc \<Rightarrow> exc option" where
  "translate_fk p e =
     (if e = IntegrityError (ForeignKeyViolation ''fk_permissions_tenant_id_tenants'')
      then Some (PolicyTenantNotAvailable (am_tenant_id p))
      else if e = IntegrityError (ForeignKeyViolation ''fk_permissions_agent_id_agents'')
      then Some (PolicyAgentNotAvailable (am_agent_id p))
      else if e = IntegrityError (ForeignKeyViolation ''fk_permissions_model_id_models'')
      then Some (PolicyModelNotAvailable (am_model_id p))
      else None)"

definition permission_set :: "platform \<Rightarrow> permission \<Rightarrow> permission tx" where
  "permission_set pf p = catch
     (bnd (execute_returning (permission_upsert (permission_to_row p)))
        (\<lambda>r. lift (permission_from_row pf r)))
     (\<lambda>e. map_option throw (translate_fk p e))"

definition permission_get :: "platform \<Rightarrow> uuid \<Rightarrow> permission option tx" where
  "permission_get pf i = bnd (query (\<lambda>d. row_of pr_id i (permissions d)))
     (\<lambda>row. case row of None \<Rightarrow> ret None | Some r \<Rightarrow> lift (map_sum id Some (permission_from_row pf r)))"

definition effective_row :: "uuid \<Rightarrow> uuid \<Rightarrow> uuid \<Rightarrow> db \<Rightarrow> permission_row option" where
  "effective_row t a m d = row_of permission_key (t, a, m) (permissions d)"

definition permission_get_effective :: "platform \<Rightarrow> uuid \<Rightarrow> uuid \<Rightarrow> uuid \<Rightarrow> permission option tx" where
  "permission_get_effective pf t a m = bnd (query (effective_row t a m))
     (\<lambda>row. case row of None \<Rightarrow> ret None | Some r \<Rightarrow> lift (map_sum id Some (permission_from_row pf r)))"

definition decision_to_row :: "decision \<Rightarrow> decision_row" where
  "decision_to_row x = \<lparr>dr_id = de_id x, dr_invocation_id = de_invocation_id x,
     dr_tenant_id = de_tenant_id x, dr_agent_id = de_agent_id x, dr_model_id = de_model_id x,
     dr_permission_id = de_permission_id x, dr_effect = de_effect x,
     dr_decided_at = instant (de_decided_at x)\<rparr>"

definition decision_add :: "decision \<Rightarrow> unit tx" where
  "decision_add x = flush (decision_insert (decision_to_row x))"

subsection \<open>Admission reads\<close>

definition admitted_agent :: "uuid \<Rightarrow> db \<Rightarrow> (uuid \<times> uuid) option" where
  "admitted_agent i d = map_option (\<lambda>r. (ar_id r, ar_tenant_id r)) (row_of ar_id i (agents d))"

definition admitted_model :: "uuid \<Rightarrow> db \<Rightarrow> (uuid \<times> uuid) option" where
  "admitted_model i d = map_option (\<lambda>r. (mr_id r, mr_tenant_id r)) (row_of mr_id i (models d))"

definition owned_by :: "uuid \<Rightarrow> (uuid \<times> uuid) option \<Rightarrow> bool" where
  "owned_by t x = (case x of None \<Rightarrow> False | Some (_, t') \<Rightarrow> t' = t)"

subsection \<open>The handlers\<close>

definition permission_fingerprint :: "platform \<Rightarrow> permission \<Rightarrow> pystr" where
  "permission_fingerprint pf p = agent_model_permission_fingerprint pf
     (am_tenant_id p) (am_agent_id p) (am_model_id p) (effect_value (am_effect p))"

definition permission_audit :: "platform \<Rightarrow> request \<Rightarrow> pystr \<Rightarrow> permission option \<Rightarrow> permission \<Rightarrow> audit_record" where
  "permission_audit pf rq actor previous eff =
     \<lparr>aud_audit_id = id_at rq 1, aud_principal_id = actor, aud_tenant_id = Some (am_tenant_id eff),
      aud_action = AGENT_MODEL_PERMISSION_SET, aud_resource_type = AGENT_MODEL_PERMISSION,
      aud_resource_id = am_id eff, aud_outcome = AuditSucceeded, aud_occurred_at = clock rq 0,
      aud_before_fingerprint = map_option (permission_fingerprint pf) previous,
      aud_after_fingerprint = Some (permission_fingerprint pf eff)\<rparr>"

definition set_permission ::
  "platform \<Rightarrow> request \<Rightarrow> pystr \<Rightarrow> uuid \<Rightarrow> uuid \<Rightarrow> uuid \<Rightarrow> policy_effect \<Rightarrow> (exc, db, permission) op" where
  "set_permission pf rq actor t a m eff =
     bnd (reads (read_db rq 0 (tenant_exists t))) (\<lambda>known.
     bnd (raise_if (\<not> known) (PolicyTenantNotAvailable t)) (\<lambda>_.
     bnd (reads (read_db rq 1 (admitted_agent a))) (\<lambda>agent.
     bnd (raise_if (\<not> owned_by t agent) (PolicyAgentNotAvailable a)) (\<lambda>_.
     bnd (reads (read_db rq 2 (admitted_model m))) (\<lambda>model.
     bnd (raise_if (\<not> owned_by t model) (PolicyModelNotAvailable m)) (\<lambda>_.
     bnd (lift (permission_init \<lparr>am_id = id_at rq 0, am_tenant_id = t, am_agent_id = a,
        am_model_id = m, am_effect = eff, am_created_at = clock rq 0, am_updated_at = clock rq 0\<rparr>))
       (\<lambda>proposed. with_uow (commit_after
         (bnd (permission_get_effective pf t a m) (\<lambda>previous.
          bnd (permission_set pf proposed) (\<lambda>effective.
          bnd (audit_write (permission_audit pf rq actor previous effective)) (\<lambda>_.
          ret effective))))))))))))"

definition get_permission :: "platform \<Rightarrow> uuid \<Rightarrow> (exc, db, permission) op" where
  "get_permission pf i = bnd (lookup (permission_get pf) i)
     (\<lambda>p. case p of None \<Rightarrow> throw (PermissionNotFound i) | Some p' \<Rightarrow> ret p')"

text \<open>
  \<open>EvaluateRuntimePermissionHandler\<close>. \<open>did\<close> and \<open>now\<close> are what its own id factory and clock
  return.
\<close>

definition evaluate_permission ::
  "platform \<Rightarrow> uuid \<Rightarrow> datetime \<Rightarrow> uuid \<Rightarrow> uuid \<Rightarrow> uuid \<Rightarrow> uuid \<Rightarrow> (exc, db, decision) op" where
  "evaluate_permission pf did now iid t a m = with_uow (commit_after
     (bnd (permission_get_effective pf t a m) (\<lambda>permission.
      bnd (lift (decision_init \<lparr>de_id = did, de_invocation_id = iid, de_tenant_id = t, de_agent_id = a,
         de_model_id = m, de_permission_id = map_option am_id permission,
         de_effect = (case permission of Some p \<Rightarrow> am_effect p | None \<Rightarrow> DENY),
         de_decided_at = now\<rparr>)) (\<lambda>decision.
      bnd (decision_add decision) (\<lambda>_. ret decision)))))"

text \<open>\<open>RuntimePolicyAdapter.decide\<close>: the decision id, the effect text and the permission id.\<close>

definition runtime_policy_decide ::
  "platform \<Rightarrow> uuid \<Rightarrow> datetime \<Rightarrow> uuid \<Rightarrow> uuid \<Rightarrow> uuid \<Rightarrow> uuid \<Rightarrow>
   (exc, db, uuid \<times> pystr \<times> uuid option) op" where
  "runtime_policy_decide pf did now iid t a m = bnd (evaluate_permission pf did now iid t a m)
     (\<lambda>x. ret (de_id x, effect_value (de_effect x), de_permission_id x))"

subsection \<open>Lemmas on the repository\<close>

definition permissions_ok :: "db \<Rightarrow> bool" where
  "permissions_ok d \<longleftrightarrow> distinct (map permission_key (permissions d))
     \<and> distinct (map pr_id (permissions d))
     \<and> (\<forall>r \<in> set (permissions d). pr_created_at r \<le> pr_updated_at r)"

lemma find_row_of: "find (\<lambda>r. key r = k) rows = row_of key k rows"
  by (simp add: row_of_def)

lemma permission_upsert_new:
  assumes "effective_row (pr_tenant_id r) (pr_agent_id r) (pr_model_id r) d = None"
  shows "permission_upsert r d = Inr (r', d') \<longleftrightarrow>
    pr_id r \<notin> pr_id ` set (permissions d) \<and> pr_tenant_id r \<in> tr_id ` set (tenants d)
    \<and> pr_agent_id r \<in> ar_id ` set (agents d) \<and> pr_model_id r \<in> mr_id ` set (models d)
    \<and> r' = r \<and> d' = d\<lparr>permissions := permissions d @ [r]\<rparr>"
  using assms
  by (auto simp: permission_upsert_def effective_row_def find_row_of permission_key_def [of r] failure_defs)

definition touch_row :: "policy_effect \<Rightarrow> int \<Rightarrow> permission_row \<Rightarrow> permission_row" where
  "touch_row eff now q = q\<lparr>pr_effect := eff, pr_updated_at := now\<rparr>"

lemma touch_row_simps [simp]:
  "permission_key (touch_row eff now q) = permission_key q" "pr_id (touch_row eff now q) = pr_id q"
  "pr_effect (touch_row eff now q) = eff" "pr_updated_at (touch_row eff now q) = now"
  "pr_created_at (touch_row eff now q) = pr_created_at q"
  "pr_tenant_id (touch_row eff now q) = pr_tenant_id q" "pr_agent_id (touch_row eff now q) = pr_agent_id q"
  "pr_model_id (touch_row eff now q) = pr_model_id q"
  by (simp_all add: touch_row_def permission_key_def)

lemma permission_upsert_existing:
  assumes "effective_row (pr_tenant_id r) (pr_agent_id r) (pr_model_id r) d = Some p"
  shows "permission_upsert r d = Inr (touch_row (pr_effect r) (pr_updated_at r) p,
    d\<lparr>permissions := update_rows (\<lambda>q. permission_key q = permission_key r)
        (touch_row (pr_effect r) (pr_updated_at r)) (permissions d)\<rparr>)"
  using assms
  by (simp add: permission_upsert_def effective_row_def find_row_of permission_key_def [of r]
      touch_row_def [abs_def] Let_def)

lemma effective_row_key: "effective_row t a m d = Some p \<Longrightarrow>
    p \<in> set (permissions d) \<and> pr_tenant_id p = t \<and> pr_agent_id p = a \<and> pr_model_id p = m"
  by (auto simp: effective_row_def permission_key_def dest: row_of_SomeD)

text \<open>The whole effect of an upsert on the tables and on what is effective afterwards.\<close>

definition upserted :: "permission_row \<Rightarrow> db \<Rightarrow> permission_row" where
  "upserted r d = (case effective_row (pr_tenant_id r) (pr_agent_id r) (pr_model_id r) d of
     None \<Rightarrow> r | Some p \<Rightarrow> touch_row (pr_effect r) (pr_updated_at r) p)"

lemma upserted_simps [simp]:
  "pr_effect (upserted r d) = pr_effect r" "permission_key (upserted r d) = permission_key r"
  "pr_updated_at (upserted r d) = pr_updated_at r"
  by (auto simp: upserted_def permission_key_def dest!: effective_row_key split: option.split)

lemma permission_upsert_frame:
  assumes "permission_upsert r d = Inr (r', d')"
  shows "r' = upserted r d" "d' = d\<lparr>permissions := permissions d'\<rparr>"
    "effective_row t a m d' =
      (if (t, a, m) = permission_key r then Some (upserted r d) else effective_row t a m d)"
proof -
  let ?cur = "effective_row (pr_tenant_id r) (pr_agent_id r) (pr_model_id r) d"
  have "r' = upserted r d \<and> d' = d\<lparr>permissions := permissions d'\<rparr> \<and>
    effective_row t a m d' = (if (t, a, m) = permission_key r then Some (upserted r d) else effective_row t a m d)"
  proof (cases ?cur)
    case None
    then show ?thesis
      using assms permission_upsert_new [OF None]
      by (auto simp: upserted_def effective_row_def row_of_append permission_key_def [of r]
          split: option.split)
  next
    case (Some p)
    have upd: "effective_row t a m d' = map_option
        (\<lambda>q. if permission_key q = permission_key r then touch_row (pr_effect r) (pr_updated_at r) q else q)
        (effective_row t a m d)"
      using assms permission_upsert_existing [OF Some]
      by (auto simp: effective_row_def row_of_update_rows)
    have "effective_row t a m d = Some q \<Longrightarrow> permission_key q = (t, a, m)" for q
      using effective_row_key by (fastforce simp: permission_key_def)
    then show ?thesis
      using assms permission_upsert_existing [OF Some] upd Some
      by (cases "effective_row t a m d") (auto simp: upserted_def permission_key_def [of r])
  qed
  then show "r' = upserted r d" "d' = d\<lparr>permissions := permissions d'\<rparr>"
    "effective_row t a m d' =
      (if (t, a, m) = permission_key r then Some (upserted r d) else effective_row t a m d)"
    by simp_all
qed

lemma permission_upsert_ok:
  assumes "permission_upsert r d = Inr (r', d')" "permissions_ok d" "pr_created_at r \<le> pr_updated_at r"
    "pr_created_at (upserted r d) \<le> pr_updated_at r"
  shows "permissions_ok d'"
proof (cases "effective_row (pr_tenant_id r) (pr_agent_id r) (pr_model_id r) d")
  case None
  then have "permission_key r \<notin> permission_key ` set (permissions d)"
    by (simp add: effective_row_def row_of_None_iff permission_key_def [of r])
  then show ?thesis
    using assms permission_upsert_new [OF None] by (auto simp: permissions_ok_def)
next
  case (Some p)
  have d: "distinct (map permission_key (permissions d))" using assms(2) by (simp add: permissions_ok_def)
  have p: "p \<in> set (permissions d)" "permission_key p = permission_key r"
    using effective_row_key [OF Some] by (simp_all add: permission_key_def)
  have only: "q = p" if "q \<in> set (permissions d)" "permission_key q = permission_key r" for q
    using d that p inj_onD [of permission_key "set (permissions d)" q p] by (simp add: distinct_map)
  have maps: "map permission_key (permissions d') = map permission_key (permissions d)"
    "map pr_id (permissions d') = map pr_id (permissions d)"
    using assms(1) permission_upsert_existing [OF Some] by (auto simp: map_key_update_rows)
  have "\<forall>q \<in> set (permissions d'). pr_created_at q \<le> pr_updated_at q"
    using assms permission_upsert_existing [OF Some] only
    by (auto simp: set_update_rows permissions_ok_def upserted_def Some)
  then show ?thesis using assms(2) maps by (simp add: permissions_ok_def)
qed

subsection \<open>Lemmas on the handlers\<close>

lemma keeps_execute_returning [simp, intro]: "keeps committed (execute_returning f)"
  by (auto simp: keeps_def execute_returning_def split: sum.split)

lemma execute_returning_Inr_iff [op_inv]:
  "execute_returning f s = (Inr a, s') \<longleftrightarrow> (\<exists>d. f (working s) = Inr (a, d) \<and> s' = s\<lparr>working := d\<rparr>)"
  by (auto simp: execute_returning_def split: sum.splits)

lemma catch_throw_Inr_iff:
  "catch m (\<lambda>e. map_option throw (f e)) s = (Inr a, s') \<longleftrightarrow> m s = (Inr a, s')"
  by (auto simp: catch_def split: prod.splits sum.splits option.splits)

lemma keeps_catch_throw: "keeps v m \<Longrightarrow> keeps v (catch m (\<lambda>e. map_option throw (f e)))"
  by (auto simp: keeps_def catch_def split: prod.split sum.split option.split) (metis snd_conv)+

lemma keeps_permission_set [simp, intro]: "keeps committed (permission_set pf p)"
  unfolding permission_set_def by (intro keeps_catch_throw keeps_bnd) auto

lemma permission_set_Inr_iff [op_inv]:
  "permission_set pf p s = (Inr q, s') \<longleftrightarrow>
    (\<exists>r d. permission_upsert (permission_to_row p) (working s) = Inr (r, d)
       \<and> permission_from_row pf r = Inr q \<and> s' = s\<lparr>working := d\<rparr>)"
  by (auto simp: permission_set_def catch_throw_Inr_iff op_inv)

lemma get_effective_run:
  "permission_get_effective pf t a m s = (case effective_row t a m (working s) of
     None \<Rightarrow> Inr None | Some r \<Rightarrow> map_sum id Some (permission_from_row pf r), s)"
  by (simp add: permission_get_effective_def op_simps split: option.split)

lemma keeps_get_effective [simp, intro]: "keeps v (permission_get_effective pf t a m)"
  by (simp add: keeps_def get_effective_run)

lemma permission_from_row_Inr_iff:
  "permission_from_row pf r = Inr p \<longleftrightarrow> pr_created_at r \<le> pr_updated_at r
    \<and> p = \<lparr>am_id = pr_id r, am_tenant_id = pr_tenant_id r, am_agent_id = pr_agent_id r,
      am_model_id = pr_model_id r, am_effect = pr_effect r,
      am_created_at = from_db pf (pr_created_at r), am_updated_at = from_db pf (pr_updated_at r)\<rparr>"
  by (auto simp: permission_from_row_def permission_init_def)

text \<open>What evaluation sees: the effective row as a permission, or nothing.\<close>

definition effective_permission :: "platform \<Rightarrow> permission_row option \<Rightarrow> exc + permission option" where
  "effective_permission pf r = (case r of None \<Rightarrow> Inr None | Some r \<Rightarrow> map_sum id Some (permission_from_row pf r))"

definition proposed_row :: "request \<Rightarrow> uuid \<Rightarrow> uuid \<Rightarrow> uuid \<Rightarrow> policy_effect \<Rightarrow> permission_row" where
  "proposed_row rq t a m eff = \<lparr>pr_id = id_at rq 0, pr_tenant_id = t, pr_agent_id = a, pr_model_id = m,
     pr_effect = eff, pr_created_at = clock_at rq 0, pr_updated_at = clock_at rq 0\<rparr>"

lemma proposed_row_simps [simp]:
  "pr_id (proposed_row rq t a m eff) = id_at rq 0" "pr_tenant_id (proposed_row rq t a m eff) = t"
  "pr_agent_id (proposed_row rq t a m eff) = a" "pr_model_id (proposed_row rq t a m eff) = m"
  "pr_effect (proposed_row rq t a m eff) = eff" "pr_created_at (proposed_row rq t a m eff) = clock_at rq 0"
  "pr_updated_at (proposed_row rq t a m eff) = clock_at rq 0"
  "permission_key (proposed_row rq t a m eff) = (t, a, m)"
  by (simp_all add: proposed_row_def permission_key_def)

lemma set_permission_Inr_iff:
  "set_permission pf rq actor t a m eff d = (Inr p, d') \<longleftrightarrow>
     db_up rq 0 \<and> db_up rq 1 \<and> db_up rq 2 \<and> tenant_exists t d
     \<and> owned_by t (admitted_agent a d) \<and> owned_by t (admitted_model m d)
     \<and> (\<exists>previous r d1 s. effective_permission pf (effective_row t a m d) = Inr previous
          \<and> permission_upsert (proposed_row rq t a m eff) d = Inr (r, d1)
          \<and> permission_from_row pf r = Inr p
          \<and> audit_write (permission_audit pf rq actor previous p) \<lparr>committed = d, working = d1\<rparr> = (Inr (), s)
          \<and> d' = working s)"
  by (auto simp: set_permission_def op_inv commit_after_publishes read_db_Inr_iff permission_init_def
      get_effective_run effective_permission_def proposed_row_def permission_to_row_def)

lemma set_permission_failed:
  assumes "set_permission pf rq actor t a m eff d = (Inl e, d')"
  shows "d' = d"
proof -
  have "keeps committed (bnd (permission_get_effective pf t a m) (\<lambda>previous.
      bnd (permission_set pf x) (\<lambda>effective.
      bnd (audit_write (permission_audit pf rq actor previous effective)) (\<lambda>_. ret effective))))" for x
    by (intro keeps_bnd) auto
  then show ?thesis using assms
    by (auto simp: set_permission_def bnd_Inl_iff lift_def reads_def permission_init_def
        split: if_splits dest: commit_after_atomic)
qed

lemma owned_by_agent: "owned_by t (admitted_agent a d) \<longleftrightarrow>
    (\<exists>r. row_of ar_id a (agents d) = Some r \<and> ar_tenant_id r = t)"
  by (auto simp: owned_by_def admitted_agent_def split: option.splits)

lemma owned_by_model: "owned_by t (admitted_model m d) \<longleftrightarrow>
    (\<exists>r. row_of mr_id m (models d) = Some r \<and> mr_tenant_id r = t)"
  by (auto simp: owned_by_def admitted_model_def split: option.splits)

lemma evaluate_permission_Inr_iff:
  "evaluate_permission pf did now iid t a m d = (Inr x, d') \<longleftrightarrow>
     (\<exists>p. effective_permission pf (effective_row t a m d) = Inr p \<and> is_aware now
        \<and> x = \<lparr>de_id = did, de_invocation_id = iid, de_tenant_id = t, de_agent_id = a, de_model_id = m,
             de_permission_id = map_option am_id p,
             de_effect = (case p of Some p \<Rightarrow> am_effect p | None \<Rightarrow> DENY), de_decided_at = now\<rparr>
        \<and> decision_insert (decision_to_row x) d = Inr d')"
  by (auto simp: evaluate_permission_def commit_after_publishes op_inv get_effective_run
      effective_permission_def decision_init_def decision_add_def)

lemma evaluate_permission_failed:
  assumes "evaluate_permission pf did now iid t a m d = (Inl e, d')"
  shows "d' = d"
  using assms unfolding evaluate_permission_def
  by (rule commit_after_atomic [rotated]) (auto simp: decision_add_def)

end
