(* ===== verification/Usage.thy ===== *)
theory Usage
  imports Store
begin

text \<open>
  Usage facts and the daily usage limit of a runtime principal: \<open>domain/usage.py\<close>,
  \<open>domain/usage_limit.py\<close> and the ledger reader \<open>infrastructure/usage_reader.py\<close>. The locale
  \<open>admission_ledger\<close> is the contract that the usage limit and the cost budget share: what is
  spent in a window only grows by an admitted step, and admission leaves room for an allowance.
\<close>

subsection \<open>Usage values\<close>

record usage =
  us_input :: "int option"
  us_output :: "int option"
  us_total :: "int option"

definition usage_init :: "usage \<Rightarrow> exc + usage" where
  "usage_init u = checked
     [(\<not> opt_ok (\<lambda>v. 0 \<le> v) (us_input u), ValueError ''Invocation usage input_units must not be negative.''),
      (\<not> opt_ok (\<lambda>v. 0 \<le> v) (us_output u), ValueError ''Invocation usage output_units must not be negative.''),
      (\<not> opt_ok (\<lambda>v. 0 \<le> v) (us_total u), ValueError ''Invocation usage total_units must not be negative.''),
      (\<not> opt_ok (\<lambda>t. opt_ok (\<lambda>i. i \<le> t) (us_input u)) (us_total u),
         ValueError ''Total usage must not be less than input usage.''),
      (\<not> opt_ok (\<lambda>t. opt_ok (\<lambda>i. i \<le> t) (us_output u)) (us_total u),
         ValueError ''Total usage must not be less than output usage.'')] u"

text \<open>
  What a provider may report in place of an integer: the type test of the constructor rejects a
  boolean and anything that is not an integer, each field in turn before its sign test.
\<close>

datatype reported = RInt int | RNone | RBool bool | ROther

definition reported_units :: "reported \<Rightarrow> string \<Rightarrow> string \<Rightarrow> exc + int option" where
  "reported_units v type_msg sign_msg = (case v of
       RNone \<Rightarrow> Inr None
     | RInt n \<Rightarrow> if n < 0 then Inl (ValueError sign_msg) else Inr (Some n)
     | _ \<Rightarrow> Inl (TypeError type_msg))"

definition InvocationUsage :: "reported \<Rightarrow> reported \<Rightarrow> reported \<Rightarrow> exc + usage" where
  "InvocationUsage i out t =
     and_then (reported_units i ''Invocation usage input_units must be an integer when present.''
                 ''Invocation usage input_units must not be negative.'') (\<lambda>i'.
     and_then (reported_units out ''Invocation usage output_units must be an integer when present.''
                 ''Invocation usage output_units must not be negative.'') (\<lambda>o'.
     and_then (reported_units t ''Invocation usage total_units must be an integer when present.''
                 ''Invocation usage total_units must not be negative.'') (\<lambda>t'.
     usage_init \<lparr>us_input = i', us_output = o', us_total = t'\<rparr>)))"

definition usage_ok :: "usage \<Rightarrow> bool" where
  "usage_ok u \<longleftrightarrow> opt_ok (\<lambda>v. 0 \<le> v) (us_input u) \<and> opt_ok (\<lambda>v. 0 \<le> v) (us_output u)
     \<and> opt_ok (\<lambda>v. 0 \<le> v) (us_total u)
     \<and> opt_ok (\<lambda>t. opt_ok (\<lambda>i. i \<le> t) (us_input u)) (us_total u)
     \<and> opt_ok (\<lambda>t. opt_ok (\<lambda>i. i \<le> t) (us_output u)) (us_total u)"

lemma usage_init_Inr_iff: "usage_init u = Inr v \<longleftrightarrow> v = u \<and> usage_ok u"
  by (auto simp: usage_init_def usage_ok_def)

fun as_reported :: "int option \<Rightarrow> reported" where
  "as_reported None = RNone"
| "as_reported (Some n) = RInt n"

lemma InvocationUsage_Inr_iff:
  "InvocationUsage i out t = Inr u \<longleftrightarrow>
     i = as_reported (us_input u) \<and> out = as_reported (us_output u) \<and> t = as_reported (us_total u)
     \<and> usage_ok u"
proof -
  have units: "reported_units v a b = Inr x \<longleftrightarrow> v = as_reported x \<and> opt_ok (\<lambda>n. 0 \<le> n) x" for v a b x
    by (cases x; cases v) (auto simp: reported_units_def)
  show ?thesis
    by (cases u) (auto simp: InvocationUsage_def and_then_Inr_iff units usage_init_Inr_iff usage_ok_def)
qed

subsection \<open>The UTC day and the limit decision\<close>

record window =
  w_start :: datetime
  w_end :: datetime

record usage_limit_decision =
  ul_allowed :: bool
  ul_consumed :: int
  ul_limit :: int
  ul_allowance :: int
  ul_window :: window

definition utc_day_window :: "platform \<Rightarrow> datetime \<Rightarrow> exc + window" where
  "utc_day_window pf tm =
     (if \<not> is_aware tm then Inl (ValueError ''Usage window time must be timezone-aware.'')
      else and_then (overflow_guard (astimezone_utc pf tm)) (\<lambda>utc_at.
        let start = floor_wall day_us utc_at in
        and_then (overflow_guard (dt_plus start day_us)) (\<lambda>e. Inr \<lparr>w_start = start, w_end = e\<rparr>)))"

definition decide_usage_limit :: "int \<Rightarrow> int \<Rightarrow> int \<Rightarrow> window \<Rightarrow> exc + usage_limit_decision" where
  "decide_usage_limit consumed limit allowance w = checked
     [(consumed < 0, ValueError ''Consumed usage must not be negative.''),
      (limit \<le> 0 \<or> allowance \<le> 0 \<or> limit < allowance, ValueError ''Usage limit configuration is invalid.'')]
     \<lparr>ul_allowed = consumed + allowance \<le> limit, ul_consumed = consumed, ul_limit = limit,
      ul_allowance = allowance, ul_window = w\<rparr>"

definition day_start :: "int \<Rightarrow> int" where
  "day_start t = t - t mod day_us"

lemma day_start_bounds: "day_start t \<le> t" "t < day_start t + day_us"
  unfolding day_start_def by (rule floor_bounds; simp)+

lemma day_start_eq: "day_start t \<le> u \<Longrightarrow> u < day_start t + day_us \<Longrightarrow> day_start u = day_start t"
  unfolding day_start_def by (subst PyTime.floor_eq_iff) simp_all

text \<open>Every instant but those of the last representable day has its window.\<close>

lemma utc_day_window_eq:
  assumes "representable t" "day_start t + day_us < max_wall"
  shows "utc_day_window pf (Aware t 0) =
    Inr \<lparr>w_start = Aware (day_start t) 0, w_end = Aware (day_start t + day_us) 0\<rparr>"
proof -
  have "0 \<le> day_start t"
    using floor_representable [OF assms(1), of day_us] by (simp add: representable_def day_start_def)
  then have "0 \<le> day_start t + day_us" "t < max_wall" "0 \<le> day_start t"
    using assms day_start_bounds [of t] unit_pos by linarith+
  then show ?thesis using assms
  by (simp add: utc_day_window_def astimezone_Aware overflow_guard_def floor_wall_def dt_plus_def
      day_start_def representable_def Let_def)
qed

lemma utc_day_window_InrD:
  assumes "utc_day_window pf tm = Inr w"
  shows "is_aware tm" "representable (instant tm)" "w_start w = Aware (day_start (instant tm)) 0"
    "w_end w = Aware (day_start (instant tm) + day_us) 0"
  using assms
  by (auto simp: utc_day_window_def and_then_Inr_iff overflow_guard_def floor_wall_def dt_plus_def
      day_start_def Let_def split: if_splits option.splits dest!: astimezone_SomeD)

lemma decide_usage_limit_Inr_iff:
  "decide_usage_limit c l a w = Inr x \<longleftrightarrow> 0 \<le> c \<and> 0 < a \<and> a \<le> l
     \<and> x = \<lparr>ul_allowed = c + a \<le> l, ul_consumed = c, ul_limit = l, ul_allowance = a, ul_window = w\<rparr>"
  by (auto simp: decide_usage_limit_def)

subsection \<open>The usage ledger\<close>

definition in_window :: "int \<Rightarrow> int \<Rightarrow> invocation_row \<Rightarrow> bool" where
  "in_window s e r \<longleftrightarrow> s \<le> ir_started_at r \<and> ir_started_at r < e"

definition consumed_units :: "pystr \<Rightarrow> int \<Rightarrow> int \<Rightarrow> db \<Rightarrow> int" where
  "consumed_units p s e d = sum_list (map (\<lambda>r. the (ir_total_units r))
     (filter (\<lambda>r. ir_runtime_principal_id r = Some p \<and> in_window s e r \<and> ir_total_units r \<noteq> None)
        (invocations d)))"

definition consumed_total_units ::
  "request \<Rightarrow> nat \<Rightarrow> pystr \<Rightarrow> datetime \<Rightarrow> datetime \<Rightarrow> db \<Rightarrow> exc + int" where
  "consumed_total_units rq n p s e d = translate_db_error UsageLimitUnavailable
     (read_db rq n (consumed_units p (instant s) (instant e)) d)"

lemma consumed_total_units_eq:
  "consumed_total_units rq n p s e d =
     (if db_up rq n then Inr (consumed_units p (instant s) (instant e) d) else Inl UsageLimitUnavailable)"
  by (simp add: consumed_total_units_def)

definition row_units :: "pystr \<Rightarrow> int \<Rightarrow> int \<Rightarrow> invocation_row \<Rightarrow> int" where
  "row_units p s e r = (if ir_runtime_principal_id r = Some p \<and> in_window s e r
     then (case ir_total_units r of None \<Rightarrow> 0 | Some n \<Rightarrow> n) else 0)"

lemma consumed_units_append [simp]:
  "consumed_units p s e (d\<lparr>invocations := invocations d @ [r]\<rparr>) = consumed_units p s e d + row_units p s e r"
  by (auto simp: consumed_units_def row_units_def split: option.split)

lemma consumed_units_cong: "invocations d' = invocations d \<Longrightarrow> consumed_units p s e d' = consumed_units p s e d"
  by (simp add: consumed_units_def)

lemma consumed_units_nonneg:
  "\<forall>r \<in> set (invocations d). opt_ok (\<lambda>v. 0 \<le> v) (ir_total_units r) \<Longrightarrow> 0 \<le> consumed_units p s e d"
  unfolding consumed_units_def by (rule sum_list_nonneg) auto

subsection \<open>The contract of an admission ledger\<close>

text \<open>
  \<open>spent\<close> is what a ledger has recorded for one window. A step may leave it, or raise it by at
  most \<open>charge\<close>, and raises it only if there was room for \<open>allowance\<close> below \<open>limit\<close>. Whatever
  sequence of steps runs, the excess over the limit is at most what one charge exceeds the
  allowance by.
\<close>

locale admission_ledger =
  fixes spent :: "'s \<Rightarrow> 'v::linordered_ab_group_add"
    and step :: "'s \<Rightarrow> 's \<Rightarrow> bool"
    and limit allowance charge :: 'v
  assumes admitted: "step s s' \<Longrightarrow> spent s < spent s' \<Longrightarrow> spent s + allowance \<le> limit"
    and charged: "step s s' \<Longrightarrow> spent s' \<le> spent s \<or> spent s' \<le> spent s + charge"
begin

lemma spent_step:
  assumes "step s s'"
  shows "spent s' \<le> max (spent s) (limit + (charge - allowance))"
proof (cases "spent s < spent s'")
  case True
  have "spent s \<le> limit - allowance" using admitted [OF assms True] by (simp add: algebra_simps)
  moreover have "spent s' \<le> spent s + charge" using charged [OF assms] True by auto
  ultimately have "spent s' \<le> limit - allowance + charge" by (meson add_right_mono order_trans)
  then show ?thesis by (simp add: algebra_simps max.coboundedI2)
next
  case False
  then show ?thesis by (simp add: max.coboundedI1)
qed

lemma spent_bounded:
  assumes "step\<^sup>*\<^sup>* s s'"
  shows "spent s' \<le> max (spent s) (limit + (charge - allowance))"
  using assms
proof (induction rule: rtranclp_induct)
  case (step y z)
  then show ?case using spent_step [OF step.hyps(2)] by (meson max.boundedI max.cobounded2 order_trans)
qed simp

end

end
