(* ===== verification/RuntimeIdentity.thy ===== *)
theory RuntimeIdentity
  imports MgmtIdentity Usage Settings Policy
begin

text \<open>
  Runtime identity: the principals and credentials of agents that call the gateway
  (\<open>runtime_identity/domain/models.py\<close>), the token format (\<open>application/secrets.py\<close>), the
  repositories and ledgers (\<open>infrastructure/repositories.py\<close>), the configured legacy identities
  (\<open>infrastructure/legacy_configuration.py\<close>) and \<open>RuntimeIdentityService\<close>
  (\<open>application/handlers.py\<close>): creating and reading a principal, usage limits, the preparation
  and the binding of a legacy identity, issuing and revoking a credential, disabling.

  The advisory lock and \<open>FOR UPDATE\<close> order concurrent transactions and change no table; the
  lock has one effect here, it is the first statement that sends the legacy text to the
  database. A text with a NUL, and a time outside the calendar once in UTC, are rejected by the
  driver. What the operations keep and promise is in RuntimeLifecycle.
\<close>

subsection \<open>Principals\<close>

record runtime_principal =
  rpr_id :: uuid
  rpr_tenant_id :: uuid
  rpr_agent_id :: uuid
  rpr_created_at :: datetime
  rpr_disabled_at :: "datetime option"
  rpr_daily :: "int option"
  rpr_allowance :: "int option"
  rpr_legacy :: "pystr option"
  rpr_bound_at :: "datetime option"

definition runtime_principal_init :: "runtime_principal \<Rightarrow> exc + runtime_principal" where
  "runtime_principal_init p = (let legacy = map_option py_strip (rpr_legacy p) in checked
     [(\<not> is_aware (rpr_created_at p) \<or> \<not> opt_ok is_aware (rpr_disabled_at p),
        ValueError ''principal timestamps must be timezone-aware''),
      ((rpr_daily p = None) \<noteq> (rpr_allowance p = None),
        ValueError ''runtime usage limits must be configured together''),
      (case (rpr_daily p, rpr_allowance p) of (Some d, Some a) \<Rightarrow> d \<le> 0 \<or> a \<le> 0 \<or> d < a | _ \<Rightarrow> False,
        ValueError ''runtime usage limits are invalid''),
      ((legacy = None) \<noteq> (rpr_bound_at p = None),
        ValueError ''legacy identity and binding time must be configured together''),
      (\<not> opt_ok (\<lambda>l. l \<noteq> [] \<and> length l \<le> 255) legacy,
        ValueError ''legacy runtime principal ID must be 1 to 255 characters''),
      (\<not> opt_ok is_aware (rpr_bound_at p),
        ValueError ''identity continuity binding time must be timezone-aware'')]
     (p\<lparr>rpr_legacy := legacy\<rparr>))"

definition runtime_principal_create :: "uuid \<Rightarrow> uuid \<Rightarrow> uuid \<Rightarrow> datetime \<Rightarrow> int \<Rightarrow> int \<Rightarrow> exc + runtime_principal" where
  "runtime_principal_create i t a created daily allowance = runtime_principal_init
     \<lparr>rpr_id = i, rpr_tenant_id = t, rpr_agent_id = a, rpr_created_at = created, rpr_disabled_at = None,
      rpr_daily = Some daily, rpr_allowance = Some allowance, rpr_legacy = None, rpr_bound_at = None\<rparr>"

definition runtime_is_active :: "runtime_principal \<Rightarrow> bool" where
  "runtime_is_active p \<longleftrightarrow> rpr_disabled_at p = None"

definition usage_limits_configured :: "runtime_principal \<Rightarrow> bool" where
  "usage_limits_configured p \<longleftrightarrow> rpr_daily p \<noteq> None"

definition identity_continuity_ready :: "runtime_principal \<Rightarrow> bool" where
  "identity_continuity_ready p \<longleftrightarrow> rpr_legacy p \<noteq> None"

definition continuity_identity_ids :: "runtime_principal \<Rightarrow> pystr set" where
  "continuity_identity_ids p = insert (uuid_str (rpr_id p)) (set_option (rpr_legacy p))"

definition runtime_bind :: "runtime_principal \<Rightarrow> pystr \<Rightarrow> datetime \<Rightarrow> exc + runtime_principal" where
  "runtime_bind p legacy now =
     (if \<not> runtime_is_active p then Inl (ValueError ''disabled principals cannot be prepared for cutover'')
      else if identity_continuity_ready p then Inl (ValueError ''runtime identity continuity is already bound'')
      else runtime_principal_init (p\<lparr>rpr_legacy := Some legacy, rpr_bound_at := Some now\<rparr>))"

definition runtime_initialize_limits :: "runtime_principal \<Rightarrow> int \<Rightarrow> int \<Rightarrow> exc + runtime_principal" where
  "runtime_initialize_limits p daily allowance =
     (if \<not> runtime_is_active p then Inl (ValueError ''disabled principals cannot be prepared for cutover'')
      else if usage_limits_configured p then Inl (ValueError ''runtime usage limits are already initialized'')
      else runtime_principal_init (p\<lparr>rpr_daily := Some daily, rpr_allowance := Some allowance\<rparr>))"

definition runtime_disable :: "runtime_principal \<Rightarrow> datetime \<Rightarrow> exc + runtime_principal" where
  "runtime_disable p now =
     (if \<not> runtime_is_active p then Inl (ValueError ''principal is already disabled'')
      else if \<not> is_aware now then Inl (ValueError ''disabled_at must be timezone-aware'')
      else runtime_principal_init (p\<lparr>rpr_disabled_at := Some now\<rparr>))"

subsection \<open>Credentials\<close>

record runtime_credential =
  rcr_id :: uuid
  rcr_principal_id :: uuid
  rcr_verifier :: pystr
  rcr_label :: "pystr option"
  rcr_created_at :: datetime
  rcr_expires_at :: "datetime option"
  rcr_revoked_at :: "datetime option"

definition runtime_credential_init :: "runtime_credential \<Rightarrow> exc + runtime_credential" where
  "runtime_credential_init c = (let l = map_option canonical (rcr_label c) in checked
     [(\<not> opt_ok (\<lambda>l. length l \<le> 100) l, ValueError ''credential label must not exceed 100 characters''),
      (\<not> is_hex64 (rcr_verifier c), ValueError ''secret_verifier must be lowercase HMAC-SHA256 hex''),
      (\<not> is_aware (rcr_created_at c) \<or> \<not> opt_ok is_aware (rcr_expires_at c)
         \<or> \<not> opt_ok is_aware (rcr_revoked_at c), ValueError ''credential timestamps must be timezone-aware''),
      (\<not> opt_ok (\<lambda>x. instant (rcr_created_at c) < instant x) (rcr_expires_at c),
         ValueError ''expires_at must be later than created_at'')]
     (c\<lparr>rcr_label := (if l = Some [] then None else l)\<rparr>))"

definition runtime_is_usable_at :: "runtime_credential \<Rightarrow> datetime \<Rightarrow> bool \<Rightarrow> bool" where
  "runtime_is_usable_at c now active \<longleftrightarrow> active \<and> rcr_revoked_at c = None
     \<and> (case rcr_expires_at c of None \<Rightarrow> True | Some x \<Rightarrow> instant now < instant x)"

definition runtime_revoke :: "runtime_credential \<Rightarrow> datetime \<Rightarrow> exc + runtime_credential" where
  "runtime_revoke c now =
     (if rcr_revoked_at c \<noteq> None then Inl (ValueError ''credential is already revoked'')
      else if \<not> is_aware now then Inl (ValueError ''revoked_at must be timezone-aware'')
      else runtime_credential_init (c\<lparr>rcr_revoked_at := Some now\<rparr>))"

definition runtime_prefix :: pystr where "runtime_prefix = lit ''valor_runtime_''"

definition generate_runtime_bearer_token :: "request \<Rightarrow> uuid \<Rightarrow> pystr \<times> pystr" where
  "generate_runtime_bearer_token rq c = (runtime_prefix @ uuid_str c @ [95] @ secret_token rq, secret_token rq)"

definition runtime_secret_verifier :: "platform \<Rightarrow> pystr \<Rightarrow> pystr \<Rightarrow> pystr" where
  "runtime_secret_verifier pf secret pepper = hmac_hex pf pepper secret"

definition verify_runtime_secret :: "platform \<Rightarrow> pystr \<Rightarrow> pystr \<Rightarrow> pystr \<Rightarrow> exc + bool" where
  "verify_runtime_secret pf secret pepper expected =
     compare_digest (runtime_secret_verifier pf secret pepper) expected"

subsection \<open>The principal repository\<close>

definition runtime_principal_to_row :: "runtime_principal \<Rightarrow> runtime_principal_row" where
  "runtime_principal_to_row p = \<lparr>rp_principal_id = rpr_id p, rp_tenant_id = rpr_tenant_id p,
     rp_agent_id = rpr_agent_id p, rp_created_at = instant (rpr_created_at p),
     rp_disabled_at = map_option instant (rpr_disabled_at p), rp_daily_usage_limit_units = rpr_daily p,
     rp_per_invocation_allowance_units = rpr_allowance p, rp_legacy_runtime_principal_id = rpr_legacy p,
     rp_identity_continuity_bound_at = map_option instant (rpr_bound_at p)\<rparr>"

definition runtime_principal_of :: "platform \<Rightarrow> runtime_principal_row \<Rightarrow> exc + runtime_principal" where
  "runtime_principal_of pf r = runtime_principal_init
     \<lparr>rpr_id = rp_principal_id r, rpr_tenant_id = rp_tenant_id r, rpr_agent_id = rp_agent_id r,
      rpr_created_at = from_db pf (rp_created_at r),
      rpr_disabled_at = map_option (from_db pf) (rp_disabled_at r),
      rpr_daily = rp_daily_usage_limit_units r, rpr_allowance = rp_per_invocation_allowance_units r,
      rpr_legacy = rp_legacy_runtime_principal_id r,
      rpr_bound_at = map_option (from_db pf) (rp_identity_continuity_bound_at r)\<rparr>"

definition runtime_principal_add :: "runtime_principal \<Rightarrow> unit tx" where
  "runtime_principal_add p = flush (runtime_principal_insert (runtime_principal_to_row p))"

definition runtime_principal_get :: "platform \<Rightarrow> uuid \<Rightarrow> runtime_principal option tx" where
  "runtime_principal_get pf i = bnd (query (\<lambda>d. row_of rp_principal_id i (runtime_principals d)))
     (\<lambda>row. case row of None \<Rightarrow> ret None | Some r \<Rightarrow> lift (map_sum id Some (runtime_principal_of pf r)))"

definition runtime_disable_row :: "runtime_principal \<Rightarrow> unit tx" where
  "runtime_disable_row p = execute (\<lambda>d. d\<lparr>runtime_principals :=
     update_rows (\<lambda>r. rp_principal_id r = rpr_id p)
       (\<lambda>r. r\<lparr>rp_disabled_at := map_option instant (rpr_disabled_at p)\<rparr>) (runtime_principals d)\<rparr>)"

text \<open>
  A conditional update: the rows that match are rewritten, the constraints are checked on them,
  and the result is their number, \<open>rowcount\<close>.
\<close>

definition runtime_principal_update ::
  "(runtime_principal_row \<Rightarrow> bool) \<Rightarrow> (runtime_principal_row \<Rightarrow> runtime_principal_row) \<Rightarrow> db \<Rightarrow> exc + (nat \<times> db)" where
  "runtime_principal_update p f d = (let hit = filter p (runtime_principals d) in checked
     [check_failure (\<exists>r \<in> set hit. \<not> runtime_principal_checks_ok (f r)) ''ck_runtime_principal'',
      unique_failure (\<exists>r \<in> set hit. rp_legacy_runtime_principal_id (f r) \<noteq> None
          \<and> (\<exists>q \<in> set (runtime_principals d). rp_principal_id q \<noteq> rp_principal_id r
               \<and> rp_legacy_runtime_principal_id q = rp_legacy_runtime_principal_id (f r)))
        ''uq_runtime_principals_legacy_identity'']
     (length hit, d\<lparr>runtime_principals := update_rows p f (runtime_principals d)\<rparr>))"

definition limits_written :: "runtime_principal \<Rightarrow> runtime_principal_row \<Rightarrow> runtime_principal_row" where
  "limits_written p r = r\<lparr>rp_daily_usage_limit_units := rpr_daily p,
     rp_per_invocation_allowance_units := rpr_allowance p\<rparr>"

definition runtime_limits_update :: "runtime_principal \<Rightarrow> db \<Rightarrow> exc + (nat \<times> db)" where
  "runtime_limits_update p d =
     (if \<not> (opt_ok int4_fits (rpr_daily p) \<and> opt_ok int4_fits (rpr_allowance p))
      then Inl (DataError ''runtime_principals'')
      else runtime_principal_update (\<lambda>r. rp_principal_id r = rpr_id p
             \<and> rp_daily_usage_limit_units r = None \<and> rp_per_invocation_allowance_units r = None)
             (limits_written p) d)"

definition runtime_limits_row :: "runtime_principal \<Rightarrow> bool tx" where
  "runtime_limits_row p = bnd (execute_returning (runtime_limits_update p)) (\<lambda>n. ret (n = 1))"

definition binding_written :: "runtime_principal \<Rightarrow> runtime_principal_row \<Rightarrow> runtime_principal_row" where
  "binding_written p r = r\<lparr>rp_legacy_runtime_principal_id := rpr_legacy p,
     rp_identity_continuity_bound_at := map_option instant (rpr_bound_at p)\<rparr>"

definition runtime_bind_update :: "runtime_principal \<Rightarrow> db \<Rightarrow> exc + (nat \<times> db)" where
  "runtime_bind_update p d =
     (if \<not> opt_ok (text_fits 255) (rpr_legacy p) then Inl (DataError ''runtime_principals'')
      else runtime_principal_update (\<lambda>r. rp_principal_id r = rpr_id p
             \<and> rp_legacy_runtime_principal_id r = None \<and> rp_identity_continuity_bound_at r = None)
             (binding_written p) d)"

definition runtime_bind_row :: "runtime_principal \<Rightarrow> bool tx" where
  "runtime_bind_row p = bnd (execute_returning (runtime_bind_update p)) (\<lambda>n. ret (n = 1))"

text \<open>A text sent as a parameter of a statement.\<close>

definition text_parameter :: "pystr \<Rightarrow> (exc, 's, unit) op" where
  "text_parameter s = raise_if (\<not> text_ok s) (DataError ''text parameter'')"

definition lock_legacy_identity :: "pystr \<Rightarrow> unit tx" where
  "lock_legacy_identity legacy = text_parameter legacy"

definition legacy_claimed :: "pystr \<Rightarrow> db \<Rightarrow> bool" where
  "legacy_claimed legacy d \<longleftrightarrow> (\<exists>r \<in> set (runtime_principals d). rp_legacy_runtime_principal_id r = Some legacy)"

definition legacy_identity_is_claimed :: "pystr \<Rightarrow> bool tx" where
  "legacy_identity_is_claimed legacy = bnd (text_parameter legacy) (\<lambda>_. query (legacy_claimed legacy))"

subsection \<open>Credentials, bindings and the invocation ledger\<close>

definition runtime_credential_to_row :: "runtime_credential \<Rightarrow> runtime_credential_row" where
  "runtime_credential_to_row c = \<lparr>rc_credential_id = rcr_id c, rc_principal_id = rcr_principal_id c,
     rc_secret_verifier = rcr_verifier c, rc_label = rcr_label c,
     rc_created_at = instant (rcr_created_at c), rc_expires_at = map_option instant (rcr_expires_at c),
     rc_revoked_at = map_option instant (rcr_revoked_at c)\<rparr>"

text \<open>The expiry is the one time that is not the clock's: it may leave the calendar in UTC.\<close>

definition runtime_credential_flush :: "runtime_credential \<Rightarrow> db \<Rightarrow> exc + db" where
  "runtime_credential_flush c d =
     (if \<not> opt_ok (\<lambda>x. representable (instant x)) (rcr_expires_at c)
      then Inl (DataError ''runtime_credentials.expires_at'')
      else runtime_credential_insert (runtime_credential_to_row c) d)"

definition runtime_credential_add :: "runtime_credential \<Rightarrow> unit tx" where
  "runtime_credential_add c = flush (runtime_credential_flush c)"

definition runtime_credential_of :: "platform \<Rightarrow> runtime_credential_row \<Rightarrow> exc + runtime_credential" where
  "runtime_credential_of pf r = runtime_credential_init
     \<lparr>rcr_id = rc_credential_id r, rcr_principal_id = rc_principal_id r, rcr_verifier = rc_secret_verifier r,
      rcr_label = rc_label r, rcr_created_at = from_db pf (rc_created_at r),
      rcr_expires_at = map_option (from_db pf) (rc_expires_at r),
      rcr_revoked_at = map_option (from_db pf) (rc_revoked_at r)\<rparr>"

definition runtime_credential_get :: "platform \<Rightarrow> uuid \<Rightarrow> runtime_credential option tx" where
  "runtime_credential_get pf i = bnd (query (\<lambda>d. row_of rc_credential_id i (runtime_credentials d)))
     (\<lambda>row. case row of None \<Rightarrow> ret None | Some r \<Rightarrow> lift (map_sum id Some (runtime_credential_of pf r)))"

definition runtime_revoke_row :: "runtime_credential \<Rightarrow> unit tx" where
  "runtime_revoke_row c = execute (\<lambda>d. d\<lparr>runtime_credentials :=
     update_rows (\<lambda>r. rc_credential_id r = rcr_id c)
       (\<lambda>r. r\<lparr>rc_revoked_at := map_option instant (rcr_revoked_at c)\<rparr>) (runtime_credentials d)\<rparr>)"

definition runtime_live_at :: "int \<Rightarrow> runtime_credential_row \<Rightarrow> bool" where
  "runtime_live_at t c \<longleftrightarrow> rc_revoked_at c = None \<and> opt_ok (\<lambda>x. t < x) (rc_expires_at c)"

definition has_potentially_usable :: "uuid \<Rightarrow> datetime \<Rightarrow> db \<Rightarrow> bool" where
  "has_potentially_usable i now d \<longleftrightarrow>
     (\<exists>c \<in> set (runtime_credentials d). rc_principal_id c = i \<and> runtime_live_at (instant now) c)"

definition runtime_binding_exists :: "uuid \<Rightarrow> uuid \<Rightarrow> db \<Rightarrow> bool" where
  "runtime_binding_exists t a d \<longleftrightarrow> (\<exists>x \<in> set (agents d). ar_id x = a \<and> ar_tenant_id x = t
     \<and> (\<exists>y \<in> set (tenants d). tr_id y = ar_tenant_id x))"

record continuity_facts =
  cf_count :: nat
  cf_units :: int
  cf_legacy_mismatch :: bool
  cf_canonical_mismatch :: bool

definition used_by :: "pystr \<Rightarrow> invocation_row \<Rightarrow> bool" where
  "used_by p r \<longleftrightarrow> ir_runtime_principal_id r = Some p"

definition inspect_continuity :: "pystr \<Rightarrow> pystr \<Rightarrow> uuid \<Rightarrow> uuid \<Rightarrow> int \<Rightarrow> int \<Rightarrow> db \<Rightarrow> continuity_facts" where
  "inspect_continuity legacy canon t a s e d =
     (let elsewhere = (\<lambda>r. ir_tenant_id r \<noteq> t \<or> ir_agent_id r \<noteq> a) in
      \<lparr>cf_count = length (filter (used_by legacy) (invocations d)),
       cf_units = sum_list (map (\<lambda>r. case ir_total_units r of None \<Rightarrow> 0 | Some n \<Rightarrow> n)
         (filter (\<lambda>r. used_by legacy r \<and> in_window s e r) (invocations d))),
       cf_legacy_mismatch = (\<exists>r \<in> set (invocations d). used_by legacy r \<and> elsewhere r),
       cf_canonical_mismatch = (\<exists>r \<in> set (invocations d). used_by canon r \<and> elsewhere r)\<rparr>)"

definition continuity_units :: "pystr set \<Rightarrow> int \<Rightarrow> int \<Rightarrow> db \<Rightarrow> int" where
  "continuity_units ids s e d = sum_list (map (\<lambda>r. the (ir_total_units r))
     (filter (\<lambda>r. (\<exists>p \<in> ids. used_by p r) \<and> in_window s e r \<and> ir_total_units r \<noteq> None) (invocations d)))"

text \<open>A time sent as a parameter: the driver converts it to UTC.\<close>

definition time_parameter :: "platform \<Rightarrow> datetime \<Rightarrow> (exc, 's, int) op" where
  "time_parameter pf tm = lift (case astimezone_utc pf tm of None \<Rightarrow> Inl (DataError ''timestamp parameter'')
     | Some u \<Rightarrow> Inr (instant u))"

subsection \<open>The service\<close>

record runtime_service =
  rsv_pepper :: pystr
  rsv_legacy :: "runtime_principal_entry list option"

text \<open>The first configured identity with the text, of a service that has a configuration.\<close>

definition legacy_configuration :: "runtime_principal_entry list \<Rightarrow> pystr \<Rightarrow> runtime_principal_entry option" where
  "legacy_configuration entries i = find (\<lambda>e. re_principal_id e = i) entries"

definition service_legacy :: "runtime_service \<Rightarrow> pystr \<Rightarrow> runtime_principal_entry option" where
  "service_legacy sv i = (case rsv_legacy sv of None \<Rightarrow> None | Some es \<Rightarrow> legacy_configuration es i)"

definition runtime_require_manager :: "actor \<Rightarrow> (exc, 's, unit) op" where
  "runtime_require_manager a = raise_if (\<not> act_can_manage a) RuntimePrincipalManagementDenied"

definition runtime_validate_expiry :: "request \<Rightarrow> datetime option \<Rightarrow> (exc, 's, unit) op" where
  "runtime_validate_expiry rq expires =
     raise_if (\<not> opt_ok (\<lambda>x. is_aware x \<and> clock_at rq 0 < instant x) expires)
       (InvalidRuntimeIdentityCommand ''expires_at must be a future timezone-aware timestamp'')"

definition runtime_new_credential :: "platform \<Rightarrow> runtime_service \<Rightarrow> request \<Rightarrow> nat \<Rightarrow> uuid \<Rightarrow> pystr option \<Rightarrow>
    datetime option \<Rightarrow> exc + (runtime_credential \<times> pystr)" where
  "runtime_new_credential pf sv rq i p label expires =
     (case generate_runtime_bearer_token rq (id_at rq i) of (token, secret) \<Rightarrow>
        map_sum id (\<lambda>c. (c, token)) (runtime_credential_init
          \<lparr>rcr_id = id_at rq i, rcr_principal_id = p,
           rcr_verifier = runtime_secret_verifier pf secret (rsv_pepper sv), rcr_label = label,
           rcr_created_at = clock rq 0, rcr_expires_at = expires, rcr_revoked_at = None\<rparr>))"

definition runtime_principal_digest :: "platform \<Rightarrow> runtime_principal \<Rightarrow> pystr" where
  "runtime_principal_digest pf p = runtime_principal_fingerprint pf (rpr_id p) (rpr_tenant_id p) (rpr_agent_id p)
     (\<not> runtime_is_active p) (rpr_daily p) (rpr_allowance p) (rpr_legacy p)"

definition runtime_credential_digest :: "platform \<Rightarrow> runtime_credential \<Rightarrow> pystr" where
  "runtime_credential_digest pf c = runtime_credential_fingerprint pf (rcr_id c) (rcr_principal_id c) (rcr_label c)
     (isoformat (rcr_created_at c)) (map_option isoformat (rcr_expires_at c)) (rcr_revoked_at c \<noteq> None)"

definition runtime_principal_audit :: "platform \<Rightarrow> request \<Rightarrow> nat \<Rightarrow> uuid \<Rightarrow> runtime_principal \<Rightarrow>
    runtime_principal option \<Rightarrow> audit_action \<Rightarrow> audit_record" where
  "runtime_principal_audit pf rq i actor after before action =
     \<lparr>aud_audit_id = id_at rq i, aud_principal_id = uuid_str actor, aud_tenant_id = Some (rpr_tenant_id after),
      aud_action = action, aud_resource_type = RUNTIME_PRINCIPAL, aud_resource_id = rpr_id after,
      aud_outcome = AuditSucceeded, aud_occurred_at = clock rq 0,
      aud_before_fingerprint = map_option (runtime_principal_digest pf) before,
      aud_after_fingerprint = Some (runtime_principal_digest pf after)\<rparr>"

definition runtime_credential_audit :: "platform \<Rightarrow> request \<Rightarrow> nat \<Rightarrow> uuid \<Rightarrow> uuid \<Rightarrow> runtime_credential \<Rightarrow>
    runtime_credential option \<Rightarrow> audit_action \<Rightarrow> audit_record" where
  "runtime_credential_audit pf rq i actor t after before action =
     \<lparr>aud_audit_id = id_at rq i, aud_principal_id = uuid_str actor, aud_tenant_id = Some t,
      aud_action = action, aud_resource_type = RUNTIME_CREDENTIAL, aud_resource_id = rcr_id after,
      aud_outcome = AuditSucceeded, aud_occurred_at = clock rq 0,
      aud_before_fingerprint = map_option (runtime_credential_digest pf) before,
      aud_after_fingerprint = Some (runtime_credential_digest pf after)\<rparr>"

definition runtime_create_principal :: "platform \<Rightarrow> runtime_service \<Rightarrow> request \<Rightarrow> actor \<Rightarrow> uuid \<Rightarrow> uuid \<Rightarrow>
    int \<Rightarrow> int \<Rightarrow> pystr option \<Rightarrow> datetime option \<Rightarrow>
    (exc, db, runtime_principal \<times> runtime_credential \<times> pystr) op" where
  "runtime_create_principal pf sv rq a t ag daily allowance label expires =
     bnd (runtime_require_manager a) (\<lambda>_.
     bnd (runtime_validate_expiry rq expires) (\<lambda>_.
     with_uow (commit_after (
       bnd (query (runtime_binding_exists t ag)) (\<lambda>bound.
       bnd (raise_if (\<not> bound) RuntimeBindingNotFound) (\<lambda>_.
       bnd (lift (value_error_as InvalidRuntimeIdentityCommand
              (runtime_principal_create (id_at rq 0) t ag (clock rq 0) daily allowance))) (\<lambda>p.
       bnd (lift (runtime_new_credential pf sv rq 1 (rpr_id p) label expires)) (\<lambda>issued.
       bnd (runtime_principal_add p) (\<lambda>_.
       bnd (runtime_credential_add (fst issued)) (\<lambda>_.
       bnd (audit_write (runtime_principal_audit pf rq 2 (act_id a) p None RUNTIME_PRINCIPAL_CREATED)) (\<lambda>_.
       bnd (audit_write (runtime_credential_audit pf rq 3 (act_id a) (rpr_tenant_id p) (fst issued) None
              RUNTIME_CREDENTIAL_ISSUED)) (\<lambda>_.
       ret (p, issued)))))))))))))"

definition runtime_get_principal :: "platform \<Rightarrow> request \<Rightarrow> actor \<Rightarrow> uuid \<Rightarrow> (exc, db, runtime_principal \<times> bool) op" where
  "runtime_get_principal pf rq a i = bnd (runtime_require_manager a) (\<lambda>_.
     bnd (with_uow (
       bnd (runtime_principal_get pf i) (\<lambda>p.
       bnd (if p = None then ret False else query (has_potentially_usable i (clock rq 0))) (\<lambda>usable.
       ret (p, usable))))) (\<lambda>(p, usable).
     case p of None \<Rightarrow> throw RuntimePrincipalNotFound
     | Some p \<Rightarrow> ret (p, runtime_is_active p \<and> usage_limits_configured p \<and> usable)))"

record continuity_preflight =
  cp_principal_id :: uuid
  cp_legacy_id :: pystr
  cp_static_exists :: bool
  cp_tenant_matches :: bool
  cp_agent_matches :: bool
  cp_unclaimed :: bool
  cp_unbound :: bool
  cp_count :: nat
  cp_units :: int
  cp_limits_match :: bool
  cp_consistent :: bool
  cp_cutover_ready :: bool
  cp_safe :: bool

definition preflight_day :: "platform \<Rightarrow> datetime \<Rightarrow> exc + (datetime \<times> datetime)" where
  "preflight_day pf now = and_then (overflow_guard (astimezone_utc pf now)) (\<lambda>u.
     let s = floor_wall day_us u in map_sum id (\<lambda>e. (s, e)) (overflow_guard (dt_plus s day_us)))"

definition preflight_of :: "runtime_service \<Rightarrow> runtime_principal \<Rightarrow> pystr \<Rightarrow> continuity_facts \<Rightarrow> bool \<Rightarrow> bool \<Rightarrow>
    continuity_preflight" where
  "preflight_of sv p legacy facts claimed usable =
     (let config = service_legacy sv legacy;
          tenant = (case config of None \<Rightarrow> False | Some e \<Rightarrow> re_tenant_id e = rpr_tenant_id p);
          agent = (case config of None \<Rightarrow> False | Some e \<Rightarrow> re_agent_id e = rpr_agent_id p);
          limits = (case config of None \<Rightarrow> False | Some e \<Rightarrow> rpr_daily p = Some (re_usage_limit e)
             \<and> rpr_allowance p = Some (re_allowance e));
          ready = (runtime_is_active p \<and> usage_limits_configured p \<and> usable);
          consistent = (\<not> cf_legacy_mismatch facts \<and> \<not> cf_canonical_mismatch facts);
          unbound = (\<not> identity_continuity_ready p)
      in \<lparr>cp_principal_id = rpr_id p, cp_legacy_id = legacy, cp_static_exists = (config \<noteq> None),
          cp_tenant_matches = tenant, cp_agent_matches = agent, cp_unclaimed = (\<not> claimed),
          cp_unbound = unbound, cp_count = cf_count facts, cp_units = cf_units facts,
          cp_limits_match = limits, cp_consistent = consistent, cp_cutover_ready = ready,
          cp_safe = (config \<noteq> None \<and> tenant \<and> agent \<and> \<not> claimed \<and> unbound \<and> limits \<and> consistent \<and> ready)\<rparr>)"

definition continuity_preflight_of :: "platform \<Rightarrow> runtime_service \<Rightarrow> request \<Rightarrow> runtime_principal \<Rightarrow> pystr \<Rightarrow>
    continuity_preflight tx" where
  "continuity_preflight_of pf sv rq p legacy =
     bnd (lift (preflight_day pf (clock rq 0))) (\<lambda>(s, e).
     bnd (text_parameter legacy) (\<lambda>_.
     bnd (query (inspect_continuity legacy (uuid_str (rpr_id p)) (rpr_tenant_id p) (rpr_agent_id p)
            (instant s) (instant e))) (\<lambda>facts.
     bnd (legacy_identity_is_claimed legacy) (\<lambda>claimed.
     bnd (query (has_potentially_usable (rpr_id p) (clock rq 0))) (\<lambda>usable.
     ret (preflight_of sv p legacy facts claimed usable))))))"

definition preflight_identity_continuity :: "platform \<Rightarrow> runtime_service \<Rightarrow> request \<Rightarrow> actor \<Rightarrow> uuid \<Rightarrow> pystr \<Rightarrow>
    (exc, db, continuity_preflight) op" where
  "preflight_identity_continuity pf sv rq a i legacy = bnd (runtime_require_manager a) (\<lambda>_.
     with_uow (
       bnd (runtime_principal_get pf i) (\<lambda>p.
       case p of None \<Rightarrow> throw RuntimePrincipalNotFound
       | Some p \<Rightarrow>
         bnd (raise_if (\<not> runtime_is_active p) RuntimePrincipalNotFound) (\<lambda>_.
         continuity_preflight_of pf sv rq p legacy))))"

definition bind_identity_continuity :: "platform \<Rightarrow> runtime_service \<Rightarrow> request \<Rightarrow> actor \<Rightarrow> uuid \<Rightarrow> pystr \<Rightarrow>
    (exc, db, runtime_principal) op" where
  "bind_identity_continuity pf sv rq a i legacy = bnd (runtime_require_manager a) (\<lambda>_.
     with_uow (commit_after (
       bnd (lock_legacy_identity legacy) (\<lambda>_.
       bnd (runtime_principal_get pf i) (\<lambda>p.
       case p of None \<Rightarrow> throw RuntimePrincipalNotFound
       | Some p \<Rightarrow>
         bnd (raise_if (\<not> runtime_is_active p) RuntimePrincipalNotFound) (\<lambda>_.
         bnd (if identity_continuity_ready p then ret True else legacy_identity_is_claimed legacy) (\<lambda>taken.
         bnd (raise_if taken RuntimeIdentityContinuityConflict) (\<lambda>_.
         bnd (continuity_preflight_of pf sv rq p legacy) (\<lambda>preflight.
         bnd (raise_if (\<not> cp_safe preflight)
                (InvalidRuntimeIdentityCommand ''Runtime identity continuity validation did not pass.'')) (\<lambda>_.
         bnd (lift (value_error_as InvalidRuntimeIdentityCommand (runtime_bind p legacy (clock rq 0)))) (\<lambda>bound.
         bnd (runtime_bind_row bound) (\<lambda>written.
         bnd (raise_if (\<not> written) RuntimeIdentityContinuityConflict) (\<lambda>_.
         bnd (audit_write (runtime_principal_audit pf rq 0 (act_id a) bound (Some p)
                RUNTIME_PRINCIPAL_IDENTITY_CONTINUITY_BOUND)) (\<lambda>_.
         ret bound))))))))))))))"

definition continuity_usage_total :: "platform \<Rightarrow> actor \<Rightarrow> uuid \<Rightarrow> datetime \<Rightarrow> datetime \<Rightarrow> (exc, db, int) op" where
  "continuity_usage_total pf a i start until = bnd (runtime_require_manager a) (\<lambda>_.
     with_uow (
       bnd (runtime_principal_get pf i) (\<lambda>p.
       case p of None \<Rightarrow> throw RuntimePrincipalNotFound
       | Some p \<Rightarrow>
         bnd (time_parameter pf start) (\<lambda>s. bnd (time_parameter pf until) (\<lambda>e.
         query (continuity_units (continuity_identity_ids p) s e))))))"

definition initialize_usage_limits :: "platform \<Rightarrow> request \<Rightarrow> actor \<Rightarrow> uuid \<Rightarrow> int \<Rightarrow> int \<Rightarrow>
    (exc, db, runtime_principal) op" where
  "initialize_usage_limits pf rq a i daily allowance = bnd (runtime_require_manager a) (\<lambda>_.
     with_uow (commit_after (
       bnd (runtime_principal_get pf i) (\<lambda>p.
       case p of None \<Rightarrow> throw RuntimePrincipalNotFound
       | Some p \<Rightarrow>
         bnd (raise_if (\<not> runtime_is_active p) RuntimePrincipalNotFound) (\<lambda>_.
         bnd (raise_if (usage_limits_configured p) RuntimeUsageLimitsAlreadyInitialized) (\<lambda>_.
         bnd (lift (value_error_as InvalidRuntimeIdentityCommand
                (runtime_initialize_limits p daily allowance))) (\<lambda>configured.
         bnd (runtime_limits_row configured) (\<lambda>written.
         bnd (raise_if (\<not> written) RuntimeUsageLimitsAlreadyInitialized) (\<lambda>_.
         bnd (audit_write (runtime_principal_audit pf rq 0 (act_id a) configured (Some p)
                RUNTIME_PRINCIPAL_USAGE_LIMITS_INITIALIZED)) (\<lambda>_.
         ret configured))))))))))"

definition runtime_issue_credential :: "platform \<Rightarrow> runtime_service \<Rightarrow> request \<Rightarrow> actor \<Rightarrow> uuid \<Rightarrow> pystr option \<Rightarrow>
    datetime option \<Rightarrow> (exc, db, runtime_credential \<times> pystr) op" where
  "runtime_issue_credential pf sv rq a i label expires = bnd (runtime_require_manager a) (\<lambda>_.
     bnd (runtime_validate_expiry rq expires) (\<lambda>_.
     with_uow (commit_after (
       bnd (runtime_principal_get pf i) (\<lambda>p.
       case p of None \<Rightarrow> throw RuntimePrincipalNotFound
       | Some p \<Rightarrow>
         bnd (raise_if (\<not> runtime_is_active p) RuntimePrincipalNotFound) (\<lambda>_.
         bnd (lift (runtime_new_credential pf sv rq 0 (rpr_id p) label expires)) (\<lambda>issued.
         bnd (runtime_credential_add (fst issued)) (\<lambda>_.
         bnd (audit_write (runtime_credential_audit pf rq 1 (act_id a) (rpr_tenant_id p) (fst issued) None
                RUNTIME_CREDENTIAL_ISSUED)) (\<lambda>_.
         ret issued)))))))))"

definition runtime_revoke_credential :: "platform \<Rightarrow> request \<Rightarrow> actor \<Rightarrow> uuid \<Rightarrow> uuid \<Rightarrow>
    (exc, db, runtime_credential) op" where
  "runtime_revoke_credential pf rq a i ci = bnd (runtime_require_manager a) (\<lambda>_.
     with_uow (commit_after (
       bnd (runtime_principal_get pf i) (\<lambda>p.
       bnd (runtime_credential_get pf ci) (\<lambda>c.
       case (p, c) of
         (None, _) \<Rightarrow> throw RuntimePrincipalNotFound
       | (Some p, None) \<Rightarrow> throw RuntimeCredentialNotFound
       | (Some p, Some c) \<Rightarrow>
         bnd (raise_if (rcr_principal_id c \<noteq> rpr_id p \<or> rcr_revoked_at c \<noteq> None) RuntimeCredentialNotFound) (\<lambda>_.
         bnd (lift (runtime_revoke c (clock rq 0))) (\<lambda>revoked.
         bnd (runtime_revoke_row revoked) (\<lambda>_.
         bnd (audit_write (runtime_credential_audit pf rq 0 (act_id a) (rpr_tenant_id p) revoked (Some c)
                RUNTIME_CREDENTIAL_REVOKED)) (\<lambda>_.
         ret revoked)))))))))"

definition runtime_disable_principal :: "platform \<Rightarrow> request \<Rightarrow> actor \<Rightarrow> uuid \<Rightarrow> (exc, db, runtime_principal) op" where
  "runtime_disable_principal pf rq a i = bnd (runtime_require_manager a) (\<lambda>_.
     with_uow (commit_after (
       bnd (runtime_principal_get pf i) (\<lambda>p.
       case p of None \<Rightarrow> throw RuntimePrincipalNotFound
       | Some p \<Rightarrow>
         bnd (raise_if (\<not> runtime_is_active p) RuntimePrincipalNotFound) (\<lambda>_.
         bnd (lift (runtime_disable p (clock rq 0))) (\<lambda>disabled.
         bnd (runtime_disable_row disabled) (\<lambda>_.
         bnd (audit_write (runtime_principal_audit pf rq 0 (act_id a) disabled (Some p)
                RUNTIME_PRINCIPAL_DISABLED)) (\<lambda>_.
         ret disabled))))))))"

end
