(* ===== verification/DecimalRounding.thy ===== *)
theory DecimalRounding
  imports PyDecimal
begin

text \<open>
  Rounding errors of the decimal operations on non-negative operands: rounding to the context
  precision, the quotient with its sticky digit, and \<open>quantize\<close>. They bound how far an
  attributed cost is from the exact rational amount.
\<close>

lemma dval_powi: "dval d = of_int (coef d) * 10 powi dexp d"
  by (auto simp: dval_def power_int_def field_simps)

lemma powi_add10: "(10::rat) powi (a + b) = 10 powi a * 10 powi b"
  by (simp add: power_int_add)

lemma powi_mono10: "a \<le> b \<Longrightarrow> (10::rat) powi a \<le> 10 powi b"
  by (rule power_int_increasing) auto

lemma powi_pos10 [simp]: "(0::rat) < 10 powi a"
  by (simp add: zero_less_power_int)

lemma ndigits_lower: "0 < n \<Longrightarrow> 10 ^ (ndigits n - 1) \<le> n"
  using ndigits_le_iff [of "ndigits n - 1" n] ndigits_pos [of n]
  by (cases "ndigits n = 1") (auto simp: not_less [symmetric] Suc_le_eq)

lemma div_less_of:
  fixes a b m :: int
  assumes "0 < b" "a < m * b"
  shows "a div b < m"
proof (rule ccontr)
  assume "\<not> a div b < m"
  then have "m * b \<le> a div b * b" using assms(1) by (intro mult_right_mono) simp_all
  also have "\<dots> \<le> a" using assms(1) div_mult_mod_eq [of a b] pos_mod_sign [of b a] by linarith
  finally show False using assms(2) by simp
qed

lemma round_div_upper:
  assumes "0 < b" "a < m * b"
  shows "round_div a b \<le> m"
proof -
  have "a div b < m" using assms by (rule div_less_of)
  then show ?thesis by (auto simp: round_div_def Let_def)
qed

lemma dec_fix_error:
  assumes "0 < prec" "0 \<le> coef d" and k: "prec < ndigits (nat (coef d))"
  shows "\<bar>dval (dec_fix prec d) - dval d\<bar> \<le> 10 powi (dexp d + int (ndigits (nat (coef d)) - prec)) / 2"
proof -
  define n where "n = ndigits (nat (coef d)) - prec"
  define c where "c = round_div (coef d) (10 ^ n)"
  have nk: "ndigits (nat (coef d)) = prec + n" using k by (simp add: n_def)
  have "nat (coef d) < 10 ^ (prec + n)" using ndigits_bound [of "nat (coef d)"] nk by simp
  then have "coef d < 10 ^ (prec + n)" using assms(2) by (simp add: nat_less_iff)
  then have c_le: "c \<le> 10 ^ prec"
    unfolding c_def by (intro round_div_upper) (simp_all add: power_add)
  have c0: "0 \<le> c" unfolding c_def by (rule round_div_nonneg) (use assms in simp_all)
  have fixv: "dval (dec_fix prec d) = of_int c * 10 powi (dexp d + int n)"
  proof (cases "prec < ndigits (nat c)")
    case True
    then have "\<not> nat c < 10 ^ prec" using ndigits_le_iff [OF assms(1), of "nat c"] by simp
    then have c: "c = 10 ^ prec" using c_le c0 by (simp add: nat_less_iff)
    obtain p where p: "prec = Suc p" using assms(1) by (cases prec) auto
    have eq: "dec_fix prec d = Dec (c div 10) (dexp d + int n + 1)"
      using True k c0 assms(2) by (simp add: dec_fix_def Let_def n_def [symmetric] c_def [symmetric])
    show ?thesis unfolding eq by (simp add: dval_powi c p powi_add10)
  next
    case False
    then have "dec_fix prec d = Dec c (dexp d + int n)"
      using k c0 assms(2) by (simp add: dec_fix_def Let_def n_def [symmetric] c_def [symmetric])
    then show ?thesis by (simp only: dval_powi dec.sel)
  qed
  have "2 * \<bar>coef d - 10 ^ n * c\<bar> \<le> 10 ^ n"
    unfolding c_def by (rule round_div_error) simp
  then have "(of_int (2 * \<bar>coef d - 10 ^ n * c\<bar>)::rat) \<le> of_int (10 ^ n)"
    by (simp only: of_int_le_iff)
  then have err: "\<bar>of_int (coef d) - 10 ^ n * of_int c\<bar> \<le> (10::rat) ^ n / 2" by simp
  have "dval (dec_fix prec d) - dval d = (10 ^ n * of_int c - of_int (coef d)) * 10 powi dexp d"
    unfolding fixv dval_powi [of d] powi_add10 by (simp add: algebra_simps)
  then have "\<bar>dval (dec_fix prec d) - dval d\<bar> = \<bar>of_int (coef d) - 10 ^ n * of_int c\<bar> * 10 powi dexp d"
    by (simp add: abs_mult abs_minus_commute)
  also have "\<dots> \<le> 10 ^ n / 2 * 10 powi dexp d"
    using err by (intro mult_right_mono) (simp_all add: less_imp_le)
  finally show ?thesis by (simp add: powi_add10 n_def algebra_simps)
qed

lemma drop_zeros_value:
  "drop_zeros n c e = (c', e') \<Longrightarrow> c = c' * 10 ^ nat (e' - e) \<and> e \<le> e' \<and> (0 \<le> c \<longrightarrow> 0 \<le> c')"
proof (induction n arbitrary: c e)
  case (Suc n)
  show ?case
  proof (cases "c mod 10 = 0")
    case True
    then have IH: "c div 10 = c' * 10 ^ nat (e' - (e + 1)) \<and> e + 1 \<le> e' \<and> (0 \<le> c div 10 \<longrightarrow> 0 \<le> c')"
      using Suc by simp
    have c: "c = c div 10 * 10" using True by presburger
    have "nat (e' - e) = Suc (nat (e' - (e + 1)))" using IH by linarith
    then have "c = c' * 10 ^ nat (e' - e)" using IH c by simp
    then show ?thesis using IH by (simp add: pos_imp_zdiv_nonneg_iff)
  qed (use Suc in simp)
qed simp

text \<open>The quotient before rounding: within one unit of its exponent, and not too long.\<close>

lemma div_digits:
  assumes m: "0 < m" and n: "0 < n"
    and shift: "shift = int (ndigits (nat n)) - int (ndigits (nat m)) + int prec + 1"
    and num: "num = (if 0 \<le> shift then m * 10 ^ nat shift else m)"
    and den: "den = (if 0 \<le> shift then n else n * 10 ^ nat (- shift))"
  shows "num div den < 10 ^ (prec + 2)"
    "(of_int num / of_int den :: rat) = of_int m / of_int n * 10 powi shift"
proof -
  let ?dm = "ndigits (nat m)" and ?dn = "ndigits (nat n)"
  have "nat m < 10 ^ ?dm" by (rule ndigits_bound)
  then have mb: "m < 10 ^ ?dm" using m by (simp add: nat_less_iff)
  have "10 ^ (?dn - 1) \<le> nat n" using n by (intro ndigits_lower) simp
  then have nb: "10 ^ (?dn - 1) \<le> n" using n by (simp add: le_nat_iff)
  have dn: "?dn = Suc (?dn - 1)" by simp
  have den0: "0 < den" using n den by simp
  show "num div den < 10 ^ (prec + 2)"
  proof (cases "0 \<le> shift")
    case True
    have e: "?dm + nat shift = (?dn - 1) + (prec + 2)" using True shift dn by linarith
    have "num < 10 ^ ?dm * 10 ^ nat shift" using num True mb by simp
    also have "\<dots> = 10 ^ (?dn - 1) * 10 ^ (prec + 2)" unfolding power_add [symmetric] e ..
    also have "\<dots> \<le> n * 10 ^ (prec + 2)" using nb by (intro mult_right_mono) simp_all
    finally show ?thesis using True den n by (intro div_less_of) (simp_all add: mult.commute)
  next
    case False
    have e: "?dm = (?dn - 1) + nat (- shift) + (prec + 2)" using False shift dn by linarith
    have "num < 10 ^ ?dm" using num False mb by simp
    also have "\<dots> = 10 ^ (?dn - 1) * 10 ^ nat (- shift) * 10 ^ (prec + 2)"
      by (subst e) (simp only: power_add)
    also have "\<dots> \<le> n * 10 ^ nat (- shift) * 10 ^ (prec + 2)" using nb by (intro mult_right_mono) simp_all
    finally show ?thesis using False den den0 by (intro div_less_of) (simp_all add: mult.commute)
  qed
  show "(of_int num / of_int den :: rat) = of_int m / of_int n * 10 powi shift"
    using num den by (auto simp: power_int_def field_simps)
qed

lemma dec_div_error:
  assumes a: "0 < coef a" and b: "0 < coef b" and prec: "0 < prec"
    and e: "e = dexp a - dexp b - (int (ndigits (nat (coef b))) - int (ndigits (nat (coef a))) + int prec + 1)"
  shows "\<exists>q. dec_div prec a b = Some q \<and> 0 \<le> coef q \<and> \<bar>dval q - dval a / dval b\<bar> \<le> 10 powi (e + 3)"
proof -
  define shift where "shift = int (ndigits (nat (coef b))) - int (ndigits (nat (coef a))) + int prec + 1"
  define num where "num = (if 0 \<le> shift then coef a * 10 ^ nat shift else coef a)"
  define den where "den = (if 0 \<le> shift then coef b else coef b * 10 ^ nat (- shift))"
  define q where "q = num div den"
  obtain c e' where ce: "(c, e') = (if num mod den \<noteq> 0 then (if q mod 5 = 0 then q + 1 else q, e)
      else drop_zeros (nat (dexp a - dexp b - e)) q e)"
    by (metis surj_pair)
  have e_eq: "e = dexp a - dexp b - shift" by (simp add: e shift_def)
  have "dec_div prec a b = (case (if num mod den \<noteq> 0 then (if q mod 5 = 0 then q + 1 else q, e)
      else drop_zeros (nat (dexp a - dexp b - e)) q e) of (c, e') \<Rightarrow> Some (dec_fix prec (Dec c e')))"
    unfolding q_def num_def den_def shift_def e using a b by (simp add: dec_div_def Let_def)
  then have res: "dec_div prec a b = Some (dec_fix prec (Dec c e'))"
    unfolding ce [symmetric] by simp
  note digits = div_digits [OF a b shift_def num_def den_def]
  have num0: "0 < num" and den0: "0 < den" using a b by (simp_all add: num_def den_def)
  have q0: "0 \<le> q" using num0 den0 by (simp add: q_def pos_imp_zdiv_nonneg_iff)
  have qb: "q < 10 ^ (prec + 2)" using digits(1) by (simp add: q_def)
  have exact: "dval a / dval b = of_int num / of_int den * 10 powi e"
    unfolding digits(2) e_eq dval_powi by (simp add: power_int_diff power_int_add field_simps)
  have split: "of_int num / of_int den = of_int q + of_int (num mod den) / (of_int den :: rat)"
  proof -
    have "num = q * den + num mod den" by (simp add: q_def)
    then have "of_int num = (of_int q * of_int den + of_int (num mod den) :: rat)"
      by (metis of_int_add of_int_mult)
    then show ?thesis using den0 by (simp add: field_simps)
  qed
  have frac: "0 \<le> of_int (num mod den) / (of_int den :: rat)" "of_int (num mod den) / (of_int den :: rat) \<le> 1"
    using den0 pos_mod_bound [OF den0, of num] pos_mod_sign [OF den0, of num] by simp_all
  have pos: "0 < (10::rat) powi e" by simp
  have ok: "0 \<le> c \<and> \<bar>dval (Dec c e') - dval a / dval b\<bar> \<le> 10 powi e
    \<and> (int (ndigits (nat c)) + e' \<le> int prec + 3 + e)"
  proof (cases "num mod den = 0")
    case True
    then have dz: "q = c * 10 ^ nat (e' - e)" "e \<le> e'" "0 \<le> c"
      using ce q0 drop_zeros_value [of "nat (dexp a - dexp b - e)" q e c e'] by simp_all
    have "dval (Dec c e') = dval (Dec q e)"
      using dz dval_coef_at [of e "Dec c e'"] by (simp add: coef_at_def)
    then have "dval (Dec c e') = of_int q * 10 powi e" by (simp only: dval_powi dec.sel)
    then have v: "dval (Dec c e') = dval a / dval b" using exact split True by simp
    have "int (ndigits (nat c)) + e' \<le> int prec + 3 + e"
    proof (cases "c = 0")
      case c0: True
      then have "q = 0" using dz(1) by simp
      then have "of_int num / (of_int den :: rat) = 0" using split True by simp
      then show ?thesis using num0 den0 by simp
    next
      case False
      then have "10 ^ (ndigits (nat c) - 1) \<le> nat c" using dz(3) by (intro ndigits_lower) simp
      then have "10 ^ (ndigits (nat c) - 1) \<le> c" using dz(3) by (simp add: le_nat_iff)
      then have "10 ^ (ndigits (nat c) - 1) * 10 ^ nat (e' - e) \<le> q"
        unfolding dz(1) by (intro mult_right_mono) simp_all
      then have "(10::int) ^ (ndigits (nat c) - 1 + nat (e' - e)) < 10 ^ (prec + 2)"
        using qb by (simp only: power_add)
      then have "ndigits (nat c) - 1 + nat (e' - e) < prec + 2" by (simp only: power_strict_increasing_iff)
      then show ?thesis using dz(2) by linarith
    qed
    then show ?thesis using v dz(3) pos by simp
  next
    case False
    then have c: "c = q \<or> c = q + 1" and e': "e' = e" using ce by (auto split: if_splits)
    have "\<bar>of_int c - of_int num / (of_int den :: rat)\<bar> \<le> 1"
      using c frac split by auto
    moreover have "dval (Dec c e') - dval a / dval b = (of_int c - of_int num / of_int den) * 10 powi e"
      unfolding e' exact dval_powi [of "Dec c e"] by (simp add: algebra_simps)
    ultimately have "\<bar>dval (Dec c e') - dval a / dval b\<bar> \<le> 1 * 10 powi e"
      using pos by (simp only: abs_mult) (intro mult_mono, simp_all)
    moreover have "nat c < 10 ^ (prec + 3)"
    proof -
      have "c \<le> 10 ^ (prec + 2)" using c qb by auto
      also have "(10::int) ^ (prec + 2) < 10 ^ (prec + 3)" by (rule power_strict_increasing) simp_all
      finally show ?thesis using c q0 by (auto simp: nat_less_iff)
    qed
    then have "ndigits (nat c) \<le> prec + 3" by (simp add: ndigits_le_iff)
    ultimately show ?thesis using c q0 e' by auto
  qed
  have fix_err: "\<bar>dval (dec_fix prec (Dec c e')) - dval (Dec c e')\<bar> \<le> 10 powi (e + 3) / 2"
  proof (cases "prec < ndigits (nat c)")
    case True
    have "10 powi (e' + int (ndigits (nat c) - prec)) \<le> (10::rat) powi (e + 3)"
      using ok True by (intro powi_mono10) linarith
    then show ?thesis using dec_fix_error [OF prec, of "Dec c e'"] ok True by simp
  next
    case False
    then have "dec_fix prec (Dec c e') = Dec c e'" using ok by (simp add: dec_fix_def Let_def)
    then show ?thesis by simp
  qed
  have "10 powi (e + 3) = 1000 * (10::rat) powi e" by (simp add: powi_add10)
  then have "\<bar>dval (dec_fix prec (Dec c e')) - dval a / dval b\<bar> \<le> 10 powi (e + 3)"
    using fix_err ok pos by linarith
  then show ?thesis using res ok dec_fix_nonneg [of "Dec c e'"] by auto
qed

lemma dec_rescale_error:
  assumes "0 \<le> coef d"
  shows "\<bar>dval (dec_rescale e d) - dval d\<bar> \<le> 10 powi e / 2"
proof (cases "e \<le> dexp d")
  case True
  then have "dval (dec_rescale e d) = dval d" using dval_coef_at [OF True] by (simp add: dec_rescale_def)
  then show ?thesis by (simp add: less_imp_le)
next
  case False
  define n where "n = nat (e - dexp d)"
  define c where "c = round_div (coef d) (10 ^ n)"
  have r: "dec_rescale e d = Dec c e" using False by (simp add: dec_rescale_def c_def n_def)
  have e: "e = dexp d + int n" using False by (simp add: n_def)
  have "2 * \<bar>coef d - 10 ^ n * c\<bar> \<le> 10 ^ n" unfolding c_def by (rule round_div_error) simp
  then have "(of_int (2 * \<bar>coef d - 10 ^ n * c\<bar>)::rat) \<le> of_int (10 ^ n)" by (simp only: of_int_le_iff)
  then have err: "\<bar>of_int (coef d) - 10 ^ n * of_int c\<bar> \<le> (10::rat) ^ n / 2" by simp
  have "dval (Dec c e) - dval d = (10 ^ n * of_int c - of_int (coef d)) * 10 powi dexp d"
    unfolding e by (simp add: dval_powi powi_add10 algebra_simps)
  then have "\<bar>dval (Dec c e) - dval d\<bar> = \<bar>of_int (coef d) - 10 ^ n * of_int c\<bar> * 10 powi dexp d"
    by (simp add: abs_mult abs_minus_commute)
  also have "\<dots> \<le> 10 ^ n / 2 * 10 powi dexp d"
    using err by (intro mult_right_mono) (simp_all add: less_imp_le)
  finally show ?thesis unfolding r by (simp add: e powi_add10 algebra_simps)
qed

lemma dec_rescale_nonneg: "0 \<le> coef d \<Longrightarrow> 0 \<le> coef (dec_rescale e d)"
  by (simp add: dec_rescale_def coef_at_nonneg round_div_nonneg)

lemma dec_rescale_exp [simp]: "dexp (dec_rescale e d) = e"
  by (simp add: dec_rescale_def)

text \<open>\<open>quantize\<close> succeeds while the result has at most \<open>prec\<close> digits.\<close>

lemma dec_quantize_error:
  assumes "0 < prec" "0 \<le> coef d" "dval d + 10 powi e / 2 < 10 ^ prec * 10 powi e"
  shows "\<exists>r. dec_quantize prec e d = Some r \<and> dexp r = e \<and> 0 \<le> coef r
    \<and> \<bar>dval r - dval d\<bar> \<le> 10 powi e / 2"
proof -
  let ?r = "dec_rescale e d"
  have "dval ?r < 10 ^ prec * 10 powi e" using dec_rescale_error [OF assms(2), of e] assms(3) by linarith
  then have "of_int (coef ?r) < (10::rat) ^ prec" by (simp add: dval_powi mult_less_cancel_right)
  then have "coef ?r < 10 ^ prec" by (metis of_int_less_iff of_int_numeral of_int_power)
  then have "ndigits (nat \<bar>coef ?r\<bar>) \<le> prec"
    using assms dec_rescale_nonneg [OF assms(2), of e] by (simp add: ndigits_le_iff nat_less_iff)
  then show ?thesis
    using dec_rescale_error [OF assms(2), of e] dec_rescale_nonneg [OF assms(2), of e]
    by (simp add: dec_quantize_def Let_def)
qed

text \<open>A sum that had to be rounded is at least \<open>10^prec\<close> units of its exponent.\<close>

lemma round_div_lower:
  assumes "0 < b" "m * b \<le> a"
  shows "m \<le> round_div a b"
proof -
  have "m \<le> a div b" using assms div_less_of [of b a "m"] zdiv_mono1 [of "m * b" a b] by simp
  then show ?thesis by (auto simp: round_div_def Let_def)
qed

lemma dec_fix_large:
  assumes "0 < prec" "0 \<le> coef d" "prec < ndigits (nat (coef d))"
  shows "10 ^ prec * 10 powi dexp d \<le> dval (dec_fix prec d)"
proof -
  define n where "n = ndigits (nat (coef d)) - prec"
  define c where "c = round_div (coef d) (10 ^ n)"
  have nk: "ndigits (nat (coef d)) - 1 = (prec - 1) + n" "0 < n" using assms by (simp_all add: n_def)
  have pos: "0 < coef d" using assms by (cases "coef d = 0") (auto simp: ndigits.simps)
  then have "10 ^ (ndigits (nat (coef d)) - 1) \<le> nat (coef d)" by (intro ndigits_lower) simp
  then have "10 ^ ((prec - 1) + n) \<le> coef d" using pos nk by (simp add: le_nat_iff)
  then have c_ge: "10 ^ (prec - 1) \<le> c"
    unfolding c_def by (intro round_div_lower) (simp_all add: power_add)
  have c0: "0 \<le> c" using c_ge by (meson order_trans zero_le_numeral zero_le_power)
  have key: "10 ^ prec * 10 powi dexp d \<le> of_int c * (10 ^ n * (10::rat) powi dexp d)"
  proof -
    have p: "prec \<le> prec - 1 + n" using assms(1) nk(2) by linarith
    have "(10::rat) ^ prec \<le> 10 ^ (prec - 1 + n)" by (rule power_increasing [OF p]) simp
    moreover have "(10::rat) ^ (prec - 1) * 10 ^ n \<le> of_int c * 10 ^ n"
    proof (rule mult_right_mono)
      show "(10::rat) ^ (prec - 1) \<le> of_int c"
        using c_ge of_int_le_iff [of "10 ^ (prec - 1)" c, where ?'a = rat] by simp
    qed simp
    ultimately have "(10::rat) ^ prec \<le> of_int c * 10 ^ n" unfolding power_add by (rule order_trans)
    then have "(10::rat) ^ prec * 10 powi dexp d \<le> (of_int c * 10 ^ n) * 10 powi dexp d"
      by (rule mult_right_mono) (simp add: less_imp_le)
    then show ?thesis by (simp only: mult.assoc)
  qed
  show ?thesis
  proof (cases "prec < ndigits (nat c)")
    case True
    have e: "dec_fix prec d = Dec (c div 10) (dexp d + int n + 1)"
      using True assms c0 by (simp add: dec_fix_def Let_def n_def [symmetric] c_def [symmetric])
    have "\<not> nat c < 10 ^ prec" using ndigits_le_iff [OF assms(1), of "nat c"] True by simp
    then have "10 ^ prec \<le> c" using c0 by (simp add: nat_less_iff)
    then have "10 ^ (prec - 1) \<le> c div 10"
      using assms(1) zdiv_mono1 [of "10 ^ prec" c 10] by (cases prec) simp_all
    then have "(10::rat) ^ (prec - 1) \<le> of_int (c div 10)"
      using of_int_le_iff [of "10 ^ (prec - 1)" "c div 10", where ?'a = rat] by simp
    then have "(10::rat) ^ (prec - 1) * (10 powi (dexp d + int n + 1)) \<le> dval (dec_fix prec d)"
      unfolding e by (simp only: dval_powi dec.sel) (intro mult_right_mono, simp_all add: less_imp_le)
    moreover have "(10::rat) ^ prec * 10 powi dexp d \<le> 10 ^ (prec - 1) * (10 powi (dexp d + int n + 1))"
    proof -
      have "(10::rat) ^ prec = 10 ^ (prec - 1) * 10" using assms(1) by (cases prec) simp_all
      moreover have "(10::rat) * 10 powi dexp d \<le> 10 powi (dexp d + int n + 1)"
        using powi_mono10 [of "dexp d + 1" "dexp d + int n + 1"] by (simp add: powi_add10)
      ultimately show ?thesis by (simp add: mult.assoc)
    qed
    ultimately show ?thesis by linarith
  next
    case False
    have e: "dec_fix prec d = Dec c (dexp d + int n)"
      using False assms c0 by (simp add: dec_fix_def Let_def n_def [symmetric] c_def [symmetric])
    show ?thesis unfolding e using key by (simp add: dval_powi powi_add10 algebra_simps)
  qed
qed

lemma dec_sum_nonneg: "0 \<le> coef a \<Longrightarrow> 0 \<le> coef b \<Longrightarrow> 0 \<le> coef (dec_sum a b)"
  by (simp add: dec_sum_def Let_def coef_at_nonneg)

text \<open>So a comparison against a smaller bound cannot be decided wrongly by rounding down.\<close>

lemma dec_add_le_exact:
  assumes "0 < prec" "0 \<le> coef a" "0 \<le> coef b" "dec_le (dec_add prec a b) l"
    and small: "dval l < 10 ^ prec * 10 powi (min (dexp a) (dexp b))"
  shows "dval a + dval b \<le> dval l"
proof (cases "prec < ndigits (nat (coef (dec_sum a b)))")
  case True
  have "10 ^ prec * 10 powi dexp (dec_sum a b) \<le> dval (dec_fix prec (dec_sum a b))"
    using dec_fix_large [OF assms(1) dec_sum_nonneg [OF assms(2,3)] True] .
  then have "10 ^ prec * 10 powi dexp (dec_sum a b) \<le> dval l"
    using assms(4) by (simp add: dec_le_iff dec_add_def)
  then show ?thesis using small by (simp add: dec_sum_def Let_def)
next
  case False
  then have "dec_fix prec (dec_sum a b) = dec_sum a b"
    using dec_sum_nonneg [OF assms(2,3)] by (simp add: dec_fix_def Let_def)
  then show ?thesis using assms(4) by (simp add: dec_le_iff dec_add_def dval_sum)
qed

end
