(* ===== verification/Cost.thy ===== *)
theory Cost
  imports Usage Settings DecimalRounding
begin

text \<open>
  Configured pricing, the estimated cost of an invocation and the daily cost budget of a tenant:
  \<open>domain/cost.py\<close>, \<open>domain/cost_budget.py\<close>, the adapters \<open>infrastructure/pricing.py\<close> and
  \<open>infrastructure/cost_budget.py\<close>. Amounts are decimals with the precision of the context each
  operation runs in: 50 digits inside \<open>attribute_cost\<close>, 28 elsewhere.
\<close>

definition default_prec :: nat where "default_prec = 28"
definition attribution_prec :: nat where "attribution_prec = 50"
definition quantum_exp :: int where "quantum_exp = -12"

definition usd :: pystr where "usd = lit ''USD''"

lemma usd_eq: "usd = [85, 83, 68]"
  by (simp add: usd_def lit_simps)

subsection \<open>Values\<close>

record pricing =
  ps_provider :: pystr
  ps_reference :: pystr
  ps_version :: pystr
  ps_basis_units :: int
  ps_input_rate :: dec
  ps_output_rate :: dec
  ps_currency :: pystr

definition pricing_init :: "pricing \<Rightarrow> exc + pricing" where
  "pricing_init p = checked
     [(py_strip (ps_provider p) = [] \<or> py_strip (ps_reference p) = [],
         ValueError ''Pricing provider and model reference must not be empty.''),
      (py_strip (ps_version p) = [] \<or> 255 < length (ps_version p),
         ValueError ''Pricing version must be between 1 and 255 characters.''),
      (ps_currency p \<noteq> usd, ValueError ''Only USD pricing is supported.''),
      (ps_basis_units p \<le> 0 \<or> dec_less (ps_input_rate p) dec_zero \<or> dec_less (ps_output_rate p) dec_zero,
         ValueError ''Pricing basis must be positive and rates non-negative.'')] p"

record cost =
  co_currency :: pystr
  co_input :: dec
  co_output :: dec
  co_total :: dec
  co_version :: pystr
  co_basis_units :: int
  co_input_rate :: dec
  co_output_rate :: dec

definition cost_init :: "cost \<Rightarrow> exc + cost" where
  "cost_init c = checked
     [(co_currency c \<noteq> usd, ValueError ''Only USD cost attribution is supported.''),
      (dec_less (co_input c) dec_zero \<or> dec_less (co_output c) dec_zero \<or> dec_less (co_total c) dec_zero,
         ValueError ''Attributed costs must not be negative.''),
      (\<not> dec_eq (co_total c) (dec_add default_prec (co_input c) (co_output c)),
         ValueError ''Attributed total cost must equal its components.'')] c"

definition cost_part :: "int \<Rightarrow> dec \<Rightarrow> int \<Rightarrow> exc + dec" where
  "cost_part units rate basis =
     (case dec_div attribution_prec (dec_mul attribution_prec (dec_of_int units) rate) (dec_of_int basis) of
        None \<Rightarrow> Inl DecimalInvalidOperation
      | Some q \<Rightarrow> (case dec_quantize attribution_prec quantum_exp q of
          None \<Rightarrow> Inl DecimalInvalidOperation | Some r \<Rightarrow> Inr r))"

definition attribute_cost :: "usage option \<Rightarrow> pricing option \<Rightarrow> exc + cost option" where
  "attribute_cost u p = (case (u, p) of
       (Some u', Some p') \<Rightarrow> (case (us_input u', us_output u') of
          (Some i, Some out) \<Rightarrow>
            and_then (cost_part i (ps_input_rate p') (ps_basis_units p')) (\<lambda>ic.
            and_then (cost_part out (ps_output_rate p') (ps_basis_units p')) (\<lambda>oc.
            map_sum id Some (cost_init
              \<lparr>co_currency = ps_currency p', co_input = ic, co_output = oc,
               co_total = dec_add default_prec ic oc, co_version = ps_version p',
               co_basis_units = ps_basis_units p', co_input_rate = ps_input_rate p',
               co_output_rate = ps_output_rate p'\<rparr>)))
        | _ \<Rightarrow> Inr None)
     | _ \<Rightarrow> Inr None)"

record cost_budget =
  tb_limit :: dec
  tb_allowance :: dec
  tb_currency :: pystr

definition cost_budget_init :: "cost_budget \<Rightarrow> exc + cost_budget" where
  "cost_budget_init b = checked
     [(tb_currency b \<noteq> usd, ValueError ''Only USD Tenant cost budgets are supported.''),
      (dec_le (tb_limit b) dec_zero \<or> dec_le (tb_allowance b) dec_zero \<or> dec_less (tb_limit b) (tb_allowance b),
         ValueError ''Tenant cost budget configuration is invalid.'')] b"

record cost_budget_decision =
  cb_allowed :: bool
  cb_attributed :: dec
  cb_budget :: dec
  cb_allowance :: dec
  cb_window :: window

definition decide_tenant_cost_budget :: "dec \<Rightarrow> cost_budget \<Rightarrow> window \<Rightarrow> exc + cost_budget_decision" where
  "decide_tenant_cost_budget attributed b w = checked
     [(dec_less attributed dec_zero, ValueError ''Attributed Tenant cost must not be negative.'')]
     \<lparr>cb_allowed = dec_le (dec_add default_prec attributed (tb_allowance b)) (tb_limit b),
      cb_attributed = attributed, cb_budget = tb_limit b, cb_allowance = tb_allowance b, cb_window = w\<rparr>"

subsection \<open>Adapters\<close>

definition ConfiguredInvocationPricing ::
  "pricing_entry list \<Rightarrow> exc + (pystr \<times> pystr \<Rightarrow> pricing option)" where
  "ConfiguredInvocationPricing es =
     and_then (map_res (\<lambda>e. map_sum id (Pair (pricing_key e)) (pricing_init
        \<lparr>ps_provider = pe_provider e, ps_reference = pe_reference e, ps_version = pe_version e,
         ps_basis_units = pe_basis_units e, ps_input_rate = pe_input_price e,
         ps_output_rate = pe_output_price e, ps_currency = pe_currency e\<rparr>)) es)
       (\<lambda>kvs. Inr (dict_of fst snd kvs))"

definition ConfiguredTenantCostBudgets :: "budget_entry list \<Rightarrow> exc + (uuid \<Rightarrow> cost_budget option)" where
  "ConfiguredTenantCostBudgets es =
     and_then (map_res (\<lambda>e. map_sum id (Pair (be_tenant_id e)) (cost_budget_init
        \<lparr>tb_limit = be_budget e, tb_allowance = be_allowance e, tb_currency = be_currency e\<rparr>)) es)
       (\<lambda>kvs. Inr (dict_of fst snd kvs))"

text \<open>The cost ledger: the exact sum of a \<open>NUMERIC\<close> column, in its units.\<close>

definition attributed_units :: "uuid \<Rightarrow> int \<Rightarrow> int \<Rightarrow> db \<Rightarrow> int" where
  "attributed_units t s e d = sum_list (map (\<lambda>r. the (ir_cost_total r))
     (filter (\<lambda>r. ir_tenant_id r = t \<and> in_window s e r \<and> ir_cost_total r \<noteq> None) (invocations d)))"

definition attributed_cost ::
  "request \<Rightarrow> nat \<Rightarrow> uuid \<Rightarrow> datetime \<Rightarrow> datetime \<Rightarrow> db \<Rightarrow> exc + dec" where
  "attributed_cost rq n t s e d = map_sum id (\<lambda>c. if c = 0 then dec_zero else from_numeric c)
     (translate_db_error TenantCostBudgetCheckUnavailable
        (read_db rq n (attributed_units t (instant s) (instant e)) d))"

subsection \<open>Lemmas\<close>

lemma dec_sign [simp]:
  "dec_less d dec_zero \<longleftrightarrow> coef d < 0" "dec_le d dec_zero \<longleftrightarrow> coef d \<le> 0"
proof -
  have pos: "0 < dval d \<longleftrightarrow> 0 < coef d" for d
    by (auto simp: dval_def zero_less_mult_iff zero_less_divide_iff)
  show "dec_less d dec_zero \<longleftrightarrow> coef d < 0"
    using dval_nonneg_iff [of d] by (auto simp: dec_less_iff not_le [symmetric])
  show "dec_le d dec_zero \<longleftrightarrow> coef d \<le> 0"
    using pos [of d] by (auto simp: dec_le_iff not_less [symmetric])
qed

lemma decide_cost_Inr_iff:
  "decide_tenant_cost_budget c b w = Inr x \<longleftrightarrow> 0 \<le> coef c
    \<and> x = \<lparr>cb_allowed = dec_le (dec_add default_prec c (tb_allowance b)) (tb_limit b),
      cb_attributed = c, cb_budget = tb_limit b, cb_allowance = tb_allowance b, cb_window = w\<rparr>"
  by (auto simp: decide_tenant_cost_budget_def)

text \<open>Below \<open>10^28\<close> units of the smaller exponent the sum is exact and the decision with it.\<close>

definition exact_sum :: "dec \<Rightarrow> dec \<Rightarrow> bool" where
  "exact_sum a b \<longleftrightarrow> \<bar>coef (dec_sum a b)\<bar> < 10 ^ 28"

lemma dec_add_default_exact: "exact_sum a b \<Longrightarrow> dval (dec_add default_prec a b) = dval a + dval b"
  using dec_add_exact [of default_prec a b] by (simp add: exact_sum_def default_prec_def)

lemma decide_cost_exact:
  assumes "exact_sum c (tb_allowance b)" "decide_tenant_cost_budget c b w = Inr x"
  shows "cb_allowed x \<longleftrightarrow> dval c + dval (tb_allowance b) \<le> dval (tb_limit b)"
  using assms by (auto simp: decide_cost_Inr_iff dec_le_iff dec_add_default_exact)

lemma attributed_cost_eq:
  "attributed_cost rq n t s e d = (if db_up rq n
     then Inr (let c = attributed_units t (instant s) (instant e) d in if c = 0 then dec_zero else from_numeric c)
     else Inl TenantCostBudgetCheckUnavailable)"
  by (simp add: attributed_cost_def Let_def)

lemma attributed_cost_val:
  "attributed_cost rq n t s e d = Inr c \<Longrightarrow>
     dval c = of_int (attributed_units t (instant s) (instant e) d) / 10 ^ 12"
  by (auto simp: attributed_cost_eq Let_def from_numeric_val split: if_splits)

definition row_cost :: "uuid \<Rightarrow> int \<Rightarrow> int \<Rightarrow> invocation_row \<Rightarrow> int" where
  "row_cost t s e r = (if ir_tenant_id r = t \<and> in_window s e r
     then (case ir_cost_total r of None \<Rightarrow> 0 | Some n \<Rightarrow> n) else 0)"

lemma attributed_units_append [simp]:
  "attributed_units t s e (d\<lparr>invocations := invocations d @ [r]\<rparr>) = attributed_units t s e d + row_cost t s e r"
  by (auto simp: attributed_units_def row_cost_def split: option.split)

lemma attributed_units_cong: "invocations d' = invocations d \<Longrightarrow> attributed_units t s e d' = attributed_units t s e d"
  by (simp add: attributed_units_def)

lemma cost_init_Inr_iff: "cost_init c = Inr c' \<longleftrightarrow> c' = c \<and> co_currency c = usd
    \<and> 0 \<le> coef (co_input c) \<and> 0 \<le> coef (co_output c) \<and> 0 \<le> coef (co_total c)
    \<and> dval (co_total c) = dval (dec_add default_prec (co_input c) (co_output c))"
  by (auto simp: cost_init_def dec_eq_iff)

lemma cost_part_quantized: "cost_part n rate basis = Inr c \<Longrightarrow> dexp c = -12"
  by (auto simp: cost_part_def quantum_exp_def dec_quantize_exp split: option.splits)

lemma attribute_cost_SomeD:
  assumes "attribute_cost u p = Inr (Some c)"
  shows "\<exists>u' p' i out. u = Some u' \<and> p = Some p' \<and> us_input u' = Some i \<and> us_output u' = Some out
    \<and> cost_part i (ps_input_rate p') (ps_basis_units p') = Inr (co_input c)
    \<and> cost_part out (ps_output_rate p') (ps_basis_units p') = Inr (co_output c)
    \<and> co_total c = dec_add default_prec (co_input c) (co_output c) \<and> cost_init c = Inr c
    \<and> co_version c = ps_version p' \<and> co_basis_units c = ps_basis_units p'
    \<and> co_input_rate c = ps_input_rate p' \<and> co_output_rate c = ps_output_rate p'
    \<and> co_currency c = ps_currency p'"
  using assms
  by (auto simp: attribute_cost_def and_then_Inr_iff cost_init_Inr_iff map_sum_Inr_iff
      split: option.splits)

lemma attribute_cost_None_iff:
  "attribute_cost u p = Inr None \<longleftrightarrow>
     u = None \<or> p = None \<or> us_input (the u) = None \<or> us_output (the u) = None"
  by (auto simp: attribute_cost_def and_then_Inr_iff map_sum_Inr_iff split: option.splits)

text \<open>The configured budgets of validated settings: exactly the entries.\<close>

lemma map_res_pair:
  assumes "\<forall>e \<in> set es. f e = Inr (g e)"
  shows "map_res (\<lambda>e. map_sum id (Pair (k e)) (f e)) es = Inr (map (\<lambda>e. (k e, g e)) es)"
  using assms by (intro map_res_all) simp

lemma configured_budgets:
  assumes "TenantBudgetSettings raw = Inr es"
  shows "\<exists>f. ConfiguredTenantCostBudgets es = Inr f
    \<and> (\<forall>t b. f t = Some b \<longleftrightarrow> (\<exists>e \<in> set es. be_tenant_id e = t
          \<and> b = \<lparr>tb_limit = be_budget e, tb_allowance = be_allowance e, tb_currency = usd\<rparr>))"
proof -
  let ?b = "\<lambda>e. \<lparr>tb_limit = be_budget e, tb_allowance = be_allowance e, tb_currency = be_currency e\<rparr>"
  have ok: "\<forall>e \<in> set es. budget_entry_ok e" and d: "distinct (map be_tenant_id es)"
    using TenantBudgetSettings_ok [OF assms] by simp_all
  have "\<forall>e \<in> set es. cost_budget_init (?b e) = Inr (?b e)"
    using ok by (auto simp: cost_budget_init_def budget_entry_ok_def usd_def dec_less_iff)
  then have c: "ConfiguredTenantCostBudgets es = Inr (dict_of fst snd (map (\<lambda>e. (be_tenant_id e, ?b e)) es))"
    by (simp add: ConfiguredTenantCostBudgets_def map_res_pair [where g = ?b])
  have "distinct (map fst (map (\<lambda>e. (be_tenant_id e, ?b e)) es))" using d by (simp add: o_def)
  note dict = dict_of_distinct [OF this, where val = snd]
  show ?thesis
  proof (intro exI conjI allI, rule c)
    fix t b
    show "dict_of fst snd (map (\<lambda>e. (be_tenant_id e, ?b e)) es) t = Some b \<longleftrightarrow> (\<exists>e \<in> set es. be_tenant_id e = t
        \<and> b = \<lparr>tb_limit = be_budget e, tb_allowance = be_allowance e, tb_currency = usd\<rparr>)"
      unfolding dict using ok by (auto simp: budget_entry_ok_def usd_def)
  qed
qed

subsection \<open>Accuracy of an attributed cost\<close>

text \<open>
  The rates settings accept, below a million with at most 30 decimals written, and any token
  count of at most ten digits: the product is exact, the quotient has 50 digits, and the result
  is within half a quantum of the exact amount, up to \<open>10^-33\<close> from the double rounding.
\<close>

definition rate_ok :: "dec \<Rightarrow> bool" where
  "rate_ok r \<longleftrightarrow> 0 \<le> coef r \<and> dval r < 10 ^ 6 \<and> -30 \<le> dexp r"

lemma rate_coef: "rate_ok r \<Longrightarrow> coef r < 10 ^ 36"
proof -
  assume r: "rate_ok r"
  have "of_int (coef r) = dval r * 10 powi (- dexp r)"
    by (simp add: dval_powi power_int_minus)
  also have "\<dots> \<le> dval r * 10 powi 30"
    using r powi_mono10 [of "- dexp r" 30] dval_nonneg_iff [of r]
    by (intro mult_left_mono) (simp_all add: rate_ok_def)
  also have "\<dots> < 10 ^ 6 * 10 powi 30" using r by (intro mult_strict_right_mono) (simp_all add: rate_ok_def)
  finally have "of_int (coef r) < (of_int (10 ^ 36) :: rat)" by simp
  then show ?thesis by (simp only: of_int_less_iff)
qed

lemma cost_product:
  assumes "0 \<le> n" "n < 10 ^ 10" "rate_ok rate"
  shows "dec_mul attribution_prec (dec_of_int n) rate = Dec (n * coef rate) (dexp rate)"
proof -
  have "n * coef rate < 10 ^ 10 * 10 ^ 36"
    using assms rate_coef [OF assms(3)] by (intro mult_strict_mono') (simp_all add: rate_ok_def)
  then show ?thesis using assms
    by (simp add: dec_mul_def dec_of_int_def attribution_prec_def dec_fix_id rate_ok_def)
qed

lemma cost_part_accurate:
  assumes n: "0 \<le> n" "n < 10 ^ 10" and r: "rate_ok rate" and b: "0 < basis"
  shows "\<exists>c. cost_part n rate basis = Inr c \<and> dexp c = -12 \<and> 0 \<le> coef c
    \<and> \<bar>dval c - of_int n * dval rate / of_int basis\<bar> \<le> 1 / 2 / 10 ^ 12 + 1 / 10 ^ 33"
proof -
  let ?a = "Dec (n * coef rate) (dexp rate)"
  define x where "x = of_int n * dval rate / (of_int basis :: rat)"
  have rate0: "0 \<le> dval rate" "dval rate < 10 ^ 6" using r dval_nonneg_iff [of rate] by (simp_all add: rate_ok_def)
  have av: "dval ?a = of_int n * dval rate" by (simp add: dval_powi)
  have ab: "dval ?a < 10 ^ 16"
  proof -
    have "of_int n < (10::rat) ^ 10" using n(2) of_int_less_iff [of n "10 ^ 10", where ?'a = rat] by simp
    then have "of_int n * dval rate < 10 ^ 10 * 10 ^ 6"
      using rate0 n(1) by (intro mult_strict_mono') simp_all
    then show ?thesis using av by simp
  qed
  have x0: "0 \<le> x" "x \<le> 10 ^ 16"
  proof -
    show "0 \<le> x" using n b rate0 by (simp add: x_def)
    have "of_int n * dval rate / of_int basis \<le> of_int n * dval rate / (1::rat)"
      using n b rate0 by (intro divide_left_mono) simp_all
    then have "x \<le> dval ?a" using av by (simp add: x_def)
    then show "x \<le> 10 ^ 16" using ab by linarith
  qed
  have "\<exists>q. dec_div attribution_prec ?a (dec_of_int basis) = Some q \<and> 0 \<le> coef q
      \<and> \<bar>dval q - x\<bar> \<le> 1 / 10 ^ 33"
  proof (cases "n * coef rate = 0")
    case True
    then have "x = 0" using av by (simp add: x_def dval_powi)
    then show ?thesis using True b
      by (intro exI [of _ "Dec 0 (dexp rate)"]) (simp add: dec_div_def dec_of_int_def)
  next
    case False
    then have pos: "0 < n * coef rate" using n r by (simp add: rate_ok_def less_le)
    let ?dm = "ndigits (nat (n * coef rate))" and ?dn = "ndigits (nat basis)"
    define e where "e = dexp rate - 0 - (int ?dn - int ?dm + int attribution_prec + 1)"
    obtain q where q: "dec_div attribution_prec ?a (dec_of_int basis) = Some q" "0 \<le> coef q"
        "\<bar>dval q - dval ?a / dval (dec_of_int basis)\<bar> \<le> 10 powi (e + 3)"
      using dec_div_error [of ?a "dec_of_int basis" attribution_prec e] pos b
      by (auto simp: dec_of_int_def attribution_prec_def e_def)
    have "10 ^ (?dm - 1) \<le> nat (n * coef rate)" using pos by (intro ndigits_lower) simp
    then have "10 ^ (?dm - 1) \<le> n * coef rate" using pos by (simp add: le_nat_iff)
    then have "(10::rat) ^ (?dm - 1) \<le> of_int (n * coef rate)"
      using of_int_le_iff [of "10 ^ (?dm - 1)" "n * coef rate", where ?'a = rat] by simp
    then have "(10::rat) ^ (?dm - 1) * 10 powi dexp rate \<le> dval ?a"
      by (simp only: dval_powi dec.sel) (intro mult_right_mono, simp_all add: less_imp_le)
    then have lt: "(10::rat) powi (int (?dm - 1) + dexp rate) < 10 powi 16"
      using ab by (simp add: powi_add10)
    have "int (?dm - 1) + dexp rate < 16"
    proof (rule ccontr)
      assume "\<not> int (?dm - 1) + dexp rate < 16"
      then have "(10::rat) powi 16 \<le> 10 powi (int (?dm - 1) + dexp rate)" by (intro powi_mono10) simp
      then show False using lt by simp
    qed
    moreover have "0 < ?dn" "0 < ?dm" by simp_all
    moreover have "e + 3 = dexp rate + int ?dm - int ?dn - 48" by (simp add: e_def attribution_prec_def)
    ultimately have "e + 3 \<le> -33" by linarith
    then have "(10::rat) powi (e + 3) \<le> 10 powi (-33)" by (rule powi_mono10)
    also have "\<dots> = 1 / 10 ^ 33" by (simp add: power_int_def power_one_over)
    finally have "(10::rat) powi (e + 3) \<le> 1 / 10 ^ 33" .
    moreover have "dval ?a / dval (dec_of_int basis) = x" by (simp only: av dval_of_int x_def)
    ultimately have "\<bar>dval q - x\<bar> \<le> 1 / 10 ^ 33" using q(3) by (simp only:)
    then show ?thesis using q by blast
  qed
  then obtain q where q: "dec_div attribution_prec ?a (dec_of_int basis) = Some q" "0 \<le> coef q"
      "\<bar>dval q - x\<bar> \<le> 1 / 10 ^ 33"
    by blast
  have "(10::rat) powi (-12) = 1 / 10 ^ 12" by (simp add: power_int_def power_one_over)
  have "(1::rat) / 10 ^ 33 \<le> 1" by simp
  then have "dval q \<le> 10 ^ 16 + 1" using q(3) x0 by linarith
  then have small: "dval q + 10 powi (-12) / 2 < 10 ^ 50 * 10 powi (-12)"
    using \<open>(10::rat) powi (-12) = 1 / 10 ^ 12\<close> by simp
  obtain c where c: "dec_quantize attribution_prec quantum_exp q = Some c" "dexp c = -12" "0 \<le> coef c"
      "\<bar>dval c - dval q\<bar> \<le> 10 powi (-12) / 2"
    using dec_quantize_error [of attribution_prec q "-12"] q(2) small
    by (auto simp: attribution_prec_def quantum_exp_def)
  have "\<bar>dval c - dval q\<bar> \<le> 1 / 2 / 10 ^ 12"
    using c(4) unfolding \<open>(10::rat) powi (-12) = 1 / 10 ^ 12\<close> by simp
  then have "\<bar>dval c - x\<bar> \<le> 1 / 2 / 10 ^ 12 + 1 / 10 ^ 33" using q(3) by linarith
  then show ?thesis
    using c q(1) cost_product [OF n r] by (simp add: cost_part_def x_def)
qed

end
