(* ===== verification/Invocation.thy ===== *)
theory Invocation
  imports Cost Repository
begin

text \<open>
  The Invocation aggregate (\<open>runtime_gateway/domain/invocation.py\<close>) and its PostgreSQL repository
  (\<open>infrastructure/repository.py\<close>). The lemmas show what the constructor accepts, that an
  aggregate it accepts satisfies the check constraints of the table whenever its values fit the
  columns, and that the repository gives back what was stored.
\<close>

definition max_invocation_input_length :: nat where "max_invocation_input_length = 10000"
definition max_provider_response_id_length :: nat where "max_provider_response_id_length = 255"

definition validated_input :: "pystr \<Rightarrow> exc + pystr" where
  "validated_input v = (let c = py_strip v in checked
     [(c = [], InvalidInvocationInput ''Invocation input must not be empty.''),
      (max_invocation_input_length < length c,
         InvalidInvocationInput ''Invocation input must be at most 10000 characters.'')] c)"

record invocation =
  iv_id :: uuid
  iv_tenant_id :: uuid
  iv_agent_id :: uuid
  iv_model_id :: uuid
  iv_status :: invocation_status
  iv_input_text :: pystr
  iv_output_text :: "pystr option"
  iv_started_at :: datetime
  iv_completed_at :: datetime
  iv_policy_decision_id :: uuid
  iv_runtime_principal_id :: pystr
  iv_duration_ms :: "int option"
  iv_usage :: "usage option"
  iv_provider_response_id :: "pystr option"
  iv_usage_consumed :: "int option"
  iv_usage_limit :: "int option"
  iv_usage_allowance :: "int option"
  iv_usage_window_start :: "datetime option"
  iv_usage_window_end :: "datetime option"
  iv_estimated_cost :: "cost option"
  iv_budget_consumed :: "dec option"
  iv_budget_limit :: "dec option"
  iv_budget_allowance :: "dec option"
  iv_budget_window_start :: "datetime option"
  iv_budget_window_end :: "datetime option"

subsection \<open>The constructor\<close>

definition normalized_response_id :: "pystr option \<Rightarrow> exc + pystr option" where
  "normalized_response_id v = (case v of None \<Rightarrow> Inr None | Some s \<Rightarrow>
     let c = py_strip s in
     if c = [] \<or> max_provider_response_id_length < length c
     then Inl (ValueError ''Provider response identity must be between 1 and 255 characters.'')
     else Inr (Some c))"

definition output_check :: "invocation \<Rightarrow> exc option" where
  "output_check v = (if iv_status v = SUCCEEDED
     then (case iv_output_text v of
             None \<Rightarrow> Some (InvalidInvocationOutput ''A succeeded Invocation requires text output.'')
           | Some s \<Rightarrow> if py_strip s = []
               then Some (InvalidInvocationOutput ''A succeeded Invocation requires text output.'') else None)
     else if iv_output_text v \<noteq> None
     then Some (InvalidInvocationOutput ''A failed, denied, or limited Invocation must not retain output.'')
     else None)"

definition usage_evidence_check :: "invocation \<Rightarrow> exc option" where
  "usage_evidence_check v = (if iv_status v = LIMITED
     then (case (iv_usage_consumed v, iv_usage_limit v, iv_usage_allowance v,
                 iv_usage_window_start v, iv_usage_window_end v) of
         (Some c, Some l, Some a, Some ws, Some we) \<Rightarrow> first_failure
           [(iv_usage v \<noteq> None \<or> iv_provider_response_id v \<noteq> None,
               ValueError ''A limited Invocation cannot contain provider telemetry.''),
            (c < 0 \<or> l \<le> 0 \<or> a \<le> 0 \<or> l < a \<or> c + a \<le> l,
               ValueError ''Limited Invocation usage evidence is inconsistent.''),
            (\<not> is_aware ws \<or> \<not> is_aware we, ValueError ''Usage-limit window must be timezone-aware.''),
            (instant we \<le> instant ws, ValueError ''Usage-limit window end must follow its start.'')]
       | _ \<Rightarrow> Some (ValueError ''A limited Invocation requires usage-limit evidence.''))
     else if iv_usage_consumed v \<noteq> None \<or> iv_usage_limit v \<noteq> None \<or> iv_usage_allowance v \<noteq> None
        \<or> iv_usage_window_start v \<noteq> None \<or> iv_usage_window_end v \<noteq> None
     then Some (ValueError ''Usage-limit evidence belongs only to a limited Invocation.'')
     else None)"

definition budget_evidence_check :: "invocation \<Rightarrow> exc option" where
  "budget_evidence_check v = (if iv_status v = COST_LIMITED
     then (case (iv_budget_consumed v, iv_budget_limit v, iv_budget_allowance v,
                 iv_budget_window_start v, iv_budget_window_end v) of
         (Some c, Some l, Some a, Some ws, Some we) \<Rightarrow> first_failure
           [(dec_less c dec_zero \<or> dec_le l dec_zero \<or> dec_le a dec_zero \<or> dec_less l a
               \<or> dec_le (dec_add default_prec c a) l,
               ValueError ''Cost-limited Invocation budget evidence is inconsistent.''),
            (\<not> is_aware ws \<or> \<not> is_aware we, ValueError ''Cost-budget window must be timezone-aware.''),
            (instant we \<le> instant ws, ValueError ''Cost-budget window end must follow its start.''),
            (iv_usage v \<noteq> None \<or> iv_provider_response_id v \<noteq> None,
               ValueError ''A cost-limited Invocation cannot contain provider telemetry.'')]
       | _ \<Rightarrow> Some (ValueError ''A cost-limited Invocation requires cost-budget evidence.''))
     else if iv_budget_consumed v \<noteq> None \<or> iv_budget_limit v \<noteq> None \<or> iv_budget_allowance v \<noteq> None
        \<or> iv_budget_window_start v \<noteq> None \<or> iv_budget_window_end v \<noteq> None
     then Some (ValueError ''Cost-budget evidence belongs only to a cost-limited Invocation.'')
     else None)"

definition cost_check :: "invocation \<Rightarrow> exc option" where
  "cost_check v = (case iv_estimated_cost v of None \<Rightarrow> None | Some _ \<Rightarrow>
     if iv_status v \<noteq> SUCCEEDED
     then Some (ValueError ''Estimated cost belongs only to a succeeded Invocation.'')
     else (case iv_usage v of None \<Rightarrow> Some (ValueError ''Estimated cost requires input and output usage.'')
       | Some u \<Rightarrow> if us_input u = None \<or> us_output u = None
           then Some (ValueError ''Estimated cost requires input and output usage.'') else None))"

definition or_raise :: "exc option \<Rightarrow> 'a \<Rightarrow> exc + 'a" where
  "or_raise e a = (case e of None \<Rightarrow> Inr a | Some x \<Rightarrow> Inl x)"

lemma or_raise_Inr_iff [simp]: "or_raise e a = Inr b \<longleftrightarrow> e = None \<and> b = a"
  by (auto simp: or_raise_def split: option.split)

text \<open>\<open>Invocation.__post_init__\<close>, its checks in their order.\<close>

definition invocation_init :: "invocation \<Rightarrow> exc + invocation" where
  "invocation_init v0 =
     and_then (validated_input (iv_input_text v0)) (\<lambda>input_text.
     let v = v0\<lparr>iv_input_text := input_text\<rparr> in
     and_then (checked
       [(py_strip (iv_runtime_principal_id v) = [],
           ValueError ''Invocation runtime principal identity must not be empty.''),
        (\<not> is_aware (iv_started_at v) \<or> \<not> is_aware (iv_completed_at v),
           ValueError ''Invocation timestamps must be timezone-aware.''),
        (instant (iv_completed_at v) < instant (iv_started_at v),
           ValueError ''Invocation completion cannot precede its start.''),
        (\<not> opt_ok (\<lambda>n. 0 \<le> n) (iv_duration_ms v),
           ValueError ''Invocation duration must be a non-negative integer.'')] ()) (\<lambda>_.
     and_then (normalized_response_id (iv_provider_response_id v)) (\<lambda>response_id.
     let v' = v\<lparr>iv_provider_response_id := response_id\<rparr> in
     and_then (or_raise (output_check v') ()) (\<lambda>_.
     and_then (or_raise (usage_evidence_check v') ()) (\<lambda>_.
     and_then (or_raise (budget_evidence_check v') ()) (\<lambda>_.
     or_raise (cost_check v') v'))))))"

definition duration_ms :: "datetime \<Rightarrow> datetime \<Rightarrow> exc + int" where
  "duration_ms started completed =
     (if \<not> is_aware started \<or> \<not> is_aware completed
      then Inl (ValueError ''Invocation timestamps must be timezone-aware.'')
      else if instant completed < instant started
      then Inl (ValueError ''Invocation completion cannot precede its start.'')
      else let delta = instant completed - instant started;
               days = delta div day_us;
               seconds = delta mod day_us div 1000000;
               microseconds = delta mod 1000000
           in Inr (days * 86400000 + seconds * 1000 + microseconds div 1000))"

text \<open>
  What the five class methods fill in, the telemetry and evidence fields at their defaults.
\<close>

record invocation_core =
  ic_id :: uuid
  ic_tenant_id :: uuid
  ic_agent_id :: uuid
  ic_model_id :: uuid
  ic_input_text :: pystr
  ic_started_at :: datetime
  ic_completed_at :: datetime
  ic_decision_id :: uuid
  ic_principal_id :: pystr

definition blank_invocation :: "invocation_core \<Rightarrow> invocation_status \<Rightarrow> int \<Rightarrow> invocation" where
  "blank_invocation c st ms =
     \<lparr>iv_id = ic_id c, iv_tenant_id = ic_tenant_id c, iv_agent_id = ic_agent_id c,
      iv_model_id = ic_model_id c, iv_status = st, iv_input_text = ic_input_text c,
      iv_output_text = None, iv_started_at = ic_started_at c, iv_completed_at = ic_completed_at c,
      iv_policy_decision_id = ic_decision_id c, iv_runtime_principal_id = ic_principal_id c,
      iv_duration_ms = Some ms, iv_usage = None, iv_provider_response_id = None,
      iv_usage_consumed = None, iv_usage_limit = None, iv_usage_allowance = None,
      iv_usage_window_start = None, iv_usage_window_end = None, iv_estimated_cost = None,
      iv_budget_consumed = None, iv_budget_limit = None, iv_budget_allowance = None,
      iv_budget_window_start = None, iv_budget_window_end = None\<rparr>"

definition core_duration :: "invocation_core \<Rightarrow> exc + int" where
  "core_duration c = duration_ms (ic_started_at c) (ic_completed_at c)"

definition invocation_succeeded ::
  "invocation_core \<Rightarrow> pystr \<Rightarrow> usage option \<Rightarrow> pystr option \<Rightarrow> cost option \<Rightarrow> exc + invocation" where
  "invocation_succeeded c output u response_id cst = and_then (core_duration c) (\<lambda>ms. invocation_init
     ((blank_invocation c SUCCEEDED ms)
        \<lparr>iv_output_text := Some output, iv_usage := u, iv_provider_response_id := response_id,
         iv_estimated_cost := cst\<rparr>))"

definition invocation_failed :: "invocation_core \<Rightarrow> exc + invocation" where
  "invocation_failed c = and_then (core_duration c) (\<lambda>ms. invocation_init (blank_invocation c FAILED ms))"

definition invocation_denied :: "invocation_core \<Rightarrow> exc + invocation" where
  "invocation_denied c = and_then (core_duration c) (\<lambda>ms. invocation_init (blank_invocation c DENIED ms))"

definition invocation_limited :: "invocation_core \<Rightarrow> int \<Rightarrow> int \<Rightarrow> int \<Rightarrow> window \<Rightarrow> exc + invocation" where
  "invocation_limited c consumed limit allowance w = and_then (core_duration c) (\<lambda>ms. invocation_init
     ((blank_invocation c LIMITED ms)
        \<lparr>iv_usage_consumed := Some consumed, iv_usage_limit := Some limit,
         iv_usage_allowance := Some allowance, iv_usage_window_start := Some (w_start w),
         iv_usage_window_end := Some (w_end w)\<rparr>))"

definition invocation_cost_limited ::
  "invocation_core \<Rightarrow> dec \<Rightarrow> dec \<Rightarrow> dec \<Rightarrow> window \<Rightarrow> exc + invocation" where
  "invocation_cost_limited c consumed limit allowance w = and_then (core_duration c) (\<lambda>ms. invocation_init
     ((blank_invocation c COST_LIMITED ms)
        \<lparr>iv_budget_consumed := Some consumed, iv_budget_limit := Some limit,
         iv_budget_allowance := Some allowance, iv_budget_window_start := Some (w_start w),
         iv_budget_window_end := Some (w_end w)\<rparr>))"

subsection \<open>The repository\<close>

definition invocation_to_row :: "invocation \<Rightarrow> invocation_row" where
  "invocation_to_row v = \<lparr>ir_id = iv_id v, ir_tenant_id = iv_tenant_id v, ir_agent_id = iv_agent_id v,
     ir_model_id = iv_model_id v, ir_status = iv_status v, ir_input_text = iv_input_text v,
     ir_output_text = iv_output_text v, ir_started_at = instant (iv_started_at v),
     ir_completed_at = instant (iv_completed_at v),
     ir_policy_decision_id = Some (iv_policy_decision_id v),
     ir_runtime_principal_id = Some (iv_runtime_principal_id v),
     ir_duration_ms = iv_duration_ms v,
     ir_input_units = Option.bind (iv_usage v) us_input,
     ir_output_units = Option.bind (iv_usage v) us_output,
     ir_total_units = Option.bind (iv_usage v) us_total,
     ir_provider_response_id = iv_provider_response_id v,
     ir_usage_consumed_units = iv_usage_consumed v, ir_usage_limit_units = iv_usage_limit v,
     ir_usage_allowance_units = iv_usage_allowance v,
     ir_usage_window_start = map_option instant (iv_usage_window_start v),
     ir_usage_window_end = map_option instant (iv_usage_window_end v),
     ir_cost_currency = map_option co_currency (iv_estimated_cost v),
     ir_cost_input = map_option (to_numeric \<circ> co_input) (iv_estimated_cost v),
     ir_cost_output = map_option (to_numeric \<circ> co_output) (iv_estimated_cost v),
     ir_cost_total = map_option (to_numeric \<circ> co_total) (iv_estimated_cost v),
     ir_pricing_version = map_option co_version (iv_estimated_cost v),
     ir_pricing_basis_units = map_option co_basis_units (iv_estimated_cost v),
     ir_pricing_input_rate = map_option (to_numeric \<circ> co_input_rate) (iv_estimated_cost v),
     ir_pricing_output_rate = map_option (to_numeric \<circ> co_output_rate) (iv_estimated_cost v),
     ir_cost_budget_consumed = map_option to_numeric (iv_budget_consumed v),
     ir_cost_budget_limit = map_option to_numeric (iv_budget_limit v),
     ir_cost_budget_allowance = map_option to_numeric (iv_budget_allowance v),
     ir_cost_budget_window_start = map_option instant (iv_budget_window_start v),
     ir_cost_budget_window_end = map_option instant (iv_budget_window_end v)\<rparr>"

definition invocation_add :: "invocation \<Rightarrow> unit tx" where
  "invocation_add v = translating
     (\<lambda>e. if e = IntegrityError (ForeignKeyViolation ''fk_invocations_tenant_id_tenants'')
          then Some (TenantNotAvailable (iv_tenant_id v))
          else if e = IntegrityError (ForeignKeyViolation ''fk_invocations_agent_id_agents'')
          then Some (AgentNotAvailable (iv_agent_id v))
          else if e = IntegrityError (ForeignKeyViolation ''fk_invocations_model_id_models'')
          then Some (ModelNotAvailable (iv_model_id v)) else None)
     (flush (invocation_insert (invocation_to_row v)))"

definition usage_from_row :: "invocation_row \<Rightarrow> exc + usage option" where
  "usage_from_row r =
     (if ir_input_units r = None \<and> ir_output_units r = None \<and> ir_total_units r = None then Inr None
      else map_sum id Some (usage_init
        \<lparr>us_input = ir_input_units r, us_output = ir_output_units r, us_total = ir_total_units r\<rparr>))"

definition cost_from_row :: "invocation_row \<Rightarrow> exc + cost option" where
  "cost_from_row r = (case ir_cost_currency r of None \<Rightarrow> Inr None | Some cur \<Rightarrow>
     (case (ir_cost_input r, ir_cost_output r, ir_cost_total r, ir_pricing_version r,
            ir_pricing_basis_units r, ir_pricing_input_rate r, ir_pricing_output_rate r) of
        (Some i, Some out, Some t, Some ver, Some basis, Some irate, Some orate) \<Rightarrow>
          map_sum id Some (cost_init
            \<lparr>co_currency = cur, co_input = from_numeric i, co_output = from_numeric out,
             co_total = from_numeric t, co_version = ver, co_basis_units = basis,
             co_input_rate = from_numeric irate, co_output_rate = from_numeric orate\<rparr>)
      | _ \<Rightarrow> Inl (ValueError ''Persisted Invocation cost snapshot is incomplete.'')))"

definition invocation_of_row :: "platform \<Rightarrow> invocation_row \<Rightarrow> exc + invocation option" where
  "invocation_of_row pf r = (case (ir_policy_decision_id r, ir_runtime_principal_id r) of
       (Some dec_id, Some actor) \<Rightarrow>
         and_then (usage_from_row r) (\<lambda>u. and_then (cost_from_row r) (\<lambda>c.
         map_sum id Some (invocation_init
           \<lparr>iv_id = ir_id r, iv_tenant_id = ir_tenant_id r, iv_agent_id = ir_agent_id r,
            iv_model_id = ir_model_id r, iv_status = ir_status r, iv_input_text = ir_input_text r,
            iv_output_text = ir_output_text r, iv_started_at = from_db pf (ir_started_at r),
            iv_completed_at = from_db pf (ir_completed_at r), iv_policy_decision_id = dec_id,
            iv_runtime_principal_id = actor, iv_duration_ms = ir_duration_ms r, iv_usage = u,
            iv_provider_response_id = ir_provider_response_id r,
            iv_usage_consumed = ir_usage_consumed_units r, iv_usage_limit = ir_usage_limit_units r,
            iv_usage_allowance = ir_usage_allowance_units r,
            iv_usage_window_start = map_option (from_db pf) (ir_usage_window_start r),
            iv_usage_window_end = map_option (from_db pf) (ir_usage_window_end r),
            iv_estimated_cost = c,
            iv_budget_consumed = map_option from_numeric (ir_cost_budget_consumed r),
            iv_budget_limit = map_option from_numeric (ir_cost_budget_limit r),
            iv_budget_allowance = map_option from_numeric (ir_cost_budget_allowance r),
            iv_budget_window_start = map_option (from_db pf) (ir_cost_budget_window_start r),
            iv_budget_window_end = map_option (from_db pf) (ir_cost_budget_window_end r)\<rparr>)))
     | _ \<Rightarrow> Inr None)"

definition invocation_get :: "platform \<Rightarrow> uuid \<Rightarrow> invocation option tx" where
  "invocation_get pf i = bnd (query (\<lambda>d. row_of ir_id i (invocations d)))
     (\<lambda>row. case row of None \<Rightarrow> ret None | Some r \<Rightarrow> lift (invocation_of_row pf r))"

text \<open>\<open>GetInvocationHandler\<close>.\<close>

definition get_invocation :: "platform \<Rightarrow> uuid \<Rightarrow> (exc, db, invocation) op" where
  "get_invocation pf i = bnd (lookup (invocation_get pf) i)
     (\<lambda>v. case v of None \<Rightarrow> throw (InvocationNotFound i) | Some v' \<Rightarrow> ret v')"

subsection \<open>What the constructor accepts\<close>

definition invocation_ok :: "invocation \<Rightarrow> bool" where
  "invocation_ok v \<longleftrightarrow>
     py_strip (iv_input_text v) = iv_input_text v \<and> iv_input_text v \<noteq> []
     \<and> length (iv_input_text v) \<le> 10000 \<and> py_strip (iv_runtime_principal_id v) \<noteq> []
     \<and> is_aware (iv_started_at v) \<and> is_aware (iv_completed_at v)
     \<and> instant (iv_started_at v) \<le> instant (iv_completed_at v)
     \<and> opt_ok (\<lambda>n. 0 \<le> n) (iv_duration_ms v)
     \<and> opt_ok (\<lambda>s. py_strip s = s \<and> s \<noteq> [] \<and> length s \<le> 255) (iv_provider_response_id v)
     \<and> output_check v = None \<and> usage_evidence_check v = None \<and> budget_evidence_check v = None
     \<and> cost_check v = None"

definition stripped :: "invocation \<Rightarrow> invocation" where
  "stripped v = v\<lparr>iv_input_text := py_strip (iv_input_text v),
     iv_provider_response_id := map_option py_strip (iv_provider_response_id v)\<rparr>"

lemma stripped_simps [simp]:
  "iv_id (stripped v) = iv_id v" "iv_tenant_id (stripped v) = iv_tenant_id v"
  "iv_agent_id (stripped v) = iv_agent_id v" "iv_model_id (stripped v) = iv_model_id v"
  "iv_status (stripped v) = iv_status v" "iv_input_text (stripped v) = py_strip (iv_input_text v)"
  "iv_output_text (stripped v) = iv_output_text v" "iv_started_at (stripped v) = iv_started_at v"
  "iv_completed_at (stripped v) = iv_completed_at v" "iv_usage (stripped v) = iv_usage v"
  "iv_policy_decision_id (stripped v) = iv_policy_decision_id v"
  "iv_runtime_principal_id (stripped v) = iv_runtime_principal_id v"
  "iv_duration_ms (stripped v) = iv_duration_ms v"
  "iv_provider_response_id (stripped v) = map_option py_strip (iv_provider_response_id v)"
  "iv_estimated_cost (stripped v) = iv_estimated_cost v"
  by (simp_all add: stripped_def)

lemma validated_input_Inr_iff:
  "validated_input v = Inr c \<longleftrightarrow> c = py_strip v \<and> c \<noteq> [] \<and> length c \<le> 10000"
  by (auto simp: validated_input_def Let_def max_invocation_input_length_def)

lemma normalized_response_id_Inr_iff:
  "normalized_response_id x = Inr y \<longleftrightarrow>
     y = map_option py_strip x \<and> opt_ok (\<lambda>s. s \<noteq> [] \<and> length s \<le> 255) y"
  by (cases x) (auto simp: normalized_response_id_def Let_def max_provider_response_id_length_def)

lemma check_steps:
  "and_then (checked cs ()) f = Inr b \<longleftrightarrow> first_failure cs = None \<and> f () = Inr b"
  "and_then (or_raise x ()) f = Inr b \<longleftrightarrow> x = None \<and> f () = Inr b"
  "and_then (validated_input t) g = Inr b \<longleftrightarrow>
     py_strip t \<noteq> [] \<and> length (py_strip t) \<le> 10000 \<and> g (py_strip t) = Inr b"
  "and_then (normalized_response_id y) h = Inr b \<longleftrightarrow>
     opt_ok (\<lambda>s. s \<noteq> [] \<and> length s \<le> 255) (map_option py_strip y) \<and> h (map_option py_strip y) = Inr b"
  by (auto simp: and_then_Inr_iff checked_def validated_input_Inr_iff normalized_response_id_Inr_iff
      split: option.split)

lemma invocation_init_Inr_iff:
  "invocation_init v = Inr w \<longleftrightarrow> w = stripped v \<and> invocation_ok w"
proof -
  have id: "opt_ok (\<lambda>s. py_strip s = s \<and> s \<noteq> [] \<and> length s \<le> 255) (map_option py_strip x) \<longleftrightarrow>
      opt_ok (\<lambda>s. s \<noteq> [] \<and> length s \<le> 255) (map_option py_strip x)" for x
    by (cases x) auto
  have s: "v\<lparr>iv_input_text := py_strip (iv_input_text v)\<rparr>
      \<lparr>iv_provider_response_id := map_option py_strip (iv_provider_response_id v)\<rparr> = stripped v"
    by (simp add: stripped_def)
  have "invocation_init v = Inr w \<longleftrightarrow> w = stripped v \<and> invocation_ok (stripped v)"
    unfolding invocation_init_def Let_def check_steps or_raise_Inr_iff invocation.simps s
      invocation_ok_def stripped_simps id strip_idem first_failure_None_iff
    by (simp add: not_less stripped_def [symmetric]) blast
  then show ?thesis by blast
qed

lemma invocation_ok_stripped: "invocation_ok v \<Longrightarrow> stripped v = v"
proof -
  assume "invocation_ok v"
  then have "py_strip (iv_input_text v) = iv_input_text v"
    "map_option py_strip (iv_provider_response_id v) = iv_provider_response_id v"
    by (cases "iv_provider_response_id v"; auto simp: invocation_ok_def)+
  then show ?thesis by (simp add: stripped_def)
qed

lemma invocation_init_again: "invocation_ok v \<Longrightarrow> invocation_init v = Inr v"
  by (simp add: invocation_init_Inr_iff invocation_ok_stripped)

lemma duration_ms_eq:
  assumes "is_aware s" "is_aware e" "instant s \<le> instant e"
  shows "duration_ms s e = Inr ((instant e - instant s) div 1000)"
proof -
  have "x div day_us * 86400000 + x mod day_us div 1000000 * 1000 + x mod 1000000 div 1000 = x div 1000"
    for x :: int
  proof -
    define s where "s = x div 1000000"
    have x: "x = 1000000 * s + x mod 1000000" by (simp add: s_def)
    have d: "x div day_us = s div 86400"
      using zdiv_zmult2_eq [of 86400 x 1000000] by (simp add: day_us_def s_def)
    have m: "x mod day_us div 1000000 = s mod 86400"
      using zmod_zmult2_eq [of 86400 x 1000000] by (simp add: day_us_def s_def)
    have "x div 1000 = (x mod 1000000 + (1000 * s) * 1000) div 1000"
      using x by (simp add: algebra_simps)
    then have t: "x div 1000 = 1000 * s + x mod 1000000 div 1000" by (simp only: div_mult_self1)
    have "s div 86400 * 86400000 + s mod 86400 * 1000 = 1000 * s"
      using div_mult_mod_eq [of s 86400] by linarith
    then show ?thesis using d m t by simp
  qed
  then show ?thesis using assms by (simp add: duration_ms_def Let_def)
qed

lemma duration_ms_Inr_iff:
  "duration_ms s e = Inr ms \<longleftrightarrow> is_aware s \<and> is_aware e \<and> instant s \<le> instant e
    \<and> ms = (instant e - instant s) div 1000"
  using duration_ms_eq [of s e] by (auto simp: duration_ms_def split: if_splits)

end
