(* ===== verification/Responses.thy ===== *)
theory Responses
  imports Policy RuntimeIdentity MgmtAuth Invocation Reporting
begin

text \<open>
  The bodies of successful answers (\<open>*/presentation/*schemas.py\<close>): what of a domain value a
  client sees, and how. Amounts are printed with twelve decimal places; no body has a field for
  a credential's verifier, and the bearer token appears where a credential is issued only.
\<close>

subsection \<open>Amounts as text\<close>

text \<open>\<open>format(value, ".12f")\<close>: rounded half to even to the grid of the columns.\<close>

definition money_text :: "dec \<Rightarrow> pystr" where
  "money_text d = (let c = coef (dec_rescale (-12) d) in
     (if c < 0 then [45] else []) @ nat_str (nat (\<bar>c\<bar> div 10 ^ 12)) @ [46] @ dec_fixed 12 (\<bar>c\<bar> mod 10 ^ 12))"

subsection \<open>Tenants, assets and permissions\<close>

record tenant_response =
  tnr_id :: uuid
  tnr_name :: pystr
  tnr_created_at :: datetime

definition tenant_response_of :: "tenant \<Rightarrow> tenant_response" where
  "tenant_response_of t = \<lparr>tnr_id = ten_id t, tnr_name = name_value (ten_name t), tnr_created_at = ten_created_at t\<rparr>"

record agent_response =
  agr_id :: uuid
  agr_tenant_id :: uuid
  agr_name :: pystr
  agr_created_at :: datetime

definition agent_response_of :: "agent \<Rightarrow> agent_response" where
  "agent_response_of a = \<lparr>agr_id = ag_id a, agr_tenant_id = ag_tenant_id a, agr_name = name_value (ag_name a),
     agr_created_at = ag_created_at a\<rparr>"

record model_response =
  mor_id :: uuid
  mor_tenant_id :: uuid
  mor_name :: pystr
  mor_provider :: provider
  mor_reference :: pystr
  mor_created_at :: datetime

definition model_response_of :: "model \<Rightarrow> model_response" where
  "model_response_of m = \<lparr>mor_id = mo_id m, mor_tenant_id = mo_tenant_id m, mor_name = name_value (mo_name m),
     mor_provider = mo_provider m, mor_reference = mo_reference m, mor_created_at = mo_created_at m\<rparr>"

record permission_response =
  per_id :: uuid
  per_tenant_id :: uuid
  per_agent_id :: uuid
  per_model_id :: uuid
  per_effect :: policy_effect
  per_created_at :: datetime
  per_updated_at :: datetime

definition permission_response_of :: "permission \<Rightarrow> permission_response" where
  "permission_response_of p = \<lparr>per_id = am_id p, per_tenant_id = am_tenant_id p, per_agent_id = am_agent_id p,
     per_model_id = am_model_id p, per_effect = am_effect p, per_created_at = am_created_at p,
     per_updated_at = am_updated_at p\<rparr>"

subsection \<open>Audit records and authentication evidence\<close>

text \<open>The texts of the enumerations that answers show.\<close>

definition action_value :: "audit_action \<Rightarrow> string" where
  "action_value a = (case a of
       AGENT_MODEL_PERMISSION_SET \<Rightarrow> ''agent_model_permission_set''
     | MANAGEMENT_PRINCIPAL_CREATED \<Rightarrow> ''management_principal_created''
     | MANAGEMENT_CREDENTIAL_ISSUED \<Rightarrow> ''management_credential_issued''
     | MANAGEMENT_CREDENTIAL_REVOKED \<Rightarrow> ''management_credential_revoked''
     | MANAGEMENT_PRINCIPAL_DISABLED \<Rightarrow> ''management_principal_disabled''
     | MANAGEMENT_PRINCIPAL_SCOPES_SET \<Rightarrow> ''management_principal_scopes_set''
     | RUNTIME_PRINCIPAL_CREATED \<Rightarrow> ''runtime_principal_created''
     | RUNTIME_CREDENTIAL_ISSUED \<Rightarrow> ''runtime_credential_issued''
     | RUNTIME_CREDENTIAL_REVOKED \<Rightarrow> ''runtime_credential_revoked''
     | RUNTIME_PRINCIPAL_DISABLED \<Rightarrow> ''runtime_principal_disabled''
     | RUNTIME_PRINCIPAL_USAGE_LIMITS_INITIALIZED \<Rightarrow> ''runtime_principal_usage_limits_initialized''
     | RUNTIME_PRINCIPAL_IDENTITY_CONTINUITY_BOUND \<Rightarrow> ''runtime_principal_identity_continuity_bound'')"

definition resource_value :: "audit_resource \<Rightarrow> string" where
  "resource_value r = (case r of AGENT_MODEL_PERMISSION \<Rightarrow> ''agent_model_permission''
     | MANAGEMENT_PRINCIPAL \<Rightarrow> ''management_principal'' | MANAGEMENT_CREDENTIAL \<Rightarrow> ''management_credential''
     | RUNTIME_PRINCIPAL \<Rightarrow> ''runtime_principal'' | RUNTIME_CREDENTIAL \<Rightarrow> ''runtime_credential'')"

definition outcome_value :: "audit_outcome \<Rightarrow> string" where
  "outcome_value x = (case x of AuditSucceeded \<Rightarrow> ''succeeded'' | AuditFailed \<Rightarrow> ''failed'')"

definition auth_outcome_value :: "auth_outcome \<Rightarrow> string" where
  "auth_outcome_value x = (case x of AuthSucceeded \<Rightarrow> ''succeeded'' | CREDENTIAL_MISMATCH \<Rightarrow> ''credential_mismatch''
     | REVOKED \<Rightarrow> ''revoked'' | EXPIRED \<Rightarrow> ''expired'' | PRINCIPAL_DISABLED \<Rightarrow> ''principal_disabled'')"

record audit_response =
  adr_audit_id :: uuid
  adr_principal_id :: pystr
  adr_tenant_id :: "uuid option"
  adr_action :: string
  adr_resource_type :: string
  adr_resource_id :: uuid
  adr_outcome :: string
  adr_occurred_at :: datetime
  adr_before_fingerprint :: "pystr option"
  adr_after_fingerprint :: "pystr option"

definition audit_response_of :: "audit_record \<Rightarrow> audit_response" where
  "audit_response_of r = \<lparr>adr_audit_id = aud_audit_id r, adr_principal_id = aud_principal_id r,
     adr_tenant_id = aud_tenant_id r, adr_action = action_value (aud_action r),
     adr_resource_type = resource_value (aud_resource_type r), adr_resource_id = aud_resource_id r,
     adr_outcome = outcome_value (aud_outcome r), adr_occurred_at = aud_occurred_at r,
     adr_before_fingerprint = aud_before_fingerprint r, adr_after_fingerprint = aud_after_fingerprint r\<rparr>"

record evidence_response =
  evr_credential_id :: uuid
  evr_principal_id :: uuid
  evr_outcome :: string
  evr_bucket_started_at :: datetime
  evr_first_observed_at :: datetime

definition evidence_response_of :: "auth_evidence \<Rightarrow> evidence_response" where
  "evidence_response_of e = \<lparr>evr_credential_id = ae_credential_id e, evr_principal_id = ae_principal_id e,
     evr_outcome = auth_outcome_value (ae_outcome e), evr_bucket_started_at = ae_bucket_started_at e,
     evr_first_observed_at = ae_first_observed_at e\<rparr>"

subsection \<open>Management identity\<close>

record principal_response =
  prr_principal_id :: uuid
  prr_display_name :: pystr
  prr_tenant_ids :: "uuid set"
  prr_can_manage :: bool
  prr_created_at :: datetime
  prr_disabled_at :: "datetime option"

definition principal_response_of :: "mgmt_principal \<Rightarrow> principal_response" where
  "principal_response_of p = \<lparr>prr_principal_id = mpr_id p, prr_display_name = mpr_display_name p,
     prr_tenant_ids = mpr_tenant_ids p, prr_can_manage = mpr_can_manage p, prr_created_at = mpr_created_at p,
     prr_disabled_at = mpr_disabled_at p\<rparr>"

record credential_response =
  crr_credential_id :: uuid
  crr_principal_id :: uuid
  crr_label :: "pystr option"
  crr_created_at :: datetime
  crr_expires_at :: "datetime option"
  crr_revoked_at :: "datetime option"

definition credential_response_of :: "mgmt_credential \<Rightarrow> credential_response" where
  "credential_response_of c = \<lparr>crr_credential_id = mcr_id c, crr_principal_id = mcr_principal_id c,
     crr_label = mcr_label c, crr_created_at = mcr_created_at c, crr_expires_at = mcr_expires_at c,
     crr_revoked_at = mcr_revoked_at c\<rparr>"

record issued_response = credential_response +
  isr_bearer_token :: pystr

definition issued_response_of :: "mgmt_credential \<times> pystr \<Rightarrow> issued_response" where
  "issued_response_of issued = credential_response.extend (credential_response_of (fst issued))
     \<lparr>isr_bearer_token = snd issued\<rparr>"

text \<open>The inventories: their items are shown as they are, with the state as text.\<close>

definition state_value :: "inventory_state \<Rightarrow> string" where
  "state_value x = (case x of InvActive \<Rightarrow> ''active'' | InvExpired \<Rightarrow> ''expired'' | InvRevoked \<Rightarrow> ''revoked''
     | InvPrincipalDisabled \<Rightarrow> ''principal_disabled'')"

record inventory_response = credential_response +
  inr_usable :: bool
  inr_state :: string

definition inventory_response_of :: "credential_item \<Rightarrow> inventory_response" where
  "inventory_response_of i = \<lparr>crr_credential_id = it_credential_id i, crr_principal_id = it_principal_id i,
     crr_label = it_label i, crr_created_at = it_created_at i, crr_expires_at = it_expires_at i,
     crr_revoked_at = it_revoked_at i, inr_usable = it_usable i, inr_state = state_value (it_state i)\<rparr>"

record principal_item_response =
  pir_principal_id :: uuid
  pir_display_name :: pystr
  pir_created_at :: datetime
  pir_disabled_at :: "datetime option"
  pir_state :: string
  pir_can_manage :: bool
  pir_scope_count :: nat
  pir_credential_count :: nat
  pir_usable_count :: nat

definition principal_item_response_of :: "principal_item \<Rightarrow> principal_item_response" where
  "principal_item_response_of i = \<lparr>pir_principal_id = pit_principal_id i, pir_display_name = pit_display_name i,
     pir_created_at = pit_created_at i, pir_disabled_at = pit_disabled_at i,
     pir_state = (if pit_active i then ''active'' else ''disabled''), pir_can_manage = pit_can_manage i,
     pir_scope_count = pit_scope_count i, pir_credential_count = pit_credential_count i,
     pir_usable_count = pit_usable_count i\<rparr>"

subsection \<open>Runtime identity\<close>

record runtime_principal_response =
  rpp_principal_id :: uuid
  rpp_tenant_id :: uuid
  rpp_agent_id :: uuid
  rpp_created_at :: datetime
  rpp_disabled_at :: "datetime option"
  rpp_state :: string
  rpp_daily :: "int option"
  rpp_allowance :: "int option"
  rpp_cutover_ready :: bool
  rpp_legacy :: "pystr option"
  rpp_bound_at :: "datetime option"
  rpp_continuity_ready :: bool

definition runtime_state :: "runtime_principal \<Rightarrow> string" where
  "runtime_state p = (if runtime_is_active p then ''active'' else ''disabled'')"

definition runtime_principal_response_of :: "runtime_principal \<Rightarrow> bool \<Rightarrow> runtime_principal_response" where
  "runtime_principal_response_of p ready = \<lparr>rpp_principal_id = rpr_id p, rpp_tenant_id = rpr_tenant_id p,
     rpp_agent_id = rpr_agent_id p, rpp_created_at = rpr_created_at p, rpp_disabled_at = rpr_disabled_at p,
     rpp_state = runtime_state p, rpp_daily = rpr_daily p, rpp_allowance = rpr_allowance p,
     rpp_cutover_ready = ready, rpp_legacy = rpr_legacy p, rpp_bound_at = rpr_bound_at p,
     rpp_continuity_ready = identity_continuity_ready p\<rparr>"

definition runtime_credential_response_of :: "runtime_credential \<Rightarrow> credential_response" where
  "runtime_credential_response_of c = \<lparr>crr_credential_id = rcr_id c, crr_principal_id = rcr_principal_id c,
     crr_label = rcr_label c, crr_created_at = rcr_created_at c, crr_expires_at = rcr_expires_at c,
     crr_revoked_at = rcr_revoked_at c\<rparr>"

definition runtime_issued_response_of :: "runtime_credential \<times> pystr \<Rightarrow> issued_response" where
  "runtime_issued_response_of issued = credential_response.extend (runtime_credential_response_of (fst issued))
     \<lparr>isr_bearer_token = snd issued\<rparr>"

text \<open>\<open>RuntimeIdentityContinuityPreflightResponse\<close> has the fields of the preflight itself.\<close>

subsection \<open>Invocations\<close>

definition status_value :: "invocation_status \<Rightarrow> string" where
  "status_value x = (case x of SUCCEEDED \<Rightarrow> ''succeeded'' | FAILED \<Rightarrow> ''failed'' | DENIED \<Rightarrow> ''denied''
     | LIMITED \<Rightarrow> ''limited'' | COST_LIMITED \<Rightarrow> ''cost_limited'')"

record cost_response =
  cor_currency :: pystr
  cor_input :: pystr
  cor_output :: pystr
  cor_total :: pystr
  cor_version :: pystr

definition cost_response_of :: "cost \<Rightarrow> cost_response" where
  "cost_response_of c = \<lparr>cor_currency = co_currency c, cor_input = money_text (co_input c),
     cor_output = money_text (co_output c), cor_total = money_text (co_total c), cor_version = co_version c\<rparr>"

text \<open>\<open>InvocationUsageResponse\<close> has the fields of the usage itself.\<close>

record invocation_response =
  inv_invocation_id :: uuid
  inv_tenant_id :: uuid
  inv_agent_id :: uuid
  inv_model_id :: uuid
  inv_status :: string
  inv_input :: pystr
  inv_output :: "pystr option"
  inv_started_at :: datetime
  inv_completed_at :: datetime
  inv_policy_decision_id :: uuid
  inv_runtime_principal_id :: pystr
  inv_duration_ms :: "int option"
  inv_usage :: "usage option"
  inv_provider_response_id :: "pystr option"
  inv_usage_consumed :: "int option"
  inv_usage_limit :: "int option"
  inv_usage_allowance :: "int option"
  inv_usage_window_start :: "datetime option"
  inv_usage_window_end :: "datetime option"
  inv_estimated_cost :: "cost_response option"
  inv_budget_consumed :: "pystr option"
  inv_budget_limit :: "pystr option"
  inv_budget_allowance :: "pystr option"
  inv_budget_window_start :: "datetime option"
  inv_budget_window_end :: "datetime option"

definition invocation_response_of :: "invocation \<Rightarrow> invocation_response" where
  "invocation_response_of v = \<lparr>inv_invocation_id = iv_id v, inv_tenant_id = iv_tenant_id v,
     inv_agent_id = iv_agent_id v, inv_model_id = iv_model_id v, inv_status = status_value (iv_status v),
     inv_input = iv_input_text v, inv_output = iv_output_text v, inv_started_at = iv_started_at v,
     inv_completed_at = iv_completed_at v, inv_policy_decision_id = iv_policy_decision_id v,
     inv_runtime_principal_id = iv_runtime_principal_id v, inv_duration_ms = iv_duration_ms v,
     inv_usage = iv_usage v, inv_provider_response_id = iv_provider_response_id v,
     inv_usage_consumed = iv_usage_consumed v, inv_usage_limit = iv_usage_limit v,
     inv_usage_allowance = iv_usage_allowance v, inv_usage_window_start = iv_usage_window_start v,
     inv_usage_window_end = iv_usage_window_end v,
     inv_estimated_cost = map_option cost_response_of (iv_estimated_cost v),
     inv_budget_consumed = map_option money_text (iv_budget_consumed v),
     inv_budget_limit = map_option money_text (iv_budget_limit v),
     inv_budget_allowance = map_option money_text (iv_budget_allowance v),
     inv_budget_window_start = iv_budget_window_start v, inv_budget_window_end = iv_budget_window_end v\<rparr>"

subsection \<open>Reports\<close>

text \<open>The counts and the usage totals are shown as they are; amounts as text.\<close>

record cost_totals_response =
  ctr_currency :: pystr
  ctr_total :: pystr
  ctr_attributed :: nat
  ctr_unavailable :: nat

record breakdown_response =
  bdr_id :: uuid
  bdr_invocations :: nat
  bdr_total_units :: int
  bdr_usage_attributed :: nat
  bdr_usage_unavailable :: nat
  bdr_cost_total :: pystr
  bdr_cost_attributed :: nat
  bdr_cost_unavailable :: nat

record report_response =
  rer_tenant_id :: uuid
  rer_start :: datetime
  rer_end :: datetime
  rer_invocations :: invocation_counts
  rer_usage :: usage_totals
  rer_cost :: cost_totals_response
  rer_top_agents :: "breakdown_response list"
  rer_top_models :: "breakdown_response list"
  rer_agents_truncated :: bool
  rer_models_truncated :: bool

definition breakdown_response_of :: "cost_breakdown \<Rightarrow> breakdown_response" where
  "breakdown_response_of b = \<lparr>bdr_id = bd_id b, bdr_invocations = bd_invocations b,
     bdr_total_units = bd_total_units b, bdr_usage_attributed = bd_usage_attributed b,
     bdr_usage_unavailable = bd_usage_unavailable b, bdr_cost_total = money_text (bd_cost_total b),
     bdr_cost_attributed = bd_cost_attributed b, bdr_cost_unavailable = bd_cost_unavailable b\<rparr>"

definition report_response_of :: "runtime_report \<Rightarrow> report_response" where
  "report_response_of r = \<lparr>rer_tenant_id = rr_tenant_id r, rer_start = rr_start r, rer_end = rr_end r,
     rer_invocations = rr_invocations r, rer_usage = rr_usage r,
     rer_cost = \<lparr>ctr_currency = ct_currency (rr_cost r), ctr_total = money_text (ct_total (rr_cost r)),
       ctr_attributed = ct_attributed (rr_cost r), ctr_unavailable = ct_unavailable (rr_cost r)\<rparr>,
     rer_top_agents = map breakdown_response_of (rr_top_agents r),
     rer_top_models = map breakdown_response_of (rr_top_models r),
     rer_agents_truncated = rr_agents_truncated r, rer_models_truncated = rr_models_truncated r\<rparr>"

subsection \<open>Amounts can be read back\<close>

lemma dec_fixed_length [simp]: "length (dec_fixed k n) = k"
  by (induction k arbitrary: n) simp_all

lemma dec_fixed_inject: "dec_fixed k m = dec_fixed k n \<Longrightarrow> m mod 10 ^ k = n mod 10 ^ k"
proof (induction k arbitrary: m n)
  case (Suc k)
  have "dec_fixed k (m div 10) = dec_fixed k (n div 10)" "nat (m mod 10) = nat (n mod 10)"
    using Suc.prems by simp_all
  then have q: "(m div 10) mod 10 ^ k = (n div 10) mod 10 ^ k" and r: "m mod 10 = n mod 10"
    using Suc.IH by (blast, simp only: eq_nat_nat_iff pos_mod_sign zero_less_numeral)
  have "x mod 10 ^ Suc k = 10 * (x div 10 mod 10 ^ k) + x mod 10" for x :: int
    using zmod_zmult2_eq [of "10 ^ k" x 10] by (simp only: power_Suc) simp
  then show ?case using q r by simp
qed simp

fun digits_value :: "pystr \<Rightarrow> nat" where
  "digits_value s = foldl (\<lambda>v c. 10 * v + (c - 48)) 0 s"

lemma digits_value_nat_str: "digits_value (nat_str n) = n"
proof (induction n rule: nat_str.induct)
  case (1 n)
  show ?case
  proof (cases "n < 10")
    case True
    then show ?thesis by (subst nat_str.simps) simp
  next
    case False
    then show ?thesis using 1 by (subst nat_str.simps) simp
  qed
qed

lemma nat_str_digits: "c \<in> set (nat_str n) \<Longrightarrow> 48 \<le> c \<and> c \<le> 57"
proof (induction n rule: nat_str.induct)
  case (1 n)
  then show ?case by (cases "n < 10") (auto simp: nat_str.simps [of n])
qed

lemma nat_str_inject: "nat_str m = nat_str n \<Longrightarrow> m = n"
  by (metis digits_value_nat_str)

lemma money_text_units: "money_text (from_numeric n) =
    (if n < 0 then [45] else []) @ nat_str (nat (\<bar>n\<bar> div 10 ^ 12)) @ [46] @ dec_fixed 12 (\<bar>n\<bar> mod 10 ^ 12)"
  by (simp add: money_text_def from_numeric_def dec_rescale_def coef_at_def)

end
