(* ===== verification/InvocationStore.thy ===== *)
theory InvocationStore
  imports Invocation
begin

text \<open>
  Storing an Invocation: an aggregate the constructor accepted satisfies every check constraint
  of the table (\<open>runtime_gateway/infrastructure/models.py\<close>), so a write fails only on a key or on
  a value that does not fit its column, and reading back gives the aggregate with its times in
  the zone of the session and its amounts in column units.
\<close>

subsection \<open>Amounts on the column grid\<close>

definition on_grid :: "dec \<Rightarrow> bool" where
  "on_grid d \<longleftrightarrow> -12 \<le> dexp d \<or> coef d mod 10 ^ nat (-12 - dexp d) = 0"

lemma on_grid_numeric:
  assumes "on_grid d"
  shows "of_int (to_numeric d) = dval d * 10 ^ 12"
proof (cases "-12 \<le> dexp d")
  case True
  then show ?thesis by (rule to_numeric_val)
next
  case False
  define b :: int where "b = 10 ^ nat (-12 - dexp d)"
  have b: "0 < b" by (simp add: b_def)
  obtain k where k: "coef d = b * k" using assms False by (auto simp: on_grid_def b_def)
  have "(2 * \<bar>coef d\<bar> + b) div (2 * b) = (b + 2 * b * \<bar>k\<bar>) div (2 * b)"
    using b by (simp add: k abs_mult algebra_simps)
  also have "\<dots> = \<bar>k\<bar> + b div (2 * b)" using b by simp
  also have "b div (2 * b) = 0" using b by (simp add: div_pos_pos_trivial)
  finally have "to_numeric d = sgn (coef d) * \<bar>k\<bar>" using False by (simp add: to_numeric_def b_def [symmetric] Let_def)
  also have "\<dots> = k" using b by (simp add: k sgn_mult mult_sgn_abs)
  finally have n: "to_numeric d = k" .
  have e: "dexp d + int (nat (-12 - dexp d)) = -12" using False by simp
  have "dval d = of_int k * (10 powi int (nat (-12 - dexp d)) * 10 powi dexp d)"
    unfolding dval_powi k by (simp only: b_def power_int_of_nat of_int_mult of_int_power of_int_numeral) (simp add: mult_ac)
  also have "\<dots> = of_int k * 10 powi (-12)" unfolding powi_add10 [symmetric] using e by (simp add: add.commute)
  finally show ?thesis by (simp add: n power_int_def power_one_over)
qed

lemma on_grid_from: "on_grid d \<Longrightarrow> dval (from_numeric (to_numeric d)) = dval d"
  by (simp add: from_numeric_val on_grid_numeric)

lemma on_grid_exp12: "dexp d = -12 \<Longrightarrow> from_numeric (to_numeric d) = d"
  by (cases d) (simp add: to_numeric_def coef_at_def from_numeric_def)

lemma to_numeric_sign: "0 \<le> coef d \<Longrightarrow> 0 \<le> to_numeric d"
  by (auto simp: to_numeric_def coef_at_nonneg Let_def sgn_if intro!: div_int_pos_iff [THEN iffD2])

lemma exact_sum_from: "\<bar>a + b\<bar> < 10 ^ 28 \<Longrightarrow> exact_sum (from_numeric a) (from_numeric b)"
  by (simp add: exact_sum_def dec_sum_def from_numeric_def coef_at_def)

subsection \<open>Well-formed aggregates\<close>

text \<open>
  The conditions under which amounts survive the column format: cost parts are quantized to
  \<open>10^-12\<close> and their sum is exact, budget evidence lies on the grid and below \<open>10^28\<close> units.
\<close>

definition cost_wf :: "cost \<Rightarrow> bool" where
  "cost_wf c \<longleftrightarrow> cost_init c = Inr c \<and> dexp (co_input c) = -12 \<and> dexp (co_output c) = -12
     \<and> co_total c = dec_add default_prec (co_input c) (co_output c) \<and> exact_sum (co_input c) (co_output c)
     \<and> 0 < co_basis_units c \<and> 0 \<le> coef (co_input_rate c) \<and> 0 \<le> coef (co_output_rate c)"

definition budget_wf :: "invocation \<Rightarrow> bool" where
  "budget_wf v \<longleftrightarrow> (case (iv_budget_consumed v, iv_budget_limit v, iv_budget_allowance v) of
       (Some c, Some l, Some a) \<Rightarrow> on_grid c \<and> on_grid l \<and> on_grid a \<and> exact_sum c a
         \<and> \<bar>to_numeric c + to_numeric a\<bar> < 10 ^ 28
     | _ \<Rightarrow> True)"

definition invocation_wf :: "invocation \<Rightarrow> bool" where
  "invocation_wf v \<longleftrightarrow> invocation_ok v \<and> opt_ok usage_ok (iv_usage v) \<and> opt_ok cost_wf (iv_estimated_cost v)
     \<and> budget_wf v"

lemma exact_sum_dexp: "exact_sum a b \<Longrightarrow> dec_add default_prec a b = dec_sum a b"
  by (simp add: dec_add_def exact_sum_def default_prec_def dec_fix_id)

lemma cost_wf_total:
  assumes "cost_wf c"
  shows "dexp (co_total c) = -12" "to_numeric (co_total c) = to_numeric (co_input c) + to_numeric (co_output c)"
proof -
  have t: "co_total c = dec_sum (co_input c) (co_output c)" using assms by (simp add: cost_wf_def exact_sum_dexp)
  then show "dexp (co_total c) = -12" using assms by (simp add: cost_wf_def dec_sum_def Let_def)
  show "to_numeric (co_total c) = to_numeric (co_input c) + to_numeric (co_output c)"
    using assms t by (simp add: cost_wf_def dec_sum_def to_numeric_def coef_at_def Let_def)
qed

lemma budget_order:
  assumes "on_grid c" "on_grid l" "on_grid a" "exact_sum c a"
  shows "dec_le (dec_add default_prec c a) l \<longleftrightarrow> to_numeric c + to_numeric a \<le> to_numeric l"
    "dec_less l a \<longleftrightarrow> to_numeric l < to_numeric a"
proof -
  have g: "dval d = of_int (to_numeric d) / 10 ^ 12" if "on_grid d" for d
    using on_grid_numeric [OF that] by simp
  have "dval c + dval a \<le> dval l \<longleftrightarrow> of_int (to_numeric c + to_numeric a) \<le> (of_int (to_numeric l) :: rat)"
    unfolding g [OF assms(1)] g [OF assms(2)] g [OF assms(3)] add_divide_distrib [symmetric] divide_le_cancel
    by simp
  then show "dec_le (dec_add default_prec c a) l \<longleftrightarrow> to_numeric c + to_numeric a \<le> to_numeric l"
    using assms(4) by (simp only: dec_le_iff dec_add_default_exact of_int_le_iff)
  have "dval l < dval a \<longleftrightarrow> (of_int (to_numeric l) :: rat) < of_int (to_numeric a)"
    unfolding g [OF assms(2)] g [OF assms(3)] by (simp add: divide_less_cancel)
  then show "dec_less l a \<longleftrightarrow> to_numeric l < to_numeric a" by (simp only: dec_less_iff of_int_less_iff)
qed

lemma to_numeric_pos: "on_grid d \<Longrightarrow> 0 < coef d \<longleftrightarrow> 0 < to_numeric d"
proof -
  assume "on_grid d"
  then have v: "of_int (to_numeric d) = dval d * 10 ^ 12" by (rule on_grid_numeric)
  have "0 < coef d \<longleftrightarrow> 0 < dval d"
    using powi_pos10 [of "dexp d"] by (auto simp only: dval_powi zero_less_mult_iff of_int_0_less_iff)
  also have "\<dots> \<longleftrightarrow> (0::rat) < of_int (to_numeric d)" by (simp add: v)
  finally show ?thesis by simp
qed

subsection \<open>The check constraints\<close>

lemmas first_failure_simps = first_failure.simps

lemma usage_evidence_Limited:
  assumes "usage_evidence_check v = None" "iv_status v = LIMITED"
  shows "\<exists>c l a ws we. iv_usage_consumed v = Some c \<and> iv_usage_limit v = Some l \<and> iv_usage_allowance v = Some a
    \<and> iv_usage_window_start v = Some ws \<and> iv_usage_window_end v = Some we
    \<and> iv_usage v = None \<and> iv_provider_response_id v = None \<and> 0 \<le> c \<and> 0 < l \<and> 0 < a \<and> a \<le> l \<and> l < c + a
    \<and> is_aware ws \<and> is_aware we \<and> instant ws < instant we"
  using assms by (auto simp: usage_evidence_check_def not_less not_le split: option.splits if_splits)

lemma usage_evidence_other:
  assumes "usage_evidence_check v = None" "iv_status v \<noteq> LIMITED"
  shows "iv_usage_consumed v = None" "iv_usage_limit v = None" "iv_usage_allowance v = None"
    "iv_usage_window_start v = None" "iv_usage_window_end v = None"
  using assms by (auto simp: usage_evidence_check_def split: if_splits)

lemma budget_evidence_Limited:
  assumes "budget_evidence_check v = None" "iv_status v = COST_LIMITED"
  shows "\<exists>c l a ws we. iv_budget_consumed v = Some c \<and> iv_budget_limit v = Some l \<and> iv_budget_allowance v = Some a
    \<and> iv_budget_window_start v = Some ws \<and> iv_budget_window_end v = Some we
    \<and> iv_usage v = None \<and> iv_provider_response_id v = None \<and> 0 \<le> coef c \<and> 0 < coef l \<and> 0 < coef a
    \<and> \<not> dec_less l a \<and> \<not> dec_le (dec_add default_prec c a) l
    \<and> is_aware ws \<and> is_aware we \<and> instant ws < instant we"
  using assms by (auto simp: budget_evidence_check_def not_less not_le split: option.splits if_splits)

lemma budget_evidence_other:
  assumes "budget_evidence_check v = None" "iv_status v \<noteq> COST_LIMITED"
  shows "iv_budget_consumed v = None" "iv_budget_limit v = None" "iv_budget_allowance v = None"
    "iv_budget_window_start v = None" "iv_budget_window_end v = None"
  using assms by (auto simp: budget_evidence_check_def split: if_splits)

lemma cost_check_SomeD:
  assumes "cost_check v = None" "iv_estimated_cost v = Some c"
  shows "iv_status v = SUCCEEDED" "\<exists>u i out. iv_usage v = Some u \<and> us_input u = Some i \<and> us_output u = Some out"
  using assms by (auto simp: cost_check_def split: if_splits option.splits)

lemma cost_check_other: "cost_check v = None \<Longrightarrow> iv_status v \<noteq> SUCCEEDED \<Longrightarrow> iv_estimated_cost v = None"
  by (cases "iv_estimated_cost v") (auto dest: cost_check_SomeD(1))

lemma row_status_output:
  assumes "output_check v = None"
  shows "status_output_ok (invocation_to_row v)"
  using assms
  by (cases "iv_status v")
    (auto simp: output_check_def status_output_ok_def invocation_to_row_def split: if_splits option.splits)

lemma row_limited_evidence:
  assumes "usage_evidence_check v = None"
  shows "limited_evidence_ok (invocation_to_row v)"
proof (cases "iv_status v = LIMITED")
  case True
  then show ?thesis
    using usage_evidence_Limited [OF assms True] by (auto simp: limited_evidence_ok_def invocation_to_row_def)
next
  case False
  then show ?thesis
    using usage_evidence_other [OF assms False] by (simp add: limited_evidence_ok_def invocation_to_row_def)
qed

lemma row_cost_snapshot:
  assumes "opt_ok cost_wf (iv_estimated_cost v)"
  shows "cost_snapshot_ok (invocation_to_row v)"
proof (cases "iv_estimated_cost v")
  case None
  then show ?thesis by (simp add: cost_snapshot_ok_def invocation_to_row_def)
next
  case (Some c)
  then have "cost_wf c" using assms by simp
  moreover have "cost_wf c \<Longrightarrow> 0 \<le> coef (co_input c) \<and> 0 \<le> coef (co_output c) \<and> co_currency c = usd"
    by (simp add: cost_wf_def cost_init_Inr_iff)
  ultimately show ?thesis
    using Some cost_wf_total [of c]
    by (simp add: cost_snapshot_ok_def invocation_to_row_def to_numeric_sign usd_def cost_wf_def)
qed

lemma row_budget_evidence:
  assumes "budget_evidence_check v = None" "cost_check v = None" "budget_wf v"
  shows "cost_budget_evidence_ok (invocation_to_row v)"
proof (cases "iv_status v = COST_LIMITED")
  case True
  obtain c l a ws we where ev: "iv_budget_consumed v = Some c" "iv_budget_limit v = Some l"
    "iv_budget_allowance v = Some a" "iv_budget_window_start v = Some ws" "iv_budget_window_end v = Some we"
    "iv_usage v = None" "iv_provider_response_id v = None" "0 \<le> coef c" "0 < coef l" "0 < coef a"
    "\<not> dec_less l a" "\<not> dec_le (dec_add default_prec c a) l" "instant ws < instant we"
    using budget_evidence_Limited [OF assms(1) True] by blast
  have g: "on_grid c" "on_grid l" "on_grid a" "exact_sum c a"
    using assms(3) ev by (simp_all add: budget_wf_def)
  have "iv_estimated_cost v = None" using cost_check_other [OF assms(2)] True by simp
  then show ?thesis
    using ev True budget_order [OF g] to_numeric_pos [OF g(2)] to_numeric_pos [OF g(3)] to_numeric_sign [of c]
    by (simp add: cost_budget_evidence_ok_def invocation_to_row_def not_less not_le)
next
  case False
  then show ?thesis
    using budget_evidence_other [OF assms(1) False]
    by (simp add: cost_budget_evidence_ok_def invocation_to_row_def)
qed

lemma row_usage_signs:
  assumes "opt_ok usage_ok u"
  shows "opt_ok (\<lambda>v. 0 \<le> v) (Option.bind u us_input)" "opt_ok (\<lambda>v. 0 \<le> v) (Option.bind u us_output)"
    "opt_ok (\<lambda>v. 0 \<le> v) (Option.bind u us_total)"
  using assms by (cases u; simp add: usage_ok_def)+

lemma usage_evidence_signs:
  assumes "usage_evidence_check v = None"
  shows "opt_ok (\<lambda>n. 0 \<le> n) (iv_usage_consumed v)" "opt_ok (\<lambda>n. 0 < n) (iv_usage_limit v)"
    "opt_ok (\<lambda>n. 0 < n) (iv_usage_allowance v)"
  using usage_evidence_Limited [OF assms] usage_evidence_other [OF assms]
  by (cases "iv_status v = LIMITED"; auto)+

lemma invocation_row_checks:
  assumes "invocation_wf v"
  shows "invocation_checks_ok (invocation_to_row v)"
proof -
  have ok: "invocation_ok v" "opt_ok usage_ok (iv_usage v)" "opt_ok cost_wf (iv_estimated_cost v)" "budget_wf v"
    using assms by (simp_all add: invocation_wf_def)
  then have parts: "output_check v = None" "usage_evidence_check v = None" "budget_evidence_check v = None"
    "cost_check v = None" "opt_ok (\<lambda>n. 0 \<le> n) (iv_duration_ms v)"
    by (simp_all add: invocation_ok_def)
  show ?thesis
    unfolding invocation_checks_ok_def
    using row_status_output [OF parts(1)] row_limited_evidence [OF parts(2)] row_cost_snapshot [OF ok(3)]
      row_budget_evidence [OF parts(3,4) ok(4)] row_usage_signs [OF ok(2)] usage_evidence_signs [OF parts(2)] parts(5)
    by (simp add: invocation_to_row_def)
qed

subsection \<open>Reading back\<close>

definition usage_view :: "usage option \<Rightarrow> usage option" where
  "usage_view u = (case u of None \<Rightarrow> None | Some x \<Rightarrow>
     if us_input x = None \<and> us_output x = None \<and> us_total x = None then None else Some x)"

definition cost_view :: "cost \<Rightarrow> cost" where
  "cost_view c = c\<lparr>co_input_rate := from_numeric (to_numeric (co_input_rate c)),
     co_output_rate := from_numeric (to_numeric (co_output_rate c))\<rparr>"

definition in_session :: "platform \<Rightarrow> datetime \<Rightarrow> datetime" where
  "in_session pf t = from_db pf (instant t)"

lemma in_session_simps [simp]: "is_aware (in_session pf t)" "instant (in_session pf t) = instant t"
  by (simp_all add: in_session_def)

definition invocation_view :: "platform \<Rightarrow> invocation \<Rightarrow> invocation" where
  "invocation_view pf v = v\<lparr>iv_started_at := in_session pf (iv_started_at v),
     iv_completed_at := in_session pf (iv_completed_at v), iv_usage := usage_view (iv_usage v),
     iv_usage_window_start := map_option (in_session pf) (iv_usage_window_start v),
     iv_usage_window_end := map_option (in_session pf) (iv_usage_window_end v),
     iv_estimated_cost := map_option cost_view (iv_estimated_cost v),
     iv_budget_consumed := map_option (\<lambda>d. from_numeric (to_numeric d)) (iv_budget_consumed v),
     iv_budget_limit := map_option (\<lambda>d. from_numeric (to_numeric d)) (iv_budget_limit v),
     iv_budget_allowance := map_option (\<lambda>d. from_numeric (to_numeric d)) (iv_budget_allowance v),
     iv_budget_window_start := map_option (in_session pf) (iv_budget_window_start v),
     iv_budget_window_end := map_option (in_session pf) (iv_budget_window_end v)\<rparr>"

lemma usage_from_row_to_row:
  assumes "opt_ok usage_ok (iv_usage v)"
  shows "usage_from_row (invocation_to_row v) = Inr (usage_view (iv_usage v))"
proof (cases "iv_usage v")
  case (Some u)
  then show ?thesis using assms
    by (cases u) (auto simp: usage_from_row_def invocation_to_row_def usage_view_def usage_init_Inr_iff
        map_sum_Inr_iff)
qed (simp add: usage_from_row_def invocation_to_row_def usage_view_def)

lemma cost_from_row_to_row:
  assumes "opt_ok cost_wf (iv_estimated_cost v)"
  shows "cost_from_row (invocation_to_row v) = Inr (map_option cost_view (iv_estimated_cost v))"
proof (cases "iv_estimated_cost v")
  case (Some c)
  then have c: "cost_wf c" using assms by simp
  then have "cost_init (cost_view c) = Inr (cost_view c)"
    by (auto simp: cost_wf_def cost_init_Inr_iff cost_view_def)
  moreover have "dexp (co_input c) = -12" "dexp (co_output c) = -12" "dexp (co_total c) = -12"
    using c cost_wf_total(1) [OF c] by (simp_all add: cost_wf_def)
  ultimately show ?thesis using Some
    by (cases c) (simp add: cost_from_row_def invocation_to_row_def on_grid_exp12 cost_view_def)
qed (simp add: cost_from_row_def invocation_to_row_def)

lemma view_budget_evidence:
  assumes "budget_evidence_check v = None" "budget_wf v"
  shows "budget_evidence_check (invocation_view pf v) = None"
proof (cases "iv_status v = COST_LIMITED")
  case True
  obtain c l a ws we where ev: "iv_budget_consumed v = Some c" "iv_budget_limit v = Some l"
    "iv_budget_allowance v = Some a" "iv_budget_window_start v = Some ws" "iv_budget_window_end v = Some we"
    "iv_usage v = None" "iv_provider_response_id v = None" "0 \<le> coef c" "0 < coef l" "0 < coef a"
    "\<not> dec_less l a" "\<not> dec_le (dec_add default_prec c a) l" "instant ws < instant we"
    using budget_evidence_Limited [OF assms(1) True] by blast
  have g: "on_grid c" "on_grid l" "on_grid a" "exact_sum c a" "\<bar>to_numeric c + to_numeric a\<bar> < 10 ^ 28"
    using assms(2) ev by (simp_all add: budget_wf_def)
  have grid: "on_grid (from_numeric n)" for n by (simp add: on_grid_def from_numeric_def)
  note b = budget_order [OF g(1-4)] budget_order [OF grid grid grid exact_sum_from [OF g(5)], of "to_numeric l"]
  show ?thesis
    using ev True b to_numeric_pos [OF g(2)] to_numeric_pos [OF g(3)] to_numeric_sign [of c]
    by (simp add: budget_evidence_check_def invocation_view_def not_less not_le from_numeric_def [of "to_numeric _"]
        usage_view_def to_from_numeric [unfolded from_numeric_def])
next
  case False
  then show ?thesis
    using budget_evidence_other [OF assms(1) False] by (simp add: budget_evidence_check_def invocation_view_def)
qed

lemma view_usage_evidence:
  assumes "usage_evidence_check v = None"
  shows "usage_evidence_check (invocation_view pf v) = None"
proof (cases "iv_status v = LIMITED")
  case True
  then show ?thesis using usage_evidence_Limited [OF assms True]
    by (auto simp: usage_evidence_check_def invocation_view_def usage_view_def)
next
  case False
  then show ?thesis
    using usage_evidence_other [OF assms False] by (simp add: usage_evidence_check_def invocation_view_def)
qed

lemma view_cost_check:
  assumes "cost_check v = None"
  shows "cost_check (invocation_view pf v) = None"
proof (cases "iv_estimated_cost v")
  case (Some c)
  obtain u i out where "iv_usage v = Some u" "us_input u = Some i" "us_output u = Some out"
    using cost_check_SomeD(2) [OF assms Some] by blast
  then show ?thesis using Some cost_check_SomeD(1) [OF assms Some]
    by (simp add: cost_check_def invocation_view_def usage_view_def)
qed (simp add: cost_check_def invocation_view_def)

lemma view_ok:
  assumes "invocation_wf v"
  shows "invocation_ok (invocation_view pf v)"
proof -
  have ok: "invocation_ok v" "budget_wf v" using assms by (simp_all add: invocation_wf_def)
  then have parts: "usage_evidence_check v = None" "budget_evidence_check v = None" "cost_check v = None"
    by (simp_all add: invocation_ok_def)
  have "output_check (invocation_view pf v) = output_check v" by (simp add: output_check_def invocation_view_def)
  then show ?thesis
    unfolding invocation_ok_def
    using ok(1) view_usage_evidence [OF parts(1)] view_budget_evidence [OF parts(2) ok(2)] view_cost_check [OF parts(3)]
    by (simp add: invocation_ok_def) (simp add: invocation_view_def)
qed

lemma invocation_of_row_to_row:
  assumes "invocation_wf v"
  shows "invocation_of_row pf (invocation_to_row v) = Inr (Some (invocation_view pf v))"
proof -
  have u: "usage_from_row (invocation_to_row v) = Inr (usage_view (iv_usage v))"
    and c: "cost_from_row (invocation_to_row v) = Inr (map_option cost_view (iv_estimated_cost v))"
    using assms by (simp_all add: invocation_wf_def usage_from_row_to_row cost_from_row_to_row)
  have i: "invocation_init (invocation_view pf v) = Inr (invocation_view pf v)"
    by (rule invocation_init_again [OF view_ok [OF assms]])
  show ?thesis
    unfolding invocation_of_row_def u c
    using i by (cases v) (simp add: invocation_to_row_def invocation_view_def in_session_def [abs_def]
        option.map_comp o_def)
qed

lemma invocation_get_result: "invocation_get pf i s = (case row_of ir_id i (invocations (working s)) of
    None \<Rightarrow> Inr None | Some r \<Rightarrow> invocation_of_row pf r, s)"
  by (simp add: invocation_get_def op_simps split: option.split)

lemma invocation_insert_Inr_iff:
  "invocation_insert r d = Inr d' \<longleftrightarrow>
     invocation_columns_fit r \<and> invocation_checks_ok r \<and> ir_id r \<notin> ir_id ` set (invocations d)
     \<and> ir_tenant_id r \<in> tr_id ` set (tenants d) \<and> ir_agent_id r \<in> ar_id ` set (agents d)
     \<and> ir_model_id r \<in> mr_id ` set (models d)
     \<and> opt_ok (\<lambda>p. p \<in> dr_id ` set (decisions d)) (ir_policy_decision_id r)
     \<and> d' = d\<lparr>invocations := invocations d @ [r]\<rparr>"
  by (auto simp: invocation_insert_def failure_defs)

lemma invocation_add_Inr_iff [op_inv]:
  "invocation_add v s = (Inr u, s') \<longleftrightarrow>
     (\<exists>d. invocation_insert (invocation_to_row v) (working s) = Inr d \<and> s' = s\<lparr>working := d\<rparr>)"
  by (simp add: invocation_add_def op_inv)

lemma row_id [simp]: "ir_id (invocation_to_row v) = iv_id v"
  by (simp add: invocation_to_row_def)

interpretation invocation_repo:
  repository invocation_add "invocation_get pf" iv_id invocation_wf "invocation_view pf" for pf
proof (unfold_locales, goal_cases)
  case (1 e)
  show ?case by (auto simp: invocation_add_def)
next
  case (2 k s)
  show ?case by (simp add: invocation_get_result)
next
  case (3 s s' k)
  then show ?case by (simp add: invocation_get_result)
next
  case (4 e s s')
  have "row_of ir_id (iv_id e) (invocations (working s)) = None"
    if "iv_id e \<notin> ir_id ` set (invocations (working s))"
    using that by (simp add: row_of_None_iff)
  then show ?case using 4 invocation_of_row_to_row [OF 4(1)]
    by (auto simp: invocation_get_result invocation_add_Inr_iff invocation_insert_Inr_iff row_of_append)
next
  case (5 e s s' k)
  then show ?case
    by (auto simp: invocation_get_result invocation_add_Inr_iff invocation_insert_Inr_iff row_of_append
        split: option.split)
next
  case (6 e s s')
  then have "row_of ir_id (iv_id e) (invocations (working s)) = None"
    by (auto simp: invocation_add_Inr_iff invocation_insert_Inr_iff row_of_None_iff)
  then show ?case by (simp add: invocation_get_result)
qed

end
