(* ===== verification/Gateway.thy ===== *)
theory Gateway
  imports InvocationStore Policy
begin

text \<open>
  The runtime gateway: the OpenAI adapter (\<open>infrastructure/openai_provider.py\<close>), the admission
  reads (\<open>infrastructure/admission.py\<close>) and \<open>CreateInvocationHandler\<close>
  (\<open>application/create_invocation.py\<close>), in four stages: admission, the policy decision, the usage
  limit, the cost budget, the provider call. The state is the store and the log of calls that
  reached the provider, the one effect outside the store. The provider's client is a parameter.
\<close>

record world =
  w_db :: db
  provider_calls :: "(pystr \<times> pystr) list"

definition on_db :: "(exc, db, 'a) op \<Rightarrow> (exc, world, 'a) op" where
  "on_db m = (\<lambda>w. case m (w_db w) of (r, d) \<Rightarrow> (r, w\<lparr>w_db := d\<rparr>))"

definition read_world :: "(db \<Rightarrow> exc + 'a) \<Rightarrow> (exc, world, 'a) op" where
  "read_world f = reads (\<lambda>w. f (w_db w))"

subsection \<open>The OpenAI adapter\<close>

record response =
  rs_id :: pystr
  rs_output_text :: pystr
  rs_usage :: "(reported \<times> reported \<times> reported) option"

text \<open>A client maps model and input to a response or to an \<open>OpenAIError\<close>.\<close>

type_synonym client = "pystr \<Rightarrow> pystr \<Rightarrow> string + response"

record openai_provider =
  oa_api_key :: "pystr option"
  oa_client :: "client option"
  oa_sdk :: "pystr \<Rightarrow> client"

record provider_result =
  pi_output_text :: pystr
  pi_usage :: "usage option"
  pi_response_id :: "pystr option"

definition normalized_usage :: "(reported \<times> reported \<times> reported) option \<Rightarrow> usage option" where
  "normalized_usage v = (case v of None \<Rightarrow> None | Some (i, out, t) \<Rightarrow>
     (case InvocationUsage i out t of Inr u \<Rightarrow> Some u | Inl _ \<Rightarrow> None))"

definition provider_response_id :: "pystr \<Rightarrow> pystr option" where
  "provider_response_id v = (let c = py_strip v in
     if c = [] \<or> max_provider_response_id_length < length c then None else Some c)"

text \<open>The client in use: the injected one, or the SDK's when a key is configured.\<close>

definition openai_client :: "openai_provider \<Rightarrow> client option" where
  "openai_client p = (case oa_client p of Some c \<Rightarrow> Some c
     | None \<Rightarrow> (case oa_api_key p of None \<Rightarrow> None | Some k \<Rightarrow> if k = [] then None else Some (oa_sdk p k)))"

definition openai_invoke :: "openai_provider \<Rightarrow> pystr \<Rightarrow> pystr \<Rightarrow> (exc, world, provider_result) op" where
  "openai_invoke p ref text =
     (case openai_client p of
        None \<Rightarrow> throw (ProviderTransportError ''OpenAI runtime credentials are not configured.'')
      | Some c \<Rightarrow> (\<lambda>w.
          let w' = w\<lparr>provider_calls := provider_calls w @ [(ref, text)]\<rparr> in
          (case c ref text of
             Inl _ \<Rightarrow> (Inl (ProviderTransportError ''OpenAI Responses API request failed.''), w')
           | Inr rs \<Rightarrow>
               if py_strip (rs_output_text rs) = []
               then (Inl (ProviderTransportError ''OpenAI Responses API returned no text output.''), w')
               else (Inr \<lparr>pi_output_text = rs_output_text rs, pi_usage = normalized_usage (rs_usage rs),
                     pi_response_id = provider_response_id (rs_id rs)\<rparr>, w'))))"

subsection \<open>The handler\<close>

definition runtime_model :: "uuid \<Rightarrow> db \<Rightarrow> (uuid \<times> uuid \<times> pystr \<times> pystr) option" where
  "runtime_model i d = map_option
     (\<lambda>r. (mr_id r, mr_tenant_id r, lit (provider_value (mr_provider r)), mr_provider_model_reference r))
     (row_of mr_id i (models d))"

record command =
  cm_principal :: pystr
  cm_tenant :: uuid
  cm_agent :: uuid
  cm_model :: uuid
  cm_input :: pystr
  cm_limit :: int
  cm_allowance :: int

record gateway =
  gw_provider :: openai_provider
  gw_pricing :: "pystr \<times> pystr \<Rightarrow> pricing option"
  gw_budgets :: "uuid \<Rightarrow> cost_budget option"

definition invocation_core_of :: "request \<Rightarrow> command \<Rightarrow> pystr \<Rightarrow> uuid \<Rightarrow> invocation_core" where
  "invocation_core_of rq c text did =
     \<lparr>ic_id = id_at rq 0, ic_tenant_id = cm_tenant c, ic_agent_id = cm_agent c, ic_model_id = cm_model c,
      ic_input_text = text, ic_started_at = clock rq 0, ic_completed_at = clock rq 2,
      ic_decision_id = did, ic_principal_id = cm_principal c\<rparr>"

definition persist_invocation :: "exc + invocation \<Rightarrow> (exc, world, invocation) op" where
  "persist_invocation v = bnd (lift v) (\<lambda>v'. on_db (persist invocation_add v'))"

definition refuse :: "exc + invocation \<Rightarrow> exc \<Rightarrow> (exc, world, 'a) op" where
  "refuse v e = bnd (persist_invocation v) (\<lambda>_. throw e)"

definition is_transport_error :: "exc \<Rightarrow> bool" where
  "is_transport_error e = (case e of ProviderTransportError _ \<Rightarrow> True | _ \<Rightarrow> False)"

definition call_provider ::
  "gateway \<Rightarrow> pystr \<Rightarrow> pystr \<Rightarrow> invocation_core \<Rightarrow> (exc, world, invocation) op" where
  "call_provider gw provider ref core =
     bnd (catch (openai_invoke (gw_provider gw) ref (ic_input_text core))
            (\<lambda>e. if is_transport_error e
                 then Some (refuse (invocation_failed core) (ProviderInvocationFailed (ic_id core)))
                 else None)) (\<lambda>result.
     bnd (lift (attribute_cost (pi_usage result) (gw_pricing gw (provider, ref)))) (\<lambda>cst.
     persist_invocation (invocation_succeeded core (pi_output_text result) (pi_usage result)
        (pi_response_id result) cst)))"

definition check_budget ::
  "request \<Rightarrow> gateway \<Rightarrow> pystr \<Rightarrow> pystr \<Rightarrow> invocation_core \<Rightarrow> window \<Rightarrow> (exc, world, invocation) op" where
  "check_budget rq gw provider ref core w = (case gw_budgets gw (ic_tenant_id core) of
       None \<Rightarrow> throw TenantCostBudgetConfigurationUnavailable
     | Some budget \<Rightarrow>
         bnd (read_world (attributed_cost rq 4 (ic_tenant_id core) (w_start w) (w_end w))) (\<lambda>spent.
         bnd (lift (decide_tenant_cost_budget spent budget w)) (\<lambda>decision.
         if \<not> cb_allowed decision
         then refuse (invocation_cost_limited core (cb_attributed decision) (cb_budget decision)
                (cb_allowance decision) w) (InvocationCostLimited (ic_id core) (w_end w))
         else call_provider gw provider ref core)))"

definition check_usage ::
  "platform \<Rightarrow> request \<Rightarrow> gateway \<Rightarrow> command \<Rightarrow> pystr \<Rightarrow> pystr \<Rightarrow> invocation_core \<Rightarrow>
   (exc, world, invocation) op" where
  "check_usage pf rq gw c provider ref core =
     bnd (lift (utc_day_window pf (ic_started_at core))) (\<lambda>w.
     bnd (read_world (consumed_total_units rq 3 (cm_principal c) (w_start w) (w_end w))) (\<lambda>consumed.
     bnd (lift (decide_usage_limit consumed (cm_limit c) (cm_allowance c) w)) (\<lambda>decision.
     if \<not> ul_allowed decision
     then refuse (invocation_limited core (ul_consumed decision) (ul_limit decision) (ul_allowance decision)
            (ul_window decision)) (InvocationUsageLimited (ic_id core) (w_end w))
     else check_budget rq gw provider ref core w)))"

definition decide_policy ::
  "platform \<Rightarrow> request \<Rightarrow> gateway \<Rightarrow> command \<Rightarrow> pystr \<Rightarrow> pystr \<Rightarrow> pystr \<Rightarrow> (exc, world, invocation) op" where
  "decide_policy pf rq gw c text provider ref =
     bnd (on_db (runtime_policy_decide pf (id_at rq 1) (clock rq 1) (id_at rq 0)
            (cm_tenant c) (cm_agent c) (cm_model c))) (\<lambda>(did, effect, _).
     let core = invocation_core_of rq c text did in
     if effect \<noteq> lit ''allow''
     then refuse (invocation_denied core) (InvocationDenied (ic_id core) did)
     else check_usage pf rq gw c provider ref core)"

definition create_invocation ::
  "platform \<Rightarrow> request \<Rightarrow> gateway \<Rightarrow> command \<Rightarrow> (exc, world, invocation) op" where
  "create_invocation pf rq gw c =
     bnd (lift (validated_input (cm_input c))) (\<lambda>text.
     bnd (read_world (read_db rq 0 (tenant_exists (cm_tenant c)))) (\<lambda>known.
     bnd (raise_if (\<not> known) (TenantNotAvailable (cm_tenant c))) (\<lambda>_.
     bnd (read_world (read_db rq 1 (admitted_agent (cm_agent c)))) (\<lambda>agent.
     bnd (raise_if (\<not> owned_by (cm_tenant c) agent) (AgentNotAvailable (cm_agent c))) (\<lambda>_.
     bnd (read_world (read_db rq 2 (runtime_model (cm_model c)))) (\<lambda>model.
     case model of
       None \<Rightarrow> throw (ModelNotAvailable (cm_model c))
     | Some (_, owner, provider, ref) \<Rightarrow>
         if owner \<noteq> cm_tenant c then throw (ModelNotAvailable (cm_model c))
         else if provider \<noteq> lit ''openai'' then throw (ProviderNotSupportedForRuntime provider)
         else decide_policy pf rq gw c text provider ref))))))"

end
