(* ===== verification/Http.thy ===== *)
theory Http
  imports Security Problem Responses Gateway
begin

text \<open>
  The HTTP surface (\<open>*/presentation/*routes.py\<close>, \<open>bootstrap/application.py\<close>): one constructor of
  \<open>endpoint\<close> per route, with its typed parameters, and one definition per route that
  authenticates, validates, authorizes and calls the use case; \<open>serve\<close> turns what the route
  raises into the problem document a client sees. FastAPI runs the authentication dependency
  before it validates parameters and before the body of the route.
\<close>

subsection \<open>The application\<close>

record app =
  app_mgmt :: mgmt_service
  app_runtime :: runtime_service
  app_gateway :: gateway
  app_runtime_auth :: "runtime_principal_entry list"

text \<open>
  \<open>create_app\<close> and its lifespan: what the services are given of the validated settings. \<open>sdk\<close> is
  the OpenAI client for a key. The title, the version and the \<open>debug\<close> flag only go to FastAPI and
  are left out: \<open>serve\<close> answers as an application without \<open>debug\<close>, with which Starlette replaces
  the problem document of an unexpected error by its own page.
\<close>

definition create_app :: "(pystr \<Rightarrow> client) \<Rightarrow> settings \<Rightarrow> exc + app" where
  "create_app sdk st =
     and_then (ConfiguredInvocationPricing (st_pricing st)) (\<lambda>pricing.
     and_then (ConfiguredTenantCostBudgets (st_tenant_budgets st)) (\<lambda>budgets.
     Inr \<lparr>app_mgmt = \<lparr>ms_pepper = management_credential_pepper (st_security st),
            ms_bootstrap_token = management_bootstrap_token (st_security st)\<rparr>,
          app_runtime = \<lparr>rsv_pepper = runtime_credential_pepper (st_security st),
            rsv_legacy = Some (st_runtime_auth st)\<rparr>,
          app_gateway = \<lparr>gw_provider = \<lparr>oa_api_key = (case st_openai_api_key st of None \<Rightarrow> None
                | Some k \<Rightarrow> if k = [] then None else Some k), oa_client = None, oa_sdk = sdk\<rparr>,
            gw_pricing = pricing, gw_budgets = budgets\<rparr>,
          app_runtime_auth = st_runtime_auth st\<rparr>))"

text \<open>What one HTTP request draws: for its authentication, its use case, and a read after it.\<close>

record draws =
  dr_auth :: request
  dr_main :: request
  dr_after :: request

datatype endpoint =
    PostTenant pystr
  | GetTenant uuid
  | PostAgent uuid pystr
  | GetAgent uuid
  | PostModel uuid pystr provider pystr
  | GetModel uuid
  | PutPermission uuid uuid uuid policy_effect
  | GetPermission uuid
  | GetAuditRecords uuid datetime datetime int
  | GetRuntimeReport uuid datetime datetime
  | PostInvocation uuid pystr
  | GetInvocation uuid
  | GetEvidence "uuid option" "uuid option" datetime datetime int
  | PostBootstrap pystr "uuid set"
  | PostPrincipal pystr "uuid set" bool
  | GetPrincipals int
  | GetPrincipal uuid
  | GetCredentials uuid int
  | PutScopes uuid "uuid set"
  | PostCredential uuid "pystr option" "datetime option"
  | RevokeCredential uuid uuid
  | DisablePrincipal uuid
  | PostRuntimePrincipal uuid uuid int int "pystr option" "datetime option"
  | GetRuntimePrincipal uuid
  | PutUsageLimits uuid int int
  | PreflightContinuity uuid pystr
  | BindContinuity uuid pystr
  | PostRuntimeCredential uuid "pystr option" "datetime option"
  | RevokeRuntimeCredential uuid uuid
  | DisableRuntimePrincipal uuid

record http_request =
  hq_path :: pystr
  hq_credentials :: "http_credentials option"
  hq_endpoint :: endpoint

datatype body =
    TenantBody tenant_response
  | AgentBody agent_response
  | ModelBody model_response
  | PermissionBody permission_response
  | AuditBody "audit_response list"
  | ReportBody report_response
  | InvocationBody invocation_response
  | EvidenceBody "evidence_response list"
  | BootstrapBody principal_response issued_response
  | PrincipalBody principal_response
  | PrincipalsBody "principal_item_response list" bool
  | CredentialsBody "inventory_response list" bool
  | IssuedBody issued_response
  | CredentialBody credential_response
  | RuntimeCreatedBody runtime_principal_response issued_response
  | RuntimePrincipalBody runtime_principal_response
  | PreflightBody continuity_preflight

datatype reply = Answer nat "pystr option" body | Failure problem

subsection \<open>Validation of parameters\<close>

definition length_between :: "nat \<Rightarrow> nat \<Rightarrow> pystr \<Rightarrow> bool" where
  "length_between m n s \<longleftrightarrow> m \<le> length s \<and> length s \<le> n"

text \<open>The constraints of the request schemas.\<close>

definition CreateTenantRequest_ok :: "pystr \<Rightarrow> bool" where
  "CreateTenantRequest_ok name \<longleftrightarrow> length_between 1 100 name"

definition RegisterAgentRequest_ok :: "pystr \<Rightarrow> bool" where
  "RegisterAgentRequest_ok name \<longleftrightarrow> length_between 1 100 name"

definition RegisterModelRequest_ok :: "pystr \<Rightarrow> pystr \<Rightarrow> bool" where
  "RegisterModelRequest_ok name ref \<longleftrightarrow> length_between 1 100 name \<and> length_between 1 255 ref"

definition CreateInvocationRequest_ok :: "pystr \<Rightarrow> bool" where
  "CreateInvocationRequest_ok text \<longleftrightarrow> length_between 1 max_invocation_input_length text"

definition BootstrapRequest_ok :: "pystr \<Rightarrow> bool" where
  "BootstrapRequest_ok name \<longleftrightarrow> length_between 1 100 name"

definition CreatePrincipalRequest_ok :: "pystr \<Rightarrow> bool" where
  "CreatePrincipalRequest_ok name \<longleftrightarrow> length_between 1 100 name"

definition IssueCredentialRequest_ok :: "pystr option \<Rightarrow> bool" where
  "IssueCredentialRequest_ok label \<longleftrightarrow> opt_ok (\<lambda>l. length l \<le> 100) label"

definition CredentialRequest_ok :: "pystr option \<Rightarrow> bool" where
  "CredentialRequest_ok label \<longleftrightarrow> opt_ok (\<lambda>l. length l \<le> 100) label"

definition CreateRuntimePrincipalRequest_ok :: "int \<Rightarrow> int \<Rightarrow> pystr option \<Rightarrow> bool" where
  "CreateRuntimePrincipalRequest_ok daily allowance label \<longleftrightarrow>
     0 < daily \<and> 0 < allowance \<and> CredentialRequest_ok label"

definition RuntimeUsageLimitsRequest_ok :: "int \<Rightarrow> int \<Rightarrow> bool" where
  "RuntimeUsageLimitsRequest_ok daily allowance \<longleftrightarrow> 0 < daily \<and> 0 < allowance"

definition RuntimeIdentityContinuityRequest_ok :: "pystr \<Rightarrow> bool" where
  "RuntimeIdentityContinuityRequest_ok legacy \<longleftrightarrow> length_between 1 255 (strip_whitespace legacy)"

text \<open>\<open>Query(ge=1, le=100)\<close>, and the validation of a whole request.\<close>

definition limit_ok :: "int \<Rightarrow> bool" where
  "limit_ok cap \<longleftrightarrow> 1 \<le> cap \<and> cap \<le> 100"

definition parameters_valid :: "endpoint \<Rightarrow> bool" where
  "parameters_valid ep = (case ep of
       PostTenant name \<Rightarrow> CreateTenantRequest_ok name
     | PostAgent _ name \<Rightarrow> RegisterAgentRequest_ok name
     | PostModel _ name _ ref \<Rightarrow> RegisterModelRequest_ok name ref
     | GetAuditRecords _ _ _ cap \<Rightarrow> limit_ok cap
     | PostInvocation _ text \<Rightarrow> CreateInvocationRequest_ok text
     | GetEvidence _ _ _ _ cap \<Rightarrow> limit_ok cap
     | PostBootstrap name _ \<Rightarrow> BootstrapRequest_ok name
     | PostPrincipal name _ _ \<Rightarrow> CreatePrincipalRequest_ok name
     | GetPrincipals cap \<Rightarrow> limit_ok cap
     | GetCredentials _ cap \<Rightarrow> limit_ok cap
     | PostCredential _ label _ \<Rightarrow> IssueCredentialRequest_ok label
     | PostRuntimePrincipal _ _ daily allowance label _ \<Rightarrow>
         CreateRuntimePrincipalRequest_ok daily allowance label
     | PutUsageLimits _ daily allowance \<Rightarrow> RuntimeUsageLimitsRequest_ok daily allowance
     | PreflightContinuity _ legacy \<Rightarrow> RuntimeIdentityContinuityRequest_ok legacy
     | BindContinuity _ legacy \<Rightarrow> RuntimeIdentityContinuityRequest_ok legacy
     | PostRuntimeCredential _ label _ \<Rightarrow> CredentialRequest_ok label
     | _ \<Rightarrow> True)"

definition validate :: "endpoint \<Rightarrow> (exc, 's, unit) op" where
  "validate ep = raise_if (\<not> parameters_valid ep) RequestValidationError"

subsection \<open>Authorization in a route\<close>

text \<open>
  \<open>try: authorize_tenant(...) except TenantManagementAccessDenied: raise\<close> the error that an
  absent resource gives.
\<close>

definition authorize_or :: "authenticated_principal \<Rightarrow> uuid \<Rightarrow> exc \<Rightarrow> (exc, 's, unit) op" where
  "authorize_or p t absent = lift (case authorize_tenant p t of
       Inl TenantManagementAccessDenied \<Rightarrow> Inl absent | r \<Rightarrow> r)"

definition actor_of :: "authenticated_principal \<Rightarrow> actor" where
  "actor_of p = \<lparr>act_id = ap_principal_id p, act_can_manage = ap_can_manage p\<rparr>"

definition api :: "string \<Rightarrow> uuid \<Rightarrow> pystr option" where
  "api path i = Some (lit path @ uuid_str i)"

subsection \<open>Tenants, assets, permissions\<close>

definition create_tenant_route :: "platform \<Rightarrow> request \<Rightarrow> pystr \<Rightarrow> (exc, db, reply) op" where
  "create_tenant_route pf rq name = bnd (create_tenant pf rq name) (\<lambda>t.
     ret (Answer 201 (api ''/api/v1/tenants/'' (ten_id t)) (TenantBody (tenant_response_of t))))"

definition get_tenant_route :: "platform \<Rightarrow> authenticated_principal \<Rightarrow> uuid \<Rightarrow> (exc, db, reply) op" where
  "get_tenant_route pf p i = bnd (authorize_or p i (TenantNotFound i)) (\<lambda>_.
     bnd (get_tenant pf i) (\<lambda>t. ret (Answer 200 None (TenantBody (tenant_response_of t)))))"

definition register_agent_route ::
  "platform \<Rightarrow> request \<Rightarrow> authenticated_principal \<Rightarrow> uuid \<Rightarrow> pystr \<Rightarrow> (exc, db, reply) op" where
  "register_agent_route pf rq p t name = bnd (authorize_or p t (OwningTenantNotFound t)) (\<lambda>_.
     bnd (register_agent pf rq t name) (\<lambda>a.
     ret (Answer 201 (api ''/api/v1/agents/'' (ag_id a)) (AgentBody (agent_response_of a)))))"

definition get_agent_route :: "platform \<Rightarrow> authenticated_principal \<Rightarrow> uuid \<Rightarrow> (exc, db, reply) op" where
  "get_agent_route pf p i = bnd (get_agent pf i) (\<lambda>a.
     bnd (authorize_or p (ag_tenant_id a) (AgentNotFound i)) (\<lambda>_.
     ret (Answer 200 None (AgentBody (agent_response_of a)))))"

definition register_model_route :: "platform \<Rightarrow> request \<Rightarrow> authenticated_principal \<Rightarrow> uuid \<Rightarrow> pystr \<Rightarrow>
    provider \<Rightarrow> pystr \<Rightarrow> (exc, db, reply) op" where
  "register_model_route pf rq p t name prov ref = bnd (authorize_or p t (OwningTenantNotFound t)) (\<lambda>_.
     bnd (register_model pf rq t name prov ref) (\<lambda>m.
     ret (Answer 201 (api ''/api/v1/models/'' (mo_id m)) (ModelBody (model_response_of m)))))"

definition get_model_route :: "platform \<Rightarrow> authenticated_principal \<Rightarrow> uuid \<Rightarrow> (exc, db, reply) op" where
  "get_model_route pf p i = bnd (get_model pf i) (\<lambda>m.
     bnd (authorize_or p (mo_tenant_id m) (ModelNotFound i)) (\<lambda>_.
     ret (Answer 200 None (ModelBody (model_response_of m)))))"

definition set_permission_route :: "platform \<Rightarrow> request \<Rightarrow> authenticated_principal \<Rightarrow> uuid \<Rightarrow> uuid \<Rightarrow> uuid \<Rightarrow>
    policy_effect \<Rightarrow> (exc, db, reply) op" where
  "set_permission_route pf rq p t a m eff = bnd (authorize_or p t (PolicyTenantNotAvailable t)) (\<lambda>_.
     bnd (set_permission pf rq (uuid_str (ap_principal_id p)) t a m eff) (\<lambda>perm.
     ret (Answer 200 None (PermissionBody (permission_response_of perm)))))"

definition get_permission_route :: "platform \<Rightarrow> authenticated_principal \<Rightarrow> uuid \<Rightarrow> (exc, db, reply) op" where
  "get_permission_route pf p i = bnd (get_permission pf i) (\<lambda>perm.
     bnd (authorize_or p (am_tenant_id perm) (PermissionNotFound i)) (\<lambda>_.
     ret (Answer 200 None (PermissionBody (permission_response_of perm)))))"

subsection \<open>Audit records and reports\<close>

definition list_audit_records_route :: "platform \<Rightarrow> request \<Rightarrow> authenticated_principal \<Rightarrow> uuid \<Rightarrow> datetime \<Rightarrow>
    datetime \<Rightarrow> int \<Rightarrow> (exc, db, reply) op" where
  "list_audit_records_route pf rq p t s e cap = bnd (authorize_or p t TenantAuditNotFound) (\<lambda>_.
     bnd (reads (list_audit_records pf rq t s e cap)) (\<lambda>rs.
     ret (Answer 200 None (AuditBody (map audit_response_of rs)))))"

definition get_runtime_report_route ::
  "platform \<Rightarrow> request \<Rightarrow> authenticated_principal \<Rightarrow> uuid \<Rightarrow> datetime \<Rightarrow> datetime \<Rightarrow> (exc, db, reply) op" where
  "get_runtime_report_route pf rq p t s e = bnd (authorize_or p t TenantRuntimeReportNotFound) (\<lambda>_.
     bnd (reads (get_runtime_report pf rq t s e)) (\<lambda>r.
     ret (Answer 200 None (ReportBody (report_response_of r)))))"

subsection \<open>Invocations\<close>

definition command_of :: "workload \<Rightarrow> uuid \<Rightarrow> pystr \<Rightarrow> command" where
  "command_of p m text = \<lparr>cm_principal = wl_principal_id p, cm_tenant = wl_tenant_id p, cm_agent = wl_agent_id p,
     cm_model = m, cm_input = text, cm_limit = wl_usage_limit p, cm_allowance = wl_allowance p\<rparr>"

definition create_invocation_route ::
  "platform \<Rightarrow> request \<Rightarrow> gateway \<Rightarrow> workload \<Rightarrow> uuid \<Rightarrow> pystr \<Rightarrow> (exc, world, reply) op" where
  "create_invocation_route pf rq gw p m text = bnd (create_invocation pf rq gw (command_of p m text)) (\<lambda>v.
     ret (Answer 201 (api ''/api/v1/runtime/invocations/'' (iv_id v)) (InvocationBody (invocation_response_of v))))"

definition get_invocation_route :: "platform \<Rightarrow> workload \<Rightarrow> uuid \<Rightarrow> (exc, db, reply) op" where
  "get_invocation_route pf p i = bnd (get_invocation pf i) (\<lambda>v.
     bnd (raise_if (iv_runtime_principal_id v \<noteq> wl_principal_id p \<or> iv_tenant_id v \<noteq> wl_tenant_id p
            \<or> iv_agent_id v \<noteq> wl_agent_id p) (InvocationNotFound i)) (\<lambda>_.
     ret (Answer 200 None (InvocationBody (invocation_response_of v)))))"

subsection \<open>Management identity\<close>

definition managers_only :: "authenticated_principal \<Rightarrow> (exc, 's, unit) op" where
  "managers_only p = raise_if (\<not> ap_can_manage p) PrincipalManagementDenied"

definition list_evidence_route :: "platform \<Rightarrow> request \<Rightarrow> authenticated_principal \<Rightarrow> uuid option \<Rightarrow>
    uuid option \<Rightarrow> datetime \<Rightarrow> datetime \<Rightarrow> int \<Rightarrow> (exc, db, reply) op" where
  "list_evidence_route pf rq p ci qi s e cap = bnd (managers_only p) (\<lambda>_.
     bnd (reads (list_authentication_evidence pf rq ci qi s e cap)) (\<lambda>es.
     ret (Answer 200 None (EvidenceBody (map evidence_response_of es)))))"

definition bootstrap_route :: "platform \<Rightarrow> mgmt_service \<Rightarrow> request \<Rightarrow> http_credentials option \<Rightarrow> pystr \<Rightarrow>
    uuid set \<Rightarrow> (exc, db, reply) op" where
  "bootstrap_route pf sv rq creds name ts = (case bearer_token_of creds of
       None \<Rightarrow> throw BootstrapAuthenticationFailed
     | Some token \<Rightarrow> bnd (bootstrap pf sv rq token name ts) (\<lambda>(p, issued).
         ret (Answer 201 None (BootstrapBody (principal_response_of p) (issued_response_of issued)))))"

definition create_principal_route :: "platform \<Rightarrow> request \<Rightarrow> authenticated_principal \<Rightarrow> pystr \<Rightarrow> uuid set \<Rightarrow>
    bool \<Rightarrow> (exc, db, reply) op" where
  "create_principal_route pf rq p name ts mgr = bnd (create_principal pf rq (actor_of p) name ts mgr) (\<lambda>q.
     ret (Answer 201 None (PrincipalBody (principal_response_of q))))"

definition list_principals_route :: "platform \<Rightarrow> request \<Rightarrow> authenticated_principal \<Rightarrow> int \<Rightarrow> (exc, db, reply) op" where
  "list_principals_route pf rq p cap = bnd (managers_only p) (\<lambda>_.
     bnd (reads (list_principal_inventory pf rq cap)) (\<lambda>(items, truncated).
     ret (Answer 200 None (PrincipalsBody (map principal_item_response_of items) truncated))))"

definition get_principal_route :: "platform \<Rightarrow> authenticated_principal \<Rightarrow> uuid \<Rightarrow> (exc, db, reply) op" where
  "get_principal_route pf p i = bnd (get_principal pf (actor_of p) i) (\<lambda>q.
     ret (Answer 200 None (PrincipalBody (principal_response_of q))))"

definition list_credentials_route ::
  "platform \<Rightarrow> request \<Rightarrow> authenticated_principal \<Rightarrow> uuid \<Rightarrow> int \<Rightarrow> (exc, db, reply) op" where
  "list_credentials_route pf rq p i cap = bnd (managers_only p) (\<lambda>_.
     bnd (reads (list_credential_inventory pf rq i cap)) (\<lambda>(items, truncated).
     ret (Answer 200 None (CredentialsBody (map inventory_response_of items) truncated))))"

definition set_scopes_route ::
  "platform \<Rightarrow> request \<Rightarrow> authenticated_principal \<Rightarrow> uuid \<Rightarrow> uuid set \<Rightarrow> (exc, db, reply) op" where
  "set_scopes_route pf rq p i ts = bnd (set_scopes pf rq (actor_of p) i ts) (\<lambda>q.
     ret (Answer 200 None (PrincipalBody (principal_response_of q))))"

definition issue_credential_route :: "platform \<Rightarrow> mgmt_service \<Rightarrow> request \<Rightarrow> authenticated_principal \<Rightarrow> uuid \<Rightarrow>
    pystr option \<Rightarrow> datetime option \<Rightarrow> (exc, db, reply) op" where
  "issue_credential_route pf sv rq p i label expires =
     bnd (issue_credential pf sv rq (actor_of p) i label expires) (\<lambda>issued.
     ret (Answer 201 None (IssuedBody (issued_response_of issued))))"

definition revoke_credential_route ::
  "platform \<Rightarrow> request \<Rightarrow> authenticated_principal \<Rightarrow> uuid \<Rightarrow> uuid \<Rightarrow> (exc, db, reply) op" where
  "revoke_credential_route pf rq p i ci = bnd (revoke_credential pf rq (actor_of p) i ci) (\<lambda>c.
     ret (Answer 200 None (CredentialBody (credential_response_of c))))"

definition disable_principal_route ::
  "platform \<Rightarrow> request \<Rightarrow> authenticated_principal \<Rightarrow> uuid \<Rightarrow> (exc, db, reply) op" where
  "disable_principal_route pf rq p i = bnd (disable_principal pf rq (actor_of p) i) (\<lambda>q.
     ret (Answer 200 None (PrincipalBody (principal_response_of q))))"

subsection \<open>Runtime identity\<close>

definition runtime_create_route :: "platform \<Rightarrow> runtime_service \<Rightarrow> request \<Rightarrow> authenticated_principal \<Rightarrow> uuid \<Rightarrow>
    uuid \<Rightarrow> int \<Rightarrow> int \<Rightarrow> pystr option \<Rightarrow> datetime option \<Rightarrow> (exc, db, reply) op" where
  "runtime_create_route pf sv rq p t a daily allowance label expires =
     bnd (runtime_create_principal pf sv rq (actor_of p) t a daily allowance label expires) (\<lambda>(q, issued).
     ret (Answer 201 None (RuntimeCreatedBody (runtime_principal_response_of q True)
       (runtime_issued_response_of issued))))"

definition runtime_get_route :: "platform \<Rightarrow> request \<Rightarrow> authenticated_principal \<Rightarrow> uuid \<Rightarrow> (exc, db, reply) op" where
  "runtime_get_route pf rq p i = bnd (runtime_get_principal pf rq (actor_of p) i) (\<lambda>(q, ready).
     ret (Answer 200 None (RuntimePrincipalBody (runtime_principal_response_of q ready))))"

text \<open>Two routes answer with a fresh read of the principal they changed.\<close>

definition usage_limits_route :: "platform \<Rightarrow> request \<Rightarrow> request \<Rightarrow> authenticated_principal \<Rightarrow> uuid \<Rightarrow> int \<Rightarrow>
    int \<Rightarrow> (exc, db, reply) op" where
  "usage_limits_route pf rq after p i daily allowance =
     bnd (initialize_usage_limits pf rq (actor_of p) i daily allowance) (\<lambda>_. runtime_get_route pf after p i)"

definition preflight_route :: "platform \<Rightarrow> runtime_service \<Rightarrow> request \<Rightarrow> authenticated_principal \<Rightarrow> uuid \<Rightarrow>
    pystr \<Rightarrow> (exc, db, reply) op" where
  "preflight_route pf sv rq p i legacy =
     bnd (preflight_identity_continuity pf sv rq (actor_of p) i (strip_whitespace legacy)) (\<lambda>r.
     ret (Answer 200 None (PreflightBody r)))"

definition bind_route :: "platform \<Rightarrow> runtime_service \<Rightarrow> request \<Rightarrow> request \<Rightarrow> authenticated_principal \<Rightarrow> uuid \<Rightarrow>
    pystr \<Rightarrow> (exc, db, reply) op" where
  "bind_route pf sv rq after p i legacy =
     bnd (bind_identity_continuity pf sv rq (actor_of p) i (strip_whitespace legacy))
       (\<lambda>_. runtime_get_route pf after p i)"

definition runtime_issue_route :: "platform \<Rightarrow> runtime_service \<Rightarrow> request \<Rightarrow> authenticated_principal \<Rightarrow> uuid \<Rightarrow>
    pystr option \<Rightarrow> datetime option \<Rightarrow> (exc, db, reply) op" where
  "runtime_issue_route pf sv rq p i label expires =
     bnd (runtime_issue_credential pf sv rq (actor_of p) i label expires) (\<lambda>issued.
     ret (Answer 201 None (IssuedBody (runtime_issued_response_of issued))))"

definition runtime_revoke_route ::
  "platform \<Rightarrow> request \<Rightarrow> authenticated_principal \<Rightarrow> uuid \<Rightarrow> uuid \<Rightarrow> (exc, db, reply) op" where
  "runtime_revoke_route pf rq p i ci = bnd (runtime_revoke_credential pf rq (actor_of p) i ci) (\<lambda>c.
     ret (Answer 200 None (CredentialBody (runtime_credential_response_of c))))"

definition runtime_disable_route ::
  "platform \<Rightarrow> request \<Rightarrow> authenticated_principal \<Rightarrow> uuid \<Rightarrow> (exc, db, reply) op" where
  "runtime_disable_route pf rq p i = bnd (runtime_disable_principal pf rq (actor_of p) i) (\<lambda>q.
     ret (Answer 200 None (RuntimePrincipalBody (runtime_principal_response_of q False))))"

subsection \<open>Serving a request\<close>

fun management_route :: "platform \<Rightarrow> app \<Rightarrow> draws \<Rightarrow> authenticated_principal \<Rightarrow> endpoint \<Rightarrow> (exc, db, reply) op" where
  "management_route pf ap dr p (PostTenant name) = create_tenant_route pf (dr_main dr) name"
| "management_route pf ap dr p (GetTenant i) = get_tenant_route pf p i"
| "management_route pf ap dr p (PostAgent t name) = register_agent_route pf (dr_main dr) p t name"
| "management_route pf ap dr p (GetAgent i) = get_agent_route pf p i"
| "management_route pf ap dr p (PostModel t name prov ref) = register_model_route pf (dr_main dr) p t name prov ref"
| "management_route pf ap dr p (GetModel i) = get_model_route pf p i"
| "management_route pf ap dr p (PutPermission t a m eff) = set_permission_route pf (dr_main dr) p t a m eff"
| "management_route pf ap dr p (GetPermission i) = get_permission_route pf p i"
| "management_route pf ap dr p (GetAuditRecords t s e cap) = list_audit_records_route pf (dr_main dr) p t s e cap"
| "management_route pf ap dr p (GetRuntimeReport t s e) = get_runtime_report_route pf (dr_main dr) p t s e"
| "management_route pf ap dr p (GetEvidence ci qi s e cap) = list_evidence_route pf (dr_main dr) p ci qi s e cap"
| "management_route pf ap dr p (PostPrincipal name ts mgr) = create_principal_route pf (dr_main dr) p name ts mgr"
| "management_route pf ap dr p (GetPrincipals cap) = list_principals_route pf (dr_main dr) p cap"
| "management_route pf ap dr p (GetPrincipal i) = get_principal_route pf p i"
| "management_route pf ap dr p (GetCredentials i cap) = list_credentials_route pf (dr_main dr) p i cap"
| "management_route pf ap dr p (PutScopes i ts) = set_scopes_route pf (dr_main dr) p i ts"
| "management_route pf ap dr p (PostCredential i label x) =
     issue_credential_route pf (app_mgmt ap) (dr_main dr) p i label x"
| "management_route pf ap dr p (RevokeCredential i ci) = revoke_credential_route pf (dr_main dr) p i ci"
| "management_route pf ap dr p (DisablePrincipal i) = disable_principal_route pf (dr_main dr) p i"
| "management_route pf ap dr p (PostRuntimePrincipal t a n m label x) =
     runtime_create_route pf (app_runtime ap) (dr_main dr) p t a n m label x"
| "management_route pf ap dr p (GetRuntimePrincipal i) = runtime_get_route pf (dr_main dr) p i"
| "management_route pf ap dr p (PutUsageLimits i n m) = usage_limits_route pf (dr_main dr) (dr_after dr) p i n m"
| "management_route pf ap dr p (PreflightContinuity i l) = preflight_route pf (app_runtime ap) (dr_main dr) p i l"
| "management_route pf ap dr p (BindContinuity i l) =
     bind_route pf (app_runtime ap) (dr_main dr) (dr_after dr) p i l"
| "management_route pf ap dr p (PostRuntimeCredential i label x) =
     runtime_issue_route pf (app_runtime ap) (dr_main dr) p i label x"
| "management_route pf ap dr p (RevokeRuntimeCredential i ci) = runtime_revoke_route pf (dr_main dr) p i ci"
| "management_route pf ap dr p (DisableRuntimePrincipal i) = runtime_disable_route pf (dr_main dr) p i"
| "management_route pf ap dr p ep = throw RequestValidationError"

text \<open>The last equation is never reached: \<open>dispatch\<close> handles the other endpoints itself.\<close>

definition dispatch :: "platform \<Rightarrow> app \<Rightarrow> draws \<Rightarrow> http_request \<Rightarrow> (exc, world, reply) op" where
  "dispatch pf ap dr req = (let ep = hq_endpoint req; creds = hq_credentials req in (case ep of
       PostInvocation m text \<Rightarrow> bnd (lift (require_runtime_principal (app_runtime_auth ap) creds)) (\<lambda>p.
         bnd (validate ep) (\<lambda>_. create_invocation_route pf (dr_main dr) (app_gateway ap) p m text))
     | GetInvocation i \<Rightarrow> bnd (lift (require_runtime_principal (app_runtime_auth ap) creds)) (\<lambda>p.
         on_db (get_invocation_route pf p i))
     | PostBootstrap name ts \<Rightarrow> bnd (validate ep) (\<lambda>_.
         on_db (bootstrap_route pf (app_mgmt ap) (dr_main dr) creds name ts))
     | _ \<Rightarrow> on_db (bnd (require_management_principal pf (ms_pepper (app_mgmt ap)) (dr_auth dr) creds) (\<lambda>p.
         bnd (validate ep) (\<lambda>_. management_route pf ap dr p ep)))))"

definition serve :: "platform \<Rightarrow> app \<Rightarrow> draws \<Rightarrow> http_request \<Rightarrow> world \<Rightarrow> reply \<times> world" where
  "serve pf ap dr req w = (case dispatch pf ap dr req w of
       (Inl e, w') \<Rightarrow> (Failure (problem_of (hq_path req) e), w') | (Inr r, w') \<Rightarrow> (r, w'))"

end
