(* ===== verification/RuntimeLifecycle.thy ===== *)
theory RuntimeLifecycle
  imports RuntimeIdentity MgmtInvariants
begin

text \<open>
  What the operations of \<open>RuntimeIdentityService\<close> do to the tables: for each, the conditions
  under which it succeeds, and the one change it then makes together with its audit records.
\<close>

subsection \<open>Reading rows back\<close>

definition limits_ok :: "int option \<Rightarrow> int option \<Rightarrow> bool" where
  "limits_ok daily allowance \<longleftrightarrow> (case (daily, allowance) of (None, None) \<Rightarrow> True
     | (Some d, Some a) \<Rightarrow> 0 < a \<and> a \<le> d | _ \<Rightarrow> False)"

definition legacy_ok :: "pystr option \<Rightarrow> bool" where
  "legacy_ok l \<longleftrightarrow> opt_ok (\<lambda>l. py_strip l = l \<and> l \<noteq> [] \<and> length l \<le> 255) l"

lemma runtime_principal_init_Inr_iff:
  "runtime_principal_init p = Inr q \<longleftrightarrow> q = p\<lparr>rpr_legacy := map_option py_strip (rpr_legacy p)\<rparr>
     \<and> is_aware (rpr_created_at p) \<and> opt_ok is_aware (rpr_disabled_at p)
     \<and> limits_ok (rpr_daily p) (rpr_allowance p) \<and> legacy_ok (map_option py_strip (rpr_legacy p))
     \<and> (rpr_legacy p = None) = (rpr_bound_at p = None) \<and> opt_ok is_aware (rpr_bound_at p)"
proof -
  have limits: "(rpr_daily p = None) = (rpr_allowance p = None) \<and>
      \<not> (case (rpr_daily p, rpr_allowance p) of (Some d, Some a) \<Rightarrow> d \<le> 0 \<or> a \<le> 0 \<or> d < a | _ \<Rightarrow> False)
      \<longleftrightarrow> limits_ok (rpr_daily p) (rpr_allowance p)"
    by (auto simp: limits_ok_def split: option.split)
  show ?thesis unfolding limits [symmetric]
    by (auto simp: runtime_principal_init_def Let_def legacy_ok_def opt_ok_def split: option.splits)
qed

lemma runtime_credential_init_Inr_iff:
  "runtime_credential_init c = Inr q \<longleftrightarrow> q = c\<lparr>rcr_label := normalized_label (rcr_label c)\<rparr>
     \<and> opt_ok (\<lambda>l. length l \<le> 100) (normalized_label (rcr_label c)) \<and> is_hex64 (rcr_verifier c)
     \<and> is_aware (rcr_created_at c) \<and> opt_ok is_aware (rcr_expires_at c) \<and> opt_ok is_aware (rcr_revoked_at c)
     \<and> opt_ok (\<lambda>x. instant (rcr_created_at c) < instant x) (rcr_expires_at c)"
  by (cases "rcr_label c") (auto simp: runtime_credential_init_def Let_def normalized_label_def)

definition runtime_row_ok :: "runtime_principal_row \<Rightarrow> bool" where
  "runtime_row_ok r \<longleftrightarrow> limits_ok (rp_daily_usage_limit_units r) (rp_per_invocation_allowance_units r)
     \<and> legacy_ok (rp_legacy_runtime_principal_id r)
     \<and> (rp_legacy_runtime_principal_id r = None) = (rp_identity_continuity_bound_at r = None)"

definition runtime_credential_row_ok :: "runtime_credential_row \<Rightarrow> bool" where
  "runtime_credential_row_ok r \<longleftrightarrow> is_hex64 (rc_secret_verifier r)
     \<and> opt_ok (\<lambda>l. l \<noteq> [] \<and> length l \<le> 100 \<and> canonical l = l) (rc_label r)
     \<and> opt_ok (\<lambda>x. rc_created_at r < x) (rc_expires_at r)"

definition runtime_principal_at :: "platform \<Rightarrow> runtime_principal_row \<Rightarrow> runtime_principal" where
  "runtime_principal_at pf r =
     \<lparr>rpr_id = rp_principal_id r, rpr_tenant_id = rp_tenant_id r, rpr_agent_id = rp_agent_id r,
      rpr_created_at = from_db pf (rp_created_at r),
      rpr_disabled_at = map_option (from_db pf) (rp_disabled_at r),
      rpr_daily = rp_daily_usage_limit_units r, rpr_allowance = rp_per_invocation_allowance_units r,
      rpr_legacy = rp_legacy_runtime_principal_id r,
      rpr_bound_at = map_option (from_db pf) (rp_identity_continuity_bound_at r)\<rparr>"

definition runtime_credential_at :: "platform \<Rightarrow> runtime_credential_row \<Rightarrow> runtime_credential" where
  "runtime_credential_at pf r =
     \<lparr>rcr_id = rc_credential_id r, rcr_principal_id = rc_principal_id r, rcr_verifier = rc_secret_verifier r,
      rcr_label = rc_label r, rcr_created_at = from_db pf (rc_created_at r),
      rcr_expires_at = map_option (from_db pf) (rc_expires_at r),
      rcr_revoked_at = map_option (from_db pf) (rc_revoked_at r)\<rparr>"

lemma opt_ok_aware [simp]: "opt_ok is_aware (map_option (from_db pf) x)"
  by (cases x) simp_all

lemma legacy_strip: "legacy_ok l \<Longrightarrow> map_option py_strip l = l"
  by (cases l) (auto simp: legacy_ok_def)

lemma runtime_principal_of_row: "runtime_row_ok r \<Longrightarrow> runtime_principal_of pf r = Inr (runtime_principal_at pf r)"
  by (simp add: runtime_principal_of_def runtime_principal_init_Inr_iff runtime_principal_at_def runtime_row_ok_def
      legacy_strip del: opt_ok_map)

lemma runtime_credential_of_row:
  "runtime_credential_row_ok r \<Longrightarrow> runtime_credential_of pf r = Inr (runtime_credential_at pf r)"
  by (simp add: runtime_credential_of_def runtime_credential_init_Inr_iff runtime_credential_row_ok_def
      runtime_credential_at_def normalized_label_ok)
     (auto simp: opt_ok_def split: option.splits)

text \<open>What an operation reads, as a row and as a value.\<close>

definition reads_runtime :: "platform \<Rightarrow> uuid \<Rightarrow> db \<Rightarrow> runtime_principal_row \<Rightarrow> runtime_principal \<Rightarrow> bool" where
  "reads_runtime pf i d r p \<longleftrightarrow>
     row_of rp_principal_id i (runtime_principals d) = Some r \<and> runtime_principal_of pf r = Inr p"

lemma reads_runtimeD:
  assumes "reads_runtime pf i d r p"
  shows "r \<in> set (runtime_principals d)" "rp_principal_id r = i" "rpr_id p = i"
    "rpr_tenant_id p = rp_tenant_id r" "rpr_agent_id p = rp_agent_id r"
    "runtime_is_active p = (rp_disabled_at r = None)"
    "rpr_daily p = rp_daily_usage_limit_units r" "rpr_allowance p = rp_per_invocation_allowance_units r"
    "(rpr_legacy p = None) = (rp_legacy_runtime_principal_id r = None)"
  using assms
  by (auto simp: reads_runtime_def runtime_principal_of_def runtime_principal_init_Inr_iff runtime_is_active_def
      dest!: row_of_SomeD)

definition reads_runtime_credential :: "platform \<Rightarrow> uuid \<Rightarrow> db \<Rightarrow> runtime_credential_row \<Rightarrow> runtime_credential \<Rightarrow> bool" where
  "reads_runtime_credential pf i d r c \<longleftrightarrow>
     row_of rc_credential_id i (runtime_credentials d) = Some r \<and> runtime_credential_of pf r = Inr c"

lemma reads_runtime_credentialD:
  assumes "reads_runtime_credential pf i d r c"
  shows "r \<in> set (runtime_credentials d)" "rc_credential_id r = i" "rcr_id c = i"
    "rcr_principal_id c = rc_principal_id r" "(rcr_revoked_at c = None) = (rc_revoked_at r = None)"
  using assms
  by (auto simp: reads_runtime_credential_def runtime_credential_of_def runtime_credential_init_Inr_iff
      dest!: row_of_SomeD)

lemma runtime_principal_get_Inr_iff [op_inv]:
  "runtime_principal_get pf i s = (Inr p, s') \<longleftrightarrow> s' = s \<and>
     (case p of None \<Rightarrow> row_of rp_principal_id i (runtime_principals (working s)) = None
      | Some q \<Rightarrow> \<exists>r. reads_runtime pf i (working s) r q)"
  by (cases "row_of rp_principal_id i (runtime_principals (working s))")
     (auto simp: runtime_principal_get_def op_simps reads_runtime_def map_sum_Inr_iff split: option.splits)

lemma runtime_credential_get_Inr_iff [op_inv]:
  "runtime_credential_get pf i s = (Inr c, s') \<longleftrightarrow> s' = s \<and>
     (case c of None \<Rightarrow> row_of rc_credential_id i (runtime_credentials (working s)) = None
      | Some q \<Rightarrow> \<exists>r. reads_runtime_credential pf i (working s) r q)"
  by (cases "row_of rc_credential_id i (runtime_credentials (working s))")
     (auto simp: runtime_credential_get_def op_simps reads_runtime_credential_def map_sum_Inr_iff split: option.splits)

subsection \<open>Inversion of the building blocks\<close>

lemma runtime_principal_add_Inr_iff [op_inv]:
  "runtime_principal_add p s = (Inr u, s') \<longleftrightarrow>
     (\<exists>d. runtime_principal_insert (runtime_principal_to_row p) (working s) = Inr d \<and> s' = s\<lparr>working := d\<rparr>)"
  by (simp add: runtime_principal_add_def op_inv)

lemma runtime_credential_add_Inr_iff [op_inv]:
  "runtime_credential_add c s = (Inr u, s') \<longleftrightarrow>
     (\<exists>d. runtime_credential_flush c (working s) = Inr d \<and> s' = s\<lparr>working := d\<rparr>)"
  by (simp add: runtime_credential_add_def op_inv)

lemma runtime_credential_flush_Inr_iff:
  "runtime_credential_flush c d = Inr d' \<longleftrightarrow> opt_ok (\<lambda>x. representable (instant x)) (rcr_expires_at c)
     \<and> text_fits 64 (rcr_verifier c) \<and> is_hex64 (rcr_verifier c) \<and> opt_ok (text_fits 100) (rcr_label c)
     \<and> rcr_id c \<notin> rc_credential_id ` set (runtime_credentials d)
     \<and> rcr_principal_id c \<in> rp_principal_id ` set (runtime_principals d)
     \<and> d' = d\<lparr>runtime_credentials := runtime_credentials d @ [runtime_credential_to_row c]\<rparr>"
  by (auto simp: runtime_credential_flush_def runtime_credential_insert_def runtime_credential_to_row_def failure_defs)

lemma runtime_principal_insert_Inr_iff:
  "runtime_principal_insert r d = Inr d' \<longleftrightarrow> runtime_principal_columns_fit r \<and> runtime_principal_checks_ok r
     \<and> rp_principal_id r \<notin> rp_principal_id ` set (runtime_principals d)
     \<and> (rp_legacy_runtime_principal_id r = None
        \<or> rp_legacy_runtime_principal_id r \<notin> rp_legacy_runtime_principal_id ` set (runtime_principals d))
     \<and> rp_tenant_id r \<in> tr_id ` set (tenants d) \<and> rp_agent_id r \<in> ar_id ` set (agents d)
     \<and> d' = d\<lparr>runtime_principals := runtime_principals d @ [r]\<rparr>"
  by (auto simp: runtime_principal_insert_def failure_defs)

lemma runtime_principal_update_Inr_iff:
  "runtime_principal_update p f d = Inr (n, d') \<longleftrightarrow>
     (\<forall>r \<in> set (runtime_principals d). p r \<longrightarrow> runtime_principal_checks_ok (f r)
        \<and> (rp_legacy_runtime_principal_id (f r) = None
           \<or> (\<forall>q \<in> set (runtime_principals d). rp_principal_id q \<noteq> rp_principal_id r \<longrightarrow>
                rp_legacy_runtime_principal_id q \<noteq> rp_legacy_runtime_principal_id (f r))))
     \<and> n = length (filter p (runtime_principals d))
     \<and> d' = d\<lparr>runtime_principals := update_rows p f (runtime_principals d)\<rparr>"
  by (auto simp: runtime_principal_update_def Let_def failure_defs)

lemma runtime_limits_row_Inr_iff [op_inv]:
  "runtime_limits_row p s = (Inr b, s') \<longleftrightarrow>
     (\<exists>n d. runtime_limits_update p (working s) = Inr (n, d) \<and> b = (n = 1) \<and> s' = s\<lparr>working := d\<rparr>)"
  by (auto simp: runtime_limits_row_def op_inv)

lemma runtime_bind_row_Inr_iff [op_inv]:
  "runtime_bind_row p s = (Inr b, s') \<longleftrightarrow>
     (\<exists>n d. runtime_bind_update p (working s) = Inr (n, d) \<and> b = (n = 1) \<and> s' = s\<lparr>working := d\<rparr>)"
  by (auto simp: runtime_bind_row_def op_inv)

lemma legacy_claim_Inr_iff [op_inv]:
  "legacy_identity_is_claimed l s = (Inr b, s') \<longleftrightarrow> text_ok l \<and> b = legacy_claimed l (working s) \<and> s' = s"
  by (auto simp: legacy_identity_is_claimed_def text_parameter_def op_inv)

lemma continuity_preflight_Inr_iff [op_inv]:
  "continuity_preflight_of pf sv rq p legacy s = (Inr c, s') \<longleftrightarrow> s' = s \<and> text_ok legacy
     \<and> (\<exists>a b. preflight_day pf (clock rq 0) = Inr (a, b)
          \<and> c = preflight_of sv p legacy (inspect_continuity legacy (uuid_str (rpr_id p)) (rpr_tenant_id p)
                (rpr_agent_id p) (instant a) (instant b) (working s))
              (legacy_claimed legacy (working s)) (has_potentially_usable (rpr_id p) (clock rq 0) (working s)))"
  by (auto simp: continuity_preflight_of_def text_parameter_def op_inv split: prod.splits)

lemma runtime_new_credential_Inr:
  "runtime_new_credential pf sv rq i pid label expires = Inr (c, token) \<longleftrightarrow>
     token = runtime_prefix @ uuid_str (id_at rq i) @ [95] @ secret_token rq
     \<and> opt_ok (\<lambda>l. length l \<le> 100) (normalized_label label)
     \<and> is_hex64 (runtime_secret_verifier pf (secret_token rq) (rsv_pepper sv))
     \<and> opt_ok is_aware expires \<and> opt_ok (\<lambda>x. clock_at rq 0 < instant x) expires
     \<and> c = \<lparr>rcr_id = id_at rq i, rcr_principal_id = pid,
          rcr_verifier = runtime_secret_verifier pf (secret_token rq) (rsv_pepper sv),
          rcr_label = normalized_label label, rcr_created_at = clock rq 0, rcr_expires_at = expires,
          rcr_revoked_at = None\<rparr>"
  by (auto simp: runtime_new_credential_def generate_runtime_bearer_token_def map_sum_Inr_iff
      runtime_credential_init_Inr_iff)

lemma audit_append_only:
  "audit_write r s = (Inr u, s') \<Longrightarrow>
     committed s' = committed s \<and> working s' = (working s)\<lparr>audits := audits (working s) @ [audit_to_row r]\<rparr>"
  by (drule audit_write_InrD) simp

subsection \<open>Effects\<close>

lemma runtime_create_effect:
  assumes "runtime_create_principal pf sv rq a t ag daily allowance label expires d = (Inr (p, c, token), d')"
  shows "act_can_manage a" "runtime_binding_exists t ag d" "0 < allowance" "allowance \<le> daily"
    "p = \<lparr>rpr_id = id_at rq 0, rpr_tenant_id = t, rpr_agent_id = ag, rpr_created_at = clock rq 0,
       rpr_disabled_at = None, rpr_daily = Some daily, rpr_allowance = Some allowance, rpr_legacy = None,
       rpr_bound_at = None\<rparr>"
    "runtime_new_credential pf sv rq 1 (rpr_id p) label expires = Inr (c, token)"
    "rpr_id p \<notin> rp_principal_id ` set (runtime_principals d)"
    "rcr_id c \<notin> rc_credential_id ` set (runtime_credentials d)"
    "d' = d\<lparr>runtime_principals := runtime_principals d @ [runtime_principal_to_row p],
       runtime_credentials := runtime_credentials d @ [runtime_credential_to_row c],
       audits := audits d @ [audit_to_row (runtime_principal_audit pf rq 2 (act_id a) p None RUNTIME_PRINCIPAL_CREATED),
         audit_to_row (runtime_credential_audit pf rq 3 (act_id a) (rpr_tenant_id p) c None RUNTIME_CREDENTIAL_ISSUED)]\<rparr>"
proof -
  obtain d1 d2 s1 s2 where e: "act_can_manage a" "runtime_binding_exists t ag d"
    "runtime_principal_create (id_at rq 0) t ag (clock rq 0) daily allowance = Inr p"
    "runtime_new_credential pf sv rq 1 (rpr_id p) label expires = Inr (c, token)"
    "runtime_principal_insert (runtime_principal_to_row p) d = Inr d1" "runtime_credential_flush c d1 = Inr d2"
    "audit_write (runtime_principal_audit pf rq 2 (act_id a) p None RUNTIME_PRINCIPAL_CREATED)
       \<lparr>committed = d, working = d2\<rparr> = (Inr (), s1)"
    "audit_write (runtime_credential_audit pf rq 3 (act_id a) (rpr_tenant_id p) c None RUNTIME_CREDENTIAL_ISSUED) s1
       = (Inr (), s2)" "d' = working s2"
    using assms
    by (auto simp: runtime_create_principal_def runtime_require_manager_def runtime_validate_expiry_def op_inv
        commit_after_publishes value_error_as_Inr_iff)
  show "act_can_manage a" "runtime_binding_exists t ag d"
    "runtime_new_credential pf sv rq 1 (rpr_id p) label expires = Inr (c, token)" by (rule e)+
  show p: "p = \<lparr>rpr_id = id_at rq 0, rpr_tenant_id = t, rpr_agent_id = ag, rpr_created_at = clock rq 0,
       rpr_disabled_at = None, rpr_daily = Some daily, rpr_allowance = Some allowance, rpr_legacy = None,
       rpr_bound_at = None\<rparr>" "0 < allowance" "allowance \<le> daily"
    using e(3) by (auto simp: runtime_principal_create_def runtime_principal_init_Inr_iff limits_ok_def)
  have d1: "d1 = d\<lparr>runtime_principals := runtime_principals d @ [runtime_principal_to_row p]\<rparr>"
    using e(5) by (simp add: runtime_principal_insert_Inr_iff)
  show "rpr_id p \<notin> rp_principal_id ` set (runtime_principals d)"
    using e(5) by (simp add: runtime_principal_insert_Inr_iff) (simp add: runtime_principal_to_row_def)
  show "rcr_id c \<notin> rc_credential_id ` set (runtime_credentials d)"
    using e(6) d1 by (simp add: runtime_credential_flush_Inr_iff)
  show "d' = d\<lparr>runtime_principals := runtime_principals d @ [runtime_principal_to_row p],
       runtime_credentials := runtime_credentials d @ [runtime_credential_to_row c],
       audits := audits d @ [audit_to_row (runtime_principal_audit pf rq 2 (act_id a) p None RUNTIME_PRINCIPAL_CREATED),
         audit_to_row (runtime_credential_audit pf rq 3 (act_id a) (rpr_tenant_id p) c None RUNTIME_CREDENTIAL_ISSUED)]\<rparr>"
    using audit_append_only [OF e(7)] audit_append_only [OF e(8)] e(6,9) d1
    by (simp add: runtime_credential_flush_Inr_iff)
qed

lemma bind_effect:
  assumes "bind_identity_continuity pf sv rq a i legacy d = (Inr b, d')"
  shows "act_can_manage a" "text_ok legacy"
    "\<exists>r p e. reads_runtime pf i d r p \<and> rp_disabled_at r = None \<and> rp_legacy_runtime_principal_id r = None
       \<and> \<not> legacy_claimed legacy d \<and> service_legacy sv legacy = Some e
       \<and> re_tenant_id e = rp_tenant_id r \<and> re_agent_id e = rp_agent_id r
       \<and> rp_daily_usage_limit_units r = Some (re_usage_limit e)
       \<and> rp_per_invocation_allowance_units r = Some (re_allowance e)
       \<and> has_potentially_usable i (clock rq 0) d
       \<and> (\<forall>v \<in> set (invocations d). used_by legacy v \<or> used_by (uuid_str i) v \<longrightarrow>
            ir_tenant_id v = rp_tenant_id r \<and> ir_agent_id v = rp_agent_id r)
       \<and> runtime_principal_init (p\<lparr>rpr_legacy := Some legacy, rpr_bound_at := Some (clock rq 0)\<rparr>) = Inr b
       \<and> runtime_bind_update b d = Inr (1, d\<lparr>runtime_principals :=
            update_rows (\<lambda>x. rp_principal_id x = i \<and> rp_legacy_runtime_principal_id x = None
              \<and> rp_identity_continuity_bound_at x = None) (binding_written b) (runtime_principals d)\<rparr>)
       \<and> d' = d\<lparr>runtime_principals :=
            update_rows (\<lambda>x. rp_principal_id x = i \<and> rp_legacy_runtime_principal_id x = None
              \<and> rp_identity_continuity_bound_at x = None) (binding_written b) (runtime_principals d),
           audits := audits d @ [audit_to_row (runtime_principal_audit pf rq 0 (act_id a) b (Some p)
             RUNTIME_PRINCIPAL_IDENTITY_CONTINUITY_BOUND)]\<rparr>"
proof -
  obtain r p u v d1 s where e: "act_can_manage a" "text_ok legacy" "reads_runtime pf i d r p" "runtime_is_active p"
    "\<not> identity_continuity_ready p" "\<not> legacy_claimed legacy d"
    "cp_safe (preflight_of sv p legacy (inspect_continuity legacy (uuid_str (rpr_id p)) (rpr_tenant_id p)
        (rpr_agent_id p) u v d) (legacy_claimed legacy d) (has_potentially_usable (rpr_id p) (clock rq 0) d))"
    "runtime_bind p legacy (clock rq 0) = Inr b" "runtime_bind_update b d = Inr (1, d1)"
    "audit_write (runtime_principal_audit pf rq 0 (act_id a) b (Some p) RUNTIME_PRINCIPAL_IDENTITY_CONTINUITY_BOUND)
       \<lparr>committed = d, working = d1\<rparr> = (Inr (), s)" "d' = working s"
    using assms
    by (auto simp: bind_identity_continuity_def runtime_require_manager_def lock_legacy_identity_def
        text_parameter_def op_inv commit_after_publishes value_error_as_Inr_iff split: option.splits if_splits)
  note D = reads_runtimeD [OF e(3)]
  show "act_can_manage a" "text_ok legacy" by (rule e)+
  have init: "runtime_principal_init (p\<lparr>rpr_legacy := Some legacy, rpr_bound_at := Some (clock rq 0)\<rparr>) = Inr b"
    using e(8) by (auto simp: runtime_bind_def split: if_splits)
  have b: "rpr_id b = i" using init D(3) by (auto simp: runtime_principal_init_Inr_iff)
  have d1: "d1 = d\<lparr>runtime_principals := update_rows (\<lambda>x. rp_principal_id x = i
      \<and> rp_legacy_runtime_principal_id x = None \<and> rp_identity_continuity_bound_at x = None) (binding_written b)
      (runtime_principals d)\<rparr>"
    using e(9) b by (auto simp: runtime_bind_update_def runtime_principal_update_Inr_iff split: if_splits)
  obtain c where c: "service_legacy sv legacy = Some c" "re_tenant_id c = rp_tenant_id r" "re_agent_id c = rp_agent_id r"
    "rp_daily_usage_limit_units r = Some (re_usage_limit c)" "rp_per_invocation_allowance_units r = Some (re_allowance c)"
    "has_potentially_usable i (clock rq 0) d"
    using e(7) D by (auto simp: preflight_of_def Let_def split: option.splits)
  have used: "\<forall>v \<in> set (invocations d). used_by legacy v \<or> used_by (uuid_str i) v \<longrightarrow>
            ir_tenant_id v = rp_tenant_id r \<and> ir_agent_id v = rp_agent_id r"
    using e(7) D by (auto simp: preflight_of_def inspect_continuity_def Let_def)
  show "\<exists>r p e. reads_runtime pf i d r p \<and> rp_disabled_at r = None \<and> rp_legacy_runtime_principal_id r = None
       \<and> \<not> legacy_claimed legacy d \<and> service_legacy sv legacy = Some e
       \<and> re_tenant_id e = rp_tenant_id r \<and> re_agent_id e = rp_agent_id r
       \<and> rp_daily_usage_limit_units r = Some (re_usage_limit e)
       \<and> rp_per_invocation_allowance_units r = Some (re_allowance e)
       \<and> has_potentially_usable i (clock rq 0) d
       \<and> (\<forall>v \<in> set (invocations d). used_by legacy v \<or> used_by (uuid_str i) v \<longrightarrow>
            ir_tenant_id v = rp_tenant_id r \<and> ir_agent_id v = rp_agent_id r)
       \<and> runtime_principal_init (p\<lparr>rpr_legacy := Some legacy, rpr_bound_at := Some (clock rq 0)\<rparr>) = Inr b
       \<and> runtime_bind_update b d = Inr (1, d\<lparr>runtime_principals :=
            update_rows (\<lambda>x. rp_principal_id x = i \<and> rp_legacy_runtime_principal_id x = None
              \<and> rp_identity_continuity_bound_at x = None) (binding_written b) (runtime_principals d)\<rparr>)
       \<and> d' = d\<lparr>runtime_principals :=
            update_rows (\<lambda>x. rp_principal_id x = i \<and> rp_legacy_runtime_principal_id x = None
              \<and> rp_identity_continuity_bound_at x = None) (binding_written b) (runtime_principals d),
           audits := audits d @ [audit_to_row (runtime_principal_audit pf rq 0 (act_id a) b (Some p)
             RUNTIME_PRINCIPAL_IDENTITY_CONTINUITY_BOUND)]\<rparr>"
    using e(3-6,9,11) D(6,9) c used init d1 audit_append_only [OF e(10)]
    by (intro exI [of _ r] exI [of _ p] exI [of _ c]) (simp add: identity_continuity_ready_def)
qed

lemma limits_effect:
  assumes "initialize_usage_limits pf rq a i daily allowance d = (Inr c, d')"
  shows "act_can_manage a" "0 < allowance" "allowance \<le> daily"
    "\<exists>r p. reads_runtime pf i d r p \<and> rp_disabled_at r = None \<and> rp_daily_usage_limit_units r = None
       \<and> rp_per_invocation_allowance_units r = None
       \<and> runtime_principal_init (p\<lparr>rpr_daily := Some daily, rpr_allowance := Some allowance\<rparr>) = Inr c
       \<and> runtime_limits_update c d = Inr (1, d\<lparr>runtime_principals :=
            update_rows (\<lambda>x. rp_principal_id x = i \<and> rp_daily_usage_limit_units x = None
              \<and> rp_per_invocation_allowance_units x = None) (limits_written c) (runtime_principals d)\<rparr>)
       \<and> d' = d\<lparr>runtime_principals :=
            update_rows (\<lambda>x. rp_principal_id x = i \<and> rp_daily_usage_limit_units x = None
              \<and> rp_per_invocation_allowance_units x = None) (limits_written c) (runtime_principals d),
           audits := audits d @ [audit_to_row (runtime_principal_audit pf rq 0 (act_id a) c (Some p)
             RUNTIME_PRINCIPAL_USAGE_LIMITS_INITIALIZED)]\<rparr>"
proof -
  obtain r p d1 s where e: "act_can_manage a" "reads_runtime pf i d r p" "runtime_is_active p"
    "\<not> usage_limits_configured p" "runtime_initialize_limits p daily allowance = Inr c"
    "runtime_limits_update c d = Inr (1, d1)"
    "audit_write (runtime_principal_audit pf rq 0 (act_id a) c (Some p) RUNTIME_PRINCIPAL_USAGE_LIMITS_INITIALIZED)
       \<lparr>committed = d, working = d1\<rparr> = (Inr (), s)" "d' = working s"
    using assms
    by (auto simp: initialize_usage_limits_def runtime_require_manager_def op_inv commit_after_publishes
        value_error_as_Inr_iff split: option.splits)
  note D = reads_runtimeD [OF e(2)]
  have init: "runtime_principal_init (p\<lparr>rpr_daily := Some daily, rpr_allowance := Some allowance\<rparr>) = Inr c"
    using e(5) by (auto simp: runtime_initialize_limits_def split: if_splits)
  show "act_can_manage a" by (rule e)
  show "0 < allowance" "allowance \<le> daily" using init by (auto simp: runtime_principal_init_Inr_iff limits_ok_def)
  have c: "rpr_id c = i" using init D(3) by (auto simp: runtime_principal_init_Inr_iff)
  have none: "rp_daily_usage_limit_units r = None" "rp_per_invocation_allowance_units r = None"
  proof -
    show "rp_daily_usage_limit_units r = None" using e(4) D(7) by (simp add: usage_limits_configured_def)
    then show "rp_per_invocation_allowance_units r = None"
      using e(2) by (auto simp: reads_runtime_def runtime_principal_of_def runtime_principal_init_Inr_iff limits_ok_def
          split: option.splits)
  qed
  have d1: "d1 = d\<lparr>runtime_principals := update_rows (\<lambda>x. rp_principal_id x = i \<and> rp_daily_usage_limit_units x = None
              \<and> rp_per_invocation_allowance_units x = None) (limits_written c) (runtime_principals d)\<rparr>"
    using e(6) c by (auto simp: runtime_limits_update_def runtime_principal_update_Inr_iff split: if_splits)
  show "\<exists>r p. reads_runtime pf i d r p \<and> rp_disabled_at r = None \<and> rp_daily_usage_limit_units r = None
       \<and> rp_per_invocation_allowance_units r = None
       \<and> runtime_principal_init (p\<lparr>rpr_daily := Some daily, rpr_allowance := Some allowance\<rparr>) = Inr c
       \<and> runtime_limits_update c d = Inr (1, d\<lparr>runtime_principals :=
            update_rows (\<lambda>x. rp_principal_id x = i \<and> rp_daily_usage_limit_units x = None
              \<and> rp_per_invocation_allowance_units x = None) (limits_written c) (runtime_principals d)\<rparr>)
       \<and> d' = d\<lparr>runtime_principals :=
            update_rows (\<lambda>x. rp_principal_id x = i \<and> rp_daily_usage_limit_units x = None
              \<and> rp_per_invocation_allowance_units x = None) (limits_written c) (runtime_principals d),
           audits := audits d @ [audit_to_row (runtime_principal_audit pf rq 0 (act_id a) c (Some p)
             RUNTIME_PRINCIPAL_USAGE_LIMITS_INITIALIZED)]\<rparr>"
    using e(2,3,6,8) D(6) none init d1 audit_append_only [OF e(7)]
    by (intro exI [of _ r] exI [of _ p]) simp
qed

lemma runtime_issue_effect:
  assumes "runtime_issue_credential pf sv rq a i label expires d = (Inr (c, token), d')"
  shows "act_can_manage a" "runtime_new_credential pf sv rq 0 i label expires = Inr (c, token)"
    "rcr_id c \<notin> rc_credential_id ` set (runtime_credentials d)"
    "\<exists>r. row_of rp_principal_id i (runtime_principals d) = Some r \<and> rp_disabled_at r = None
       \<and> d' = d\<lparr>runtime_credentials := runtime_credentials d @ [runtime_credential_to_row c], audits := audits d
         @ [audit_to_row (runtime_credential_audit pf rq 1 (act_id a) (rp_tenant_id r) c None RUNTIME_CREDENTIAL_ISSUED)]\<rparr>"
proof -
  obtain r p d1 s where e: "act_can_manage a" "reads_runtime pf i d r p" "runtime_is_active p"
    "runtime_new_credential pf sv rq 0 (rpr_id p) label expires = Inr (c, token)" "runtime_credential_flush c d = Inr d1"
    "audit_write (runtime_credential_audit pf rq 1 (act_id a) (rpr_tenant_id p) c None RUNTIME_CREDENTIAL_ISSUED)
       \<lparr>committed = d, working = d1\<rparr> = (Inr (), s)" "d' = working s"
    using assms
    by (auto simp: runtime_issue_credential_def runtime_require_manager_def runtime_validate_expiry_def op_inv
        commit_after_publishes split: option.splits)
  note D = reads_runtimeD [OF e(2)]
  show "act_can_manage a" "runtime_new_credential pf sv rq 0 i label expires = Inr (c, token)" using e D(3) by simp_all
  show "rcr_id c \<notin> rc_credential_id ` set (runtime_credentials d)"
    using e(5) by (simp add: runtime_credential_flush_Inr_iff)
  show "\<exists>r. row_of rp_principal_id i (runtime_principals d) = Some r \<and> rp_disabled_at r = None
       \<and> d' = d\<lparr>runtime_credentials := runtime_credentials d @ [runtime_credential_to_row c], audits := audits d
         @ [audit_to_row (runtime_credential_audit pf rq 1 (act_id a) (rp_tenant_id r) c None RUNTIME_CREDENTIAL_ISSUED)]\<rparr>"
    using e(2,3,5,7) D(4,6) audit_append_only [OF e(6)]
    by (intro exI [of _ r]) (simp add: reads_runtime_def runtime_credential_flush_Inr_iff)
qed

lemma runtime_revoke_effect:
  assumes "runtime_revoke_credential pf rq a i ci d = (Inr c', d')"
  shows "act_can_manage a"
    "\<exists>r rc c. row_of rp_principal_id i (runtime_principals d) = Some r \<and> reads_runtime_credential pf ci d rc c
       \<and> rc_principal_id rc = i \<and> rc_revoked_at rc = None
       \<and> runtime_credential_init (c\<lparr>rcr_revoked_at := Some (clock rq 0)\<rparr>) = Inr c'
       \<and> d' = d\<lparr>runtime_credentials := update_rows (\<lambda>x. rc_credential_id x = ci)
              (\<lambda>x. x\<lparr>rc_revoked_at := Some (clock_at rq 0)\<rparr>) (runtime_credentials d),
           audits := audits d @ [audit_to_row (runtime_credential_audit pf rq 0 (act_id a) (rp_tenant_id r) c' (Some c)
             RUNTIME_CREDENTIAL_REVOKED)]\<rparr>"
proof -
  obtain r p rc c s where e: "act_can_manage a" "reads_runtime pf i d r p" "reads_runtime_credential pf ci d rc c"
    "rcr_principal_id c = rpr_id p" "rcr_revoked_at c = None" "runtime_revoke c (clock rq 0) = Inr c'"
    "audit_write (runtime_credential_audit pf rq 0 (act_id a) (rpr_tenant_id p) c' (Some c) RUNTIME_CREDENTIAL_REVOKED)
       \<lparr>committed = d, working = d\<lparr>runtime_credentials := update_rows (\<lambda>x. rc_credential_id x = rcr_id c')
              (\<lambda>x. x\<lparr>rc_revoked_at := map_option instant (rcr_revoked_at c')\<rparr>) (runtime_credentials d)\<rparr>\<rparr> = (Inr (), s)"
    "d' = working s"
    using assms
    by (auto simp: runtime_revoke_credential_def runtime_require_manager_def runtime_revoke_row_def op_inv
        commit_after_publishes split: option.splits)
  note D = reads_runtimeD [OF e(2)] and C = reads_runtime_credentialD [OF e(3)]
  have init: "runtime_credential_init (c\<lparr>rcr_revoked_at := Some (clock rq 0)\<rparr>) = Inr c'"
    using e(6) by (auto simp: runtime_revoke_def split: if_splits)
  then have c': "rcr_id c' = ci" "rcr_revoked_at c' = Some (clock rq 0)"
    using C(3) by (auto simp: runtime_credential_init_Inr_iff)
  show "act_can_manage a" by (rule e)
  show "\<exists>r rc c. row_of rp_principal_id i (runtime_principals d) = Some r \<and> reads_runtime_credential pf ci d rc c
       \<and> rc_principal_id rc = i \<and> rc_revoked_at rc = None
       \<and> runtime_credential_init (c\<lparr>rcr_revoked_at := Some (clock rq 0)\<rparr>) = Inr c'
       \<and> d' = d\<lparr>runtime_credentials := update_rows (\<lambda>x. rc_credential_id x = ci)
              (\<lambda>x. x\<lparr>rc_revoked_at := Some (clock_at rq 0)\<rparr>) (runtime_credentials d),
           audits := audits d @ [audit_to_row (runtime_credential_audit pf rq 0 (act_id a) (rp_tenant_id r) c' (Some c)
             RUNTIME_CREDENTIAL_REVOKED)]\<rparr>"
    using e(2-5,8) C(4,5) D(3,4) init c' audit_append_only [OF e(7)]
    by (intro exI [of _ r] exI [of _ rc] exI [of _ c]) (simp add: reads_runtime_def)
qed

lemma runtime_disable_effect:
  assumes "runtime_disable_principal pf rq a i d = (Inr p', d')"
  shows "act_can_manage a"
    "\<exists>r p. reads_runtime pf i d r p \<and> rp_disabled_at r = None
       \<and> d' = d\<lparr>runtime_principals := update_rows (\<lambda>x. rp_principal_id x = i)
              (\<lambda>x. x\<lparr>rp_disabled_at := Some (clock_at rq 0)\<rparr>) (runtime_principals d),
           audits := audits d @ [audit_to_row (runtime_principal_audit pf rq 0 (act_id a) p' (Some p)
             RUNTIME_PRINCIPAL_DISABLED)]\<rparr>"
proof -
  obtain r p s where e: "act_can_manage a" "reads_runtime pf i d r p" "runtime_is_active p"
    "runtime_disable p (clock rq 0) = Inr p'"
    "audit_write (runtime_principal_audit pf rq 0 (act_id a) p' (Some p) RUNTIME_PRINCIPAL_DISABLED)
       \<lparr>committed = d, working = d\<lparr>runtime_principals := update_rows (\<lambda>x. rp_principal_id x = rpr_id p')
              (\<lambda>x. x\<lparr>rp_disabled_at := map_option instant (rpr_disabled_at p')\<rparr>) (runtime_principals d)\<rparr>\<rparr> = (Inr (), s)"
    "d' = working s"
    using assms
    by (auto simp: runtime_disable_principal_def runtime_require_manager_def runtime_disable_row_def op_inv
        commit_after_publishes split: option.splits)
  note D = reads_runtimeD [OF e(2)]
  have p': "rpr_id p' = i" "rpr_disabled_at p' = Some (clock rq 0)"
    using e(4) D(3) by (auto simp: runtime_disable_def runtime_principal_init_Inr_iff split: if_splits)
  show "act_can_manage a" by (rule e)
  show "\<exists>r p. reads_runtime pf i d r p \<and> rp_disabled_at r = None
       \<and> d' = d\<lparr>runtime_principals := update_rows (\<lambda>x. rp_principal_id x = i)
              (\<lambda>x. x\<lparr>rp_disabled_at := Some (clock_at rq 0)\<rparr>) (runtime_principals d),
           audits := audits d @ [audit_to_row (runtime_principal_audit pf rq 0 (act_id a) p' (Some p)
             RUNTIME_PRINCIPAL_DISABLED)]\<rparr>"
    using e(2,3,6) D(6) p' audit_append_only [OF e(5)]
    by (intro exI [of _ r] exI [of _ p]) simp
qed

end
