(* ===== verification/RuntimeInvariants.thy ===== *)
theory RuntimeInvariants
  imports RuntimeLifecycle
begin

text \<open>
  Sequences of runtime identity commands. The cases of \<open>runtime_change\<close> are the ways a command
  can succeed; the invariant of the tables follows by these cases and lifts to every reachable
  state. Principals and credentials are never removed, and disabling, usage limits, the legacy
  identity and revocation are written at most once: four interpretations of \<open>write_once\<close>.
\<close>

subsection \<open>Commands\<close>

datatype runtime_command =
    CreateRuntimePrincipal actor uuid uuid int int "pystr option" "datetime option"
  | BindIdentityContinuity actor uuid pystr
  | InitializeUsageLimits actor uuid int int
  | IssueRuntimeCredential actor uuid "pystr option" "datetime option"
  | RevokeRuntimeCredential actor uuid uuid
  | DisableRuntimePrincipal actor uuid

fun run_runtime :: "platform \<Rightarrow> runtime_service \<Rightarrow> request \<Rightarrow> runtime_command \<Rightarrow> (exc, db, unit) op" where
  "run_runtime pf sv rq (CreateRuntimePrincipal a t ag daily allowance label expires) =
     void (runtime_create_principal pf sv rq a t ag daily allowance label expires)"
| "run_runtime pf sv rq (BindIdentityContinuity a i legacy) = void (bind_identity_continuity pf sv rq a i legacy)"
| "run_runtime pf sv rq (InitializeUsageLimits a i daily allowance) =
     void (initialize_usage_limits pf rq a i daily allowance)"
| "run_runtime pf sv rq (IssueRuntimeCredential a i label expires) =
     void (runtime_issue_credential pf sv rq a i label expires)"
| "run_runtime pf sv rq (RevokeRuntimeCredential a i ci) = void (runtime_revoke_credential pf rq a i ci)"
| "run_runtime pf sv rq (DisableRuntimePrincipal a i) = void (runtime_disable_principal pf rq a i)"

lemma keeps_runtime [simp, intro]:
  "keeps v (runtime_principal_get pf i)" "keeps v (runtime_credential_get pf i)"
  "keeps v (legacy_identity_is_claimed l)" "keeps v (lock_legacy_identity l)"
  "keeps v (continuity_preflight_of pf sv rq p l)"
  "keeps committed (runtime_principal_add p)" "keeps committed (runtime_credential_add c)"
  "keeps committed (runtime_disable_row p)" "keeps committed (runtime_revoke_row c)"
  "keeps committed (runtime_limits_row p)" "keeps committed (runtime_bind_row p)"
  unfolding runtime_principal_get_def runtime_credential_get_def legacy_identity_is_claimed_def
    lock_legacy_identity_def text_parameter_def continuity_preflight_of_def runtime_principal_add_def
    runtime_credential_add_def runtime_disable_row_def runtime_revoke_row_def runtime_limits_row_def runtime_bind_row_def
  by (auto intro!: keeps_bnd keeps_if keeps_case_option split: prod.split)

lemma keeps_runtime_checks [simp, intro]:
  "keeps v (runtime_require_manager a)" "keeps v (runtime_validate_expiry rq e)"
  by (simp_all add: runtime_require_manager_def runtime_validate_expiry_def)

lemma atomic_runtime:
  "atomic (runtime_create_principal pf sv rq a t ag daily allowance label expires)"
  "atomic (runtime_issue_credential pf sv rq a i label expires)"
  unfolding runtime_create_principal_def runtime_issue_credential_def
  by (intro atomic_intros keeps_throw_None; auto intro!: keeps_bnd keeps_throw_None split: option.split)+

lemma atomic_runtime_principal:
  "atomic (bind_identity_continuity pf sv rq a i legacy)"
  "atomic (initialize_usage_limits pf rq a i daily allowance)"
  "atomic (runtime_disable_principal pf rq a i)"
  unfolding bind_identity_continuity_def initialize_usage_limits_def runtime_disable_principal_def
  by (intro atomic_intros keeps_throw_None; auto intro!: keeps_bnd keeps_throw_None keeps_if split: option.split)+

lemma atomic_runtime_revoke: "atomic (runtime_revoke_credential pf rq a i ci)"
  unfolding runtime_revoke_credential_def
  by (intro atomic_intros keeps_throw_None; auto intro!: keeps_bnd keeps_throw_None split: option.split)

lemma run_runtime_failed: "run_runtime pf sv rq cmd d = (Inl e, d') \<Longrightarrow> d' = d"
  by (rule atomicD [of "run_runtime pf sv rq cmd"])
     (cases cmd, simp_all add: atomic_runtime atomic_runtime_principal atomic_runtime_revoke)

subsection \<open>Changes\<close>

definition unclaimed :: "pystr option \<Rightarrow> uuid \<Rightarrow> db \<Rightarrow> bool" where
  "unclaimed l i d \<longleftrightarrow> (\<forall>q \<in> set (runtime_principals d). rp_principal_id q \<noteq> i \<longrightarrow>
     rp_legacy_runtime_principal_id q \<noteq> l)"

inductive runtime_change :: "db \<Rightarrow> db \<Rightarrow> bool" where
  create: "\<lbrakk>runtime_row_ok r; rp_principal_id r \<notin> rp_principal_id ` set (runtime_principals d);
      runtime_binding_exists (rp_tenant_id r) (rp_agent_id r) d; rp_legacy_runtime_principal_id r = None;
      runtime_credential_row_ok c; rc_principal_id c = rp_principal_id r;
      rc_credential_id c \<notin> rc_credential_id ` set (runtime_credentials d)\<rbrakk>
    \<Longrightarrow> runtime_change d (d\<lparr>runtime_principals := runtime_principals d @ [r],
          runtime_credentials := runtime_credentials d @ [c], audits := audits d @ as\<rparr>)"
| issue: "\<lbrakk>runtime_credential_row_ok c; rc_principal_id c \<in> rp_principal_id ` set (runtime_principals d);
      rc_credential_id c \<notin> rc_credential_id ` set (runtime_credentials d)\<rbrakk>
    \<Longrightarrow> runtime_change d (d\<lparr>runtime_credentials := runtime_credentials d @ [c], audits := audits d @ as\<rparr>)"
| bind: "\<lbrakk>rpr_legacy b \<noteq> None; legacy_ok (rpr_legacy b); rpr_bound_at b \<noteq> None; unclaimed (rpr_legacy b) i d\<rbrakk>
    \<Longrightarrow> runtime_change d (d\<lparr>runtime_principals :=
          update_rows (\<lambda>x. rp_principal_id x = i \<and> rp_legacy_runtime_principal_id x = None
            \<and> rp_identity_continuity_bound_at x = None) (binding_written b) (runtime_principals d),
          audits := audits d @ as\<rparr>)"
| limit: "\<lbrakk>limits_ok (rpr_daily c) (rpr_allowance c)\<rbrakk>
    \<Longrightarrow> runtime_change d (d\<lparr>runtime_principals :=
          update_rows (\<lambda>x. rp_principal_id x = i \<and> rp_daily_usage_limit_units x = None
            \<and> rp_per_invocation_allowance_units x = None) (limits_written c) (runtime_principals d),
          audits := audits d @ as\<rparr>)"
| revoke: "\<lbrakk>row_of rc_credential_id ci (runtime_credentials d) = Some c; rc_revoked_at c = None\<rbrakk>
    \<Longrightarrow> runtime_change d (d\<lparr>runtime_credentials := update_rows (\<lambda>x. rc_credential_id x = ci)
          (\<lambda>x. x\<lparr>rc_revoked_at := Some now\<rparr>) (runtime_credentials d), audits := audits d @ as\<rparr>)"
| disable: "\<lbrakk>row_of rp_principal_id i (runtime_principals d) = Some r; rp_disabled_at r = None\<rbrakk>
    \<Longrightarrow> runtime_change d (d\<lparr>runtime_principals := update_rows (\<lambda>x. rp_principal_id x = i)
          (\<lambda>x. x\<lparr>rp_disabled_at := Some now\<rparr>) (runtime_principals d), audits := audits d @ as\<rparr>)"

inductive runtime_step :: "platform \<Rightarrow> runtime_service \<Rightarrow> db \<Rightarrow> db \<Rightarrow> bool" for pf sv where
  command: "run_runtime pf sv rq cmd d = (r, d') \<Longrightarrow> runtime_step pf sv d d'"

inductive_cases runtime_stepE: "runtime_step pf sv d d'"

lemma runtime_new_credential_row:
  assumes "runtime_new_credential pf sv rq i pid label expires = Inr (c, token)"
  shows "runtime_credential_row_ok (runtime_credential_to_row c)"
    "rc_principal_id (runtime_credential_to_row c) = pid"
    "rc_credential_id (runtime_credential_to_row c) = rcr_id c"
  using assms normalized_label_facts [of label]
  by (auto simp: runtime_new_credential_Inr runtime_credential_row_ok_def runtime_credential_to_row_def opt_ok_def
      split: option.splits)

lemma run_runtime_change:
  assumes run: "run_runtime pf sv rq cmd d = (Inr u, d')"
  shows "runtime_change d d'"
proof (cases cmd)
  case (CreateRuntimePrincipal a t ag daily allowance label expires)
  then obtain p c token where "runtime_create_principal pf sv rq a t ag daily allowance label expires d = (Inr (p, c, token), d')"
    using run by (auto simp: void_Inr_iff)
  note e = runtime_create_effect [OF this] and n = runtime_new_credential_row
  have "runtime_row_ok (runtime_principal_to_row p)"
    using e(3-5) by (simp add: runtime_row_ok_def runtime_principal_to_row_def limits_ok_def legacy_ok_def)
  moreover have "rp_principal_id (runtime_principal_to_row p) = rpr_id p" "rp_tenant_id (runtime_principal_to_row p) = t"
    "rp_agent_id (runtime_principal_to_row p) = ag" "rp_legacy_runtime_principal_id (runtime_principal_to_row p) = None"
    unfolding e(5) by (simp_all add: runtime_principal_to_row_def)
  ultimately show ?thesis unfolding e(9) using e(2,7,8) n [OF e(6)] by (intro create) simp_all
next
  case (BindIdentityContinuity a i legacy)
  then obtain b where "bind_identity_continuity pf sv rq a i legacy d = (Inr b, d')" using run by (auto simp: void_Inr_iff)
  from bind_effect(3) [OF this] obtain r p as where e: "reads_runtime pf i d r p"
    "rp_legacy_runtime_principal_id r = None"
    "runtime_principal_init (p\<lparr>rpr_legacy := Some legacy, rpr_bound_at := Some (clock rq 0)\<rparr>) = Inr b"
    "runtime_bind_update b d = Inr (1, d\<lparr>runtime_principals :=
            update_rows (\<lambda>x. rp_principal_id x = i \<and> rp_legacy_runtime_principal_id x = None
              \<and> rp_identity_continuity_bound_at x = None) (binding_written b) (runtime_principals d)\<rparr>)"
    "d' = d\<lparr>runtime_principals :=
            update_rows (\<lambda>x. rp_principal_id x = i \<and> rp_legacy_runtime_principal_id x = None
              \<and> rp_identity_continuity_bound_at x = None) (binding_written b) (runtime_principals d),
           audits := audits d @ as\<rparr>"
    by blast
  note D = reads_runtimeD [OF e(1)]
  have b: "rpr_id b = i" "rpr_legacy b = Some (py_strip legacy)" "legacy_ok (rpr_legacy b)" "rpr_bound_at b \<noteq> None"
    using e(3) D(3) by (auto simp: runtime_principal_init_Inr_iff)
  have "rp_identity_continuity_bound_at r = None"
    using e(1,2) by (auto simp: reads_runtime_def runtime_principal_of_def runtime_principal_init_Inr_iff)
  then have "unclaimed (rpr_legacy b) i d"
    using e(2,4) D(1,2) b(1,2)
    by (auto simp: runtime_bind_update_def runtime_principal_update_Inr_iff unclaimed_def binding_written_def split: if_splits)
  then show ?thesis unfolding e(5) using b by (intro bind) simp_all
next
  case (InitializeUsageLimits a i daily allowance)
  then obtain c where "initialize_usage_limits pf rq a i daily allowance d = (Inr c, d')" using run by (auto simp: void_Inr_iff)
  from limits_effect(4) [OF this] obtain r p as where e:
    "runtime_principal_init (p\<lparr>rpr_daily := Some daily, rpr_allowance := Some allowance\<rparr>) = Inr c"
    "d' = d\<lparr>runtime_principals :=
            update_rows (\<lambda>x. rp_principal_id x = i \<and> rp_daily_usage_limit_units x = None
              \<and> rp_per_invocation_allowance_units x = None) (limits_written c) (runtime_principals d),
           audits := audits d @ as\<rparr>" by blast
  have "limits_ok (rpr_daily c) (rpr_allowance c)" using e(1) by (auto simp: runtime_principal_init_Inr_iff)
  then show ?thesis unfolding e(2) by (rule limit)
next
  case (IssueRuntimeCredential a i label expires)
  then obtain c token where "runtime_issue_credential pf sv rq a i label expires d = (Inr (c, token), d')"
    using run by (auto simp: void_Inr_iff)
  note e = runtime_issue_effect [OF this]
  from e(4) obtain r as where "row_of rp_principal_id i (runtime_principals d) = Some r"
    "d' = d\<lparr>runtime_credentials := runtime_credentials d @ [runtime_credential_to_row c], audits := audits d @ as\<rparr>" by blast
  then have i: "i \<in> rp_principal_id ` set (runtime_principals d)"
    and d': "d' = d\<lparr>runtime_credentials := runtime_credentials d @ [runtime_credential_to_row c], audits := audits d @ as\<rparr>"
    by (auto dest!: row_of_SomeD)
  show ?thesis unfolding d' by (rule issue) (use runtime_new_credential_row [OF e(2)] e(3) i in simp_all)
next
  case (RevokeRuntimeCredential a i ci)
  then obtain c' where "runtime_revoke_credential pf rq a i ci d = (Inr c', d')" using run by (auto simp: void_Inr_iff)
  from runtime_revoke_effect(2) [OF this] show ?thesis
    by (elim exE conjE) (simp add: reads_runtime_credential_def revoke)
next
  case (DisableRuntimePrincipal a i)
  then obtain p' where "runtime_disable_principal pf rq a i d = (Inr p', d')" using run by (auto simp: void_Inr_iff)
  from runtime_disable_effect(2) [OF this] show ?thesis
    by (elim exE conjE) (simp add: reads_runtime_def disable)
qed

lemma runtime_step_change: "runtime_step pf sv d d' \<Longrightarrow> d' = d \<or> runtime_change d d'"
proof (elim runtime_stepE)
  fix rq cmd r
  assume run: "run_runtime pf sv rq cmd d = (r, d')"
  show "d' = d \<or> runtime_change d d'" using run run_runtime_failed run_runtime_change by (cases r) blast+
qed

subsection \<open>The invariant\<close>

definition runtime_ok :: "db \<Rightarrow> bool" where
  "runtime_ok d \<longleftrightarrow> distinct (map rp_principal_id (runtime_principals d))
     \<and> distinct (map rc_credential_id (runtime_credentials d))
     \<and> (\<forall>r \<in> set (runtime_principals d). runtime_row_ok r \<and> runtime_binding_exists (rp_tenant_id r) (rp_agent_id r) d
          \<and> (rp_legacy_runtime_principal_id r \<noteq> None \<longrightarrow> unclaimed (rp_legacy_runtime_principal_id r) (rp_principal_id r) d))
     \<and> (\<forall>c \<in> set (runtime_credentials d). runtime_credential_row_ok c
          \<and> rc_principal_id c \<in> rp_principal_id ` set (runtime_principals d))"

lemma binding_exists_cong:
  "agents d' = agents d \<Longrightarrow> tenants d' = tenants d \<Longrightarrow> runtime_binding_exists t a d' = runtime_binding_exists t a d"
  by (simp add: runtime_binding_exists_def)

lemma written_simps [simp]:
  "rp_principal_id (limits_written c r) = rp_principal_id r" "rp_tenant_id (limits_written c r) = rp_tenant_id r"
  "rp_agent_id (limits_written c r) = rp_agent_id r" "rp_created_at (limits_written c r) = rp_created_at r"
  "rp_disabled_at (limits_written c r) = rp_disabled_at r"
  "rp_daily_usage_limit_units (limits_written c r) = rpr_daily c"
  "rp_per_invocation_allowance_units (limits_written c r) = rpr_allowance c"
  "rp_legacy_runtime_principal_id (limits_written c r) = rp_legacy_runtime_principal_id r"
  "rp_identity_continuity_bound_at (limits_written c r) = rp_identity_continuity_bound_at r"
  "rp_principal_id (binding_written c r) = rp_principal_id r" "rp_tenant_id (binding_written c r) = rp_tenant_id r"
  "rp_agent_id (binding_written c r) = rp_agent_id r" "rp_created_at (binding_written c r) = rp_created_at r"
  "rp_disabled_at (binding_written c r) = rp_disabled_at r"
  "rp_daily_usage_limit_units (binding_written c r) = rp_daily_usage_limit_units r"
  "rp_per_invocation_allowance_units (binding_written c r) = rp_per_invocation_allowance_units r"
  "rp_legacy_runtime_principal_id (binding_written c r) = rpr_legacy c"
  "rp_identity_continuity_bound_at (binding_written c r) = map_option instant (rpr_bound_at c)"
  by (simp_all add: limits_written_def binding_written_def)

text \<open>An update of principals that keeps keys and bindings, and legacy identities apart.\<close>

lemma runtime_ok_update:
  assumes ok: "runtime_ok d"
    and same: "\<And>x. rp_principal_id (f x) = rp_principal_id x" "\<And>x. rp_tenant_id (f x) = rp_tenant_id x"
      "\<And>x. rp_agent_id (f x) = rp_agent_id x"
    and row: "\<And>x. runtime_row_ok x \<Longrightarrow> q x \<Longrightarrow> runtime_row_ok (f x)"
    and apart: "\<And>x y. x \<in> set (runtime_principals d) \<Longrightarrow> y \<in> set (runtime_principals d) \<Longrightarrow>
      rp_principal_id y \<noteq> rp_principal_id x \<Longrightarrow>
      rp_legacy_runtime_principal_id (if q x then f x else x) \<noteq> None \<Longrightarrow>
      rp_legacy_runtime_principal_id (if q y then f y else y) \<noteq> rp_legacy_runtime_principal_id (if q x then f x else x)"
  shows "runtime_ok (d\<lparr>runtime_principals := update_rows q f (runtime_principals d), audits := as\<rparr>)" (is "runtime_ok ?d")
proof -
  have keys: "map rp_principal_id (runtime_principals ?d) = map rp_principal_id (runtime_principals d)"
    by (simp add: map_key_update_rows same)
  then have kset: "rp_principal_id ` set (runtime_principals ?d) = rp_principal_id ` set (runtime_principals d)"
    by (metis set_map)
  have "runtime_row_ok z \<and> runtime_binding_exists (rp_tenant_id z) (rp_agent_id z) ?d
      \<and> (rp_legacy_runtime_principal_id z \<noteq> None \<longrightarrow> unclaimed (rp_legacy_runtime_principal_id z) (rp_principal_id z) ?d)"
    if z: "z \<in> set (runtime_principals ?d)" for z
  proof -
    obtain x where x: "x \<in> set (runtime_principals d)" "z = (if q x then f x else x)"
      using z by (auto simp: set_update_rows)
    have ids: "rp_principal_id z = rp_principal_id x" "rp_tenant_id z = rp_tenant_id x" "rp_agent_id z = rp_agent_id x"
      using x(2) same by simp_all
    have old: "runtime_row_ok x" "runtime_binding_exists (rp_tenant_id x) (rp_agent_id x) d"
      using ok x(1) by (auto simp: runtime_ok_def)
    have "unclaimed (rp_legacy_runtime_principal_id z) (rp_principal_id z) ?d" if l: "rp_legacy_runtime_principal_id z \<noteq> None"
      unfolding unclaimed_def
    proof (intro ballI impI)
      fix w assume w: "w \<in> set (runtime_principals ?d)" "rp_principal_id w \<noteq> rp_principal_id z"
      then obtain y where y: "y \<in> set (runtime_principals d)" "w = (if q y then f y else y)"
        by (auto simp: set_update_rows)
      have "rp_principal_id y \<noteq> rp_principal_id x" using w(2) y(2) ids same by (auto split: if_splits)
      then show "rp_legacy_runtime_principal_id w \<noteq> rp_legacy_runtime_principal_id z"
        using apart [OF x(1) y(1)] x(2) y(2) l by blast
    qed
    moreover have "runtime_row_ok z" using old(1) row x(2) by simp
    moreover have "runtime_binding_exists (rp_tenant_id z) (rp_agent_id z) ?d"
      using old(2) ids by (simp add: runtime_binding_exists_def)
    ultimately show ?thesis by blast
  qed
  moreover have "runtime_credentials ?d = runtime_credentials d" by simp
  ultimately show ?thesis using ok unfolding runtime_ok_def keys kset by metis
qed

lemma unclaimed_old:
  "runtime_ok d \<Longrightarrow> x \<in> set (runtime_principals d) \<Longrightarrow> y \<in> set (runtime_principals d) \<Longrightarrow>
   rp_principal_id y \<noteq> rp_principal_id x \<Longrightarrow> rp_legacy_runtime_principal_id x \<noteq> None \<Longrightarrow>
   rp_legacy_runtime_principal_id y \<noteq> rp_legacy_runtime_principal_id x"
  by (auto simp: runtime_ok_def unclaimed_def)

lemma runtime_change_ok:
  assumes "runtime_change d d'" "runtime_ok d"
  shows "runtime_ok d'"
  using assms
proof (cases rule: runtime_change.cases)
  case (create r c as)
  have "unclaimed l i (d\<lparr>runtime_principals := runtime_principals d @ [r], runtime_credentials := rs, audits := bs\<rparr>)
      = unclaimed l i d" if "l \<noteq> None" for l i rs bs
    using that create(5) by (auto simp: unclaimed_def)
  then show ?thesis using assms(2) create by (auto simp: runtime_ok_def runtime_binding_exists_def)
next
  case (issue c as)
  then show ?thesis using assms(2) by (auto simp: runtime_ok_def runtime_binding_exists_def unclaimed_def)
next
  case (bind b i as)
  show ?thesis unfolding bind(1)
  proof (rule runtime_ok_update [OF assms(2)], goal_cases)
    case (4 x)
    then show ?case using bind(2-4) by (auto simp: runtime_row_ok_def)
  next
    case (5 x y)
    then show ?case using bind(5) unclaimed_old [OF assms(2) 5(1,2,3)]
      by (auto simp: unclaimed_def split: if_splits)
  qed simp_all
next
  case (limit c as i)
  show ?thesis unfolding limit(1)
    by (rule runtime_ok_update [OF assms(2)])
       (use limit(2) unclaimed_old [OF assms(2)] in \<open>auto simp: runtime_row_ok_def split: if_splits\<close>)
next
  case (revoke ci c as now)
  then show ?thesis using assms(2)
    by (auto simp: runtime_ok_def runtime_binding_exists_def unclaimed_def map_key_update_rows set_update_rows
        runtime_credential_row_ok_def)
next
  case (disable i r as now)
  show ?thesis unfolding disable(1)
    by (rule runtime_ok_update [OF assms(2)])
       (use unclaimed_old [OF assms(2)] in \<open>auto simp: runtime_row_ok_def split: if_splits\<close>)
qed

lemma runtime_step_ok: "runtime_step pf sv d d' \<Longrightarrow> runtime_ok d \<Longrightarrow> runtime_ok d'"
  using runtime_step_change runtime_change_ok by blast

lemma runtime_steps_ok: "(runtime_step pf sv)\<^sup>*\<^sup>* d d' \<Longrightarrow> runtime_ok d \<Longrightarrow> runtime_ok d'"
  by (induction rule: rtranclp_induct) (auto dest: runtime_step_ok)

subsection \<open>Columns written once\<close>

definition limits_column :: "runtime_principal_row \<Rightarrow> (int \<times> int) option" where
  "limits_column r = (case (rp_daily_usage_limit_units r, rp_per_invocation_allowance_units r) of
     (Some d, Some a) \<Rightarrow> Some (d, a) | _ \<Rightarrow> None)"

lemma limits_column_simps [simp]:
  "limits_column (binding_written b r) = limits_column r" "limits_column (r\<lparr>rp_disabled_at := x\<rparr>) = limits_column r"
  by (simp_all add: limits_column_def)

definition binding_of :: "runtime_principal_row \<Rightarrow> uuid \<times> uuid \<times> int" where
  "binding_of r = (rp_tenant_id r, rp_agent_id r, rp_created_at r)"

definition runtime_unrevoked :: "runtime_credential_row \<Rightarrow> runtime_credential_row" where
  "runtime_unrevoked r = r\<lparr>rc_revoked_at := None\<rparr>"

definition runtime_ok_step :: "platform \<Rightarrow> runtime_service \<Rightarrow> db \<Rightarrow> db \<Rightarrow> bool" where
  "runtime_ok_step pf sv d d' \<longleftrightarrow> runtime_ok d \<and> runtime_step pf sv d d'"

lemma runtime_ok_steps:
  "(runtime_step pf sv)\<^sup>*\<^sup>* d d' \<Longrightarrow> runtime_ok d \<Longrightarrow> (runtime_ok_step pf sv)\<^sup>*\<^sup>* d d'"
proof (induction rule: rtranclp_induct)
  case (step y z)
  then have "runtime_ok_step pf sv y z" using runtime_steps_ok by (auto simp: runtime_ok_step_def)
  then show ?case using step by (auto intro: rtranclp.rtrancl_into_rtrancl)
qed simp

lemma runtime_principal_written_once:
  assumes "runtime_change d d'" "runtime_ok d" "r \<in> set (runtime_principals d)"
  shows "\<exists>r' \<in> set (runtime_principals d'). rp_principal_id r' = rp_principal_id r \<and> binding_of r' = binding_of r
    \<and> (rp_disabled_at r' = rp_disabled_at r \<or> rp_disabled_at r = None)
    \<and> (limits_column r' = limits_column r \<or> limits_column r = None)
    \<and> (rp_legacy_runtime_principal_id r' = rp_legacy_runtime_principal_id r \<or> rp_legacy_runtime_principal_id r = None)"
  using assms(1)
proof (cases rule: runtime_change.cases)
  case (bind b i as)
  then show ?thesis using assms(3)
    by (intro bexI [of _ "if rp_principal_id r = i \<and> rp_legacy_runtime_principal_id r = None
        \<and> rp_identity_continuity_bound_at r = None then binding_written b r else r"])
       (auto simp: set_update_rows binding_of_def)
next
  case (limit c as i)
  then show ?thesis using assms(3)
    by (intro bexI [of _ "if rp_principal_id r = i \<and> rp_daily_usage_limit_units r = None
              \<and> rp_per_invocation_allowance_units r = None then limits_written c r else r"])
       (auto simp: set_update_rows binding_of_def limits_column_def)
next
  case (disable i q as now)
  have "rp_disabled_at r = None" if "rp_principal_id r = i"
    using that only_row [of rp_principal_id "runtime_principals d" i q r] disable(2,3) assms(2,3)
    by (simp add: runtime_ok_def)
  then show ?thesis using assms(3) disable(1)
    by (intro bexI [of _ "if rp_principal_id r = i then r\<lparr>rp_disabled_at := Some now\<rparr> else r"])
       (auto simp: set_update_rows binding_of_def)
qed (use assms(3) in auto)

lemma runtime_credential_written_once:
  assumes "runtime_change d d'" "runtime_ok d" "r \<in> set (runtime_credentials d)"
  shows "\<exists>r' \<in> set (runtime_credentials d'). rc_credential_id r' = rc_credential_id r
    \<and> runtime_unrevoked r' = runtime_unrevoked r \<and> (rc_revoked_at r' = rc_revoked_at r \<or> rc_revoked_at r = None)"
  using assms(1)
proof (cases rule: runtime_change.cases)
  case (revoke ci c as now)
  then show ?thesis
    using assms(2,3) only_row [of rc_credential_id "runtime_credentials d" ci c]
    by (auto simp: runtime_unrevoked_def runtime_ok_def intro!: write_once_update)
qed (use assms(3) in auto)

lemma runtime_ok_stepD:
  assumes "runtime_ok_step pf sv d d'"
  shows "runtime_ok d'" "d' = d \<or> runtime_change d d'" "runtime_ok d"
  using assms runtime_step_ok [of pf sv d d'] runtime_step_change [of pf sv d d'] by (auto simp: runtime_ok_step_def)

lemma runtime_ok_distinct:
  "runtime_ok d \<Longrightarrow> distinct (map rp_principal_id (runtime_principals d))"
  "runtime_ok d \<Longrightarrow> distinct (map rc_credential_id (runtime_credentials d))"
  by (simp_all add: runtime_ok_def)

lemma principal_column_once:
  assumes "runtime_ok_step pf sv d d'" "r \<in> set (runtime_principals d)"
  shows "\<exists>r' \<in> set (runtime_principals d'). rp_principal_id r' = rp_principal_id r \<and> binding_of r' = binding_of r
    \<and> (rp_disabled_at r' = rp_disabled_at r \<or> rp_disabled_at r = None)
    \<and> (limits_column r' = limits_column r \<or> limits_column r = None)
    \<and> (rp_legacy_runtime_principal_id r' = rp_legacy_runtime_principal_id r \<or> rp_legacy_runtime_principal_id r = None)"
  using runtime_ok_stepD [OF assms(1)] runtime_principal_written_once [of d d' r] assms(2) by blast

interpretation runtime_disabled_once: write_once runtime_principals rp_principal_id rp_disabled_at binding_of
  "runtime_ok_step pf sv" for pf sv
  using principal_column_once runtime_ok_stepD(1) runtime_ok_distinct(1) by unfold_locales blast+

interpretation runtime_limits_once: write_once runtime_principals rp_principal_id limits_column binding_of
  "runtime_ok_step pf sv" for pf sv
  using principal_column_once runtime_ok_stepD(1) runtime_ok_distinct(1) by unfold_locales blast+

interpretation runtime_legacy_once: write_once runtime_principals rp_principal_id rp_legacy_runtime_principal_id
  binding_of "runtime_ok_step pf sv" for pf sv
  using principal_column_once runtime_ok_stepD(1) runtime_ok_distinct(1) by unfold_locales blast+

interpretation runtime_credential_once: write_once runtime_credentials rc_credential_id rc_revoked_at runtime_unrevoked
  "runtime_ok_step pf sv" for pf sv
proof (unfold_locales, goal_cases)
  case (1 s s' r)
  then show ?case using runtime_ok_stepD [of pf sv s s'] runtime_credential_written_once [of s s' r] by blast
next
  case (2 s s')
  then show ?case using runtime_ok_stepD(1) runtime_ok_distinct(2) by blast
qed

end
