(* ===== verification/Catalogue.thy ===== *)
theory Catalogue
  imports Policy Atomicity
begin

text \<open>
  The catalogue: tenants, the agents and models they own, and permissions, as one state machine
  over the use cases of three contexts. A step runs any of them; tables only grow, permissions
  are overwritten in place, and the invariant ties the tables together: unique identities and
  names, owners that exist, and permissions only between an agent and a model of one tenant.
\<close>

datatype catalogue_command =
    CreateTenant pystr
  | RegisterAgent uuid pystr
  | RegisterModel uuid pystr provider pystr
  | SetPermission pystr uuid uuid uuid policy_effect

fun run_catalogue :: "platform \<Rightarrow> request \<Rightarrow> catalogue_command \<Rightarrow> (exc, db, unit) op" where
  "run_catalogue pf rq (CreateTenant name) = void (create_tenant pf rq name)"
| "run_catalogue pf rq (RegisterAgent t name) = void (register_agent pf rq t name)"
| "run_catalogue pf rq (RegisterModel t name p ref) = void (register_model pf rq t name p ref)"
| "run_catalogue pf rq (SetPermission actor t a m eff) = void (set_permission pf rq actor t a m eff)"

inductive catalogue_step :: "platform \<Rightarrow> db \<Rightarrow> db \<Rightarrow> bool" for pf where
  command: "run_catalogue pf rq cmd d = (r, d') \<Longrightarrow> catalogue_step pf d d'"

inductive_cases catalogue_stepE: "catalogue_step pf d d'"

lemma run_catalogue_failed: "run_catalogue pf rq cmd d = (Inl e, d') \<Longrightarrow> d' = d"
  by (cases cmd) (auto simp: void_Inl_iff dest: create_tenant_failed register_agent_failed register_model_failed
      set_permission_failed)

text \<open>What a permission change is, on the tables.\<close>

lemma set_permission_effect:
  assumes "set_permission pf rq actor t a m eff d = (Inr p, d')"
  shows "tenant_exists t d" "owned_by t (admitted_agent a d)" "owned_by t (admitted_model m d)"
    "\<exists>previous r d1. effective_permission pf (effective_row t a m d) = Inr previous
       \<and> permission_upsert (proposed_row rq t a m eff) d = Inr (r, d1) \<and> permission_from_row pf r = Inr p
       \<and> d' = d1\<lparr>audits := audits d1 @ [audit_to_row (permission_audit pf rq actor previous p)]\<rparr>"
proof -
  obtain previous r d1 s where e: "tenant_exists t d" "owned_by t (admitted_agent a d)" "owned_by t (admitted_model m d)"
    "effective_permission pf (effective_row t a m d) = Inr previous"
    "permission_upsert (proposed_row rq t a m eff) d = Inr (r, d1)" "permission_from_row pf r = Inr p"
    "audit_write (permission_audit pf rq actor previous p) \<lparr>committed = d, working = d1\<rparr> = (Inr (), s)" "d' = working s"
    using assms by (auto simp: set_permission_Inr_iff)
  show "tenant_exists t d" "owned_by t (admitted_agent a d)" "owned_by t (admitted_model m d)" by (rule e)+
  show "\<exists>previous r d1. effective_permission pf (effective_row t a m d) = Inr previous
       \<and> permission_upsert (proposed_row rq t a m eff) d = Inr (r, d1) \<and> permission_from_row pf r = Inr p
       \<and> d' = d1\<lparr>audits := audits d1 @ [audit_to_row (permission_audit pf rq actor previous p)]\<rparr>"
    using e audit_write_InrD [OF e(7)] by (intro exI [of _ previous] exI [of _ r] exI [of _ d1]) simp
qed

lemma upsert_tables:
  assumes "permission_upsert r d = Inr (r', d1)"
  shows "tenants d1 = tenants d" "agents d1 = agents d" "models d1 = models d" "audits d1 = audits d"
    "decisions d1 = decisions d" "invocations d1 = invocations d"
  using permission_upsert_frame(2) [OF assms] by (metis db.select_convs db.surjective db.update_convs(4))+

lemma run_catalogue_grows:
  assumes "run_catalogue pf rq cmd d = (Inr u, d')"
  shows "\<exists>ts as ms. tenants d' = tenants d @ ts \<and> agents d' = agents d @ as \<and> models d' = models d @ ms"
proof (cases cmd)
  case (CreateTenant name)
  then show ?thesis using assms by (auto simp: void_Inr_iff create_tenant_Inr_iff tenant_insert_Inr_iff)
next
  case (RegisterAgent t name)
  then show ?thesis using assms by (auto simp: void_Inr_iff register_agent_Inr_iff agent_insert_Inr_iff)
next
  case (RegisterModel t name p ref)
  then show ?thesis using assms by (auto simp: void_Inr_iff register_model_Inr_iff model_insert_Inr_iff)
next
  case (SetPermission actor t a m eff)
  then obtain p where "set_permission pf rq actor t a m eff d = (Inr p, d')" using assms by (auto simp: void_Inr_iff)
  from set_permission_effect(4) [OF this] show ?thesis by (auto dest: upsert_tables)
qed

lemma catalogue_steps_grow:
  "(catalogue_step pf)\<^sup>*\<^sup>* d d' \<Longrightarrow>
   \<exists>ts as ms. tenants d' = tenants d @ ts \<and> agents d' = agents d @ as \<and> models d' = models d @ ms"
proof (induction rule: rtranclp_induct)
  case (step y z)
  have "\<exists>ts as ms. tenants z = tenants y @ ts \<and> agents z = agents y @ as \<and> models z = models y @ ms"
    using step.hyps(2)
  proof (elim catalogue_stepE)
    fix rq cmd r
    assume run: "run_catalogue pf rq cmd y = (r, z)"
    show ?thesis
    proof (cases r)
      case (Inl e)
      then have "z = y" using run run_catalogue_failed by blast
      then show ?thesis by simp
    next
      case (Inr u)
      then show ?thesis using run run_catalogue_grows by blast
    qed
  qed
  then show ?case using step.IH by auto
qed simp

lemma row_of_grows: "row_of key k rows = Some r \<Longrightarrow> row_of key k (rows @ new) = Some r"
  by (simp add: row_of_append)

text \<open>The invariant that ties the tables of the three contexts together.\<close>

definition permissions_owned :: "db \<Rightarrow> bool" where
  "permissions_owned d \<longleftrightarrow> (\<forall>r \<in> set (permissions d). pr_tenant_id r \<in> tr_id ` set (tenants d)
     \<and> (\<exists>a \<in> set (agents d). ar_id a = pr_agent_id r \<and> ar_tenant_id a = pr_tenant_id r)
     \<and> (\<exists>m \<in> set (models d). mr_id m = pr_model_id r \<and> mr_tenant_id m = pr_tenant_id r))"

definition catalogue_ok :: "platform \<Rightarrow> db \<Rightarrow> bool" where
  "catalogue_ok pf d \<longleftrightarrow> tenants_ok pf d \<and> assets_ok d \<and> permissions_ok d \<and> permissions_owned d"

lemma upsert_rows:
  assumes "permission_upsert r d = Inr (r', d1)" "q \<in> set (permissions d1)"
  shows "permission_key q = permission_key r \<or> q \<in> set (permissions d)"
proof (cases "effective_row (pr_tenant_id r) (pr_agent_id r) (pr_model_id r) d")
  case None
  then show ?thesis using assms permission_upsert_new [OF None] by auto
next
  case (Some p)
  then show ?thesis using assms permission_upsert_existing [OF Some] by (auto simp: set_update_rows)
qed

lemma set_permission_ok:
  assumes run: "set_permission pf rq actor t a m eff d = (Inr p, d')" and ok: "catalogue_ok pf d"
  shows "catalogue_ok pf d'"
proof -
  note own = set_permission_effect(1-3) [OF run]
  obtain r d1 as where e: "permission_upsert (proposed_row rq t a m eff) d = Inr (r, d1)"
    "permission_from_row pf r = Inr p" "d' = d1\<lparr>audits := as\<rparr>"
    using set_permission_effect(4) [OF run] by blast
  note T = upsert_tables [OF e(1)]
  have "r = upserted (proposed_row rq t a m eff) d" by (rule permission_upsert_frame(1) [OF e(1)])
  then have "pr_created_at (upserted (proposed_row rq t a m eff) d) \<le> clock_at rq 0"
    using e(2) by (simp add: permission_from_row_Inr_iff)
  then have "permissions_ok d1"
    using ok by (intro permission_upsert_ok [OF e(1)]) (simp_all add: catalogue_ok_def)
  moreover have "permissions_owned d1"
    unfolding permissions_owned_def T
  proof
    fix q assume q: "q \<in> set (permissions d1)"
    show "pr_tenant_id q \<in> tr_id ` set (tenants d)
        \<and> (\<exists>a \<in> set (agents d). ar_id a = pr_agent_id q \<and> ar_tenant_id a = pr_tenant_id q)
        \<and> (\<exists>m \<in> set (models d). mr_id m = pr_model_id q \<and> mr_tenant_id m = pr_tenant_id q)"
    proof (cases "q \<in> set (permissions d)")
      case True
      then show ?thesis using ok by (simp add: catalogue_ok_def permissions_owned_def)
    next
      case False
      then have "permission_key q = (t, a, m)" using upsert_rows [OF e(1) q] by simp
      then show ?thesis using own
        by (auto simp: permission_key_def tenant_exists_def owned_by_agent owned_by_model dest!: row_of_SomeD)
    qed
  qed
  ultimately show ?thesis using ok T unfolding e(3)
    by (simp add: catalogue_ok_def tenants_ok_def assets_ok_def permissions_ok_def permissions_owned_def)
qed

lemma grown_tables_ok:
  assumes "permissions_owned d" "permissions d' = permissions d" "tenants d' = tenants d @ ts" "agents d' = agents d @ as"
    "models d' = models d @ ms"
  shows "permissions_owned d'"
  using assms unfolding permissions_owned_def by (auto simp: ball_Un)

lemma run_catalogue_ok:
  assumes run: "run_catalogue pf rq cmd d = (Inr u, d')" and ok: "catalogue_ok pf d"
  shows "catalogue_ok pf d'"
proof -
  obtain ts as ms where grow: "tenants d' = tenants d @ ts" "agents d' = agents d @ as" "models d' = models d @ ms"
    using run_catalogue_grows [OF run] by blast
  have parts: "tenants_ok pf d" "assets_ok d" "permissions_ok d" "permissions_owned d"
    using ok by (simp_all add: catalogue_ok_def)
  show ?thesis
  proof (cases cmd)
    case (CreateTenant name)
    then obtain t where t: "create_tenant pf rq name d = (Inr t, d')" using run by (auto simp: void_Inr_iff)
    then have d': "d' = d\<lparr>tenants := tenants d @ [tenant_to_row t]\<rparr>" by (simp add: create_tenant_Inr_iff tenant_insert_Inr_iff)
    then have "permissions_owned d'" using grow by (intro grown_tables_ok [OF parts(4)]) simp_all
    moreover have "assets_ok d'" using parts(2) unfolding d' by (auto simp: assets_ok_def)
    moreover have "permissions_ok d'" using parts(3) unfolding d' by (simp add: permissions_ok_def)
    ultimately show ?thesis using create_tenant_keeps_ok [OF parts(1), of rq name] t by (simp add: catalogue_ok_def)
  next
    case (RegisterAgent t name)
    then obtain a where a: "register_agent pf rq t name d = (Inr a, d')" using run by (auto simp: void_Inr_iff)
    then have d': "d' = d\<lparr>agents := agents d @ [agent_to_row a]\<rparr>" by (simp add: register_agent_Inr_iff agent_insert_Inr_iff)
    then have "permissions_owned d'" using grow by (intro grown_tables_ok [OF parts(4)]) simp_all
    moreover have "tenants_ok pf d'" "permissions_ok d'"
      using parts unfolding d' by (simp_all add: tenants_ok_def permissions_ok_def)
    ultimately show ?thesis using register_agent_keeps_assets [OF parts(2), of pf rq t name] a by (simp add: catalogue_ok_def)
  next
    case (RegisterModel t name p ref)
    then obtain m where m: "register_model pf rq t name p ref d = (Inr m, d')" using run by (auto simp: void_Inr_iff)
    then have d': "d' = d\<lparr>models := models d @ [model_to_row m]\<rparr>" by (simp add: register_model_Inr_iff model_insert_Inr_iff)
    then have "permissions_owned d'" using grow by (intro grown_tables_ok [OF parts(4)]) simp_all
    moreover have "tenants_ok pf d'" "permissions_ok d'"
      using parts unfolding d' by (simp_all add: tenants_ok_def permissions_ok_def)
    ultimately show ?thesis using register_model_keeps_assets [OF parts(2), of pf rq t name p ref] m by (simp add: catalogue_ok_def)
  next
    case (SetPermission actor t a m eff)
    then show ?thesis using run set_permission_ok [OF _ ok] by (auto simp: void_Inr_iff)
  qed
qed

lemma catalogue_step_ok: "catalogue_step pf d d' \<Longrightarrow> catalogue_ok pf d \<Longrightarrow> catalogue_ok pf d'"
proof (elim catalogue_stepE)
  fix rq cmd r
  assume ok: "catalogue_ok pf d" and run: "run_catalogue pf rq cmd d = (r, d')"
  show "catalogue_ok pf d'" using run ok run_catalogue_failed run_catalogue_ok by (cases r) blast+
qed

lemma catalogue_steps_ok: "(catalogue_step pf)\<^sup>*\<^sup>* d d' \<Longrightarrow> catalogue_ok pf d \<Longrightarrow> catalogue_ok pf d'"
  by (induction rule: rtranclp_induct) (auto dest: catalogue_step_ok)

end
