(* ===== verification/GatewayLaws.thy ===== *)
theory GatewayLaws
  imports Gateway
begin

text \<open>
  What one run of \<open>CreateInvocationHandler\<close> does to the store and to the provider, stage by
  stage: it appends at most one decision and at most one invocation, calls the provider at most
  once, and only past the three checks. The stage lemmas carry the properties of the root
  theory and the ledger bounds of \<open>GatewayBudget\<close>.
\<close>

lemma on_db_run: "on_db m w = (fst (m (w_db w)), w\<lparr>w_db := snd (m (w_db w))\<rparr>)"
  by (simp add: on_db_def split: prod.split)

lemma on_db_Inr_iff [op_inv]:
  "on_db m w = (Inr a, w') \<longleftrightarrow> (\<exists>d. m (w_db w) = (Inr a, d) \<and> w' = w\<lparr>w_db := d\<rparr>)"
  by (auto simp: on_db_def split: prod.splits)

lemma on_db_Inl_iff:
  "on_db m w = (Inl e, w') \<longleftrightarrow> (\<exists>d. m (w_db w) = (Inl e, d) \<and> w' = w\<lparr>w_db := d\<rparr>)"
  by (auto simp: on_db_def split: prod.splits)

lemma read_world_run [simp]: "read_world f w = (f (w_db w), w)"
  by (simp add: read_world_def)

subsection \<open>What a run may add\<close>

definition advances ::
  "world \<Rightarrow> world \<Rightarrow> decision_row list \<Rightarrow> invocation_row list \<Rightarrow> (pystr \<times> pystr) list \<Rightarrow> bool" where
  "advances w w' ds is calls \<longleftrightarrow>
     w_db w' = (w_db w)\<lparr>decisions := decisions (w_db w) @ ds, invocations := invocations (w_db w) @ is\<rparr>
     \<and> provider_calls w' = provider_calls w @ calls"

lemma advances_refl: "advances w w [] [] []"
  by (simp add: advances_def)

lemma advances_trans:
  "advances w w1 ds is cs \<Longrightarrow> advances w1 w2 ds' is' cs' \<Longrightarrow> advances w w2 (ds @ ds') (is @ is') (cs @ cs')"
  by (simp add: advances_def)

definition from_core :: "invocation_core \<Rightarrow> invocation \<Rightarrow> bool" where
  "from_core core v \<longleftrightarrow> iv_id v = ic_id core \<and> iv_tenant_id v = ic_tenant_id core
     \<and> iv_agent_id v = ic_agent_id core \<and> iv_model_id v = ic_model_id core
     \<and> iv_started_at v = ic_started_at core \<and> iv_completed_at v = ic_completed_at core
     \<and> iv_policy_decision_id v = ic_decision_id core \<and> iv_runtime_principal_id v = ic_principal_id core
     \<and> iv_input_text v = py_strip (ic_input_text core) \<and> invocation_ok v"

lemma constructed:
  "invocation_succeeded core out u rid cst = Inr v \<Longrightarrow> from_core core v \<and> iv_status v = SUCCEEDED
     \<and> iv_output_text v = Some out \<and> iv_usage v = u \<and> iv_estimated_cost v = cst"
  "invocation_failed core = Inr v \<Longrightarrow> from_core core v \<and> iv_status v = FAILED
     \<and> iv_usage v = None \<and> iv_estimated_cost v = None"
  "invocation_denied core = Inr v \<Longrightarrow> from_core core v \<and> iv_status v = DENIED
     \<and> iv_usage v = None \<and> iv_estimated_cost v = None"
  "invocation_limited core c l a win = Inr v \<Longrightarrow> from_core core v \<and> iv_status v = LIMITED
     \<and> iv_usage v = None \<and> iv_estimated_cost v = None"
  "invocation_cost_limited core dc dl da win = Inr v \<Longrightarrow> from_core core v \<and> iv_status v = COST_LIMITED
     \<and> iv_usage v = None \<and> iv_estimated_cost v = None"
  by (auto simp: invocation_succeeded_def invocation_failed_def invocation_denied_def invocation_limited_def
      invocation_cost_limited_def and_then_Inr_iff invocation_init_Inr_iff from_core_def blank_invocation_def)

lemma persist_invocation_cases:
  assumes "persist_invocation v w = (r, w')"
  shows "(\<exists>v'. v = Inr v' \<and> r = Inr v' \<and> invocation_insert (invocation_to_row v') (w_db w) = Inr (w_db w')
           \<and> advances w w' [] [invocation_to_row v'] [])
    \<or> (\<exists>x. r = Inl x \<and> w' = w)"
proof (cases v)
  case (Inl x)
  then show ?thesis using assms by (auto simp: persist_invocation_def)
next
  case (Inr v')
  obtain r1 d where p: "persist invocation_add v' (w_db w) = (r1, d)" by fastforce
  have w': "r = r1" "w' = w\<lparr>w_db := d\<rparr>" using assms Inr p by (simp_all add: persist_invocation_def on_db_run)
  show ?thesis
  proof (cases r1)
    case Inl
    then show ?thesis using p w' invocation_repo.persist_failed by fastforce
  next
    case (Inr v2)
    then have "v2 = v'" "invocation_insert (invocation_to_row v') (w_db w) = Inr d"
      using p by (auto simp: persist_Inr_iff invocation_add_Inr_iff)
    then show ?thesis using Inr w' \<open>v = Inr v'\<close>
      by (auto simp: advances_def invocation_insert_Inr_iff)
  qed
qed

lemma refuse_cases:
  assumes "refuse v e w = (r, w')"
  shows "(\<exists>v'. v = Inr v' \<and> r = Inl e \<and> advances w w' [] [invocation_to_row v'] [])
    \<or> (\<exists>x. r = Inl x \<and> w' = w)"
proof -
  obtain r1 w1 where p: "persist_invocation v w = (r1, w1)" by fastforce
  then show ?thesis using assms persist_invocation_cases [OF p] by (auto simp: refuse_def)
qed

subsection \<open>The provider call\<close>

lemma openai_invoke_cases:
  assumes "openai_invoke p ref text w = (r, w')"
  shows "(\<exists>c rs. openai_client p = Some c \<and> c ref text = Inr rs
            \<and> r = Inr \<lparr>pi_output_text = rs_output_text rs, pi_usage = normalized_usage (rs_usage rs),
                pi_response_id = provider_response_id (rs_id rs)\<rparr>
            \<and> advances w w' [] [] [(ref, text)])
    \<or> (\<exists>m calls. r = Inl (ProviderTransportError m) \<and> advances w w' [] [] calls
            \<and> calls \<in> {[], [(ref, text)]})"
  using assms
  by (auto simp: openai_invoke_def Let_def advances_def split: option.splits sum.splits if_splits)

definition provider_success ::
  "gateway \<Rightarrow> pystr \<Rightarrow> pystr \<Rightarrow> invocation_core \<Rightarrow> invocation \<Rightarrow> bool" where
  "provider_success gw provider ref core v \<longleftrightarrow> iv_status v = SUCCEEDED \<and> from_core core v
     \<and> (\<exists>c rs. openai_client (gw_provider gw) = Some c \<and> c ref (ic_input_text core) = Inr rs
          \<and> iv_usage v = normalized_usage (rs_usage rs) \<and> iv_output_text v = Some (rs_output_text rs)
          \<and> attribute_cost (iv_usage v) (gw_pricing gw (provider, ref)) = Inr (iv_estimated_cost v))"

definition uncharged :: "invocation \<Rightarrow> bool" where
  "uncharged v \<longleftrightarrow> iv_status v \<noteq> SUCCEEDED \<and> iv_usage v = None \<and> iv_estimated_cost v = None"

text \<open>The rows a stage may append: one at most, a success only together with a call.\<close>

definition rows_ok ::
  "gateway \<Rightarrow> pystr \<Rightarrow> pystr \<Rightarrow> invocation_core \<Rightarrow> invocation_row list \<Rightarrow> (pystr \<times> pystr) list \<Rightarrow> bool" where
  "rows_ok gw provider ref core is calls \<longleftrightarrow>
     (calls = [] \<or> calls = [(ref, ic_input_text core)])
     \<and> (is = [] \<or> (\<exists>v. is = [invocation_to_row v] \<and> from_core core v
           \<and> (uncharged v \<or> provider_success gw provider ref core v \<and> calls \<noteq> [])))"

lemma rows_ok_Nil: "rows_ok gw provider ref core [] []"
  by (simp add: rows_ok_def)

lemma rows_ok_refused: "from_core core v \<Longrightarrow> uncharged v \<Longrightarrow> rows_ok gw provider ref core [invocation_to_row v] []"
  by (auto simp: rows_ok_def)

lemma call_provider_effect:
  assumes "call_provider gw provider ref core w = (r, w')"
  shows "\<exists>is calls. advances w w' [] is calls \<and> rows_ok gw provider ref core is calls
    \<and> (\<forall>v. r = Inr v \<longrightarrow> is = [invocation_to_row v] \<and> provider_success gw provider ref core v
          \<and> invocation_insert (invocation_to_row v) (w_db w) = Inr (w_db w'))"
proof -
  let ?text = "ic_input_text core"
  obtain r1 w1 where inv: "openai_invoke (gw_provider gw) ref ?text w = (r1, w1)" by fastforce
  from openai_invoke_cases [OF inv] show ?thesis
  proof (elim disjE exE conjE)
    fix c rs
    assume c: "openai_client (gw_provider gw) = Some c" "c ref ?text = Inr rs"
      and r1: "r1 = Inr \<lparr>pi_output_text = rs_output_text rs, pi_usage = normalized_usage (rs_usage rs),
                pi_response_id = provider_response_id (rs_id rs)\<rparr>"
      and adv: "advances w w1 [] [] [(ref, ?text)]"
    let ?cost = "attribute_cost (normalized_usage (rs_usage rs)) (gw_pricing gw (provider, ref))"
    have db1: "w_db w1 = w_db w" using adv by (simp add: advances_def)
    show ?thesis
    proof (cases ?cost)
      case (Inl e)
      then have "(r, w') = (Inl e, w1)"
        using assms inv r1 by (simp add: call_provider_def catch_def bnd_def)
      then show ?thesis using adv
        by (intro exI [of _ "[]"] exI [of _ "[(ref, ?text)]"]) (simp add: rows_ok_def)
    next
      case (Inr cst)
      let ?v = "invocation_succeeded core (rs_output_text rs) (normalized_usage (rs_usage rs))
          (provider_response_id (rs_id rs)) cst"
      have p: "persist_invocation ?v w1 = (r, w')"
        using assms inv r1 Inr by (simp add: call_provider_def catch_def bnd_def)
      from persist_invocation_cases [OF p] show ?thesis
      proof (elim disjE exE conjE)
        fix v'
        assume v': "?v = Inr v'" "r = Inr v'" "advances w1 w' [] [invocation_to_row v'] []"
          "invocation_insert (invocation_to_row v') (w_db w1) = Inr (w_db w')"
        have "provider_success gw provider ref core v'"
          using constructed(1) [OF v'(1)] c Inr by (auto simp: provider_success_def)
        then show ?thesis using advances_trans [OF adv v'(3)] v' constructed(1) [OF v'(1)] db1
          by (intro exI [of _ "[invocation_to_row v']"] exI [of _ "[(ref, ?text)]"]) (auto simp: rows_ok_def)
      next
        fix x
        assume "r = Inl x" "w' = w1"
        then show ?thesis using adv
          by (intro exI [of _ "[]"] exI [of _ "[(ref, ?text)]"]) (simp add: rows_ok_def)
      qed
    qed
  next
    fix m calls
    assume r1: "r1 = Inl (ProviderTransportError m)" and adv: "advances w w1 [] [] calls"
      and calls: "calls \<in> {[], [(ref, ?text)]}"
    have f: "\<exists>r2 :: exc + provider_result. refuse (invocation_failed core) (ProviderInvocationFailed (ic_id core)) w1 = (r2, w')
        \<and> (\<forall>v. r \<noteq> Inr v)"
    proof -
      obtain r2 w2 where f: "refuse (invocation_failed core) (ProviderInvocationFailed (ic_id core)) w1
          = (r2 :: exc + provider_result, w2)" by fastforce
      have "\<exists>e. r2 = Inl e" using refuse_cases [OF f] by auto
      then show ?thesis
        using assms inv r1 f by (auto simp: call_provider_def catch_def bnd_def is_transport_error_def)
    qed
    then obtain r2 :: "exc + provider_result" where
      f: "refuse (invocation_failed core) (ProviderInvocationFailed (ic_id core)) w1 = (r2, w')" "\<forall>v. r \<noteq> Inr v"
      by blast
    from refuse_cases [OF f(1)] show ?thesis
    proof (elim disjE exE conjE)
      fix v'
      assume v': "invocation_failed core = Inr v'" "advances w1 w' [] [invocation_to_row v'] []"
      have "uncharged v' \<and> from_core core v'" using constructed(2) [OF v'(1)] by (simp add: uncharged_def)
      then show ?thesis using advances_trans [OF adv v'(2)] f(2) calls
        by (intro exI [of _ "[invocation_to_row v']"] exI [of _ calls]) (auto simp: rows_ok_def)
    next
      fix x
      assume "w' = w1"
      then show ?thesis using adv calls f(2)
        by (intro exI [of _ "[]"] exI [of _ calls]) (simp add: rows_ok_def)
    qed
  qed
qed

subsection \<open>The checks before it\<close>

definition ledger_amount :: "uuid \<Rightarrow> int \<Rightarrow> db \<Rightarrow> dec" where
  "ledger_amount t now d = (let c = attributed_units t (day_start now) (day_start now + day_us) d in
     if c = 0 then dec_zero else from_numeric c)"

definition cost_headroom :: "gateway \<Rightarrow> uuid \<Rightarrow> int \<Rightarrow> db \<Rightarrow> bool" where
  "cost_headroom gw t now d \<longleftrightarrow> (\<exists>b. gw_budgets gw t = Some b
     \<and> dec_le (dec_add default_prec (ledger_amount t now d) (tb_allowance b)) (tb_limit b))"

definition usage_headroom :: "command \<Rightarrow> int \<Rightarrow> db \<Rightarrow> bool" where
  "usage_headroom c now d \<longleftrightarrow> 0 < cm_allowance c
     \<and> consumed_units (cm_principal c) (day_start now) (day_start now + day_us) d + cm_allowance c \<le> cm_limit c"

definition day_window :: "int \<Rightarrow> window" where
  "day_window now = \<lparr>w_start = Aware (day_start now) 0, w_end = Aware (day_start now + day_us) 0\<rparr>"

lemma day_window_simps [simp]:
  "w_start (day_window now) = Aware (day_start now) 0" "w_end (day_window now) = Aware (day_start now + day_us) 0"
  by (simp_all add: day_window_def)

lemma refused_effect:
  assumes "refuse v e w = (r :: exc + invocation, w')"
    "\<And>v'. v = Inr v' \<Longrightarrow> from_core core v' \<and> uncharged v'"
  shows "\<exists>is. advances w w' [] is [] \<and> rows_ok gw provider ref core is [] \<and> (\<forall>v. r \<noteq> Inr v)"
proof -
  from refuse_cases [OF assms(1)] show ?thesis
  proof (elim disjE exE conjE)
    fix v'
    assume "v = Inr v'" "r = Inl e" "advances w w' [] [invocation_to_row v'] []"
    then show ?thesis using assms(2) [of v'] rows_ok_refused by blast
  next
    fix x
    assume "r = Inl x" "w' = w"
    then show ?thesis using advances_refl rows_ok_Nil by blast
  qed
qed

lemma check_budget_effect:
  assumes "check_budget rq gw provider ref core (day_window now) w = (r, w')"
  shows "\<exists>is calls. advances w w' [] is calls \<and> rows_ok gw provider ref core is calls
    \<and> (calls \<noteq> [] \<longrightarrow> cost_headroom gw (ic_tenant_id core) now (w_db w))
    \<and> (\<forall>v. r = Inr v \<longrightarrow> is = [invocation_to_row v] \<and> provider_success gw provider ref core v
          \<and> invocation_insert (invocation_to_row v) (w_db w) = Inr (w_db w'))"
proof (cases "gw_budgets gw (ic_tenant_id core)")
  case None
  then have "w' = w" "\<forall>v. r \<noteq> Inr v" using assms by (auto simp: check_budget_def)
  then show ?thesis using advances_refl rows_ok_Nil by blast
next
  case (Some b)
  let ?t = "ic_tenant_id core"
  let ?spent = "ledger_amount ?t now (w_db w)"
  show ?thesis
  proof (cases "db_up rq 4")
    case False
    then have "w' = w" "\<forall>v. r \<noteq> Inr v" using assms Some
      by (auto simp: check_budget_def attributed_cost_eq bnd_def)
    then show ?thesis using advances_refl rows_ok_Nil by blast
  next
    case up: True
    have spent: "attributed_cost rq 4 ?t (w_start (day_window now)) (w_end (day_window now)) (w_db w) = Inr ?spent"
      using up by (simp add: attributed_cost_eq ledger_amount_def)
    show ?thesis
    proof (cases "decide_tenant_cost_budget ?spent b (day_window now)")
      case (Inl x)
      then have "w' = w" "\<forall>v. r \<noteq> Inr v"
        using assms Some spent by (auto simp: check_budget_def bnd_def)
      then show ?thesis using advances_refl rows_ok_Nil by blast
    next
      case (Inr dec)
      then have dec: "cb_allowed dec \<longleftrightarrow> dec_le (dec_add default_prec ?spent (tb_allowance b)) (tb_limit b)"
        by (auto simp: decide_cost_Inr_iff)
      show ?thesis
      proof (cases "cb_allowed dec")
        case True
        have "call_provider gw provider ref core w = (r, w')"
          using assms Some spent Inr True by (simp add: check_budget_def bnd_def)
        then show ?thesis using call_provider_effect [of gw provider ref core w r w'] dec True Some
          by (fastforce simp: cost_headroom_def)
      next
        case False
        have "refuse (invocation_cost_limited core (cb_attributed dec) (cb_budget dec) (cb_allowance dec)
            (day_window now)) (InvocationCostLimited (ic_id core) (w_end (day_window now))) w = (r, w')"
          using assms Some spent Inr False by (simp add: check_budget_def bnd_def)
        from refused_effect [OF this, of core gw provider ref] show ?thesis
          using constructed(5) by (auto simp: uncharged_def)
      qed
    qed
  qed
qed

lemma check_usage_effect:
  assumes run: "check_usage pf rq gw c provider ref core w = (r, w')"
    and start: "ic_started_at core = Aware now 0"
  shows "\<exists>is calls. advances w w' [] is calls \<and> rows_ok gw provider ref core is calls
    \<and> (calls \<noteq> [] \<longrightarrow> usage_headroom c now (w_db w) \<and> cost_headroom gw (ic_tenant_id core) now (w_db w))
    \<and> (\<forall>v. r = Inr v \<longrightarrow> is = [invocation_to_row v] \<and> provider_success gw provider ref core v
          \<and> invocation_insert (invocation_to_row v) (w_db w) = Inr (w_db w'))"
proof -
  have stop: ?thesis if "w' = w" "\<forall>v. r \<noteq> Inr v"
    using that advances_refl rows_ok_Nil by blast
  show ?thesis
  proof (cases "utc_day_window pf (ic_started_at core)")
    case (Inl e)
    then show ?thesis using run by (intro stop) (auto simp: check_usage_def bnd_def)
  next
    case (Inr win)
    then have win: "win = day_window now"
      using utc_day_window_InrD [OF Inr] start by (simp add: day_window_def)
    let ?used = "consumed_units (cm_principal c) (day_start now) (day_start now + day_us) (w_db w)"
    show ?thesis
    proof (cases "db_up rq 3")
      case False
      then show ?thesis using run Inr
        by (intro stop) (auto simp: check_usage_def bnd_def consumed_total_units_eq)
    next
      case up: True
      have used: "consumed_total_units rq 3 (cm_principal c) (w_start win) (w_end win) (w_db w) = Inr ?used"
        using up win by (simp add: consumed_total_units_eq)
      show ?thesis
      proof (cases "decide_usage_limit ?used (cm_limit c) (cm_allowance c) win")
        case (Inl e)
        then show ?thesis using run Inr used by (intro stop) (auto simp: check_usage_def bnd_def)
      next
        case dec: (Inr dec)
        show ?thesis
        proof (cases "ul_allowed dec")
          case True
          then have "usage_headroom c now (w_db w)"
            using dec by (auto simp: decide_usage_limit_Inr_iff usage_headroom_def)
          moreover have "check_budget rq gw provider ref core (day_window now) w = (r, w')"
            using run Inr used dec True by (simp add: check_usage_def bnd_def win)
          ultimately show ?thesis using check_budget_effect by fastforce
        next
          case False
          have "refuse (invocation_limited core (ul_consumed dec) (ul_limit dec) (ul_allowance dec) (ul_window dec))
              (InvocationUsageLimited (ic_id core) (w_end win)) w = (r, w')"
            using run Inr used dec False by (simp add: check_usage_def bnd_def)
          from refused_effect [OF this, of core gw provider ref] show ?thesis
            using constructed(4) by (auto simp: uncharged_def)
        qed
      qed
    qed
  qed
qed

text \<open>The policy verdict on a triple: what the effective permission says, or deny.\<close>

definition verdict :: "uuid \<Rightarrow> uuid \<Rightarrow> uuid \<Rightarrow> db \<Rightarrow> policy_effect" where
  "verdict t a m d = (case effective_row t a m d of None \<Rightarrow> DENY | Some p \<Rightarrow> pr_effect p)"

definition decision_row_of :: "request \<Rightarrow> command \<Rightarrow> db \<Rightarrow> decision_row" where
  "decision_row_of rq c d = \<lparr>dr_id = id_at rq 1, dr_invocation_id = id_at rq 0, dr_tenant_id = cm_tenant c,
     dr_agent_id = cm_agent c, dr_model_id = cm_model c,
     dr_permission_id = map_option pr_id (effective_row (cm_tenant c) (cm_agent c) (cm_model c) d),
     dr_effect = verdict (cm_tenant c) (cm_agent c) (cm_model c) d, dr_decided_at = clock_at rq 1\<rparr>"

lemma decision_insert_Inr_iff:
  "decision_insert r d = Inr d' \<longleftrightarrow> dr_id r \<notin> dr_id ` set (decisions d)
     \<and> dr_invocation_id r \<notin> dr_invocation_id ` set (decisions d) \<and> dr_tenant_id r \<in> tr_id ` set (tenants d)
     \<and> dr_agent_id r \<in> ar_id ` set (agents d) \<and> dr_model_id r \<in> mr_id ` set (models d)
     \<and> opt_ok (\<lambda>p. p \<in> pr_id ` set (permissions d)) (dr_permission_id r)
     \<and> d' = d\<lparr>decisions := decisions d @ [r]\<rparr>"
  by (auto simp: decision_insert_def failure_defs)

lemma runtime_policy_decide_Inr:
  assumes "runtime_policy_decide pf (id_at rq 1) (clock rq 1) (id_at rq 0)
     (cm_tenant c) (cm_agent c) (cm_model c) d = (Inr (did, effect, pid), d')"
  shows "did = id_at rq 1" "effect = effect_value (verdict (cm_tenant c) (cm_agent c) (cm_model c) d)"
    "decision_insert (decision_row_of rq c d) d = Inr d'"
proof -
  obtain x where x: "evaluate_permission pf (id_at rq 1) (clock rq 1) (id_at rq 0)
      (cm_tenant c) (cm_agent c) (cm_model c) d = (Inr x, d')"
    "did = de_id x" "effect = effect_value (de_effect x)"
    using assms by (auto simp: runtime_policy_decide_def op_inv)
  then show "did = id_at rq 1" "effect = effect_value (verdict (cm_tenant c) (cm_agent c) (cm_model c) d)"
    "decision_insert (decision_row_of rq c d) d = Inr d'"
    by (cases "effective_row (cm_tenant c) (cm_agent c) (cm_model c) d";
        auto simp: evaluate_permission_Inr_iff effective_permission_def map_sum_Inr_iff
          permission_from_row_Inr_iff decision_to_row_def decision_row_of_def verdict_def)+
qed

lemma runtime_policy_decide_failed:
  "runtime_policy_decide pf did now iid t a m d = (Inl e, d') \<Longrightarrow> d' = d"
  by (auto simp: runtime_policy_decide_def bnd_Inl_iff dest: evaluate_permission_failed)

lemma allow_text: "effect_value e \<noteq> lit ''allow'' \<longleftrightarrow> e = DENY"
  by (cases e) (simp_all add: effect_value_def lit_simps)

lemma decide_policy_effect:
  assumes run: "decide_policy pf rq gw c text provider ref w = (r, w')"
    and core: "core = invocation_core_of rq c text (id_at rq 1)"
  shows "\<exists>ds is calls. advances w w' ds is calls \<and> rows_ok gw provider ref core is calls
    \<and> ds \<in> {[], [decision_row_of rq c (w_db w)]} \<and> (is \<noteq> [] \<or> calls \<noteq> [] \<longrightarrow> ds \<noteq> [])
    \<and> (calls \<noteq> [] \<longrightarrow> verdict (cm_tenant c) (cm_agent c) (cm_model c) (w_db w) = ALLOW
         \<and> usage_headroom c (clock_at rq 0) (w_db w) \<and> cost_headroom gw (cm_tenant c) (clock_at rq 0) (w_db w))
    \<and> (\<forall>v. r = Inr v \<longrightarrow> is = [invocation_to_row v] \<and> provider_success gw provider ref core v
          \<and> (\<exists>d1. invocation_insert (invocation_to_row v) d1 = Inr (w_db w')))"
proof -
  let ?v = "verdict (cm_tenant c) (cm_agent c) (cm_model c) (w_db w)"
  obtain r1 d1 where pol: "runtime_policy_decide pf (id_at rq 1) (clock rq 1) (id_at rq 0)
     (cm_tenant c) (cm_agent c) (cm_model c) (w_db w) = (r1, d1)" by fastforce
  show ?thesis
  proof (cases r1)
    case (Inl e)
    then have "w' = w" "\<forall>v. r \<noteq> Inr v"
      using run pol runtime_policy_decide_failed [of pf] by (auto simp: decide_policy_def bnd_def on_db_run)
    then show ?thesis using advances_refl rows_ok_Nil by blast
  next
    case (Inr x)
    obtain did effect pid where x: "x = (did, effect, pid)" by (cases x)
    note dec = runtime_policy_decide_Inr [OF pol [unfolded Inr x]]
    let ?w1 = "w\<lparr>w_db := d1\<rparr>"
    have adv: "advances w ?w1 [decision_row_of rq c (w_db w)] [] []"
      using dec(3) by (auto simp: advances_def decision_insert_Inr_iff)
    have rooms: "usage_headroom c now d1 = usage_headroom c now (w_db w)"
      "cost_headroom gw t now d1 = cost_headroom gw t now (w_db w)" for now t
      using dec(3) by (auto simp: usage_headroom_def cost_headroom_def ledger_amount_def consumed_units_def
          attributed_units_def decision_insert_Inr_iff)
    show ?thesis
    proof (cases "?v = DENY")
      case True
      then have "refuse (invocation_denied core) (InvocationDenied (ic_id core) did) ?w1 = (r, w')"
        using run pol Inr x dec(1,2) core
        by (simp add: decide_policy_def bnd_def on_db_run allow_text Let_def)
      from refused_effect [OF this, of core gw provider ref]
      obtain "is" where "advances ?w1 w' [] is []" "rows_ok gw provider ref core is []" "\<forall>v. r \<noteq> Inr v"
        using constructed(3) by (auto simp: uncharged_def)
      then show ?thesis using advances_trans [OF adv] by fastforce
    next
      case False
      then have allow: "?v = ALLOW" by (cases ?v) auto
      have "check_usage pf rq gw c provider ref core ?w1 = (r, w')"
        using run pol Inr x dec(1,2) core allow
        by (simp add: decide_policy_def bnd_def on_db_run allow_text Let_def effect_value_def)
      from check_usage_effect [OF this, of "clock_at rq 0"]
      obtain "is" calls where e: "advances ?w1 w' [] is calls" "rows_ok gw provider ref core is calls"
        "calls \<noteq> [] \<longrightarrow> usage_headroom c (clock_at rq 0) d1 \<and> cost_headroom gw (ic_tenant_id core) (clock_at rq 0) d1"
        "\<forall>v. r = Inr v \<longrightarrow> is = [invocation_to_row v] \<and> provider_success gw provider ref core v
           \<and> invocation_insert (invocation_to_row v) d1 = Inr (w_db w')"
        using core by (auto simp: invocation_core_of_def)
      then show ?thesis using advances_trans [OF adv e(1)] allow rooms core
        by (intro exI [of _ "[decision_row_of rq c (w_db w)]"] exI [of _ "is"] exI [of _ calls])
          (auto simp: invocation_core_of_def)
    qed
  qed
qed

end
