(* ===== verification/GatewayBudget.thy ===== *)
theory GatewayBudget
  imports GatewayLaws
begin

text \<open>
  The whole of \<open>CreateInvocationHandler\<close>, and what a sequence of its runs can spend: the usage
  of a runtime principal in a UTC day and the estimated cost of a tenant in a UTC day are
  admission ledgers, so that however many requests run one after another, in whatever order and
  for whichever principals, neither exceeds its limit by more than one charge exceeds one
  allowance.
\<close>

definition admitted :: "command \<Rightarrow> pystr \<Rightarrow> db \<Rightarrow> bool" where
  "admitted c ref d \<longleftrightarrow> tenant_exists (cm_tenant c) d \<and> owned_by (cm_tenant c) (admitted_agent (cm_agent c) d)
     \<and> runtime_model (cm_model c) d = Some (cm_model c, cm_tenant c, lit ''openai'', ref)
     \<and> validated_input (cm_input c) = Inr (py_strip (cm_input c))"

lemma runtime_model_id: "runtime_model m d = Some (i, t, p, ref) \<Longrightarrow> i = m"
  by (auto simp: runtime_model_def dest: row_of_SomeD)

lemma create_invocation_cases:
  assumes run: "create_invocation pf rq gw c w = (r, w')"
  shows "(w' = w \<and> (\<forall>v. r \<noteq> Inr v))
    \<or> (\<exists>ref. admitted c ref (w_db w)
         \<and> decide_policy pf rq gw c (py_strip (cm_input c)) (lit ''openai'') ref w = (r, w'))"
proof (cases "validated_input (cm_input c)")
  case (Inl e)
  then show ?thesis using run by (auto simp: create_invocation_def)
next
  case (Inr tx0)
  then have tx_eq: "tx0 = py_strip (cm_input c)" by (simp add: validated_input_Inr_iff)
  show ?thesis
  proof (cases "db_up rq 0 \<and> tenant_exists (cm_tenant c) (w_db w) \<and> db_up rq 1
      \<and> owned_by (cm_tenant c) (admitted_agent (cm_agent c) (w_db w)) \<and> db_up rq 2")
    case False
    then show ?thesis using run Inr
      by (auto simp: create_invocation_def bnd_def read_db_def split: if_splits)
  next
    case True
    show ?thesis
    proof (cases "runtime_model (cm_model c) (w_db w)")
      case None
      then show ?thesis using run Inr True by (auto simp: create_invocation_def bnd_def read_db_def)
    next
      case (Some x)
      obtain i owner provider ref where x: "x = (i, owner, provider, ref)" by (cases x)
      have i: "i = cm_model c" using Some x runtime_model_id by blast
      show ?thesis using run Inr True Some x i tx_eq
        by (auto simp: create_invocation_def bnd_def read_db_def admitted_def split: if_splits)
    qed
  qed
qed

text \<open>
  The effect of one run. \<open>core\<close> is the identity the invocation is recorded under.
\<close>

definition request_core :: "request \<Rightarrow> command \<Rightarrow> invocation_core" where
  "request_core rq c = invocation_core_of rq c (py_strip (cm_input c)) (id_at rq 1)"

lemma request_core_simps [simp]:
  "ic_id (request_core rq c) = id_at rq 0" "ic_tenant_id (request_core rq c) = cm_tenant c"
  "ic_agent_id (request_core rq c) = cm_agent c" "ic_model_id (request_core rq c) = cm_model c"
  "ic_input_text (request_core rq c) = py_strip (cm_input c)"
  "ic_started_at (request_core rq c) = clock rq 0" "ic_completed_at (request_core rq c) = clock rq 2"
  "ic_decision_id (request_core rq c) = id_at rq 1" "ic_principal_id (request_core rq c) = cm_principal c"
  by (simp_all add: request_core_def invocation_core_of_def)

definition permitted :: "request \<Rightarrow> gateway \<Rightarrow> command \<Rightarrow> pystr \<Rightarrow> db \<Rightarrow> bool" where
  "permitted rq gw c ref d \<longleftrightarrow> admitted c ref d
     \<and> verdict (cm_tenant c) (cm_agent c) (cm_model c) d = ALLOW
     \<and> usage_headroom c (clock_at rq 0) d \<and> cost_headroom gw (cm_tenant c) (clock_at rq 0) d"

lemma create_invocation_effect:
  assumes run: "create_invocation pf rq gw c w = (r, w')"
  shows "\<exists>ref ds is calls. advances w w' ds is calls
    \<and> rows_ok gw (lit ''openai'') ref (request_core rq c) is calls
    \<and> ds \<in> {[], [decision_row_of rq c (w_db w)]} \<and> (is \<noteq> [] \<or> calls \<noteq> [] \<longrightarrow> ds \<noteq> [])
    \<and> (calls \<noteq> [] \<longrightarrow> permitted rq gw c ref (w_db w))
    \<and> (\<forall>v. r = Inr v \<longrightarrow> is = [invocation_to_row v]
          \<and> provider_success gw (lit ''openai'') ref (request_core rq c) v
          \<and> (\<exists>d1. invocation_insert (invocation_to_row v) d1 = Inr (w_db w')))"
  using create_invocation_cases [OF run]
proof (elim disjE exE conjE)
  assume "w' = w" "\<forall>v. r \<noteq> Inr v"
  then show ?thesis using advances_refl rows_ok_Nil by blast
next
  fix ref
  assume a: "admitted c ref (w_db w)"
    and d: "decide_policy pf rq gw c (py_strip (cm_input c)) (lit ''openai'') ref w = (r, w')"
  from decide_policy_effect [OF d refl] a show ?thesis
    unfolding request_core_def [symmetric] permitted_def by blast
qed

subsection \<open>Steps\<close>

text \<open>
  One request to the gateway, by a command that respects the configuration of the principal
  observed: its own limit and allowance.
\<close>

definition configured :: "pystr \<Rightarrow> int \<Rightarrow> int \<Rightarrow> command \<Rightarrow> bool" where
  "configured p limit allowance c \<longleftrightarrow> (cm_principal c = p \<longrightarrow> cm_limit c = limit \<and> cm_allowance c = allowance)"

inductive gateway_step :: "platform \<Rightarrow> gateway \<Rightarrow> (command \<Rightarrow> bool) \<Rightarrow> world \<Rightarrow> world \<Rightarrow> bool"
  for pf gw ok where
  request: "ok c \<Longrightarrow> create_invocation pf rq gw c w = (r, w') \<Longrightarrow> gateway_step pf gw ok w w'"

inductive_cases gateway_stepE: "gateway_step pf gw ok w w'"

text \<open>What one successful call can charge: bounds on what the provider reports.\<close>

definition reports_at_most :: "gateway \<Rightarrow> int \<Rightarrow> bool" where
  "reports_at_most gw u \<longleftrightarrow> (\<forall>client ref text rs x n. openai_client (gw_provider gw) = Some client
     \<longrightarrow> client ref text = Inr rs \<longrightarrow> normalized_usage (rs_usage rs) = Some x \<longrightarrow> us_total x = Some n \<longrightarrow> n \<le> u)"

definition costs_at_most :: "gateway \<Rightarrow> int \<Rightarrow> bool" where
  "costs_at_most gw k \<longleftrightarrow> (\<forall>client ref text rs key cst. openai_client (gw_provider gw) = Some client
     \<longrightarrow> client ref text = Inr rs
     \<longrightarrow> attribute_cost (normalized_usage (rs_usage rs)) (gw_pricing gw key) = Inr (Some cst)
     \<longrightarrow> to_numeric (co_total cst) \<le> k)"

text \<open>A row a run appends and that charges something is a success of a permitted request.\<close>

lemma step_rows:
  assumes "gateway_step pf gw ok w w'"
  shows "\<exists>ds is calls. advances w w' ds is calls \<and> (is = [] \<or> (\<exists>v. is = [invocation_to_row v]
    \<and> (uncharged v \<or> (\<exists>rq c ref. ok c \<and> permitted rq gw c ref (w_db w)
          \<and> provider_success gw (lit ''openai'') ref (request_core rq c) v))))"
proof -
  obtain c rq r where c: "ok c" "create_invocation pf rq gw c w = (r, w')"
    using assms by (elim gateway_stepE)
  from create_invocation_effect [OF c(2)] c(1) show ?thesis
    unfolding rows_ok_def by blast
qed

lemma row_units_to_row: "row_units p s e (invocation_to_row v) =
    (if iv_runtime_principal_id v = p \<and> s \<le> instant (iv_started_at v) \<and> instant (iv_started_at v) < e
     then (case Option.bind (iv_usage v) us_total of None \<Rightarrow> 0 | Some n \<Rightarrow> n) else 0)"
  by (simp add: row_units_def in_window_def invocation_to_row_def)

lemma row_cost_to_row: "row_cost t s e (invocation_to_row v) =
    (if iv_tenant_id v = t \<and> s \<le> instant (iv_started_at v) \<and> instant (iv_started_at v) < e
     then (case iv_estimated_cost v of None \<Rightarrow> 0 | Some c \<Rightarrow> to_numeric (co_total c)) else 0)"
  by (simp add: row_cost_def in_window_def invocation_to_row_def split: option.split)

lemma advances_units:
  assumes "advances w w' ds is calls"
  shows "is = [] \<Longrightarrow> consumed_units p s e (w_db w') = consumed_units p s e (w_db w)"
    "is = [row] \<Longrightarrow> consumed_units p s e (w_db w') = consumed_units p s e (w_db w) + row_units p s e row"
    "is = [] \<Longrightarrow> attributed_units t s e (w_db w') = attributed_units t s e (w_db w)"
    "is = [row] \<Longrightarrow> attributed_units t s e (w_db w') = attributed_units t s e (w_db w) + row_cost t s e row"
  using assms
  by (auto simp: advances_def consumed_units_def attributed_units_def row_units_def row_cost_def
      split: option.split)

definition daily_units :: "pystr \<Rightarrow> int \<Rightarrow> world \<Rightarrow> int" where
  "daily_units p day w = consumed_units p (day_start day) (day_start day + day_us) (w_db w)"

definition daily_cost :: "uuid \<Rightarrow> int \<Rightarrow> world \<Rightarrow> int" where
  "daily_cost t day w = attributed_units t (day_start day) (day_start day + day_us) (w_db w)"

text \<open>One charging step: the window is the day the request started in.\<close>

lemma usage_step:
  assumes step: "gateway_step pf gw (configured p limit allowance) w w'" and u: "reports_at_most gw u" "0 \<le> u"
  shows "daily_units p day w' = daily_units p day w
    \<or> (daily_units p day w + allowance \<le> limit \<and> daily_units p day w' \<le> daily_units p day w + u)"
proof -
  obtain ds "is" calls where e: "advances w w' ds is calls"
    "is = [] \<or> (\<exists>v. is = [invocation_to_row v] \<and> (uncharged v \<or> (\<exists>rq c ref.
       configured p limit allowance c \<and> permitted rq gw c ref (w_db w)
       \<and> provider_success gw (lit ''openai'') ref (request_core rq c) v)))"
    using step_rows [OF step] by blast
  show ?thesis
  proof (cases "is = []")
    case True
    then show ?thesis using advances_units(1) [OF e(1)] by (simp add: daily_units_def)
  next
    case False
    then obtain v where v: "is = [invocation_to_row v]" "uncharged v \<or> (\<exists>rq c ref.
       configured p limit allowance c \<and> permitted rq gw c ref (w_db w)
       \<and> provider_success gw (lit ''openai'') ref (request_core rq c) v)" using e(2) by blast
    let ?row = "row_units p (day_start day) (day_start day + day_us) (invocation_to_row v)"
    have w': "daily_units p day w' = daily_units p day w + ?row"
      using advances_units(2) [OF e(1) v(1)] by (simp add: daily_units_def)
    show ?thesis
    proof (cases "?row = 0")
      case True
      then show ?thesis using w' by simp
    next
      case nz: False
      then have "iv_usage v \<noteq> None" by (cases "iv_usage v") (auto simp: row_units_to_row split: if_splits)
      then obtain rq c ref where p: "configured p limit allowance c" "permitted rq gw c ref (w_db w)"
        "provider_success gw (lit ''openai'') ref (request_core rq c) v"
        using v(2) by (auto simp: uncharged_def)
      then have fc: "from_core (request_core rq c) v" by (simp add: provider_success_def)
      then have win: "cm_principal c = p" "day_start day \<le> clock_at rq 0" "clock_at rq 0 < day_start day + day_us"
        using nz by (auto simp: row_units_to_row from_core_def split: if_splits)
      then have "day_start (clock_at rq 0) = day_start day" by (intro day_start_eq)
      then have room: "daily_units p day w + allowance \<le> limit"
        using p(1,2) win(1) by (simp add: permitted_def usage_headroom_def configured_def daily_units_def)
      obtain client rs where rs: "openai_client (gw_provider gw) = Some client"
        "client ref (py_strip (cm_input c)) = Inr rs" "iv_usage v = normalized_usage (rs_usage rs)"
        using p(3) by (auto simp: provider_success_def)
      have "n \<le> u" if "iv_usage v = Some x" "us_total x = Some n" for x n
        using u(1) [unfolded reports_at_most_def, rule_format, OF rs(1,2)] rs(3) that by metis
      then have "?row \<le> u"
        using u(2) by (auto simp: row_units_to_row split: option.split bind_splits)
      then show ?thesis using w' room by simp
    qed
  qed
qed

interpretation usage_ledger: admission_ledger
  "daily_units p day" "\<lambda>w w'. reports_at_most gw u \<and> 0 \<le> u \<and> gateway_step pf gw (configured p limit allowance) w w'"
  limit allowance u for p day pf gw limit allowance u
proof (unfold_locales, goal_cases)
  case (1 s s')
  then show ?case using usage_step [of pf gw p limit allowance s s' u day] by auto
next
  case (2 s s')
  then show ?case using usage_step [of pf gw p limit allowance s s' u day] by auto
qed

subsection \<open>The cost ledger\<close>

text \<open>
  The configured budget of the tenant: a limit below \<open>10^16\<close> USD and an allowance, both on the
  column grid. Below that amount the 28-digit comparison never admits what exact arithmetic
  would refuse.
\<close>

definition budget_is :: "gateway \<Rightarrow> uuid \<Rightarrow> int \<Rightarrow> int \<Rightarrow> bool" where
  "budget_is gw t limit allowance \<longleftrightarrow> (\<exists>b. gw_budgets gw t = Some b \<and> -12 \<le> dexp (tb_allowance b)
     \<and> 0 \<le> coef (tb_allowance b) \<and> on_grid (tb_limit b) \<and> to_numeric (tb_limit b) = limit
     \<and> to_numeric (tb_allowance b) = allowance \<and> limit < 10 ^ 28)"

lemma ledger_amount_units: "dval (ledger_amount t now d) =
    of_int (attributed_units t (day_start now) (day_start now + day_us) d) / 10 ^ 12"
  by (simp add: ledger_amount_def Let_def from_numeric_val)

lemma cost_headroom_units:
  assumes "cost_headroom gw t now d" "budget_is gw t limit allowance"
    and nonneg: "0 \<le> attributed_units t (day_start now) (day_start now + day_us) d"
  shows "attributed_units t (day_start now) (day_start now + day_us) d + allowance \<le> limit"
proof -
  let ?u = "attributed_units t (day_start now) (day_start now + day_us) d"
  obtain b where b: "gw_budgets gw t = Some b" "-12 \<le> dexp (tb_allowance b)" "0 \<le> coef (tb_allowance b)"
    "on_grid (tb_limit b)" "to_numeric (tb_limit b) = limit" "to_numeric (tb_allowance b) = allowance"
    "limit < 10 ^ 28"
    using assms(2) by (auto simp: budget_is_def)
  have le: "dec_le (dec_add default_prec (ledger_amount t now d) (tb_allowance b)) (tb_limit b)"
    using assms(1) b(1) by (auto simp: cost_headroom_def)
  have grid: "on_grid (tb_allowance b)" using b(2) by (simp add: on_grid_def)
  have lv: "dval (tb_limit b) = of_int limit / 10 ^ 12" and av: "dval (tb_allowance b) = of_int allowance / 10 ^ 12"
    using on_grid_numeric [OF b(4)] on_grid_numeric [OF grid] b(5,6) by simp_all
  have led: "0 \<le> coef (ledger_amount t now d)" "-12 \<le> dexp (ledger_amount t now d)"
    using nonneg by (simp_all add: ledger_amount_def from_numeric_def Let_def)
  have "dval (tb_limit b) < 10 ^ default_prec * 10 powi (min (dexp (ledger_amount t now d)) (dexp (tb_allowance b)))"
  proof -
    have "(of_int limit :: rat) < 10 ^ 28"
      using b(7) of_int_less_iff [of limit "10 ^ 28", where ?'a = rat] by simp
    then have "dval (tb_limit b) < 10 ^ 28 * 10 powi (-12)"
      unfolding lv by (simp add: power_int_def power_one_over)
    also have "\<dots> \<le> 10 ^ 28 * 10 powi (min (dexp (ledger_amount t now d)) (dexp (tb_allowance b)))"
      using led(2) b(2) by (intro mult_left_mono powi_mono10) simp_all
    finally show ?thesis by (simp only: default_prec_def)
  qed
  from dec_add_le_exact [OF _ led(1) b(3) le this]
  have "of_int ?u / 10 ^ 12 + of_int allowance / 10 ^ 12 \<le> (of_int limit / 10 ^ 12 :: rat)"
    by (simp only: lv av ledger_amount_units default_prec_def)
  then have "(of_int (?u + allowance) :: rat) \<le> of_int limit"
    unfolding add_divide_distrib [symmetric] divide_le_cancel by simp
  then show ?thesis by (simp only: of_int_le_iff)
qed

definition costs_recorded_ok :: "world \<Rightarrow> bool" where
  "costs_recorded_ok w \<longleftrightarrow> (\<forall>r \<in> set (invocations (w_db w)). opt_ok (\<lambda>n. 0 \<le> n) (ir_cost_total r))"

lemma costs_nonneg: "costs_recorded_ok w \<Longrightarrow> 0 \<le> attributed_units t s e (w_db w)"
  unfolding attributed_units_def by (rule sum_list_nonneg) (auto simp: costs_recorded_ok_def)

definition any_command :: "command \<Rightarrow> bool" where
  "any_command c \<longleftrightarrow> True"

lemma attributed_nonneg: "attribute_cost u p = Inr (Some c) \<Longrightarrow> 0 \<le> coef (co_total c)"
  using attribute_cost_SomeD [of u p c] by (auto simp: cost_init_Inr_iff)

lemma cost_step:
  assumes step: "gateway_step pf gw any_command w w'" and k: "costs_at_most gw k" "0 \<le> k"
    and b: "budget_is gw t limit allowance" and ok: "costs_recorded_ok w"
  shows "costs_recorded_ok w' \<and> (daily_cost t day w' = daily_cost t day w
    \<or> (daily_cost t day w + allowance \<le> limit \<and> daily_cost t day w' \<le> daily_cost t day w + k))"
proof -
  obtain ds "is" calls where e: "advances w w' ds is calls"
    "is = [] \<or> (\<exists>v. is = [invocation_to_row v] \<and> (uncharged v \<or> (\<exists>rq c ref.
       any_command c \<and> permitted rq gw c ref (w_db w)
       \<and> provider_success gw (lit ''openai'') ref (request_core rq c) v)))"
    using step_rows [OF step] by blast
  have inv': "invocations (w_db w') = invocations (w_db w) @ is" using e(1) by (simp add: advances_def)
  show ?thesis
  proof (cases "is = []")
    case True
    then show ?thesis using advances_units(3) [OF e(1)] ok inv' by (simp add: daily_cost_def costs_recorded_ok_def)
  next
    case False
    then obtain v where v: "is = [invocation_to_row v]" "uncharged v \<or> (\<exists>rq c ref.
       permitted rq gw c ref (w_db w) \<and> provider_success gw (lit ''openai'') ref (request_core rq c) v)"
      using e(2) by blast
    let ?row = "row_cost t (day_start day) (day_start day + day_us) (invocation_to_row v)"
    have w': "daily_cost t day w' = daily_cost t day w + ?row"
      using advances_units(4) [OF e(1) v(1)] by (simp add: daily_cost_def)
    have total: "0 \<le> to_numeric (co_total c) \<and> to_numeric (co_total c) \<le> k" if est: "iv_estimated_cost v = Some c" for c
    proof -
      obtain rq c' ref where "provider_success gw (lit ''openai'') ref (request_core rq c') v"
        using v(2) est by (auto simp: uncharged_def)
      then obtain client rs where rs: "openai_client (gw_provider gw) = Some client"
        "client ref (py_strip (cm_input c')) = Inr rs"
        "attribute_cost (normalized_usage (rs_usage rs)) (gw_pricing gw (lit ''openai'', ref)) = Inr (Some c)"
        using est by (auto simp: provider_success_def)
      show ?thesis using k(1) [unfolded costs_at_most_def, rule_format, OF rs]
          to_numeric_sign [OF attributed_nonneg [OF rs(3)]] by simp
    qed
    have ok': "costs_recorded_ok w'"
      using ok inv' v(1) total
      by (cases "iv_estimated_cost v") (auto simp: costs_recorded_ok_def invocation_to_row_def)
    show ?thesis
    proof (cases "?row = 0")
      case True
      then show ?thesis using w' ok' by simp
    next
      case nz: False
      then have "iv_estimated_cost v \<noteq> None"
        by (cases "iv_estimated_cost v") (auto simp: row_cost_to_row split: if_splits)
      then obtain rq c ref where p: "permitted rq gw c ref (w_db w)"
        "provider_success gw (lit ''openai'') ref (request_core rq c) v"
        using v(2) by (auto simp: uncharged_def)
      then have fc: "from_core (request_core rq c) v" by (simp add: provider_success_def)
      then have win: "cm_tenant c = t" "day_start day \<le> clock_at rq 0" "clock_at rq 0 < day_start day + day_us"
        using nz by (auto simp: row_cost_to_row from_core_def split: if_splits)
      then have day: "day_start (clock_at rq 0) = day_start day" by (intro day_start_eq)
      have "cost_headroom gw t (clock_at rq 0) (w_db w)" using p(1) win(1) by (simp add: permitted_def)
      from cost_headroom_units [OF this b costs_nonneg [OF ok]]
      have room: "daily_cost t day w + allowance \<le> limit" using day by (simp add: daily_cost_def)
      have "?row \<le> k" using total k(2) by (auto simp: row_cost_to_row split: option.split)
      then show ?thesis using w' room ok' by simp
    qed
  qed
qed

interpretation cost_ledger: admission_ledger
  "daily_cost t day" "\<lambda>w w'. costs_at_most gw k \<and> 0 \<le> k \<and> budget_is gw t limit allowance
     \<and> costs_recorded_ok w \<and> costs_recorded_ok w' \<and> gateway_step pf gw any_command w w'"
  limit allowance k for t day pf gw limit allowance k
proof (unfold_locales, goal_cases)
  case (1 s s')
  then show ?case using cost_step [of pf gw s s' k t limit allowance day] by auto
next
  case (2 s s')
  then show ?case using cost_step [of pf gw s s' k t limit allowance day] by auto
qed

end
