(* ===== verification/HttpLaws.thy ===== *)
theory HttpLaws
  imports Http RuntimeInvariants Catalogue GatewayBudget
begin

text \<open>
  What serving one HTTP request does to the tables: authentication may add evidence, a route
  that reads changes nothing, and any other route is one step of one of the four state machines
  (catalogue, management identity, runtime identity, gateway). The system is the closure of
  these steps.
\<close>

subsection \<open>Reading routes\<close>

lemma keeps_uow [intro]: "keeps committed m \<Longrightarrow> keeps (\<lambda>d. d) (with_uow m)"
  by (rule keepsI) (rule read_only_uow)

lemma keeps_authorize [simp, intro]: "keeps v (authorize_or p t e)" "keeps v (managers_only p)" "keeps v (validate ep)"
  by (simp_all add: authorize_or_def managers_only_def validate_def)

lemma keeps_lookup [intro]: "(\<And>i. keeps committed (g i)) \<Longrightarrow> keeps (\<lambda>d. d) (lookup g i)"
  unfolding lookup_def by (rule keeps_uow)

lemma keeps_repository_gets [simp, intro]:
  "keeps v (tenant_get pf i)" "keeps v (agent_get pf i)" "keeps v (model_get pf i)" "keeps v (permission_get pf i)"
  "keeps v (invocation_get pf i)"
  unfolding tenant_get_def agent_get_def model_get_def permission_get_def invocation_get_def
  by (auto intro!: keeps_bnd keeps_case_option)

lemma keeps_gets [simp, intro]:
  "keeps (\<lambda>d. d) (get_tenant pf i)" "keeps (\<lambda>d. d) (get_agent pf i)" "keeps (\<lambda>d. d) (get_model pf i)"
  "keeps (\<lambda>d. d) (get_permission pf i)" "keeps (\<lambda>d. d) (get_invocation pf i)"
  unfolding get_tenant_def get_agent_def get_model_def get_permission_def get_invocation_def
  by (auto intro!: keeps_bnd keeps_case_option keeps_lookup)

lemma keeps_identity_gets [simp, intro]:
  "keeps (\<lambda>d. d) (get_principal pf a i)" "keeps (\<lambda>d. d) (runtime_get_principal pf rq a i)"
  "keeps (\<lambda>d. d) (preflight_identity_continuity pf sv rq a i l)"
  unfolding get_principal_def runtime_get_principal_def preflight_identity_continuity_def require_manager_def
  by (auto intro!: keeps_bnd keeps_uow keeps_throw_None keeps_if split: prod.split option.split)

lemma keeps_reading_routes [simp, intro]:
  "keeps (\<lambda>d. d) (get_tenant_route pf p i)" "keeps (\<lambda>d. d) (get_agent_route pf p i)"
  "keeps (\<lambda>d. d) (get_model_route pf p i)" "keeps (\<lambda>d. d) (get_permission_route pf p i)"
  "keeps (\<lambda>d. d) (list_audit_records_route pf rq p t s e cap)"
  "keeps (\<lambda>d. d) (get_runtime_report_route pf rq p t s e)"
  "keeps (\<lambda>d. d) (get_invocation_route pf wl i)" "keeps (\<lambda>d. d) (list_evidence_route pf rq p ci qi s e cap)"
  "keeps (\<lambda>d. d) (list_principals_route pf rq p cap)" "keeps (\<lambda>d. d) (get_principal_route pf p i)"
  "keeps (\<lambda>d. d) (list_credentials_route pf rq p i cap)" "keeps (\<lambda>d. d) (runtime_get_route pf rq p i)"
  "keeps (\<lambda>d. d) (preflight_route pf sv rq p i l)"
  unfolding get_tenant_route_def get_agent_route_def get_model_route_def get_permission_route_def
    list_audit_records_route_def get_runtime_report_route_def get_invocation_route_def list_evidence_route_def
    list_principals_route_def get_principal_route_def list_credentials_route_def runtime_get_route_def
    preflight_route_def
  by (auto intro!: keeps_bnd split: prod.split)

subsection \<open>Commands behind routes\<close>

text \<open>A route that checks first: the check keeps the tables.\<close>

lemma checked_route:
  assumes "keeps (\<lambda>d. d) m" "bnd m f d = (r, d')"
  shows "d' = d \<or> (\<exists>a. f a d = (r, d'))"
proof -
  obtain x d1 where m: "m d = (x, d1)" by fastforce
  then have "d1 = d" using keepsD [OF assms(1)] by blast
  then show ?thesis using assms(2) m by (cases x) auto
qed

text \<open>A route that answers with what a use case returned, or with a read after it.\<close>

lemma answering_route:
  assumes "\<And>a. keeps (\<lambda>d. d) (f a)" "bnd m f d = (r, d')"
  shows "\<exists>x. void m d = (x, d')"
proof -
  obtain x d1 where m: "m d = (x, d1)" by fastforce
  show ?thesis
  proof (cases x)
    case (Inl e)
    then show ?thesis using assms(2) m by (simp add: void_def)
  next
    case (Inr a)
    then have "f a d1 = (r, d')" using assms(2) m by simp
    then have "d' = d1" using keepsD [OF assms(1)] by blast
    then show ?thesis using m Inr by (simp add: void_def)
  qed
qed

definition not_before :: "int \<Rightarrow> draws \<Rightarrow> bool" where
  "not_before t dr \<longleftrightarrow> t \<le> clock_at (dr_auth dr) 0 \<and> t \<le> clock_at (dr_main dr) 0 \<and> t \<le> db_now (dr_main dr)"

definition route_step :: "platform \<Rightarrow> app \<Rightarrow> int \<Rightarrow> db \<Rightarrow> db \<Rightarrow> bool" where
  "route_step pf ap t d d' \<longleftrightarrow> d' = d \<or> catalogue_step pf d d' \<or> mgmt_step pf (app_mgmt ap) t d d'
     \<or> runtime_step pf (app_runtime ap) d d'"

lemma route_stepI:
  "run_catalogue pf rq cc d = (r, d') \<Longrightarrow> route_step pf ap t d d'"
  "run_mgmt pf (app_mgmt ap) rq mc d = (r, d') \<Longrightarrow> t \<le> clock_at rq 0 \<Longrightarrow> t \<le> db_now rq \<Longrightarrow> route_step pf ap t d d'"
  "run_runtime pf (app_runtime ap) rq rc d = (r, d') \<Longrightarrow> route_step pf ap t d d'"
  by (auto simp: route_step_def intro: catalogue_step.command mgmt_step.command runtime_step.command)

text \<open>A use case of a context, and an answer from it.\<close>

definition steps_of :: "platform \<Rightarrow> app \<Rightarrow> int \<Rightarrow> (exc, db, 'a) op \<Rightarrow> bool" where
  "steps_of pf ap t m \<longleftrightarrow> (\<forall>d x d'. m d = (x, d') \<longrightarrow> route_step pf ap t d d')"

lemma steps_of_keeping: "keeps (\<lambda>d. d) m \<Longrightarrow> steps_of pf ap t m"
  using keepsD by (fastforce simp: steps_of_def route_step_def)

lemma steps_of_catalogue: "void m = run_catalogue pf rq cc \<Longrightarrow> steps_of pf ap t (void m)"
  by (auto simp: steps_of_def intro: route_stepI)

lemma steps_of_mgmt: "void m = run_mgmt pf (app_mgmt ap) rq mc \<Longrightarrow> t \<le> clock_at rq 0 \<Longrightarrow> t \<le> db_now rq
    \<Longrightarrow> steps_of pf ap t (void m)"
  by (auto simp: steps_of_def intro: route_stepI)

lemma steps_of_runtime: "void m = run_runtime pf (app_runtime ap) rq rc \<Longrightarrow> steps_of pf ap t (void m)"
  by (auto simp: steps_of_def intro: route_stepI)

lemma steps_of_answer:
  assumes "steps_of pf ap t (void m)" "\<And>a. keeps (\<lambda>d. d) (f a)"
  shows "steps_of pf ap t (bnd m f)"
  unfolding steps_of_def using assms answering_route [OF assms(2)] by (fastforce simp: steps_of_def)

lemma steps_of_checked:
  assumes "keeps (\<lambda>d. d) m" "\<And>a. steps_of pf ap t (f a)"
  shows "steps_of pf ap t (bnd m f)"
  unfolding steps_of_def
proof (intro allI impI)
  fix d x d'
  assume "bnd m f d = (x, d')"
  from checked_route [OF assms(1) this] show "route_step pf ap t d d'"
    using assms(2) by (auto simp: steps_of_def route_step_def)
qed

lemma catalogue_routes:
  "steps_of pf ap t (create_tenant_route pf rq name)"
  "steps_of pf ap t (register_agent_route pf rq p i name)"
  "steps_of pf ap t (register_model_route pf rq p i name prov ref)"
  "steps_of pf ap t (set_permission_route pf rq p i a m eff)"
  unfolding create_tenant_route_def register_agent_route_def register_model_route_def set_permission_route_def
  by (intro steps_of_checked steps_of_answer steps_of_catalogue [OF run_catalogue.simps(1) [symmetric]]
      steps_of_catalogue [OF run_catalogue.simps(2) [symmetric]] steps_of_catalogue [OF run_catalogue.simps(3) [symmetric]]
      steps_of_catalogue [OF run_catalogue.simps(4) [symmetric]]; simp)+

lemma mgmt_routes:
  assumes "t \<le> clock_at rq 0" "t \<le> db_now rq"
  shows "steps_of pf ap t (create_principal_route pf rq p name ts mgr)"
    "steps_of pf ap t (set_scopes_route pf rq p i ts)"
    "steps_of pf ap t (issue_credential_route pf (app_mgmt ap) rq p i label x)"
    "steps_of pf ap t (revoke_credential_route pf rq p i ci)"
    "steps_of pf ap t (disable_principal_route pf rq p i)"
  unfolding create_principal_route_def set_scopes_route_def issue_credential_route_def revoke_credential_route_def
    disable_principal_route_def
  using assms
  by (intro steps_of_answer steps_of_mgmt [OF run_mgmt.simps(2) [symmetric]] steps_of_mgmt [OF run_mgmt.simps(3) [symmetric]]
      steps_of_mgmt [OF run_mgmt.simps(4) [symmetric]] steps_of_mgmt [OF run_mgmt.simps(5) [symmetric]]
      steps_of_mgmt [OF run_mgmt.simps(6) [symmetric]]; simp)+

lemma bootstrap_steps:
  assumes "t \<le> clock_at rq 0" "t \<le> db_now rq"
  shows "steps_of pf ap t (bootstrap_route pf (app_mgmt ap) rq creds name ts)"
proof (cases "bearer_token_of creds")
  case None
  then show ?thesis by (auto simp: bootstrap_route_def intro!: steps_of_keeping)
next
  case (Some token)
  then show ?thesis using assms unfolding bootstrap_route_def
    by (auto intro!: steps_of_answer steps_of_mgmt [OF run_mgmt.simps(1) [symmetric]] split: prod.split)
qed

lemma runtime_routes:
  "steps_of pf ap t (runtime_create_route pf (app_runtime ap) rq p tn a n k label x)"
  "steps_of pf ap t (usage_limits_route pf rq rq' p i n k)"
  "steps_of pf ap t (bind_route pf (app_runtime ap) rq rq' p i l)"
  "steps_of pf ap t (runtime_issue_route pf (app_runtime ap) rq p i label x)"
  "steps_of pf ap t (runtime_revoke_route pf rq p i ci)"
  "steps_of pf ap t (runtime_disable_route pf rq p i)"
  unfolding runtime_create_route_def usage_limits_route_def bind_route_def runtime_issue_route_def
    runtime_revoke_route_def runtime_disable_route_def
  by (intro steps_of_answer steps_of_runtime [OF run_runtime.simps(1) [symmetric]]
      steps_of_runtime [OF run_runtime.simps(2) [symmetric]] steps_of_runtime [OF run_runtime.simps(3) [symmetric]]
      steps_of_runtime [OF run_runtime.simps(4) [symmetric]] steps_of_runtime [OF run_runtime.simps(5) [symmetric]]
      steps_of_runtime [OF run_runtime.simps(6) [symmetric]]; simp split: prod.split)+

lemma management_route_steps:
  assumes "not_before t dr"
  shows "steps_of pf ap t (management_route pf ap dr p ep)"
proof -
  have t: "t \<le> clock_at (dr_main dr) 0" "t \<le> db_now (dr_main dr)" using assms by (simp_all add: not_before_def)
  show ?thesis
    by (cases ep) (simp_all add: catalogue_routes mgmt_routes [OF t] runtime_routes steps_of_keeping)
qed

text \<open>The endpoints that only read.\<close>

definition is_read :: "endpoint \<Rightarrow> bool" where
  "is_read ep = (case ep of GetTenant _ \<Rightarrow> True | GetAgent _ \<Rightarrow> True | GetModel _ \<Rightarrow> True | GetPermission _ \<Rightarrow> True
     | GetAuditRecords _ _ _ _ \<Rightarrow> True | GetRuntimeReport _ _ _ \<Rightarrow> True | GetInvocation _ \<Rightarrow> True
     | GetEvidence _ _ _ _ _ \<Rightarrow> True | GetPrincipals _ \<Rightarrow> True | GetPrincipal _ \<Rightarrow> True | GetCredentials _ _ \<Rightarrow> True
     | GetRuntimePrincipal _ \<Rightarrow> True | PreflightContinuity _ _ \<Rightarrow> True | _ \<Rightarrow> False)"

lemma keeps_reads: "is_read ep \<Longrightarrow> keeps (\<lambda>d. d) (management_route pf ap dr p ep)"
  by (cases ep) (simp_all add: is_read_def)

subsection \<open>Authentication\<close>

definition is_management :: "endpoint \<Rightarrow> bool" where
  "is_management ep = (case ep of PostInvocation _ _ \<Rightarrow> False | GetInvocation _ \<Rightarrow> False
     | PostBootstrap _ _ \<Rightarrow> False | _ \<Rightarrow> True)"

definition guarded :: "platform \<Rightarrow> app \<Rightarrow> draws \<Rightarrow> http_request \<Rightarrow> (exc, db, reply) op" where
  "guarded pf ap dr req =
     bnd (require_management_principal pf (ms_pepper (app_mgmt ap)) (dr_auth dr) (hq_credentials req)) (\<lambda>p.
     bnd (validate (hq_endpoint req)) (\<lambda>_. management_route pf ap dr p (hq_endpoint req)))"

lemma dispatch_management:
  "is_management (hq_endpoint req) \<Longrightarrow> dispatch pf ap dr req = on_db (guarded pf ap dr req)"
  by (cases "hq_endpoint req") (simp_all add: dispatch_def guarded_def Let_def is_management_def)

lemma serve_on_db:
  "dispatch pf ap dr req = on_db m \<Longrightarrow> serve pf ap dr req w =
     (case fst (m (w_db w)) of Inl e \<Rightarrow> Failure (problem_of (hq_path req) e) | Inr r \<Rightarrow> r,
      w\<lparr>w_db := snd (m (w_db w))\<rparr>)"
  by (simp add: serve_def on_db_run split: sum.split)

text \<open>Authentication changes no table but the evidence, whether it succeeds, fails or raises.\<close>

definition but_evidence :: "db \<Rightarrow> db" where
  "but_evidence d = d\<lparr>mgmt_evidence := []\<rparr>"

lemma but_evidence_sel [simp]:
  "but_evidence (d\<lparr>mgmt_evidence := ev\<rparr>) = but_evidence d"
  by (simp add: but_evidence_def)

lemma observe_keeps:
  assumes "observe pf c p x tm s = (r, s')" "committed s = d" "working s = d"
  shows "but_evidence (committed s') = but_evidence d"
  using assms
  by (auto simp: observe_def evidence_observe_def op_simps run_flush evidence_insert_def failure_defs
      split: sum.splits if_splits)

lemma authenticate_keeps: "keeps but_evidence (authenticate pf pepper rq token)"
proof (rule keepsI)
  fix d
  let ?s = "\<lparr>committed = d, working = d\<rparr>"
  show "but_evidence (snd (authenticate pf pepper rq token d)) = but_evidence d"
  proof (cases "parse_bearer_token pf token")
    case None
    then show ?thesis by (simp add: authenticate_def)
  next
    case (Some x)
    have obs: "but_evidence (committed s') = but_evidence d" if "observe pf c p o' tm ?s = (r, s')" for c p o' tm r s'
      using observe_keeps [OF that] by simp
    show ?thesis using Some
      by (auto simp: authenticate_def with_uow_eq bnd_def mgmt_credential_get_run mgmt_principal_get_run Let_def
          split: prod.split option.split sum.split dest!: obs)
  qed
qed

lemma require_management_keeps: "keeps but_evidence (require_management_principal pf pepper rq creds)"
  unfolding require_management_principal_def
  by (auto intro!: keeps_bnd authenticate_keeps split: option.split)

subsection \<open>The system\<close>

text \<open>A command the configuration of the runtime principals gives.\<close>

definition registered :: "app \<Rightarrow> command \<Rightarrow> bool" where
  "registered ap c \<longleftrightarrow> (\<exists>e \<in> set (app_runtime_auth ap). cm_principal c = re_principal_id e
     \<and> cm_tenant c = re_tenant_id e \<and> cm_agent c = re_agent_id e \<and> cm_limit c = re_usage_limit e
     \<and> cm_allowance c = re_allowance e)"

inductive system_step :: "platform \<Rightarrow> app \<Rightarrow> int \<Rightarrow> world \<Rightarrow> world \<Rightarrow> bool" for pf ap t where
  authentication: "authenticate pf (ms_pepper (app_mgmt ap)) rq token (w_db w) = (r, d) \<Longrightarrow> t \<le> clock_at rq 0 \<Longrightarrow>
    system_step pf ap t w (w\<lparr>w_db := d\<rparr>)"
| catalogue: "catalogue_step pf (w_db w) d \<Longrightarrow> system_step pf ap t w (w\<lparr>w_db := d\<rparr>)"
| management: "mgmt_step pf (app_mgmt ap) t (w_db w) d \<Longrightarrow> system_step pf ap t w (w\<lparr>w_db := d\<rparr>)"
| runtime: "runtime_step pf (app_runtime ap) (w_db w) d \<Longrightarrow> system_step pf ap t w (w\<lparr>w_db := d\<rparr>)"
| gateway: "gateway_step pf (app_gateway ap) (registered ap) w w' \<Longrightarrow> system_step pf ap t w w'"

inductive_cases system_stepE: "system_step pf ap t w w'"

inductive http_step :: "platform \<Rightarrow> app \<Rightarrow> int \<Rightarrow> world \<Rightarrow> world \<Rightarrow> bool" for pf ap t where
  request: "not_before t dr \<Longrightarrow> serve pf ap dr req w = (answer, w') \<Longrightarrow> http_step pf ap t w w'"

inductive_cases http_stepE: "http_step pf ap t w w'"

lemma route_step_system:
  assumes "route_step pf ap t (w_db w) d"
  shows "(system_step pf ap t)\<^sup>*\<^sup>* w (w\<lparr>w_db := d\<rparr>)"
  using assms unfolding route_step_def
proof (elim disjE)
  assume "d = w_db w"
  then have "w\<lparr>w_db := d\<rparr> = w" by simp
  then show ?thesis by (simp only: rtranclp.rtrancl_refl)
qed (auto intro: system_step.intros)

lemma require_management_step:
  assumes "require_management_principal pf (ms_pepper (app_mgmt ap)) rq creds (w_db w) = (r, d)" "t \<le> clock_at rq 0"
  shows "(system_step pf ap t)\<^sup>*\<^sup>* w (w\<lparr>w_db := d\<rparr>)"
proof (cases "bearer_token_of creds")
  case None
  then have "w\<lparr>w_db := d\<rparr> = w" using assms(1) by (simp add: require_management_principal_def)
  then show ?thesis by (simp only: rtranclp.rtrancl_refl)
next
  case (Some token)
  obtain r1 d1 where a: "authenticate pf (ms_pepper (app_mgmt ap)) rq token (w_db w) = (r1, d1)" by fastforce
  then have "d = d1"
    using assms(1) Some by (auto simp: require_management_principal_def bnd_def split: sum.splits option.splits)
  then show ?thesis using system_step.authentication [OF a assms(2)] by auto
qed

lemma guarded_steps:
  assumes "guarded pf ap dr req (w_db w) = (r, d)" "not_before t dr"
  shows "(system_step pf ap t)\<^sup>*\<^sup>* w (w\<lparr>w_db := d\<rparr>)"
proof -
  obtain x d1 where a: "require_management_principal pf (ms_pepper (app_mgmt ap)) (dr_auth dr)
      (hq_credentials req) (w_db w) = (x, d1)" by fastforce
  have first: "(system_step pf ap t)\<^sup>*\<^sup>* w (w\<lparr>w_db := d1\<rparr>)"
    using require_management_step [OF a] assms(2) by (simp add: not_before_def)
  show ?thesis
  proof (cases x)
    case (Inl e)
    then show ?thesis using assms(1) a first by (simp add: guarded_def)
  next
    case (Inr p)
    then have b: "bnd (validate (hq_endpoint req)) (\<lambda>_. management_route pf ap dr p (hq_endpoint req)) d1 = (r, d)"
      using assms(1) a by (simp add: guarded_def)
    have "steps_of pf ap t (bnd (validate (hq_endpoint req)) (\<lambda>_. management_route pf ap dr p (hq_endpoint req)))"
      by (intro steps_of_checked management_route_steps [OF assms(2)] keeps_authorize)
    then have "route_step pf ap t (w_db (w\<lparr>w_db := d1\<rparr>)) d" using b by (auto simp: steps_of_def)
    from route_step_system [OF this] first show ?thesis by simp
  qed
qed

lemma workload_registered:
  assumes "require_runtime_principal (app_runtime_auth ap) creds = Inr p"
  shows "registered ap (command_of p m text)"
proof -
  obtain e where e: "e \<in> set (app_runtime_auth ap)" "workload_of e = Inr p"
  proof -
    obtain s where s: "(case filter (\<lambda>e. re_credential e = s) (app_runtime_auth ap) of
           [matched] \<Rightarrow> workload_of matched | _ \<Rightarrow> Inl RuntimeAuthenticationFailed) = Inr p"
      using assms by (auto simp: require_runtime_principal_def split: option.splits)
    then obtain e where f: "filter (\<lambda>e. re_credential e = s) (app_runtime_auth ap) = [e]" "workload_of e = Inr p"
      by (auto split: list.splits)
    have "e \<in> set (filter (\<lambda>e. re_credential e = s) (app_runtime_auth ap))" using f(1) by simp
    then show ?thesis using that [of e] f(2) by simp
  qed
  then show ?thesis
    unfolding registered_def by (intro bexI [of _ e]) (auto simp: workload_of_def workload_init_def command_of_def split: if_splits)
qed

lemma create_invocation_route_step:
  assumes "create_invocation_route pf rq (app_gateway ap) p m text w = (r, w')"
    "require_runtime_principal (app_runtime_auth ap) creds = Inr p"
  shows "system_step pf ap t w w'"
proof -
  obtain x w1 where c: "create_invocation pf rq (app_gateway ap) (command_of p m text) w = (x, w1)" by fastforce
  then have "w' = w1" using assms(1) by (cases x) (simp_all add: create_invocation_route_def)
  then show ?thesis
    using c workload_registered [OF assms(2)] by (intro system_step.gateway gateway_step.request) auto
qed

lemma serve_steps:
  assumes "serve pf ap dr req w = (answer, w')" "not_before t dr"
  shows "(system_step pf ap t)\<^sup>*\<^sup>* w w'"
proof -
  obtain r where d: "dispatch pf ap dr req w = (r, w')" using assms(1) by (auto simp: serve_def split: prod.splits sum.splits)
  have t: "t \<le> clock_at (dr_main dr) 0" "t \<le> db_now (dr_main dr)" using assms(2) by (simp_all add: not_before_def)
  have main: "(system_step pf ap t)\<^sup>*\<^sup>* w w'" if m: "steps_of pf ap t m" "on_db m w = (r, w')" for m
  proof -
    have "route_step pf ap t (w_db w) (snd (m (w_db w)))" using m(1) unfolding steps_of_def by (metis prod.collapse)
    from route_step_system [OF this] show ?thesis using m(2) by (simp add: on_db_run)
  qed
  show ?thesis
  proof (cases "is_management (hq_endpoint req)")
    case True
    then have "on_db (guarded pf ap dr req) w = (r, w')" using d dispatch_management by metis
    then show ?thesis using guarded_steps [OF prod.collapse [symmetric] assms(2), of pf ap w req] by (auto simp: on_db_run)
  next
    case False
    then consider m input where "hq_endpoint req = PostInvocation m input" | i where "hq_endpoint req = GetInvocation i"
      | name ts where "hq_endpoint req = PostBootstrap name ts"
      by (cases "hq_endpoint req") (simp_all add: is_management_def)
    then show ?thesis
    proof cases
      case 1
      show ?thesis
      proof (cases "require_runtime_principal (app_runtime_auth ap) (hq_credentials req)")
        case (Inl e)
        then show ?thesis using d 1 by (simp add: dispatch_def bnd_def)
      next
        case (Inr p)
        then show ?thesis using d 1 create_invocation_route_step [OF _ Inr, of pf "dr_main dr" m input w r w' t]
          by (auto simp: dispatch_def bnd_def validate_def split: if_splits)
      qed
    next
      case 2
      show ?thesis
      proof (cases "require_runtime_principal (app_runtime_auth ap) (hq_credentials req)")
        case (Inl e)
        then show ?thesis using d 2 by (simp add: dispatch_def bnd_def)
      next
        case (Inr p)
        then show ?thesis using d 2
          by (intro main [of "get_invocation_route pf p i"] steps_of_keeping) (simp_all add: dispatch_def bnd_def)
      qed
    next
      case 3
      show ?thesis
      proof (cases "parameters_valid (hq_endpoint req)")
        case False
        then show ?thesis using d 3 by (simp add: dispatch_def bnd_def validate_def)
      next
        case True
        then show ?thesis using d 3 bootstrap_steps [OF t]
          by (intro main [of "bootstrap_route pf (app_mgmt ap) (dr_main dr) (hq_credentials req) name ts"])
             (simp_all add: dispatch_def bnd_def validate_def)
      qed
    qed
  qed
qed

lemma http_steps_system: "(http_step pf ap t)\<^sup>*\<^sup>* w w' \<Longrightarrow> (system_step pf ap t)\<^sup>*\<^sup>* w w'"
  by (induction rule: rtranclp_induct) (auto elim!: http_stepE dest: serve_steps)

end
