(* ===== verification/ManagerAccess.thy ===== *)
theory ManagerAccess
  imports MgmtInvariants
begin

text \<open>
  Who can still manage principals. \<open>manager_access\<close> is what the control plane can be recovered
  with: the credentials, not revoked, of enabled principals that may manage principals. A
  history is a sequence of steps, each with the time at which its request ran; it records when
  access was last taken away (\<open>last_taken\<close>). The locale \<open>access_control\<close> says when a kind of
  step can be trusted with that: a step that takes some access away leaves, at its own time,
  access that has not expired. The commands of the service are one instance, the HTTP requests
  another.
\<close>

definition manager_access :: "db \<Rightarrow> mgmt_credential_row set" where
  "manager_access d = {c \<in> set (mgmt_credentials d). mc_revoked_at c = None
     \<and> (\<exists>p \<in> set (mgmt_principals d). mp_principal_id p = mc_principal_id c
          \<and> mp_disabled_at p = None \<and> mp_can_manage_principals p)}"

definition unexpired :: "int \<Rightarrow> mgmt_credential_row \<Rightarrow> bool" where
  "unexpired t c = (case mc_expires_at c of None \<Rightarrow> True | Some x \<Rightarrow> t < x)"

text \<open>A step at time \<open>t\<close> that takes access away leaves some that is good at \<open>t\<close>.\<close>

definition kept_or_left :: "('s \<Rightarrow> mgmt_credential_row set) \<Rightarrow> int \<Rightarrow> 's \<Rightarrow> 's \<Rightarrow> bool" where
  "kept_or_left access t s s' \<longleftrightarrow> access s \<subseteq> access s' \<or> (\<exists>c \<in> access s'. unexpired t c)"

lemma kept_or_left_refl [simp]: "kept_or_left access t s s"
  by (simp add: kept_or_left_def)

lemma kept_or_left_trans:
  "kept_or_left access t s s' \<Longrightarrow> kept_or_left access t s' s'' \<Longrightarrow> kept_or_left access t s s''"
  unfolding kept_or_left_def by blast

text \<open>Access is taken away at most at the times the history names; it keeps the last one.\<close>

inductive timed_history :: "(int \<Rightarrow> 's \<Rightarrow> 's \<Rightarrow> bool) \<Rightarrow> ('s \<Rightarrow> mgmt_credential_row set) \<Rightarrow>
    's \<Rightarrow> int option \<Rightarrow> 's \<Rightarrow> bool" for step access s where
  start: "timed_history step access s None s"
| event: "timed_history step access s last_taken s1 \<Longrightarrow> step t s1 s2 \<Longrightarrow>
    timed_history step access s (if access s1 \<subseteq> access s2 then last_taken else Some t) s2"

locale access_control =
  fixes step :: "int \<Rightarrow> 's \<Rightarrow> 's \<Rightarrow> bool"
    and access :: "'s \<Rightarrow> mgmt_credential_row set"
    and good :: "'s \<Rightarrow> bool"
  assumes step_good: "step t s s' \<Longrightarrow> good s \<Longrightarrow> good s'"
    and guarded: "step t s s' \<Longrightarrow> good s \<Longrightarrow> kept_or_left access t s s'"
begin

lemma history_good: "timed_history step access s m s' \<Longrightarrow> good s \<Longrightarrow> good s'"
  by (induction rule: timed_history.induct) (auto intro: step_good)

lemma someone_left:
  assumes "timed_history step access s last_taken s'" "good s" "c \<in> access s" "mc_expires_at c = None"
  shows "\<exists>x \<in> access s'. case last_taken of None \<Rightarrow> mc_expires_at x = None | Some t \<Rightarrow> unexpired t x"
  using assms
proof (induction rule: timed_history.induct)
  case (event last_taken s1 t s2)
  have "kept_or_left access t s1 s2" using event history_good guarded by blast
  then show ?case using event by (auto simp: kept_or_left_def)
qed auto

end

subsection \<open>The commands of the service\<close>

lemma access_iff: "c \<in> manager_access d \<longleftrightarrow> c \<in> set (mgmt_credentials d) \<and> mc_revoked_at c = None
  \<and> (\<exists>p \<in> set (mgmt_principals d). mp_principal_id p = mc_principal_id c
       \<and> mp_disabled_at p = None \<and> mp_can_manage_principals p)"
  by (simp add: manager_access_def)

lemma live_unexpired: "live_at t' c \<Longrightarrow> t \<le> t' \<Longrightarrow> mc_revoked_at c = None \<and> unexpired t c"
  by (auto simp: live_at_def unexpired_def opt_ok_def split: option.splits)

lemma recoverable_access:
  assumes "has_recoverable_manager t' (Some i) d" "t \<le> t'"
  shows "\<exists>c \<in> manager_access d. mc_principal_id c \<noteq> i \<and> unexpired t c"
proof -
  obtain p c where "p \<in> set (mgmt_principals d)" "mp_disabled_at p = None" "mp_can_manage_principals p"
    "c \<in> set (mgmt_credentials d)" "mc_principal_id c = mp_principal_id p" "live_at t' c" "mp_principal_id p \<noteq> i"
    using assms(1) by (auto simp: has_recoverable_manager_def)
  moreover from this have "mc_revoked_at c = None \<and> unexpired t c" using live_unexpired assms(2) by blast
  ultimately show ?thesis by (intro bexI [of _ c]) (auto simp: access_iff)
qed

lemma mgmt_change_guarded:
  assumes "mgmt_change t d d'" "mgmt_ok d"
  shows "kept_or_left manager_access t d d'"
proof -
  have ids: "distinct (map mp_principal_id (mgmt_principals d))" "distinct (map mc_credential_id (mgmt_credentials d))"
    using assms(2) by (simp_all add: mgmt_ok_def)
  show ?thesis using assms(1)
  proof (cases rule: mgmt_change.cases)
    case (revoke i p ci c now dbnow as)
    have p: "p \<in> set (mgmt_principals d)" "mp_principal_id p = i" using revoke(2) by (auto dest: row_of_SomeD)
    have kept: "x \<in> manager_access d'" if "x \<in> manager_access d" "mc_credential_id x \<noteq> ci" for x
      using that revoke(1) by (force simp: access_iff set_update_rows)
    have owner: "mc_principal_id x = i" if "x \<in> set (mgmt_credentials d)" "mc_credential_id x = ci" for x
      using only_row [OF ids(2) revoke(3) that] revoke(4) by simp
    show ?thesis
    proof (cases "mp_disabled_at p = None \<and> mp_can_manage_principals p")
      case True
      with revoke(8) show ?thesis
      proof (elim impE disjE bexE conjE)
        assume "has_recoverable_manager dbnow (Some i) d"
        then show ?thesis using recoverable_access [OF _ revoke(7)] kept owner
          unfolding kept_or_left_def access_iff [where d = d] by (metis access_iff)
      next
        fix x
        assume "x \<in> set (mgmt_credentials d)" "mc_principal_id x = i" "mc_credential_id x \<noteq> ci" "live_at now x"
        moreover from this have "x \<in> manager_access d \<and> unexpired t x"
          using True p live_unexpired [OF _ revoke(6), of x] by (auto simp: access_iff)
        ultimately show ?thesis using kept [of x] by (auto simp: kept_or_left_def)
      qed simp
    next
      case False
      have "mc_credential_id x \<noteq> ci" if "x \<in> manager_access d" for x
        using that owner [of x] only_row [OF ids(1) revoke(2)] False by (auto simp: access_iff)
      then show ?thesis using kept by (auto simp: kept_or_left_def)
    qed
  next
    case (disable i p dbnow now as)
    have kept: "x \<in> manager_access d'" if "x \<in> manager_access d" "mc_principal_id x \<noteq> i" for x
      using that disable(1) by (force simp: access_iff set_update_rows)
    show ?thesis
    proof (cases "mp_can_manage_principals p")
      case True
      then show ?thesis using recoverable_access [OF _ disable(4)] disable(5) kept
        by (auto simp: kept_or_left_def)
    next
      case False
      have "mc_principal_id x \<noteq> i" if "x \<in> manager_access d" for x
        using that only_row [OF ids(1) disable(2)] False by (auto simp: access_iff)
      then show ?thesis using kept by (auto simp: kept_or_left_def)
    qed
  qed (auto simp: kept_or_left_def access_iff)
qed

text \<open>A command with the time at which it ran: the earlier of the two clocks it reads.\<close>

inductive mgmt_event :: "platform \<Rightarrow> mgmt_service \<Rightarrow> int \<Rightarrow> db \<Rightarrow> db \<Rightarrow> bool" for pf sv where
  command: "run_mgmt pf sv rq cmd d = (r, d') \<Longrightarrow> mgmt_event pf sv (min (clock_at rq 0) (db_now rq)) d d'"

inductive_cases mgmt_eventE: "mgmt_event pf sv t d d'"

lemma mgmt_event_step: "mgmt_event pf sv t d d' \<Longrightarrow> mgmt_step pf sv t d d'"
  by (elim mgmt_eventE) (rule mgmt_step.command [rotated 2], assumption, simp_all)

lemma mgmt_step_guarded: "mgmt_step pf sv t d d' \<Longrightarrow> mgmt_ok d \<Longrightarrow> kept_or_left manager_access t d d'"
  using mgmt_step_change mgmt_change_guarded by fastforce

interpretation mgmt_control: access_control "mgmt_event pf sv" manager_access mgmt_ok for pf sv
  by unfold_locales (auto dest: mgmt_event_step intro: mgmt_step_ok mgmt_step_guarded)

end
