(* ===== verification/System.thy ===== *)
theory System
  imports HttpLaws ManagerAccess
begin

text \<open>
  The system as one state machine over all tables: what each kind of step leaves alone, and the
  invariant every step keeps. Each context's invariant speaks of its own tables and of the
  tenants and agents they refer to, which only grow; so a step of one context keeps the
  invariants of the others by its frame.
\<close>

subsection \<open>Frames\<close>

lemma catalogue_frame:
  assumes "catalogue_step pf d d'"
  shows "\<exists>ts as ms ps au. d' = d\<lparr>tenants := tenants d @ ts, agents := agents d @ as, models := models d @ ms,
    permissions := ps, audits := audits d @ au\<rparr>"
  using assms
proof (elim catalogue_stepE)
  fix rq cmd r
  assume run: "run_catalogue pf rq cmd d = (r, d')"
  show ?thesis
  proof (cases r)
    case (Inl e)
    then have "d' = d" using run run_catalogue_failed by blast
    then show ?thesis
      by (intro exI [of _ "[]"] exI [of _ "permissions d"]) simp
  next
    case (Inr u)
    show ?thesis
    proof (cases cmd)
      case (CreateTenant name)
      then obtain x where "d' = d\<lparr>tenants := tenants d @ [x]\<rparr>"
        using run Inr by (auto simp: void_Inr_iff create_tenant_Inr_iff tenant_insert_Inr_iff)
      then show ?thesis
        by (intro exI [of _ "[x]"] exI [of _ "[]"] exI [of _ "permissions d"]) simp
    next
      case (RegisterAgent i name)
      then obtain x where "d' = d\<lparr>agents := agents d @ [x]\<rparr>"
        using run Inr by (auto simp: void_Inr_iff register_agent_Inr_iff agent_insert_Inr_iff)
      then show ?thesis
        by (intro exI [of _ "[]"] exI [of _ "[x]"] exI [of _ "permissions d"]) simp
    next
      case (RegisterModel i name p ref)
      then obtain x where "d' = d\<lparr>models := models d @ [x]\<rparr>"
        using run Inr by (auto simp: void_Inr_iff register_model_Inr_iff model_insert_Inr_iff)
      then show ?thesis
        by (intro exI [of _ "[]"] exI [of _ "[x]"] exI [of _ "permissions d"]) simp
    next
      case (SetPermission actor i a m eff)
      then obtain p where "set_permission pf rq actor i a m eff d = (Inr p, d')"
        using run Inr by (auto simp: void_Inr_iff)
      then obtain r1 d1 au where u: "permission_upsert (proposed_row rq i a m eff) d = Inr (r1, d1)"
        "d' = d1\<lparr>audits := audits d1 @ [au]\<rparr>"
        using set_permission_effect(4) by blast
      have "d1 = d\<lparr>permissions := permissions d1\<rparr>" by (rule permission_upsert_frame(2) [OF u(1)])
      then obtain ps where d1: "d1 = d\<lparr>permissions := ps\<rparr>" by blast
      show ?thesis unfolding u(2) d1
        by (intro exI [of _ "[]"] exI [of _ "[au]"] exI [of _ ps]) simp
    qed
  qed
qed

lemma mgmt_frame:
  assumes "mgmt_step pf sv t d d'"
  shows "\<exists>ps ss cs au. d' = d\<lparr>mgmt_principals := ps, mgmt_scopes := ss, mgmt_credentials := cs,
    audits := audits d @ au\<rparr>"
proof -
  have same: "d = d\<lparr>mgmt_principals := mgmt_principals d, mgmt_scopes := mgmt_scopes d,
    mgmt_credentials := mgmt_credentials d, audits := audits d @ []\<rparr>" by simp
  have "\<exists>as. d' = d\<lparr>mgmt_principals := mgmt_principals d', mgmt_scopes := mgmt_scopes d',
      mgmt_credentials := mgmt_credentials d', audits := audits d @ as\<rparr>" if "mgmt_change t d d'"
    using that by (cases rule: mgmt_change.cases) (rule exI, simp)+
  then show ?thesis using mgmt_step_change [OF assms] same by metis
qed

lemma runtime_frame:
  assumes "runtime_step pf sv d d'"
  shows "\<exists>ps cs au. d' = d\<lparr>runtime_principals := ps, runtime_credentials := cs, audits := audits d @ au\<rparr>"
proof -
  have same: "d = d\<lparr>runtime_principals := runtime_principals d, runtime_credentials := runtime_credentials d,
    audits := audits d @ []\<rparr>" by simp
  have "\<exists>as. d' = d\<lparr>runtime_principals := runtime_principals d', runtime_credentials := runtime_credentials d',
      audits := audits d @ as\<rparr>" if "runtime_change d d'"
    using that by (cases rule: runtime_change.cases) (rule exI, simp)+
  then show ?thesis using runtime_step_change [OF assms] same by metis
qed

lemma gateway_frame:
  assumes "gateway_step pf gw ok w w'"
  shows "\<exists>ds is. w_db w' = (w_db w)\<lparr>decisions := decisions (w_db w) @ ds, invocations := invocations (w_db w) @ is\<rparr>"
  using step_rows [OF assms] by (auto simp: advances_def)

lemma authentication_frame:
  assumes "authenticate pf pepper rq token d = (r, d')"
  shows "\<exists>ev. d' = d\<lparr>mgmt_evidence := ev\<rparr>"
proof -
  have "but_evidence d' = but_evidence d" using keepsD [OF authenticate_keeps assms] .
  then have "d' = d\<lparr>mgmt_evidence := mgmt_evidence d'\<rparr>"
    by (metis but_evidence_def but_evidence_sel db.surjective db.update_convs(11))
  then show ?thesis by blast
qed

subsection \<open>The invariant\<close>

text \<open>Every stored asset reads back.\<close>

definition assets_readable :: "platform \<Rightarrow> db \<Rightarrow> bool" where
  "assets_readable pf d \<longleftrightarrow> (\<forall>r \<in> set (tenants d). \<exists>x. tenant_of_row pf r = Inr x)
     \<and> (\<forall>r \<in> set (agents d). \<exists>x. agent_of_row pf r = Inr x) \<and> (\<forall>r \<in> set (models d). \<exists>x. model_of_row pf r = Inr x)"

text \<open>
  The ledger: decisions and invocations have one identity each, and every invocation is of an
  agent and a model of its tenant, is backed by the decision taken for it, and is a success only
  where that decision is ALLOW.
\<close>

definition backed :: "db \<Rightarrow> invocation_row \<Rightarrow> bool" where
  "backed d r \<longleftrightarrow> (\<exists>x \<in> set (decisions d). ir_policy_decision_id r = Some (dr_id x) \<and> dr_invocation_id x = ir_id r
     \<and> dr_tenant_id x = ir_tenant_id r \<and> dr_agent_id x = ir_agent_id r \<and> dr_model_id x = ir_model_id r
     \<and> (ir_status r = SUCCEEDED \<longrightarrow> dr_effect x = ALLOW))"

definition owned_row :: "db \<Rightarrow> invocation_row \<Rightarrow> bool" where
  "owned_row d r \<longleftrightarrow> (\<exists>a \<in> set (agents d). ar_id a = ir_agent_id r \<and> ar_tenant_id a = ir_tenant_id r)
     \<and> (\<exists>m \<in> set (models d). mr_id m = ir_model_id r \<and> mr_tenant_id m = ir_tenant_id r)"

definition ledger_ids :: "db \<Rightarrow> bool" where
  "ledger_ids d \<longleftrightarrow> distinct (map ir_id (invocations d)) \<and> distinct (map dr_id (decisions d))
     \<and> distinct (map dr_invocation_id (decisions d))"

definition ledger_ok :: "db \<Rightarrow> bool" where
  "ledger_ok d \<longleftrightarrow> ledger_ids d \<and> (\<forall>r \<in> set (invocations d). backed d r \<and> owned_row d r)"

definition system_ok :: "platform \<Rightarrow> db \<Rightarrow> bool" where
  "system_ok pf d \<longleftrightarrow> catalogue_ok pf d \<and> assets_readable pf d \<and> ledger_ok d \<and> mgmt_ok d \<and> runtime_ok d"

text \<open>Invariants of a computation, closed under the combinators.\<close>

definition preserves :: "('s \<Rightarrow> bool) \<Rightarrow> ('e, 's, 'a) op \<Rightarrow> bool" where
  "preserves P m \<longleftrightarrow> (\<forall>s. P s \<longrightarrow> P (snd (m s)))"

lemma preserves_keeps: "keeps (\<lambda>s. s) m \<Longrightarrow> preserves P m"
  by (simp add: preserves_def keeps_def)

lemma preserves_basic [simp, intro]:
  "preserves P (ret a)" "preserves P (throw e)" "preserves P (raise_if c e)" "preserves P (lift r)"
  "preserves P (reads h)"
  by (simp_all add: preserves_def)

lemma preserves_bnd [intro]:
  assumes "preserves P m" "\<And>a. preserves P (f a)"
  shows "preserves P (bnd m f)"
  unfolding preserves_def
proof (intro allI impI)
  fix s assume "P s"
  obtain r s' where m: "m s = (r, s')" by fastforce
  then have "P s'" using assms(1) \<open>P s\<close> unfolding preserves_def by (metis snd_conv)
  then show "P (snd (bnd m f s))"
    using assms(2) m unfolding preserves_def by (cases r) simp_all
qed

lemma preserves_catch:
  assumes "preserves P m" "\<And>e h. sel e = Some h \<Longrightarrow> preserves P h"
  shows "preserves P (catch m sel)"
  unfolding preserves_def
proof (intro allI impI)
  fix s assume "P s"
  obtain r s' where m: "m s = (r, s')" by fastforce
  then have "P s'" using assms(1) \<open>P s\<close> unfolding preserves_def by (metis snd_conv)
  then show "P (snd (catch m sel s))"
    using assms(2) m unfolding preserves_def catch_def by (cases r) (auto split: option.split)
qed

subsection \<open>The gateway keeps the ledger\<close>

definition ids_in :: "world \<Rightarrow> bool" where
  "ids_in w \<longleftrightarrow> ledger_ids (w_db w)"

lemma persist_ids: "preserves ids_in (persist_invocation v)"
  unfolding preserves_def
proof (intro allI impI)
  fix w assume ok: "ids_in w"
  from persist_invocation_cases [OF prod.collapse [symmetric], of v w] show "ids_in (snd (persist_invocation v w))"
    using ok by (auto simp: ids_in_def ledger_ids_def invocation_insert_Inr_iff)
qed

lemma decide_ids:
  fixes c :: command
  shows "preserves ids_in (on_db (runtime_policy_decide pf (id_at rq 1) (clock rq 1) (id_at rq 0) (cm_tenant c) (cm_agent c) (cm_model c)))"
  unfolding preserves_def
proof (intro allI impI)
  fix w assume ok: "ids_in w"
  obtain r d where p: "runtime_policy_decide pf (id_at rq 1) (clock rq 1) (id_at rq 0)
      (cm_tenant c) (cm_agent c) (cm_model c) (w_db w) = (r, d)" by fastforce
  show "ids_in (snd (on_db (runtime_policy_decide pf (id_at rq 1) (clock rq 1) (id_at rq 0)
      (cm_tenant c) (cm_agent c) (cm_model c)) w))"
  proof (cases r)
    case (Inl e)
    then show ?thesis using p ok runtime_policy_decide_failed by (fastforce simp: on_db_run)
  next
    case (Inr x)
    obtain did eff pid where x: "x = (did, eff, pid)" by (cases x)
    show ?thesis using p Inr x ok runtime_policy_decide_Inr(3) [OF p [unfolded Inr x]]
      by (auto simp: on_db_run ids_in_def ledger_ids_def decision_insert_Inr_iff)
  qed
qed

lemma openai_ids: "preserves ids_in (openai_invoke p ref input)"
  unfolding preserves_def
proof (intro allI impI)
  fix w assume ok: "ids_in w"
  from openai_invoke_cases [OF prod.collapse [symmetric], of p ref input w] show "ids_in (snd (openai_invoke p ref input w))"
    using ok by (auto simp: ids_in_def advances_def)
qed

lemma keeps_read_world [simp, intro]: "keeps v (read_world f)"
  by (simp add: keeps_def)

lemma preserves_read_world [simp, intro]: "preserves P (read_world f)"
  by (simp add: preserves_def)

lemma refuse_ids: "preserves ids_in (refuse v e)"
  unfolding refuse_def by (intro preserves_bnd persist_ids) simp

lemma call_provider_ids: "preserves ids_in (call_provider gw provider ref core)"
  unfolding call_provider_def
  by (intro preserves_bnd preserves_catch openai_ids persist_ids)
     (auto intro: refuse_ids split: if_splits)

lemma check_budget_ids: "preserves ids_in (check_budget rq gw provider ref core win)"
  unfolding check_budget_def
  by (cases "gw_budgets gw (ic_tenant_id core)") (auto intro!: preserves_bnd refuse_ids call_provider_ids)

lemma check_usage_ids: "preserves ids_in (check_usage pf rq gw c provider ref core)"
  unfolding check_usage_def by (auto intro!: preserves_bnd refuse_ids check_budget_ids)

lemma decide_policy_ids: "preserves ids_in (decide_policy pf rq gw c input provider ref)"
  unfolding decide_policy_def
  by (intro preserves_bnd decide_ids) (auto simp: Let_def intro!: refuse_ids check_usage_ids split: prod.split)

lemma create_invocation_ids: "preserves ids_in (create_invocation pf rq gw c)"
  unfolding preserves_def
proof (intro allI impI)
  fix w assume ok: "ids_in w"
  obtain r w' where run: "create_invocation pf rq gw c w = (r, w')" by fastforce
  from create_invocation_cases [OF run] show "ids_in (snd (create_invocation pf rq gw c w))"
    using ok decide_policy_ids unfolding run preserves_def by (metis snd_conv)
qed

lemma backed_grows: "backed d r \<Longrightarrow> decisions d' = decisions d @ ds \<Longrightarrow> backed d' r"
  by (auto simp: backed_def)

lemma owned_grows:
  "owned_row d r \<Longrightarrow> agents d' = agents d @ as \<Longrightarrow> models d' = models d @ ms \<Longrightarrow> owned_row d' r"
  by (auto simp: owned_row_def)

lemma admitted_owned:
  assumes "admitted c ref d"
  shows "\<exists>a \<in> set (agents d). ar_id a = cm_agent c \<and> ar_tenant_id a = cm_tenant c"
    "\<exists>m \<in> set (models d). mr_id m = cm_model c \<and> mr_tenant_id m = cm_tenant c"
  using assms
  by (auto simp: admitted_def owned_by_agent runtime_model_def dest: row_of_SomeD)

text \<open>What one run stores, with the decision it stores it under.\<close>

lemma run_backed:
  assumes run: "create_invocation pf rq gw c w = (r, w')"
  shows "\<exists>ds is. decisions (w_db w') = decisions (w_db w) @ ds \<and> invocations (w_db w') = invocations (w_db w) @ is
    \<and> (\<forall>x \<in> set is. backed (w_db w') x \<and> owned_row (w_db w') x)"
proof (cases "w' = w")
  case True
  then show ?thesis by (intro exI [of _ "[]"]) simp
next
  case False
  then obtain ref1 where a: "admitted c ref1 (w_db w)" using create_invocation_cases [OF run] by blast
  obtain ref ds "is" calls where e: "advances w w' ds is calls"
    "rows_ok gw (lit ''openai'') ref (request_core rq c) is calls"
    "ds \<in> {[], [decision_row_of rq c (w_db w)]}" "is \<noteq> [] \<or> calls \<noteq> [] \<longrightarrow> ds \<noteq> []"
    "calls \<noteq> [] \<longrightarrow> permitted rq gw c ref (w_db w)"
    using create_invocation_effect [OF run] by blast
  have db: "decisions (w_db w') = decisions (w_db w) @ ds" "invocations (w_db w') = invocations (w_db w) @ is"
    "agents (w_db w') = agents (w_db w)" "models (w_db w') = models (w_db w)"
    using e(1) by (simp_all add: advances_def)
  have "backed (w_db w') x \<and> owned_row (w_db w') x" if x: "x \<in> set is" for x
  proof -
    obtain v where v: "x = invocation_to_row v" "from_core (request_core rq c) v"
      "uncharged v \<or> calls \<noteq> []"
      using e(2) x by (auto simp: rows_ok_def)
    have ds: "ds = [decision_row_of rq c (w_db w)]" using e(3,4) x by (cases "is") auto
    have st: "ir_status x = SUCCEEDED \<longrightarrow> dr_effect (decision_row_of rq c (w_db w)) = ALLOW"
      using v e(5) by (auto simp: uncharged_def invocation_to_row_def permitted_def decision_row_of_def)
    show ?thesis
    proof
      show "backed (w_db w') x"
        unfolding backed_def db(1) ds
        by (rule bexI [of _ "decision_row_of rq c (w_db w)"])
           (use st v(1,2) in \<open>auto simp: invocation_to_row_def from_core_def decision_row_of_def\<close>)
      show "owned_row (w_db w') x"
        using admitted_owned [OF a] v(1,2) db(3,4) by (auto simp: owned_row_def invocation_to_row_def from_core_def)
    qed
  qed
  then show ?thesis using db(1,2) by blast
qed

lemma gateway_ledger:
  assumes "gateway_step pf gw ok w w'" "ledger_ok (w_db w)"
  shows "ledger_ok (w_db w')"
proof -
  obtain c rq r where run: "create_invocation pf rq gw c w = (r, w')" using assms(1) by (elim gateway_stepE)
  have ids: "ledger_ids (w_db w')"
    using create_invocation_ids [of pf rq gw c] assms(2) run
    unfolding preserves_def ids_in_def ledger_ok_def by (metis snd_conv)
  obtain ds0 is0 where f: "w_db w' = (w_db w)\<lparr>decisions := decisions (w_db w) @ ds0, invocations := invocations (w_db w) @ is0\<rparr>"
    using gateway_frame [OF assms(1)] by blast
  obtain ds "is" where e: "decisions (w_db w') = decisions (w_db w) @ ds" "invocations (w_db w') = invocations (w_db w) @ is"
    "\<forall>x \<in> set is. backed (w_db w') x \<and> owned_row (w_db w') x"
    using run_backed [OF run] by blast
  have "backed (w_db w') x \<and> owned_row (w_db w') x" if "x \<in> set (invocations (w_db w))" for x
    using assms(2) that backed_grows [OF _ e(1)] owned_grows [of "w_db w" x "w_db w'" "[]" "[]"] f
    by (simp add: ledger_ok_def)
  then show ?thesis using ids e(2,3) by (auto simp: ledger_ok_def)
qed

subsection \<open>Every step keeps the invariant\<close>

lemma upsert_assets:
  assumes "catalogue_step pf d d'" "assets_readable pf d"
  shows "assets_readable pf d'"
  using assms(1)
proof (elim catalogue_stepE)
  fix rq cmd r
  assume run: "run_catalogue pf rq cmd d = (r, d')"
  show ?thesis
  proof (cases r)
    case (Inl e)
    then show ?thesis using run assms(2) run_catalogue_failed by blast
  next
    case (Inr u)
    show ?thesis
    proof (cases cmd)
      case (CreateTenant name)
      then show ?thesis using run Inr assms(2)
        by (auto simp: void_Inr_iff create_tenant_Inr_iff tenant_insert_Inr_iff tenant_create_Inr_iff
            assets_readable_def tenant_of_row_to_row)
    next
      case (RegisterAgent i name)
      then show ?thesis using run Inr assms(2)
        by (auto simp: void_Inr_iff register_agent_Inr_iff agent_insert_Inr_iff agent_register_Inr_iff
            assets_readable_def agent_of_row_to_row)
    next
      case (RegisterModel i name p ref)
      then show ?thesis using run Inr assms(2)
        by (auto simp: void_Inr_iff register_model_Inr_iff model_insert_Inr_iff model_register_Inr_iff
            assets_readable_def model_of_row_to_row)
    next
      case (SetPermission actor i a m eff)
      then obtain p where "set_permission pf rq actor i a m eff d = (Inr p, d')"
        using run Inr by (auto simp: void_Inr_iff)
      then obtain r1 d1 au where u: "permission_upsert (proposed_row rq i a m eff) d = Inr (r1, d1)"
        "d' = d1\<lparr>audits := audits d1 @ [au]\<rparr>"
        using set_permission_effect(4) by blast
      then show ?thesis using assms(2) upsert_tables [OF u(1)] by (simp add: assets_readable_def)
    qed
  qed
qed

lemma runtime_ok_grows:
  assumes "runtime_ok d" "runtime_principals d' = runtime_principals d" "runtime_credentials d' = runtime_credentials d"
    "agents d' = agents d @ as" "tenants d' = tenants d @ ts"
  shows "runtime_ok d'"
proof -
  have "runtime_binding_exists t a d'" if "runtime_binding_exists t a d" for t a
    using that assms(4,5) by (auto simp: runtime_binding_exists_def)
  then show ?thesis using assms unfolding runtime_ok_def unclaimed_def by auto
qed

lemma mgmt_ok_grows:
  assumes "mgmt_ok d" "mgmt_principals d' = mgmt_principals d" "mgmt_scopes d' = mgmt_scopes d"
    "mgmt_credentials d' = mgmt_credentials d" "tenants d' = tenants d @ ts"
  shows "mgmt_ok d'"
  using assms unfolding mgmt_ok_def by auto

lemma ledger_ok_grows:
  assumes "ledger_ok d" "decisions d' = decisions d" "invocations d' = invocations d"
    "agents d' = agents d @ as" "models d' = models d @ ms"
  shows "ledger_ok d'"
  using assms owned_grows [OF _ assms(4,5)] unfolding ledger_ok_def ledger_ids_def backed_def by simp

lemma catalogue_ok_same:
  assumes "catalogue_ok pf d" "tenants d' = tenants d" "agents d' = agents d" "models d' = models d"
    "permissions d' = permissions d"
  shows "catalogue_ok pf d'"
  using assms by (simp add: catalogue_ok_def tenants_ok_def assets_ok_def permissions_ok_def permissions_owned_def)

lemma assets_readable_same:
  assumes "assets_readable pf d" "tenants d' = tenants d" "agents d' = agents d" "models d' = models d"
  shows "assets_readable pf d'"
  using assms by (simp add: assets_readable_def)

lemma system_step_ok:
  assumes "system_step pf ap t w w'" "system_ok pf (w_db w)"
  shows "system_ok pf (w_db w')"
  using assms(1)
proof (cases rule: system_step.cases)
  case (authentication rq token r d)
  obtain ev where "d = (w_db w)\<lparr>mgmt_evidence := ev\<rparr>" using authentication_frame [OF authentication(2)] by blast
  then show ?thesis using assms(2) authentication(1)
    by (auto simp: system_ok_def intro: catalogue_ok_same assets_readable_same ledger_ok_grows [where as = "[]" and ms = "[]"]
        mgmt_ok_grows [where ts = "[]"] runtime_ok_grows [where as = "[]" and ts = "[]"])
next
  case (catalogue d)
  obtain ts as ms ps au where f: "d = (w_db w)\<lparr>tenants := tenants (w_db w) @ ts, agents := agents (w_db w) @ as,
    models := models (w_db w) @ ms, permissions := ps, audits := audits (w_db w) @ au\<rparr>"
    using catalogue_frame [OF catalogue(2)] by blast
  have "catalogue_ok pf d" "assets_readable pf d"
    using catalogue_step_ok [OF catalogue(2)] upsert_assets [OF catalogue(2)] assms(2) by (simp_all add: system_ok_def)
  moreover have "ledger_ok d" "mgmt_ok d" "runtime_ok d"
    using assms(2) unfolding f system_ok_def
    by (auto intro: ledger_ok_grows [where as = as and ms = ms] mgmt_ok_grows [where ts = ts]
        runtime_ok_grows [where as = as and ts = ts])
  ultimately show ?thesis using catalogue(1) by (simp add: system_ok_def)
next
  case (management d)
  obtain ps ss cs au where f: "d = (w_db w)\<lparr>mgmt_principals := ps, mgmt_scopes := ss, mgmt_credentials := cs,
    audits := audits (w_db w) @ au\<rparr>"
    using mgmt_frame [OF management(2)] by blast
  have "mgmt_ok d" using mgmt_step_ok [OF management(2)] assms(2) by (simp add: system_ok_def)
  moreover have "catalogue_ok pf d" "assets_readable pf d" "ledger_ok d" "runtime_ok d"
    using assms(2) unfolding f system_ok_def
    by (auto intro: catalogue_ok_same assets_readable_same ledger_ok_grows [where as = "[]" and ms = "[]"]
        runtime_ok_grows [where as = "[]" and ts = "[]"])
  ultimately show ?thesis using management(1) by (simp add: system_ok_def)
next
  case (runtime d)
  obtain ps cs au where f: "d = (w_db w)\<lparr>runtime_principals := ps, runtime_credentials := cs,
    audits := audits (w_db w) @ au\<rparr>"
    using runtime_frame [OF runtime(2)] by blast
  have "runtime_ok d" using runtime_step_ok [OF runtime(2)] assms(2) by (simp add: system_ok_def)
  moreover have "catalogue_ok pf d" "assets_readable pf d" "ledger_ok d" "mgmt_ok d"
    using assms(2) unfolding f system_ok_def
    by (auto intro: catalogue_ok_same assets_readable_same ledger_ok_grows [where as = "[]" and ms = "[]"]
        mgmt_ok_grows [where ts = "[]"])
  ultimately show ?thesis using runtime(1) by (simp add: system_ok_def)
next
  case gateway
  obtain ds "is" where f: "w_db w' = (w_db w)\<lparr>decisions := decisions (w_db w) @ ds, invocations := invocations (w_db w) @ is\<rparr>"
    using gateway_frame [OF gateway] by blast
  have "ledger_ok (w_db w')" using gateway_ledger [OF gateway] assms(2) by (simp add: system_ok_def)
  moreover have "catalogue_ok pf (w_db w')" "assets_readable pf (w_db w')" "mgmt_ok (w_db w')" "runtime_ok (w_db w')"
    using assms(2) unfolding f system_ok_def
    by (auto intro: catalogue_ok_same assets_readable_same mgmt_ok_grows [where ts = "[]"]
        runtime_ok_grows [where as = "[]" and ts = "[]"])
  ultimately show ?thesis by (simp add: system_ok_def)
qed

lemma system_steps_ok: "(system_step pf ap t)\<^sup>*\<^sup>* w w' \<Longrightarrow> system_ok pf (w_db w) \<Longrightarrow> system_ok pf (w_db w')"
  by (induction rule: rtranclp_induct) (auto dest: system_step_ok)

subsection \<open>Histories\<close>

text \<open>The tables that are only ever appended to, and the log of provider calls.\<close>

definition extends :: "world \<Rightarrow> world \<Rightarrow> bool" where
  "extends w w' \<longleftrightarrow> (\<exists>ts as ms au ds is calls. tenants (w_db w') = tenants (w_db w) @ ts
     \<and> agents (w_db w') = agents (w_db w) @ as \<and> models (w_db w') = models (w_db w) @ ms
     \<and> audits (w_db w') = audits (w_db w) @ au \<and> decisions (w_db w') = decisions (w_db w) @ ds
     \<and> invocations (w_db w') = invocations (w_db w) @ is \<and> provider_calls w' = provider_calls w @ calls)"

lemma extends_refl: "extends w w"
  by (simp add: extends_def)

lemma extends_trans: "extends w w1 \<Longrightarrow> extends w1 w2 \<Longrightarrow> extends w w2"
  unfolding extends_def by (elim exE conjE) simp

lemma system_step_extends:
  assumes "system_step pf ap t w w'"
  shows "extends w w'"
  using assms
proof (cases rule: system_step.cases)
  case (authentication rq token r d)
  then show ?thesis using authentication_frame [OF authentication(2)] by (auto simp: extends_def)
next
  case (catalogue d)
  then show ?thesis using catalogue_frame [OF catalogue(2)] by (auto simp: extends_def)
next
  case (management d)
  then show ?thesis using mgmt_frame [OF management(2)] by (auto simp: extends_def)
next
  case (runtime d)
  then show ?thesis using runtime_frame [OF runtime(2)] by (auto simp: extends_def)
next
  case gateway
  then show ?thesis using step_rows [OF gateway] by (auto simp: extends_def advances_def)
qed

lemma system_steps_extend: "(system_step pf ap t)\<^sup>*\<^sup>* w w' \<Longrightarrow> extends w w'"
  by (induction rule: rtranclp_induct) (auto intro: extends_refl extends_trans dest: system_step_extends)

subsection \<open>The managers of the system\<close>

lemma access_frames [simp]:
  "manager_access (d\<lparr>mgmt_evidence := ev\<rparr>) = manager_access d"
  "manager_access (d\<lparr>tenants := ts, agents := as, models := ms, permissions := ps, audits := au\<rparr>) = manager_access d"
  "manager_access (d\<lparr>runtime_principals := rs, runtime_credentials := cs, audits := au\<rparr>) = manager_access d"
  "manager_access (d\<lparr>decisions := ds, invocations := is\<rparr>) = manager_access d"
  by (simp_all add: manager_access_def)

definition world_access :: "world \<Rightarrow> mgmt_credential_row set" where
  "world_access w = manager_access (w_db w)"

lemma world_access_kept: "manager_access (w_db w') = manager_access (w_db w) \<Longrightarrow> kept_or_left world_access t w w'"
  by (simp add: kept_or_left_def world_access_def)

lemma system_step_guarded:
  assumes "system_step pf ap t w w'" "system_ok pf (w_db w)"
  shows "kept_or_left world_access t w w'"
  using assms(1)
proof (cases rule: system_step.cases)
  case (authentication rq token r d)
  then show ?thesis using authentication_frame [OF authentication(2)] by (auto intro: world_access_kept)
next
  case (catalogue d)
  then show ?thesis using catalogue_frame [OF catalogue(2)] by (auto intro: world_access_kept)
next
  case (management d)
  then show ?thesis using mgmt_step_guarded [OF management(2)] assms(2)
    by (simp add: kept_or_left_def world_access_def system_ok_def)
next
  case (runtime d)
  then show ?thesis using runtime_frame [OF runtime(2)] by (auto intro: world_access_kept)
next
  case gateway
  then show ?thesis using gateway_frame [OF gateway] by (auto intro: world_access_kept)
qed

lemma system_steps_guarded:
  "(system_step pf ap t)\<^sup>*\<^sup>* w w' \<Longrightarrow> system_ok pf (w_db w) \<Longrightarrow> kept_or_left world_access t w w'"
proof (induction rule: rtranclp_induct)
  case (step y z)
  have "system_ok pf (w_db y)" by (rule system_steps_ok [OF step.hyps(1) step.prems])
  from step.IH [OF step.prems] system_step_guarded [OF step.hyps(2) this] show ?case by (rule kept_or_left_trans)
qed simp

text \<open>A request with the time at which it ran: the earliest of the clocks it reads.\<close>

inductive http_event :: "platform \<Rightarrow> app \<Rightarrow> int \<Rightarrow> world \<Rightarrow> world \<Rightarrow> bool" for pf ap where
  request: "serve pf ap dr req w = (answer, w') \<Longrightarrow>
    http_event pf ap (min (clock_at (dr_auth dr) 0) (min (clock_at (dr_main dr) 0) (db_now (dr_main dr)))) w w'"

inductive_cases http_eventE: "http_event pf ap t w w'"

lemma http_event_steps: "http_event pf ap t w w' \<Longrightarrow> (system_step pf ap t)\<^sup>*\<^sup>* w w'"
  by (elim http_eventE) (rule serve_steps, assumption, simp add: not_before_def min_le_iff_disj)

interpretation http_control: access_control "http_event pf ap" world_access "\<lambda>w. system_ok pf (w_db w)" for pf ap
  by unfold_locales (auto dest: http_event_steps intro: system_steps_ok system_steps_guarded)

subsection \<open>The ledgers of the system\<close>

text \<open>Only the gateway spends: every other step leaves the invocations alone.\<close>

lemma system_step_spends:
  assumes "system_step pf ap t w w'"
  shows "gateway_step pf (app_gateway ap) (registered ap) w w' \<or> invocations (w_db w') = invocations (w_db w)"
  using assms
proof (cases rule: system_step.cases)
  case (authentication rq token r d)
  then show ?thesis using authentication_frame [OF authentication(2)] by auto
next
  case (catalogue d)
  then show ?thesis using catalogue_frame [OF catalogue(2)] by auto
next
  case (management d)
  then show ?thesis using mgmt_frame [OF management(2)] by auto
next
  case (runtime d)
  then show ?thesis using runtime_frame [OF runtime(2)] by auto
qed simp

lemma gateway_step_mono:
  "gateway_step pf gw ok w w' \<Longrightarrow> (\<And>c. ok c \<Longrightarrow> ok' c) \<Longrightarrow> gateway_step pf gw ok' w w'"
  by (auto elim!: gateway_stepE intro: gateway_step.request)

lemma registered_configured:
  assumes "distinct (map re_principal_id (app_runtime_auth ap))" "e \<in> set (app_runtime_auth ap)" "registered ap c"
  shows "configured (re_principal_id e) (re_usage_limit e) (re_allowance e) c"
proof -
  obtain e' where e': "e' \<in> set (app_runtime_auth ap)" "cm_principal c = re_principal_id e'"
    "cm_limit c = re_usage_limit e'" "cm_allowance c = re_allowance e'"
    using assms(3) by (auto simp: registered_def)
  then have "e' = e" if "cm_principal c = re_principal_id e"
    using assms(1,2) that by (metis distinct_map inj_onD)
  then show ?thesis using e' by (auto simp: configured_def)
qed

lemma idle_ledgers:
  assumes "invocations (w_db w') = invocations (w_db w)"
  shows "daily_units p day w' = daily_units p day w" "daily_cost tn day w' = daily_cost tn day w"
    "costs_recorded_ok w' = costs_recorded_ok w"
  using assms
  by (simp_all add: daily_units_def consumed_units_def daily_cost_def attributed_units_def costs_recorded_ok_def)

lemma system_usage_step:
  assumes "system_step pf ap t w w'" "distinct (map re_principal_id (app_runtime_auth ap))" "e \<in> set (app_runtime_auth ap)"
    "reports_at_most (app_gateway ap) u" "0 \<le> u"
  shows "daily_units (re_principal_id e) day w' = daily_units (re_principal_id e) day w
    \<or> (daily_units (re_principal_id e) day w + re_allowance e \<le> re_usage_limit e
       \<and> daily_units (re_principal_id e) day w' \<le> daily_units (re_principal_id e) day w + u)"
  using system_step_spends [OF assms(1)]
proof
  assume "gateway_step pf (app_gateway ap) (registered ap) w w'"
  then have "gateway_step pf (app_gateway ap) (configured (re_principal_id e) (re_usage_limit e) (re_allowance e)) w w'"
    by (rule gateway_step_mono) (rule registered_configured [OF assms(2,3)])
  then show ?thesis by (rule usage_step [OF _ assms(4,5)])
next
  assume "invocations (w_db w') = invocations (w_db w)"
  from idle_ledgers(1) [OF this] show ?thesis by blast
qed

interpretation system_usage: admission_ledger "daily_units (re_principal_id e) day"
  "\<lambda>w w'. distinct (map re_principal_id (app_runtime_auth ap)) \<and> e \<in> set (app_runtime_auth ap)
     \<and> reports_at_most (app_gateway ap) u \<and> 0 \<le> u \<and> system_step pf ap t w w'"
  "re_usage_limit e" "re_allowance e" u for e day ap u pf t
proof (unfold_locales, goal_cases)
  case (1 s s')
  then have a: "system_step pf ap t s s'" "distinct (map re_principal_id (app_runtime_auth ap))"
    "e \<in> set (app_runtime_auth ap)" "reports_at_most (app_gateway ap) u" "0 \<le> u" by blast+
  from system_usage_step [OF a, of day] 1(2) show ?case by linarith
next
  case (2 s s')
  then have a: "system_step pf ap t s s'" "distinct (map re_principal_id (app_runtime_auth ap))"
    "e \<in> set (app_runtime_auth ap)" "reports_at_most (app_gateway ap) u" "0 \<le> u" by blast+
  from system_usage_step [OF a, of day] show ?case by linarith
qed

lemma system_cost_step:
  assumes "system_step pf ap t w w'" "costs_at_most (app_gateway ap) k" "0 \<le> k"
    "budget_is (app_gateway ap) tn limit allowance" "costs_recorded_ok w"
  shows "costs_recorded_ok w' \<and> (daily_cost tn day w' = daily_cost tn day w
    \<or> (daily_cost tn day w + allowance \<le> limit \<and> daily_cost tn day w' \<le> daily_cost tn day w + k))"
  using system_step_spends [OF assms(1)]
proof
  assume "gateway_step pf (app_gateway ap) (registered ap) w w'"
  then have "gateway_step pf (app_gateway ap) any_command w w'" by (rule gateway_step_mono) (simp add: any_command_def)
  then show ?thesis by (rule cost_step [OF _ assms(2-5)])
next
  assume "invocations (w_db w') = invocations (w_db w)"
  from idle_ledgers(2,3) [OF this] show ?thesis using assms(5) by blast
qed

interpretation system_cost: admission_ledger "daily_cost tn day"
  "\<lambda>w w'. costs_at_most (app_gateway ap) k \<and> 0 \<le> k \<and> budget_is (app_gateway ap) tn limit allowance
     \<and> costs_recorded_ok w \<and> costs_recorded_ok w' \<and> system_step pf ap t w w'"
  limit allowance k for tn day ap k limit allowance pf t
proof (unfold_locales, goal_cases)
  case (1 s s')
  then have a: "system_step pf ap t s s'" "costs_at_most (app_gateway ap) k" "0 \<le> k"
    "budget_is (app_gateway ap) tn limit allowance" "costs_recorded_ok s" by blast+
  from system_cost_step [OF a, of day] 1(2) show ?case by linarith
next
  case (2 s s')
  then have a: "system_step pf ap t s s'" "costs_at_most (app_gateway ap) k" "0 \<le> k"
    "budget_is (app_gateway ap) tn limit allowance" "costs_recorded_ok s" by blast+
  from system_cost_step [OF a, of day] show ?case by linarith
qed

lemma system_usage_bounded:
  assumes "(system_step pf ap t)\<^sup>*\<^sup>* w w'" "distinct (map re_principal_id (app_runtime_auth ap))"
    "e \<in> set (app_runtime_auth ap)" "reports_at_most (app_gateway ap) u" "0 \<le> u"
  shows "daily_units (re_principal_id e) day w'
    \<le> max (daily_units (re_principal_id e) day w) (re_usage_limit e + (u - re_allowance e))"
proof (rule system_usage.spent_bounded)
  have "system_step pf ap t = (\<lambda>w w'. distinct (map re_principal_id (app_runtime_auth ap))
      \<and> e \<in> set (app_runtime_auth ap) \<and> reports_at_most (app_gateway ap) u \<and> 0 \<le> u \<and> system_step pf ap t w w')"
    using assms(2-5) by (simp add: fun_eq_iff)
  then show "(\<lambda>w w'. distinct (map re_principal_id (app_runtime_auth ap)) \<and> e \<in> set (app_runtime_auth ap)
      \<and> reports_at_most (app_gateway ap) u \<and> 0 \<le> u \<and> system_step pf ap t w w')\<^sup>*\<^sup>* w w'"
    using assms(1) by simp
qed

lemma system_cost_bounded:
  assumes "(system_step pf ap t)\<^sup>*\<^sup>* w w'" "costs_recorded_ok w" "costs_at_most (app_gateway ap) k" "0 \<le> k"
    "budget_is (app_gateway ap) tn limit allowance"
  shows "daily_cost tn day w' \<le> max (daily_cost tn day w) (limit + (k - allowance))"
proof (rule system_cost.spent_bounded)
  let ?r = "\<lambda>w w'. costs_at_most (app_gateway ap) k \<and> 0 \<le> k \<and> budget_is (app_gateway ap) tn limit allowance
     \<and> costs_recorded_ok w \<and> costs_recorded_ok w' \<and> system_step pf ap t w w'"
  have "?r\<^sup>*\<^sup>* w w' \<and> costs_recorded_ok w'"
    using assms(1)
  proof (induction rule: rtranclp_induct)
    case (step y z)
    then have "costs_recorded_ok z" using system_cost_step [of pf ap t y z k tn limit allowance] assms(3-5) by blast
    then show ?case using step assms(3-5) by (auto intro: rtranclp.rtrancl_into_rtrancl)
  qed (simp add: assms(2))
  then show "?r\<^sup>*\<^sup>* w w'" by simp
qed

end
