(* ===== verification/MgmtAuthLaws.thy ===== *)
theory MgmtAuthLaws
  imports MgmtAuth
begin

text \<open>
  Authentication as a total function of the tables: on tables that satisfy the invariant, with a
  clock far enough from the ends of the calendar, every attempt returns, and what it returns and
  what it records are given in closed form. The evidence table holds one row per credential,
  outcome and hour, and only rows of the last 90 days.
\<close>

definition clock_ok :: "int \<Rightarrow> bool" where
  "clock_ok t \<longleftrightarrow> representable t \<and> retention_us \<le> t - t mod hour_us"

definition hour_start :: "int \<Rightarrow> int" where
  "hour_start t = t - t mod hour_us"

lemma hour_start_bounds: "hour_start t \<le> t" "t < hour_start t + hour_us"
  unfolding hour_start_def by (rule floor_bounds; simp)+

definition observed :: "uuid \<Rightarrow> uuid \<Rightarrow> auth_outcome \<Rightarrow> int \<Rightarrow> evidence_row list \<Rightarrow> evidence_row list" where
  "observed c p outcome t evs =
     (let kept = filter (\<lambda>r. hour_start t - retention_us \<le> ev_bucket_started_at r) evs;
          row = \<lparr>ev_credential_id = c, ev_principal_id = p, ev_outcome = outcome,
                 ev_bucket_started_at = hour_start t, ev_first_observed_at = t\<rparr>
      in if evidence_key row \<in> evidence_key ` set kept then kept else kept @ [row])"

lemma hourly_bucket_clock: "clock_ok t \<Longrightarrow> hourly_bucket pf (Aware t 0) = Inr (Aware (hour_start t) 0)"
  by (simp add: hourly_bucket_def astimezone_Aware overflow_guard_def clock_ok_def floor_wall_def hour_start_def)

lemma evidence_observe_run:
  assumes t: "clock_ok t" and c: "c \<in> mc_credential_id ` set (mgmt_credentials (working s))"
    and p: "p \<in> mp_principal_id ` set (mgmt_principals (working s))"
  shows "evidence_observe \<lparr>ae_credential_id = c, ae_principal_id = p, ae_outcome = outcome,
      ae_bucket_started_at = Aware (hour_start t) 0, ae_first_observed_at = Aware t 0\<rparr> s
    = (Inr (), s\<lparr>working := (working s)\<lparr>mgmt_evidence := observed c p outcome t (mgmt_evidence (working s))\<rparr>\<rparr>)"
proof -
  have "0 \<le> retention_us" by (simp add: retention_us_def day_us_def)
  then have r: "representable (hour_start t - retention_us)"
    using t hour_start_bounds(1) [of t] unfolding clock_ok_def representable_def hour_start_def by linarith
  show ?thesis using r c p
    by (simp add: evidence_observe_def dt_plus_def overflow_guard_def op_simps run_flush evidence_insert_def
        failure_defs evidence_to_row_def observed_def Let_def not_less)
qed

lemma observe_run:
  assumes "clock_ok t" "c \<in> mc_credential_id ` set (mgmt_credentials (working s))"
    "p \<in> mp_principal_id ` set (mgmt_principals (working s))"
  shows "observe pf c p outcome (Aware t 0) s =
    (let d = (working s)\<lparr>mgmt_evidence := observed c p outcome t (mgmt_evidence (working s))\<rparr>
     in (Inr (), s\<lparr>committed := d, working := d\<rparr>))"
  using evidence_observe_run [OF assms]
  by (simp add: observe_def bnd_def hourly_bucket_clock [OF assms(1)] auth_evidence_init_def Let_def)

text \<open>The verdict on a stored credential, over rows.\<close>

definition row_outcome :: "platform \<Rightarrow> pystr \<Rightarrow> pystr \<Rightarrow> int \<Rightarrow> mgmt_credential_row \<Rightarrow> mgmt_principal_row \<Rightarrow> auth_outcome" where
  "row_outcome pf pepper secret t c p =
     (if hmac_hex pf pepper secret \<noteq> mc_secret_verifier c then CREDENTIAL_MISMATCH
      else if mc_revoked_at c \<noteq> None then REVOKED
      else if \<not> opt_ok (\<lambda>x. t < x) (mc_expires_at c) then EXPIRED
      else if mp_disabled_at p \<noteq> None then PRINCIPAL_DISABLED
      else AuthSucceeded)"

lemma row_outcome_succeeded: "row_outcome pf pepper secret t c p = AuthSucceeded \<longleftrightarrow>
    hmac_hex pf pepper secret = mc_secret_verifier c \<and> live_at t c \<and> mp_disabled_at p = None"
  by (auto simp: row_outcome_def live_at_def)

definition identity_of :: "mgmt_credential_row \<Rightarrow> mgmt_principal_row \<Rightarrow> db \<Rightarrow> mgmt_identity" where
  "identity_of c p d = \<lparr>mi_principal_id = mp_principal_id p, mi_credential_id = mc_credential_id c,
     mi_tenant_ids = scopes_of (mp_principal_id p) d, mi_can_manage = mp_can_manage_principals p\<rparr>"

text \<open>The credential a token names, with its principal.\<close>

definition token_rows :: "platform \<Rightarrow> pystr \<Rightarrow> db \<Rightarrow> (pystr \<times> mgmt_credential_row \<times> mgmt_principal_row) option" where
  "token_rows pf token d = (case parse_bearer_token pf token of None \<Rightarrow> None
     | Some (ci, secret) \<Rightarrow> (case row_of mc_credential_id ci (mgmt_credentials d) of None \<Rightarrow> None
        | Some c \<Rightarrow> map_option (\<lambda>p. (secret, c, p)) (row_of mp_principal_id (mc_principal_id c) (mgmt_principals d))))"

lemma auth_outcome_rows:
  "auth_outcome_of (hmac_hex pf pepper secret = mc_secret_verifier c) (Aware t 0) (credential_at pf c) (principal_at pf p d)
    = row_outcome pf pepper secret t c p"
  by (auto simp: auth_outcome_of_def row_outcome_def credential_at_def principal_at_def mgmt_is_active_def
      opt_ok_def split: option.splits)

lemma authenticate_run:
  assumes ok: "mgmt_ok d" and hex: "hashes_to_hex pf" and t: "clock_ok (clock_at rq 0)"
  shows "authenticate pf pepper rq token d =
    (case token_rows pf token d of None \<Rightarrow> (Inr None, d)
     | Some (secret, c, p) \<Rightarrow>
         (Inr (if row_outcome pf pepper secret (clock_at rq 0) c p = AuthSucceeded then Some (identity_of c p d) else None),
          d\<lparr>mgmt_evidence := observed (mc_credential_id c) (mc_principal_id c)
              (row_outcome pf pepper secret (clock_at rq 0) c p) (clock_at rq 0) (mgmt_evidence d)\<rparr>))"
proof (cases "parse_bearer_token pf token")
  case None
  then show ?thesis by (simp add: authenticate_def token_rows_def)
next
  case (Some x)
  obtain ci secret where x: "x = (ci, secret)" by (cases x)
  show ?thesis
  proof (cases "row_of mc_credential_id ci (mgmt_credentials d)")
    case None
    then show ?thesis using Some x
      by (simp add: authenticate_def token_rows_def with_uow_eq bnd_def mgmt_credential_get_run)
  next
    case c: (Some c)
    have cin: "c \<in> set (mgmt_credentials d)" "mc_credential_id c = ci" using c by (auto dest: row_of_SomeD)
    have cok: "credential_row_ok c" "mc_principal_id c \<in> mp_principal_id ` set (mgmt_principals d)"
      using ok cin(1) by (auto simp: mgmt_ok_def)
    then obtain p where p: "row_of mp_principal_id (mc_principal_id c) (mgmt_principals d) = Some p"
      by (metis not_None_eq row_of_None_iff)
    then have pin: "p \<in> set (mgmt_principals d)" "mp_principal_id p = mc_principal_id c" by (auto dest: row_of_SomeD)
    have pok: "principal_row_ok p" using ok pin(1) by (auto simp: mgmt_ok_def)
    have v: "verifier_matches pf secret pepper (mc_secret_verifier c) = Inr (hmac_hex pf pepper secret = mc_secret_verifier c)"
      using cok(1) hex by (intro verifier_matches_hex) (auto simp: credential_row_ok_def)
    have ci: "ci \<in> mc_credential_id ` set (mgmt_credentials d)" using cin by auto
    have fields: "mcr_principal_id (credential_at pf c) = mc_principal_id c"
      "mcr_verifier (credential_at pf c) = mc_secret_verifier c" "mcr_id (credential_at pf c) = ci"
      "mpr_id (principal_at pf p d) = mp_principal_id p" "mpr_tenant_ids (principal_at pf p d) = scopes_of (mp_principal_id p) d"
      "mpr_can_manage (principal_at pf p d) = mp_can_manage_principals p"
      using cin(2) by (simp_all add: credential_at_def principal_at_def)
    show ?thesis
      using Some x c p cin v fields t ci cok(2)
      by (simp add: authenticate_def token_rows_def with_uow_eq bnd_def mgmt_credential_get_run mgmt_principal_get_run
          credential_of_row [OF cok(1)] principal_of_row [OF pok] auth_outcome_rows observe_run Let_def identity_of_def)
  qed
qed

subsection \<open>The evidence table\<close>

definition evidence_ok :: "db \<Rightarrow> bool" where
  "evidence_ok d \<longleftrightarrow> distinct (map evidence_key (mgmt_evidence d))
     \<and> (\<forall>r \<in> set (mgmt_evidence d). ev_bucket_started_at r = hour_start (ev_first_observed_at r))"

lemma observed_facts:
  "r \<in> set (observed c p x t evs) \<Longrightarrow> hour_start t - retention_us \<le> ev_bucket_started_at r"
  "(c, x, hour_start t) \<in> evidence_key ` set (observed c p x t evs)"
proof -
  have "0 \<le> retention_us" by (simp add: retention_us_def day_us_def)
  then show "r \<in> set (observed c p x t evs) \<Longrightarrow> hour_start t - retention_us \<le> ev_bucket_started_at r"
    by (auto simp: observed_def Let_def split: if_splits)
  show "(c, x, hour_start t) \<in> evidence_key ` set (observed c p x t evs)"
    by (simp add: observed_def Let_def evidence_key_def)
qed

lemma observed_ok:
  assumes "distinct (map evidence_key evs)" "\<forall>r \<in> set evs. ev_bucket_started_at r = hour_start (ev_first_observed_at r)"
  shows "distinct (map evidence_key (observed c p x t evs))"
    "\<forall>r \<in> set (observed c p x t evs). ev_bucket_started_at r = hour_start (ev_first_observed_at r)"
  using assms by (auto simp: observed_def Let_def distinct_map_filter)

lemma observed_again:
  assumes "hour_start t' = hour_start t"
  shows "observed c p x t' (observed c p' x t evs) = observed c p' x t evs"
proof -
  let ?o = "observed c p' x t evs"
  have "filter (\<lambda>r. hour_start t' - retention_us \<le> ev_bucket_started_at r) ?o = ?o"
    using observed_facts(1) [of _ c p' x t evs] assms by (intro filter_True) auto
  then show ?thesis using observed_facts(2) [of c x t p' evs] assms
    unfolding observed_def [of c p x t' ?o] Let_def by (simp add: evidence_key_def)
qed

end
