(* ===== verification/Fixtures.thy ===== *)
theory Fixtures
  imports Gateway
begin

text \<open>
  Concrete inputs: a platform with plain ASCII text and a constant digest, a request, a store
  with one tenant that owns one agent and one OpenAI model and allows their use, a gateway with
  a price for that model (one dollar a token) and a budget, and a command. Theorems with hypotheses are applied to them, so
  that their hypotheses are seen to hold together.
\<close>

definition ex_platform :: platform where
  "ex_platform = \<lparr>fold_table = (\<lambda>_. []), digit_table = (\<lambda>_. None), sha256_hex = (\<lambda>_. replicate 64 97),
     hmac_hex = (\<lambda>_ _. replicate 64 98), local_offset = (\<lambda>_. 0), session_offset = (\<lambda>_. 0)\<rparr>"

definition ex_request :: request where
  "ex_request = \<lparr>id_at = (\<lambda>n. of_nat (100 + n)), clock_at = (\<lambda>n. 63000000000000000 + int n * 1000000),
     secret_token = [115], db_now = 63000000000000000, db_up = (\<lambda>_. True)\<rparr>"

definition ex_tenant :: tenant_row where
  "ex_tenant = \<lparr>tr_id = 1, tr_name = [97], tr_normalized_name = [97], tr_created_at = 0\<rparr>"

definition ex_agent :: agent_row where
  "ex_agent = \<lparr>ar_id = 2, ar_tenant_id = 1, ar_name = [98], ar_normalized_name = [98], ar_created_at = 0\<rparr>"

definition ex_model :: model_row where
  "ex_model = \<lparr>mr_id = 3, mr_tenant_id = 1, mr_name = [99], mr_normalized_name = [99], mr_provider = OPENAI,
     mr_provider_model_reference = [103], mr_created_at = 0\<rparr>"

definition ex_permission :: permission_row where
  "ex_permission = \<lparr>pr_id = 4, pr_tenant_id = 1, pr_agent_id = 2, pr_model_id = 3, pr_effect = ALLOW,
     pr_created_at = 0, pr_updated_at = 0\<rparr>"

definition ex_db :: db where
  "ex_db = empty_db\<lparr>tenants := [ex_tenant], agents := [ex_agent], models := [ex_model],
     permissions := [ex_permission]\<rparr>"

definition ex_response :: response where
  "ex_response = \<lparr>rs_id = [114], rs_output_text = [111], rs_usage = Some (RInt 3, RInt 4, RInt 7)\<rparr>"

definition ex_budget :: cost_budget where
  "ex_budget = \<lparr>tb_limit = Dec 100 0, tb_allowance = Dec 1 0, tb_currency = usd\<rparr>"

definition ex_pricing :: pricing where
  "ex_pricing = \<lparr>ps_provider = lit ''openai'', ps_reference = [103], ps_version = [118], ps_basis_units = 1,
     ps_input_rate = Dec 1 0, ps_output_rate = Dec 1 0, ps_currency = usd\<rparr>"

definition ex_gateway :: gateway where
  "ex_gateway = \<lparr>gw_provider = \<lparr>oa_api_key = None, oa_client = Some (\<lambda>_ _. Inr ex_response),
       oa_sdk = (\<lambda>_ _ _. Inl [])\<rparr>, gw_pricing = (\<lambda>k. if k = (lit ''openai'', [103]) then Some ex_pricing else None),
     gw_budgets = (\<lambda>_. Some ex_budget)\<rparr>"

definition ex_command :: command where
  "ex_command = \<lparr>cm_principal = [112], cm_tenant = 1, cm_agent = 2, cm_model = 3, cm_input = [105],
     cm_limit = 50, cm_allowance = 10\<rparr>"

definition ex_world :: world where
  "ex_world = \<lparr>w_db = ex_db, provider_calls = []\<rparr>"

lemmas ex_defs = ex_platform_def ex_request_def ex_tenant_def ex_agent_def ex_model_def
  ex_permission_def ex_db_def ex_response_def ex_budget_def ex_pricing_def ex_gateway_def ex_command_def
  ex_world_def empty_db_def

end
