(* ===== verification/MgmtProperties.thy ===== *)
theory MgmtProperties
  imports MgmtAuthLaws Fixtures
begin

text \<open>
  What management identity and its authentication promise, with a concrete service and a
  concrete bootstrap the theorems are applied to.
\<close>

definition ex_service :: mgmt_service where
  "ex_service = \<lparr>ms_pepper = [112], ms_bootstrap_token = [116]\<rparr>"

definition ex_manager :: mgmt_principal where
  "ex_manager = \<lparr>mpr_id = 100, mpr_display_name = [109], mpr_can_manage = True, mpr_tenant_ids = {1},
     mpr_created_at = Aware 63000000000000000 0, mpr_disabled_at = None\<rparr>"

definition ex_credential :: mgmt_credential where
  "ex_credential = \<lparr>mcr_id = 101, mcr_principal_id = 100, mcr_verifier = replicate 64 98,
     mcr_label = Some (lit ''bootstrap''), mcr_created_at = Aware 63000000000000000 0, mcr_expires_at = None,
     mcr_revoked_at = None\<rparr>"

definition ex_token :: pystr where
  "ex_token = bearer_prefix @ [95] @ uuid_str 101 @ [95] @ [115]"

definition ex_bootstrapped :: db where
  "ex_bootstrapped = ex_db\<lparr>mgmt_principals := [principal_rows ex_manager],
     mgmt_scopes := [\<lparr>sc_principal_id = 100, sc_tenant_id = 1\<rparr>],
     mgmt_credentials := [mgmt_credential_to_row ex_credential]\<rparr>"

lemma canonical_word: "\<forall>c \<in> set w. \<not> py_isspace c \<Longrightarrow> w \<noteq> [] \<Longrightarrow> canonical w = w"
  using split_from_word [of w "[]" "[]"] by (simp add: canonical_def py_split_def)

lemma ex_hex [simp]: "hashes_to_hex ex_platform"
  by (simp add: hashes_to_hex_def ex_platform_def is_hex64_def lower_hex_def)

lemma ex_hmac [simp]: "hmac_hex ex_platform s p = replicate 64 98"
  by (simp add: ex_platform_def)

lemma ex_hex64 [simp]: "is_hex64 (replicate 64 98)"
  by (simp add: is_hex64_def lower_hex_def)

lemma ex_req [simp]:
  "id_at ex_request n = of_nat (100 + n)" "clock_at ex_request n = 63000000000000000 + int n * 1000000"
  "secret_token ex_request = [115]" "db_now ex_request = 63000000000000000"
  by (simp_all add: ex_request_def)

lemma ex_bootstrap:
  "bootstrap ex_platform ex_service ex_request [116] [109] {1} ex_db
     = (Inr (ex_manager, ex_credential, ex_token), ex_bootstrapped)"
proof -
  have name: "canonical [109] = [109]" by (rule canonical_word) (simp_all add: py_isspace_def)
  have label: "normalized_label (Some (lit ''bootstrap'')) = Some (lit ''bootstrap'')"
  proof -
    have "canonical (lit ''bootstrap'') = lit ''bootstrap''"
      by (rule canonical_word) (simp_all add: py_isspace_def lit_simps)
    then show ?thesis by (simp add: normalized_label_def lit_simps)
  qed
  have p: "new_principal ex_request 0 [109] True {1} = Inr ex_manager"
    by (simp add: new_principal_Inr name ex_manager_def)
  have c: "new_credential ex_platform ex_service ex_request 1 100 (Some (lit ''bootstrap'')) None
      = Inr (ex_credential, ex_token)"
    by (simp add: new_credential_Inr label secret_verifier_def ex_credential_def ex_token_def)
  have ins: "mgmt_principal_insert (principal_rows ex_manager) ex_db
      = Inr (ex_db\<lparr>mgmt_principals := [principal_rows ex_manager]\<rparr>)"
    by (simp add: mgmt_principal_insert_Inr_iff ex_db_def empty_db_def principal_rows_def ex_manager_def text_fits_def)
  have scopes: "scope_rows ex_manager = [\<lparr>sc_principal_id = 100, sc_tenant_id = 1\<rparr>]"
    by (simp add: scope_rows_def ex_manager_def)
  have scs: "scopes_insert (scope_rows ex_manager) (ex_db\<lparr>mgmt_principals := [principal_rows ex_manager]\<rparr>)
      = Inr (ex_db\<lparr>mgmt_principals := [principal_rows ex_manager],
           mgmt_scopes := [\<lparr>sc_principal_id = 100, sc_tenant_id = 1\<rparr>]\<rparr>)"
    unfolding scopes by (simp add: scope_insert_def failure_defs ex_db_def empty_db_def principal_rows_def ex_manager_def ex_tenant_def)
  have cred: "mgmt_credential_insert (mgmt_credential_to_row ex_credential) (ex_db\<lparr>mgmt_principals := [principal_rows ex_manager],
           mgmt_scopes := [\<lparr>sc_principal_id = 100, sc_tenant_id = 1\<rparr>]\<rparr>) = Inr ex_bootstrapped"
    by (simp add: mgmt_credential_insert_Inr_iff ex_bootstrapped_def ex_db_def empty_db_def mgmt_credential_to_row_def
        ex_credential_def text_fits_def lit_simps principal_rows_def ex_manager_def)
  have tn: "all_exist {1} ex_db" "mgmt_principals ex_db = []" "mpr_id ex_manager = 100"
    by (simp_all add: all_exist_def ex_db_def empty_db_def ex_tenant_def ex_manager_def)
  have start: "compare_digest [116] (ms_bootstrap_token ex_service) = Inr True"
    by (simp add: compare_digest_def ex_service_def)
  show ?thesis using tn p c ins scs cred start
    by (simp add: bootstrap_def with_uow_eq commit_after_def bnd_def mgmt_principal_count_def require_tenants_def
        mgmt_principal_add_def mgmt_credential_add_def run_flush)
qed

lemma ex_mgmt_ok: "mgmt_ok ex_db"
  by (simp add: mgmt_ok_def ex_db_def empty_db_def)

lemma ex_clock [simp]: "clock_ok 63000000000000000"
  by (simp add: clock_ok_def representable_def max_wall_def day_us_def retention_us_def hour_us_def)

subsection \<open>The life of the control plane's managers\<close>

lemma bootstrap_ok:
  assumes "bootstrap pf sv rq token name ts d = (Inr (p, c, bearer), d0)" "mgmt_ok d"
  shows "mgmt_ok d0" "mgmt_principals d0 \<noteq> []"
proof -
  note e = bootstrap_effect [OF assms(1)]
  have run: "run_mgmt pf sv rq (Bootstrap token name ts) d = (Inr (), d0)" using assms(1) by (simp add: void_Inr_iff)
  have "mgmt_change (min (clock_at rq 0) (db_now rq)) d d0" by (rule run_mgmt_change [OF run]) simp_all
  then show "mgmt_ok d0" using assms(2) by (rule mgmt_change_ok)
  show "mgmt_principals d0 \<noteq> []" using e(9) by simp
qed

lemma principals_stay:
  assumes "(mgmt_step pf sv t)\<^sup>*\<^sup>* d d'" "mgmt_principals d \<noteq> []"
  shows "mgmt_principals d' \<noteq> []"
  using assms
proof (induction rule: rtranclp_induct)
  case (step y z)
  have "mgmt_principals z \<noteq> []" if "mgmt_change t y z" "mgmt_principals y \<noteq> []"
    using that by (cases rule: mgmt_change.cases) (auto simp: update_rows_def)
  then show ?case using step mgmt_step_change [OF step.hyps(2)] by auto
qed simp

text \<open>
  C18. Bootstrap happens once: after a successful bootstrap and any sequence of commands, a
  further bootstrap with the right token fails with \<open>BootstrapAlreadyCompleted\<close> and changes
  nothing.
\<close>

theorem bootstrap_only_once:
  assumes "bootstrap pf sv rq token name ts d = (Inr (p, c, bearer), d0)" "mgmt_ok d"
    and "(mgmt_step pf sv t)\<^sup>*\<^sup>* d0 d'"
  shows "bootstrap pf sv rq' token name' ts' d' = (Inl BootstrapAlreadyCompleted, d')"
proof -
  have "mgmt_principals d' \<noteq> []" using principals_stay [OF assms(3)] bootstrap_ok(2) [OF assms(1,2)] by blast
  moreover have "compare_digest token (ms_bootstrap_token sv) = Inr True"
    using assms(1) by (auto simp: bootstrap_def op_inv compare_digest_def split: if_splits)
  ultimately show ?thesis
    by (simp add: bootstrap_def bnd_def with_uow_eq commit_after_def mgmt_principal_count_def)
qed

theorem bootstrap_only_once_witness:
  "bootstrap ex_platform ex_service ex_request [116] [110] {} ex_bootstrapped
     = (Inl BootstrapAlreadyCompleted, ex_bootstrapped)"
  by (rule bootstrap_only_once [OF ex_bootstrap ex_mgmt_ok rtranclp.rtrancl_refl])

text \<open>
  The tables stay well formed over every sequence of commands: identities are unique, every
  credential and scope belongs to a stored principal, every scope to a stored tenant, names and
  labels are canonical and bounded, verifiers are digests, expiry follows creation.
\<close>

theorem mgmt_tables_invariant:
  assumes "(mgmt_step pf sv t)\<^sup>*\<^sup>* d d'" "mgmt_ok d"
  shows "mgmt_ok d'"
  by (rule mgmt_steps_ok [OF assms])

theorem mgmt_tables_invariant_witness: "mgmt_ok ex_bootstrapped"
proof -
  have "mgmt_step ex_platform ex_service 0 ex_db ex_bootstrapped"
  proof (rule mgmt_step.command)
    show "run_mgmt ex_platform ex_service ex_request (Bootstrap [116] [109] {1}) ex_db = (Inr (), ex_bootstrapped)"
      using ex_bootstrap by (simp add: void_Inr_iff)
  qed simp_all
  then have "(mgmt_step ex_platform ex_service 0)\<^sup>*\<^sup>* ex_db ex_bootstrapped" by (rule r_into_rtranclp)
  from mgmt_tables_invariant [OF this ex_mgmt_ok] show ?thesis .
qed

subsection \<open>Audit\<close>

fun command_actor :: "mgmt_command \<Rightarrow> actor option" where
  "command_actor (Bootstrap token name ts) = None"
| "command_actor (CreatePrincipal a name ts mgr) = Some a"
| "command_actor (IssueCredential a i label expires) = Some a"
| "command_actor (SetScopes a i ts) = Some a"
| "command_actor (RevokeCredential a i ci) = Some a"
| "command_actor (DisablePrincipal a i) = Some a"

fun command_action :: "mgmt_command \<Rightarrow> audit_action" where
  "command_action (IssueCredential a i label expires) = MANAGEMENT_CREDENTIAL_ISSUED"
| "command_action (SetScopes a i ts) = MANAGEMENT_PRINCIPAL_SCOPES_SET"
| "command_action (RevokeCredential a i ci) = MANAGEMENT_CREDENTIAL_REVOKED"
| "command_action (DisablePrincipal a i) = MANAGEMENT_PRINCIPAL_DISABLED"
| "command_action cmd = MANAGEMENT_PRINCIPAL_CREATED"

lemma audit_rows_simps [simp]:
  "au_principal_id (audit_to_row (principal_audit pf rq n actor p b action)) = uuid_str actor"
  "au_action (audit_to_row (principal_audit pf rq n actor p b action)) = action"
  "au_outcome (audit_to_row (principal_audit pf rq n actor p b action)) = AuditSucceeded"
  "au_occurred_at (audit_to_row (principal_audit pf rq n actor p b action)) = clock_at rq 0"
  "au_principal_id (audit_to_row (credential_audit rq n actor c fb fa action)) = uuid_str actor"
  "au_action (audit_to_row (credential_audit rq n actor c fb fa action)) = action"
  "au_outcome (audit_to_row (credential_audit rq n actor c fb fa action)) = AuditSucceeded"
  "au_occurred_at (audit_to_row (credential_audit rq n actor c fb fa action)) = clock_at rq 0"
  by (simp_all add: audit_to_row_def principal_audit_def credential_audit_def)

definition audited_once :: "request \<Rightarrow> actor \<Rightarrow> audit_action \<Rightarrow> db \<Rightarrow> db \<Rightarrow> bool" where
  "audited_once rq a action d d' \<longleftrightarrow> act_can_manage a \<and> (\<exists>r. audits d' = audits d @ [r]
     \<and> au_principal_id r = uuid_str (act_id a) \<and> au_action r = action \<and> au_outcome r = AuditSucceeded
     \<and> au_occurred_at r = clock_at rq 0)"

text \<open>
  C19. Audit is complete and atomic with the change: a command that fails changes no table, the
  audit trail included; one that succeeds was issued by a manager and adds exactly one record,
  with that manager's identity, the command's action and the request's time; bootstrap, which
  has no actor, adds none.
\<close>

theorem management_audit_complete:
  "(\<exists>e. run_mgmt pf sv rq cmd d = (Inl e, d))
   \<or> (\<exists>d'. run_mgmt pf sv rq cmd d = (Inr (), d')
        \<and> (case command_actor cmd of None \<Rightarrow> audits d' = audits d
           | Some a \<Rightarrow> audited_once rq a (command_action cmd) d d'))"
proof (cases "run_mgmt pf sv rq cmd d")
  case (Pair r d')
  show ?thesis
  proof (cases r)
    case (Inl e)
    then show ?thesis using Pair run_mgmt_failed by blast
  next
    case (Inr u)
    then have run: "run_mgmt pf sv rq cmd d = (Inr (), d')" using Pair by simp
    have "case command_actor cmd of None \<Rightarrow> audits d' = audits d
           | Some a \<Rightarrow> audited_once rq a (command_action cmd) d d'"
    proof (cases cmd)
      case (Bootstrap token name ts)
      then show ?thesis using run by (auto simp: void_Inr_iff dest: bootstrap_effect(9))
    next
      case (CreatePrincipal a name ts mgr)
      then obtain p where r: "create_principal pf rq a name ts mgr d = (Inr p, d')" using run by (auto simp: void_Inr_iff)
      show ?thesis using create_principal_effect(1) [OF r] create_principal_effect(6) [OF r] CreatePrincipal by (auto simp: audited_once_def)
    next
      case (IssueCredential a i label expires)
      then obtain c token where r: "issue_credential pf sv rq a i label expires d = (Inr (c, token), d')" using run by (auto simp: void_Inr_iff)
      show ?thesis using issue_credential_effect(1) [OF r] issue_credential_effect(5) [OF r] IssueCredential by (auto simp: audited_once_def)
    next
      case (SetScopes a i ts)
      then obtain p' where r: "set_scopes pf rq a i ts d = (Inr p', d')" using run by (auto simp: void_Inr_iff)
      show ?thesis using set_scopes_effect(1) [OF r] set_scopes_effect(2) [OF r] SetScopes by (auto simp: audited_once_def)
    next
      case (RevokeCredential a i ci)
      then obtain c' where r: "revoke_credential pf rq a i ci d = (Inr c', d')" using run by (auto simp: void_Inr_iff)
      show ?thesis using revoke_credential_effect(1) [OF r] revoke_credential_effect(2) [OF r] RevokeCredential by (auto simp: audited_once_def)
    next
      case (DisablePrincipal a i)
      then obtain p' where r: "disable_principal pf rq a i d = (Inr p', d')" using run by (auto simp: void_Inr_iff)
      show ?thesis using disable_principal_effect(1) [OF r] disable_principal_effect(2) [OF r] DisablePrincipal by (auto simp: audited_once_def)
    qed
    then show ?thesis using run by blast
  qed
qed

end
