(* ===== verification/RuntimeProperties.thy ===== *)
theory RuntimeProperties
  imports RuntimeInvariants MgmtProperties
begin

text \<open>
  What runtime identity promises: complete audit, well-formed tables, limits and legacy
  identities that are written once and never shared, a preflight that predicts the binding, and
  a usage total that adds up the two identities of a bound principal.
\<close>

subsection \<open>Concrete tables\<close>

definition ex_legacy :: runtime_principal_entry where
  "ex_legacy = \<lparr>re_principal_id = [108], re_tenant_id = 1, re_agent_id = 2, re_credential = replicate 32 99,
     re_usage_limit = 50, re_allowance = 10\<rparr>"

definition ex_runtime_service :: runtime_service where
  "ex_runtime_service = \<lparr>rsv_pepper = [112], rsv_legacy = Some [ex_legacy]\<rparr>"

definition ex_runtime_principal :: runtime_principal_row where
  "ex_runtime_principal = \<lparr>rp_principal_id = 300, rp_tenant_id = 1, rp_agent_id = 2,
     rp_created_at = 63000000000000000, rp_disabled_at = None, rp_daily_usage_limit_units = Some 50,
     rp_per_invocation_allowance_units = Some 10, rp_legacy_runtime_principal_id = None,
     rp_identity_continuity_bound_at = None\<rparr>"

definition ex_runtime_credential :: runtime_credential_row where
  "ex_runtime_credential = \<lparr>rc_credential_id = 301, rc_principal_id = 300, rc_secret_verifier = replicate 64 98,
     rc_label = None, rc_created_at = 63000000000000000, rc_expires_at = None, rc_revoked_at = None\<rparr>"

definition ex_runtime :: db where
  "ex_runtime = ex_db\<lparr>runtime_principals := [ex_runtime_principal], runtime_credentials := [ex_runtime_credential]\<rparr>"

definition ex_operator :: actor where
  "ex_operator = \<lparr>act_id = 100, act_can_manage = True\<rparr>"

lemma ex_runtime_rows [simp]:
  "runtime_principals ex_runtime = [ex_runtime_principal]" "runtime_credentials ex_runtime = [ex_runtime_credential]"
  "audits ex_runtime = []" "invocations ex_runtime = []" "tenants ex_runtime = [ex_tenant]" "agents ex_runtime = [ex_agent]"
  by (simp_all add: ex_runtime_def ex_db_def empty_db_def)

lemma ex_runtime_ok: "runtime_ok ex_runtime"
  by (simp add: runtime_ok_def runtime_row_ok_def limits_ok_def legacy_ok_def runtime_binding_exists_def
      runtime_credential_row_ok_def ex_tenant_def ex_agent_def)
     (simp add: ex_runtime_principal_def ex_runtime_credential_def)

subsection \<open>Audit\<close>

fun runtime_actor :: "runtime_command \<Rightarrow> actor" where
  "runtime_actor (CreateRuntimePrincipal a t ag daily allowance label expires) = a"
| "runtime_actor (BindIdentityContinuity a i legacy) = a"
| "runtime_actor (InitializeUsageLimits a i daily allowance) = a"
| "runtime_actor (IssueRuntimeCredential a i label expires) = a"
| "runtime_actor (RevokeRuntimeCredential a i ci) = a"
| "runtime_actor (DisableRuntimePrincipal a i) = a"

fun runtime_actions :: "runtime_command \<Rightarrow> audit_action list" where
  "runtime_actions (CreateRuntimePrincipal a t ag daily allowance label expires) =
     [RUNTIME_PRINCIPAL_CREATED, RUNTIME_CREDENTIAL_ISSUED]"
| "runtime_actions (BindIdentityContinuity a i legacy) = [RUNTIME_PRINCIPAL_IDENTITY_CONTINUITY_BOUND]"
| "runtime_actions (InitializeUsageLimits a i daily allowance) = [RUNTIME_PRINCIPAL_USAGE_LIMITS_INITIALIZED]"
| "runtime_actions (IssueRuntimeCredential a i label expires) = [RUNTIME_CREDENTIAL_ISSUED]"
| "runtime_actions (RevokeRuntimeCredential a i ci) = [RUNTIME_CREDENTIAL_REVOKED]"
| "runtime_actions (DisableRuntimePrincipal a i) = [RUNTIME_PRINCIPAL_DISABLED]"

definition runtime_audited :: "request \<Rightarrow> runtime_command \<Rightarrow> audit_row list \<Rightarrow> bool" where
  "runtime_audited rq cmd rows \<longleftrightarrow> act_can_manage (runtime_actor cmd) \<and> map au_action rows = runtime_actions cmd
     \<and> (\<forall>r \<in> set rows. au_principal_id r = uuid_str (act_id (runtime_actor cmd)) \<and> au_outcome r = AuditSucceeded
          \<and> au_occurred_at r = clock_at rq 0 \<and> au_tenant_id r \<noteq> None)"

lemma runtime_audit_rows [simp]:
  "au_principal_id (audit_to_row (runtime_principal_audit pf rq n actor p b action)) = uuid_str actor"
  "au_action (audit_to_row (runtime_principal_audit pf rq n actor p b action)) = action"
  "au_outcome (audit_to_row (runtime_principal_audit pf rq n actor p b action)) = AuditSucceeded"
  "au_occurred_at (audit_to_row (runtime_principal_audit pf rq n actor p b action)) = clock_at rq 0"
  "au_tenant_id (audit_to_row (runtime_principal_audit pf rq n actor p b action)) = Some (rpr_tenant_id p)"
  "au_principal_id (audit_to_row (runtime_credential_audit pf rq n actor t c cb action)) = uuid_str actor"
  "au_action (audit_to_row (runtime_credential_audit pf rq n actor t c cb action)) = action"
  "au_outcome (audit_to_row (runtime_credential_audit pf rq n actor t c cb action)) = AuditSucceeded"
  "au_occurred_at (audit_to_row (runtime_credential_audit pf rq n actor t c cb action)) = clock_at rq 0"
  "au_tenant_id (audit_to_row (runtime_credential_audit pf rq n actor t c cb action)) = Some t"
  by (simp_all add: audit_to_row_def runtime_principal_audit_def runtime_credential_audit_def)

lemma run_runtime_audited:
  assumes run: "run_runtime pf sv rq cmd d = (Inr u, d')"
  shows "\<exists>rows. audits d' = audits d @ rows \<and> runtime_audited rq cmd rows"
proof (cases cmd)
  case (CreateRuntimePrincipal a t ag daily allowance label expires)
  then obtain p c token where r: "runtime_create_principal pf sv rq a t ag daily allowance label expires d
      = (Inr (p, c, token), d')" using run by (auto simp: void_Inr_iff)
  show ?thesis unfolding runtime_create_effect(9) [OF r]
    using runtime_create_effect(1) [OF r] CreateRuntimePrincipal by (simp add: runtime_audited_def)
next
  case (BindIdentityContinuity a i legacy)
  then obtain b where r: "bind_identity_continuity pf sv rq a i legacy d = (Inr b, d')" using run by (auto simp: void_Inr_iff)
  from bind_effect(3) [OF r] show ?thesis
    using bind_effect(1) [OF r] BindIdentityContinuity by (elim exE conjE) (simp add: runtime_audited_def)
next
  case (InitializeUsageLimits a i daily allowance)
  then obtain c where r: "initialize_usage_limits pf rq a i daily allowance d = (Inr c, d')" using run by (auto simp: void_Inr_iff)
  from limits_effect(4) [OF r] show ?thesis
    using limits_effect(1) [OF r] InitializeUsageLimits by (elim exE conjE) (simp add: runtime_audited_def)
next
  case (IssueRuntimeCredential a i label expires)
  then obtain c token where r: "runtime_issue_credential pf sv rq a i label expires d = (Inr (c, token), d')"
    using run by (auto simp: void_Inr_iff)
  from runtime_issue_effect(4) [OF r] show ?thesis
    using runtime_issue_effect(1) [OF r] IssueRuntimeCredential by (elim exE conjE) (simp add: runtime_audited_def)
next
  case (RevokeRuntimeCredential a i ci)
  then obtain c' where r: "runtime_revoke_credential pf rq a i ci d = (Inr c', d')" using run by (auto simp: void_Inr_iff)
  from runtime_revoke_effect(2) [OF r] show ?thesis
    using runtime_revoke_effect(1) [OF r] RevokeRuntimeCredential by (elim exE conjE) (simp add: runtime_audited_def)
next
  case (DisableRuntimePrincipal a i)
  then obtain p' where r: "runtime_disable_principal pf rq a i d = (Inr p', d')" using run by (auto simp: void_Inr_iff)
  from runtime_disable_effect(2) [OF r] show ?thesis
    using runtime_disable_effect(1) [OF r] DisableRuntimePrincipal by (elim exE conjE) (simp add: runtime_audited_def)
qed

text \<open>
  C26. Runtime identity commands are all or nothing and audited: one that fails changes no table;
  one that succeeds was issued by a manager and adds exactly the audit records of its kind (two
  for the creation of a principal with its first credential), each with the manager's identity,
  the tenant and the request's time.
\<close>

theorem runtime_audit_complete:
  "(\<exists>e. run_runtime pf sv rq cmd d = (Inl e, d))
   \<or> (\<exists>d' rows. run_runtime pf sv rq cmd d = (Inr (), d') \<and> audits d' = audits d @ rows
        \<and> runtime_audited rq cmd rows)"
proof (cases "run_runtime pf sv rq cmd d")
  case (Pair r d')
  show ?thesis
  proof (cases r)
    case (Inl e)
    then show ?thesis using Pair run_runtime_failed by blast
  next
    case (Inr u)
    then have run: "run_runtime pf sv rq cmd d = (Inr (), d')" using Pair by simp
    then show ?thesis using run_runtime_audited [OF run] by blast
  qed
qed

subsection \<open>The tables\<close>

text \<open>
  The runtime identity tables stay well formed over any sequence of commands: identities are
  unique, every principal is bound to an agent of its tenant, usage limits come together with
  the allowance within the limit, a legacy identity is a stripped text of at most 255 characters
  that no two principals share, and every credential belongs to a stored principal.
\<close>

theorem runtime_tables_invariant:
  assumes "(runtime_step pf sv)\<^sup>*\<^sup>* d d'" "runtime_ok d"
  shows "runtime_ok d'"
  by (rule runtime_steps_ok [OF assms])

theorem runtime_tables_invariant_witness: "runtime_ok ex_runtime"
  by (rule runtime_tables_invariant [OF rtranclp.rtrancl_refl ex_runtime_ok])

subsection \<open>Preparing and binding a legacy identity\<close>

lemma strip_nonblank: "py_strip l = l \<Longrightarrow> l \<noteq> [] \<Longrightarrow> \<exists>c \<in> set l. c \<noteq> 32"
proof (rule ccontr)
  assume l: "py_strip l = l" "l \<noteq> []" and "\<not> (\<exists>c \<in> set l. c \<noteq> 32)"
  then have "dropWhile py_isspace l = []" by (auto simp: dropWhile_eq_Nil_conv)
  then have "py_strip l = []" unfolding py_strip_def by (simp only: rev.simps dropWhile.simps)
  then show False using l by simp
qed

lemma row_ok_checks: "runtime_row_ok r \<Longrightarrow> runtime_principal_checks_ok r"
  using strip_nonblank
  by (auto simp: runtime_row_ok_def runtime_principal_checks_ok_def limits_ok_def legacy_ok_def opt_ok_def
      split: option.splits)

lemma filter_key: "distinct (map key xs) \<Longrightarrow> x \<in> set xs \<Longrightarrow> key x = k \<Longrightarrow> filter (\<lambda>y. key y = k) xs = [x]"
proof (induction xs)
  case (Cons y ys)
  show ?case
  proof (cases "y = x")
    case True
    then have "k \<notin> key ` set ys" using Cons.prems by auto
    then have "filter (\<lambda>y. key y = k) ys = []" by (auto simp: filter_empty_conv)
    then show ?thesis using True Cons.prems by simp
  next
    case False
    then have "key y \<noteq> k" using Cons.prems by force
    then show ?thesis using Cons False by simp
  qed
qed simp

lemma text_fits_ok: "text_ok l \<Longrightarrow> length l \<le> n \<Longrightarrow> text_fits n l"
  by (simp add: text_fits_def text_ok_def)

lemma bind_runs:
  assumes ok: "runtime_ok d" and hex: "hashes_to_hex pf" and fresh: "id_at rq 0 \<notin> au_audit_id ` set (audits d)"
    and legacy: "py_strip legacy = legacy" "legacy \<noteq> []" "length legacy \<le> 255" "text_ok legacy"
    and mgr: "act_can_manage a" and rp: "reads_runtime pf i d r p" "rp_disabled_at r = None"
    and day: "preflight_day pf (clock rq 0) = Inr (u, v)"
    and safe: "cp_safe (preflight_of sv p legacy (inspect_continuity legacy (uuid_str i) (rp_tenant_id r)
      (rp_agent_id r) (instant u) (instant v) d) (legacy_claimed legacy d) (has_potentially_usable i (clock rq 0) d))"
  shows "\<exists>b d'. bind_identity_continuity pf sv rq a i legacy d = (Inr b, d')"
proof -
  note D = reads_runtimeD [OF rp(1)]
  have row: "runtime_row_ok r" using ok D(1) by (simp add: runtime_ok_def)
  then have p: "p = runtime_principal_at pf r" using rp(1) by (simp add: reads_runtime_def runtime_principal_of_row)
  have free: "\<not> legacy_claimed legacy d" "\<not> identity_continuity_ready p"
    using safe by (simp_all add: preflight_of_def Let_def)
  then have none: "rp_legacy_runtime_principal_id r = None" "rp_identity_continuity_bound_at r = None"
    using row by (auto simp: p runtime_principal_at_def identity_continuity_ready_def runtime_row_ok_def)
  define b where "b = p\<lparr>rpr_legacy := Some legacy, rpr_bound_at := Some (clock rq 0)\<rparr>"
  have init: "runtime_principal_init b = Inr b"
    using row rp(2) legacy by (simp add: runtime_principal_init_Inr_iff b_def p runtime_principal_at_def
        runtime_row_ok_def legacy_ok_def)
  then have bound: "runtime_bind p legacy (clock rq 0) = Inr b"
    using D(6) rp(2) free(2) by (simp add: runtime_bind_def b_def)
  let ?q = "\<lambda>x. rp_principal_id x = i \<and> rp_legacy_runtime_principal_id x = None \<and> rp_identity_continuity_bound_at x = None"
  have bw: "rpr_id b = i" "rpr_legacy b = Some legacy" "rpr_bound_at b = Some (clock rq 0)"
    "rpr_tenant_id b = rp_tenant_id r" using D by (simp_all add: b_def)
  have hit: "filter ?q (runtime_principals d) = [r]"
  proof -
    have "filter ?q (runtime_principals d)
        = filter (\<lambda>x. rp_legacy_runtime_principal_id x = None \<and> rp_identity_continuity_bound_at x = None)
            (filter (\<lambda>x. rp_principal_id x = i) (runtime_principals d))" by (simp only: filter_filter)
    also have "filter (\<lambda>x. rp_principal_id x = i) (runtime_principals d) = [r]"
      using runtime_ok_distinct(1) [OF ok] D(1,2) by (rule filter_key)
    finally show ?thesis using none by simp
  qed
  have "runtime_row_ok (binding_written b r)" using row legacy bw by (simp add: runtime_row_ok_def legacy_ok_def)
  then have checks: "runtime_principal_checks_ok (binding_written b r)" by (rule row_ok_checks)
  have "x = r" if "x \<in> set (runtime_principals d)" "?q x" for x
  proof -
    have "x \<in> set (filter ?q (runtime_principals d))" using that by simp
    then show ?thesis unfolding hit by simp
  qed
  then have upd: "runtime_bind_update b d = Inr (1, d\<lparr>runtime_principals := update_rows ?q (binding_written b) (runtime_principals d)\<rparr>)"
    using checks hit bw legacy free(1) text_fits_ok
    by (auto simp: runtime_bind_update_def runtime_principal_update_Inr_iff legacy_claimed_def)
  have tenant: "rp_tenant_id r \<in> tr_id ` set (tenants d)"
    using ok D(1) by (force simp: runtime_ok_def runtime_binding_exists_def)
  have "audit_write (runtime_principal_audit pf rq 0 (act_id a) b (Some p) RUNTIME_PRINCIPAL_IDENTITY_CONTINUITY_BOUND)
      \<lparr>committed = d, working = d\<lparr>runtime_principals := update_rows ?q (binding_written b) (runtime_principals d)\<rparr>\<rparr>
    = (Inr (), \<lparr>committed = d, working = d\<lparr>runtime_principals := update_rows ?q (binding_written b) (runtime_principals d),
        audits := audits d @ [audit_to_row (runtime_principal_audit pf rq 0 (act_id a) b (Some p)
          RUNTIME_PRINCIPAL_IDENTITY_CONTINUITY_BOUND)]\<rparr>\<rparr>)"
    by (subst audit_write_succeeds [where actor = "act_id a" and f = "runtime_principal_digest pf b"])
       (use hex fresh tenant bw in \<open>simp_all add: runtime_principal_audit_def runtime_principal_digest_def
          runtime_principal_fingerprint_def\<close>)
  moreover have "runtime_principal_get pf i \<lparr>committed = d, working = d\<rparr> = (Inr (Some p), \<lparr>committed = d, working = d\<rparr>)"
    "legacy_identity_is_claimed legacy \<lparr>committed = d, working = d\<rparr> = (Inr False, \<lparr>committed = d, working = d\<rparr>)"
    "continuity_preflight_of pf sv rq p legacy \<lparr>committed = d, working = d\<rparr>
      = (Inr (preflight_of sv p legacy (inspect_continuity legacy (uuid_str i) (rp_tenant_id r)
          (rp_agent_id r) (instant u) (instant v) d) (legacy_claimed legacy d) (has_potentially_usable i (clock rq 0) d)),
         \<lparr>committed = d, working = d\<rparr>)"
    using rp(1) legacy(4) free(1) day D
    by (auto simp: runtime_principal_get_Inr_iff legacy_claim_Inr_iff continuity_preflight_Inr_iff)
  moreover have "runtime_bind_row b \<lparr>committed = d, working = d\<rparr> = (Inr True, \<lparr>committed = d, working =
      d\<lparr>runtime_principals := update_rows ?q (binding_written b) (runtime_principals d)\<rparr>\<rparr>)"
    using upd by (simp add: runtime_bind_row_Inr_iff)
  ultimately show ?thesis using mgr rp(2) D(6) free bound safe legacy(4)
    by (simp add: bind_identity_continuity_def runtime_require_manager_def lock_legacy_identity_def
        text_parameter_def with_uow_eq commit_after_def bnd_def value_error_as_def)
qed

text \<open>
  C28. The preflight predicts the binding: when the preflight of a legacy identity answers, the
  binding in the same state succeeds if and only if the preflight calls it safe (for a stripped
  identity of at most 255 characters and a fresh audit identity). Safe means a configured legacy
  identity of the same tenant and agent with the same limits, unclaimed, a principal not yet
  bound, no past invocation of either identity elsewhere, and a usable credential.
\<close>

theorem preflight_predicts_binding:
  assumes "runtime_ok d" "hashes_to_hex pf" "id_at rq 0 \<notin> au_audit_id ` set (audits d)"
    and legacy: "py_strip legacy = legacy" "legacy \<noteq> []" "length legacy \<le> 255"
    and pre: "preflight_identity_continuity pf sv rq a i legacy d = (Inr c, d0)"
  shows "d0 = d \<and> (cp_safe c \<longleftrightarrow> (\<exists>b d'. bind_identity_continuity pf sv rq a i legacy d = (Inr b, d')))"
proof -
  obtain r p u v where e: "act_can_manage a" "reads_runtime pf i d r p" "runtime_is_active p" "text_ok legacy"
    "preflight_day pf (clock rq 0) = Inr (u, v)" "d0 = d"
    "c = preflight_of sv p legacy (inspect_continuity legacy (uuid_str (rpr_id p)) (rpr_tenant_id p)
        (rpr_agent_id p) (instant u) (instant v) d) (legacy_claimed legacy d)
        (has_potentially_usable (rpr_id p) (clock rq 0) d)"
    using pre
    by (auto simp: preflight_identity_continuity_def runtime_require_manager_def op_inv with_uow_Inr_iff split: option.splits)
  note D = reads_runtimeD [OF e(2)]
  have "cp_safe c" if run: "bind_identity_continuity pf sv rq a i legacy d = (Inr b, d')" for b d'
  proof -
    obtain r' p' x where b: "reads_runtime pf i d r' p'" "rp_legacy_runtime_principal_id r' = None"
      "\<not> legacy_claimed legacy d" "service_legacy sv legacy = Some x"
      "re_tenant_id x = rp_tenant_id r'" "re_agent_id x = rp_agent_id r'"
      "rp_daily_usage_limit_units r' = Some (re_usage_limit x)"
      "rp_per_invocation_allowance_units r' = Some (re_allowance x)" "has_potentially_usable i (clock rq 0) d"
      "\<forall>v \<in> set (invocations d). used_by legacy v \<or> used_by (uuid_str i) v \<longrightarrow>
            ir_tenant_id v = rp_tenant_id r' \<and> ir_agent_id v = rp_agent_id r'"
      using bind_effect(3) [OF run] by blast
    have "r' = r" using b(1) e(2) by (simp add: reads_runtime_def)
    then show ?thesis using b e(3) D unfolding e(7)
      by (auto simp: preflight_of_def inspect_continuity_def Let_def usage_limits_configured_def
          identity_continuity_ready_def)
  qed
  moreover have "\<exists>b d'. bind_identity_continuity pf sv rq a i legacy d = (Inr b, d')" if "cp_safe c"
    using that unfolding e(7) D(3,4,5)
    by (intro bind_runs [OF assms(1-3) legacy e(4,1,2) _ e(5)]) (use e(3) D(6) in simp_all)
  ultimately show ?thesis using e(6) by blast
qed

lemma ex_runtime_row_ok: "runtime_row_ok ex_runtime_principal"
  by (simp add: runtime_row_ok_def limits_ok_def legacy_ok_def ex_runtime_principal_def)

lemma ex_runtime_reads:
  "reads_runtime ex_platform 300 ex_runtime ex_runtime_principal (runtime_principal_at ex_platform ex_runtime_principal)"
  using runtime_principal_of_row [OF ex_runtime_row_ok] by (simp add: reads_runtime_def ex_runtime_principal_def)

definition ex_preflight :: continuity_preflight where
  "ex_preflight = preflight_of ex_runtime_service (runtime_principal_at ex_platform ex_runtime_principal) [108]
     (inspect_continuity [108] (uuid_str 300) 1 2 (day_start 63000000000000000) (day_start 63000000000000000 + day_us) ex_runtime)
     False True"

lemma ex_at_fields [simp]:
  "rpr_id (runtime_principal_at pf ex_runtime_principal) = 300" "rpr_tenant_id (runtime_principal_at pf ex_runtime_principal) = 1"
  "rpr_agent_id (runtime_principal_at pf ex_runtime_principal) = 2" "rpr_daily (runtime_principal_at pf ex_runtime_principal) = Some 50"
  "rpr_allowance (runtime_principal_at pf ex_runtime_principal) = Some 10" "rpr_legacy (runtime_principal_at pf ex_runtime_principal) = None"
  "rpr_disabled_at (runtime_principal_at pf ex_runtime_principal) = None"
  by (simp_all add: runtime_principal_at_def ex_runtime_principal_def)

lemma ex_day: "preflight_day ex_platform (Aware 63000000000000000 0)
    = Inr (Aware (day_start 63000000000000000) 0, Aware (day_start 63000000000000000 + day_us) 0)"
  by (simp add: preflight_day_def astimezone_Aware overflow_guard_def floor_wall_def dt_plus_def day_start_def
      representable_def max_wall_def day_us_def Let_def)

lemma ex_preflight_run: "preflight_identity_continuity ex_platform ex_runtime_service ex_request ex_operator 300 [108] ex_runtime
    = (Inr ex_preflight, ex_runtime)"
proof -
  have "runtime_principal_get ex_platform 300 \<lparr>committed = ex_runtime, working = ex_runtime\<rparr>
      = (Inr (Some (runtime_principal_at ex_platform ex_runtime_principal)), \<lparr>committed = ex_runtime, working = ex_runtime\<rparr>)"
    using ex_runtime_reads by (auto simp: runtime_principal_get_Inr_iff)
  moreover have "continuity_preflight_of ex_platform ex_runtime_service ex_request (runtime_principal_at ex_platform ex_runtime_principal)
      [108] \<lparr>committed = ex_runtime, working = ex_runtime\<rparr> = (Inr ex_preflight, \<lparr>committed = ex_runtime, working = ex_runtime\<rparr>)"
    using ex_day
    by (simp add: continuity_preflight_Inr_iff ex_preflight_def text_ok_def legacy_claimed_def has_potentially_usable_def
        runtime_live_at_def) (simp add: ex_runtime_principal_def ex_runtime_credential_def)
  ultimately show ?thesis
    by (simp add: preflight_identity_continuity_def runtime_require_manager_def ex_operator_def with_uow_eq bnd_def
        runtime_is_active_def)
qed

lemma ex_preflight_safe: "cp_safe ex_preflight"
  by (simp add: ex_preflight_def preflight_of_def Let_def service_legacy_def legacy_configuration_def
      ex_runtime_service_def ex_legacy_def inspect_continuity_def runtime_is_active_def usage_limits_configured_def
      identity_continuity_ready_def)

theorem preflight_predicts_binding_witness:
  "\<exists>b d'. bind_identity_continuity ex_platform ex_runtime_service ex_request ex_operator 300 [108] ex_runtime = (Inr b, d')"
  using preflight_predicts_binding [OF ex_runtime_ok ex_hex _ _ _ _ ex_preflight_run] ex_preflight_safe
  by (simp add: py_strip_def py_isspace_def)

subsection \<open>Written once\<close>

lemma runtime_command_ok: "run_runtime pf sv rq cmd d = (Inr (), d') \<Longrightarrow> runtime_ok d \<Longrightarrow> runtime_ok d'"
  by (rule runtime_step_ok [OF runtime_step.command])

lemma row_update:
  assumes "row_of rp_principal_id i rows = Some r" "q r" "\<And>x. rp_principal_id (f x) = rp_principal_id x"
  shows "row_of rp_principal_id i (update_rows q f rows) = Some (f r)"
  using assms by (subst row_of_update_rows) simp_all

lemma bound_row:
  assumes run: "bind_identity_continuity pf sv rq a i legacy d = (Inr b, d1)" and ok: "runtime_ok d"
  shows "runtime_ok d1" "\<exists>r. row_of rp_principal_id i (runtime_principals d) = Some r
      \<and> rp_legacy_runtime_principal_id r = None"
    "\<exists>r. row_of rp_principal_id i (runtime_principals d1) = Some r
      \<and> rp_legacy_runtime_principal_id r = Some (py_strip legacy)"
proof -
  show "runtime_ok d1"
    by (rule runtime_command_ok [of pf sv rq "BindIdentityContinuity a i legacy", OF _ ok])
       (use run in \<open>auto simp: void_Inr_iff\<close>)
  obtain r p as where e: "reads_runtime pf i d r p" "rp_legacy_runtime_principal_id r = None"
    "runtime_principal_init (p\<lparr>rpr_legacy := Some legacy, rpr_bound_at := Some (clock rq 0)\<rparr>) = Inr b"
    "d1 = d\<lparr>runtime_principals :=
            update_rows (\<lambda>x. rp_principal_id x = i \<and> rp_legacy_runtime_principal_id x = None
              \<and> rp_identity_continuity_bound_at x = None) (binding_written b) (runtime_principals d),
           audits := audits d @ as\<rparr>"
    using bind_effect(3) [OF run] by blast
  note D = reads_runtimeD [OF e(1)]
  have r: "row_of rp_principal_id i (runtime_principals d) = Some r" using e(1) by (simp add: reads_runtime_def)
  then show "\<exists>r. row_of rp_principal_id i (runtime_principals d) = Some r \<and> rp_legacy_runtime_principal_id r = None"
    using e(2) by blast
  have "runtime_row_ok r" using ok D(1) by (simp add: runtime_ok_def)
  then have "rp_identity_continuity_bound_at r = None" using e(2) by (simp add: runtime_row_ok_def)
  then have "row_of rp_principal_id i (runtime_principals d1) = Some (binding_written b r)"
    using r e(2) D(2) unfolding e(4) by (simp add: row_update)
  then show "\<exists>r. row_of rp_principal_id i (runtime_principals d1) = Some r
      \<and> rp_legacy_runtime_principal_id r = Some (py_strip legacy)"
    using e(3) by (auto simp: runtime_principal_init_Inr_iff)
qed

text \<open>
  C27. A legacy identity is bound once and for all: after a successful binding and any further
  commands the principal still carries it, no other principal does, and no later binding of the
  same identity, to whichever principal, or of another identity to this principal, succeeds.
\<close>

theorem legacy_identity_bound_once:
  assumes bind: "bind_identity_continuity pf sv rq a i legacy d = (Inr b, d1)" and ok: "runtime_ok d"
    and later: "(runtime_step pf sv)\<^sup>*\<^sup>* d1 d'"
  shows "(\<exists>r. row_of rp_principal_id i (runtime_principals d') = Some r
        \<and> rp_legacy_runtime_principal_id r = Some (py_strip legacy))
    \<and> (\<forall>q \<in> set (runtime_principals d'). rp_legacy_runtime_principal_id q = Some (py_strip legacy) \<longrightarrow> rp_principal_id q = i)
    \<and> (\<forall>rq' a' j other b' d''. bind_identity_continuity pf sv rq' a' j other d' = (Inr b', d'') \<longrightarrow>
         j \<noteq> i \<and> py_strip other \<noteq> py_strip legacy)"
proof -
  note ok1 = bound_row(1) [OF bind ok] and ok' = runtime_steps_ok [OF later bound_row(1) [OF bind ok]]
  obtain r1 where r1: "row_of rp_principal_id i (runtime_principals d1) = Some r1"
    "rp_legacy_runtime_principal_id r1 = Some (py_strip legacy)" using bound_row(3) [OF bind ok] by blast
  obtain r where r: "row_of rp_principal_id i (runtime_principals d') = Some r"
    "rp_legacy_runtime_principal_id r = Some (py_strip legacy)"
    using runtime_legacy_once.lookup_kept [OF runtime_ok_steps [OF later ok1] runtime_ok_distinct(1) [OF ok1] r1(1)] r1(2) by blast
  have rin: "r \<in> set (runtime_principals d')" "rp_principal_id r = i" using r(1) by (auto dest: row_of_SomeD)
  have only: "rp_principal_id q = i" if "q \<in> set (runtime_principals d')" "rp_legacy_runtime_principal_id q = Some (py_strip legacy)" for q
    using unclaimed_old [OF ok' rin(1) that(1)] rin(2) r(2) that(2) by auto
  have "j \<noteq> i \<and> py_strip other \<noteq> py_strip legacy"
    if run: "bind_identity_continuity pf sv rq' a' j other d' = (Inr b', d'')" for rq' a' j other b' d''
  proof -
    have ne: "j \<noteq> i" using bound_row(2) [OF run ok'] r by auto
    have "runtime_step pf sv d' d''"
      by (rule runtime_step.command [of pf sv rq' "BindIdentityContinuity a' j other" d' "Inr ()"])
         (use run in \<open>auto simp: void_Inr_iff\<close>)
    then have "(runtime_step pf sv)\<^sup>*\<^sup>* d' d''" by (rule r_into_rtranclp)
    from runtime_legacy_once.lookup_kept [OF runtime_ok_steps [OF this ok'] runtime_ok_distinct(1) [OF ok'] r(1)] r(2)
    obtain r2 where r2: "row_of rp_principal_id i (runtime_principals d'') = Some r2"
      "rp_legacy_runtime_principal_id r2 = Some (py_strip legacy)" by blast
    obtain q where q: "row_of rp_principal_id j (runtime_principals d'') = Some q"
      "rp_legacy_runtime_principal_id q = Some (py_strip other)" using bound_row(3) [OF run ok'] by blast
    have "rp_legacy_runtime_principal_id q \<noteq> rp_legacy_runtime_principal_id r2"
      using unclaimed_old [OF bound_row(1) [OF run ok'], of r2 q] r2 q ne by (auto dest!: row_of_SomeD)
    then show ?thesis using ne r2 q by simp
  qed
  then show ?thesis using r only by blast
qed

theorem legacy_identity_bound_once_witness:
  "\<exists>b d1. bind_identity_continuity ex_platform ex_runtime_service ex_request ex_operator 300 [108] ex_runtime = (Inr b, d1)
     \<and> (\<exists>r. row_of rp_principal_id 300 (runtime_principals d1) = Some r \<and> rp_legacy_runtime_principal_id r = Some [108])"
proof -
  have strip: "py_strip [108] = [108]" by (simp add: py_strip_def py_isspace_def)
  obtain b d1 where run: "bind_identity_continuity ex_platform ex_runtime_service ex_request ex_operator 300 [108] ex_runtime
      = (Inr b, d1)"
    using bind_runs [OF ex_runtime_ok ex_hex _ strip _ _ _ _ ex_runtime_reads, of ex_request ex_operator "Aware (day_start 63000000000000000) 0"
        "Aware (day_start 63000000000000000 + day_us) 0" ex_runtime_service] ex_day ex_preflight_safe
    by (auto simp: text_ok_def ex_operator_def ex_preflight_def legacy_claimed_def has_potentially_usable_def runtime_live_at_def
        ex_runtime_principal_def ex_runtime_credential_def)
  from legacy_identity_bound_once [OF run ex_runtime_ok rtranclp.rtrancl_refl] run strip show ?thesis by metis
qed

text \<open>
  C29. Usage limits are initialized once: after a successful initialization and any further
  commands the principal has exactly the limits given, with a positive allowance within the
  limit, and every further initialization is refused.
\<close>

theorem usage_limits_initialized_once:
  assumes run: "initialize_usage_limits pf rq a i daily allowance d = (Inr c, d1)" and ok: "runtime_ok d"
    and later: "(runtime_step pf sv)\<^sup>*\<^sup>* d1 d'"
  shows "0 < allowance \<and> allowance \<le> daily
    \<and> (\<exists>r. row_of rp_principal_id i (runtime_principals d') = Some r
        \<and> rp_daily_usage_limit_units r = Some daily \<and> rp_per_invocation_allowance_units r = Some allowance)
    \<and> (\<exists>e. initialize_usage_limits pf rq' a' i x y d' = (Inl e, d'))"
proof -
  have ok1: "runtime_ok d1"
    by (rule runtime_command_ok [of pf sv rq "InitializeUsageLimits a i daily allowance", OF _ ok])
       (use run in \<open>auto simp: void_Inr_iff\<close>)
  obtain r p as where e: "reads_runtime pf i d r p" "rp_daily_usage_limit_units r = None"
    "rp_per_invocation_allowance_units r = None"
    "runtime_principal_init (p\<lparr>rpr_daily := Some daily, rpr_allowance := Some allowance\<rparr>) = Inr c"
    "d1 = d\<lparr>runtime_principals :=
            update_rows (\<lambda>x. rp_principal_id x = i \<and> rp_daily_usage_limit_units x = None
              \<and> rp_per_invocation_allowance_units x = None) (limits_written c) (runtime_principals d),
           audits := audits d @ as\<rparr>"
    using limits_effect(4) [OF run] by blast
  have "row_of rp_principal_id i (runtime_principals d1) = Some (limits_written c r)"
    using e(1-3) reads_runtimeD(2) [OF e(1)] unfolding e(5) by (simp add: row_update reads_runtime_def)
  moreover have "limits_column (limits_written c r) = Some (daily, allowance)"
    using e(4) by (auto simp: runtime_principal_init_Inr_iff limits_column_def)
  ultimately obtain r' where r': "row_of rp_principal_id i (runtime_principals d') = Some r'"
    "limits_column r' = Some (daily, allowance)"
    using runtime_limits_once.lookup_kept [OF runtime_ok_steps [OF later ok1] runtime_ok_distinct(1) [OF ok1]] by blast
  then have cols: "rp_daily_usage_limit_units r' = Some daily" "rp_per_invocation_allowance_units r' = Some allowance"
    by (auto simp: limits_column_def split: option.splits)
  have "\<exists>e. initialize_usage_limits pf rq' a' i x y d' = (Inl e, d')"
  proof (cases "initialize_usage_limits pf rq' a' i x y d'")
    case (Pair res d2)
    show ?thesis
    proof (cases res)
      case (Inl e)
      then show ?thesis using Pair atomicD [OF atomic_runtime_principal(2)] by blast
    next
      case (Inr c2)
      then obtain r2 p2 where "reads_runtime pf i d' r2 p2" "rp_daily_usage_limit_units r2 = None"
        using limits_effect(4) [of pf rq' a' i x y d' c2 d2] Pair by blast
      then show ?thesis using r'(1) cols(1) by (simp add: reads_runtime_def)
    qed
  qed
  then show ?thesis using limits_effect(2,3) [OF run] r'(1) cols by blast
qed

definition ex_unlimited :: db where
  "ex_unlimited = ex_runtime\<lparr>runtime_principals := [ex_runtime_principal\<lparr>rp_daily_usage_limit_units := None,
     rp_per_invocation_allowance_units := None\<rparr>]\<rparr>"

lemma ex_unlimited_row_ok: "runtime_row_ok (ex_runtime_principal\<lparr>rp_daily_usage_limit_units := None,
     rp_per_invocation_allowance_units := None\<rparr>)"
  by (simp add: runtime_row_ok_def limits_ok_def legacy_ok_def ex_runtime_principal_def)

lemma ex_unlimited_ok: "runtime_ok ex_unlimited"
  using ex_unlimited_row_ok
  by (simp add: runtime_ok_def ex_unlimited_def runtime_binding_exists_def runtime_credential_row_ok_def
      ex_tenant_def ex_agent_def) (simp add: ex_runtime_principal_def ex_runtime_credential_def)

lemma ex_limits_run: "\<exists>c d1. initialize_usage_limits ex_platform ex_request ex_operator 300 50 10 ex_unlimited = (Inr c, d1)"
proof -
  let ?r = "ex_runtime_principal\<lparr>rp_daily_usage_limit_units := None, rp_per_invocation_allowance_units := None\<rparr>"
  let ?p = "runtime_principal_at ex_platform ?r"
  let ?c = "?p\<lparr>rpr_daily := Some 50, rpr_allowance := Some 10\<rparr>"
  let ?s = "\<lparr>committed = ex_unlimited, working = ex_unlimited\<rparr>"
  let ?d = "ex_unlimited\<lparr>runtime_principals := [limits_written ?c ?r]\<rparr>"
  have row: "row_of rp_principal_id 300 (runtime_principals ex_unlimited) = Some ?r"
    by (simp add: ex_unlimited_def ex_runtime_principal_def)
  have get: "runtime_principal_get ex_platform 300 ?s = (Inr (Some ?p), ?s)"
    using row runtime_principal_of_row [OF ex_unlimited_row_ok] by (auto simp: runtime_principal_get_Inr_iff reads_runtime_def)
  have p: "?p = \<lparr>rpr_id = 300, rpr_tenant_id = 1, rpr_agent_id = 2, rpr_created_at = Aware 63000000000000000 0,
      rpr_disabled_at = None, rpr_daily = None, rpr_allowance = None, rpr_legacy = None, rpr_bound_at = None\<rparr>"
    by (simp add: runtime_principal_at_def ex_runtime_principal_def from_db_def ex_platform_def)
  have c: "runtime_principal_init ?c = Inr ?c" by (simp add: p runtime_principal_init_Inr_iff limits_ok_def legacy_ok_def)
  have upd: "runtime_limits_row ?c ?s = (Inr True, \<lparr>committed = ex_unlimited, working = ?d\<rparr>)"
    by (simp add: runtime_limits_row_Inr_iff runtime_limits_update_def runtime_principal_update_Inr_iff p int4_fits_def)
       (simp add: ex_unlimited_def ex_runtime_principal_def limits_written_def update_rows_def runtime_principal_checks_ok_def)
  have "audit_write (runtime_principal_audit ex_platform ex_request 0 100 ?c (Some ?p) RUNTIME_PRINCIPAL_USAGE_LIMITS_INITIALIZED)
      \<lparr>committed = ex_unlimited, working = ?d\<rparr> = (Inr (), \<lparr>committed = ex_unlimited, working = ?d\<lparr>audits := audits ?d @
        [audit_to_row (runtime_principal_audit ex_platform ex_request 0 100 ?c (Some ?p) RUNTIME_PRINCIPAL_USAGE_LIMITS_INITIALIZED)]\<rparr>\<rparr>)"
    by (subst audit_write_succeeds [where actor = 100 and f = "runtime_principal_digest ex_platform ?c"])
       (simp_all add: runtime_principal_audit_def runtime_principal_digest_def runtime_principal_fingerprint_def p,
        simp_all add: ex_unlimited_def ex_runtime_def ex_db_def empty_db_def ex_tenant_def)
  then show ?thesis using get c upd
    by (simp add: initialize_usage_limits_def runtime_require_manager_def ex_operator_def with_uow_eq commit_after_def bnd_def
        p runtime_is_active_def usage_limits_configured_def runtime_initialize_limits_def value_error_as_def)
qed

theorem usage_limits_initialized_once_witness:
  "\<exists>c d1 e. initialize_usage_limits ex_platform ex_request ex_operator 300 50 10 ex_unlimited = (Inr c, d1)
     \<and> initialize_usage_limits ex_platform ex_request ex_operator 300 60 10 d1 = (Inl e, d1)"
proof -
  obtain c d1 where run: "initialize_usage_limits ex_platform ex_request ex_operator 300 50 10 ex_unlimited = (Inr c, d1)"
    using ex_limits_run by blast
  from usage_limits_initialized_once [OF run ex_unlimited_ok rtranclp.rtrancl_refl, of ex_request ex_operator 60 10] run
  show ?thesis by blast
qed

subsection \<open>Disabled for good\<close>

lemma runtime_get_ready:
  assumes "runtime_get_principal pf rq a i d = (Inr (q, ready), d2)"
  shows "\<exists>s. reads_runtime pf i d s q \<and> (ready \<longrightarrow> runtime_is_active q)"
proof -
  obtain p usable d1 where body: "with_uow (bnd (runtime_principal_get pf i) (\<lambda>p.
       bnd (if p = None then ret False else query (has_potentially_usable i (clock rq 0))) (\<lambda>usable.
       ret (p, usable)))) d = (Inr (p, usable), d1)"
    and rest: "(case p of None \<Rightarrow> throw RuntimePrincipalNotFound
     | Some p \<Rightarrow> ret (p, runtime_is_active p \<and> usage_limits_configured p \<and> usable)) d1 = (Inr (q, ready), d2)"
    using assms unfolding runtime_get_principal_def bnd_Inr_iff [where m = "runtime_require_manager a"]
      bnd_Inr_iff [where m = "with_uow _"]
    by (auto simp: runtime_require_manager_def simp del: run_bnd_Inr)
  have "p = Some q" "ready \<longrightarrow> runtime_is_active q" using rest by (auto split: option.splits)
  moreover obtain s0 where "runtime_principal_get pf i \<lparr>committed = d, working = d\<rparr> = (Inr p, s0)"
    using body by (auto simp: with_uow_Inr_iff bnd_Inr_iff ret_Inr_iff)
  ultimately show ?thesis by (auto simp: runtime_principal_get_Inr_iff)
qed

text \<open>
  C30. A disabled runtime principal stays inert: after any further commands no credential is
  issued for it, it is not bound, its limits are not set, it is not disabled again, and reading
  it never reports it ready for cutover.
\<close>

theorem disabled_runtime_principal_inert:
  assumes run: "runtime_disable_principal pf rq a i d = (Inr p, d1)" and ok: "runtime_ok d"
    and later: "(runtime_step pf sv)\<^sup>*\<^sup>* d1 d'"
  shows "(\<forall>e. fst (runtime_issue_credential pf sv rq' a' i label expires d') \<noteq> Inr e)
    \<and> (\<forall>e. fst (bind_identity_continuity pf sv rq' a' i legacy d') \<noteq> Inr e)
    \<and> (\<forall>e. fst (initialize_usage_limits pf rq' a' i x y d') \<noteq> Inr e)
    \<and> (\<forall>e. fst (runtime_disable_principal pf rq' a' i d') \<noteq> Inr e)
    \<and> (\<forall>q ready. fst (runtime_get_principal pf rq' a' i d') = Inr (q, ready) \<longrightarrow> \<not> ready)"
proof -
  have ok1: "runtime_ok d1"
    by (rule runtime_command_ok [of pf sv rq "DisableRuntimePrincipal a i", OF _ ok])
       (use run in \<open>auto simp: void_Inr_iff\<close>)
  obtain r p0 as where e: "reads_runtime pf i d r p0"
    "d1 = d\<lparr>runtime_principals := update_rows (\<lambda>x. rp_principal_id x = i)
              (\<lambda>x. x\<lparr>rp_disabled_at := Some (clock_at rq 0)\<rparr>) (runtime_principals d), audits := audits d @ as\<rparr>"
    using runtime_disable_effect(2) [OF run] by blast
  have "row_of rp_principal_id i (runtime_principals d1) = Some (r\<lparr>rp_disabled_at := Some (clock_at rq 0)\<rparr>)"
    using e(1) reads_runtimeD(2) [OF e(1)] unfolding e(2) by (simp add: row_update reads_runtime_def)
  from runtime_disabled_once.lookup_kept [OF runtime_ok_steps [OF later ok1] runtime_ok_distinct(1) [OF ok1] this]
  obtain r' where r': "row_of rp_principal_id i (runtime_principals d') = Some r'" "rp_disabled_at r' \<noteq> None"
    by auto
  have off: "rp_disabled_at s \<noteq> None" if "reads_runtime pf i d' s q" for s q
    using that r' by (simp add: reads_runtime_def)
  have issue: "fst (runtime_issue_credential pf sv rq' a' i label expires d') \<noteq> Inr v" for v
  proof
    assume "fst (runtime_issue_credential pf sv rq' a' i label expires d') = Inr v"
    then obtain c t d2 where "runtime_issue_credential pf sv rq' a' i label expires d' = (Inr (c, t), d2)"
      by (metis prod.collapse)
    from runtime_issue_effect(4) [OF this] r' show False by auto
  qed
  have bind: "fst (bind_identity_continuity pf sv rq' a' i legacy d') \<noteq> Inr v" for v
  proof
    assume "fst (bind_identity_continuity pf sv rq' a' i legacy d') = Inr v"
    then obtain d2 where "bind_identity_continuity pf sv rq' a' i legacy d' = (Inr v, d2)" by (metis prod.collapse)
    from bind_effect(3) [OF this] off show False by blast
  qed
  have limits: "fst (initialize_usage_limits pf rq' a' i x y d') \<noteq> Inr v" for v
  proof
    assume "fst (initialize_usage_limits pf rq' a' i x y d') = Inr v"
    then obtain d2 where "initialize_usage_limits pf rq' a' i x y d' = (Inr v, d2)" by (metis prod.collapse)
    from limits_effect(4) [OF this] off show False by blast
  qed
  have disable: "fst (runtime_disable_principal pf rq' a' i d') \<noteq> Inr v" for v
  proof
    assume "fst (runtime_disable_principal pf rq' a' i d') = Inr v"
    then obtain d2 where "runtime_disable_principal pf rq' a' i d' = (Inr v, d2)" by (metis prod.collapse)
    from runtime_disable_effect(2) [OF this] off show False by blast
  qed
  have "\<not> ready" if got: "fst (runtime_get_principal pf rq' a' i d') = Inr (q, ready)" for q ready
  proof -
    obtain d2 where "runtime_get_principal pf rq' a' i d' = (Inr (q, ready), d2)" using got by (metis prod.collapse)
    then obtain s where "reads_runtime pf i d' s q" "ready \<longrightarrow> runtime_is_active q"
      using runtime_get_ready by blast
    then show ?thesis using off reads_runtimeD(6) by blast
  qed
  then show ?thesis using issue bind limits disable by blast
qed

lemma ex_disable_run: "\<exists>p d1. runtime_disable_principal ex_platform ex_request ex_operator 300 ex_runtime = (Inr p, d1)"
proof -
  let ?p = "runtime_principal_at ex_platform ex_runtime_principal"
  let ?p' = "?p\<lparr>rpr_disabled_at := Some (Aware 63000000000000000 0)\<rparr>"
  let ?s = "\<lparr>committed = ex_runtime, working = ex_runtime\<rparr>"
  let ?d = "ex_runtime\<lparr>runtime_principals := update_rows (\<lambda>r. rp_principal_id r = 300)
       (\<lambda>r. r\<lparr>rp_disabled_at := Some 63000000000000000\<rparr>) (runtime_principals ex_runtime)\<rparr>"
  have get: "runtime_principal_get ex_platform 300 ?s = (Inr (Some ?p), ?s)"
    using ex_runtime_reads by (auto simp: runtime_principal_get_Inr_iff)
  have init: "runtime_principal_init ?p' = Inr ?p'"
    by (simp add: runtime_principal_init_Inr_iff limits_ok_def legacy_ok_def)
       (simp add: runtime_principal_at_def ex_runtime_principal_def)
  have "audit_write (runtime_principal_audit ex_platform ex_request 0 100 ?p' (Some ?p) RUNTIME_PRINCIPAL_DISABLED)
      \<lparr>committed = ex_runtime, working = ?d\<rparr> = (Inr (), \<lparr>committed = ex_runtime, working = ?d\<lparr>audits := audits ?d @
        [audit_to_row (runtime_principal_audit ex_platform ex_request 0 100 ?p' (Some ?p) RUNTIME_PRINCIPAL_DISABLED)]\<rparr>\<rparr>)"
    by (subst audit_write_succeeds [where actor = 100 and f = "runtime_principal_digest ex_platform ?p'"])
       (simp_all add: runtime_principal_audit_def runtime_principal_digest_def runtime_principal_fingerprint_def ex_tenant_def)
  then show ?thesis using get init
    by (simp add: runtime_disable_principal_def runtime_require_manager_def ex_operator_def with_uow_eq commit_after_def bnd_def
        runtime_is_active_def runtime_disable_def runtime_disable_row_def)
qed

theorem disabled_runtime_principal_inert_witness:
  "\<exists>p d1. runtime_disable_principal ex_platform ex_request ex_operator 300 ex_runtime = (Inr p, d1)
     \<and> (\<forall>e. fst (runtime_issue_credential ex_platform ex_runtime_service ex_request ex_operator 300 None None d1) \<noteq> Inr e)"
proof -
  obtain p d1 where run: "runtime_disable_principal ex_platform ex_request ex_operator 300 ex_runtime = (Inr p, d1)"
    using ex_disable_run by blast
  from disabled_runtime_principal_inert [OF run ex_runtime_ok rtranclp.rtrancl_refl] run show ?thesis by blast
qed

subsection \<open>The usage of a bound principal\<close>

lemma sum_filter_disjoint:
  fixes f :: "'a \<Rightarrow> int"
  assumes "\<And>x. \<not> (p x \<and> q x)"
  shows "sum_list (map f (filter (\<lambda>x. p x \<or> q x) xs)) = sum_list (map f (filter p xs)) + sum_list (map f (filter q xs))"
  using assms by (induction xs) auto

lemma continuity_units_single: "continuity_units {p} s e d = consumed_units p s e d"
  by (simp add: continuity_units_def consumed_units_def used_by_def)

lemma continuity_units_pair:
  assumes "l \<noteq> c"
  shows "continuity_units {c, l} s e d = consumed_units c s e d + consumed_units l s e d"
proof -
  let ?w = "\<lambda>r. in_window s e r \<and> ir_total_units r \<noteq> None"
  have "filter (\<lambda>r. (\<exists>p \<in> {c, l}. used_by p r) \<and> in_window s e r \<and> ir_total_units r \<noteq> None) xs
      = filter (\<lambda>r. ir_runtime_principal_id r = Some c \<and> ?w r \<or> ir_runtime_principal_id r = Some l \<and> ?w r) xs" for xs
    by (rule filter_cong) (auto simp: used_by_def)
  then show ?thesis unfolding continuity_units_def consumed_units_def
    using assms by (simp add: sum_filter_disjoint)
qed

text \<open>
  C31. The continuity total is the sum of the two ledgers: for a stored principal it is the daily
  consumption the gateway counts for the principal's own identity plus, once bound to a
  different legacy identity, the consumption of that identity; it never changes a table.
\<close>

theorem continuity_total_adds_ledgers:
  assumes ok: "runtime_ok d" and mgr: "act_can_manage a"
    and r: "row_of rp_principal_id i (runtime_principals d) = Some r"
    and distinct: "rp_legacy_runtime_principal_id r \<noteq> Some (uuid_str i)"
    and aware: "is_aware s" "is_aware e" "representable (instant s)" "representable (instant e)"
  shows "continuity_usage_total pf a i s e d = (Inr (consumed_units (uuid_str i) (instant s) (instant e) d
    + (case rp_legacy_runtime_principal_id r of None \<Rightarrow> 0 | Some l \<Rightarrow> consumed_units l (instant s) (instant e) d)), d)"
proof -
  have rin: "r \<in> set (runtime_principals d)" "rp_principal_id r = i" using r by (auto dest: row_of_SomeD)
  then have "runtime_row_ok r" using ok by (simp add: runtime_ok_def)
  then have get: "runtime_principal_get pf i \<lparr>committed = d, working = d\<rparr>
      = (Inr (Some (runtime_principal_at pf r)), \<lparr>committed = d, working = d\<rparr>)"
    using r by (auto simp: runtime_principal_get_Inr_iff reads_runtime_def runtime_principal_of_row)
  have time: "time_parameter pf t sn = (Inr (instant t), sn)" if "is_aware t" "representable (instant t)" for t and sn :: session
    using that by (cases t) (simp_all add: time_parameter_def astimezone_Aware)
  have "continuity_units (continuity_identity_ids (runtime_principal_at pf r)) u v d = consumed_units (uuid_str i) u v d
      + (case rp_legacy_runtime_principal_id r of None \<Rightarrow> 0 | Some l \<Rightarrow> consumed_units l u v d)" for u v
    using distinct rin(2)
    by (cases "rp_legacy_runtime_principal_id r")
       (auto simp: continuity_identity_ids_def runtime_principal_at_def continuity_units_single continuity_units_pair)
  then show ?thesis using mgr get time [OF aware(1,3)] time [OF aware(2,4)]
    by (simp add: continuity_usage_total_def runtime_require_manager_def with_uow_eq bnd_def)
qed

theorem continuity_total_adds_ledgers_witness:
  "continuity_usage_total ex_platform ex_operator 300 (Aware 0 0) (Aware 63000000000000000 0) ex_runtime = (Inr 0, ex_runtime)"
  using continuity_total_adds_ledgers [OF ex_runtime_ok, of ex_operator 300 ex_runtime_principal "Aware 0 0" "Aware 63000000000000000 0"]
  by (simp add: ex_operator_def ex_runtime_principal_def consumed_units_def representable_def max_wall_def day_us_def)

end
