(* ===== verification/GatewayExample.thy ===== *)
theory GatewayExample
  imports Fixtures GatewayBudget
begin

text \<open>
  One request followed through every stage of \<open>create_invocation\<close> by evaluation: admitted,
  allowed, under the usage limit and the budget, answered by the provider and stored. The
  theorems about runs of the gateway are applied to it.
\<close>

lemmas text_ev = py_strip_def py_isspace_def lit_simps

lemma ex_fields [simp]:
  "cm_tenant ex_command = 1" "cm_agent ex_command = 2" "cm_model ex_command = 3" "cm_input ex_command = [105]"
  "cm_principal ex_command = [112]" "cm_limit ex_command = 50" "cm_allowance ex_command = 10"
  "w_db ex_world = ex_db" "provider_calls ex_world = []" "invocations ex_db = []" "decisions ex_db = []"
  "gw_budgets ex_gateway t = Some ex_budget" "gw_pricing ex_gateway k = (if k = (lit ''openai'', [103]) then Some ex_pricing else None)"
  "openai_client (gw_provider ex_gateway) = Some (\<lambda>_ _. Inr ex_response)"
  by (simp_all add: ex_defs openai_client_def)

lemma ex_request_fields [simp]:
  "id_at ex_request n = of_nat (100 + n)" "clock_at ex_request n = 63000000000000000 + int n * 1000000"
  "db_up ex_request n" "secret_token ex_request = [115]" "db_now ex_request = 63000000000000000"
  by (simp_all add: ex_request_def)

lemma ex_admission: "create_invocation ex_platform ex_request ex_gateway ex_command ex_world
   = decide_policy ex_platform ex_request ex_gateway ex_command [105] (lit ''openai'') [103] ex_world"
  by (simp add: create_invocation_def bnd_def read_db_def validated_input_def text_ev
      max_invocation_input_length_def tenant_exists_def admitted_agent_def owned_by_def runtime_model_def
      provider_value_def ex_db_def ex_tenant_def ex_agent_def ex_model_def)

definition ex_decision :: decision_row where
  "ex_decision = \<lparr>dr_id = 101, dr_invocation_id = 100, dr_tenant_id = 1, dr_agent_id = 2, dr_model_id = 3,
     dr_permission_id = Some 4, dr_effect = ALLOW, dr_decided_at = 63000000001000000\<rparr>"

definition ex_decided :: world where
  "ex_decided = ex_world\<lparr>w_db := ex_db\<lparr>decisions := [ex_decision]\<rparr>\<rparr>"

definition ex_core :: invocation_core where
  "ex_core = invocation_core_of ex_request ex_command [105] 101"

lemma ex_core_fields [simp]:
  "ic_started_at ex_core = Aware 63000000000000000 0" "ic_tenant_id ex_core = 1" "ic_input_text ex_core = [105]"
  by (simp_all add: ex_core_def invocation_core_of_def)

lemma ex_decide:
  "runtime_policy_decide ex_platform (id_at ex_request 1) (clock ex_request 1) (id_at ex_request 0) 1 2 3 ex_db
    = (Inr (101, lit ''allow'', Some 4), ex_db\<lparr>decisions := [ex_decision]\<rparr>)"
  by (simp add: runtime_policy_decide_def evaluate_permission_def with_uow_eq commit_after_def bnd_def
      get_effective_run effective_row_def permission_from_row_def permission_init_def decision_init_def
      decision_add_def run_flush decision_insert_def failure_defs decision_to_row_def ex_defs
      ex_decision_def permission_key_def effect_value_def)

lemma ex_allowed:
  "decide_policy ex_platform ex_request ex_gateway ex_command [105] (lit ''openai'') [103] ex_world
   = check_usage ex_platform ex_request ex_gateway ex_command (lit ''openai'') [103] ex_core ex_decided"
  using ex_decide
  by (simp del: ex_request_fields add: decide_policy_def bnd_def on_db_run ex_core_def ex_decided_def)

lemma ex_window: "utc_day_window ex_platform (Aware 63000000000000000 0) = Inr (day_window 63000000000000000)"
  by (subst utc_day_window_eq) (simp_all add: representable_def max_wall_def day_us_def day_start_def day_window_def)

lemma ex_ledgers [simp]: "consumed_units p s e (w_db ex_decided) = 0" "attributed_units t s e (w_db ex_decided) = 0"
  by (simp_all add: consumed_units_def attributed_units_def ex_decided_def)

lemma ex_usage: "check_usage ex_platform ex_request ex_gateway ex_command (lit ''openai'') [103] ex_core ex_decided
  = check_budget ex_request ex_gateway (lit ''openai'') [103] ex_core (day_window 63000000000000000) ex_decided"
  by (simp add: check_usage_def bnd_def ex_window consumed_total_units_def read_db_def
      decide_usage_limit_def translate_db_error_def)

lemma ex_room: "check_budget ex_request ex_gateway (lit ''openai'') [103] ex_core (day_window 63000000000000000) ex_decided
   = call_provider ex_gateway (lit ''openai'') [103] ex_core ex_decided"
proof -
  have "ndigits 1 = 1" by (subst ndigits.simps) simp
  then have "decide_tenant_cost_budget dec_zero ex_budget w = Inr \<lparr>cb_allowed = True, cb_attributed = dec_zero,
      cb_budget = Dec 100 0, cb_allowance = Dec 1 0, cb_window = w\<rparr>" for w
    by (simp add: decide_tenant_cost_budget_def ex_budget_def dec_le_def dec_less_def
        dec_add_def dec_sum_def dec_fix_def coef_at_def default_prec_def)
  then show ?thesis
    by (simp add: check_budget_def bnd_def attributed_cost_def read_db_def translate_db_error_def)
qed

lemma ex_digits: "ndigits (Suc 0) = 1" "ndigits 3 = 1" "ndigits 4 = 1"
  by (simp_all add: ndigits.simps)

lemma small_digits: "n < 10 ^ k \<Longrightarrow> 0 < k \<Longrightarrow> \<not> k < ndigits n"
  by (simp add: ndigits_le_iff not_less)

lemma drop_zeros_power: "drop_zeros n (c * 10 ^ n) e = (c, e + int n)"
  by (induction n arbitrary: e) (simp_all add: mult.left_commute [of c])

lemma ex_cost_parts:
  "cost_part 3 (Dec 1 0) 1 = Inr (Dec 3000000000000 (-12))" "cost_part 4 (Dec 1 0) 1 = Inr (Dec 4000000000000 (-12))"
  using drop_zeros_power [of 51 3 "-51"] drop_zeros_power [of 51 4 "-51"]
  by (simp_all del: drop_zeros.simps add: cost_part_def dec_mul_def dec_fix_def dec_of_int_def dec_div_def
      attribution_prec_def dec_quantize_def dec_rescale_def quantum_exp_def coef_at_def ex_digits small_digits Let_def)

definition ex_cost :: cost where
  "ex_cost = \<lparr>co_currency = usd, co_input = Dec 3000000000000 (-12), co_output = Dec 4000000000000 (-12),
     co_total = Dec 7000000000000 (-12), co_version = [118], co_basis_units = 1, co_input_rate = Dec 1 0,
     co_output_rate = Dec 1 0\<rparr>"

lemma ex_total: "dec_add default_prec (Dec 3000000000000 (-12)) (Dec 4000000000000 (-12)) = Dec 7000000000000 (-12)"
  by (simp add: dec_add_def dec_sum_def coef_at_def dec_fix_def default_prec_def ndigits_le_iff)

lemma ex_cost_init: "cost_init ex_cost = Inr ex_cost"
  by (simp add: cost_init_def ex_cost_def ex_total dec_less_iff dec_eq_iff dval_def)

lemma ex_charged: "attribute_cost (Some \<lparr>us_input = Some 3, us_output = Some 4, us_total = Some 7\<rparr>) (Some ex_pricing)
  = Inr (Some ex_cost)"
  using ex_cost_init by (simp add: attribute_cost_def ex_pricing_def ex_cost_parts ex_total ex_cost_def)

definition ex_invocation :: invocation where
  "ex_invocation = (blank_invocation ex_core SUCCEEDED 2000)\<lparr>iv_output_text := Some [111],
     iv_usage := Some \<lparr>us_input = Some 3, us_output = Some 4, us_total = Some 7\<rparr>,
     iv_provider_response_id := Some [114], iv_estimated_cost := Some ex_cost\<rparr>"

definition ex_final :: world where
  "ex_final = ex_decided\<lparr>w_db := (w_db ex_decided)\<lparr>invocations := [invocation_to_row ex_invocation]\<rparr>,
     provider_calls := [([103], [105])]\<rparr>"

lemma ex_answer: "openai_invoke (gw_provider ex_gateway) [103] [105] ex_decided
  = (Inr \<lparr>pi_output_text = [111], pi_usage = Some \<lparr>us_input = Some 3, us_output = Some 4, us_total = Some 7\<rparr>,
       pi_response_id = Some [114]\<rparr>, ex_decided\<lparr>provider_calls := [([103], [105])]\<rparr>)"
  by (simp add: openai_invoke_def ex_response_def text_ev normalized_usage_def InvocationUsage_def
      reported_units_def usage_init_def provider_response_id_def max_provider_response_id_length_def
      ex_decided_def)

lemma ex_ok: "invocation_ok ex_invocation"
  by (simp add: ex_invocation_def invocation_ok_def blank_invocation_def text_ev output_check_def
      usage_evidence_check_def budget_evidence_check_def cost_check_def ex_core_def invocation_core_of_def)

lemma ex_built: "invocation_succeeded ex_core [111]
    (Some \<lparr>us_input = Some 3, us_output = Some 4, us_total = Some 7\<rparr>) (Some [114]) (Some ex_cost) = Inr ex_invocation"
proof -
  have "core_duration ex_core = Inr 2000"
    by (simp add: core_duration_def duration_ms_eq ex_core_def invocation_core_of_def)
  moreover have "(blank_invocation ex_core SUCCEEDED 2000)\<lparr>iv_output_text := Some [111],
      iv_usage := Some \<lparr>us_input = Some 3, us_output = Some 4, us_total = Some 7\<rparr>,
      iv_provider_response_id := Some [114], iv_estimated_cost := Some ex_cost\<rparr> = ex_invocation"
    by (simp add: ex_invocation_def blank_invocation_def)
  ultimately show ?thesis
    using invocation_init_again [OF ex_ok] by (simp add: invocation_succeeded_def)
qed

lemma ex_wf: "invocation_wf ex_invocation"
  using ex_ok ex_cost_init by (simp add: invocation_wf_def budget_wf_def)
    (simp add: ex_invocation_def blank_invocation_def usage_ok_def cost_wf_def ex_cost_def ex_total exact_sum_def dec_sum_def coef_at_def)

lemma ex_inserted: "invocation_insert (invocation_to_row ex_invocation) (w_db ex_decided)
    = Inr ((w_db ex_decided)\<lparr>invocations := [invocation_to_row ex_invocation]\<rparr>)"
  using invocation_row_checks [OF ex_wf]
  by (simp add: invocation_insert_Inr_iff invocation_columns_fit_def)
     (simp add: invocation_to_row_def ex_invocation_def blank_invocation_def ex_core_def
      invocation_core_of_def ex_decided_def ex_decision_def ex_db_def ex_tenant_def ex_agent_def
      ex_model_def text_fits_def text_ok_def int4_fits_def ex_world_def empty_db_def ex_cost_def usd_def
      lit_simps to_numeric_def coef_at_def)

lemma ex_stored: "call_provider ex_gateway (lit ''openai'') [103] ex_core ex_decided = (Inr ex_invocation, ex_final)"
proof -
  let ?w = "ex_decided\<lparr>provider_calls := [([103], [105])]\<rparr>"
  have "persist invocation_add ex_invocation (w_db ?w)
      = (Inr ex_invocation, (w_db ex_decided)\<lparr>invocations := [invocation_to_row ex_invocation]\<rparr>)"
    using ex_inserted by (simp add: persist_Inr_iff invocation_add_Inr_iff)
  then show ?thesis
    by (simp add: call_provider_def bnd_def catch_def ex_answer ex_charged ex_built
        persist_invocation_def on_db_run ex_final_def)
qed

lemma ex_run: "create_invocation ex_platform ex_request ex_gateway ex_command ex_world = (Inr ex_invocation, ex_final)"
  by (simp only: ex_admission ex_allowed ex_usage ex_room ex_stored)

end
