(* ===== verification/GatewayProperties.thy ===== *)
theory GatewayProperties
  imports GatewayExample
begin

text \<open>
  What the gateway promises: the effect of a single run, the bounds on what runs can spend, that
  a stored success can be read back for ever, and that it fails closed.
\<close>

subsection \<open>Stored costs are exact\<close>

definition pricing_ok :: "gateway \<Rightarrow> bool" where
  "pricing_ok gw \<longleftrightarrow> (\<forall>k p. gw_pricing gw k = Some p \<longrightarrow>
     rate_ok (ps_input_rate p) \<and> rate_ok (ps_output_rate p) \<and> 0 < ps_basis_units p)"

lemma cost_part_small:
  assumes "cost_part n rate basis = Inr c" "0 \<le> n" "n < 2 ^ 31" "rate_ok rate" "0 < basis"
  shows "dexp c = -12" "0 \<le> coef c" "2 * coef c < 10 ^ 28"
proof -
  obtain c' where c': "cost_part n rate basis = Inr c'" "dexp c' = -12" "0 \<le> coef c'"
    "\<bar>dval c' - of_int n * dval rate / of_int basis\<bar> \<le> 1 / 2 / 10 ^ 12 + 1 / 10 ^ 33"
    using cost_part_accurate [of n rate basis] assms by auto
  then have c: "c' = c" using assms(1) by simp
  show "dexp c = -12" "0 \<le> coef c" using c' c by simp_all
  have rate: "0 \<le> dval rate" "dval rate \<le> 10 ^ 6"
    using assms(4) dval_nonneg_iff [of rate] by (simp_all add: rate_ok_def)
  have n: "(0::rat) \<le> of_int n" "(of_int n :: rat) \<le> 2 ^ 31"
    using assms(2,3) of_int_le_iff [of n "2 ^ 31", where ?'a = rat] by simp_all
  have "of_int n * dval rate / of_int basis \<le> of_int n * dval rate / (1::rat)"
    using n rate assms(5) by (intro divide_left_mono) simp_all
  also have "\<dots> \<le> 2 ^ 31 * 10 ^ 6" using mult_mono [OF n(2) rate(2)] n rate by simp
  finally have "of_int n * dval rate / of_int basis \<le> 2 ^ 31 * 10 ^ 6" .
  moreover have "dval c \<le> of_int n * dval rate / of_int basis + (1 / 2 / 10 ^ 12 + 1 / 10 ^ 33)"
    using abs_le_D1 [OF c'(4)] c by (simp only: diff_le_eq add.commute)
  moreover have "(1::rat) / 2 / 10 ^ 12 + 1 / 10 ^ 33 \<le> 1" by simp
  ultimately have "dval c \<le> 2 ^ 31 * 10 ^ 6 + 1" by (meson add_mono order_trans)
  moreover have "dval c = of_int (coef c) / 10 ^ 12"
    using c'(2) c by (simp add: dval_powi power_int_def power_one_over field_simps)
  ultimately have "of_int (coef c) \<le> (of_int ((2 ^ 31 * 10 ^ 6 + 1) * 10 ^ 12) :: rat)" by simp
  then have "coef c \<le> (2 ^ 31 * 10 ^ 6 + 1) * 10 ^ 12" by (simp only: of_int_le_iff)
  then show "2 * coef c < 10 ^ 28" by simp
qed

lemma attributed_cost_wf:
  assumes "attribute_cost (Some u) (Some p) = Inr (Some c)" "rate_ok (ps_input_rate p)"
    "rate_ok (ps_output_rate p)" "0 < ps_basis_units p" "usage_ok u"
    "opt_ok int4_fits (us_input u)" "opt_ok int4_fits (us_output u)"
  shows "cost_wf c"
proof -
  obtain i out where io: "us_input u = Some i" "us_output u = Some out"
    "cost_part i (ps_input_rate p) (ps_basis_units p) = Inr (co_input c)"
    "cost_part out (ps_output_rate p) (ps_basis_units p) = Inr (co_output c)"
    "co_total c = dec_add default_prec (co_input c) (co_output c)" "cost_init c = Inr c"
    "co_basis_units c = ps_basis_units p" "co_input_rate c = ps_input_rate p" "co_output_rate c = ps_output_rate p"
    using attribute_cost_SomeD [OF assms(1)] by auto
  have b: "0 \<le> i" "i < 2 ^ 31" "0 \<le> out" "out < 2 ^ 31"
    using assms(5-7) io(1,2) by (auto simp: usage_ok_def int4_fits_def)
  note ci = cost_part_small [OF io(3) b(1,2) assms(2,4)] and co = cost_part_small [OF io(4) b(3,4) assms(3,4)]
  have "exact_sum (co_input c) (co_output c)"
    using ci co by (simp add: exact_sum_def dec_sum_def coef_at_def)
  then show ?thesis using io ci co assms by (simp add: cost_wf_def rate_ok_def)
qed

lemma normalized_usage_ok: "normalized_usage v = Some u \<Longrightarrow> usage_ok u"
  by (auto simp: normalized_usage_def InvocationUsage_Inr_iff split: option.splits sum.splits)

lemma success_wf:
  assumes s: "provider_success gw provider ref core v" and p: "pricing_ok gw"
    and fit: "invocation_columns_fit (invocation_to_row v)"
  shows "invocation_wf v"
proof -
  obtain rs :: response where rs: "iv_usage v = normalized_usage (rs_usage rs)" "from_core core v" "iv_status v = SUCCEEDED"
    "attribute_cost (iv_usage v) (gw_pricing gw (provider, ref)) = Inr (iv_estimated_cost v)"
    using s unfolding provider_success_def by blast
  have ok: "invocation_ok v" using rs(2) by (simp add: from_core_def)
  have u: "opt_ok usage_ok (iv_usage v)" using rs(1) normalized_usage_ok [of "rs_usage rs"] by (cases "normalized_usage (rs_usage rs)") auto
  have "opt_ok cost_wf (iv_estimated_cost v)"
  proof (cases "iv_estimated_cost v")
    case None
    then show ?thesis by simp
  next
    case (Some c)
    then obtain x pr where x: "iv_usage v = Some x" "gw_pricing gw (provider, ref) = Some pr"
      using rs(4) attribute_cost_SomeD [of "iv_usage v" "gw_pricing gw (provider, ref)" c] by auto
    have "opt_ok int4_fits (us_input x)" "opt_ok int4_fits (us_output x)"
      using fit x(1) by (simp_all add: invocation_columns_fit_def invocation_to_row_def)
    then show ?thesis
      using attributed_cost_wf [of x pr c] rs(4) x u p [unfolded pricing_ok_def, rule_format, OF x(2)] Some by simp
  qed
  moreover have "budget_wf v"
    using budget_evidence_other [of v] ok rs(3) by (simp add: budget_wf_def invocation_ok_def)
  ultimately show ?thesis using ok u by (simp add: invocation_wf_def)
qed

lemma create_invocation_success:
  assumes "create_invocation pf rq gw c w = (Inr v, w')" "pricing_ok gw"
  shows "invocation_wf v" "iv_id v = id_at rq 0"
    "invocations (w_db w') = invocations (w_db w) @ [invocation_to_row v]"
    "row_of ir_id (iv_id v) (invocations (w_db w)) = None"
proof -
  obtain ref ds "is" calls d1 where e: "advances w w' ds is calls" "is = [invocation_to_row v]"
    "provider_success gw (lit ''openai'') ref (request_core rq c) v"
    "invocation_insert (invocation_to_row v) d1 = Inr (w_db w')"
    using create_invocation_effect [OF assms(1)] by blast
  have fit: "invocation_columns_fit (invocation_to_row v)" "ir_id (invocation_to_row v) \<notin> ir_id ` set (invocations d1)"
    "invocations (w_db w') = invocations d1 @ [invocation_to_row v]"
    using e(4) by (auto simp: invocation_insert_Inr_iff)
  show "invocation_wf v" using success_wf [OF e(3) assms(2) fit(1)] .
  show "iv_id v = id_at rq 0" using e(3) by (simp add: provider_success_def from_core_def)
  show app: "invocations (w_db w') = invocations (w_db w) @ [invocation_to_row v]"
    using e(1,2) by (simp add: advances_def)
  show "row_of ir_id (iv_id v) (invocations (w_db w)) = None"
    using fit(2,3) app by (simp add: row_of_None_iff)
qed

text \<open>Runs only append invocations, so what an identity reads is stable.\<close>

lemma gateway_step_appends:
  "gateway_step pf gw ok w w' \<Longrightarrow> \<exists>is. invocations (w_db w') = invocations (w_db w) @ is"
  using step_rows [of pf gw ok w w'] by (auto simp: advances_def)

lemma gateway_steps_keep_row:
  assumes "(gateway_step pf gw ok)\<^sup>*\<^sup>* w w'" "row_of ir_id i (invocations (w_db w)) = Some r"
  shows "row_of ir_id i (invocations (w_db w')) = Some r"
  using assms
proof (induction rule: rtranclp_induct)
  case (step y z)
  then show ?case using gateway_step_appends [OF step.hyps(2)] by (auto simp: row_of_append)
qed simp

lemma get_invocation_row:
  "row_of ir_id i (invocations d) = Some r \<Longrightarrow> invocation_of_row pf r = Inr (Some v) \<Longrightarrow>
   get_invocation pf i d = (Inr v, d)"
  by (simp add: get_invocation_def invocation_repo.lookup_result invocation_get_result)

subsection \<open>The properties\<close>

text \<open>
  C1. A run of \<open>create_invocation\<close>, whatever its input and whatever the state: at most one
  decision, one invocation and one provider call are added and nothing else changes; the
  provider is called only for a request that was admitted, allowed by policy, and within both
  its usage limit and its tenant's budget in the state the run started in; nothing is recorded
  or called without a recorded decision; a successful result is the one invocation stored, and
  an invocation that is not a success charges nothing.
\<close>

theorem gateway_run_frame:
  "\<exists>ref ds is calls. advances w (snd (create_invocation pf rq gw c w)) ds is calls
     \<and> length ds \<le> 1 \<and> length is \<le> 1 \<and> length calls \<le> 1
     \<and> (calls = [] \<or> permitted rq gw c ref (w_db w))
     \<and> (ds = [decision_row_of rq c (w_db w)] \<or> (ds = [] \<and> is = [] \<and> calls = []))
     \<and> (is = [] \<or> (\<exists>v. is = [invocation_to_row v] \<and> iv_id v = id_at rq 0
          \<and> (uncharged v \<or> (iv_status v = SUCCEEDED \<and> calls = [(ref, py_strip (cm_input c))]))))
     \<and> ((\<exists>e. fst (create_invocation pf rq gw c w) = Inl e)
        \<or> (\<exists>v. fst (create_invocation pf rq gw c w) = Inr v \<and> is = [invocation_to_row v]
             \<and> iv_status v = SUCCEEDED))"
proof -
  obtain r w' where run: "create_invocation pf rq gw c w = (r, w')" by fastforce
  from create_invocation_effect [OF this] obtain ref ds "is" calls where e:
    "advances w w' ds is calls" "rows_ok gw (lit ''openai'') ref (request_core rq c) is calls"
    "ds \<in> {[], [decision_row_of rq c (w_db w)]}" "is \<noteq> [] \<or> calls \<noteq> [] \<longrightarrow> ds \<noteq> []"
    "calls \<noteq> [] \<longrightarrow> permitted rq gw c ref (w_db w)"
    "\<forall>v. r = Inr v \<longrightarrow> is = [invocation_to_row v] \<and> provider_success gw (lit ''openai'') ref (request_core rq c) v"
    by blast
  have res: "(\<exists>e. r = Inl e) \<or> (\<exists>v. r = Inr v \<and> is = [invocation_to_row v] \<and> iv_status v = SUCCEEDED)"
    using e(6) by (cases r) (auto simp: provider_success_def)
  show ?thesis
    using e(1-5) res unfolding run fst_conv snd_conv
    by (intro exI [of _ ref] exI [of _ ds] exI [of _ "is"] exI [of _ calls])
       (auto simp: rows_ok_def from_core_def provider_success_def)
qed

text \<open>
  The usage a runtime principal accumulates in a UTC day over any sequence of runs (of this
  and of other principals, in any order): it exceeds the larger of what was already spent and
  its configured limit by no more than what one response may report beyond the allowance.
\<close>

theorem daily_usage_bounded:
  assumes "(gateway_step pf gw (configured p limit allowance))\<^sup>*\<^sup>* w w'"
    and "reports_at_most gw u" "0 \<le> u"
  shows "daily_units p day w' \<le> max (daily_units p day w) (limit + (u - allowance))"
proof (rule usage_ledger.spent_bounded)
  have "gateway_step pf gw (configured p limit allowance) =
      (\<lambda>w w'. reports_at_most gw u \<and> 0 \<le> u \<and> gateway_step pf gw (configured p limit allowance) w w')"
    using assms(2,3) by (simp add: fun_eq_iff)
  then show "(\<lambda>w w'. reports_at_most gw u \<and> 0 \<le> u \<and> gateway_step pf gw (configured p limit allowance) w w')\<^sup>*\<^sup>* w w'"
    using assms(1) by simp
qed

lemma ex_step: "gateway_step ex_platform ex_gateway (configured [112] 50 10) ex_world ex_final"
  using ex_run by (intro gateway_step.request) (simp_all add: configured_def)

lemma ex_reports: "reports_at_most ex_gateway 7"
  by (auto simp: reports_at_most_def ex_response_def normalized_usage_def InvocationUsage_def
      reported_units_def usage_init_def)

theorem daily_usage_bounded_witness:
  "daily_units [112] 63000000000000000 ex_final \<le> max (daily_units [112] 63000000000000000 ex_world) 47"
  using daily_usage_bounded [OF r_into_rtranclp [where r = "gateway_step ex_platform ex_gateway (configured [112] 50 10)", OF ex_step] ex_reports, of 63000000000000000] by simp

text \<open>
  The estimated cost a tenant accumulates in a UTC day, over any sequence of runs of any
  principals: with a budget below \<open>10^28\<close> units of \<open>10^-12\<close> USD it exceeds the larger of what
  was already attributed and the budget by no more than one charge exceeds the allowance.
\<close>

theorem daily_cost_bounded:
  assumes "(gateway_step pf gw any_command)\<^sup>*\<^sup>* w w'" "costs_recorded_ok w"
    and "costs_at_most gw k" "0 \<le> k" "budget_is gw t limit allowance"
  shows "daily_cost t day w' \<le> max (daily_cost t day w) (limit + (k - allowance))"
proof (rule cost_ledger.spent_bounded)
  show "(\<lambda>w w'. costs_at_most gw k \<and> 0 \<le> k \<and> budget_is gw t limit allowance
     \<and> costs_recorded_ok w \<and> costs_recorded_ok w' \<and> gateway_step pf gw any_command w w')\<^sup>*\<^sup>* w w'"
    (is "?r\<^sup>*\<^sup>* w w'")
  proof -
    have "?r\<^sup>*\<^sup>* w w' \<and> costs_recorded_ok w'"
      using assms(1)
    proof (induction rule: rtranclp_induct)
      case (step y z)
      then have "costs_recorded_ok z" using cost_step [of pf gw y z k t limit allowance] assms(3-5) by blast
      then show ?case using step assms(3-5) by (auto intro: rtranclp.rtrancl_into_rtrancl)
    qed (simp add: assms(2))
    then show ?thesis by simp
  qed
qed

lemma ex_cost_bound: "costs_at_most ex_gateway (7 * 10 ^ 12)"
proof -
  have u: "normalized_usage (rs_usage ex_response) = Some \<lparr>us_input = Some 3, us_output = Some 4, us_total = Some 7\<rparr>"
    by (simp add: ex_response_def normalized_usage_def InvocationUsage_def reported_units_def usage_init_def)
  show ?thesis using ex_charged
    by (auto simp: costs_at_most_def u attribute_cost_None_iff [THEN iffD2] ex_cost_def to_numeric_def coef_at_def split: if_splits)
qed

lemma ex_charge: "daily_cost 1 63000000000000000 ex_final = 7 * 10 ^ 12"
proof -
  have "day_start 63000000000000000 = 62999942400000000" by (simp add: day_start_def day_us_def)
  then show ?thesis
    by (simp add: daily_cost_def attributed_units_def ex_final_def invocation_to_row_def ex_invocation_def
        blank_invocation_def ex_core_def invocation_core_of_def ex_cost_def to_numeric_def coef_at_def in_window_def day_us_def)
qed

theorem daily_cost_bounded_witness:
  "daily_cost 1 63000000000000000 ex_final = 7 * 10 ^ 12
   \<and> daily_cost 1 63000000000000000 ex_final \<le> max (daily_cost 1 63000000000000000 ex_world) (106 * 10 ^ 12)"
proof -
  have s: "gateway_step ex_platform ex_gateway any_command ex_world ex_final"
    using ex_run by (intro gateway_step.request) (simp_all add: any_command_def)
  have b: "budget_is ex_gateway 1 (100 * 10 ^ 12) (10 ^ 12)"
    by (simp add: budget_is_def ex_budget_def on_grid_def to_numeric_def dec_rescale_def coef_at_def)
  have o: "costs_recorded_ok ex_world" by (simp add: costs_recorded_ok_def)
  show ?thesis
    using daily_cost_bounded [OF r_into_rtranclp [where r = "gateway_step ex_platform ex_gateway any_command", OF s] o
        ex_cost_bound _ b, of 63000000000000000] ex_charge by simp
qed

text \<open>
  C15. A successful result can be read back: \<open>get_invocation\<close> returns it, in the time zone of
  the database session and on the grid of the cost columns, after any further runs of the
  gateway, when the price list is one that validated settings give.
\<close>

theorem success_stays_readable:
  assumes "create_invocation pf rq gw c w = (Inr v, w')" "pricing_ok gw"
    and "(gateway_step pf gw' ok)\<^sup>*\<^sup>* w' w''"
  shows "get_invocation pf' (iv_id v) (w_db w'') = (Inr (invocation_view pf' v), w_db w'')"
proof -
  note s = create_invocation_success [OF assms(1,2)]
  have "row_of ir_id (iv_id v) (invocations (w_db w')) = Some (invocation_to_row v)"
    using s(3,4) by (simp add: row_of_append)
  from get_invocation_row [OF gateway_steps_keep_row [OF assms(3) this] invocation_of_row_to_row [OF s(1)]]
  show ?thesis .
qed

theorem success_stays_readable_witness:
  "get_invocation ex_platform (iv_id ex_invocation) (w_db ex_final)
     = (Inr (invocation_view ex_platform ex_invocation), w_db ex_final)"
  by (rule success_stays_readable [OF ex_run _ rtranclp.rtrancl_refl]) (simp add: pricing_ok_def ex_pricing_def rate_ok_def dval_def)

lemma refuse_closed:
  "refuse v x w = (r, w') \<Longrightarrow> (\<exists>e. r = Inl e) \<and> provider_calls w' = provider_calls w"
  by (drule refuse_cases) (auto simp: advances_def)

lemma check_usage_closed:
  assumes "\<not> db_up rq 3 \<or> \<not> db_up rq 4 \<or> gw_budgets gw (ic_tenant_id core) = None"
    and "check_usage pf rq gw c provider ref core w = (r, w')"
  shows "(\<exists>e. r = Inl e) \<and> provider_calls w' = provider_calls w"
  using assms
  by (auto simp: check_usage_def check_budget_def bnd_def consumed_total_units_eq attributed_cost_eq
      split: sum.splits option.splits if_splits dest!: refuse_closed)

lemma admission_closed:
  assumes "\<not> db_up rq 0 \<or> \<not> db_up rq 1 \<or> \<not> db_up rq 2"
  shows "\<exists>e. create_invocation pf rq gw c w = (Inl e, w)"
  using assms
  by (auto simp: create_invocation_def bnd_def read_db_def split: sum.split option.split)

lemma decide_policy_closed:
  assumes "\<not> db_up rq 3 \<or> \<not> db_up rq 4 \<or> gw_budgets gw (cm_tenant c) = None"
    and "decide_policy pf rq gw c t provider ref w = (r, w')"
  shows "(\<exists>e. r = Inl e) \<and> provider_calls w' = provider_calls w"
proof -
  have "(\<exists>e. r = Inl e) \<and> provider_calls w' = provider_calls (u :: world)"
    if "check_usage pf rq gw c p q (invocation_core_of rq c t did) u = (r, w')" for p q did u
    using check_usage_closed [OF _ that] assms(1) by (simp add: invocation_core_of_def)
  then show ?thesis
    using assms(2)
    by (auto simp: decide_policy_def bnd_def on_db_run Let_def split: sum.splits prod.splits if_splits
        dest!: refuse_closed)
qed

text \<open>
  C16. The gateway fails closed: when any of the five reads of a run cannot reach the database,
  or the tenant has no configured budget, the run returns no invocation and does not call the
  provider.
\<close>

theorem gateway_fails_closed:
  assumes "(\<exists>n < 5. \<not> db_up rq n) \<or> gw_budgets gw (cm_tenant c) = None"
    and "create_invocation pf rq gw c w = (r, w')"
  shows "(\<exists>e. r = Inl e) \<and> provider_calls w' = provider_calls w"
proof (cases "\<not> db_up rq 0 \<or> \<not> db_up rq 1 \<or> \<not> db_up rq 2")
  case True
  then show ?thesis using admission_closed [OF True, of pf gw c w] assms(2) by auto
next
  case False
  then have closed: "\<not> db_up rq 3 \<or> \<not> db_up rq 4 \<or> gw_budgets gw (cm_tenant c) = None"
    using assms(1) by (auto simp: numeral_eq_Suc less_Suc_eq)
  from create_invocation_cases [OF assms(2)] show ?thesis
  proof (elim disjE exE conjE)
    assume "w' = w" "\<forall>v. r \<noteq> Inr v"
    then show ?thesis by (cases r) auto
  qed (rule decide_policy_closed [OF closed])
qed

theorem gateway_fails_closed_witness:
  "provider_calls (snd (create_invocation ex_platform (ex_request\<lparr>db_up := \<lambda>n. n \<noteq> 3\<rparr>) ex_gateway ex_command ex_world)) = []"
  using gateway_fails_closed [OF _ prod.collapse [symmetric], of "ex_request\<lparr>db_up := \<lambda>n. n \<noteq> 3\<rparr>"
      ex_gateway ex_command ex_platform ex_world]
  by simp

end
