(* ===== verification/CatalogueProperties.thy ===== *)
theory CatalogueProperties
  imports Catalogue MgmtProperties
begin

text \<open>
  What the catalogue of tenants, assets and permissions promises: its invariant over any
  sequence of commands, that what was stored reads back for ever, that names are unique in
  their scope, and that a permission change is exactly what evaluation sees next.
\<close>

subsection \<open>What is stored stays\<close>

lemma row_of_fresh: "key r \<notin> key ` set rows \<Longrightarrow> row_of key (key r) (rows @ [r]) = Some r"
  using row_of_None_iff [of key "key r" rows] by (simp add: row_of_append)

lemma catalogue_steps_keep:
  assumes "(catalogue_step pf)\<^sup>*\<^sup>* d d'"
  shows "row_of tr_id i (tenants d) = Some r \<Longrightarrow> row_of tr_id i (tenants d') = Some r"
    "row_of ar_id i (agents d) = Some a \<Longrightarrow> row_of ar_id i (agents d') = Some a"
    "row_of mr_id i (models d) = Some m \<Longrightarrow> row_of mr_id i (models d') = Some m"
    "set (tenants d) \<subseteq> set (tenants d')" "set (agents d) \<subseteq> set (agents d')" "set (models d) \<subseteq> set (models d')"
  using catalogue_steps_grow [OF assms] by (auto simp: row_of_append)

lemma get_tenant_row:
  "row_of tr_id i (tenants d) = Some (tenant_to_row t) \<Longrightarrow> tenant_ok pf t \<Longrightarrow>
   get_tenant pf i d = (Inr (tenant_view pf t), d)"
  by (simp add: get_tenant_def tenant_repo.lookup_result tenant_get_result tenant_of_row_to_row)

lemma get_agent_row:
  "row_of ar_id i (agents d) = Some (agent_to_row a) \<Longrightarrow> agent_ok pf a \<Longrightarrow>
   get_agent pf i d = (Inr (agent_view pf a), d)"
  by (simp add: get_agent_def agent_repo.lookup_result agent_get_result agent_of_row_to_row)

lemma get_model_row:
  "row_of mr_id i (models d) = Some (model_to_row m) \<Longrightarrow> model_ok pf m \<Longrightarrow>
   get_model pf i d = (Inr (model_view pf m), d)"
  by (simp add: get_model_def model_repo.lookup_result model_get_result model_of_row_to_row)

lemma zero_folds: "0 \<in> set s \<Longrightarrow> 0 \<in> set (casefold pf s)"
  by (auto simp: casefold_def fold_point_def intro!: bexI [of _ 0])

lemma name_fits:
  assumes "name_ok pf n" "text_fits 200 (name_normalized n)"
  shows "text_fits 100 (name_value n)"
  using assms zero_folds [of "name_value n" pf] by (auto simp: name_ok_def text_fits_def)

lemma same_name_twice:
  assumes "tenant_to_row t \<in> set (tenants d)" "text_fits 200 (name_normalized (ten_name t))"
    and "tenant_create pf (id_at rq 0) name (clock rq 0) = Inr t'" "id_at rq 0 \<notin> tr_id ` set (tenants d)"
    and "name_normalized (ten_name t') = name_normalized (ten_name t)"
  shows "create_tenant pf rq name d = (Inl TenantNameAlreadyExists, d)"
proof -
  have t': "name_ok pf (ten_name t')" "ten_id t' = id_at rq 0"
    using assms(3) by (simp_all add: tenant_create_Inr_iff tenant_ok_def)
  then have "text_fits 100 (name_value (ten_name t'))" using name_fits assms(2,5) by metis
  moreover have "name_normalized (ten_name t') \<in> tr_normalized_name ` set (tenants d)"
    using assms(1,5) by (auto simp: tenant_to_row_def image_iff intro!: bexI [of _ "tenant_to_row t"])
  ultimately have "tenant_insert (tenant_to_row t') d = Inl (IntegrityError (UniqueViolation ''uq_tenants_normalized_name''))"
    using t' assms(2,4,5) by (simp add: tenant_insert_def failure_defs tenant_to_row_def)
  then show ?thesis
    using assms(3) by (simp add: create_tenant_def bnd_def persist_eq tenant_add_def translating_run run_flush)
qed

text \<open>A use of the catalogue by evaluation: a new tenant, and the permission of \<open>ex_db\<close> denied.\<close>

definition ex_named :: "db" where
  "ex_named = ex_db\<lparr>tenants := [ex_tenant, \<lparr>tr_id = 100, tr_name = [120], tr_normalized_name = [120],
     tr_created_at = 63000000000000000\<rparr>]\<rparr>"

definition ex_new_tenant :: tenant where
  "ex_new_tenant = \<lparr>ten_id = 100, ten_name = \<lparr>name_value = [120], name_normalized = [120]\<rparr>,
     ten_created_at = Aware 63000000000000000 0\<rparr>"

definition ex_denied :: permission where
  "ex_denied = \<lparr>am_id = 4, am_tenant_id = 1, am_agent_id = 2, am_model_id = 3, am_effect = DENY,
     am_created_at = from_db ex_platform 0, am_updated_at = from_db ex_platform 63000000000000000\<rparr>"

definition ex_denied_db :: db where
  "ex_denied_db = ex_db\<lparr>permissions := [touch_row DENY 63000000000000000 ex_permission],
     audits := [\<lparr>au_audit_id = 101, au_principal_id = [111], au_tenant_id = Some 1,
       au_action = AGENT_MODEL_PERMISSION_SET, au_resource_type = AGENT_MODEL_PERMISSION, au_resource_id = 4,
       au_outcome = AuditSucceeded, au_occurred_at = 63000000000000000,
       au_before_fingerprint = Some (replicate 64 97), au_after_fingerprint = Some (replicate 64 97)\<rparr>]\<rparr>"

lemma ex_up [simp]: "db_up ex_request n"
  by (simp add: ex_request_def)

lemma ex_create_tenant: "create_tenant ex_platform ex_request [120] ex_db = (Inr ex_new_tenant, ex_named)"
proof -
  have "tenant_create ex_platform 100 [120] (Aware 63000000000000000 0) = Inr ex_new_tenant"
    by (simp add: tenant_create_Inr_iff tenant_ok_def name_ok_def ex_new_tenant_def canonical_word py_isspace_def
        casefold_def fold_point_def)
  then show ?thesis
    by (simp add: create_tenant_Inr_iff tenant_insert_Inr_iff tenant_to_row_def ex_new_tenant_def ex_named_def
        ex_db_def ex_tenant_def text_fits_def)
qed

lemma ex_set_permission: "set_permission ex_platform ex_request [111] 1 2 3 DENY ex_db = (Inr ex_denied, ex_denied_db)"
  by (simp add: set_permission_def bnd_def read_db_def with_uow_eq commit_after_def tenant_exists_def owned_by_def
      admitted_agent_def admitted_model_def permission_init_def get_effective_run effective_row_def
      permission_from_row_def permission_set_def catch_def execute_returning_def permission_upsert_def
      permission_to_row_def ex_db_def ex_tenant_def ex_agent_def ex_model_def ex_permission_def permission_key_def
      Let_def update_rows_def audit_write_def audit_record_init_def permission_audit_def audit_append_def run_flush
      audit_insert_def failure_defs py_strip_def py_isspace_def audit_to_row_def text_fits_def empty_db_def
      permission_fingerprint_def agent_model_permission_fingerprint_def is_hex64_def lower_hex_def ex_platform_def
      ex_denied_def ex_denied_db_def touch_row_def)

lemma ex_catalogue_ok: "catalogue_ok ex_platform ex_db"
  by (simp add: catalogue_ok_def tenants_ok_def assets_ok_def permissions_ok_def permissions_owned_def ex_db_def
      ex_tenant_def ex_agent_def ex_model_def ex_permission_def empty_db_def canonical_word py_isspace_def
      casefold_def fold_point_def)

lemma ex_catalogue_step: "catalogue_step ex_platform ex_named ex_named"
  by (rule catalogue_step.command [where rq = ex_request and cmd = "CreateTenant []" and r = "Inl (InvalidTenantName ''Tenant name must not be empty.'')"])
     (simp add: create_tenant_def tenant_create_def TenantName_def unique_name_def canonical_def py_split_def bnd_def void_def)

lemma ex_permission_step: "catalogue_step ex_platform ex_db ex_denied_db"
  by (rule catalogue_step.command [where rq = ex_request and cmd = "SetPermission [111] 1 2 3 DENY" and r = "Inr ()"])
     (simp add: void_Inr_iff ex_set_permission)

lemma decision_insert_agrees:
  assumes "decisions d' = decisions d" "tenants d' = tenants d" "agents d' = agents d" "models d' = models d"
    and "opt_ok (\<lambda>p. p \<in> pr_id ` set (permissions d')) (dr_permission_id r) = opt_ok (\<lambda>p. p \<in> pr_id ` set (permissions d)) (dr_permission_id r)"
  shows "\<exists>cs. decision_insert r d' = checked cs (d'\<lparr>decisions := decisions d' @ [r]\<rparr>)
    \<and> decision_insert r d = checked cs (d\<lparr>decisions := decisions d @ [r]\<rparr>)"
  unfolding decision_insert_def assms by blast

lemma evaluate_run:
  "evaluate_permission pf did now iid t a m d = (case effective_permission pf (effective_row t a m d) of
     Inl e \<Rightarrow> (Inl e, d)
   | Inr p \<Rightarrow> (case decision_init \<lparr>de_id = did, de_invocation_id = iid, de_tenant_id = t, de_agent_id = a,
         de_model_id = m, de_permission_id = map_option am_id p,
         de_effect = (case p of Some p \<Rightarrow> am_effect p | None \<Rightarrow> DENY), de_decided_at = now\<rparr> of
       Inl e \<Rightarrow> (Inl e, d)
     | Inr x \<Rightarrow> (case decision_insert (decision_to_row x) d of Inl e \<Rightarrow> (Inl e, d) | Inr d' \<Rightarrow> (Inr x, d'))))"
  by (simp add: evaluate_permission_def with_uow_eq commit_after_def bnd_def get_effective_run
      effective_permission_def decision_add_def run_flush split: option.split sum.split)

lemma evaluate_agrees:
  assumes "effective_row t a m d' = effective_row t a m d"
    and "decisions d' = decisions d" "tenants d' = tenants d" "agents d' = agents d" "models d' = models d"
  shows "fst (evaluate_permission pf did now iid t a m d') = fst (evaluate_permission pf did now iid t a m d)"
proof (cases "effective_permission pf (effective_row t a m d)")
  case (Inl e)
  then show ?thesis using assms(1) by (simp add: evaluate_run)
next
  case (Inr p)
  define x where "x = \<lparr>de_id = did, de_invocation_id = iid, de_tenant_id = t, de_agent_id = a,
         de_model_id = m, de_permission_id = map_option am_id p,
         de_effect = (case p of Some p \<Rightarrow> am_effect p | None \<Rightarrow> DENY), de_decided_at = now\<rparr>"
  have known: "opt_ok (\<lambda>p. p \<in> pr_id ` set (permissions d')) (dr_permission_id (decision_to_row x))
      \<and> opt_ok (\<lambda>p. p \<in> pr_id ` set (permissions d)) (dr_permission_id (decision_to_row x))"
  proof (cases "effective_row t a m d")
    case None
    then show ?thesis using Inr by (simp add: effective_permission_def x_def decision_to_row_def)
  next
    case (Some q)
    moreover have "q \<in> set (permissions d)" "q \<in> set (permissions d')"
      using Some assms(1) effective_row_key by metis+
    ultimately show ?thesis
      using Inr by (auto simp: effective_permission_def x_def decision_to_row_def map_sum_Inr_iff permission_from_row_Inr_iff)
  qed
  then obtain cs where "decision_insert (decision_to_row x) d' = checked cs (d'\<lparr>decisions := decisions d' @ [decision_to_row x]\<rparr>)"
    "decision_insert (decision_to_row x) d = checked cs (d\<lparr>decisions := decisions d @ [decision_to_row x]\<rparr>)"
    using decision_insert_agrees [OF assms(2-5)] by blast
  then show ?thesis using Inr assms(1)
    by (simp add: evaluate_run x_def [symmetric] decision_init_def checked_def split: option.split sum.split)
qed

subsection \<open>The properties\<close>

text \<open>
  The invariant of the catalogue: any sequence of commands, successful or not, keeps
  identities and normalized names unique (names of assets per tenant), every stored name
  canonical and at most 100 characters long, every asset owned by an existing tenant, and at
  most one permission per tenant, agent and model, which only ever joins an agent and a model
  of that tenant.
\<close>

theorem catalogue_invariant:
  assumes "(catalogue_step pf)\<^sup>*\<^sup>* d d'" "catalogue_ok pf d"
  shows "catalogue_ok pf d'"
  using assms by (rule catalogue_steps_ok)

theorem catalogue_invariant_witness: "catalogue_ok ex_platform ex_denied_db"
  using catalogue_invariant [OF r_into_rtranclp [where r = "catalogue_step ex_platform", OF ex_permission_step] ex_catalogue_ok] .

text \<open>
  C33. A created tenant reads back, its time in the zone of the database session, after any
  sequence of catalogue commands; and from then on creating a tenant whose name has the same
  canonical case-folded form is refused as a duplicate and changes nothing.
\<close>

theorem tenant_stays_and_is_unique:
  assumes "create_tenant pf rq name d = (Inr t, d1)" "(catalogue_step pf)\<^sup>*\<^sup>* d1 d2"
  shows "get_tenant pf (ten_id t) d2 = (Inr (tenant_view pf t), d2)
    \<and> (\<forall>rq' name' t'. tenant_create pf (id_at rq' 0) name' (clock rq' 0) = Inr t'
         \<and> casefold pf (canonical name') = casefold pf (canonical name) \<and> id_at rq' 0 \<notin> tr_id ` set (tenants d2)
         \<longrightarrow> create_tenant pf rq' name' d2 = (Inl TenantNameAlreadyExists, d2))"
proof -
  have c: "tenant_ok pf t" "name_value (ten_name t) = canonical name" "tenant_insert (tenant_to_row t) d = Inr d1"
    using assms(1) by (simp_all add: create_tenant_Inr_iff tenant_create_Inr_iff)
  then have row: "row_of tr_id (ten_id t) (tenants d1) = Some (tenant_to_row t)"
    using row_of_fresh [of tr_id "tenant_to_row t" "tenants d"] by (auto simp: tenant_insert_Inr_iff tenant_to_row_def)
  have "row_of tr_id (ten_id t) (tenants d2) = Some (tenant_to_row t)"
    by (rule catalogue_steps_keep(1) [OF assms(2) row])
  moreover have "create_tenant pf rq' name' d2 = (Inl TenantNameAlreadyExists, d2)"
    if "tenant_create pf (id_at rq' 0) name' (clock rq' 0) = Inr t'"
      "casefold pf (canonical name') = casefold pf (canonical name)" "id_at rq' 0 \<notin> tr_id ` set (tenants d2)" for rq' name' t'
  proof (rule same_name_twice [OF _ _ that(1,3)])
    show "tenant_to_row t \<in> set (tenants d2)" using calculation row_of_SomeD by fastforce
    show "text_fits 200 (name_normalized (ten_name t))" using c(3) by (simp add: tenant_insert_Inr_iff tenant_to_row_def)
    show "name_normalized (ten_name t') = name_normalized (ten_name t)"
      using that c(1,2) by (simp add: tenant_create_Inr_iff tenant_ok_def name_ok_def)
  qed
  ultimately show ?thesis using get_tenant_row c(1) by blast
qed

theorem tenant_stays_and_is_unique_witness:
  "get_tenant ex_platform 100 ex_named = (Inr (tenant_view ex_platform ex_new_tenant), ex_named)"
  using tenant_stays_and_is_unique [OF ex_create_tenant r_into_rtranclp [where r = "catalogue_step ex_platform", OF ex_catalogue_step]]
  by (simp add: ex_new_tenant_def)


text \<open>
  C34. A registered agent reads back after any sequence of catalogue commands, under the tenant
  that owns it, which then still exists; a second agent of that tenant whose name has the same
  canonical case-folded form is never stored.
\<close>

theorem agent_stays_and_is_unique:
  assumes "register_agent pf rq t name d = (Inr a, d1)" "(catalogue_step pf)\<^sup>*\<^sup>* d1 d2"
  shows "get_agent pf (ag_id a) d2 = (Inr (agent_view pf a), d2) \<and> ag_tenant_id a = t \<and> tenant_exists t d2
    \<and> (\<forall>rq' name' r d3. casefold pf (canonical name') = casefold pf (canonical name)
         \<and> register_agent pf rq' t name' d2 = (r, d3) \<longrightarrow> (\<exists>e. r = Inl e) \<and> d3 = d2)"
proof -
  have c: "agent_ok pf a" "name_value (ag_name a) = canonical name" "ag_tenant_id a = t" "tenant_exists t d"
    "agent_insert (agent_to_row a) d = Inr d1"
    using assms(1) by (simp_all add: register_agent_Inr_iff agent_register_Inr_iff)
  have row: "row_of ar_id (ag_id a) (agents d1) = Some (agent_to_row a)"
    using c(5) row_of_fresh [of ar_id "agent_to_row a" "agents d"] by (auto simp: agent_insert_Inr_iff agent_to_row_def)
  note stays = catalogue_steps_keep(2) [OF assms(2) row]
  have "tenant_exists t d1" using c(4,5) by (auto simp: tenant_exists_def agent_insert_Inr_iff)
  then have "tenant_exists t d2"
    using catalogue_steps_keep(4) [OF assms(2)] by (auto simp: tenant_exists_def)
  moreover have "(\<exists>e. r = Inl e) \<and> d3 = d2"
    if "casefold pf (canonical name') = casefold pf (canonical name)" "register_agent pf rq' t name' d2 = (r, d3)"
    for rq' name' r d3
  proof (cases r)
    case (Inl e)
    then show ?thesis using that(2) register_agent_failed by blast
  next
    case (Inr b)
    then have "agent_register pf (id_at rq' 0) t name' (clock rq' 0) = Inr b" "agent_insert (agent_to_row b) d2 = Inr d3"
      using that(2) by (simp_all add: register_agent_Inr_iff)
    moreover have "agent_to_row a \<in> set (agents d2)" using stays row_of_SomeD by fastforce
    ultimately have False using that(1) c(1-3)
      by (auto simp: agent_insert_Inr_iff agent_register_Inr_iff agent_ok_def name_ok_def agent_to_row_def image_iff
          dest!: bspec [of _ _ "agent_to_row a"])
    then show ?thesis ..
  qed
  ultimately show ?thesis using get_agent_row [OF stays c(1)] c(3) by blast
qed

text \<open>
  C32. A permission change is exactly what evaluation sees: the change is only accepted for an
  agent and a model of the tenant, appends one audit record and touches no other table; the
  next evaluation of the triple has the new effect and names the permission, and every other
  triple is evaluated as before.
\<close>

theorem permission_takes_effect:
  assumes "set_permission pf rq actor t a m eff d = (Inr p, d')"
  shows "owned_by t (admitted_agent a d) \<and> owned_by t (admitted_model m d)
    \<and> (\<exists>previous. d' = d\<lparr>permissions := permissions d', audits := audits d @ [audit_to_row (permission_audit pf rq actor previous p)]\<rparr>)
    \<and> (\<forall>did now iid x d2. evaluate_permission pf did now iid t a m d' = (Inr x, d2)
         \<longrightarrow> de_effect x = eff \<and> de_permission_id x = Some (am_id p))
    \<and> (\<forall>did now iid t' a' m'. (t', a', m') \<noteq> (t, a, m)
         \<longrightarrow> effective_row t' a' m' d' = effective_row t' a' m' d
           \<and> fst (evaluate_permission pf did now iid t' a' m' d') = fst (evaluate_permission pf did now iid t' a' m' d))"
proof -
  obtain previous r d1 where e: "permission_upsert (proposed_row rq t a m eff) d = Inr (r, d1)"
    "permission_from_row pf r = Inr p" "d' = d1\<lparr>audits := audits d1 @ [audit_to_row (permission_audit pf rq actor previous p)]\<rparr>"
    using set_permission_effect(4) [OF assms] by blast
  note F = permission_upsert_frame [OF e(1)] and T = upsert_tables [OF e(1)]
  have eff: "effective_row t' a' m' d' = (if (t', a', m') = (t, a, m) then Some r else effective_row t' a' m' d)" for t' a' m'
    using F(1) F(3) [of t' a' m'] e(3) by (simp add: effective_row_def)
  obtain ps where "d1 = d\<lparr>permissions := ps\<rparr>" using F(2) by blast
  then have frame: "d' = d\<lparr>permissions := permissions d', audits := audits d @ [audit_to_row (permission_audit pf rq actor previous p)]\<rparr>"
    using e(3) by simp
  have seen: "effective_permission pf (Some r) = Inr (Some p)" "am_effect p = eff"
    using e(2) F(1) by (simp add: effective_permission_def, simp add: permission_from_row_Inr_iff)
  have here: "de_effect x = eff \<and> de_permission_id x = Some (am_id p)"
    if "evaluate_permission pf did now iid t a m d' = (Inr x, d2)" for did now iid x d2
    using that seen by (auto simp: evaluate_permission_Inr_iff eff)
  have tables: "decisions d' = decisions d" "tenants d' = tenants d" "agents d' = agents d" "models d' = models d"
    using T e(3) by simp_all
  have there: "fst (evaluate_permission pf did now iid t' a' m' d') = fst (evaluate_permission pf did now iid t' a' m' d)"
    "effective_row t' a' m' d' = effective_row t' a' m' d"
    if "(t', a', m') \<noteq> (t, a, m)" for did now iid t' a' m'
    using evaluate_agrees [OF _ tables] eff [of t' a' m'] that by (simp_all only: if_False)
  show ?thesis
  proof (intro conjI allI impI)
    show "\<exists>previous. d' = d\<lparr>permissions := permissions d', audits := audits d @ [audit_to_row (permission_audit pf rq actor previous p)]\<rparr>"
      using frame by blast
  qed (use set_permission_effect(2,3) [OF assms] here there in blast)+
qed

lemma ex_evaluated: "\<exists>x d2. evaluate_permission ex_platform 200 (Aware 0 0) 201 1 2 3 ex_denied_db = (Inr x, d2)"
  by (simp add: evaluate_run effective_permission_def effective_row_def ex_denied_db_def ex_db_def ex_permission_def
      touch_row_def permission_key_def permission_from_row_def permission_init_def decision_init_def
      decision_insert_def failure_defs decision_to_row_def ex_tenant_def ex_agent_def ex_model_def empty_db_def)

theorem permission_takes_effect_witness:
  "\<exists>x d2. evaluate_permission ex_platform 200 (Aware 0 0) 201 1 2 3 ex_denied_db = (Inr x, d2) \<and> de_effect x = DENY"
  using permission_takes_effect [OF ex_set_permission] ex_evaluated by blast

text \<open>An agent named \<open>x\<close> registered for the tenant of \<open>ex_db\<close>.\<close>

definition ex_new_agent :: agent where
  "ex_new_agent = \<lparr>ag_id = 100, ag_tenant_id = 1, ag_name = \<lparr>name_value = [120], name_normalized = [120]\<rparr>,
     ag_created_at = Aware 63000000000000000 0\<rparr>"

lemma ex_register_agent:
  "register_agent ex_platform ex_request 1 [120] ex_db = (Inr ex_new_agent, ex_db\<lparr>agents := [ex_agent, agent_to_row ex_new_agent]\<rparr>)"
proof -
  have "agent_register ex_platform 100 1 [120] (Aware 63000000000000000 0) = Inr ex_new_agent"
    by (simp add: agent_register_Inr_iff agent_ok_def name_ok_def ex_new_agent_def canonical_word py_isspace_def
        casefold_def fold_point_def)
  then show ?thesis
    by (simp add: register_agent_Inr_iff agent_insert_Inr_iff agent_to_row_def ex_new_agent_def tenant_exists_def
        ex_db_def ex_tenant_def ex_agent_def text_fits_def empty_db_def)
qed

theorem agent_stays_and_is_unique_witness:
  "\<exists>d2. get_agent ex_platform 100 d2 = (Inr (agent_view ex_platform ex_new_agent), d2) \<and> tenant_exists 1 d2"
  using agent_stays_and_is_unique [OF ex_register_agent rtranclp.rtrancl_refl] by (auto simp: ex_new_agent_def)

end
