(* ===== verification/MgmtAuthProperties.thy ===== *)
theory MgmtAuthProperties
  imports MgmtProperties
begin

text \<open>
  Who can authenticate to the control plane, and what authentication leaves behind: the exact
  condition of a success, tokens that work from issue on, revocation and disabling that are
  final over any later commands, the evidence table, and the agreement of the credential
  inventory with authentication.
\<close>

subsection \<open>Concrete runs\<close>

definition ex_actor :: actor where
  "ex_actor = \<lparr>act_id = 100, act_can_manage = True\<rparr>"

definition ex_auditor :: mgmt_principal_row where
  "ex_auditor = \<lparr>mp_principal_id = 200, mp_display_name = [97], mp_can_manage_principals = False,
     mp_created_at = 63000000000000000, mp_disabled_at = None\<rparr>"

definition ex_auditor_credential :: mgmt_credential_row where
  "ex_auditor_credential = \<lparr>mc_credential_id = 201, mc_principal_id = 200, mc_secret_verifier = replicate 64 98,
     mc_label = None, mc_created_at = 63000000000000000, mc_expires_at = None, mc_revoked_at = None\<rparr>"

definition ex_staffed :: db where
  "ex_staffed = ex_db\<lparr>mgmt_principals := [ex_auditor], mgmt_credentials := [ex_auditor_credential]\<rparr>"

definition ex_auditor_token :: pystr where
  "ex_auditor_token = (bearer_prefix @ [95]) @ uuid_str 201 @ [95] @ [115]"

lemma ex_canonical: "canonical [97] = [97]"
  by (rule canonical_word) (simp_all add: py_isspace_def)

lemma ex_staffed_ok: "mgmt_ok ex_staffed"
  by (simp add: mgmt_ok_def ex_staffed_def ex_db_def empty_db_def ex_auditor_def ex_auditor_credential_def
      principal_row_ok_def credential_row_ok_def ex_canonical)

lemma ex_rows:
  "row_of mp_principal_id 200 (mgmt_principals ex_staffed) = Some ex_auditor"
  "row_of mc_credential_id 201 (mgmt_credentials ex_staffed) = Some ex_auditor_credential"
  by (simp_all add: ex_staffed_def ex_auditor_def ex_auditor_credential_def)

lemma ex_token_parses: "parse_bearer_token pf ex_auditor_token = Some (201, [115])"
  using parse_prefixed_generated [of "[115]" pf "bearer_prefix @ [95]" 201]
  by (simp add: parse_bearer_token_def ex_auditor_token_def)

lemma ex_reads:
  "mgmt_principal_of ex_platform ex_auditor d = Inr (principal_at ex_platform ex_auditor d)"
  "mgmt_credential_of ex_platform ex_auditor_credential = Inr (credential_at ex_platform ex_auditor_credential)"
  by (rule principal_of_row, simp add: principal_row_ok_def ex_auditor_def ex_canonical)
     (rule credential_of_row, simp add: credential_row_ok_def ex_auditor_credential_def)

lemma ex_at [simp]:
  "principal_at ex_platform ex_auditor d = \<lparr>mpr_id = 200, mpr_display_name = [97], mpr_can_manage = False,
     mpr_tenant_ids = scopes_of 200 d, mpr_created_at = Aware 63000000000000000 0, mpr_disabled_at = None\<rparr>"
  "credential_at ex_platform ex_auditor_credential = \<lparr>mcr_id = 201, mcr_principal_id = 200,
     mcr_verifier = replicate 64 98, mcr_label = None, mcr_created_at = Aware 63000000000000000 0,
     mcr_expires_at = None, mcr_revoked_at = None\<rparr>"
  by (simp_all add: principal_at_def credential_at_def ex_auditor_def ex_auditor_credential_def from_db_def
      ex_platform_def)

lemma fingerprint_exists:
  assumes "is_aware (mcr_created_at c)" "representable (instant (mcr_created_at c))"
    "opt_ok (\<lambda>x. is_aware x \<and> representable (instant x)) (mcr_expires_at c)" "hashes_to_hex pf"
  shows "\<exists>f. credential_fingerprint pf c = Inr f \<and> is_hex64 f"
proof -
  have utc: "\<exists>s. utc_text pf x = Inr s" if "is_aware x" "representable (instant x)" for x
    using that by (cases x) (simp_all add: utc_text_def astimezone_Aware overflow_guard_def)
  obtain created where created: "utc_text pf (mcr_created_at c) = Inr created" using utc assms(1,2) by blast
  have "\<exists>y. (case mcr_expires_at c of None \<Rightarrow> Inr None | Some x \<Rightarrow> map_sum id Some (utc_text pf x)) = Inr y"
    using utc assms(3) by (force simp: opt_ok_def split: option.splits)
  then show ?thesis using created assms(4)
    by (auto simp: credential_fingerprint_def management_credential_fingerprint_def)
qed

lemma audit_credential_run:
  assumes "\<exists>f. credential_fingerprint pf after = Inr f \<and> is_hex64 f"
    "case before of None \<Rightarrow> True | Some b \<Rightarrow> \<exists>f. credential_fingerprint pf b = Inr f \<and> is_hex64 f"
    "id_at rq n \<notin> au_audit_id ` set (audits (working s))"
  shows "\<exists>s'. audit_credential pf rq n actor after before action s = (Inr (), s')"
proof -
  obtain fa where fa: "credential_fingerprint pf after = Inr fa" "is_hex64 fa" using assms(1) by blast
  have "\<exists>fb. opt_ok is_hex64 fb \<and> (case before of None \<Rightarrow> Inr None
      | Some b \<Rightarrow> map_sum id Some (credential_fingerprint pf b)) = Inr fb"
    using assms(2) by (cases before) (auto intro: exI [of _ "Some _"])
  then obtain fb where fb: "opt_ok is_hex64 fb" "(case before of None \<Rightarrow> Inr None
      | Some b \<Rightarrow> map_sum id Some (credential_fingerprint pf b)) = Inr fb" by blast
  have "audit_write (credential_audit rq n actor after fb fa action) s = (Inr (), s\<lparr>working := (working s)
      \<lparr>audits := audits (working s) @ [audit_to_row (credential_audit rq n actor after fb fa action)]\<rparr>\<rparr>)"
    by (rule audit_write_succeeds [where f = fa and actor = actor])
       (use fa fb assms(3) in \<open>simp_all add: credential_audit_def\<close>)
  then show ?thesis using fa fb by (simp add: audit_credential_def bnd_def)
qed

lemma ex_representable [simp]: "representable 63000000000000000"
  by (simp add: representable_def max_wall_def day_us_def)

lemma ex_revoke: "\<exists>c' d1. revoke_credential ex_platform ex_request ex_actor 200 201 ex_staffed = (Inr c', d1)"
proof -
  let ?c = "credential_at ex_platform ex_auditor_credential"
  let ?c' = "?c\<lparr>mcr_revoked_at := Some (Aware 63000000000000000 0)\<rparr>"
  let ?d = "ex_staffed\<lparr>mgmt_credentials := update_rows (\<lambda>r. mc_credential_id r = 201)
     (\<lambda>r. r\<lparr>mc_revoked_at := Some 63000000000000000\<rparr>) (mgmt_credentials ex_staffed)\<rparr>"
  have init: "mgmt_credential_init ?c' = Inr ?c'" by (simp add: mgmt_credential_init_Inr_iff normalized_label_def)
  have "\<exists>s'. audit_credential ex_platform ex_request 0 100 ?c' (Some ?c) MANAGEMENT_CREDENTIAL_REVOKED
      \<lparr>committed = ex_staffed, working = ?d\<rparr> = (Inr (), s')"
    using fingerprint_exists [of ?c ex_platform] fingerprint_exists [of ?c' ex_platform]
    by (intro audit_credential_run) (simp_all add: ex_staffed_def ex_db_def empty_db_def)
  then obtain s' where s': "audit_credential ex_platform ex_request 0 100 ?c' (Some ?c) MANAGEMENT_CREDENTIAL_REVOKED
      \<lparr>committed = ex_staffed, working = ?d\<rparr> = (Inr (), s')" by blast
  show ?thesis using init s'
    by (simp add: revoke_credential_def require_manager_def ex_actor_def with_uow_eq commit_after_def bnd_def
        mgmt_principal_get_run mgmt_credential_get_run ex_rows ex_reads keeps_a_manager_def mgmt_revoke_def
        mgmt_revoke_row_def)
qed

lemma ex_issue: "\<exists>c token d1.
  issue_credential ex_platform ex_service ex_request ex_actor 200 None None ex_staffed = (Inr (c, token), d1)"
proof -
  define c where "c = \<lparr>mcr_id = 100, mcr_principal_id = 200, mcr_verifier = replicate 64 98, mcr_label = None,
     mcr_created_at = Aware 63000000000000000 0, mcr_expires_at = None, mcr_revoked_at = None\<rparr>"
  define token where "token = bearer_prefix @ [95] @ uuid_str 100 @ [95] @ [115]"
  let ?d = "ex_staffed\<lparr>mgmt_credentials := mgmt_credentials ex_staffed @ [mgmt_credential_to_row c]\<rparr>"
  have new: "new_credential ex_platform ex_service ex_request 0 200 None None = Inr (c, token)"
    by (simp add: new_credential_Inr c_def token_def secret_verifier_def normalized_label_def)
  have ins: "mgmt_credential_insert (mgmt_credential_to_row c) ex_staffed = Inr ?d"
    by (simp add: mgmt_credential_insert_Inr_iff mgmt_credential_to_row_def c_def text_fits_def ex_staffed_def
        ex_auditor_credential_def ex_auditor_def)
  have "\<exists>s'. audit_credential ex_platform ex_request 1 100 c None MANAGEMENT_CREDENTIAL_ISSUED
      \<lparr>committed = ex_staffed, working = ?d\<rparr> = (Inr (), s')"
    using fingerprint_exists [of c ex_platform]
    by (intro audit_credential_run) (simp_all add: ex_staffed_def ex_db_def empty_db_def c_def)
  then obtain s' where s': "audit_credential ex_platform ex_request 1 100 c None MANAGEMENT_CREDENTIAL_ISSUED
      \<lparr>committed = ex_staffed, working = ?d\<rparr> = (Inr (), s')" by blast
  show ?thesis using new ins s'
    by (simp add: issue_credential_def require_manager_def ex_actor_def with_uow_eq commit_after_def bnd_def
        future_expiry_def mgmt_principal_get_run ex_rows ex_reads mgmt_is_active_def mgmt_credential_add_def
        run_flush)
qed

subsection \<open>Authentication\<close>

text \<open>
  C20. Authentication decides exactly: on well-formed tables every attempt returns, it succeeds
  with an identity precisely when the token names a stored credential whose verifier matches
  the secret, that is neither revoked nor expired now, and whose principal is enabled, and the
  identity is that principal's, with its stored scopes; nothing but the evidence changes.
\<close>

theorem authenticate_exact:
  assumes "mgmt_ok d" "hashes_to_hex pf" "clock_ok (clock_at rq 0)"
  shows "\<exists>res evs. authenticate pf pepper rq token d = (Inr res, d\<lparr>mgmt_evidence := evs\<rparr>)
    \<and> (\<forall>ident. res = Some ident \<longleftrightarrow> (\<exists>ci secret c p. parse_bearer_token pf token = Some (ci, secret)
         \<and> row_of mc_credential_id ci (mgmt_credentials d) = Some c
         \<and> row_of mp_principal_id (mc_principal_id c) (mgmt_principals d) = Some p
         \<and> hmac_hex pf pepper secret = mc_secret_verifier c \<and> live_at (clock_at rq 0) c
         \<and> mp_disabled_at p = None \<and> ident = identity_of c p d))"
proof (cases "token_rows pf token d")
  case None
  then show ?thesis using authenticate_run [OF assms]
    by (intro exI [of _ None] exI [of _ "mgmt_evidence d"])
       (auto simp: token_rows_def split: option.splits prod.splits)
next
  case (Some x)
  obtain secret c p where x: "x = (secret, c, p)" by (cases x)
  have run: "authenticate pf pepper rq token d =
      (Inr (if row_outcome pf pepper secret (clock_at rq 0) c p = AuthSucceeded then Some (identity_of c p d) else None),
       d\<lparr>mgmt_evidence := observed (mc_credential_id c) (mc_principal_id c)
              (row_outcome pf pepper secret (clock_at rq 0) c p) (clock_at rq 0) (mgmt_evidence d)\<rparr>)"
    using authenticate_run [OF assms] Some x by simp
  obtain ci where rows: "parse_bearer_token pf token = Some (ci, secret)"
    "row_of mc_credential_id ci (mgmt_credentials d) = Some c"
    "row_of mp_principal_id (mc_principal_id c) (mgmt_principals d) = Some p"
    using Some x by (auto simp: token_rows_def split: option.splits prod.splits)
  show ?thesis
    by (intro exI conjI, rule run) (use rows in \<open>auto simp: row_outcome_succeeded\<close>)
qed

theorem authenticate_exact_witness:
  "\<exists>evs. authenticate ex_platform [112] ex_request ex_auditor_token ex_staffed
     = (Inr (Some (identity_of ex_auditor_credential ex_auditor ex_staffed)), ex_staffed\<lparr>mgmt_evidence := evs\<rparr>)"
proof -
  obtain res evs where run: "authenticate ex_platform [112] ex_request ex_auditor_token ex_staffed
      = (Inr res, ex_staffed\<lparr>mgmt_evidence := evs\<rparr>)"
    and res: "\<And>ident. res = Some ident \<longleftrightarrow> (\<exists>ci secret c p. parse_bearer_token ex_platform ex_auditor_token = Some (ci, secret)
         \<and> row_of mc_credential_id ci (mgmt_credentials ex_staffed) = Some c
         \<and> row_of mp_principal_id (mc_principal_id c) (mgmt_principals ex_staffed) = Some p
         \<and> hmac_hex ex_platform [112] secret = mc_secret_verifier c \<and> live_at (clock_at ex_request 0) c
         \<and> mp_disabled_at p = None \<and> ident = identity_of c p ex_staffed)"
    using authenticate_exact [OF ex_staffed_ok ex_hex, of ex_request "[112]" ex_auditor_token] by auto
  have "res = Some (identity_of ex_auditor_credential ex_auditor ex_staffed)"
    unfolding res
    by (intro exI [of _ 201] exI [of _ "[115]"] exI [of _ ex_auditor_credential] exI [of _ ex_auditor])
       (simp add: ex_token_parses ex_rows live_at_def, simp add: ex_auditor_credential_def ex_auditor_def ex_rows [unfolded ex_auditor_def])
  with run show ?thesis by blast
qed

subsection \<open>Tokens over the life of a credential\<close>

lemma authenticate_rows:
  assumes "mgmt_ok d" "hashes_to_hex pf" "clock_ok (clock_at rq 0)"
    "parse_bearer_token pf token = Some (ci, secret)" "row_of mc_credential_id ci (mgmt_credentials d) = Some c"
    "row_of mp_principal_id (mc_principal_id c) (mgmt_principals d) = Some p"
  shows "fst (authenticate pf pepper rq token d) = Inr
    (if row_outcome pf pepper secret (clock_at rq 0) c p = AuthSucceeded then Some (identity_of c p d) else None)"
  using authenticate_run [OF assms(1-3)] assms(4-6) by (simp add: token_rows_def)

lemma authenticate_refused:
  assumes "mgmt_ok d" "hashes_to_hex pf" "clock_ok (clock_at rq 0)"
    "\<And>ci secret c p. parse_bearer_token pf token = Some (ci, secret) \<Longrightarrow>
       row_of mc_credential_id ci (mgmt_credentials d) = Some c \<Longrightarrow>
       row_of mp_principal_id (mc_principal_id c) (mgmt_principals d) = Some p \<Longrightarrow>
       mc_revoked_at c \<noteq> None \<or> mp_disabled_at p \<noteq> None"
  shows "fst (authenticate pf pepper rq token d) = Inr None"
proof (cases "token_rows pf token d")
  case None
  then show ?thesis using authenticate_run [OF assms(1-3)] by simp
next
  case (Some x)
  obtain secret c p where x: "x = (secret, c, p)" by (cases x)
  have "mc_revoked_at c \<noteq> None \<or> mp_disabled_at p \<noteq> None"
    using Some x assms(4) by (auto simp: token_rows_def split: option.splits prod.splits)
  then have "row_outcome pf pepper secret (clock_at rq 0) c p \<noteq> AuthSucceeded"
    by (auto simp: row_outcome_succeeded live_at_def)
  then show ?thesis using authenticate_run [OF assms(1-3)] Some x by simp
qed

lemma mgmt_okD:
  "mgmt_ok d \<Longrightarrow> distinct (map mp_principal_id (mgmt_principals d))"
  "mgmt_ok d \<Longrightarrow> distinct (map mc_credential_id (mgmt_credentials d))"
  by (simp_all add: mgmt_ok_def)

lemma command_ok: "run_mgmt pf sv rq cmd d = (Inr (), d') \<Longrightarrow> mgmt_ok d \<Longrightarrow> mgmt_ok d'"
  by (rule mgmt_step_ok [OF mgmt_step.command [of "min (clock_at rq 0) (db_now rq)"]]) simp_all

text \<open>
  C21. Revocation is immediate and final: after a successful revocation, and after any further
  commands by anyone, no token that names the credential authenticates, whatever its secret.
\<close>

theorem revoked_never_authenticates:
  assumes revoke: "revoke_credential pf rq a i ci d = (Inr c', d1)" and ok: "mgmt_ok d"
    and later: "(mgmt_step pf sv t)\<^sup>*\<^sup>* d1 d'"
    and env: "hashes_to_hex pf" "clock_ok (clock_at rq' 0)"
    and token: "parse_bearer_token pf token = Some (ci, secret)"
  shows "fst (authenticate pf pepper rq' token d') = Inr None"
proof -
  have ok1: "mgmt_ok d1"
    by (rule command_ok [of pf sv rq "RevokeCredential a i ci", OF _ ok]) (use revoke in \<open>auto simp: void_Inr_iff\<close>)
  obtain rc c where rc: "reads_credential pf ci d rc c" and d1: "mgmt_credentials d1 =
      update_rows (\<lambda>x. mc_credential_id x = ci) (\<lambda>x. x\<lparr>mc_revoked_at := Some (clock_at rq 0)\<rparr>) (mgmt_credentials d)"
    using revoke_credential_effect(2) [OF revoke] by (elim exE conjE) (rule that, assumption, simp)
  have "row_of mc_credential_id ci (mgmt_credentials d1) = Some (rc\<lparr>mc_revoked_at := Some (clock_at rq 0)\<rparr>)"
    using rc reads_credentialD(2) [OF rc] unfolding d1 by (subst row_of_update_rows) (simp_all add: reads_credential_def)
  from mgmt_credential_life.lookup_kept [OF mgmt_ok_steps [OF later ok1] _ this] mgmt_okD [OF ok1]
  obtain r' where "row_of mc_credential_id ci (mgmt_credentials d') = Some r'" "mc_revoked_at r' = Some (clock_at rq 0)"
    by auto
  then show ?thesis using token by (intro authenticate_refused [OF mgmt_steps_ok [OF later ok1] env]) auto
qed

theorem revoked_never_authenticates_witness:
  "\<exists>c' d1. revoke_credential ex_platform ex_request ex_actor 200 201 ex_staffed = (Inr c', d1)
     \<and> fst (authenticate ex_platform [112] ex_request ex_auditor_token d1) = Inr None"
proof -
  obtain c' d1 where r: "revoke_credential ex_platform ex_request ex_actor 200 201 ex_staffed = (Inr c', d1)"
    using ex_revoke by blast
  have "fst (authenticate ex_platform [112] ex_request ex_auditor_token d1) = Inr None"
    by (rule revoked_never_authenticates [OF r ex_staffed_ok rtranclp.rtrancl_refl _ _ ex_token_parses]) simp_all
  with r show ?thesis by blast
qed

text \<open>
  C23. Disabling a principal is final: no credential of it, issued before or after, ever
  authenticates again.
\<close>

theorem disabled_never_authenticates:
  assumes disable: "disable_principal pf rq a i d = (Inr p', d1)" and ok: "mgmt_ok d"
    and later: "(mgmt_step pf sv t)\<^sup>*\<^sup>* d1 d'"
    and env: "hashes_to_hex pf" "clock_ok (clock_at rq' 0)"
    and token: "parse_bearer_token pf token = Some (ci, secret)"
      "row_of mc_credential_id ci (mgmt_credentials d') = Some c" "mc_principal_id c = i"
  shows "fst (authenticate pf pepper rq' token d') = Inr None"
proof -
  have ok1: "mgmt_ok d1"
    by (rule command_ok [of pf sv rq "DisablePrincipal a i", OF _ ok]) (use disable in \<open>auto simp: void_Inr_iff\<close>)
  obtain r p where rp: "reads_principal pf i d r p" and d1: "mgmt_principals d1 =
      update_rows (\<lambda>x. mp_principal_id x = i) (\<lambda>x. x\<lparr>mp_disabled_at := Some (clock_at rq 0)\<rparr>) (mgmt_principals d)"
    using disable_principal_effect(2) [OF disable] by (elim exE conjE) (rule that, assumption, simp)
  have "row_of mp_principal_id i (mgmt_principals d1) = Some (r\<lparr>mp_disabled_at := Some (clock_at rq 0)\<rparr>)"
    using rp reads_principalD(2) [OF rp] unfolding d1 by (subst row_of_update_rows) (simp_all add: reads_principal_def)
  from mgmt_principal_life.lookup_kept [OF mgmt_ok_steps [OF later ok1] _ this] mgmt_okD [OF ok1]
  obtain r' where "row_of mp_principal_id i (mgmt_principals d') = Some r'" "mp_disabled_at r' = Some (clock_at rq 0)"
    by auto
  then show ?thesis using token by (intro authenticate_refused [OF mgmt_steps_ok [OF later ok1] env]) auto
qed

text \<open>
  C22. An issued token works: the text returned by \<open>issue_credential\<close> authenticates, after any
  further commands, as its principal, with the scopes then stored, as long as the credential has
  not been revoked, has not expired and the principal is enabled.
\<close>

theorem issued_token_authenticates:
  assumes issue: "issue_credential pf sv rq a i label expires d = (Inr (c, token), d1)" and ok: "mgmt_ok d"
    and later: "(mgmt_step pf sv t)\<^sup>*\<^sup>* d1 d'"
    and env: "hashes_to_hex pf" "clock_ok (clock_at rq' 0)" "secret_token rq \<noteq> []"
    and rows: "row_of mc_credential_id (mcr_id c) (mgmt_credentials d') = Some r" "mc_revoked_at r = None"
      "row_of mp_principal_id i (mgmt_principals d') = Some p" "mp_disabled_at p = None"
    and time: "opt_ok (\<lambda>x. clock_at rq' 0 < instant x) expires"
  shows "fst (authenticate pf (ms_pepper sv) rq' token d') = Inr (Some
    \<lparr>mi_principal_id = i, mi_credential_id = mcr_id c, mi_tenant_ids = scopes_of i d',
     mi_can_manage = mp_can_manage_principals p\<rparr>)"
proof -
  have ok1: "mgmt_ok d1"
    by (rule command_ok [of pf sv rq "IssueCredential a i label expires", OF _ ok]) (use issue in \<open>auto simp: void_Inr_iff\<close>)
  note e = issue_credential_effect [OF issue]
  have new: "token = bearer_prefix @ [95] @ uuid_str (mcr_id c) @ [95] @ secret_token rq"
    "mcr_verifier c = hmac_hex pf (ms_pepper sv) (secret_token rq)" "mcr_principal_id c = i" "mcr_expires_at c = expires"
    using e(3) by (auto simp: new_credential_Inr secret_verifier_def)
  have "mgmt_credentials d1 = mgmt_credentials d @ [mgmt_credential_to_row c]"
    using e(5) by (elim exE conjE) simp
  then have "row_of mc_credential_id (mcr_id c) (mgmt_credentials d1) = Some (mgmt_credential_to_row c)"
    using e(4) by (simp add: row_of_append mgmt_credential_to_row_def row_of_None_iff [symmetric])
  from mgmt_credential_life.lookup_kept [OF mgmt_ok_steps [OF later ok1] _ this] mgmt_okD [OF ok1] rows(1)
  have "unrevoked r = unrevoked (mgmt_credential_to_row c)" by auto
  then have r: "mc_credential_id r = mcr_id c" "mc_principal_id r = i" "mc_expires_at r = map_option instant expires"
    "mc_secret_verifier r = hmac_hex pf (ms_pepper sv) (secret_token rq)"
    using new by (simp_all add: unrevoked_def mgmt_credential_to_row_def) (metis mgmt_credential_row.ext_inject
        mgmt_credential_row.surjective mgmt_credential_row.update_convs(7))+
  have parse: "parse_bearer_token pf token = Some (mcr_id c, secret_token rq)"
    using parse_generated [OF env(3), of pf "mcr_id c"] by (simp add: generate_bearer_token_def new(1))
  have "mp_principal_id p = i" using rows(3) by (auto dest: row_of_SomeD)
  moreover have "row_outcome pf (ms_pepper sv) (secret_token rq) (clock_at rq' 0) r p = AuthSucceeded"
    using r rows time by (auto simp: row_outcome_succeeded live_at_def opt_ok_def split: option.splits)
  ultimately show ?thesis
    using authenticate_rows [OF mgmt_steps_ok [OF later ok1] env(1,2) parse rows(1)] r rows by (simp add: identity_of_def)
qed

theorem issued_token_authenticates_witness:
  "\<exists>c token d1. issue_credential ex_platform ex_service ex_request ex_actor 200 None None ex_staffed = (Inr (c, token), d1)
     \<and> fst (authenticate ex_platform [112] ex_request token d1) = Inr (Some
         \<lparr>mi_principal_id = 200, mi_credential_id = mcr_id c, mi_tenant_ids = scopes_of 200 d1, mi_can_manage = False\<rparr>)"
proof -
  obtain c token d1 where r: "issue_credential ex_platform ex_service ex_request ex_actor 200 None None ex_staffed
      = (Inr (c, token), d1)" using ex_issue by blast
  note e = issue_credential_effect [OF r]
  have d1: "mgmt_credentials d1 = mgmt_credentials ex_staffed @ [mgmt_credential_to_row c]"
    "mgmt_principals d1 = mgmt_principals ex_staffed" using e(5) by (elim exE conjE, simp)+
  have row: "row_of mc_credential_id (mcr_id c) (mgmt_credentials d1) = Some (mgmt_credential_to_row c)"
    using e(4) unfolding d1 by (simp add: row_of_append mgmt_credential_to_row_def row_of_None_iff [symmetric])
  have c: "mc_revoked_at (mgmt_credential_to_row c) = None"
    using new_credential_row(3) [OF e(3)] .
  have p: "row_of mp_principal_id 200 (mgmt_principals d1) = Some ex_auditor" unfolding d1(2) by (rule ex_rows)
  have "fst (authenticate ex_platform (ms_pepper ex_service) ex_request token d1) = Inr (Some
         \<lparr>mi_principal_id = 200, mi_credential_id = mcr_id c, mi_tenant_ids = scopes_of 200 d1,
          mi_can_manage = mp_can_manage_principals ex_auditor\<rparr>)"
    by (rule issued_token_authenticates [OF r ex_staffed_ok rtranclp.rtrancl_refl _ _ _ row c p])
       (simp_all, simp add: ex_auditor_def)
  with r show ?thesis by (auto simp: ex_service_def ex_auditor_def)
qed

lemma ex_disable: "\<exists>p' d1. disable_principal ex_platform ex_request ex_actor 200 ex_staffed = (Inr p', d1)"
proof -
  let ?p' = "principal_at ex_platform ex_auditor ex_staffed\<lparr>mpr_disabled_at := Some (Aware 63000000000000000 0)\<rparr>"
  let ?d = "ex_staffed\<lparr>mgmt_principals := update_rows (\<lambda>r. mp_principal_id r = 200)
     (\<lambda>r. r\<lparr>mp_disabled_at := Some 63000000000000000\<rparr>) (mgmt_principals ex_staffed)\<rparr>"
  have init: "mgmt_principal_init ?p' = Inr ?p'" by (simp add: mgmt_principal_init_Inr_iff ex_canonical)
  have "audit_principal ex_platform ex_request 0 100 ?p' (Some (principal_at ex_platform ex_auditor ex_staffed))
      MANAGEMENT_PRINCIPAL_DISABLED \<lparr>committed = ex_staffed, working = ?d\<rparr> = (Inr (), \<lparr>committed = ex_staffed,
        working = ?d\<lparr>audits := audits ?d @ [audit_to_row (principal_audit ex_platform ex_request 0 100 ?p'
          (Some (principal_at ex_platform ex_auditor ex_staffed)) MANAGEMENT_PRINCIPAL_DISABLED)]\<rparr>\<rparr>)"
    unfolding audit_principal_def
    by (subst audit_write_succeeds [where actor = 100, OF _ _ _ _ hashes_to_hexD(1) [OF ex_hex]])
       (simp_all add: principal_audit_def principal_fingerprint_def management_principal_fingerprint_def
        ex_staffed_def ex_db_def empty_db_def del: ex_at)
  then show ?thesis using init
    by (simp add: disable_principal_def require_manager_def ex_actor_def with_uow_eq commit_after_def bnd_def
        mgmt_principal_get_run ex_rows ex_reads mgmt_is_active_def mgmt_disable_def mgmt_disable_row_def)
qed

theorem disabled_never_authenticates_witness:
  "\<exists>p' d1. disable_principal ex_platform ex_request ex_actor 200 ex_staffed = (Inr p', d1)
     \<and> fst (authenticate ex_platform [112] ex_request ex_auditor_token d1) = Inr None"
proof -
  obtain p' d1 where r: "disable_principal ex_platform ex_request ex_actor 200 ex_staffed = (Inr p', d1)"
    using ex_disable by blast
  have "mgmt_credentials d1 = mgmt_credentials ex_staffed"
    using disable_principal_effect(2) [OF r] by (elim exE conjE) simp
  then have row: "row_of mc_credential_id 201 (mgmt_credentials d1) = Some ex_auditor_credential"
    by (simp add: ex_rows)
  have "fst (authenticate ex_platform [112] ex_request ex_auditor_token d1) = Inr None"
    by (rule disabled_never_authenticates [OF r ex_staffed_ok rtranclp.rtrancl_refl _ _ ex_token_parses row])
       (simp_all, simp add: ex_auditor_credential_def)
  with r show ?thesis by blast
qed

subsection \<open>Evidence\<close>

lemma token_rows_named:
  assumes "mgmt_ok d"
  shows "token_rows pf token d \<noteq> None \<longleftrightarrow>
    (\<exists>ci secret. parse_bearer_token pf token = Some (ci, secret) \<and> ci \<in> mc_credential_id ` set (mgmt_credentials d))"
proof -
  have "row_of mp_principal_id (mc_principal_id c) (mgmt_principals d) \<noteq> None"
    if "row_of mc_credential_id ci (mgmt_credentials d) = Some c" for ci c
    using that assms by (auto simp: mgmt_ok_def row_of_None_iff dest: row_of_SomeD)
  note owner = this
  show ?thesis
  proof (cases "parse_bearer_token pf token")
    case (Some x)
    obtain ci secret where x: "x = (ci, secret)" by (cases x)
    show ?thesis using Some x owner [of ci] row_of_None_iff [of mc_credential_id ci "mgmt_credentials d"]
      by (cases "row_of mc_credential_id ci (mgmt_credentials d)") (auto simp: token_rows_def)
  qed (simp add: token_rows_def)
qed

text \<open>
  C25. The evidence table stays small and truthful: every attempt keeps at most one row per
  credential, outcome and UTC hour, each in the hour it was observed, and adds at most one row.
  An attempt that names a stored credential leaves no row older than 90 days; one that names
  none leaves the table, old rows included, as it is. A second attempt with the same token in
  the same hour and with the same verdict adds nothing.
\<close>

theorem evidence_bounded:
  assumes "mgmt_ok d" "hashes_to_hex pf" "clock_ok (clock_at rq 0)" "evidence_ok d"
    and run: "authenticate pf pepper rq token d = (r, d')"
  shows "evidence_ok d' \<and> length (mgmt_evidence d') \<le> Suc (length (mgmt_evidence d))
    \<and> (\<forall>e \<in> set (mgmt_evidence d'). e \<in> set (mgmt_evidence d) \<or> ev_first_observed_at e = clock_at rq 0)
    \<and> (if \<exists>ci secret. parse_bearer_token pf token = Some (ci, secret) \<and> ci \<in> mc_credential_id ` set (mgmt_credentials d)
       then \<forall>e \<in> set (mgmt_evidence d'). hour_start (clock_at rq 0) - retention_us \<le> ev_bucket_started_at e
       else d' = d)
    \<and> (clock_ok (clock_at rq' 0) \<longrightarrow> hour_start (clock_at rq' 0) = hour_start (clock_at rq 0) \<longrightarrow>
        (\<forall>secret c p. token_rows pf token d = Some (secret, c, p) \<longrightarrow>
           row_outcome pf pepper secret (clock_at rq' 0) c p = row_outcome pf pepper secret (clock_at rq 0) c p) \<longrightarrow>
        snd (authenticate pf pepper rq' token d') = d')"
proof (cases "token_rows pf token d")
  case None
  then have same: "d' = d" using authenticate_run [OF assms(1-3)] run by simp
  have stray: "\<not> (\<exists>ci secret. parse_bearer_token pf token = Some (ci, secret) \<and> ci \<in> mc_credential_id ` set (mgmt_credentials d))"
    using None token_rows_named [OF assms(1), of pf token] by simp
  show ?thesis using same None assms(4) authenticate_run [OF assms(1,2)] unfolding if_not_P [OF stray] by simp
next
  case (Some x)
  obtain secret c p where x: "x = (secret, c, p)" by (cases x)
  let ?x = "row_outcome pf pepper secret (clock_at rq 0) c p"
  let ?evs = "observed (mc_credential_id c) (mc_principal_id c) ?x (clock_at rq 0) (mgmt_evidence d)"
  have d': "d' = d\<lparr>mgmt_evidence := ?evs\<rparr>" using authenticate_run [OF assms(1-3)] run Some x by simp
  have named: "\<exists>ci secret. parse_bearer_token pf token = Some (ci, secret) \<and> ci \<in> mc_credential_id ` set (mgmt_credentials d)"
    using Some token_rows_named [OF assms(1), of pf token] by simp
  have rows: "token_rows pf token d' = Some (secret, c, p)"
    using Some x d' by (simp add: token_rows_def cong: option.case_cong)
  have ok': "mgmt_ok d'" using assms(1) d' by (simp add: mgmt_ok_def)
  have again: "snd (authenticate pf pepper rq' token d') = d'"
    if "clock_ok (clock_at rq' 0)" "hour_start (clock_at rq' 0) = hour_start (clock_at rq 0)"
      "row_outcome pf pepper secret (clock_at rq' 0) c p = ?x"
    using authenticate_run [OF ok' assms(2) that(1)] rows that(3) observed_again [OF that(2)] d' by simp
  have evs: "distinct (map evidence_key (mgmt_evidence d))"
    "\<forall>e \<in> set (mgmt_evidence d). ev_bucket_started_at e = hour_start (ev_first_observed_at e)"
    using assms(4) by (simp_all add: evidence_ok_def)
  have "evidence_ok d'" using observed_ok [OF evs] by (simp add: d' evidence_ok_def)
  moreover have "length ?evs \<le> Suc (length (mgmt_evidence d))"
    by (simp add: observed_def Let_def le_SucI)
  moreover have "\<forall>e \<in> set ?evs. e \<in> set (mgmt_evidence d) \<or> ev_first_observed_at e = clock_at rq 0"
    by (auto simp: observed_def Let_def split: if_splits)
  ultimately show ?thesis using again observed_facts(1) Some x d' unfolding if_P [OF named] by auto
qed

text \<open>A row of the first hour of the calendar, long past its 90 days.\<close>

definition ex_old_evidence :: evidence_row where
  "ex_old_evidence = \<lparr>ev_credential_id = 201, ev_principal_id = 200, ev_outcome = AuthSucceeded,
     ev_bucket_started_at = 0, ev_first_observed_at = 0\<rparr>"

theorem evidence_bounded_witness:
  "ex_old_evidence \<notin> set (mgmt_evidence (snd (authenticate ex_platform [112] ex_request ex_auditor_token
     (ex_staffed\<lparr>mgmt_evidence := [ex_old_evidence]\<rparr>))))"
proof -
  let ?d = "ex_staffed\<lparr>mgmt_evidence := [ex_old_evidence]\<rparr>"
  obtain r d' where run: "authenticate ex_platform [112] ex_request ex_auditor_token ?d = (r, d')" by fastforce
  have "mgmt_ok ?d" using ex_staffed_ok by (simp add: mgmt_ok_def)
  moreover have "evidence_ok ?d" by (simp add: evidence_ok_def ex_old_evidence_def hour_start_def)
  moreover have "201 \<in> mc_credential_id ` set (mgmt_credentials ?d)"
    by (simp add: ex_staffed_def ex_auditor_credential_def)
  ultimately have "\<forall>e \<in> set (mgmt_evidence d'). hour_start 63000000000000000 - retention_us \<le> ev_bucket_started_at e"
    using evidence_bounded [OF _ ex_hex _ _ run] ex_token_parses by simp
  then show ?thesis using run
    by (auto simp: ex_old_evidence_def hour_start_def retention_us_def day_us_def hour_us_def)
qed

subsection \<open>The credential inventory\<close>

text \<open>
  C24. The inventory tells the truth: a credential it lists at the time of a request is shown
  usable precisely when a token with that credential's secret would authenticate then, and the
  page has at most the requested number of items, all of the principal asked for.
\<close>

theorem inventory_agrees:
  assumes run: "list_credential_inventory pf rq i cap d = Inr (items, has_next)" and ok: "mgmt_ok d"
    and env: "hashes_to_hex pf" "clock_ok (clock_at rq 0)"
  shows "int (length items) \<le> cap \<and> (\<forall>x \<in> set items. it_principal_id x = i
    \<and> (\<forall>token secret r. parse_bearer_token pf token = Some (it_credential_id x, secret)
         \<longrightarrow> row_of mc_credential_id (it_credential_id x) (mgmt_credentials d) = Some r
         \<longrightarrow> hmac_hex pf pepper secret = mc_secret_verifier r
         \<longrightarrow> (it_usable x \<longleftrightarrow> (\<exists>ident. fst (authenticate pf pepper rq token d) = Inr (Some ident)))))"
proof -
  obtain p where cap: "1 \<le> cap" and p: "row_of mp_principal_id i (mgmt_principals d) = Some p"
    and items: "items = map (inventory_item pf (mp_disabled_at p \<noteq> None) (clock rq 0)) (take (nat cap)
      (take (nat (cap + 1)) (rev (sort_key (\<lambda>r. (mc_created_at r, mc_credential_id r))
        (filter (\<lambda>r. mc_principal_id r = i) (mgmt_credentials d))))))"
    using run by (auto simp: list_credential_inventory_def read_db_def credential_inventory_rows_def and_then_Inr_iff
        simp del: take_take split: if_splits option.splits)
  have truth: "it_principal_id x = i \<and> (\<forall>token secret r. parse_bearer_token pf token = Some (it_credential_id x, secret)
         \<longrightarrow> row_of mc_credential_id (it_credential_id x) (mgmt_credentials d) = Some r
         \<longrightarrow> hmac_hex pf pepper secret = mc_secret_verifier r
         \<longrightarrow> (it_usable x \<longleftrightarrow> (\<exists>ident. fst (authenticate pf pepper rq token d) = Inr (Some ident))))"
    if x: "x \<in> set items" for x
  proof -
    obtain c where c: "c \<in> set (mgmt_credentials d)" "mc_principal_id c = i"
      "x = inventory_item pf (mp_disabled_at p \<noteq> None) (clock rq 0) c"
      using x unfolding items by (auto dest!: in_set_takeD)
    have row: "row_of mc_credential_id (it_credential_id x) (mgmt_credentials d) = Some c"
      using c mgmt_okD(2) [OF ok] by (simp add: row_of_Some_iff inventory_item_def Let_def)
    have usable: "it_usable x \<longleftrightarrow> live_at (clock_at rq 0) c \<and> mp_disabled_at p = None"
      using c(3) by (auto simp: inventory_item_def Let_def live_at_def opt_ok_def split: option.split)
    have "fst (authenticate pf pepper rq token d) = Inr
        (if row_outcome pf pepper secret (clock_at rq 0) c p = AuthSucceeded then Some (identity_of c p d) else None)"
      if "parse_bearer_token pf token = Some (it_credential_id x, secret)" for token secret
      using authenticate_rows [OF ok env that row] p c(2) by simp
    then show ?thesis using row usable c
      by (auto simp: row_outcome_succeeded inventory_item_def Let_def)
  qed
  moreover have "int (length items) \<le> cap" using cap unfolding items by simp
  ultimately show ?thesis by blast
qed

theorem inventory_agrees_witness:
  "\<exists>x has_next. list_credential_inventory ex_platform ex_request 200 10 ex_staffed = Inr ([x], has_next) \<and> it_usable x
     \<and> (\<exists>ident. fst (authenticate ex_platform [112] ex_request ex_auditor_token ex_staffed) = Inr (Some ident))"
proof -
  let ?x = "inventory_item ex_platform False (clock ex_request 0) ex_auditor_credential"
  have run: "list_credential_inventory ex_platform ex_request 200 10 ex_staffed = Inr ([?x], False)"
    by (simp add: list_credential_inventory_def read_db_def credential_inventory_rows_def ex_rows)
       (simp add: ex_staffed_def ex_auditor_def ex_auditor_credential_def ex_request_def)
  have x: "it_credential_id ?x = 201" "it_usable ?x"
    by (simp_all add: inventory_item_def Let_def ex_auditor_credential_def)
  have "hmac_hex ex_platform [112] [115] = mc_secret_verifier ex_auditor_credential"
    by (simp add: ex_auditor_credential_def)
  with inventory_agrees [OF run ex_staffed_ok ex_hex, of "[112]"] run x ex_token_parses [of ex_platform] ex_rows(2)
  show ?thesis by (auto simp del: ex_hmac)
qed

end
