(* ===== verification/ManagerProperties.thy ===== *)
theory ManagerProperties
  imports MgmtAuthProperties ManagerAccess
begin

text \<open>
  The managers of the control plane over histories of commands: no command takes the last usable
  access away (\<open>manager_always_remains\<close>), but the access it relies on may expire afterwards,
  which the code does not prevent (\<open>access_can_expire\<close>).
\<close>

lemma bootstrap_access:
  assumes "bootstrap pf sv rq token name ts d = (Inr (p, c, bearer), d0)"
  shows "mgmt_credential_to_row c \<in> manager_access d0" "mc_expires_at (mgmt_credential_to_row c) = None"
proof -
  note e = bootstrap_effect [OF assms]
  show "mgmt_credential_to_row c \<in> manager_access d0"
    using e(9) new_principal_row [OF e(3)] new_credential_row [OF e(4)] by (auto simp: access_iff)
  show "mc_expires_at (mgmt_credential_to_row c) = None" using new_credential_row(5) [OF e(4)] by simp
qed

text \<open>
  C17. No command takes away the last usable access of a manager: after a bootstrap and any
  sequence of commands by any actors, each at whatever time, there is an enabled principal that
  may manage principals with a credential that is not revoked and, at the time of the last command
  that took access from a manager, had not expired; while no command has, it is one that never
  expires. Afterwards that credential can still run out by itself.
\<close>

theorem manager_always_remains:
  assumes "bootstrap pf sv rq token name ts d = (Inr (p, c, bearer), d0)" "mgmt_ok d"
    and "timed_history (mgmt_event pf sv) manager_access d0 last_taken d'"
  shows "\<exists>x \<in> manager_access d'. case last_taken of None \<Rightarrow> mc_expires_at x = None | Some t \<Rightarrow> unexpired t x"
  using mgmt_control.someone_left [OF assms(3) _ bootstrap_access [OF assms(1)]] bootstrap_ok(1) [OF assms(1,2)]
  by blast

subsection \<open>A concrete history\<close>

definition ex_short :: mgmt_credential where
  "ex_short = \<lparr>mcr_id = 100, mcr_principal_id = 100, mcr_verifier = replicate 64 98, mcr_label = None,
     mcr_created_at = Aware 63000000000000000 0, mcr_expires_at = Some (Aware 63000000001000000 0),
     mcr_revoked_at = None\<rparr>"

definition ex_both :: "audit_row \<Rightarrow> db" where
  "ex_both a = ex_bootstrapped\<lparr>mgmt_credentials := [mgmt_credential_to_row ex_credential, mgmt_credential_to_row ex_short],
     audits := [a]\<rparr>"

lemma ex_manager_rows:
  "row_of mp_principal_id 100 (mgmt_principals ex_bootstrapped) = Some (principal_rows ex_manager)"
  "row_of mc_credential_id 101 (mgmt_credentials (ex_both a)) = Some (mgmt_credential_to_row ex_credential)"
  "mgmt_principals (ex_both a) = mgmt_principals ex_bootstrapped" "audits (ex_both a) = [a]"
  by (simp_all add: ex_both_def ex_bootstrapped_def principal_rows_def ex_manager_def mgmt_credential_to_row_def
      ex_credential_def)

lemma ex_manager_reads:
  "mgmt_principal_of ex_platform (principal_rows ex_manager) d = Inr (principal_at ex_platform (principal_rows ex_manager) d)"
proof -
  have "canonical [109] = [109]" by (rule canonical_word) (simp_all add: py_isspace_def)
  then show ?thesis by (intro principal_of_row) (simp add: principal_row_ok_def principal_rows_def ex_manager_def)
qed

lemma ex_credential_reads:
  "mgmt_credential_of ex_platform (mgmt_credential_to_row ex_credential) = Inr ex_credential"
  "mgmt_credential_of ex_platform (mgmt_credential_to_row ex_short) = Inr ex_short"
proof -
  have "canonical (lit ''bootstrap'') = lit ''bootstrap''"
    by (rule canonical_word) (simp_all add: py_isspace_def lit_simps)
  then show "mgmt_credential_of ex_platform (mgmt_credential_to_row ex_credential) = Inr ex_credential"
    "mgmt_credential_of ex_platform (mgmt_credential_to_row ex_short) = Inr ex_short"
    by (simp_all add: mgmt_credential_of_def mgmt_credential_init_Inr_iff mgmt_credential_to_row_def ex_credential_def
        ex_short_def normalized_label_def from_db_def ex_platform_def lit_simps)
qed

lemma ex_short_issued: "\<exists>token a. issue_credential ex_platform ex_service ex_request ex_actor 100 None
    (Some (Aware 63000000001000000 0)) ex_bootstrapped = (Inr (ex_short, token), ex_both a) \<and> au_audit_id a = 101"
proof -
  define token where "token = bearer_prefix @ [95] @ uuid_str 100 @ [95] @ [115]"
  let ?d = "ex_bootstrapped\<lparr>mgmt_credentials := mgmt_credentials ex_bootstrapped @ [mgmt_credential_to_row ex_short]\<rparr>"
  have new: "new_credential ex_platform ex_service ex_request 0 100 None (Some (Aware 63000000001000000 0)) = Inr (ex_short, token)"
    by (simp add: new_credential_Inr ex_short_def token_def secret_verifier_def normalized_label_def)
  have ins: "mgmt_credential_insert (mgmt_credential_to_row ex_short) ex_bootstrapped = Inr ?d"
    by (simp add: mgmt_credential_insert_Inr_iff mgmt_credential_to_row_def ex_short_def text_fits_def ex_bootstrapped_def
        ex_credential_def principal_rows_def ex_manager_def)
  have "\<exists>s'. audit_credential ex_platform ex_request 1 100 ex_short None MANAGEMENT_CREDENTIAL_ISSUED
      \<lparr>committed = ex_bootstrapped, working = ?d\<rparr> = (Inr (), s')"
    using fingerprint_exists [of ex_short ex_platform]
    by (intro audit_credential_run) (simp_all add: ex_bootstrapped_def ex_db_def empty_db_def ex_short_def representable_def max_wall_def day_us_def)
  then obtain s' where s': "audit_credential ex_platform ex_request 1 100 ex_short None MANAGEMENT_CREDENTIAL_ISSUED
      \<lparr>committed = ex_bootstrapped, working = ?d\<rparr> = (Inr (), s')" by blast
  then obtain fa where "s' = \<lparr>committed = ex_bootstrapped, working = ?d\<lparr>audits := audits ?d @ [audit_to_row
      (credential_audit ex_request 1 100 ex_short None fa MANAGEMENT_CREDENTIAL_ISSUED)]\<rparr>\<rparr>"
    using audit_credential_InrD [OF s'] by auto
  moreover have "audits ?d = []" by (simp add: ex_bootstrapped_def ex_db_def empty_db_def)
  moreover define a where "a = audit_to_row (credential_audit ex_request 1 100 ex_short None fa MANAGEMENT_CREDENTIAL_ISSUED)"
  ultimately have s1: "s' = \<lparr>committed = ex_bootstrapped, working = ex_both a\<rparr>"
    by (simp add: ex_both_def ex_bootstrapped_def)
  have "au_audit_id a = 101" by (simp add: a_def audit_to_row_def credential_audit_def)
  moreover have "issue_credential ex_platform ex_service ex_request ex_actor 100 None
      (Some (Aware 63000000001000000 0)) ex_bootstrapped = (Inr (ex_short, token), ex_both a)"
    using new ins s' unfolding s1
    by (simp add: issue_credential_def require_manager_def ex_actor_def with_uow_eq commit_after_def bnd_def
        future_expiry_def mgmt_principal_get_run ex_manager_rows ex_manager_reads mgmt_is_active_def mgmt_credential_add_def
        run_flush principal_at_def) (simp add: principal_rows_def ex_manager_def)
  ultimately show ?thesis by blast
qed

text \<open>The credential of the bootstrap is revoked: the other one has a second left.\<close>

definition ex_left :: "audit_row list \<Rightarrow> db" where
  "ex_left as = ex_bootstrapped\<lparr>mgmt_credentials :=
     [(mgmt_credential_to_row ex_credential)\<lparr>mc_revoked_at := Some 63000000000000000\<rparr>, mgmt_credential_to_row ex_short],
     audits := as\<rparr>"

lemma ex_bootstrap_revoked:
  assumes "au_audit_id a = 101"
  shows "\<exists>c' as. revoke_credential ex_platform ex_request ex_actor 100 101 (ex_both a) = (Inr c', ex_left as)"
proof -
  let ?c' = "ex_credential\<lparr>mcr_revoked_at := Some (Aware 63000000000000000 0)\<rparr>"
  let ?d = "(ex_both a)\<lparr>mgmt_credentials := update_rows (\<lambda>r. mc_credential_id r = 101)
     (\<lambda>r. r\<lparr>mc_revoked_at := Some 63000000000000000\<rparr>) (mgmt_credentials (ex_both a))\<rparr>"
  have "canonical (lit ''bootstrap'') = lit ''bootstrap''"
    by (rule canonical_word) (simp_all add: py_isspace_def lit_simps)
  then have init: "mgmt_credential_init ?c' = Inr ?c'"
    by (simp add: mgmt_credential_init_Inr_iff normalized_label_def ex_credential_def lit_simps)
  have "\<exists>s'. audit_credential ex_platform ex_request 0 100 ?c' (Some ex_credential) MANAGEMENT_CREDENTIAL_REVOKED
      \<lparr>committed = ex_both a, working = ?d\<rparr> = (Inr (), s')"
    using fingerprint_exists [of ex_credential ex_platform] fingerprint_exists [of ?c' ex_platform] assms
    by (intro audit_credential_run) (simp_all add: ex_manager_rows ex_credential_def)
  then obtain s' where s': "audit_credential ex_platform ex_request 0 100 ?c' (Some ex_credential) MANAGEMENT_CREDENTIAL_REVOKED
      \<lparr>committed = ex_both a, working = ?d\<rparr> = (Inr (), s')" by blast
  have left: "mgmt_credentials ?d = mgmt_credentials (ex_left as)" for as
    by (simp add: ex_both_def ex_left_def update_rows_def mgmt_credential_to_row_def ex_credential_def ex_short_def)
  have w: "\<exists>as. working s' = ex_left as"
    using audit_credential_InrD [OF s'] left unfolding ex_left_def by (auto simp: ex_both_def ex_left_def)
  have others: "mgmt_credentials_of ex_platform 100 \<lparr>committed = ex_both a, working = ex_both a\<rparr>
      = (Inr [ex_credential, ex_short], \<lparr>committed = ex_both a, working = ex_both a\<rparr>)"
    using ex_credential_reads
    by (simp add: mgmt_credentials_of_def op_simps ex_both_def)
       (simp add: mgmt_credential_to_row_def ex_credential_def ex_short_def)
  have c: "mcr_id ex_credential = 101" "mcr_principal_id ex_credential = 100" "mcr_revoked_at ex_credential = None"
    by (simp_all add: ex_credential_def)
  have p: "principal_at ex_platform (principal_rows ex_manager) d = \<lparr>mpr_id = 100, mpr_display_name = [109],
      mpr_can_manage = True, mpr_tenant_ids = scopes_of 100 d, mpr_created_at = Aware 63000000000000000 0,
      mpr_disabled_at = None\<rparr>" for d
    by (simp add: principal_at_def principal_rows_def ex_manager_def from_db_def ex_platform_def)
  have short: "mcr_id ex_short \<noteq> 101" "mgmt_is_usable_at ex_short (Aware 63000000000000000 0)"
    by (simp_all add: ex_short_def mgmt_is_usable_at_def)
  have keeps: "keeps_a_manager ex_platform ex_request (principal_at ex_platform (principal_rows ex_manager) (ex_both a))
      ex_credential \<lparr>committed = ex_both a, working = ex_both a\<rparr> = (Inr (), \<lparr>committed = ex_both a, working = ex_both a\<rparr>)"
    using others short by (simp add: keeps_a_manager_def p c bnd_def mgmt_is_active_def)
  show ?thesis using init s' w keeps
    by (auto simp add: revoke_credential_def require_manager_def ex_actor_def with_uow_eq commit_after_def bnd_def
        mgmt_principal_get_run mgmt_credential_get_run ex_manager_rows ex_manager_reads ex_credential_reads c p
        mgmt_revoke_def mgmt_revoke_row_def)
qed

text \<open>
  Issue, then revoke, and one second later nobody can manage principals any more: the second
  credential has expired, and bootstrap is closed for good.
\<close>

lemma ex_history: "\<exists>as. timed_history (mgmt_event ex_platform ex_service) manager_access ex_bootstrapped
    (Some 63000000000000000) (ex_left as)"
proof -
  obtain token a where issue: "issue_credential ex_platform ex_service ex_request ex_actor 100 None
      (Some (Aware 63000000001000000 0)) ex_bootstrapped = (Inr (ex_short, token), ex_both a)" "au_audit_id a = 101"
    using ex_short_issued by blast
  obtain c' as where revoke: "revoke_credential ex_platform ex_request ex_actor 100 101 (ex_both a) = (Inr c', ex_left as)"
    using ex_bootstrap_revoked [OF issue(2)] by blast
  have e: "mgmt_event ex_platform ex_service 63000000000000000 ex_bootstrapped (ex_both a)"
    "mgmt_event ex_platform ex_service 63000000000000000 (ex_both a) (ex_left as)"
    using mgmt_event.command [of ex_platform ex_service ex_request
        "IssueCredential ex_actor 100 None (Some (Aware 63000000001000000 0))" ex_bootstrapped "Inr ()" "ex_both a"]
      mgmt_event.command [of ex_platform ex_service ex_request "RevokeCredential ex_actor 100 101" "ex_both a" "Inr ()" "ex_left as"]
      issue revoke by (auto simp: void_Inr_iff)
  have m: "manager_access ex_bootstrapped \<subseteq> manager_access (ex_both a)"
    by (auto simp: access_iff ex_both_def ex_bootstrapped_def)
  have l: "\<not> manager_access (ex_both a) \<subseteq> manager_access (ex_left as)"
  proof -
    have "mgmt_credential_to_row ex_credential \<in> manager_access (ex_both a)"
      by (simp add: access_iff ex_both_def ex_bootstrapped_def mgmt_credential_to_row_def ex_credential_def
          principal_rows_def ex_manager_def)
    moreover have "mgmt_credential_to_row ex_credential \<notin> manager_access (ex_left as)"
      by (simp add: access_iff ex_left_def mgmt_credential_to_row_def ex_credential_def ex_short_def)
    ultimately show ?thesis by blast
  qed
  let ?step = "mgmt_event ex_platform ex_service"
  note onward = timed_history.event [where step = ?step and access = manager_access and s = ex_bootstrapped]
  have "timed_history ?step manager_access ex_bootstrapped None (ex_both a)"
    using onward [OF timed_history.start, of 63000000000000000 "ex_both a"] e(1) m by simp
  from onward [OF this e(2)] l show ?thesis by auto
qed

theorem manager_always_remains_witness:
  "\<exists>as. timed_history (mgmt_event ex_platform ex_service) manager_access ex_bootstrapped
      (Some 63000000000000000) (ex_left as)
    \<and> (\<exists>x \<in> manager_access (ex_left as). unexpired 63000000000000000 x)"
proof -
  obtain as where h: "timed_history (mgmt_event ex_platform ex_service) manager_access ex_bootstrapped
      (Some 63000000000000000) (ex_left as)" using ex_history by blast
  from manager_always_remains [OF ex_bootstrap ex_mgmt_ok h] h show ?thesis by auto
qed

theorem access_can_expire:
  "\<exists>as. timed_history (mgmt_event ex_platform ex_service) manager_access ex_bootstrapped
      (Some 63000000000000000) (ex_left as)
    \<and> \<not> has_recoverable_manager 63000000001000000 None (ex_left as)
    \<and> (\<forall>rq token name ts. token = ms_bootstrap_token ex_service \<longrightarrow>
         bootstrap ex_platform ex_service rq token name ts (ex_left as) = (Inl BootstrapAlreadyCompleted, ex_left as))"
proof -
  have "\<not> has_recoverable_manager 63000000001000000 None (ex_left as)" for as
    by (simp add: has_recoverable_manager_def ex_left_def live_at_def mgmt_credential_to_row_def ex_short_def ex_credential_def)
  moreover have "bootstrap ex_platform ex_service rq (ms_bootstrap_token ex_service) name ts (ex_left as)
      = (Inl BootstrapAlreadyCompleted, ex_left as)" for rq name ts as
    by (simp add: bootstrap_def compare_digest_def ex_service_def bnd_def with_uow_eq commit_after_def
        mgmt_principal_count_def ex_left_def ex_bootstrapped_def)
  ultimately show ?thesis using ex_history by blast
qed

end
