(* ===== verification/HttpProperties.thy ===== *)
theory HttpProperties
  imports System RuntimeProperties GatewayProperties CatalogueProperties ManagerProperties
begin

text \<open>
  What the program promises to its HTTP clients: the invariant, the histories, the managers and
  the ledgers over any sequence of requests, and a concrete application they are applied to.
\<close>

subsection \<open>A concrete application and request\<close>

definition ex_entry :: runtime_principal_entry where
  "ex_entry = \<lparr>re_principal_id = [112], re_tenant_id = 1, re_agent_id = 2, re_credential = replicate 32 107,
     re_usage_limit = 50, re_allowance = 10\<rparr>"

definition ex_app :: app where
  "ex_app = \<lparr>app_mgmt = ex_service, app_runtime = ex_runtime_service, app_gateway = ex_gateway,
     app_runtime_auth = [ex_entry]\<rparr>"

definition ex_draws :: draws where
  "ex_draws = \<lparr>dr_auth = ex_request, dr_main = ex_request, dr_after = ex_request\<rparr>"

definition ex_bearer :: "pystr \<Rightarrow> http_credentials option" where
  "ex_bearer token = Some \<lparr>hc_scheme = lit ''Bearer'', hc_token = token\<rparr>"

definition ex_post :: http_request where
  "ex_post = \<lparr>hq_path = [47], hq_credentials = ex_bearer (replicate 32 107), hq_endpoint = PostInvocation 3 [105]\<rparr>"

lemma ex_app_fields [simp]:
  "app_mgmt ex_app = ex_service" "app_gateway ex_app = ex_gateway" "app_runtime_auth ex_app = [ex_entry]"
  "dr_auth ex_draws = ex_request" "dr_main ex_draws = ex_request" "dr_after ex_draws = ex_request"
  by (simp_all add: ex_app_def ex_draws_def)

lemma ex_bearer_token [simp]: "bearer_token_of (ex_bearer token) = Some token"
  by (simp add: bearer_token_of_def ex_bearer_def lit_simps)

definition ex_workload :: workload where
  "ex_workload = \<lparr>wl_principal_id = [112], wl_tenant_id = 1, wl_agent_id = 2, wl_usage_limit = 50, wl_allowance = 10\<rparr>"

lemma ex_runtime_login: "require_runtime_principal [ex_entry] (ex_bearer (replicate 32 107)) = Inr ex_workload"
  by (simp add: require_runtime_principal_def ex_entry_def workload_of_def workload_init_def ex_workload_def
      py_strip_def py_isspace_def)

lemma ex_post_run:
  "serve ex_platform ex_app ex_draws ex_post ex_world
    = (Answer 201 (api ''/api/v1/runtime/invocations/'' 100) (InvocationBody (invocation_response_of ex_invocation)), ex_final)"
proof -
  have "command_of ex_workload 3 [105] = ex_command"
    by (simp add: command_of_def ex_workload_def ex_command_def)
  moreover have "iv_id ex_invocation = 100"
    by (simp add: ex_invocation_def blank_invocation_def ex_core_def invocation_core_of_def)
  ultimately show ?thesis
    by (simp add: serve_def dispatch_def ex_post_def bnd_def ex_runtime_login validate_def parameters_valid_def
        CreateInvocationRequest_ok_def length_between_def max_invocation_input_length_def
        create_invocation_route_def ex_run)
qed

lemma ex_not_before: "not_before 63000000000000000 ex_draws"
  by (simp add: not_before_def)

lemma ex_http_step: "http_step ex_platform ex_app 63000000000000000 ex_world ex_final"
  by (rule http_step.request [OF ex_not_before ex_post_run])

lemmas ex_http_steps = r_into_rtranclp [where r = "http_step ex_platform ex_app 63000000000000000", OF ex_http_step]

lemma ex_system_ok: "system_ok ex_platform ex_db"
proof -
  have "runtime_ok ex_db" by (simp add: runtime_ok_def ex_db_def empty_db_def)
  moreover have "ledger_ok ex_db" by (simp add: ledger_ok_def ledger_ids_def)
  moreover have "assets_readable ex_platform ex_db"
    by (simp add: assets_readable_def ex_db_def empty_db_def ex_tenant_def ex_agent_def ex_model_def tenant_of_row_def
        agent_of_row_def model_of_row_def TenantName_def AgentName_def ModelName_def unique_name_def canonical_word
        py_isspace_def casefold_def fold_point_def tenant_init_def agent_init_def model_init_def
        ProviderModelReference_def py_strip_def max_provider_model_reference_length_def max_name_length_def Let_def)
  ultimately show ?thesis using ex_catalogue_ok ex_mgmt_ok by (simp add: system_ok_def)
qed

subsection \<open>Any sequence of requests\<close>

text \<open>
  C11. The system keeps its invariant over every sequence of HTTP requests, whoever sends them
  and whatever they contain: unique identities and scoped names, permissions and invocations
  within one tenant, every invocation backed by the decision taken for it and a success only
  where that is ALLOW, well-formed management and runtime identity tables.
\<close>

theorem http_invariant:
  assumes "(http_step pf ap t)\<^sup>*\<^sup>* w w'" "system_ok pf (w_db w)"
  shows "system_ok pf (w_db w')"
  by (rule system_steps_ok [OF http_steps_system [OF assms(1)] assms(2)])

theorem http_invariant_witness: "system_ok ex_platform (w_db ex_final)"
  by (rule http_invariant [OF ex_http_steps]) (simp add: ex_system_ok)

text \<open>
  C12. Histories are append-only over every sequence of HTTP requests: no audit record, policy
  decision, invocation, tenant, agent or model that was ever stored is changed, reordered or
  removed, and calls of the provider are only added.
\<close>

theorem http_histories_append_only:
  assumes "(http_step pf ap t)\<^sup>*\<^sup>* w w'"
  shows "extends w w'"
  by (rule system_steps_extend [OF http_steps_system [OF assms]])

theorem http_histories_append_only_witness: "extends ex_world ex_final"
  by (rule http_histories_append_only [OF ex_http_steps])

lemma bootstrap_served:
  assumes "hq_endpoint req = PostBootstrap name ts"
  shows "(\<exists>p. serve pf ap dr req w = (Failure p, w))
    \<or> (\<exists>token p c bearer d0. serve pf ap dr req w = (Answer 201 None
          (BootstrapBody (principal_response_of p) (issued_response_of (c, bearer))), w\<lparr>w_db := d0\<rparr>)
        \<and> bootstrap pf (app_mgmt ap) (dr_main dr) token name ts (w_db w) = (Inr (p, c, bearer), d0))"
proof (cases "parameters_valid (hq_endpoint req)")
  case False
  then show ?thesis using assms by (simp add: serve_def dispatch_def bnd_def validate_def)
next
  case True
  show ?thesis
  proof (cases "bearer_token_of (hq_credentials req)")
    case None
    then show ?thesis using assms True
      by (simp add: serve_def dispatch_def bnd_def validate_def bootstrap_route_def on_db_run)
  next
    case (Some token)
    obtain r d0 where b: "bootstrap pf (app_mgmt ap) (dr_main dr) token name ts (w_db w) = (r, d0)" by fastforce
    show ?thesis
    proof (cases r)
      case (Inl e)
      then have "d0 = w_db w" using atomicD [OF atomic_bootstrap] b by blast
      then show ?thesis using assms True Some b Inl
        by (simp add: serve_def dispatch_def bnd_def validate_def bootstrap_route_def on_db_run)
    next
      case (Inr x)
      obtain p c bearer where x: "x = (p, c, bearer)" by (cases x)
      then show ?thesis using assms True Some b Inr
        by (simp add: serve_def dispatch_def bnd_def validate_def bootstrap_route_def on_db_run) blast
    qed
  qed
qed

text \<open>
  C4. The control plane cannot be taken over, and no request takes the last usable access away
  from its managers: once a bootstrap request was answered, then after any further HTTP requests,
  each at whatever time, there is an enabled principal that may manage principals with a
  credential that is not revoked and, at the time of the last request that took access from a
  manager, had not expired; while no request has, it is one that never expires. Afterwards that
  credential can still run out by itself. And every further bootstrap request is refused and
  changes nothing.
\<close>

theorem http_manager_remains:
  assumes "hq_endpoint req = PostBootstrap name ts" "serve pf ap dr req w = (Answer code loc b, w0)"
    and "system_ok pf (w_db w)" "timed_history (http_event pf ap) world_access w0 last_taken w'"
  shows "(\<exists>x \<in> manager_access (w_db w').
      case last_taken of None \<Rightarrow> mc_expires_at x = None | Some t \<Rightarrow> unexpired t x)
    \<and> (hq_endpoint req' = PostBootstrap name' ts' \<longrightarrow> (\<exists>p. serve pf ap dr' req' w' = (Failure p, w')))"
proof -
  obtain token p c bearer d0 where b: "w0 = w\<lparr>w_db := d0\<rparr>"
    "bootstrap pf (app_mgmt ap) (dr_main dr) token name ts (w_db w) = (Inr (p, c, bearer), d0)"
    using bootstrap_served [OF assms(1), of pf ap dr w] assms(2) by auto
  have "system_ok pf d0"
  proof -
    have "run_mgmt pf (app_mgmt ap) (dr_main dr) (Bootstrap token name ts) (w_db w) = (Inr (), d0)"
      using b(2) by (simp add: void_Inr_iff)
    then have "mgmt_step pf (app_mgmt ap) (min (clock_at (dr_main dr) 0) (db_now (dr_main dr))) (w_db w) d0"
      by (rule mgmt_step.command [rotated 2]) simp_all
    from system_step_ok [OF system_step.management [OF this] assms(3)] show ?thesis by simp
  qed
  then have rec: "\<exists>x \<in> manager_access (w_db w').
      case last_taken of None \<Rightarrow> mc_expires_at x = None | Some t \<Rightarrow> unexpired t x"
    using http_control.someone_left [OF assms(4)] bootstrap_access [OF b(2)] b(1) by (simp add: world_access_def)
  have "\<exists>p. serve pf ap dr' req' w' = (Failure p, w')" if "hq_endpoint req' = PostBootstrap name' ts'"
    using bootstrap_served [OF that, of pf ap dr' w']
  proof (elim disjE exE conjE)
    fix token p c bearer d1
    assume "bootstrap pf (app_mgmt ap) (dr_main dr') token name' ts' (w_db w') = (Inr (p, c, bearer), d1)"
    then have "mgmt_principals (w_db w') = []" by (rule bootstrap_effect(1))
    then show ?thesis using rec by (auto simp: access_iff)
  qed blast
  then show ?thesis using rec by blast
qed

definition ex_setup :: http_request where
  "ex_setup = \<lparr>hq_path = [47], hq_credentials = ex_bearer [116], hq_endpoint = PostBootstrap [109] {1}\<rparr>"

lemma ex_setup_run: "serve ex_platform ex_app ex_draws ex_setup ex_world
   = (Answer 201 None (BootstrapBody (principal_response_of ex_manager) (issued_response_of (ex_credential, ex_token))),
      ex_world\<lparr>w_db := ex_bootstrapped\<rparr>)"
  by (simp add: serve_def dispatch_def ex_setup_def bnd_def validate_def parameters_valid_def BootstrapRequest_ok_def
      length_between_def bootstrap_route_def on_db_run ex_bootstrap)

theorem http_manager_remains_witness:
  "(\<exists>x \<in> manager_access ex_bootstrapped. mc_expires_at x = None)
   \<and> (\<exists>p. serve ex_platform ex_app ex_draws ex_setup (ex_world\<lparr>w_db := ex_bootstrapped\<rparr>)
        = (Failure p, ex_world\<lparr>w_db := ex_bootstrapped\<rparr>))"
proof -
  have e: "hq_endpoint ex_setup = PostBootstrap [109] {1}" by (simp add: ex_setup_def)
  have ok: "system_ok ex_platform (w_db ex_world)" by (simp add: ex_system_ok)
  show ?thesis
    using http_manager_remains [OF e ex_setup_run ok timed_history.start, of ex_setup "[109]" "{1}" ex_draws] e
    by simp
qed

subsection \<open>Configuration\<close>

lemma RuntimeAuthenticationSettings_ok:
  assumes "RuntimeAuthenticationSettings raw = Inr es"
  shows "distinct (map re_principal_id es)" "distinct (map re_credential es)"
    "\<forall>e \<in> set es. re_principal_id e \<noteq> [] \<and> 0 < re_allowance e \<and> re_allowance e \<le> re_usage_limit e
       \<and> 32 \<le> length (re_credential e)"
proof -
  have e: "map_res runtime_principal_entry_init raw = Inr es" "distinct (map re_principal_id es)" "distinct (map re_credential es)"
    using assms by (auto simp: RuntimeAuthenticationSettings_def and_then_Inr_iff split: if_splits)
  show "distinct (map re_principal_id es)" "distinct (map re_credential es)" by (rule e(2,3))+
  show "\<forall>e \<in> set es. re_principal_id e \<noteq> [] \<and> 0 < re_allowance e \<and> re_allowance e \<le> re_usage_limit e
       \<and> 32 \<le> length (re_credential e)"
    using map_res_Inr_all [OF e(1)]
    by (auto simp: runtime_principal_entry_init_def and_then_Inr_iff constrained_text_Inr_iff split: if_splits)
qed

text \<open>
  C2. The daily usage of a configured runtime principal, over every sequence of HTTP requests
  of every client and kind: with validated settings it exceeds the larger of what was already
  used and the configured limit by no more than one provider report exceeds the allowance.
\<close>

theorem http_usage_bounded:
  assumes "(http_step pf ap t)\<^sup>*\<^sup>* w w'" "RuntimeAuthenticationSettings raw = Inr (app_runtime_auth ap)"
    and "e \<in> set (app_runtime_auth ap)" "reports_at_most (app_gateway ap) u" "0 \<le> u"
  shows "daily_units (re_principal_id e) day w'
    \<le> max (daily_units (re_principal_id e) day w) (re_usage_limit e + (u - re_allowance e))"
  by (rule system_usage_bounded [OF http_steps_system [OF assms(1)] RuntimeAuthenticationSettings_ok(1) [OF assms(2)] assms(3-5)])

lemma ex_auth: "RuntimeAuthenticationSettings [ex_entry] = Inr [ex_entry]"
proof -
  have "constrained_text 255 [112] = Inr [112]"
    by (simp add: constrained_text_def strip_whitespace_def unicode_space_def py_isspace_def)
  then show ?thesis
    by (simp add: RuntimeAuthenticationSettings_def runtime_principal_entry_init_def ex_entry_def)
qed

theorem http_usage_bounded_witness:
  "daily_units [112] 63000000000000000 ex_final \<le> max (daily_units [112] 63000000000000000 ex_world) 47"
  using http_usage_bounded [OF ex_http_steps, of "[ex_entry]" ex_entry 7 63000000000000000] ex_auth ex_reports
  by (simp add: ex_entry_def)

text \<open>
  C10. The daily estimated cost of a tenant, over every sequence of HTTP requests: with a budget
  from validated settings, below \<open>10^16\<close> USD and written without more than twelve decimals,
  it exceeds the larger of what was already attributed and the budget by no more than one charge
  exceeds the allowance.
\<close>

theorem http_cost_bounded:
  assumes "(http_step pf ap t)\<^sup>*\<^sup>* w w'" "costs_recorded_ok w"
    and "TenantBudgetSettings raw = Inr bs" "b \<in> set bs"
    and "gw_budgets (app_gateway ap) (be_tenant_id b) = Some \<lparr>tb_limit = be_budget b, tb_allowance = be_allowance b, tb_currency = usd\<rparr>"
    and "dval (be_budget b) < 10 ^ 16" "-12 \<le> dexp (be_allowance b)"
    and "costs_at_most (app_gateway ap) k" "0 \<le> k"
  shows "daily_cost (be_tenant_id b) day w' \<le> max (daily_cost (be_tenant_id b) day w)
    (to_numeric (be_budget b) + (k - to_numeric (be_allowance b)))"
proof -
  have ok: "budget_entry_ok b" using TenantBudgetSettings_ok(2) [OF assms(3)] assms(4) by blast
  then have grid: "on_grid (be_budget b)"
    by (simp add: budget_entry_ok_def decimal_within_def on_grid_def)
  have "(of_int (to_numeric (be_budget b)) :: rat) < 10 ^ 16 * 10 ^ 12"
    unfolding on_grid_numeric [OF grid] using assms(6) by simp
  then have "(of_int (to_numeric (be_budget b)) :: rat) < of_int (10 ^ 28)" by simp
  then have "to_numeric (be_budget b) < 10 ^ 28" by (simp only: of_int_less_iff)
  then have "budget_is (app_gateway ap) (be_tenant_id b) (to_numeric (be_budget b)) (to_numeric (be_allowance b))"
    using assms(5,7) grid ok by (simp add: budget_is_def budget_entry_ok_def)
  from system_cost_bounded [OF http_steps_system [OF assms(1)] assms(2,8,9) this] show ?thesis .
qed

theorem http_cost_bounded_witness:
  "daily_cost 1 63000000000000000 ex_final = 7 * 10 ^ 12
   \<and> daily_cost 1 63000000000000000 ex_final \<le> max (daily_cost 1 63000000000000000 ex_world) (106 * 10 ^ 12)"
proof -
  let ?b = "\<lparr>be_tenant_id = 1, be_budget = Dec 100 0, be_allowance = Dec 1 0, be_currency = lit ''USD''\<rparr>"
  have bs: "TenantBudgetSettings [?b] = Inr [?b]"
    by (simp add: TenantBudgetSettings_def budget_entry_init_def decimal_within_def dec_le_iff dec_less_iff dval_def)
  have o: "costs_recorded_ok ex_world" by (simp add: costs_recorded_ok_def)
  show ?thesis
    using http_cost_bounded [OF ex_http_steps o bs, of ?b "7 * 10 ^ 12" 63000000000000000] ex_cost_bound ex_charge
    by (simp add: ex_budget_def to_numeric_def dec_rescale_def coef_at_def dval_def)
qed

end
