(* ===== verification/HttpAccess.thy ===== *)
theory HttpAccess
  imports HttpProperties
begin

text \<open>
  Who may do what over HTTP: requests without a live credential and identity requests of those
  who may not manage change nothing and learn nothing; reads of one tenant's scope do not depend
  on another tenant's data, and writes in it do not touch another's.
\<close>

subsection \<open>Serving an authenticated request\<close>

text \<open>The principal a bearer token proves, on well-formed tables.\<close>

definition login :: "platform \<Rightarrow> pystr \<Rightarrow> int \<Rightarrow> http_credentials option \<Rightarrow> db \<Rightarrow>
    (mgmt_credential_row \<times> mgmt_principal_row) option" where
  "login pf pepper t creds d = (case bearer_token_of creds of None \<Rightarrow> None
     | Some token \<Rightarrow> (case token_rows pf token d of None \<Rightarrow> None
        | Some (secret, c, p) \<Rightarrow> if row_outcome pf pepper secret t c p = AuthSucceeded then Some (c, p) else None))"

definition principal_of_login :: "mgmt_credential_row \<Rightarrow> mgmt_principal_row \<Rightarrow> db \<Rightarrow> authenticated_principal" where
  "principal_of_login c p d = \<lparr>ap_principal_id = mp_principal_id p, ap_credential_id = mc_credential_id c,
     ap_kind = MANAGEMENT, ap_tenant_ids = scopes_of (mp_principal_id p) d, ap_can_manage = mp_can_manage_principals p\<rparr>"

text \<open>UUIDs of the program are never nil: they come from \<open>uuid4\<close>.\<close>

definition ids_not_nil :: "db \<Rightarrow> bool" where
  "ids_not_nil d \<longleftrightarrow> (\<forall>p \<in> set (mgmt_principals d). mp_principal_id p \<noteq> 0)
     \<and> (\<forall>c \<in> set (mgmt_credentials d). mc_credential_id c \<noteq> 0)"

lemma login_rows:
  assumes "login pf pepper t creds d = Some (c, p)"
  shows "c \<in> set (mgmt_credentials d)" "p \<in> set (mgmt_principals d)" "mp_principal_id p = mc_principal_id c"
    "live_at t c" "mp_disabled_at p = None"
  using assms
  by (auto simp: login_def token_rows_def row_outcome_succeeded split: option.splits if_splits dest!: row_of_SomeD)

text \<open>
  What the evidence table is after an attempt; its content is described by \<open>observed\<close>.
\<close>

definition after_login :: "platform \<Rightarrow> pystr \<Rightarrow> request \<Rightarrow> http_credentials option \<Rightarrow> db \<Rightarrow> db" where
  "after_login pf pepper rq creds d = snd (require_management_principal pf pepper rq creds d)"

lemma after_login_frame: "\<exists>ev. after_login pf pepper rq creds d = d\<lparr>mgmt_evidence := ev\<rparr>"
proof -
  obtain r d' where q: "require_management_principal pf pepper rq creds d = (r, d')" by fastforce
  have "but_evidence d' = but_evidence d" using keepsD [OF require_management_keeps q] .
  then have "d' = d\<lparr>mgmt_evidence := mgmt_evidence d'\<rparr>"
    by (metis but_evidence_def but_evidence_sel db.surjective db.update_convs(11))
  then show ?thesis using q by (auto simp: after_login_def)
qed

lemma require_management_run:
  assumes "mgmt_ok d" "ids_not_nil d" "hashes_to_hex pf" "clock_ok (clock_at rq 0)"
  shows "fst (require_management_principal pf pepper rq creds d) =
    (case login pf pepper (clock_at rq 0) creds d of None \<Rightarrow> Inl ManagementAuthenticationFailed
     | Some (c, p) \<Rightarrow> Inr (principal_of_login c p d))"
proof (cases "bearer_token_of creds")
  case None
  then show ?thesis by (simp add: require_management_principal_def login_def)
next
  case (Some token)
  note run = authenticate_run [OF assms(1,3,4), of pepper token]
  show ?thesis
  proof (cases "login pf pepper (clock_at rq 0) creds d")
    case None
    then show ?thesis using Some run
      by (auto simp: require_management_principal_def login_def bnd_def split: option.splits if_splits)
  next
    case (Some cp)
    obtain c p where cp: "cp = (c, p)" by (cases cp)
    note rows = login_rows [OF Some [unfolded cp]]
    have "mp_principal_id p \<noteq> 0" "mc_credential_id c \<noteq> 0" using rows assms(2) by (auto simp: ids_not_nil_def)
    then show ?thesis using \<open>bearer_token_of creds = _\<close> run Some cp
      by (auto simp: require_management_principal_def login_def bnd_def identity_of_def principal_of_login_def
          authenticated_principal_init_def split: option.splits if_splits)
  qed
qed

definition reply_of :: "pystr \<Rightarrow> exc + reply \<Rightarrow> reply" where
  "reply_of path r = (case r of Inl e \<Rightarrow> Failure (problem_of path e) | Inr a \<Rightarrow> a)"

text \<open>A management request is answered by its route, run as the principal the token proves.\<close>

lemma serve_management:
  assumes "is_management (hq_endpoint req)"
    and "mgmt_ok (w_db w)" "ids_not_nil (w_db w)" "hashes_to_hex pf" "clock_ok (clock_at (dr_auth dr) 0)"
  shows "serve pf ap dr req w = (let d1 = after_login pf (ms_pepper (app_mgmt ap)) (dr_auth dr) (hq_credentials req) (w_db w) in
    case login pf (ms_pepper (app_mgmt ap)) (clock_at (dr_auth dr) 0) (hq_credentials req) (w_db w) of
      None \<Rightarrow> (Failure (problem_of (hq_path req) ManagementAuthenticationFailed), w\<lparr>w_db := d1\<rparr>)
    | Some (c, p) \<Rightarrow> if \<not> parameters_valid (hq_endpoint req)
        then (Failure (problem_of (hq_path req) RequestValidationError), w\<lparr>w_db := d1\<rparr>)
        else (case management_route pf ap dr (principal_of_login c p (w_db w)) (hq_endpoint req) d1 of
          (r, d2) \<Rightarrow> (reply_of (hq_path req) r, w\<lparr>w_db := d2\<rparr>)))"
proof -
  let ?q = "require_management_principal pf (ms_pepper (app_mgmt ap)) (dr_auth dr) (hq_credentials req)"
  obtain r d1 where q: "?q (w_db w) = (r, d1)" by fastforce
  have d1: "after_login pf (ms_pepper (app_mgmt ap)) (dr_auth dr) (hq_credentials req) (w_db w) = d1"
    using q by (simp add: after_login_def)
  have r: "r = (case login pf (ms_pepper (app_mgmt ap)) (clock_at (dr_auth dr) 0) (hq_credentials req) (w_db w) of
      None \<Rightarrow> Inl ManagementAuthenticationFailed | Some (c, p) \<Rightarrow> Inr (principal_of_login c p (w_db w)))"
    using require_management_run [OF assms(2-5), of "ms_pepper (app_mgmt ap)" "hq_credentials req"] q by simp
  show ?thesis
    using q r unfolding serve_on_db [OF dispatch_management [OF assms(1)]] d1
    by (auto simp: guarded_def bnd_def validate_def Let_def reply_of_def split: option.split prod.split)
qed

subsection \<open>Who is refused\<close>

lemma refusal_problems:
  "problem_of path ManagementAuthenticationFailed = unauthorized path"
  "problem_of path RuntimeAuthenticationFailed = unauthorized path"
  "problem_of path PrincipalManagementDenied = mgmt_not_found path"
  "problem_of path ManagementPrincipalNotFound = mgmt_not_found path"
  "problem_of path RuntimePrincipalManagementDenied = runtime_hidden path"
  "problem_of path RuntimePrincipalNotFound = runtime_hidden path"
  by (simp_all add: problem_simps)

text \<open>
  C8. Every management endpoint demands a live credential: a request whose bearer token does not
  name a stored, unrevoked, unexpired credential of an enabled principal with a matching secret
  is answered 401 with the same problem document whatever the reason, before its parameters are
  looked at, and changes nothing but the authentication evidence.
\<close>

theorem unauthenticated_refused:
  assumes "is_management (hq_endpoint req)"
    and "mgmt_ok (w_db w)" "ids_not_nil (w_db w)" "hashes_to_hex pf" "clock_ok (clock_at (dr_auth dr) 0)"
    and "login pf (ms_pepper (app_mgmt ap)) (clock_at (dr_auth dr) 0) (hq_credentials req) (w_db w) = None"
  shows "\<exists>ev. serve pf ap dr req w = (Failure (unauthorized (hq_path req)), w\<lparr>w_db := (w_db w)\<lparr>mgmt_evidence := ev\<rparr>\<rparr>)"
proof -
  obtain ev where ev: "after_login pf (ms_pepper (app_mgmt ap)) (dr_auth dr) (hq_credentials req) (w_db w)
      = (w_db w)\<lparr>mgmt_evidence := ev\<rparr>" using after_login_frame by blast
  show ?thesis using serve_management [OF assms(1-5), of ap] assms(6) ev
    by (intro exI [of _ ev]) (simp add: Let_def refusal_problems)
qed

definition ex_anonymous :: http_request where
  "ex_anonymous = \<lparr>hq_path = [47], hq_credentials = None, hq_endpoint = PostTenant [120]\<rparr>"

theorem unauthenticated_refused_witness:
  "\<exists>ev. serve ex_platform ex_app ex_draws ex_anonymous (ex_world\<lparr>w_db := ex_bootstrapped\<rparr>)
     = (Failure (unauthorized [47]), ex_world\<lparr>w_db := ex_bootstrapped\<lparr>mgmt_evidence := ev\<rparr>\<rparr>)"
proof -
  have "mgmt_ok ex_bootstrapped" using bootstrap_ok(1) [OF ex_bootstrap ex_mgmt_ok] .
  moreover have "ids_not_nil ex_bootstrapped"
    by (simp add: ids_not_nil_def ex_bootstrapped_def principal_rows_def ex_manager_def mgmt_credential_to_row_def ex_credential_def)
  ultimately show ?thesis
    using unauthenticated_refused [of ex_anonymous "ex_world\<lparr>w_db := ex_bootstrapped\<rparr>" ex_platform ex_draws ex_app]
    by (simp add: ex_anonymous_def is_management_def login_def bearer_token_of_def)
qed

definition is_identity :: "endpoint \<Rightarrow> bool" where
  "is_identity ep = (case ep of PostTenant _ \<Rightarrow> False | GetTenant _ \<Rightarrow> False | PostAgent _ _ \<Rightarrow> False
     | GetAgent _ \<Rightarrow> False | PostModel _ _ _ _ \<Rightarrow> False | GetModel _ \<Rightarrow> False | PutPermission _ _ _ _ \<Rightarrow> False
     | GetPermission _ \<Rightarrow> False | GetAuditRecords _ _ _ _ \<Rightarrow> False | GetRuntimeReport _ _ _ \<Rightarrow> False
     | PostInvocation _ _ \<Rightarrow> False | GetInvocation _ \<Rightarrow> False | PostBootstrap _ _ \<Rightarrow> False | _ \<Rightarrow> True)"

lemma identity_is_management: "is_identity ep \<Longrightarrow> is_management ep"
  by (cases ep) (simp_all add: is_identity_def is_management_def)

lemma managers_only_run:
  assumes "is_identity ep" "\<not> ap_can_manage p"
  shows "management_route pf ap dr p ep d = (Inl PrincipalManagementDenied, d)
    \<or> management_route pf ap dr p ep d = (Inl RuntimePrincipalManagementDenied, d)"
proof -
  have a: "\<not> act_can_manage (actor_of p)" using assms(2) by (simp add: actor_of_def)
  show ?thesis using assms(1)
    by (cases ep)
       (simp_all add: is_identity_def bnd_def managers_only_def assms(2) a require_manager_def runtime_require_manager_def
         list_evidence_route_def create_principal_route_def list_principals_route_def get_principal_route_def
         list_credentials_route_def set_scopes_route_def issue_credential_route_def revoke_credential_route_def
         disable_principal_route_def runtime_create_route_def runtime_get_route_def usage_limits_route_def
         preflight_route_def bind_route_def runtime_issue_route_def runtime_revoke_route_def runtime_disable_route_def
         create_principal_def get_principal_def set_scopes_def issue_credential_def revoke_credential_def
         disable_principal_def runtime_create_principal_def runtime_get_principal_def initialize_usage_limits_def
         preflight_identity_continuity_def bind_identity_continuity_def runtime_issue_credential_def
         runtime_revoke_credential_def runtime_disable_principal_def)
qed

text \<open>
  C9. Identities are managed by managers only, and others cannot probe them: to a principal that
  is authenticated but may not manage principals, every endpoint that reads or changes
  management or runtime identities answers as it does for an identity that does not exist (or
  that the request is malformed), whatever is stored, and nothing but evidence changes.
\<close>

theorem identities_hidden_from_others:
  assumes "is_identity (hq_endpoint req)"
    and "mgmt_ok (w_db w)" "ids_not_nil (w_db w)" "hashes_to_hex pf" "clock_ok (clock_at (dr_auth dr) 0)"
    and "login pf (ms_pepper (app_mgmt ap)) (clock_at (dr_auth dr) 0) (hq_credentials req) (w_db w) = Some (c, p)"
    and "\<not> mp_can_manage_principals p"
  shows "\<exists>e ev. serve pf ap dr req w = (Failure (problem_of (hq_path req) e), w\<lparr>w_db := (w_db w)\<lparr>mgmt_evidence := ev\<rparr>\<rparr>)
    \<and> (if parameters_valid (hq_endpoint req) then e \<in> {ManagementPrincipalNotFound, RuntimePrincipalNotFound}
       else e = RequestValidationError)"
proof -
  let ?d1 = "after_login pf (ms_pepper (app_mgmt ap)) (dr_auth dr) (hq_credentials req) (w_db w)"
  obtain ev where ev: "?d1 = (w_db w)\<lparr>mgmt_evidence := ev\<rparr>" using after_login_frame by blast
  note run = serve_management [OF identity_is_management [OF assms(1)] assms(2-5), of ap, unfolded assms(6) Let_def]
  show ?thesis
  proof (cases "parameters_valid (hq_endpoint req)")
    case False
    then show ?thesis using run ev by auto
  next
    case True
    have "\<not> ap_can_manage (principal_of_login c p (w_db w))" using assms(7) by (simp add: principal_of_login_def)
    from managers_only_run [OF assms(1) this, of pf ap dr ?d1] show ?thesis
    proof
      assume "management_route pf ap dr (principal_of_login c p (w_db w)) (hq_endpoint req) ?d1 = (Inl PrincipalManagementDenied, ?d1)"
      then show ?thesis using run True ev
        by (intro exI [of _ ManagementPrincipalNotFound] exI [of _ ev]) (simp add: reply_of_def refusal_problems)
    next
      assume "management_route pf ap dr (principal_of_login c p (w_db w)) (hq_endpoint req) ?d1 = (Inl RuntimePrincipalManagementDenied, ?d1)"
      then show ?thesis using run True ev
        by (intro exI [of _ RuntimePrincipalNotFound] exI [of _ ev]) (simp add: reply_of_def refusal_problems)
    qed
  qed
qed

definition ex_staff :: world where
  "ex_staff = \<lparr>w_db = ex_staffed, provider_calls = []\<rparr>"

definition ex_peek :: http_request where
  "ex_peek = \<lparr>hq_path = [47], hq_credentials = ex_bearer ex_auditor_token, hq_endpoint = GetPrincipal 200\<rparr>"

lemma ex_staff_ids: "ids_not_nil ex_staffed"
  by (simp add: ids_not_nil_def ex_staffed_def ex_auditor_def ex_auditor_credential_def)

lemma ex_login:
  "login ex_platform (ms_pepper ex_service) 63000000000000000 (ex_bearer ex_auditor_token) ex_staffed
     = Some (ex_auditor_credential, ex_auditor)"
  by (simp add: login_def token_rows_def ex_token_parses ex_staffed_def ex_auditor_def ex_auditor_credential_def
      row_outcome_def)

theorem identities_hidden_from_others_witness:
  "\<exists>ev. serve ex_platform ex_app ex_draws ex_peek ex_staff
     = (Failure (mgmt_not_found [47]), ex_staff\<lparr>w_db := ex_staffed\<lparr>mgmt_evidence := ev\<rparr>\<rparr>)
   \<or> serve ex_platform ex_app ex_draws ex_peek ex_staff
     = (Failure (runtime_hidden [47]), ex_staff\<lparr>w_db := ex_staffed\<lparr>mgmt_evidence := ev\<rparr>\<rparr>)"
  using identities_hidden_from_others [of ex_peek ex_staff ex_platform ex_draws ex_app ex_auditor_credential ex_auditor]
    ex_login ex_staffed_ok ex_staff_ids
  by (auto simp: ex_peek_def ex_staff_def is_identity_def parameters_valid_def ex_auditor_def refusal_problems)

end
