(* ===== verification/Isolation.thy ===== *)
theory Isolation
  imports HttpAccess
begin

text \<open>
  Tenant isolation. What a principal can learn through the tenant-scoped endpoints is determined
  by the part of the tables that belongs to the tenants in its scope, and what it can change is
  confined to that part: two views of the tables, and one lemma per route for each.
\<close>

subsection \<open>The part of the tables in a scope\<close>

definition scope_view :: "uuid set \<Rightarrow> db \<Rightarrow> db" where
  "scope_view ts d = empty_db\<lparr>
     tenants := filter (\<lambda>r. tr_id r \<in> ts) (tenants d),
     agents := filter (\<lambda>r. ar_tenant_id r \<in> ts) (agents d),
     models := filter (\<lambda>r. mr_tenant_id r \<in> ts) (models d),
     permissions := filter (\<lambda>r. pr_tenant_id r \<in> ts) (permissions d),
     invocations := filter (\<lambda>r. ir_tenant_id r \<in> ts) (invocations d),
     audits := filter (\<lambda>r. \<exists>t \<in> ts. au_tenant_id r = Some t) (audits d)\<rparr>"

definition scoped_read :: "endpoint \<Rightarrow> bool" where
  "scoped_read ep = (case ep of GetTenant _ \<Rightarrow> True | GetAgent _ \<Rightarrow> True | GetModel _ \<Rightarrow> True
     | GetPermission _ \<Rightarrow> True | GetAuditRecords _ _ _ _ \<Rightarrow> True | GetRuntimeReport _ _ _ \<Rightarrow> True | _ \<Rightarrow> False)"

lemma lookup_in_scope:
  assumes "distinct (map key rows)"
  shows "row_of key k (filter P rows) = (case row_of key k rows of None \<Rightarrow> None | Some r \<Rightarrow> if P r then Some r else None)"
  using assms
proof (induction rows)
  case (Cons r rows)
  have "row_of key (key r) (filter P rows) = None" if "key r \<notin> key ` set rows"
    using that by (auto simp: row_of_None_iff)
  then show ?case using Cons by auto
qed simp

lemma scope_view_tables [simp]:
  "tenants (scope_view ts d) = filter (\<lambda>r. tr_id r \<in> ts) (tenants d)"
  "agents (scope_view ts d) = filter (\<lambda>r. ar_tenant_id r \<in> ts) (agents d)"
  "models (scope_view ts d) = filter (\<lambda>r. mr_tenant_id r \<in> ts) (models d)"
  "permissions (scope_view ts d) = filter (\<lambda>r. pr_tenant_id r \<in> ts) (permissions d)"
  "invocations (scope_view ts d) = filter (\<lambda>r. ir_tenant_id r \<in> ts) (invocations d)"
  "audits (scope_view ts d) = filter (\<lambda>r. \<exists>t \<in> ts. au_tenant_id r = Some t) (audits d)"
  by (simp_all add: scope_view_def)

text \<open>Tables whose rows read back and have one identity each.\<close>

definition readable :: "platform \<Rightarrow> db \<Rightarrow> bool" where
  "readable pf d \<longleftrightarrow> catalogue_ok pf d \<and> assets_readable pf d"

lemma readableD:
  assumes "readable pf d"
  shows "distinct (map ar_id (agents d))" "distinct (map mr_id (models d))" "distinct (map pr_id (permissions d))"
    "r \<in> set (agents d) \<Longrightarrow> \<exists>x. agent_of_row pf r = Inr x" "m \<in> set (models d) \<Longrightarrow> \<exists>x. model_of_row pf m = Inr x"
    "q \<in> set (permissions d) \<Longrightarrow> pr_created_at q \<le> pr_updated_at q"
  using assms
  by (auto simp: readable_def catalogue_ok_def assets_ok_def permissions_ok_def assets_readable_def)

subsection \<open>Reads are determined by the scope\<close>

lemma authorize_run:
  "authorize_or p t e s = (if t \<in> ap_tenant_ids p then Inr () else Inl e, s)"
  by (auto simp: authorize_or_def authorize_tenant_def)

lemma tenants_in_scope:
  "i \<in> ts \<Longrightarrow> row_of tr_id i (filter (\<lambda>r. tr_id r \<in> ts) rows) = row_of tr_id i rows"
  by (induction rows) auto

lemma get_tenant_scoped:
  "fst (get_tenant_route pf p i d) = fst (get_tenant_route pf p i (scope_view (ap_tenant_ids p) d))"
proof (cases "i \<in> ap_tenant_ids p")
  case True
  then have "fst (get_tenant pf i d) = fst (get_tenant pf i (scope_view (ap_tenant_ids p) d))"
    by (simp add: get_tenant_def bnd_def tenant_repo.lookup_result tenant_get_result tenants_in_scope
        throw_def ret_def split: option.split sum.split)
  moreover have "snd (get_tenant pf i e) = e" for e using keeps_gets(1) by (simp add: keeps_def)
  ultimately show ?thesis using True
    by (cases "get_tenant pf i d"; cases "get_tenant pf i (scope_view (ap_tenant_ids p) d)")
       (auto simp: get_tenant_route_def bnd_def authorize_run split: sum.split)
qed (simp add: get_tenant_route_def bnd_def authorize_run)

lemma agent_of_row_tenant: "agent_of_row pf r = Inr a \<Longrightarrow> ag_tenant_id a = ar_tenant_id r"
  by (auto simp: agent_of_row_def and_then_Inr_iff agent_init_def split: if_splits)

lemma model_of_row_tenant: "model_of_row pf r = Inr m \<Longrightarrow> mo_tenant_id m = mr_tenant_id r"
  by (auto simp: model_of_row_def and_then_Inr_iff model_init_def split: if_splits)

lemma get_agent_scoped:
  assumes "readable pf d"
  shows "fst (get_agent_route pf p i d) = fst (get_agent_route pf p i (scope_view (ap_tenant_ids p) d))"
proof (cases "row_of ar_id i (agents d)")
  case None
  then show ?thesis using lookup_in_scope [OF readableD(1) [OF assms], of i "\<lambda>r. ar_tenant_id r \<in> ap_tenant_ids p"]
    by (simp add: get_agent_route_def bnd_def get_agent_def agent_repo.lookup_result agent_get_result)
next
  case (Some r)
  then obtain a where a: "agent_of_row pf r = Inr a" using readableD(4) [OF assms] by (blast dest: row_of_SomeD)
  show ?thesis
    using lookup_in_scope [OF readableD(1) [OF assms], of i "\<lambda>r. ar_tenant_id r \<in> ap_tenant_ids p"] Some a
      agent_of_row_tenant [OF a]
    by (simp add: get_agent_route_def bnd_def get_agent_def agent_repo.lookup_result agent_get_result authorize_run)
qed

lemma get_model_scoped:
  assumes "readable pf d"
  shows "fst (get_model_route pf p i d) = fst (get_model_route pf p i (scope_view (ap_tenant_ids p) d))"
proof (cases "row_of mr_id i (models d)")
  case None
  then show ?thesis using lookup_in_scope [OF readableD(2) [OF assms], of i "\<lambda>r. mr_tenant_id r \<in> ap_tenant_ids p"]
    by (simp add: get_model_route_def bnd_def get_model_def model_repo.lookup_result model_get_result)
next
  case (Some r)
  then obtain a where a: "model_of_row pf r = Inr a" using readableD(5) [OF assms] by (blast dest: row_of_SomeD)
  show ?thesis
    using lookup_in_scope [OF readableD(2) [OF assms], of i "\<lambda>r. mr_tenant_id r \<in> ap_tenant_ids p"] Some a
      model_of_row_tenant [OF a]
    by (simp add: get_model_route_def bnd_def get_model_def model_repo.lookup_result model_get_result authorize_run)
qed

lemma permission_lookup: "lookup (permission_get pf) i d = (case row_of pr_id i (permissions d) of
     None \<Rightarrow> Inr None | Some r \<Rightarrow> map_sum id Some (permission_from_row pf r), d)"
  by (auto simp: lookup_def with_uow_eq permission_get_def op_simps split: option.split sum.split)

lemma get_permission_scoped:
  assumes "readable pf d"
  shows "fst (get_permission_route pf p i d) = fst (get_permission_route pf p i (scope_view (ap_tenant_ids p) d))"
proof (cases "row_of pr_id i (permissions d)")
  case None
  then show ?thesis using lookup_in_scope [OF readableD(3) [OF assms], of i "\<lambda>r. pr_tenant_id r \<in> ap_tenant_ids p"]
    by (simp add: get_permission_route_def bnd_def get_permission_def permission_lookup)
next
  case (Some r)
  then have le: "pr_created_at r \<le> pr_updated_at r" using readableD(6) [OF assms] by (blast dest: row_of_SomeD)
  then obtain a where a: "permission_from_row pf r = Inr a" by (auto simp: permission_from_row_Inr_iff)
  then have t: "am_tenant_id a = pr_tenant_id r" by (simp add: permission_from_row_Inr_iff)
  show ?thesis
    using lookup_in_scope [OF readableD(3) [OF assms], of i "\<lambda>r. pr_tenant_id r \<in> ap_tenant_ids p"] Some a t
    by (simp add: get_permission_route_def bnd_def get_permission_def permission_lookup
        authorize_run)
qed

lemma tenant_in_scope: "t \<in> ts \<Longrightarrow> (t \<in> tr_id ` set (tenants (scope_view ts d))) = (t \<in> tr_id ` set (tenants d))"
  by auto

lemma audit_scoped:
  assumes "t \<in> ts"
  shows "list_audit_records pf rq t s e cap d = list_audit_records pf rq t s e cap (scope_view ts d)"
proof -
  have f: "filter (\<lambda>r. au_tenant_id r = Some t \<and> P r) (audits (scope_view ts d))
      = filter (\<lambda>r. au_tenant_id r = Some t \<and> P r) (audits d)" for P
    using assms by (simp add: conj_commute) (rule filter_cong, auto)
  have "audit_list_for_tenant pf t a b n (scope_view ts d) = audit_list_for_tenant pf t a b n d" for a b n
    unfolding audit_list_for_tenant_def f ..
  then show ?thesis unfolding list_audit_records_def read_db_def tenant_in_scope [OF assms]
    by (simp cong: if_cong)
qed

lemma report_scoped:
  assumes "t \<in> ts"
  shows "get_runtime_report pf rq t s e d = get_runtime_report pf rq t s e (scope_view ts d)"
proof -
  have "report_rows t a b (scope_view ts d) = report_rows t a b d" for a b
    using assms unfolding report_rows_def by simp (rule filter_cong, auto)
  then have "get_report t a b (scope_view ts d) = get_report t a b d" for a b by (simp add: get_report_def)
  then show ?thesis unfolding get_runtime_report_def read_db_def tenant_in_scope [OF assms]
    by (simp cong: if_cong)
qed

lemma list_audit_records_scoped:
  "fst (list_audit_records_route pf rq p t s e cap d)
     = fst (list_audit_records_route pf rq p t s e cap (scope_view (ap_tenant_ids p) d))"
  using audit_scoped [of t "ap_tenant_ids p" pf rq s e cap d]
  by (simp add: list_audit_records_route_def bnd_def authorize_run reads_def split: sum.split)

lemma get_runtime_report_scoped:
  "fst (get_runtime_report_route pf rq p t s e d)
     = fst (get_runtime_report_route pf rq p t s e (scope_view (ap_tenant_ids p) d))"
  using report_scoped [of t "ap_tenant_ids p" pf rq s e d]
  by (simp add: get_runtime_report_route_def bnd_def authorize_run reads_def split: sum.split)

lemma scoped_read_route:
  assumes "scoped_read ep" "readable pf d"
  shows "fst (management_route pf ap dr p ep d) = fst (management_route pf ap dr p ep (scope_view (ap_tenant_ids p) d))"
proof (cases ep)
  case (GetTenant i) then show ?thesis using get_tenant_scoped by simp
next
  case (GetAgent i) then show ?thesis using get_agent_scoped [OF assms(2)] by simp
next
  case (GetModel i) then show ?thesis using get_model_scoped [OF assms(2)] by simp
next
  case (GetPermission i) then show ?thesis using get_permission_scoped [OF assms(2)] by simp
next
  case GetAuditRecords then show ?thesis using list_audit_records_scoped by simp
next
  case GetRuntimeReport then show ?thesis using get_runtime_report_scoped by simp
qed (use assms(1) in \<open>simp_all add: scoped_read_def\<close>)

lemma system_readable: "system_ok pf d \<Longrightarrow> readable pf (d\<lparr>mgmt_evidence := ev\<rparr>)"
  by (auto simp: system_ok_def readable_def intro: catalogue_ok_same assets_readable_same)

lemma scope_view_evidence [simp]: "scope_view ts (d\<lparr>mgmt_evidence := ev\<rparr>) = scope_view ts d"
  by (simp add: scope_view_def)

text \<open>Two databases with the same management identities authenticate alike.\<close>

definition same_identities :: "db \<Rightarrow> db \<Rightarrow> bool" where
  "same_identities d e \<longleftrightarrow> mgmt_principals e = mgmt_principals d \<and> mgmt_credentials e = mgmt_credentials d
     \<and> mgmt_scopes e = mgmt_scopes d"

lemma same_login:
  assumes "same_identities d e"
  shows "login pf pepper t creds e = login pf pepper t creds d" "principal_of_login c p e = principal_of_login c p d"
    "ids_not_nil e = ids_not_nil d"
proof -
  have rows: "token_rows pf token e = token_rows pf token d" for token
    using assms by (simp add: same_identities_def token_rows_def split: option.split)
  show "login pf pepper t creds e = login pf pepper t creds d" unfolding login_def rows ..
qed (use assms in \<open>simp_all add: same_identities_def principal_of_login_def scopes_of_def ids_not_nil_def\<close>)

lemma scoped_is_management: "scoped_read ep \<Longrightarrow> is_management ep \<and> is_read ep"
  by (cases ep) (simp_all add: scoped_read_def is_management_def is_read_def)

text \<open>
  C3. Tenant isolation of reads: what a principal is answered by the endpoints that read
  tenants, agents, models, permissions, audit records and reports is determined by the rows that
  belong to the tenants of its scope. If two stores with the same management identities agree on
  those rows, every such request is answered alike, whatever the other tenants have stored,
  errors included, and it changes nothing but evidence.
\<close>

theorem scoped_reads_isolated:
  assumes "scoped_read (hq_endpoint req)" "hashes_to_hex pf" "clock_ok (clock_at (dr_auth dr) 0)"
    and "system_ok pf (w_db w)" "system_ok pf (w_db v)" "ids_not_nil (w_db w)" "same_identities (w_db w) (w_db v)"
    and "login pf (ms_pepper (app_mgmt ap)) (clock_at (dr_auth dr) 0) (hq_credentials req) (w_db w) = Some (c, p)"
    and "scope_view (scopes_of (mp_principal_id p) (w_db w)) (w_db w) = scope_view (scopes_of (mp_principal_id p) (w_db w)) (w_db v)"
  shows "fst (serve pf ap dr req w) = fst (serve pf ap dr req v)
    \<and> (\<exists>ev. snd (serve pf ap dr req w) = w\<lparr>w_db := (w_db w)\<lparr>mgmt_evidence := ev\<rparr>\<rparr>)"
proof -
  note m = scoped_is_management [OF assms(1)]
  have ok: "mgmt_ok (w_db w)" "mgmt_ok (w_db v)" using assms(4,5) by (simp_all add: system_ok_def)
  let ?after = "after_login pf (ms_pepper (app_mgmt ap)) (dr_auth dr) (hq_credentials req)"
  obtain ev where ev: "?after (w_db w) = (w_db w)\<lparr>mgmt_evidence := ev\<rparr>" using after_login_frame by blast
  obtain ev' where ev': "?after (w_db v) = (w_db v)\<lparr>mgmt_evidence := ev'\<rparr>" using after_login_frame by blast
  let ?p = "principal_of_login c p (w_db w)"
  have ts: "ap_tenant_ids ?p = scopes_of (mp_principal_id p) (w_db w)" by (simp add: principal_of_login_def)
  let ?run = "\<lambda>d. management_route pf ap dr ?p (hq_endpoint req) d"
  have same: "fst (?run (?after (w_db w))) = fst (?run (?after (w_db v)))"
    using scoped_read_route [OF assms(1) system_readable [OF assms(4), of ev], of ap dr ?p]
      scoped_read_route [OF assms(1) system_readable [OF assms(5), of ev'], of ap dr ?p] assms(9) ts ev ev' by simp
  have quiet: "snd (?run d) = d" for d using keeps_reads m by (simp add: keeps_def)
  note sw = serve_management [OF m [THEN conjunct1] ok(1) assms(6,2,3), of ap, unfolded assms(8) Let_def]
  have idv: "ids_not_nil (w_db v)" using same_login(3) [OF assms(7)] assms(6) by simp
  note sv = serve_management [OF m [THEN conjunct1] ok(2) idv assms(2,3), of ap,
      unfolded same_login(1,2) [OF assms(7)] assms(8) Let_def]
  obtain r d where rw: "?run (?after (w_db w)) = (r, d)" by fastforce
  obtain r' d' where rv: "?run (?after (w_db v)) = (r', d')" by fastforce
  have "r' = r" "d = ?after (w_db w)" using same quiet [of "?after (w_db w)"] rw rv by simp_all
  then show ?thesis unfolding sw sv using rw rv ev by auto
qed

definition ex_scoped :: db where
  "ex_scoped = ex_staffed\<lparr>mgmt_scopes := [\<lparr>sc_principal_id = 200, sc_tenant_id = 1\<rparr>]\<rparr>"

definition ex_neighbour :: db where
  "ex_neighbour = ex_scoped\<lparr>tenants := [ex_tenant, ex_tenant\<lparr>tr_id := 9, tr_name := [100], tr_normalized_name := [100]\<rparr>],
     agents := [ex_agent, ex_agent\<lparr>ar_id := 10, ar_tenant_id := 9\<rparr>]\<rparr>"

definition ex_read :: http_request where
  "ex_read = \<lparr>hq_path = [47], hq_credentials = ex_bearer ex_auditor_token, hq_endpoint = GetAgent 2\<rparr>"

lemma ex_scoped_login:
  "login ex_platform (ms_pepper ex_service) 63000000000000000 (ex_bearer ex_auditor_token) ex_scoped
     = Some (ex_auditor_credential, ex_auditor)"
proof -
  have rows: "token_rows ex_platform token ex_scoped = token_rows ex_platform token ex_staffed" for token
    by (simp add: token_rows_def ex_scoped_def split: option.split)
  show ?thesis using ex_login unfolding login_def rows .
qed

lemma ex_scoped_fields:
  "same_identities ex_scoped ex_neighbour" "ids_not_nil ex_scoped" "scopes_of 200 ex_scoped = {1}"
  "scope_view {1} ex_scoped = scope_view {1} ex_neighbour"
  by (simp_all add: same_identities_def ex_scoped_def ex_neighbour_def ids_not_nil_def ex_staffed_def ex_auditor_def
      ex_auditor_credential_def scopes_of_def scope_view_def ex_db_def empty_db_def ex_tenant_def ex_agent_def)

lemma ex_scoped_ok: "system_ok ex_platform ex_scoped"
proof -
  have "mgmt_ok ex_scoped"
    using ex_staffed_ok by (simp add: mgmt_ok_def ex_scoped_def ex_staffed_def ex_db_def ex_tenant_def ex_auditor_def)
  moreover have "catalogue_ok ex_platform ex_scoped" "assets_readable ex_platform ex_scoped"
    using ex_system_ok unfolding system_ok_def ex_scoped_def ex_staffed_def
    by (auto intro: catalogue_ok_same assets_readable_same)
  moreover have "ledger_ok ex_scoped" "runtime_ok ex_scoped"
    by (simp_all add: ledger_ok_def ledger_ids_def runtime_ok_def ex_scoped_def ex_staffed_def ex_db_def empty_db_def)
  ultimately show ?thesis by (simp add: system_ok_def)
qed

lemma ex_neighbour_ok: "system_ok ex_platform ex_neighbour"
proof -
  have "mgmt_ok ex_neighbour"
    using ex_scoped_ok by (simp add: system_ok_def mgmt_ok_def ex_neighbour_def ex_scoped_def ex_staffed_def ex_db_def ex_tenant_def)
  moreover have "catalogue_ok ex_platform ex_neighbour"
    by (simp add: ex_neighbour_def ex_scoped_def ex_staffed_def catalogue_ok_def tenants_ok_def assets_ok_def
        permissions_ok_def permissions_owned_def ex_db_def ex_tenant_def ex_agent_def ex_model_def ex_permission_def
        empty_db_def canonical_word py_isspace_def casefold_def fold_point_def)
  moreover have "assets_readable ex_platform ex_neighbour"
    by (simp add: assets_readable_def ex_neighbour_def ex_scoped_def ex_staffed_def ex_db_def empty_db_def ex_tenant_def
        ex_agent_def ex_model_def tenant_of_row_def agent_of_row_def model_of_row_def TenantName_def AgentName_def
        ModelName_def unique_name_def canonical_word py_isspace_def casefold_def fold_point_def tenant_init_def
        agent_init_def model_init_def ProviderModelReference_def py_strip_def max_provider_model_reference_length_def
        max_name_length_def Let_def)
  moreover have "ledger_ok ex_neighbour" "runtime_ok ex_neighbour"
    by (simp_all add: ledger_ok_def ledger_ids_def runtime_ok_def ex_neighbour_def ex_scoped_def ex_staffed_def ex_db_def empty_db_def)
  ultimately show ?thesis by (simp add: system_ok_def)
qed

theorem scoped_reads_isolated_witness:
  "fst (serve ex_platform ex_app ex_draws ex_read \<lparr>w_db = ex_scoped, provider_calls = []\<rparr>)
     = fst (serve ex_platform ex_app ex_draws ex_read \<lparr>w_db = ex_neighbour, provider_calls = []\<rparr>)"
proof -
  have id: "mp_principal_id ex_auditor = 200" by (simp add: ex_auditor_def)
  show ?thesis
    using scoped_reads_isolated [of ex_read ex_platform ex_draws "\<lparr>w_db = ex_scoped, provider_calls = []\<rparr>"
        "\<lparr>w_db = ex_neighbour, provider_calls = []\<rparr>" ex_app ex_auditor_credential ex_auditor]
      ex_scoped_login ex_scoped_ok ex_neighbour_ok ex_scoped_fields id
    by (simp add: ex_read_def scoped_read_def)
qed

subsection \<open>Writes are confined to the scope\<close>

text \<open>Everything that is not the catalogue or audit data of a tenant in the scope, and not evidence.\<close>

definition beyond :: "uuid set \<Rightarrow> db \<Rightarrow> db" where
  "beyond ts d = d\<lparr>tenants := filter (\<lambda>r. tr_id r \<notin> ts) (tenants d),
     agents := filter (\<lambda>r. ar_tenant_id r \<notin> ts) (agents d),
     models := filter (\<lambda>r. mr_tenant_id r \<notin> ts) (models d),
     permissions := filter (\<lambda>r. pr_tenant_id r \<notin> ts) (permissions d),
     audits := filter (\<lambda>r. \<nexists>t. t \<in> ts \<and> au_tenant_id r = Some t) (audits d),
     mgmt_evidence := []\<rparr>"

definition scoped_write :: "endpoint \<Rightarrow> bool" where
  "scoped_write ep = (case ep of PostAgent _ _ \<Rightarrow> True | PostModel _ _ _ _ \<Rightarrow> True | PutPermission _ _ _ _ \<Rightarrow> True
     | _ \<Rightarrow> False)"

lemma updated_in_scope:
  assumes "\<And>r. r \<in> set rows \<Longrightarrow> p r \<Longrightarrow> key r \<in> ts \<and> key (f r) \<in> ts"
  shows "filter (\<lambda>r. key r \<notin> ts) (update_rows p f rows) = filter (\<lambda>r. key r \<notin> ts) rows"
  using assms by (induction rows) (auto simp: update_rows_def)

lemma upsert_beyond:
  assumes "permission_upsert r d = Inr (r', d1)" "pr_tenant_id r \<in> ts"
  shows "beyond ts d1 = beyond ts d"
proof (cases "effective_row (pr_tenant_id r) (pr_agent_id r) (pr_model_id r) d")
  case None
  then show ?thesis using assms permission_upsert_new [OF None] by (auto simp: beyond_def)
next
  case (Some q)
  have "filter (\<lambda>q. pr_tenant_id q \<notin> ts) (permissions d1) = filter (\<lambda>q. pr_tenant_id q \<notin> ts) (permissions d)"
    using assms permission_upsert_existing [OF Some]
    by (auto simp: permission_key_def touch_row_def intro!: updated_in_scope)
  then show ?thesis using assms permission_upsert_existing [OF Some] by (auto simp: beyond_def)
qed

lemma confinedI:
  assumes "\<And>d a d'. m d = (Inr a, d') \<Longrightarrow> beyond ts d' = beyond ts d" "\<And>d e d'. m d = (Inl e, d') \<Longrightarrow> d' = d"
  shows "keeps (beyond ts) m"
proof (rule keepsI)
  fix d
  obtain r d' where "m d = (r, d')" by fastforce
  then show "beyond ts (snd (m d)) = beyond ts d" using assms(1) [of d _ d'] assms(2) [of d _ d'] by (cases r) auto
qed

lemma keeps_register_agent:
  assumes "t \<in> ts"
  shows "keeps (beyond ts) (register_agent pf rq t name)"
proof (rule confinedI)
  fix d a d'
  assume "register_agent pf rq t name d = (Inr a, d')"
  then have "d' = d\<lparr>agents := agents d @ [agent_to_row a]\<rparr>" "ar_tenant_id (agent_to_row a) = t"
    by (simp_all add: register_agent_Inr_iff agent_insert_Inr_iff agent_register_Inr_iff agent_to_row_def)
  then show "beyond ts d' = beyond ts d" using assms by (simp add: beyond_def)
qed (rule register_agent_failed)

lemma keeps_register_model:
  assumes "t \<in> ts"
  shows "keeps (beyond ts) (register_model pf rq t name prov ref)"
proof (rule confinedI)
  fix d m d'
  assume "register_model pf rq t name prov ref d = (Inr m, d')"
  then have "d' = d\<lparr>models := models d @ [model_to_row m]\<rparr>" "mr_tenant_id (model_to_row m) = t"
    by (simp_all add: register_model_Inr_iff model_insert_Inr_iff model_register_Inr_iff model_to_row_def)
  then show "beyond ts d' = beyond ts d" using assms by (simp add: beyond_def)
qed (rule register_model_failed)

lemma keeps_set_permission:
  assumes "t \<in> ts"
  shows "keeps (beyond ts) (set_permission pf rq actor t a m eff)"
proof (rule confinedI)
  fix d p d'
  assume run: "set_permission pf rq actor t a m eff d = (Inr p, d')"
  obtain q d1 previous where e: "permission_upsert (proposed_row rq t a m eff) d = Inr (q, d1)"
    "permission_from_row pf q = Inr p" "d' = d1\<lparr>audits := audits d1 @ [audit_to_row (permission_audit pf rq actor previous p)]\<rparr>"
    using set_permission_effect(4) [OF run] by blast
  have "permission_key q = (t, a, m)"
    using permission_upsert_frame(1) [OF e(1)] effective_row_key [of t a m d]
    by (cases "effective_row t a m d") (auto simp: upserted_def permission_key_def touch_row_def)
  then have "am_tenant_id p = t" using e(2) by (simp add: permission_from_row_Inr_iff permission_key_def)
  then have "beyond ts d' = beyond ts d1"
    using assms by (simp add: e(3) beyond_def audit_to_row_def permission_audit_def)
  then show "beyond ts d' = beyond ts d" using upsert_beyond [OF e(1), of ts] assms by simp
qed (rule set_permission_failed)

lemma keeps_authorized:
  assumes "\<And>u. t \<in> ap_tenant_ids p \<Longrightarrow> keeps v (f u)"
  shows "keeps v (bnd (authorize_or p t e) f)"
  using assms by (auto simp: keeps_def bnd_def authorize_run)

lemma keeps_scoped_write:
  assumes "scoped_write ep"
  shows "keeps (beyond (ap_tenant_ids p)) (management_route pf ap dr p ep)"
  using assms
  by (cases ep)
     (auto simp: scoped_write_def register_agent_route_def register_model_route_def set_permission_route_def
       intro!: keeps_authorized keeps_bnd keeps_register_agent keeps_register_model keeps_set_permission)

lemma scoped_write_is_management: "scoped_write ep \<Longrightarrow> is_management ep"
  by (cases ep) (simp_all add: scoped_write_def is_management_def)

text \<open>
  C5. Tenant isolation of writes: registering an agent or a model or setting a permission, with
  whatever tenant, agent and model identities a principal puts in the request, leaves every row of
  a tenant outside its scope as it was, and with them every management and runtime identity,
  decision and invocation; no provider is called.
\<close>

theorem scoped_writes_confined:
  assumes "scoped_write (hq_endpoint req)" "hashes_to_hex pf" "clock_ok (clock_at (dr_auth dr) 0)"
    and "mgmt_ok (w_db w)" "ids_not_nil (w_db w)"
    and "login pf (ms_pepper (app_mgmt ap)) (clock_at (dr_auth dr) 0) (hq_credentials req) (w_db w) = Some (c, p)"
  shows "beyond (scopes_of (mp_principal_id p) (w_db w)) (w_db (snd (serve pf ap dr req w)))
      = beyond (scopes_of (mp_principal_id p) (w_db w)) (w_db w)
    \<and> provider_calls (snd (serve pf ap dr req w)) = provider_calls w"
proof -
  let ?ts = "scopes_of (mp_principal_id p) (w_db w)"
  let ?p = "principal_of_login c p (w_db w)"
  have ts: "ap_tenant_ids ?p = ?ts" by (simp add: principal_of_login_def)
  let ?d1 = "after_login pf (ms_pepper (app_mgmt ap)) (dr_auth dr) (hq_credentials req) (w_db w)"
  obtain ev where ev: "?d1 = (w_db w)\<lparr>mgmt_evidence := ev\<rparr>" using after_login_frame by blast
  then have d1: "beyond ?ts ?d1 = beyond ?ts (w_db w)" by (simp add: beyond_def)
  obtain r d2 where run: "management_route pf ap dr ?p (hq_endpoint req) ?d1 = (r, d2)" by fastforce
  then have "beyond ?ts d2 = beyond ?ts ?d1"
    using keepsD [OF keeps_scoped_write [OF assms(1), of ?p pf ap dr]] by (simp add: ts)
  then show ?thesis
    using d1 run
    unfolding serve_management [OF scoped_write_is_management [OF assms(1)] assms(4,5,2,3), of ap, unfolded assms(6) Let_def]
    by simp
qed

definition ex_intrusion :: http_request where
  "ex_intrusion = \<lparr>hq_path = [47], hq_credentials = ex_bearer ex_auditor_token, hq_endpoint = PostAgent 9 [101]\<rparr>"

theorem scoped_writes_confined_witness:
  "beyond {1} (w_db (snd (serve ex_platform ex_app ex_draws ex_intrusion \<lparr>w_db = ex_neighbour, provider_calls = []\<rparr>)))
     = beyond {1} ex_neighbour"
proof -
  have p: "mp_principal_id ex_auditor = 200" "scopes_of 200 ex_neighbour = {1}"
    using ex_scoped_fields(3) by (simp_all add: ex_auditor_def ex_neighbour_def scopes_of_def)
  have login: "login ex_platform (ms_pepper ex_service) 63000000000000000 (ex_bearer ex_auditor_token) ex_neighbour
     = Some (ex_auditor_credential, ex_auditor)"
    using ex_scoped_login same_login(1) [OF ex_scoped_fields(1)] by simp
  have ids: "ids_not_nil ex_neighbour" using same_login(3) [OF ex_scoped_fields(1)] ex_scoped_fields(2) by simp
  show ?thesis
    using scoped_writes_confined [of ex_intrusion ex_platform ex_draws "\<lparr>w_db = ex_neighbour, provider_calls = []\<rparr>" ex_app
        ex_auditor_credential ex_auditor] ex_neighbour_ok login ids p
    by (simp add: ex_intrusion_def scoped_write_def system_ok_def)
qed

end
