(* ===== verification/Delivery.thy ===== *)
theory Delivery
  imports Isolation
begin

text \<open>
  What a client of the runtime gateway can count on: an answered invocation stays readable to
  the workload that made it and to no other, and a request that policy, limit and budget permit
  is answered when the provider answers. The second part runs every stage of the handler
  forwards, where \<open>GatewayLaws\<close> reads its effect backwards.
\<close>

subsection \<open>Reading an answered invocation\<close>

lemma success_principal: "create_invocation pf rq gw c w = (Inr v, w') \<Longrightarrow> iv_runtime_principal_id v = cm_principal c
    \<and> iv_tenant_id v = cm_tenant c \<and> iv_agent_id v = cm_agent c \<and> iv_status v = SUCCEEDED \<and> iv_id v = id_at rq 0"
  using create_invocation_effect [of pf rq gw c w "Inr v" w'] by (auto simp: provider_success_def from_core_def)

lemma post_invocation_answered:
  assumes "hq_endpoint req = PostInvocation m text" "serve pf ap dr req w = (Answer code loc b, w')"
  shows "\<exists>wl v. require_runtime_principal (app_runtime_auth ap) (hq_credentials req) = Inr wl
    \<and> create_invocation pf (dr_main dr) (app_gateway ap) (command_of wl m text) w = (Inr v, w')
    \<and> code = 201 \<and> loc = api ''/api/v1/runtime/invocations/'' (iv_id v) \<and> b = InvocationBody (invocation_response_of v)"
  using assms
  by (auto simp: serve_def dispatch_def create_invocation_route_def bnd_def ret_def lift_def validate_def
      split: sum.splits prod.splits if_splits)

lemma stored_row_remains:
  assumes "(http_step pf ap t)\<^sup>*\<^sup>* w w'" "row_of ir_id i (invocations (w_db w)) = Some r"
  shows "row_of ir_id i (invocations (w_db w')) = Some r"
  using system_steps_extend [OF http_steps_system [OF assms(1)]] assms(2) by (auto simp: extends_def row_of_append)

lemma invocation_view_owner [simp]:
  "iv_runtime_principal_id (invocation_view pf v) = iv_runtime_principal_id v"
  "iv_tenant_id (invocation_view pf v) = iv_tenant_id v" "iv_agent_id (invocation_view pf v) = iv_agent_id v"
  by (simp_all add: invocation_view_def)

text \<open>Whether a workload is the one an invocation was made for.\<close>

definition made_by :: "workload \<Rightarrow> invocation \<Rightarrow> bool" where
  "made_by wl v \<longleftrightarrow> iv_runtime_principal_id v = wl_principal_id wl \<and> iv_tenant_id v = wl_tenant_id wl
     \<and> iv_agent_id v = wl_agent_id wl"

lemma made_by_view: "made_by wl (invocation_view pf v) = made_by wl v"
  by (simp add: made_by_def)

lemma get_invocation_served:
  assumes "hq_endpoint req = GetInvocation i" "get_invocation pf i (w_db w) = (Inr v, w_db w)"
  shows "serve pf ap dr req w = (case require_runtime_principal (app_runtime_auth ap) (hq_credentials req) of
      Inl e \<Rightarrow> Failure (problem_of (hq_path req) e)
    | Inr wl \<Rightarrow> if made_by wl v then Answer 200 None (InvocationBody (invocation_response_of v))
        else Failure (problem_of (hq_path req) (InvocationNotFound i)), w)"
  using assms
  by (simp add: serve_def dispatch_def bnd_def on_db_run get_invocation_route_def made_by_def split: sum.split)

text \<open>
  C7. An answered invocation stays readable, exactly, and only to its workload: when a request
  to invoke a model was answered, the answer is the stored success, and after any further HTTP
  requests a request for it is answered with that success (in the zone of the database session
  and on the grid of the cost columns) to the workload that made it, and to every other workload
  exactly as an invocation that does not exist.
\<close>

theorem answered_invocation_readable:
  assumes "hq_endpoint req = PostInvocation m text" "serve pf ap dr req w = (Answer code loc b, w0)"
    and "pricing_ok (app_gateway ap)" "(http_step pf ap t)\<^sup>*\<^sup>* w0 w'"
  shows "\<exists>wl v. require_runtime_principal (app_runtime_auth ap) (hq_credentials req) = Inr wl \<and> made_by wl v
    \<and> code = 201 \<and> b = InvocationBody (invocation_response_of v) \<and> iv_status v = SUCCEEDED
    \<and> loc = api ''/api/v1/runtime/invocations/'' (iv_id v)
    \<and> (\<forall>dr' req'. hq_endpoint req' = GetInvocation (iv_id v) \<longrightarrow> serve pf ap dr' req' w' =
        (case require_runtime_principal (app_runtime_auth ap) (hq_credentials req') of
           Inl e \<Rightarrow> Failure (problem_of (hq_path req') e)
         | Inr wl' \<Rightarrow> if made_by wl' v then Answer 200 None (InvocationBody (invocation_response_of (invocation_view pf v)))
             else Failure (problem_of (hq_path req') (InvocationNotFound (iv_id v))), w'))"
proof -
  obtain wl v where a: "require_runtime_principal (app_runtime_auth ap) (hq_credentials req) = Inr wl"
    "create_invocation pf (dr_main dr) (app_gateway ap) (command_of wl m text) w = (Inr v, w0)"
    "code = 201" "loc = api ''/api/v1/runtime/invocations/'' (iv_id v)" "b = InvocationBody (invocation_response_of v)"
    using post_invocation_answered [OF assms(1,2)] by blast
  have own: "made_by wl v" "iv_status v = SUCCEEDED"
    using success_principal [OF a(2)] by (simp_all add: made_by_def command_of_def)
  note s = create_invocation_success [OF a(2) assms(3)]
  have "row_of ir_id (iv_id v) (invocations (w_db w0)) = Some (invocation_to_row v)"
    using s(3,4) by (simp add: row_of_append)
  from get_invocation_row [OF stored_row_remains [OF assms(4) this] invocation_of_row_to_row [OF s(1)]]
  have got: "get_invocation pf (iv_id v) (w_db w') = (Inr (invocation_view pf v), w_db w')" .
  have "serve pf ap dr' req' w' = (case require_runtime_principal (app_runtime_auth ap) (hq_credentials req') of
      Inl e \<Rightarrow> Failure (problem_of (hq_path req') e)
    | Inr wl' \<Rightarrow> if made_by wl' v then Answer 200 None (InvocationBody (invocation_response_of (invocation_view pf v)))
        else Failure (problem_of (hq_path req') (InvocationNotFound (iv_id v))), w')"
    if "hq_endpoint req' = GetInvocation (iv_id v)" for dr' req'
    using get_invocation_served [OF that got] unfolding made_by_view .
  then show ?thesis using a(1,3,4,5) own by blast
qed

theorem answered_invocation_readable_witness:
  "\<exists>v. iv_status v = SUCCEEDED
     \<and> serve ex_platform ex_app ex_draws \<lparr>hq_path = [47], hq_credentials = ex_bearer (replicate 32 107),
         hq_endpoint = GetInvocation (iv_id v)\<rparr> ex_final
       = (Answer 200 None (InvocationBody (invocation_response_of (invocation_view ex_platform v))), ex_final)"
proof -
  have e: "hq_endpoint ex_post = PostInvocation 3 [105]" by (simp add: ex_post_def)
  have p: "pricing_ok (app_gateway ex_app)" by (simp add: pricing_ok_def ex_pricing_def rate_ok_def dval_def)
  have c: "hq_credentials ex_post = ex_bearer (replicate 32 107)" by (simp add: ex_post_def)
  note all = answered_invocation_readable [OF e ex_post_run p rtranclp.rtrancl_refl, unfolded c ex_app_fields ex_runtime_login]
  then obtain wl v where v: "Inr ex_workload = (Inr wl :: exc + workload)" "made_by wl v" "iv_status v = SUCCEEDED"
    "\<And>dr' req'. hq_endpoint req' = GetInvocation (iv_id v) \<Longrightarrow> serve ex_platform ex_app dr' req' ex_final =
        (case require_runtime_principal [ex_entry] (hq_credentials req') of
           Inl e \<Rightarrow> Failure (problem_of (hq_path req') e)
         | Inr wl' \<Rightarrow> if made_by wl' v then Answer 200 None (InvocationBody (invocation_response_of (invocation_view ex_platform v)))
             else Failure (problem_of (hq_path req') (InvocationNotFound (iv_id v))), ex_final)" by blast
  then show ?thesis
    using v(4) [of "\<lparr>hq_path = [47], hq_credentials = ex_bearer (replicate 32 107), hq_endpoint = GetInvocation (iv_id v)\<rparr>" ex_draws]
    by (intro exI [of _ v]) (simp add: ex_runtime_login)
qed

subsection \<open>The stages, forwards\<close>

lemma call_provider_run:
  assumes "openai_client (gw_provider gw) = Some client" "client ref (ic_input_text core) = Inr rs"
    and "py_strip (rs_output_text rs) \<noteq> []"
    and "attribute_cost (normalized_usage (rs_usage rs)) (gw_pricing gw (provider, ref)) = Inr cst"
    and "invocation_succeeded core (rs_output_text rs) (normalized_usage (rs_usage rs)) (provider_response_id (rs_id rs)) cst = Inr v"
    and "invocation_insert (invocation_to_row v) (w_db w) = Inr d"
  shows "call_provider gw provider ref core w
    = (Inr v, w\<lparr>w_db := d, provider_calls := provider_calls w @ [(ref, ic_input_text core)]\<rparr>)"
proof -
  have "persist invocation_add v (w_db w) = (Inr v, d)"
    using assms(6) by (simp add: persist_Inr_iff invocation_add_Inr_iff)
  then show ?thesis using assms(1-5)
    by (simp add: call_provider_def bnd_def catch_def openai_invoke_def Let_def persist_invocation_def on_db_run)
qed

lemma check_budget_run:
  assumes "cost_headroom gw (ic_tenant_id core) now (w_db w)" "costs_recorded_ok w" "db_up rq 4"
  shows "check_budget rq gw provider ref core (day_window now) w = call_provider gw provider ref core w"
proof -
  let ?spent = "ledger_amount (ic_tenant_id core) now (w_db w)"
  obtain b where b: "gw_budgets gw (ic_tenant_id core) = Some b"
    "dec_le (dec_add default_prec ?spent (tb_allowance b)) (tb_limit b)"
    using assms(1) by (auto simp: cost_headroom_def)
  have spent: "attributed_cost rq 4 (ic_tenant_id core) (w_start (day_window now)) (w_end (day_window now)) (w_db w) = Inr ?spent"
    using assms(3) by (simp add: attributed_cost_eq ledger_amount_def)
  have "0 \<le> coef ?spent"
    using costs_nonneg [OF assms(2)] by (simp add: ledger_amount_def from_numeric_def Let_def)
  then have "decide_tenant_cost_budget ?spent b (day_window now) = Inr \<lparr>cb_allowed = True, cb_attributed = ?spent,
      cb_budget = tb_limit b, cb_allowance = tb_allowance b, cb_window = day_window now\<rparr>"
    using b(2) by (simp add: decide_cost_Inr_iff)
  then show ?thesis using b(1) spent by (simp add: check_budget_def bnd_def)
qed

definition units_recorded_ok :: "world \<Rightarrow> bool" where
  "units_recorded_ok w \<longleftrightarrow> (\<forall>r \<in> set (invocations (w_db w)). opt_ok (\<lambda>n. 0 \<le> n) (ir_total_units r))"

lemma units_nonneg: "units_recorded_ok w \<Longrightarrow> 0 \<le> consumed_units p s e (w_db w)"
  unfolding consumed_units_def by (rule sum_list_nonneg) (auto simp: units_recorded_ok_def)

text \<open>A time whose UTC day, and the day after, are in the calendar.\<close>

definition day_ok :: "int \<Rightarrow> bool" where
  "day_ok now \<longleftrightarrow> representable now \<and> day_start now + day_us < max_wall"

lemma check_usage_run:
  assumes "ic_started_at core = Aware now 0" "day_ok now" "usage_headroom c now (w_db w)" "units_recorded_ok w"
    "db_up rq 3"
  shows "check_usage pf rq gw c provider ref core w = check_budget rq gw provider ref core (day_window now) w"
proof -
  let ?used = "consumed_units (cm_principal c) (day_start now) (day_start now + day_us) (w_db w)"
  have win: "utc_day_window pf (ic_started_at core) = Inr (day_window now)"
    using assms(1,2) utc_day_window_eq [of now pf] by (simp add: day_ok_def day_window_def)
  have used: "consumed_total_units rq 3 (cm_principal c) (w_start (day_window now)) (w_end (day_window now)) (w_db w) = Inr ?used"
    using assms(5) by (simp add: consumed_total_units_eq)
  have n: "0 \<le> ?used" by (rule units_nonneg [OF assms(4)])
  then have "decide_usage_limit ?used (cm_limit c) (cm_allowance c) (day_window now) = Inr \<lparr>ul_allowed = True,
      ul_consumed = ?used, ul_limit = cm_limit c, ul_allowance = cm_allowance c, ul_window = day_window now\<rparr>"
    using assms(3) by (simp add: decide_usage_limit_Inr_iff usage_headroom_def)
  then show ?thesis using win used by (simp add: check_usage_def bnd_def)
qed

text \<open>The identities of a run are new.\<close>

definition fresh_run :: "request \<Rightarrow> db \<Rightarrow> bool" where
  "fresh_run rq d \<longleftrightarrow> id_at rq 0 \<notin> ir_id ` set (invocations d) \<and> id_at rq 0 \<notin> dr_invocation_id ` set (decisions d)
     \<and> id_at rq 1 \<notin> dr_id ` set (decisions d)"

lemma admitted_rows:
  assumes "admitted c ref d"
  shows "cm_tenant c \<in> tr_id ` set (tenants d)" "cm_agent c \<in> ar_id ` set (agents d)" "cm_model c \<in> mr_id ` set (models d)"
  using assms
  by (auto simp: admitted_def tenant_exists_def owned_by_agent runtime_model_def intro!: rev_image_eqI dest!: row_of_SomeD)

lemma decide_policy_run:
  assumes "admitted c ref (w_db w)" "verdict (cm_tenant c) (cm_agent c) (cm_model c) (w_db w) = ALLOW"
    and "permissions_ok (w_db w)" "fresh_run rq (w_db w)"
  shows "decide_policy pf rq gw c (py_strip (cm_input c)) provider ref w
    = check_usage pf rq gw c provider ref (request_core rq c)
        (w\<lparr>w_db := (w_db w)\<lparr>decisions := decisions (w_db w) @ [decision_row_of rq c (w_db w)]\<rparr>\<rparr>)"
proof -
  let ?d = "w_db w" and ?t = "cm_tenant c" and ?a = "cm_agent c" and ?m = "cm_model c"
  obtain r where r: "effective_row ?t ?a ?m ?d = Some r" "pr_effect r = ALLOW"
    using assms(2) by (auto simp: verdict_def split: option.splits)
  then have "r \<in> set (permissions ?d)" using effective_row_key by blast
  then have le: "pr_created_at r \<le> pr_updated_at r" and mem: "pr_id r \<in> pr_id ` set (permissions ?d)"
    using assms(3) by (auto simp: permissions_ok_def)
  then obtain p where p: "permission_from_row pf r = Inr p" by (auto simp: permission_from_row_Inr_iff)
  then have pe: "am_effect p = ALLOW" "am_id p = pr_id r" using r(2) by (auto simp: permission_from_row_Inr_iff)
  let ?x = "\<lparr>de_id = id_at rq 1, de_invocation_id = id_at rq 0, de_tenant_id = ?t, de_agent_id = ?a, de_model_id = ?m,
      de_permission_id = Some (pr_id r), de_effect = ALLOW, de_decided_at = clock rq 1\<rparr>"
  let ?d' = "?d\<lparr>decisions := decisions ?d @ [decision_row_of rq c ?d]\<rparr>"
  have row: "decision_to_row ?x = decision_row_of rq c ?d"
    using r by (simp add: decision_to_row_def decision_row_of_def verdict_def)
  have ins: "decision_insert (decision_row_of rq c ?d) ?d = Inr ?d'"
    using assms(4) admitted_rows [OF assms(1)] r mem
    by (simp add: decision_insert_Inr_iff decision_row_of_def fresh_run_def)
  have "evaluate_permission pf (id_at rq 1) (clock rq 1) (id_at rq 0) ?t ?a ?m ?d = (Inr ?x, ?d')"
    unfolding evaluate_permission_Inr_iff row [symmetric]
    using r p pe ins [folded row] by (intro exI [of _ "Some p"]) (simp add: effective_permission_def)
  then have "runtime_policy_decide pf (id_at rq 1) (clock rq 1) (id_at rq 0) ?t ?a ?m ?d
      = (Inr (id_at rq 1, lit ''allow'', Some (pr_id r)), ?d')"
    by (simp add: runtime_policy_decide_def bnd_def effect_value_def)
  then show ?thesis by (simp add: decide_policy_def bnd_def on_db_run Let_def request_core_def)
qed

lemma create_invocation_admitted:
  assumes "admitted c ref (w_db w)" "db_up rq 0" "db_up rq 1" "db_up rq 2"
  shows "create_invocation pf rq gw c w = decide_policy pf rq gw c (py_strip (cm_input c)) (lit ''openai'') ref w"
  using assms by (simp add: create_invocation_def bnd_def read_db_def admitted_def)

subsection \<open>What can be recorded\<close>

text \<open>
  Prices as validated settings give them, in the columns of the table; and an answer whose text
  and token counts fit the columns (PostgreSQL stores no NUL, and counts are 32-bit integers).
\<close>

definition prices_storable :: "gateway \<Rightarrow> bool" where
  "prices_storable gw \<longleftrightarrow> (\<forall>k p. gw_pricing gw k = Some p \<longrightarrow> ps_currency p = usd \<and> text_fits 255 (ps_version p)
     \<and> 0 < ps_basis_units p \<and> int4_fits (ps_basis_units p) \<and> rate_ok (ps_input_rate p) \<and> on_grid (ps_input_rate p)
     \<and> rate_ok (ps_output_rate p) \<and> on_grid (ps_output_rate p))"

definition answer_storable :: "response \<Rightarrow> bool" where
  "answer_storable rs \<longleftrightarrow> py_strip (rs_output_text rs) \<noteq> [] \<and> text_ok (rs_output_text rs) \<and> text_ok (rs_id rs)
     \<and> opt_ok (\<lambda>u. opt_ok int4_fits (us_input u) \<and> opt_ok int4_fits (us_output u) \<and> opt_ok int4_fits (us_total u))
         (normalized_usage (rs_usage rs))"

lemma set_py_strip: "set (py_strip s) \<subseteq> set s"
  unfolding py_strip_def by (auto dest!: set_dropWhileD)

lemma text_ok_strip: "text_ok s \<Longrightarrow> text_ok (py_strip s)"
  using set_py_strip [of s] by (auto simp: text_ok_def)

lemma attribute_succeeds:
  assumes "prices_storable gw" "answer_storable rs"
  shows "\<exists>cst. attribute_cost (normalized_usage (rs_usage rs)) (gw_pricing gw k) = Inr cst"
proof (cases "normalized_usage (rs_usage rs)")
  case None
  then show ?thesis by (simp add: attribute_cost_def)
next
  case u: (Some u)
  show ?thesis
  proof (cases "gw_pricing gw k")
    case None
    then show ?thesis by (simp add: attribute_cost_def split: option.split)
  next
    case p: (Some p)
    show ?thesis
    proof (cases "us_input u = None \<or> us_output u = None")
      case True
      then show ?thesis using u p by (auto simp: attribute_cost_def split: option.split)
    next
      case False
      then obtain i out where io: "us_input u = Some i" "us_output u = Some out" by auto
      have b: "0 \<le> i" "i < 2 ^ 31" "0 \<le> out" "out < 2 ^ 31"
        using normalized_usage_ok [OF u] assms(2) u io by (auto simp: usage_ok_def answer_storable_def int4_fits_def)
      have pr: "rate_ok (ps_input_rate p)" "rate_ok (ps_output_rate p)" "0 < ps_basis_units p" "ps_currency p = usd"
        using assms(1) [unfolded prices_storable_def, rule_format, OF p] by simp_all
      obtain ci where ci: "cost_part i (ps_input_rate p) (ps_basis_units p) = Inr ci"
        using cost_part_accurate [of i "ps_input_rate p" "ps_basis_units p"] b pr by auto
      obtain co where co: "cost_part out (ps_output_rate p) (ps_basis_units p) = Inr co"
        using cost_part_accurate [of out "ps_output_rate p" "ps_basis_units p"] b pr by auto
      note bi = cost_part_small [OF ci b(1,2) pr(1,3)] and bo = cost_part_small [OF co b(3,4) pr(2,3)]
      have "exact_sum ci co" using bi bo by (simp add: exact_sum_def dec_sum_def coef_at_def)
      then have "dec_add default_prec ci co = dec_sum ci co" by (rule exact_sum_dexp)
      then have "0 \<le> coef (dec_add default_prec ci co)" using bi bo by (simp add: dec_sum_def coef_at_def)
      then show ?thesis using u p io ci co pr(4) bi(2) bo(2)
        by (simp add: attribute_cost_def cost_init_def dec_eq_iff dec_less_iff not_less dval_nonneg_iff)
    qed
  qed
qed

lemma grid_bound:
  assumes "on_grid r" "rate_ok r"
  shows "\<bar>to_numeric r\<bar> < 10 ^ 18"
proof -
  have "(of_int (to_numeric r) :: rat) < 10 ^ 6 * 10 ^ 12"
    unfolding on_grid_numeric [OF assms(1)] using assms(2) by (simp add: rate_ok_def)
  then have "(of_int (to_numeric r) :: rat) < of_int (10 ^ 18)" by simp
  then have "to_numeric r < 10 ^ 18" by (simp only: of_int_less_iff)
  moreover have "0 \<le> to_numeric r" using assms(2) by (intro to_numeric_sign) (simp add: rate_ok_def)
  ultimately show ?thesis by simp
qed

lemma cost_columns:
  assumes "prices_storable gw" "answer_storable rs"
    and "attribute_cost (normalized_usage (rs_usage rs)) (gw_pricing gw k) = Inr (Some c)"
  shows "cost_wf c \<and> co_currency c = usd \<and> text_fits 255 (co_version c) \<and> int4_fits (co_basis_units c)
    \<and> \<bar>to_numeric (co_input c)\<bar> < 10 ^ 30 \<and> \<bar>to_numeric (co_output c)\<bar> < 10 ^ 30 \<and> \<bar>to_numeric (co_total c)\<bar> < 10 ^ 30
    \<and> \<bar>to_numeric (co_input_rate c)\<bar> < 10 ^ 18 \<and> \<bar>to_numeric (co_output_rate c)\<bar> < 10 ^ 18"
proof -
  obtain u p i out where e: "normalized_usage (rs_usage rs) = Some u" "gw_pricing gw k = Some p" "us_input u = Some i"
    "us_output u = Some out" "cost_part i (ps_input_rate p) (ps_basis_units p) = Inr (co_input c)"
    "cost_part out (ps_output_rate p) (ps_basis_units p) = Inr (co_output c)" "co_version c = ps_version p"
    "co_basis_units c = ps_basis_units p" "co_input_rate c = ps_input_rate p" "co_output_rate c = ps_output_rate p"
    "co_currency c = ps_currency p"
    using attribute_cost_SomeD [OF assms(3)] by auto
  have b: "0 \<le> i" "i < 2 ^ 31" "0 \<le> out" "out < 2 ^ 31" and fit: "opt_ok int4_fits (us_input u)" "opt_ok int4_fits (us_output u)"
    using normalized_usage_ok [OF e(1)] assms(2) e(1,3,4) by (auto simp: usage_ok_def answer_storable_def int4_fits_def)
  have pr: "rate_ok (ps_input_rate p)" "rate_ok (ps_output_rate p)" "0 < ps_basis_units p" "ps_currency p = usd"
    "text_fits 255 (ps_version p)" "int4_fits (ps_basis_units p)" "on_grid (ps_input_rate p)" "on_grid (ps_output_rate p)"
    using assms(1) [unfolded prices_storable_def, rule_format, OF e(2)] by simp_all
  note bi = cost_part_small [OF e(5) b(1,2) pr(1,3)] and bo = cost_part_small [OF e(6) b(3,4) pr(2,3)]
  have wf: "cost_wf c"
    using attributed_cost_wf [OF _ pr(1-3) normalized_usage_ok [OF e(1)] fit] assms(3) e(1,2) by simp
  have n: "to_numeric (co_input c) = coef (co_input c)" "to_numeric (co_output c) = coef (co_output c)"
    using bi(1) bo(1) by (simp_all add: to_numeric_def coef_at_def)
  have "\<bar>to_numeric (co_input c)\<bar> < 10 ^ 30" "\<bar>to_numeric (co_output c)\<bar> < 10 ^ 30"
    "\<bar>to_numeric (co_total c)\<bar> < 10 ^ 30"
    unfolding cost_wf_total(2) [OF wf] n using bi(2,3) bo(2,3) by simp_all
  then show ?thesis using wf pr e(7-11) grid_bound [OF pr(7,1)] grid_bound [OF pr(8,2)] by simp
qed

text \<open>A request whose text and principal fit the columns, answered within the range of the duration column.\<close>

definition request_storable :: "request \<Rightarrow> command \<Rightarrow> bool" where
  "request_storable rq c \<longleftrightarrow> text_ok (cm_input c) \<and> py_strip (cm_principal c) \<noteq> [] \<and> text_fits 255 (cm_principal c)
     \<and> clock_at rq 0 \<le> clock_at rq 2 \<and> clock_at rq 2 - clock_at rq 0 < 2 ^ 31 * 1000"

lemma success_exists:
  assumes "request_storable rq c" "answer_storable rs" "prices_storable gw"
    and "validated_input (cm_input c) = Inr (py_strip (cm_input c))"
    and "attribute_cost (normalized_usage (rs_usage rs)) (gw_pricing gw k) = Inr cst"
  shows "\<exists>v. invocation_succeeded (request_core rq c) (rs_output_text rs) (normalized_usage (rs_usage rs))
      (provider_response_id (rs_id rs)) cst = Inr v
    \<and> invocation_wf v \<and> invocation_columns_fit (invocation_to_row v)"
proof -
  let ?core = "request_core rq c" and ?u = "normalized_usage (rs_usage rs)" and ?id = "provider_response_id (rs_id rs)"
  define ms where "ms = (clock_at rq 2 - clock_at rq 0) div 1000"
  define v where "v = (blank_invocation ?core SUCCEEDED ms)\<lparr>iv_output_text := Some (rs_output_text rs), iv_usage := ?u,
      iv_provider_response_id := ?id, iv_estimated_cost := cst\<rparr>"
  have ms: "0 \<le> ms" "ms < 2 ^ 31" using assms(1) by (auto simp: ms_def request_storable_def)
  have dur: "core_duration ?core = Inr ms"
    using assms(1) by (simp add: core_duration_def duration_ms_eq ms_def request_storable_def)
  have id: "opt_ok (\<lambda>s. py_strip s = s \<and> s \<noteq> [] \<and> length s \<le> 255 \<and> text_ok s) ?id"
    using assms(2) text_ok_strip [of "rs_id rs"]
    by (auto simp: provider_response_id_def Let_def max_provider_response_id_length_def answer_storable_def)
  have cst: "opt_ok cost_wf cst" "opt_ok (\<lambda>c. co_currency c = usd \<and> text_fits 255 (co_version c) \<and> int4_fits (co_basis_units c)
    \<and> \<bar>to_numeric (co_input c)\<bar> < 10 ^ 30 \<and> \<bar>to_numeric (co_output c)\<bar> < 10 ^ 30 \<and> \<bar>to_numeric (co_total c)\<bar> < 10 ^ 30
    \<and> \<bar>to_numeric (co_input_rate c)\<bar> < 10 ^ 18 \<and> \<bar>to_numeric (co_output_rate c)\<bar> < 10 ^ 18) cst"
    using cost_columns [OF assms(3,2), of k] assms(5) by (cases cst; simp)+
  have priced: "cst = None \<or> (\<exists>u. ?u = Some u \<and> us_input u \<noteq> None \<and> us_output u \<noteq> None)"
    using attribute_cost_SomeD [of ?u "gw_pricing gw k"] assms(5) by (cases cst) auto
  have out: "py_strip (rs_output_text rs) \<noteq> []" using assms(2) by (simp add: answer_storable_def)
  have input: "py_strip (cm_input c) \<noteq> []" "length (py_strip (cm_input c)) \<le> 10000"
    using assms(4) by (simp_all add: validated_input_Inr_iff)
  have str: "stripped v = v"
    using id by (cases ?id) (auto simp: stripped_def v_def blank_invocation_def)
  have ok: "invocation_ok v"
    using assms(1) ms(1) id out input priced
    by (auto simp: invocation_ok_def v_def blank_invocation_def request_storable_def output_check_def
        usage_evidence_check_def budget_evidence_check_def cost_check_def opt_ok_def split: option.split)
  have succ: "invocation_succeeded ?core (rs_output_text rs) ?u ?id cst = Inr v"
    using dur ok by (simp add: invocation_succeeded_def invocation_init_Inr_iff v_def [symmetric] str)
  have usage: "opt_ok usage_ok ?u" using normalized_usage_ok [of "rs_usage rs"] by (cases ?u) auto
  have wf: "invocation_wf v"
    using ok usage cst(1) by (simp add: invocation_wf_def budget_wf_def) (simp add: v_def blank_invocation_def)
  have fit: "invocation_columns_fit (invocation_to_row v)"
    using assms(1,2) ms id cst(2) text_ok_strip [of "cm_input c"]
    by (cases ?u; cases ?id; cases cst)
       (simp_all add: invocation_columns_fit_def invocation_to_row_def v_def blank_invocation_def request_storable_def
          answer_storable_def int4_fits_def text_fits_def text_ok_def usd_def lit_simps)
  show ?thesis using succ wf fit by blast
qed

text \<open>A permitted run reaches the provider, with its decision recorded.\<close>

definition decided :: "request \<Rightarrow> command \<Rightarrow> world \<Rightarrow> world" where
  "decided rq c w = w\<lparr>w_db := (w_db w)\<lparr>decisions := decisions (w_db w) @ [decision_row_of rq c (w_db w)]\<rparr>\<rparr>"

lemma permitted_run:
  assumes "permitted rq gw c ref (w_db w)" "permissions_ok (w_db w)" "costs_recorded_ok w" "units_recorded_ok w"
    and "fresh_run rq (w_db w)" "day_ok (clock_at rq 0)" "\<forall>n < 5. db_up rq n"
  shows "create_invocation pf rq gw c w = call_provider gw (lit ''openai'') ref (request_core rq c) (decided rq c w)"
proof -
  let ?core = "request_core rq c" and ?w1 = "decided rq c w"
  have adm: "admitted c ref (w_db w)" and allow: "verdict (cm_tenant c) (cm_agent c) (cm_model c) (w_db w) = ALLOW"
    and room: "usage_headroom c (clock_at rq 0) (w_db ?w1)" "cost_headroom gw (cm_tenant c) (clock_at rq 0) (w_db ?w1)"
    using assms(1) by (simp_all add: permitted_def usage_headroom_def cost_headroom_def ledger_amount_def consumed_units_def
        attributed_units_def decided_def)
  have rows1: "costs_recorded_ok ?w1" "units_recorded_ok ?w1"
    using assms(3,4) by (simp_all add: costs_recorded_ok_def units_recorded_ok_def decided_def)
  have up: "db_up rq 0" "db_up rq 1" "db_up rq 2" "db_up rq 3" "db_up rq 4" using assms(7) by simp_all
  have "create_invocation pf rq gw c w = decide_policy pf rq gw c (py_strip (cm_input c)) (lit ''openai'') ref w"
    by (rule create_invocation_admitted [OF adm up(1-3)])
  also have "\<dots> = check_usage pf rq gw c (lit ''openai'') ref ?core ?w1"
    unfolding decided_def by (rule decide_policy_run [OF adm allow assms(2,5)])
  also have "\<dots> = check_budget rq gw (lit ''openai'') ref ?core (day_window (clock_at rq 0)) ?w1"
    by (rule check_usage_run [OF _ assms(6) room(1) rows1(2) up(4)]) simp
  also have "\<dots> = call_provider gw (lit ''openai'') ref ?core ?w1"
    by (rule check_budget_run [OF _ rows1(1) up(5)]) (simp add: room)
  finally show ?thesis .
qed

text \<open>
  C6. A permitted request is answered: when a configured workload asks for a registered model of
  its tenant within the schema, policy allows the triple, limit and budget have room, the five
  reads reach the database, the clocks are in the calendar, the identities drawn are new, and the
  provider answers with a text whose data fit the columns, then the request is answered 201 with
  the output and usage of the provider, after one call of it, one decision and one invocation.
\<close>

theorem permitted_request_answered:
  assumes "hq_endpoint req = PostInvocation m text" "parameters_valid (hq_endpoint req)"
    and "require_runtime_principal (app_runtime_auth ap) (hq_credentials req) = Inr wl"
    and "permitted (dr_main dr) (app_gateway ap) (command_of wl m text) ref (w_db w)"
    and "system_ok pf (w_db w)" "costs_recorded_ok w" "units_recorded_ok w"
    and "fresh_run (dr_main dr) (w_db w)" "day_ok (clock_at (dr_main dr) 0)" "\<forall>n < 5. db_up (dr_main dr) n"
    and "openai_client (gw_provider (app_gateway ap)) = Some client" "client ref (py_strip text) = Inr rs"
    and "answer_storable rs" "prices_storable (app_gateway ap)" "request_storable (dr_main dr) (command_of wl m text)"
  shows "\<exists>v w'. serve pf ap dr req w = (Answer 201 (api ''/api/v1/runtime/invocations/'' (id_at (dr_main dr) 0))
        (InvocationBody (invocation_response_of v)), w')
    \<and> iv_id v = id_at (dr_main dr) 0 \<and> iv_status v = SUCCEEDED \<and> iv_output_text v = Some (rs_output_text rs)
    \<and> iv_usage v = normalized_usage (rs_usage rs)
    \<and> advances w w' [decision_row_of (dr_main dr) (command_of wl m text) (w_db w)] [invocation_to_row v] [(ref, py_strip text)]"
proof -
  let ?rq = "dr_main dr" and ?gw = "app_gateway ap" and ?c = "command_of wl m text"
  let ?core = "request_core ?rq ?c" and ?w1 = "decided ?rq ?c w"
  let ?d1 = "w_db ?w1"
  have c [simp]: "cm_input ?c = text" by (simp add: command_of_def)
  have adm: "admitted ?c ref (w_db w)" using assms(4) by (simp add: permitted_def)
  have perms: "permissions_ok (w_db w)" using assms(5) by (simp add: system_ok_def catalogue_ok_def)
  have run: "create_invocation pf ?rq ?gw ?c w = call_provider ?gw (lit ''openai'') ref ?core ?w1"
    by (rule permitted_run [OF assms(4) perms assms(6-10)])
  obtain cst where cst: "attribute_cost (normalized_usage (rs_usage rs)) (gw_pricing ?gw (lit ''openai'', ref)) = Inr cst"
    using attribute_succeeds [OF assms(14,13)] by blast
  have valid: "validated_input (cm_input ?c) = Inr (py_strip (cm_input ?c))" using adm unfolding admitted_def by (elim conjE)
  obtain v where v: "invocation_succeeded ?core (rs_output_text rs) (normalized_usage (rs_usage rs))
      (provider_response_id (rs_id rs)) cst = Inr v" "invocation_wf v" "invocation_columns_fit (invocation_to_row v)"
    using success_exists [OF assms(15,13,14) valid cst] by blast
  have core: "from_core ?core v" "iv_status v = SUCCEEDED" "iv_output_text v = Some (rs_output_text rs)"
    "iv_usage v = normalized_usage (rs_usage rs)"
    using constructed(1) [OF v(1)] by simp_all
  let ?d2 = "?d1\<lparr>invocations := invocations (w_db w) @ [invocation_to_row v]\<rparr>"
  have ins: "invocation_insert (invocation_to_row v) (w_db ?w1) = Inr ?d2"
    using v(3) invocation_row_checks [OF v(2)] admitted_rows [OF adm] assms(8) core(1)
    by (simp add: invocation_insert_Inr_iff decided_def) (simp add: invocation_to_row_def from_core_def fresh_run_def decision_row_of_def)
  have out: "py_strip (rs_output_text rs) \<noteq> []" using assms(13) by (simp add: answer_storable_def)
  have "call_provider ?gw (lit ''openai'') ref ?core ?w1
      = (Inr v, ?w1\<lparr>w_db := ?d2, provider_calls := provider_calls w @ [(ref, py_strip text)]\<rparr>)"
    using call_provider_run [OF assms(11) _ out cst v(1) ins] assms(12) by (simp add: decided_def)
  then have "serve pf ap dr req w = (Answer 201 (api ''/api/v1/runtime/invocations/'' (iv_id v))
      (InvocationBody (invocation_response_of v)), w\<lparr>w_db := ?d2, provider_calls := provider_calls w @ [(ref, py_strip text)]\<rparr>)"
    using assms(1-3) run
    by (simp add: decided_def serve_def dispatch_def bnd_def validate_def create_invocation_route_def)
  then show ?thesis using core
    by (intro exI [of _ v] exI [of _ "w\<lparr>w_db := ?d2, provider_calls := provider_calls w @ [(ref, py_strip text)]\<rparr>"])
       (simp add: from_core_def advances_def decided_def)
qed

theorem permitted_request_answered_witness:
  "\<exists>v w'. serve ex_platform ex_app ex_draws ex_post ex_world
     = (Answer 201 (api ''/api/v1/runtime/invocations/'' 100) (InvocationBody (invocation_response_of v)), w')
   \<and> iv_output_text v = Some [111] \<and> provider_calls w' = [([103], [105])]"
proof -
  have c: "command_of ex_workload 3 [105] = ex_command" by (simp add: command_of_def ex_workload_def ex_command_def)
  have e: "hq_endpoint ex_post = PostInvocation 3 [105]" "parameters_valid (hq_endpoint ex_post)"
    "require_runtime_principal (app_runtime_auth ex_app) (hq_credentials ex_post) = Inr ex_workload"
    by (simp_all add: ex_post_def parameters_valid_def CreateInvocationRequest_ok_def length_between_def
        max_invocation_input_length_def ex_runtime_login)
  have "ndigits 1 = 1" by (subst ndigits.simps) simp
  then have p: "permitted (dr_main ex_draws) (app_gateway ex_app) (command_of ex_workload 3 [105]) [103] (w_db ex_world)"
    unfolding c
    by (simp add: permitted_def admitted_def validated_input_def text_ev max_invocation_input_length_def tenant_exists_def
        owned_by_def admitted_agent_def runtime_model_def provider_value_def ex_db_def ex_tenant_def ex_agent_def
        ex_model_def verdict_def effective_row_def permission_key_def ex_permission_def usage_headroom_def
        cost_headroom_def ledger_amount_def consumed_units_def attributed_units_def empty_db_def ex_budget_def
        dec_le_def dec_less_def dec_add_def dec_sum_def dec_fix_def coef_at_def default_prec_def)
  have s: "answer_storable ex_response" "prices_storable (app_gateway ex_app)"
    "request_storable (dr_main ex_draws) (command_of ex_workload 3 [105])"
    unfolding c
    by (simp_all add: answer_storable_def ex_response_def text_ev text_ok_def normalized_usage_def InvocationUsage_def
        reported_units_def usage_init_def int4_fits_def prices_storable_def request_storable_def text_fits_def
        ex_pricing_def rate_ok_def on_grid_def dval_def)
  have d: "day_ok (clock_at (dr_main ex_draws) 0)"
    by (simp add: day_ok_def representable_def max_wall_def day_us_def day_start_def)
  have strip: "py_strip [105] = [105]" by (simp add: text_ev)
  show ?thesis
    using permitted_request_answered [OF e p _ _ _ _ d _ _ _ s, of ex_platform "\<lambda>_ _. Inr ex_response"] ex_system_ok
    by (simp add: costs_recorded_ok_def units_recorded_ok_def fresh_run_def advances_def strip)
       (auto simp: ex_response_def)
qed

end
