(* ===== verification/Replies.thy ===== *)
theory Replies
  imports HttpLaws
begin

text \<open>
  The shape of every reply: a success is 200 or 201, a failure is one problem document whose
  status, header and fields are determined by the kind of the exception, and that reveals
  nothing about an unexpected one.
\<close>

subsection \<open>Successes\<close>

definition answer_ok :: "reply \<Rightarrow> bool" where
  "answer_ok r = (case r of Answer code _ _ \<Rightarrow> code = 200 \<or> code = 201 | Failure _ \<Rightarrow> False)"

definition answering :: "('e, 's, reply) op \<Rightarrow> bool" where
  "answering m \<longleftrightarrow> (\<forall>s r s'. m s = (Inr r, s') \<longrightarrow> answer_ok r)"

lemma answering_bnd [intro]: "(\<And>a. answering (f a)) \<Longrightarrow> answering (bnd m f)"
  by (auto simp: answering_def bnd_def split: prod.splits sum.splits)

lemma answering_simps [simp]:
  "answering (ret (Answer 200 loc b))" "answering (ret (Answer 201 loc b))" "answering (throw e)"
  by (simp_all add: answering_def answer_ok_def)

lemma answering_on_db [intro]: "answering m \<Longrightarrow> answering (on_db m)"
  by (auto simp: answering_def on_db_def split: prod.splits)

lemma answering_routes [simp, intro]:
  "answering (create_tenant_route pf rq name)" "answering (get_tenant_route pf p i)"
  "answering (register_agent_route pf rq p i name)" "answering (get_agent_route pf p i)"
  "answering (register_model_route pf rq p i name prov ref)" "answering (get_model_route pf p i)"
  "answering (set_permission_route pf rq p i a m eff)" "answering (get_permission_route pf p i)"
  "answering (list_audit_records_route pf rq p i s e cap)" "answering (get_runtime_report_route pf rq p i s e)"
  "answering (create_invocation_route pf rq gw wl m tx)" "answering (get_invocation_route pf wl i)"
  "answering (list_evidence_route pf rq p ci qi s e cap)" "answering (bootstrap_route pf sv rq creds name ts)"
  "answering (create_principal_route pf rq p name ts mgr)" "answering (list_principals_route pf rq p cap)"
  "answering (get_principal_route pf p i)" "answering (list_credentials_route pf rq p i cap)"
  "answering (set_scopes_route pf rq p i ts)" "answering (issue_credential_route pf sv rq p i label x)"
  "answering (revoke_credential_route pf rq p i k)" "answering (disable_principal_route pf rq p i)"
  unfolding create_tenant_route_def get_tenant_route_def register_agent_route_def get_agent_route_def
    register_model_route_def get_model_route_def set_permission_route_def get_permission_route_def
    list_audit_records_route_def get_runtime_report_route_def create_invocation_route_def get_invocation_route_def
    list_evidence_route_def bootstrap_route_def create_principal_route_def list_principals_route_def
    get_principal_route_def list_credentials_route_def set_scopes_route_def issue_credential_route_def
    revoke_credential_route_def disable_principal_route_def
  by (auto intro!: answering_bnd split: prod.split option.split)

lemma answering_runtime_routes [simp, intro]:
  "answering (runtime_create_route pf rsv rq p i a n k label x)" "answering (runtime_get_route pf rq p i)"
  "answering (usage_limits_route pf rq rq' p i n k)" "answering (preflight_route pf rsv rq p i l)"
  "answering (bind_route pf rsv rq rq' p i l)" "answering (runtime_issue_route pf rsv rq p i label x)"
  "answering (runtime_revoke_route pf rq p i j)" "answering (runtime_disable_route pf rq p i)"
  unfolding runtime_create_route_def runtime_get_route_def usage_limits_route_def preflight_route_def bind_route_def
    runtime_issue_route_def runtime_revoke_route_def runtime_disable_route_def
  by (auto intro!: answering_bnd split: prod.split option.split)

lemma answering_dispatch: "answering (dispatch pf ap dr req)"
proof (cases "is_management (hq_endpoint req)")
  case True
  have "answering (management_route pf ap dr p ep)" for p ep by (cases ep) simp_all
  then show ?thesis unfolding dispatch_management [OF True] guarded_def
    by (intro answering_on_db answering_bnd)
next
  case False
  then show ?thesis
    by (cases "hq_endpoint req") (auto simp: dispatch_def is_management_def Let_def intro!: answering_bnd)
qed

subsection \<open>Failures\<close>

definition internal_error :: "pystr \<Rightarrow> problem" where
  "internal_error path = problem_response path ''Internal Server Error'' 500 ''An unexpected error occurred.''"

definition problem_ok :: "pystr \<Rightarrow> problem \<Rightarrow> bool" where
  "problem_ok path p \<longleftrightarrow> pb_instance p = path \<and> pb_status p \<in> {401, 403, 404, 409, 422, 429, 500, 502, 503}
     \<and> (pb_status p = 401 \<longleftrightarrow> p = unauthorized path) \<and> (pb_authenticate p \<longleftrightarrow> pb_status p = 401)
     \<and> (pb_status p = 500 \<longleftrightarrow> p = internal_error path) \<and> (pb_decision_id p \<noteq> None \<longleftrightarrow> pb_status p = 403)
     \<and> (pb_invocation_id p \<noteq> None \<longleftrightarrow> pb_status p = 429) \<and> (pb_window_end p \<noteq> None \<longleftrightarrow> pb_status p = 429)"

lemma problem_of_ok: "problem_ok path (problem_of path e)"
  by (cases e)
     (simp_all add: problem_simps problem_ok_def internal_error_def unauthorized_def problem_response_def
        unavailable_resource_def cost_budget_unavailable_def policy_unavailable_def mgmt_not_found_def runtime_hidden_def)

text \<open>
  C13. Every reply is well formed: whatever is requested, by whom and in whatever state, it is
  a body with status 200 or 201, or one problem document that names the path and has one of nine
  statuses; the 401 documents are all the same and alone carry the challenge; an unexpected
  exception always gives the same document; and only a denial names a decision and only an
  exhausted limit or budget names an invocation and the end of its window.
\<close>

theorem every_reply_wellformed:
  "case fst (serve pf ap dr req w) of Answer code loc b \<Rightarrow> code = 200 \<or> code = 201
     | Failure p \<Rightarrow> problem_ok (hq_path req) p"
proof -
  obtain r w' where run: "dispatch pf ap dr req w = (r, w')" by fastforce
  show ?thesis
  proof (cases r)
    case (Inl e)
    then show ?thesis using run problem_of_ok by (simp add: serve_def)
  next
    case (Inr x)
    then have "answer_ok x" using run answering_dispatch [of pf ap dr req] unfolding answering_def by blast
    then show ?thesis using run Inr by (cases x) (simp_all add: serve_def answer_ok_def)
  qed
qed

text \<open>No exception has a handler in two contexts, so the order of installation does not matter.\<close>

lemma handlers_disjoint: "length (filter (\<lambda>h. h path e \<noteq> None) installed_handlers) \<le> 1"
  by (cases e) (simp_all add: problem_simps)

end
