(* ===== verification/Divergences.thy ===== *)
theory Divergences
  imports Delivery Replies
begin

text \<open>
  Where the code does something its names, comments or documents do not say, each as a theorem
  on the model.
\<close>

text \<open>
  A bootstrap token with a character beyond ASCII is not refused like any other wrong token:
  \<open>secrets.compare_digest\<close> raises \<open>TypeError\<close> on it, and the client sees 500 instead of 401.
\<close>

theorem bootstrap_token_beyond_ascii:
  assumes "hq_endpoint req = PostBootstrap name ts" "parameters_valid (hq_endpoint req)"
    and "bearer_token_of (hq_credentials req) = Some token" "c \<in> set token" "128 \<le> c"
  shows "serve pf ap dr req w = (Failure (internal_error (hq_path req)), w)"
proof -
  have "compare_digest token (ms_bootstrap_token (app_mgmt ap))
      = Inl (TypeError ''comparing strings with non-ASCII characters is not supported'')"
    using assms(4,5) by (auto simp: compare_digest_def not_less)
  then have "bootstrap pf (app_mgmt ap) (dr_main dr) token name ts (w_db w)
      = (Inl (TypeError ''comparing strings with non-ASCII characters is not supported''), w_db w)"
    by (simp add: bootstrap_def bnd_def)
  then show ?thesis using assms(1-3)
    by (simp add: serve_def dispatch_def bnd_def validate_def bootstrap_route_def on_db_run problem_simps internal_error_def)
qed

text \<open>
  A name of at most 100 characters may fold to more than the 200 that its column holds (U+0390
  folds to three): the registration then fails with an unexpected error instead of a refusal.
\<close>

theorem folded_name_too_long:
  assumes "canonical name \<noteq> []" "length (canonical name) \<le> 100" "200 < length (casefold pf (canonical name))"
  shows "\<exists>m. create_tenant pf rq name d = (Inl (DataError m), d)"
  using assms
  by (auto simp: create_tenant_def tenant_create_def TenantName_def unique_name_def tenant_init_def bnd_def persist_eq
      tenant_add_def translating_run with_uow_eq commit_after_def run_flush tenant_insert_def tenant_to_row_def failure_defs
      text_fits_def max_name_length_def Let_def)

text \<open>
  The budget decision is not exact: it adds in the default context of 28 digits, while budgets
  of 30 digits are accepted, so a sum beyond the budget can be rounded back to it.
\<close>

definition wide_budget :: budget_entry where
  "wide_budget = \<lparr>be_tenant_id = 1, be_budget = Dec (10 ^ 29) (-12), be_allowance = Dec 1 (-12), be_currency = lit ''USD''\<rparr>"

lemma ndigits_eq: "10 ^ k \<le> n \<Longrightarrow> n < 10 ^ Suc k \<Longrightarrow> 0 < k \<Longrightarrow> ndigits n = Suc k"
  using ndigits_le_iff [of "Suc k" n] ndigits_le_iff [of k n] by linarith

theorem budget_decision_rounds:
  "TenantBudgetSettings [wide_budget] = Inr [wide_budget]
   \<and> dval (be_budget wide_budget) < dval (Dec (10 ^ 29) (-12)) + dval (be_allowance wide_budget)
   \<and> (\<exists>x. decide_tenant_cost_budget (Dec (10 ^ 29) (-12))
        \<lparr>tb_limit = be_budget wide_budget, tb_allowance = be_allowance wide_budget, tb_currency = usd\<rparr> win = Inr x
      \<and> cb_allowed x)"
proof -
  have n: "ndigits 100000000000000000000000000001 = 30" "ndigits 1000000000000000000000000000 = 28"
    using ndigits_eq [of 29 100000000000000000000000000001] ndigits_eq [of 27 1000000000000000000000000000] by simp_all
  have "dec_add default_prec (Dec (10 ^ 29) (-12)) (Dec 1 (-12)) = Dec (10 ^ 27) (-10)"
    by (simp add: dec_add_def dec_sum_def coef_at_def dec_fix_def default_prec_def n round_div_def Let_def)
  then show ?thesis
    by (simp add: wide_budget_def TenantBudgetSettings_def budget_entry_init_def decimal_within_def dec_less_iff
        decide_cost_Inr_iff dec_le_iff dval_def)
qed

lemma call_provider_unrecorded:
  assumes "openai_client (gw_provider gw) = Some client" "client ref (ic_input_text core) = Inr rs"
    and "py_strip (rs_output_text rs) \<noteq> []" "\<not> text_ok (rs_output_text rs)"
  shows "\<exists>e. call_provider gw provider ref core w
    = (Inl e, w\<lparr>provider_calls := provider_calls w @ [(ref, ic_input_text core)]\<rparr>)"
proof -
  let ?u = "normalized_usage (rs_usage rs)" and ?id = "provider_response_id (rs_id rs)"
  let ?w1 = "w\<lparr>provider_calls := provider_calls w @ [(ref, ic_input_text core)]\<rparr>"
  have inv: "openai_invoke (gw_provider gw) ref (ic_input_text core) w
      = (Inr \<lparr>pi_output_text = rs_output_text rs, pi_usage = ?u, pi_response_id = ?id\<rparr>, ?w1)"
    using assms(1-3) by (simp add: openai_invoke_def Let_def)
  show ?thesis
  proof (cases "attribute_cost ?u (gw_pricing gw (provider, ref))")
    case (Inl e)
    then show ?thesis using inv by (simp add: call_provider_def bnd_def catch_def)
  next
    case (Inr cst)
    let ?v = "invocation_succeeded core (rs_output_text rs) ?u ?id cst"
    obtain r w' where p: "persist_invocation ?v ?w1 = (r, w')" by fastforce
    have "\<exists>e. r = Inl e \<and> w' = ?w1"
      using persist_invocation_cases [OF p]
    proof (elim disjE exE conjE)
      fix v'
      assume "?v = Inr v'" "invocation_insert (invocation_to_row v') (w_db ?w1) = Inr (w_db w')"
      then show ?thesis using assms(4) constructed(1) [of core "rs_output_text rs" ?u ?id cst v']
        by (simp add: invocation_insert_Inr_iff invocation_columns_fit_def) (simp add: invocation_to_row_def)
    qed blast
    then show ?thesis using inv Inr p by (auto simp: call_provider_def bnd_def catch_def)
  qed
qed

text \<open>
  An answer of the provider that the table cannot hold (here a text with U+0000; a token count
  beyond 32 bits does the same) has been asked for, but the request fails, no invocation is
  recorded, and neither the usage limit nor the budget counts it.
\<close>

theorem unstorable_answer_uncounted:
  assumes "permitted rq gw c ref (w_db w)" "permissions_ok (w_db w)" "costs_recorded_ok w" "units_recorded_ok w"
    and "fresh_run rq (w_db w)" "day_ok (clock_at rq 0)" "\<forall>n < 5. db_up rq n"
    and "openai_client (gw_provider gw) = Some client" "client ref (py_strip (cm_input c)) = Inr rs"
    and "py_strip (rs_output_text rs) \<noteq> []" "\<not> text_ok (rs_output_text rs)"
  shows "\<exists>e w'. create_invocation pf rq gw c w = (Inl e, w') \<and> invocations (w_db w') = invocations (w_db w)
    \<and> provider_calls w' = provider_calls w @ [(ref, py_strip (cm_input c))]
    \<and> (\<forall>p day. daily_units p day w' = daily_units p day w) \<and> (\<forall>t day. daily_cost t day w' = daily_cost t day w)"
proof -
  let ?w' = "(decided rq c w)\<lparr>provider_calls := provider_calls w @ [(ref, py_strip (cm_input c))]\<rparr>"
  obtain e where e: "create_invocation pf rq gw c w = (Inl e, ?w')"
    using call_provider_unrecorded [OF assms(8) _ assms(10,11), of ref "request_core rq c" "lit ''openai''" "decided rq c w"] assms(9)
    unfolding permitted_run [OF assms(1-7)] by (auto simp: decided_def)
  have inv: "invocations (w_db ?w') = invocations (w_db w)" by (simp add: decided_def)
  note same = idle_ledgers(1,2) [OF inv]
  show ?thesis
    by (intro exI [of _ e] exI [of _ ?w'] conjI allI e inv same) simp
qed

end
