(* ===== verification/Startup.thy ===== *)
theory Startup
  imports HttpProperties
begin

text \<open>
  Starting the program: what the application composed from validated settings prices, budgets
  and authenticates is what the settings say, entry by entry.
\<close>

definition pricing_of :: "pricing_entry \<Rightarrow> pricing" where
  "pricing_of e = \<lparr>ps_provider = pe_provider e, ps_reference = pe_reference e, ps_version = pe_version e,
     ps_basis_units = pe_basis_units e, ps_input_rate = pe_input_price e, ps_output_rate = pe_output_price e,
     ps_currency = usd\<rparr>"

definition workload_for :: "runtime_principal_entry \<Rightarrow> workload" where
  "workload_for e = \<lparr>wl_principal_id = re_principal_id e, wl_tenant_id = re_tenant_id e,
     wl_agent_id = re_agent_id e, wl_usage_limit = re_usage_limit e, wl_allowance = re_allowance e\<rparr>"

text \<open>
  The texts of the settings are not blank for \<open>str.strip\<close>, which removes the four separators
  U+001C to U+001F that the validation of the settings keeps.
\<close>

definition texts_visible :: "settings \<Rightarrow> bool" where
  "texts_visible st \<longleftrightarrow> (\<forall>e \<in> set (st_pricing st). py_strip (pe_provider e) \<noteq> [] \<and> py_strip (pe_reference e) \<noteq> []
     \<and> py_strip (pe_version e) \<noteq> []) \<and> (\<forall>e \<in> set (st_runtime_auth st). py_strip (re_principal_id e) \<noteq> [])"

lemma configured_pricing:
  assumes "PricingSettings raw = Inr es"
    and "\<forall>e \<in> set es. py_strip (pe_provider e) \<noteq> [] \<and> py_strip (pe_reference e) \<noteq> [] \<and> py_strip (pe_version e) \<noteq> []"
  shows "\<exists>f. ConfiguredInvocationPricing es = Inr f
    \<and> (\<forall>k p. f k = Some p \<longleftrightarrow> (\<exists>e \<in> set es. pricing_key e = k \<and> p = pricing_of e))"
proof -
  let ?p = "\<lambda>e. \<lparr>ps_provider = pe_provider e, ps_reference = pe_reference e, ps_version = pe_version e,
     ps_basis_units = pe_basis_units e, ps_input_rate = pe_input_price e, ps_output_rate = pe_output_price e,
     ps_currency = pe_currency e\<rparr>"
  have ok: "\<forall>e \<in> set es. pricing_entry_ok e" and d: "distinct (map pricing_key es)"
    using PricingSettings_ok [OF assms(1)] by simp_all
  then have same: "\<forall>e \<in> set es. ?p e = pricing_of e" by (simp add: pricing_of_def pricing_entry_ok_def usd_def)
  have "\<forall>e \<in> set es. pricing_init (?p e) = Inr (?p e)"
    using ok assms(2) by (auto simp: pricing_init_def pricing_entry_ok_def usd_def dec_less_iff not_less dval_nonneg_iff)
  then have c: "ConfiguredInvocationPricing es = Inr (dict_of fst snd (map (\<lambda>e. (pricing_key e, ?p e)) es))"
    by (simp add: ConfiguredInvocationPricing_def map_res_pair [where g = ?p])
  have "distinct (map fst (map (\<lambda>e. (pricing_key e, ?p e)) es))" using d by (simp add: o_def)
  note dict = dict_of_distinct [OF this, where val = snd]
  show ?thesis
  proof (intro exI conjI allI, rule c)
    fix k p
    show "dict_of fst snd (map (\<lambda>e. (pricing_key e, ?p e)) es) k = Some p
        \<longleftrightarrow> (\<exists>e \<in> set es. pricing_key e = k \<and> p = pricing_of e)"
      unfolding dict using same by auto
  qed
qed

lemma configured_workload:
  assumes "RuntimeAuthenticationSettings raw = Inr es" "e \<in> set es" "py_strip (re_principal_id e) \<noteq> []"
  shows "workload_of e = Inr (workload_for e)"
  using RuntimeAuthenticationSettings_ok(3) [OF assms(1)] assms(2,3)
  by (auto simp: workload_of_def workload_init_def workload_for_def)

lemma configured_login:
  assumes "RuntimeAuthenticationSettings raw = Inr es" "\<forall>e \<in> set es. py_strip (re_principal_id e) \<noteq> []"
  shows "require_runtime_principal es creds =
    (case find (\<lambda>e. bearer_token_of creds = Some (re_credential e)) es of None \<Rightarrow> Inl RuntimeAuthenticationFailed
     | Some e \<Rightarrow> Inr (workload_for e))"
proof (cases "find (\<lambda>e. bearer_token_of creds = Some (re_credential e)) es")
  case None
  then have "filter (\<lambda>e. re_credential e = s) es = []" if "bearer_token_of creds = Some s" for s
    using that by (auto simp: find_None_iff filter_empty_conv)
  then show ?thesis using None by (auto simp: require_runtime_principal_def split: option.split)
next
  case (Some e)
  then have e: "e \<in> set es" "bearer_token_of creds = Some (re_credential e)" by (auto simp: find_Some_iff)
  have "filter (\<lambda>y. re_credential y = re_credential e) es = [e]"
    by (rule one_match [OF RuntimeAuthenticationSettings_ok(2) [OF assms(1)] e(1)])
  moreover have "workload_of e = Inr (workload_for e)" using configured_workload [OF assms(1) e(1)] assms(2) e(1) by simp
  ultimately show ?thesis using Some e(2) by (simp add: require_runtime_principal_def)
qed

lemma Settings_Inr_iff:
  "Settings raw = Inr st \<longleftrightarrow> (\<exists>pr bs sec auth. PricingSettings (st_pricing raw) = Inr pr
     \<and> TenantBudgetSettings (st_tenant_budgets raw) = Inr bs \<and> SecuritySettings (st_security raw) = Inr sec
     \<and> RuntimeAuthenticationSettings (st_runtime_auth raw) = Inr auth
     \<and> (\<forall>e \<in> set auth. re_credential e \<noteq> management_bootstrap_token sec)
     \<and> st = raw\<lparr>st_pricing := pr, st_tenant_budgets := bs, st_security := sec, st_runtime_auth := auth\<rparr>)"
  by (auto simp: Settings_def and_then_Inr_iff split: if_splits)

text \<open>
  C14. The application started from validated settings is the one they describe: it starts, its
  prices and budgets are exactly the configured entries, a request authenticates as a runtime
  workload exactly when its bearer token is the credential of a configured entry, and then as
  that entry with its own limit and allowance, and the bootstrap token is no such credential.
\<close>

theorem startup_as_configured:
  assumes "Settings raw = Inr st" "texts_visible st"
  shows "\<exists>ap. create_app sdk st = Inr ap
    \<and> (\<forall>k p. gw_pricing (app_gateway ap) k = Some p \<longleftrightarrow> (\<exists>e \<in> set (st_pricing st). pricing_key e = k \<and> p = pricing_of e))
    \<and> (\<forall>t b. gw_budgets (app_gateway ap) t = Some b \<longleftrightarrow> (\<exists>e \<in> set (st_tenant_budgets st). be_tenant_id e = t
         \<and> b = \<lparr>tb_limit = be_budget e, tb_allowance = be_allowance e, tb_currency = usd\<rparr>))
    \<and> (\<forall>creds. require_runtime_principal (app_runtime_auth ap) creds =
         (case find (\<lambda>e. bearer_token_of creds = Some (re_credential e)) (st_runtime_auth st) of
            None \<Rightarrow> Inl RuntimeAuthenticationFailed | Some e \<Rightarrow> Inr (workload_for e)))
    \<and> ms_bootstrap_token (app_mgmt ap) \<notin> re_credential ` set (app_runtime_auth ap)"
proof -
  obtain pr bs sec auth where s: "PricingSettings (st_pricing raw) = Inr pr"
    "TenantBudgetSettings (st_tenant_budgets raw) = Inr bs" "RuntimeAuthenticationSettings (st_runtime_auth raw) = Inr auth"
    "\<forall>e \<in> set auth. re_credential e \<noteq> management_bootstrap_token sec"
    "st_pricing st = pr" "st_tenant_budgets st = bs" "st_security st = sec" "st_runtime_auth st = auth"
    using assms(1) by (auto simp: Settings_Inr_iff)
  have v: "\<forall>e \<in> set pr. py_strip (pe_provider e) \<noteq> [] \<and> py_strip (pe_reference e) \<noteq> [] \<and> py_strip (pe_version e) \<noteq> []"
    "\<forall>e \<in> set auth. py_strip (re_principal_id e) \<noteq> []"
    using assms(2) s(5,8) by (simp_all add: texts_visible_def)
  obtain f where f: "ConfiguredInvocationPricing pr = Inr f"
    "\<forall>k p. f k = Some p \<longleftrightarrow> (\<exists>e \<in> set pr. pricing_key e = k \<and> p = pricing_of e)"
    using configured_pricing [OF s(1) v(1)] by blast
  obtain g where g: "ConfiguredTenantCostBudgets bs = Inr g"
    "\<forall>t b. g t = Some b \<longleftrightarrow> (\<exists>e \<in> set bs. be_tenant_id e = t
       \<and> b = \<lparr>tb_limit = be_budget e, tb_allowance = be_allowance e, tb_currency = usd\<rparr>)"
    using configured_budgets [OF s(2)] by blast
  obtain ap where ap: "create_app sdk st = Inr ap" "gw_pricing (app_gateway ap) = f" "gw_budgets (app_gateway ap) = g"
    "app_runtime_auth ap = auth" "ms_bootstrap_token (app_mgmt ap) = management_bootstrap_token sec"
    using f(1) g(1) s(5-8) by (simp add: create_app_def)
  have "ms_bootstrap_token (app_mgmt ap) \<notin> re_credential ` set (app_runtime_auth ap)"
    using ap(4,5) s(4) by auto
  then show ?thesis
    using ap(1) f(2) g(2) configured_login [OF s(3) v(2)] unfolding ap(2-4) [symmetric] s(5,6,8)
    by (intro exI [of _ ap] conjI) (simp_all add: ap(4))
qed

definition ex_settings :: settings where
  "ex_settings = \<lparr>st_openai_api_key = None,
     st_pricing = [\<lparr>pe_provider = lit ''openai'', pe_reference = [103], pe_version = [118], pe_basis_units = 1000,
        pe_input_price = Dec 5 (-2), pe_output_price = Dec 1 (-1), pe_currency = lit ''USD''\<rparr>],
     st_tenant_budgets = [\<lparr>be_tenant_id = 1, be_budget = Dec 100 0, be_allowance = Dec 1 0, be_currency = lit ''USD''\<rparr>],
     st_security = \<lparr>management_bootstrap_token = replicate 32 98, management_credential_pepper = replicate 32 99,
        runtime_credential_pepper = replicate 32 100\<rparr>,
     st_runtime_auth = [ex_entry]\<rparr>"

lemma ex_settings_valid: "Settings ex_settings = Inr ex_settings"
proof -
  have "constrained_text 255 [103] = Inr [103]" "constrained_text 255 [118] = Inr [118]"
    "constrained_text 50 (lit ''openai'') = Inr (lit ''openai'')"
    by (simp_all add: constrained_text_def strip_whitespace_def unicode_space_def py_isspace_def lit_simps)
  then have "PricingSettings (st_pricing ex_settings) = Inr (st_pricing ex_settings)"
    by (simp add: PricingSettings_def pricing_entry_init_def decimal_within_def dval_def ex_settings_def)
  moreover have "TenantBudgetSettings (st_tenant_budgets ex_settings) = Inr (st_tenant_budgets ex_settings)"
    by (simp add: TenantBudgetSettings_def budget_entry_init_def decimal_within_def dec_less_iff dval_def ex_settings_def)
  moreover have "SecuritySettings (st_security ex_settings) = Inr (st_security ex_settings)"
    by (simp add: SecuritySettings_def ex_settings_def eval_nat_numeral)
  moreover have "RuntimeAuthenticationSettings (st_runtime_auth ex_settings) = Inr (st_runtime_auth ex_settings)"
    using ex_auth by (simp add: ex_settings_def)
  ultimately show ?thesis
    by (simp add: Settings_def) (simp add: ex_settings_def ex_entry_def eval_nat_numeral)
qed

theorem startup_as_configured_witness:
  "\<exists>ap. create_app (\<lambda>_ _ _. Inl []) ex_settings = Inr ap
     \<and> require_runtime_principal (app_runtime_auth ap) (ex_bearer (replicate 32 107)) = Inr ex_workload"
proof -
  have v: "texts_visible ex_settings"
    by (simp add: texts_visible_def ex_settings_def ex_entry_def py_strip_def py_isspace_def lit_simps)
  have a: "st_runtime_auth ex_settings = [ex_entry]" by (simp add: ex_settings_def)
  have w: "workload_for ex_entry = ex_workload" by (simp add: workload_for_def ex_entry_def ex_workload_def)
  obtain ap where ap: "create_app (\<lambda>_ _ _. Inl []) ex_settings = Inr ap"
    "\<And>creds. require_runtime_principal (app_runtime_auth ap) creds =
         (case find (\<lambda>e. bearer_token_of creds = Some (re_credential e)) (st_runtime_auth ex_settings) of
            None \<Rightarrow> Inl RuntimeAuthenticationFailed | Some e \<Rightarrow> Inr (workload_for e))"
    using startup_as_configured [OF ex_settings_valid v, of "\<lambda>_ _ _. Inl []"] by blast
  have "re_credential ex_entry = replicate 32 107" by (simp add: ex_entry_def)
  then show ?thesis using ap w a by (intro exI [of _ ap]) simp
qed

end
