(* ===== verification/ReportingProperties.thy ===== *)
theory ReportingProperties
  imports Reporting GatewayProperties
begin

text \<open>
  What a runtime report promises: its figures add up, its top lists are the most expensive
  groups in order, its cost is the one the budget is enforced on, and it is given exactly for a
  valid range of a known tenant.
\<close>

subsection \<open>The counts\<close>

lemma count_where_split: "count_where p rows = count_where (\<lambda>r. p r \<and> q r) rows + count_where (\<lambda>r. p r \<and> \<not> q r) rows"
  by (induction rows) (simp_all add: count_where_def)

lemma count_where_or:
  "\<forall>r. \<not> (p r \<and> q r) \<Longrightarrow> count_where (\<lambda>r. p r \<or> q r) rows = count_where p rows + count_where q rows"
  by (induction rows) (auto simp: count_where_def)

lemma length_statuses:
  "length rows = count_where (\<lambda>r. ir_status r = SUCCEEDED) rows + count_where (\<lambda>r. ir_status r = FAILED) rows
     + count_where (\<lambda>r. ir_status r = DENIED) rows + count_where (\<lambda>r. ir_status r = LIMITED) rows
     + count_where (\<lambda>r. ir_status r = COST_LIMITED) rows"
proof (induction rows)
  case (Cons r rows)
  then show ?case by (cases "ir_status r") (simp_all add: count_where_def)
qed (simp add: count_where_def)

lemma executed_counts:
  "count_where provider_executed rows
     = count_where (\<lambda>r. ir_status r = SUCCEEDED) rows + count_where (\<lambda>r. ir_status r = FAILED) rows"
  "count_where provider_executed rows
     = count_where usage_known rows + count_where (\<lambda>r. provider_executed r \<and> \<not> usage_known r) rows"
  "count_where (\<lambda>r. ir_status r = SUCCEEDED) rows
     = count_where cost_known rows + count_where (\<lambda>r. ir_status r = SUCCEEDED \<and> \<not> cost_known r) rows"
proof -
  have "(\<lambda>r. provider_executed r \<and> usage_known r) = usage_known"
    "(\<lambda>r. ir_status r = SUCCEEDED \<and> cost_known r) = cost_known"
    by (auto simp: fun_eq_iff usage_known_def cost_known_def)
  then show "count_where provider_executed rows
     = count_where usage_known rows + count_where (\<lambda>r. provider_executed r \<and> \<not> usage_known r) rows"
    "count_where (\<lambda>r. ir_status r = SUCCEEDED) rows
     = count_where cost_known rows + count_where (\<lambda>r. ir_status r = SUCCEEDED \<and> \<not> cost_known r) rows"
    using count_where_split [of provider_executed rows usage_known]
      count_where_split [of "\<lambda>r. ir_status r = SUCCEEDED" rows cost_known] by simp_all
qed (simp add: provider_executed_def [abs_def] count_where_or)

text \<open>What a complete list of breakdowns adds up to.\<close>

definition adds_up :: "cost_breakdown list \<Rightarrow> runtime_report \<Rightarrow> bool" where
  "adds_up bs r \<longleftrightarrow> sum_list (map bd_invocations bs) = cn_total (rr_invocations r)
     \<and> sum_list (map bd_total_units bs) = ut_total_units (rr_usage r)
     \<and> sum_list (map bd_usage_attributed bs) = ut_attributed (rr_usage r)
     \<and> sum_list (map bd_usage_unavailable bs) = ut_unavailable (rr_usage r)
     \<and> sum_list (map (\<lambda>b. to_numeric (bd_cost_total b)) bs) = to_numeric (ct_total (rr_cost r))
     \<and> sum_list (map bd_cost_attributed bs) = ct_attributed (rr_cost r)
     \<and> sum_list (map bd_cost_unavailable bs) = ct_unavailable (rr_cost r)"

lemma statement_length: "length (breakdown_statement key rows) = min (top_n + 1) (length (ranked_ids key rows))"
  by (simp add: breakdown_statement_def min.commute)

lemma report_tops:
  "rr_top_agents (get_report t s e d) = take top_n (breakdown_statement ir_agent_id (report_rows t (instant s) (instant e) d))"
  "rr_top_models (get_report t s e d) = take top_n (breakdown_statement ir_model_id (report_rows t (instant s) (instant e) d))"
  "rr_agents_truncated (get_report t s e d) \<longleftrightarrow> top_n < length (breakdown_statement ir_agent_id (report_rows t (instant s) (instant e) d))"
  "rr_models_truncated (get_report t s e d) \<longleftrightarrow> top_n < length (breakdown_statement ir_model_id (report_rows t (instant s) (instant e) d))"
  by (simp_all add: get_report_def Let_def)

lemma untruncated_adds_up:
  assumes "\<not> top_n < length (breakdown_statement key rows)" "rows = report_rows t (instant s) (instant e) d"
  shows "adds_up (take top_n (breakdown_statement key rows)) (get_report t s e d)"
proof -
  have "length (ranked_ids key rows) \<le> top_n" using assms(1) by (auto simp: statement_length)
  then have "take top_n (breakdown_statement key rows)
      = map (\<lambda>i. breakdown_of i (group_of key rows i)) (ranked_ids key rows)"
    by (simp add: breakdown_statement_def)
  then show ?thesis
    using groups_add_up(1,4) [of key rows] groups_add_up(2,3) [of _ key rows]
    by (simp add: adds_up_def o_def breakdown_of_def get_report_def assms(2) [symmetric] Let_def coalesced_cost_eq)
qed

subsection \<open>Ranking\<close>

lemma ranked_sorted: "sorted (map (group_order key rows) (ranked_ids key rows))"
  by (simp add: ranked_ids_def)

definition more_expensive :: "cost_breakdown \<Rightarrow> cost_breakdown \<Rightarrow> bool" where
  "more_expensive a b \<longleftrightarrow> to_numeric (bd_cost_total b) < to_numeric (bd_cost_total a)
     \<or> (to_numeric (bd_cost_total b) = to_numeric (bd_cost_total a) \<and> bd_id a < bd_id b)"

lemma group_order_less:
  "i \<noteq> j \<Longrightarrow> group_order key rows i \<le> group_order key rows j \<Longrightarrow>
   more_expensive (breakdown_of i (group_of key rows i)) (breakdown_of j (group_of key rows j))"
  by (auto simp: more_expensive_def group_order_def breakdown_of_def coalesced_cost_eq less_eq_prod_def order_le_less)

lemma ranked_before:
  assumes "a < b" "b < length (ranked_ids key rows)"
  shows "more_expensive (breakdown_of (ranked_ids key rows ! a) (group_of key rows (ranked_ids key rows ! a)))
    (breakdown_of (ranked_ids key rows ! b) (group_of key rows (ranked_ids key rows ! b)))"
proof (rule group_order_less)
  show "ranked_ids key rows ! a \<noteq> ranked_ids key rows ! b"
    using assms ranked_ids_set(1) [of key rows] by (simp add: nth_eq_iff_index_eq)
  show "group_order key rows (ranked_ids key rows ! a) \<le> group_order key rows (ranked_ids key rows ! b)"
    using sorted_nth_mono [OF ranked_sorted [of key rows], of a b] assms by simp
qed

subsection \<open>The properties\<close>

text \<open>
  C35. The figures of a report add up: the invocations are those that succeeded, failed, were
  denied, limited or cost limited; those the provider ran are those with and without known
  usage; the successes are those with and without a cost; and a list of agents or models that
  is not marked as truncated accounts for every invocation, unit and amount of the totals.
\<close>

theorem report_adds_up:
  assumes "r = get_report t s e d"
  shows "cn_total (rr_invocations r) = cn_succeeded (rr_invocations r) + cn_failed (rr_invocations r)
      + cn_denied (rr_invocations r) + cn_limited (rr_invocations r) + cn_cost_limited (rr_invocations r)
    \<and> ut_provider_executed (rr_usage r) = cn_succeeded (rr_invocations r) + cn_failed (rr_invocations r)
    \<and> ut_provider_executed (rr_usage r) = ut_attributed (rr_usage r) + ut_unavailable (rr_usage r)
    \<and> cn_succeeded (rr_invocations r) = ct_attributed (rr_cost r) + ct_unavailable (rr_cost r)
    \<and> (\<not> rr_agents_truncated r \<longrightarrow> adds_up (rr_top_agents r) r)
    \<and> (\<not> rr_models_truncated r \<longrightarrow> adds_up (rr_top_models r) r)"
proof -
  let ?rows = "report_rows t (instant s) (instant e) d"
  have "\<not> rr_agents_truncated r \<longrightarrow> adds_up (rr_top_agents r) r"
    "\<not> rr_models_truncated r \<longrightarrow> adds_up (rr_top_models r) r"
    using untruncated_adds_up [of _ ?rows t s e d] by (simp_all only: assms report_tops) blast+
  then show ?thesis
    using length_statuses [of ?rows] executed_counts [of ?rows] by (simp add: assms get_report_def Let_def)
qed

theorem report_adds_up_witness:
  "adds_up (rr_top_agents (get_report 1 (Aware 0 0) (Aware 1 0) ex_db)) (get_report 1 (Aware 0 0) (Aware 1 0) ex_db)"
proof -
  have "\<not> rr_agents_truncated (get_report 1 (Aware 0 0) (Aware 1 0) ex_db)"
    by (simp add: report_tops statement_length report_rows_def ranked_ids_def ex_db_def empty_db_def)
  then show ?thesis using report_adds_up [OF refl] by blast
qed

text \<open>
  C36. The top lists are what they say: at most ten groups, each the breakdown of all the
  tenant's invocations of one agent (or model) in the range, in strictly decreasing order of
  cost with ties in the order of the identity; a group that is left out comes after every
  listed one; and the list is marked truncated exactly when there are more than ten groups.
\<close>

theorem report_top_lists:
  fixes key :: "invocation_row \<Rightarrow> uuid"
  assumes "bs = (if agent_list then rr_top_agents (get_report t s e d) else rr_top_models (get_report t s e d))"
    and "truncated = (if agent_list then rr_agents_truncated (get_report t s e d) else rr_models_truncated (get_report t s e d))"
    and "key = (if agent_list then ir_agent_id else ir_model_id)" "rows = report_rows t (instant s) (instant e) d"
  shows "length bs \<le> 10 \<and> (\<forall>b \<in> set bs. b = breakdown_of (bd_id b) (group_of key rows (bd_id b)))
    \<and> (\<forall>i j. i < j \<and> j < length bs \<longrightarrow> more_expensive (bs ! i) (bs ! j))
    \<and> (\<forall>r \<in> set rows. key r \<notin> bd_id ` set bs \<longrightarrow>
         (\<forall>b \<in> set bs. more_expensive b (breakdown_of (key r) (group_of key rows (key r)))))
    \<and> (truncated \<longleftrightarrow> 10 < card (key ` set rows))"
proof -
  let ?ids = "ranked_ids key rows" and ?b = "\<lambda>i. breakdown_of i (group_of key rows i)"
  have bs: "bs = map ?b (take 10 ?ids)" and truncated: "truncated \<longleftrightarrow> 10 < length ?ids"
    unfolding assms report_tops by (simp_all add: breakdown_statement_def top_n_def take_map min_def)
  have id: "bd_id (?b i) = i" for i by (simp add: breakdown_of_def)
  have len: "length ?ids = card (key ` set rows)"
    using distinct_card [OF ranked_ids_set(1), of key rows] by (simp add: ranked_ids_set(2))
  have order: "more_expensive (bs ! i) (bs ! j)" if "i < j" "j < length bs" for i j
    using that ranked_before [of i j key rows] by (simp add: bs)
  have rest: "more_expensive b (?b (key r))" if r: "r \<in> set rows" "key r \<notin> bd_id ` set bs" and b: "b \<in> set bs" for r b
  proof -
    have "key r \<in> set ?ids" using r(1) by (simp add: ranked_ids_set(2))
    then obtain k where k: "k < length ?ids" "?ids ! k = key r" by (auto simp: in_set_conv_nth)
    obtain a where a: "a < length bs" "b = bs ! a" using b by (auto simp: in_set_conv_nth)
    have "\<not> k < 10"
    proof
      assume "k < 10"
      then have "key r \<in> set (take 10 ?ids)" using k by (auto simp: in_set_conv_nth)
      then show False using r(2) by (force simp: bs id)
    qed
    then show ?thesis using ranked_before [of a k key rows] a k by (simp add: bs)
  qed
  show ?thesis
    using order rest truncated len by (auto simp: bs id)
qed

theorem report_top_lists_witness: "length (rr_top_agents (get_report 1 (Aware 0 0) (Aware 1 0) ex_db)) \<le> 10"
  using report_top_lists [OF refl refl refl refl, of True 1 "Aware 0 0" "Aware 1 0" ex_db] by simp




lemma get_runtime_report_Inr_iff:
  "get_runtime_report pf rq t start end_at d = Inr r \<longleftrightarrow> (\<exists>s e.
     validated_range pf InvalidReportRange ''reporting range must not exceed 31 days'' start end_at = Inr (s, e)
     \<and> db_up rq 0 \<and> db_up rq 1 \<and> t \<in> tr_id ` set (tenants d) \<and> r = get_report t s e d)"
  by (auto simp: get_runtime_report_def and_then_Inr_iff translate_db_error_def read_db_def split: prod.splits)




text \<open>
  A report is given exactly for a range with two aware ends inside the calendar, in order,
  of at most 31 days, of a tenant that exists, when the database answers both reads; it is
  then the aggregation over exactly the tenant's invocations of that closed-open range.
\<close>

theorem report_given_exactly:
  "(\<exists>r. get_runtime_report pf rq t start end_at d = Inr r) \<longleftrightarrow>
     is_aware start \<and> is_aware end_at \<and> representable (instant start) \<and> representable (instant end_at)
     \<and> instant start < instant end_at \<and> instant end_at - instant start \<le> 31 * day_us
     \<and> tenant_exists t d \<and> db_up rq 0 \<and> db_up rq 1"
proof -
  have "(\<exists>s e. validated_range pf InvalidReportRange m start end_at = Inr (s, e)) \<longleftrightarrow>
     is_aware start \<and> is_aware end_at \<and> representable (instant start) \<and> representable (instant end_at)
     \<and> instant start < instant end_at \<and> instant end_at - instant start \<le> 31 * day_us" for m
    by (cases start; cases end_at)
       (auto simp: validated_range_def overflow_guard_def astimezone_Aware max_range_us_def not_le not_less)
  then show ?thesis by (auto simp: get_runtime_report_Inr_iff tenant_exists_def)
qed

end
