(* ===== verification/Sql.thy ===== *)
theory Sql
  imports Store
begin

text \<open>
  The SQL the program writes itself: the conditions of its check constraints and of the
  \<open>DELETE\<close> statements of its migrations, with their meaning on a row.

  Comparisons are those of SQL: with a missing value the result is unknown (\<open>Null\<close>), a check
  constraint rejects a row only when its condition is false. \<open>Fault\<close> is a condition that
  cannot be evaluated (a comparison of different types, a sum of \<open>INTEGER\<close> values that
  overflows); such a row is rejected too. Conjunctions and disjunctions are evaluated from the
  left and stop as soon as the result is known.
\<close>

subsection \<open>Rows and values\<close>

datatype sval =
    VUuid uuid
  | VText pystr
  | VInt int
  | VNum int
  | VTime int
  | VBool bool

text \<open>A row holds the columns that are not null. \<open>VNum\<close> counts units of \<open>10^-12\<close>.\<close>

type_synonym row = "(string \<times> sval) list"

datatype 'a sql = Value 'a | Null | Fault

definition of_column :: "row \<Rightarrow> string \<Rightarrow> sval sql" where
  "of_column r c = (case map_of r c of None \<Rightarrow> Null | Some v \<Rightarrow> Value v)"

subsection \<open>Syntax\<close>

text \<open>
  A condition as its source text reads: \<open>And\<close> and \<open>Or\<close> are chains of the operator,
  \<open>In c qs\<close> is \<open>c IN ('q', ...)\<close>, \<open>Matches c p\<close> is \<open>c ~ 'p'\<close>, \<open>Rel op a b\<close> a
  comparison written with \<open>op\<close>.
\<close>

datatype sexpr =
    Col string
  | Numeral nat
  | Lit string
  | Plus sexpr sexpr
  | Call string sexpr

datatype cond =
    IsNull string
  | NotNull string
  | Rel string sexpr sexpr
  | In string "string list"
  | Matches string string
  | And "cond list"
  | Or "cond list"

subsection \<open>Meaning\<close>

fun lift2 :: "('a \<Rightarrow> 'b \<Rightarrow> 'c sql) \<Rightarrow> 'a sql \<Rightarrow> 'b sql \<Rightarrow> 'c sql" where
  "lift2 f Fault b = Fault"
| "lift2 f Null Fault = Fault"
| "lift2 f Null b = Null"
| "lift2 f (Value x) Fault = Fault"
| "lift2 f (Value x) Null = Null"
| "lift2 f (Value x) (Value y) = f x y"

fun add_values :: "sval \<Rightarrow> sval \<Rightarrow> sval sql" where
  "add_values (VInt m) (VInt n) = (if int4_fits (m + n) then Value (VInt (m + n)) else Fault)"
| "add_values (VNum m) (VNum n) = Value (VNum (m + n))"
| "add_values _ _ = Fault"

text \<open>\<open>btrim(text)\<close> removes spaces (U+0020) at both ends.\<close>

definition btrim :: "pystr \<Rightarrow> pystr" where
  "btrim s = rev (dropWhile (\<lambda>c. c = 32) (rev (dropWhile (\<lambda>c. c = 32) s)))"

fun call :: "string \<Rightarrow> sval \<Rightarrow> sval sql" where
  "call f (VText s) =
     (if f = ''btrim'' then Value (VText (btrim s))
      else if f = ''length'' then Value (VInt (int (length s))) else Fault)"
| "call f _ = Fault"

fun eval :: "row \<Rightarrow> sexpr \<Rightarrow> sval sql" where
  "eval r (Col c) = of_column r c"
| "eval r (Numeral n) = Value (VInt (int n))"
| "eval r (Lit q) = Value (VText (lit q))"
| "eval r (Plus a b) = lift2 add_values (eval r a) (eval r b)"
| "eval r (Call f e) = (case eval r e of Value v \<Rightarrow> call f v | other \<Rightarrow> other)"

definition compare :: "string \<Rightarrow> int \<Rightarrow> int \<Rightarrow> bool sql" where
  "compare k m n =
     (if k = ''='' then Value (m = n) else if k = ''<>'' then Value (m \<noteq> n)
      else if k = ''<'' then Value (m < n) else if k = ''<='' then Value (m \<le> n)
      else if k = ''>'' then Value (m > n) else if k = ''>='' then Value (m \<ge> n) else Fault)"

fun related :: "string \<Rightarrow> sval \<Rightarrow> sval \<Rightarrow> bool sql" where
  "related k (VInt m) (VInt n) = compare k m n"
| "related k (VNum m) (VNum n) = compare k m n"
| "related k (VNum m) (VInt n) = compare k m (10 ^ 12 * n)"
| "related k (VTime m) (VTime n) = compare k m n"
| "related k (VText s) (VText t) =
     (if k = ''='' then Value (s = t) else if k = ''<>'' then Value (s \<noteq> t) else Fault)"
| "related k _ _ = Fault"

fun conj3 :: "bool sql \<Rightarrow> bool sql \<Rightarrow> bool sql" where
  "conj3 (Value False) b = Value False"
| "conj3 (Value True) b = b"
| "conj3 Null (Value False) = Value False"
| "conj3 Null (Value True) = Null"
| "conj3 Null b = b"
| "conj3 Fault b = Fault"

fun disj3 :: "bool sql \<Rightarrow> bool sql \<Rightarrow> bool sql" where
  "disj3 (Value True) b = Value True"
| "disj3 (Value False) b = b"
| "disj3 Null (Value True) = Value True"
| "disj3 Null (Value False) = Null"
| "disj3 Null b = b"
| "disj3 Fault b = Fault"

text \<open>The only regular expression of the program is the shape of a hexadecimal digest.\<close>

definition matches :: "string \<Rightarrow> sval \<Rightarrow> bool sql" where
  "matches p v = (case v of
       VText s \<Rightarrow> (if p = ''^[0-9a-f]{64}$'' then Value (is_hex64 s) else Fault)
     | _ \<Rightarrow> Fault)"

fun bind :: "'a sql \<Rightarrow> ('a \<Rightarrow> 'b sql) \<Rightarrow> 'b sql" where
  "bind (Value a) f = f a"
| "bind Null f = Null"
| "bind Fault f = Fault"

fun holds :: "row \<Rightarrow> cond \<Rightarrow> bool sql" where
  "holds r (IsNull c) = Value (map_of r c = None)"
| "holds r (NotNull c) = Value (map_of r c \<noteq> None)"
| "holds r (Rel k a b) = lift2 (related k) (eval r a) (eval r b)"
| "holds r (In c qs) = bind (of_column r c)
     (\<lambda>v. foldr (\<lambda>q. disj3 (related ''='' v (VText (lit q)))) qs (Value False))"
| "holds r (Matches c p) = bind (of_column r c) (matches p)"
| "holds r (And cs) = foldr (\<lambda>c. conj3 (holds r c)) cs (Value True)"
| "holds r (Or cs) = foldr (\<lambda>c. disj3 (holds r c)) cs (Value False)"

text \<open>A check constraint accepts a row unless its condition is false (or cannot be evaluated).\<close>

definition accepts :: "cond \<Rightarrow> row \<Rightarrow> bool" where
  "accepts c r \<longleftrightarrow> holds r c \<in> {Value True, Null}"

subsection \<open>The columns of a condition\<close>

fun expr_cols :: "sexpr \<Rightarrow> string list" where
  "expr_cols (Col c) = [c]"
| "expr_cols (Plus a b) = expr_cols a @ expr_cols b"
| "expr_cols (Call f e) = expr_cols e"
| "expr_cols _ = []"

fun cond_cols :: "cond \<Rightarrow> string list" where
  "cond_cols (IsNull c) = [c]"
| "cond_cols (NotNull c) = [c]"
| "cond_cols (Rel k a b) = expr_cols a @ expr_cols b"
| "cond_cols (In c qs) = [c]"
| "cond_cols (Matches c p) = [c]"
| "cond_cols (And cs) = concat (map cond_cols cs)"
| "cond_cols (Or cs) = concat (map cond_cols cs)"

text \<open>A condition depends on the columns it names only.\<close>

lemma eval_cong:
  "(\<And>c. c \<in> set (expr_cols e) \<Longrightarrow> map_of r c = map_of r' c) \<Longrightarrow> eval r e = eval r' e"
  by (induction e) (auto simp: of_column_def)

lemma holds_cong:
  "(\<And>c. c \<in> set (cond_cols k) \<Longrightarrow> map_of r c = map_of r' c) \<Longrightarrow> holds r k = holds r' k"
proof (induction k)
  case (Rel k a b)
  have "eval r a = eval r' a" "eval r b = eval r' b" using Rel by (auto intro!: eval_cong)
  then show ?case by simp
next
  case (And cs)
  then have "\<And>c. c \<in> set cs \<Longrightarrow> holds r c = holds r' c" by auto
  then show ?case by (auto intro: foldr_cong)
next
  case (Or cs)
  then have "\<And>c. c \<in> set cs \<Longrightarrow> holds r c = holds r' c" by auto
  then show ?case by (auto intro: foldr_cong)
qed (auto simp: of_column_def)

lemma accepts_cong:
  assumes "\<And>c. c \<in> set (cond_cols k) \<Longrightarrow> map_of r c = map_of r' c"
  shows "accepts k r = accepts k r'"
  unfolding accepts_def using holds_cong [OF assms] by simp

end
