(* ===== verification/Schema.thy ===== *)
theory Schema
  imports Sql
begin

text \<open>
  The relational schema and the directives of Alembic that change it, with PostgreSQL's rules:
  \<open>reshape\<close> is what a directive does to the catalogue (and when it is refused there),
  \<open>reject_rows\<close> what it demands of the rows already stored, \<open>change_rows\<close> what it
  does to them. A script is a sequence of directives that stops at the first refusal.

  \<open>valid\<close> is the state PostgreSQL keeps a database in: every row has the types of its
  columns, every primary key, unique key, foreign key, check and unique index is satisfied.
  The locale \<open>ddl_engine\<close> is that promise; the interpretation at the end shows that every
  directive keeps it, whatever the script.
\<close>

subsection \<open>Tables\<close>

datatype sql_type =
    UUID
  | STRING nat
  | TEXT
  | TIMESTAMPTZ
  | INTEGER
  | NUMERIC nat nat
  | BOOLEAN

fun has_type :: "sql_type \<Rightarrow> sval \<Rightarrow> bool" where
  "has_type UUID (VUuid u) = True"
| "has_type (STRING n) (VText s) = text_fits n s"
| "has_type TEXT (VText s) = text_ok s"
| "has_type TIMESTAMPTZ (VTime t) = True"
| "has_type INTEGER (VInt n) = int4_fits n"
| "has_type (NUMERIC p s) (VNum v) = (s = 12 \<and> \<bar>v\<bar> < 10 ^ p)"
| "has_type BOOLEAN (VBool b) = True"
| "has_type _ _ = False"

datatype column = Column (col_name: string) (col_type: sql_type) (col_nullable: bool)

datatype tconstraint =
    PrimaryKey "string list"
  | Unique "string list"
  | ForeignKey "string list" string "string list"
  | Check cond

datatype index = Index (ix_name: string) (ix_cols: "string list") (ix_unique: bool)

record table =
  columns :: "column list"
  constraints :: "(string \<times> tconstraint) list"
  indexes :: "index list"

type_synonym schema = "(string \<times> table) list"
type_synonym data = "string \<Rightarrow> row list"

record database =
  catalogue :: schema
  rows :: data

definition table_names :: "schema \<Rightarrow> string list" where
  "table_names S = map fst S"

definition column_names :: "table \<Rightarrow> string list" where
  "column_names t = map col_name (columns t)"

fun is_key :: "tconstraint \<Rightarrow> bool" where
  "is_key (PrimaryKey _) = True"
| "is_key (Unique _) = True"
| "is_key _ = False"

fun constraint_cols :: "tconstraint \<Rightarrow> string list" where
  "constraint_cols (PrimaryKey cs) = cs"
| "constraint_cols (Unique cs) = cs"
| "constraint_cols (ForeignKey cs _ _) = cs"
| "constraint_cols (Check k) = cond_cols k"

fun referent :: "tconstraint \<Rightarrow> (string \<times> string list) option" where
  "referent (ForeignKey _ t ds) = Some (t, ds)"
| "referent _ = None"

text \<open>Tables, indexes and the indexes behind keys share one name space.\<close>

definition relation_names :: "schema \<Rightarrow> string list" where
  "relation_names S = concat (map (\<lambda>(n, t).
     n # map ix_name (indexes t) @ map fst (filter (\<lambda>c. is_key (snd c)) (constraints t))) S)"

definition references :: "schema \<Rightarrow> (string \<times> string list) list" where
  "references S = concat (map (\<lambda>(n, t). concat (map (\<lambda>c. case referent (snd c) of
     None \<Rightarrow> [] | Some x \<Rightarrow> [x]) (constraints t))) S)"

subsection \<open>Rows that satisfy a table\<close>

definition key_of :: "string list \<Rightarrow> row \<Rightarrow> sval option list" where
  "key_of cs r = map (map_of r) cs"

definition null_in :: "string list \<Rightarrow> row \<Rightarrow> bool" where
  "null_in cs r \<longleftrightarrow> None \<in> set (key_of cs r)"

text \<open>Rows with a missing value in a key never collide.\<close>

definition unique_rows :: "string list \<Rightarrow> row list \<Rightarrow> bool" where
  "unique_rows cs rs = distinct (map (key_of cs) (filter (\<lambda>r. \<not> null_in cs r) rs))"

definition refers :: "string list \<Rightarrow> string list \<Rightarrow> row list \<Rightarrow> row \<Rightarrow> bool" where
  "refers cs ds targets r \<longleftrightarrow> null_in cs r \<or> key_of cs r \<in> key_of ds ` set targets"

fun satisfied :: "data \<Rightarrow> string \<Rightarrow> tconstraint \<Rightarrow> bool" where
  "satisfied D n (PrimaryKey cs) = ((\<forall>r \<in> set (D n). \<not> null_in cs r) \<and> unique_rows cs (D n))"
| "satisfied D n (Unique cs) = unique_rows cs (D n)"
| "satisfied D n (ForeignKey cs t ds) = (\<forall>r \<in> set (D n). refers cs ds (D t) r)"
| "satisfied D n (Check k) = (\<forall>r \<in> set (D n). accepts k r)"

definition row_typed :: "column list \<Rightarrow> row \<Rightarrow> bool" where
  "row_typed cs r \<longleftrightarrow> set (map fst r) \<subseteq> set (map col_name cs)
     \<and> (\<forall>c \<in> set cs. case map_of r (col_name c) of
          None \<Rightarrow> col_nullable c | Some v \<Rightarrow> has_type (col_type c) v)"

definition index_ok :: "data \<Rightarrow> string \<Rightarrow> index \<Rightarrow> bool" where
  "index_ok D n x \<longleftrightarrow> ix_unique x \<longrightarrow> unique_rows (ix_cols x) (D n)"

definition table_ok :: "data \<Rightarrow> string \<times> table \<Rightarrow> bool" where
  "table_ok D nt \<longleftrightarrow> (case nt of (n, t) \<Rightarrow>
     (\<forall>r \<in> set (D n). row_typed (columns t) r)
     \<and> (\<forall>c \<in> set (constraints t). satisfied D n (snd c))
     \<and> (\<forall>x \<in> set (indexes t). index_ok D n x))"

definition well_formed :: "schema \<Rightarrow> bool" where
  "well_formed S \<longleftrightarrow> distinct (table_names S) \<and> fst ` set (references S) \<subseteq> set (table_names S)"

definition valid :: "database \<Rightarrow> bool" where
  "valid d \<longleftrightarrow> well_formed (catalogue d) \<and> (\<forall>nt \<in> set (catalogue d). table_ok (rows d) nt)"

subsection \<open>Directives\<close>

datatype ddl_error =
    DuplicateRelation string
  | UndefinedTable string
  | DuplicateColumn string
  | UndefinedColumn string
  | DuplicateObject string
  | UndefinedObject string
  | InvalidReference string
  | DependentObjects string
  | NotNullRejected string
  | CheckRejected string
  | ForeignKeyRejected string
  | UniqueRejected string
  | StatementRejected string
  | UnknownRevision string

datatype directive =
    CreateTable string "column list" "(string option \<times> tconstraint) list"
  | DropTable string
  | AddColumn string column
  | DropColumn string string
  | CreateCheck string string cond
  | CreateForeignKey string string string "string list" "string list"
  | DropConstraint string string
  | CreateIndex string string "string list" bool
  | DropIndex string string
  | AlterNullable string string bool
  | DeleteFrom string cond

text \<open>An unnamed primary key gets PostgreSQL's default name; the program names all others.\<close>

definition constraint_name :: "string \<Rightarrow> string option \<times> tconstraint \<Rightarrow> string" where
  "constraint_name t c = (case fst c of Some n \<Rightarrow> n | None \<Rightarrow> t @ ''_pkey'')"

definition has_key :: "table \<Rightarrow> string list \<Rightarrow> bool" where
  "has_key t cs \<longleftrightarrow> list_ex (\<lambda>c. is_key (snd c) \<and> constraint_cols (snd c) = cs) (constraints t)"

definition constraint_fault :: "schema \<Rightarrow> string \<Rightarrow> column list \<Rightarrow> tconstraint \<Rightarrow> ddl_error option" where
  "constraint_fault S t cs c =
     (if \<not> list_all (\<lambda>x. x \<in> set (map col_name cs)) (constraint_cols c) then Some (UndefinedColumn t)
      else (case c of
          ForeignKey xs u ys \<Rightarrow>
            (case map_of S u of
               None \<Rightarrow> Some (UndefinedTable u)
             | Some tb \<Rightarrow> (if length xs = length ys \<and> has_key tb ys then None else Some (InvalidReference u)))
        | _ \<Rightarrow> None))"

fun first_fault :: "('a \<Rightarrow> ddl_error option) \<Rightarrow> 'a list \<Rightarrow> ddl_error option" where
  "first_fault f [] = None"
| "first_fault f (x # xs) = (case f x of Some e \<Rightarrow> Some e | None \<Rightarrow> first_fault f xs)"

definition on_table :: "string \<Rightarrow> (table \<Rightarrow> ddl_error + table) \<Rightarrow> schema \<Rightarrow> ddl_error + schema" where
  "on_table n f S = (case map_of S n of
       None \<Rightarrow> Inl (UndefinedTable n)
     | Some t \<Rightarrow> and_then (f t) (\<lambda>t'. Inr (map (\<lambda>(m, u). (m, if m = n then t' else u)) S)))"

definition key_columns :: "(string option \<times> tconstraint) list \<Rightarrow> string list" where
  "key_columns cs = concat (map (\<lambda>c. case snd c of PrimaryKey ks \<Rightarrow> ks | _ \<Rightarrow> []) cs)"

text \<open>The columns of a primary key are not nullable, declared so or not.\<close>

definition keyed_columns :: "column list \<Rightarrow> (string option \<times> tconstraint) list \<Rightarrow> column list" where
  "keyed_columns cols cons = map (\<lambda>c. Column (col_name c) (col_type c)
     (col_nullable c \<and> col_name c \<notin> set (key_columns cons))) cols"

definition create_table ::
  "string \<Rightarrow> column list \<Rightarrow> (string option \<times> tconstraint) list \<Rightarrow> schema \<Rightarrow> ddl_error + schema" where
  "create_table n cols cons S =
     (let named = map (\<lambda>c. (constraint_name n c, snd c)) cons;
          fresh = n # map fst (filter (\<lambda>c. is_key (snd c)) named) in
      case first_fault (\<lambda>c. constraint_fault S n cols (snd c)) named of
        Some e \<Rightarrow> Inl e
      | None \<Rightarrow> checked
          [(list_ex (\<lambda>m. m \<in> set (relation_names S)) fresh \<or> \<not> distinct fresh, DuplicateRelation n),
           (\<not> distinct (map col_name cols), DuplicateColumn n),
           (\<not> distinct (map fst named), DuplicateObject n)]
          (S @ [(n, \<lparr>columns = keyed_columns cols cons, constraints = named, indexes = []\<rparr>)]))"

definition drop_table :: "string \<Rightarrow> schema \<Rightarrow> ddl_error + schema" where
  "drop_table n S =
     (let left = filter (\<lambda>nt. fst nt \<noteq> n) S in
      checked
        [(n \<notin> set (table_names S), UndefinedTable n),
         (n \<in> set (map fst (references left)), DependentObjects n)]
        left)"

definition add_column :: "column \<Rightarrow> table \<Rightarrow> ddl_error + table" where
  "add_column c t = checked
     [(col_name c \<in> set (column_names t), DuplicateColumn (col_name c))]
     (t\<lparr>columns := columns t @ [c]\<rparr>)"

text \<open>Dropping a column drops the constraints and indexes that involve it.\<close>

definition drop_column :: "string \<Rightarrow> table \<Rightarrow> ddl_error + table" where
  "drop_column c t = checked
     [(c \<notin> set (column_names t), UndefinedColumn c)]
     (t\<lparr>columns := filter (\<lambda>k. col_name k \<noteq> c) (columns t),
        constraints := filter (\<lambda>k. c \<notin> set (constraint_cols (snd k))) (constraints t),
        indexes := filter (\<lambda>x. c \<notin> set (ix_cols x)) (indexes t)\<rparr>)"

definition add_constraint :: "schema \<Rightarrow> string \<Rightarrow> string \<Rightarrow> tconstraint \<Rightarrow> table \<Rightarrow> ddl_error + table" where
  "add_constraint S n name c t = (case constraint_fault S n (columns t) c of
       Some e \<Rightarrow> Inl e
     | None \<Rightarrow> checked
         [(name \<in> set (map fst (constraints t)), DuplicateObject name)]
         (t\<lparr>constraints := constraints t @ [(name, c)]\<rparr>))"

text \<open>A key that foreign keys refer to cannot be dropped.\<close>

definition drop_constraint :: "schema \<Rightarrow> string \<Rightarrow> string \<Rightarrow> table \<Rightarrow> ddl_error + table" where
  "drop_constraint S n name t = checked
     [(name \<notin> set (map fst (constraints t)), UndefinedObject name),
      (list_ex (\<lambda>c. fst c = name \<and> is_key (snd c) \<and> n \<in> set (map fst (references S))) (constraints t),
        DependentObjects name)]
     (t\<lparr>constraints := filter (\<lambda>c. fst c \<noteq> name) (constraints t)\<rparr>)"

definition create_index :: "schema \<Rightarrow> index \<Rightarrow> table \<Rightarrow> ddl_error + table" where
  "create_index S x t = checked
     [(ix_name x \<in> set (relation_names S), DuplicateRelation (ix_name x)),
      (\<not> list_all (\<lambda>c. c \<in> set (column_names t)) (ix_cols x), UndefinedColumn (ix_name x))]
     (t\<lparr>indexes := indexes t @ [x]\<rparr>)"

definition drop_index :: "string \<Rightarrow> table \<Rightarrow> ddl_error + table" where
  "drop_index name t = checked
     [(name \<notin> set (map ix_name (indexes t)), UndefinedObject name)]
     (t\<lparr>indexes := filter (\<lambda>x. ix_name x \<noteq> name) (indexes t)\<rparr>)"

definition alter_nullable :: "string \<Rightarrow> bool \<Rightarrow> table \<Rightarrow> ddl_error + table" where
  "alter_nullable c b t = checked
     [(c \<notin> set (column_names t), UndefinedColumn c),
      (b \<and> list_ex (\<lambda>k. case snd k of PrimaryKey ks \<Rightarrow> c \<in> set ks | _ \<Rightarrow> False) (constraints t),
        DependentObjects c)]
     (t\<lparr>columns := map (\<lambda>k. if col_name k = c then Column c (col_type k) b else k) (columns t)\<rparr>)"

definition delete_fault :: "string \<Rightarrow> cond \<Rightarrow> schema \<Rightarrow> ddl_error option" where
  "delete_fault t k S = (case map_of S t of
       None \<Rightarrow> Some (UndefinedTable t)
     | Some tb \<Rightarrow> (if list_all (\<lambda>c. c \<in> set (column_names tb)) (cond_cols k) then None
                  else Some (UndefinedColumn t)))"

fun reshape :: "directive \<Rightarrow> schema \<Rightarrow> ddl_error + schema" where
  "reshape (CreateTable n cols cons) S = create_table n cols cons S"
| "reshape (DropTable n) S = drop_table n S"
| "reshape (AddColumn n c) S = on_table n (add_column c) S"
| "reshape (DropColumn n c) S =
     (if list_ex (\<lambda>(t, ds). t = n \<and> c \<in> set ds) (references S) then Inl (DependentObjects c)
      else on_table n (drop_column c) S)"
| "reshape (CreateCheck name n k) S = on_table n (add_constraint S n name (Check k)) S"
| "reshape (CreateForeignKey name n u cs ds) S = on_table n (add_constraint S n name (ForeignKey cs u ds)) S"
| "reshape (DropConstraint name n) S = on_table n (drop_constraint S n name) S"
| "reshape (CreateIndex name n cs u) S = on_table n (create_index S (Index name cs u)) S"
| "reshape (DropIndex name n) S = on_table n (drop_index name) S"
| "reshape (AlterNullable n c b) S = on_table n (alter_nullable c b) S"
| "reshape (DeleteFrom t k) S = (case delete_fault t k S of Some e \<Rightarrow> Inl e | None \<Rightarrow> Inr S)"

definition deleted :: "cond \<Rightarrow> row \<Rightarrow> bool" where
  "deleted k r \<longleftrightarrow> holds r k = Value True"

fun change_rows :: "directive \<Rightarrow> data \<Rightarrow> data" where
  "change_rows (CreateTable n cols cons) D = D(n := [])"
| "change_rows (DropTable n) D = D(n := [])"
| "change_rows (DropColumn n c) D = D(n := map (filter (\<lambda>p. fst p \<noteq> c)) (D n))"
| "change_rows (DeleteFrom t k) D = D(t := filter (\<lambda>r. \<not> deleted k r) (D t))"
| "change_rows _ D = D"

definition refuse :: "bool \<Rightarrow> ddl_error \<Rightarrow> ddl_error option" where
  "refuse b e = (if b then Some e else None)"

text \<open>A deletion is refused while a row that stays refers to a deleted one.\<close>

definition references_ok :: "schema \<Rightarrow> data \<Rightarrow> bool" where
  "references_ok S D = list_all (\<lambda>(n, t). list_all (\<lambda>c. referent (snd c) = None \<or> satisfied D n (snd c))
     (constraints t)) S"

fun reject_rows :: "directive \<Rightarrow> schema \<Rightarrow> data \<Rightarrow> ddl_error option" where
  "reject_rows (AddColumn n c) S D =
     refuse (\<not> col_nullable c \<and> D n \<noteq> []) (NotNullRejected (col_name c))"
| "reject_rows (CreateCheck name n k) S D =
     refuse (\<not> satisfied D n (Check k)) (CheckRejected name)"
| "reject_rows (CreateForeignKey name n u cs ds) S D =
     refuse (\<not> satisfied D n (ForeignKey cs u ds)) (ForeignKeyRejected name)"
| "reject_rows (CreateIndex name n cs u) S D =
     refuse (u \<and> \<not> unique_rows cs (D n)) (UniqueRejected name)"
| "reject_rows (AlterNullable n c b) S D =
     refuse (\<not> b \<and> (\<exists>r \<in> set (D n). map_of r c = None)) (NotNullRejected c)"
| "reject_rows (DeleteFrom t k) S D =
     (if \<exists>r \<in> set (D t). holds r k = Fault then Some (StatementRejected t)
      else refuse (\<not> references_ok S (change_rows (DeleteFrom t k) D)) (ForeignKeyRejected t))"
| "reject_rows _ S D = None"

definition apply_directive :: "directive \<Rightarrow> database \<Rightarrow> ddl_error + database" where
  "apply_directive x d = and_then (reshape x (catalogue d)) (\<lambda>S.
     case reject_rows x (catalogue d) (rows d) of
       Some e \<Rightarrow> Inl e
     | None \<Rightarrow> Inr \<lparr>catalogue = S, rows = change_rows x (rows d)\<rparr>)"

text \<open>A script stops at its first refusal.\<close>

fun run_all :: "('x \<Rightarrow> 's \<Rightarrow> 'e + 's) \<Rightarrow> 'x list \<Rightarrow> 's \<Rightarrow> 'e + 's" where
  "run_all f [] s = Inr s"
| "run_all f (x # xs) s = and_then (f x s) (run_all f xs)"

definition run_script :: "directive list \<Rightarrow> database \<Rightarrow> ddl_error + database" where
  "run_script = run_all apply_directive"

lemma run_all_append: "run_all f (xs @ ys) s = and_then (run_all f xs s) (run_all f ys)"
  by (induction xs arbitrary: s) (auto simp: and_then_def split: sum.split)

end
