(* ===== verification/SchemaLaws.thy ===== *)
theory SchemaLaws
  imports Schema
begin

text \<open>
  Every directive that is accepted leaves a valid database (\<open>directive_keeps_valid\<close>): the
  contract \<open>ddl_engine\<close> of a database engine, interpreted on the directives of theory
  Schema. The lemmas before it say how each constraint depends on the rows, so that adding a
  column, dropping one or deleting rows keeps what was checked before.
\<close>

subsection \<open>What constraints depend on\<close>

lemma map_of_without: "map_of (filter (\<lambda>p. fst p \<noteq> c) r) x = (if x = c then None else map_of r x)"
  by (induction r) auto

lemma key_of_without: "c \<notin> set cs \<Longrightarrow> key_of cs (filter (\<lambda>p. fst p \<noteq> c) r) = key_of cs r"
  by (auto simp: key_of_def map_of_without)

lemma null_in_without: "c \<notin> set cs \<Longrightarrow> null_in cs (filter (\<lambda>p. fst p \<noteq> c) r) = null_in cs r"
  by (simp add: null_in_def key_of_without)

lemma unique_rows_without:
  assumes "c \<notin> set cs"
  shows "unique_rows cs (map (filter (\<lambda>p. fst p \<noteq> c)) rs) = unique_rows cs rs"
proof -
  have "map (key_of cs) (filter (\<lambda>r. \<not> null_in cs r) (map (filter (\<lambda>p. fst p \<noteq> c)) rs))
      = map (key_of cs) (filter (\<lambda>r. \<not> null_in cs r) rs)"
    using assms by (induction rs) (simp_all add: null_in_without key_of_without)
  then show ?thesis by (simp add: unique_rows_def)
qed

lemma unique_rows_filter: "unique_rows cs rs \<Longrightarrow> unique_rows cs (filter p rs)"
  unfolding unique_rows_def by (induction rs) (auto split: if_splits)

lemma unique_rows_Nil [simp]: "unique_rows cs []"
  by (simp add: unique_rows_def)

lemma satisfied_cong:
  assumes "D' n = D n" "\<And>u ds. referent c = Some (u, ds) \<Longrightarrow> D' u = D u"
  shows "satisfied D' n c = satisfied D n c"
  using assms by (cases c) auto

lemma satisfied_no_rows: "D n = [] \<Longrightarrow> satisfied D n c"
  by (cases c) auto

lemma accepts_without:
  "c \<notin> set (cond_cols k) \<Longrightarrow> accepts k (filter (\<lambda>p. fst p \<noteq> c) r) = accepts k r"
  by (rule accepts_cong) (auto simp: map_of_without)

lemma refers_without_target:
  assumes "c \<notin> set ds" "refers cs ds ts r"
  shows "refers cs ds (map (filter (\<lambda>p. fst p \<noteq> c)) ts) r"
  using assms by (auto simp: refers_def key_of_without image_iff)

lemma refers_without:
  assumes "c \<notin> set cs" "refers cs ds ts r"
  shows "refers cs ds ts (filter (\<lambda>p. fst p \<noteq> c) r)"
  using assms by (simp add: refers_def null_in_without key_of_without)

text \<open>Dropping a column keeps every constraint that neither involves nor refers to it.\<close>

lemma satisfied_without:
  assumes "satisfied D m k" "m = n \<Longrightarrow> c \<notin> set (constraint_cols k)"
    "\<And>ds. referent k = Some (n, ds) \<Longrightarrow> c \<notin> set ds"
  shows "satisfied (D(n := map (filter (\<lambda>p. fst p \<noteq> c)) (D n))) m k"
proof (cases k)
  case (PrimaryKey cs)
  then show ?thesis using assms by (auto simp: null_in_without unique_rows_without)
next
  case (Unique cs)
  then show ?thesis using assms by (auto simp: unique_rows_without)
next
  case (ForeignKey cs u ds)
  have old: "\<And>r. r \<in> set (D m) \<Longrightarrow> refers cs ds (D u) r" using assms(1) ForeignKey by simp
  have "u = n \<Longrightarrow> c \<notin> set ds" using assms(3) ForeignKey by simp
  then have "\<And>r. r \<in> set (D m) \<Longrightarrow> refers cs ds ((D(n := map (filter (\<lambda>p. fst p \<noteq> c)) (D n))) u) r"
    using old refers_without_target by fastforce
  then show ?thesis using ForeignKey assms(2) refers_without by (cases "m = n") fastforce+
next
  case (Check p)
  then show ?thesis using assms(1,2) by (cases "m = n") (auto simp: accepts_without)
qed

text \<open>Deleting rows keeps all constraints but the references to the deleted rows.\<close>

lemma satisfied_deleted:
  assumes "satisfied D m k" "referent k = None"
  shows "satisfied (D(n := filter p (D n))) m k"
  using assms by (cases k) (auto intro: unique_rows_filter)

subsection \<open>Changing one table\<close>

lemma on_table_Inr:
  "on_table n f S = Inr S' \<longleftrightarrow> (\<exists>t t'. map_of S n = Some t \<and> f t = Inr t'
     \<and> S' = map (\<lambda>(m, u). (m, if m = n then t' else u)) S)"
  by (auto simp: on_table_def and_then_Inr_iff split: option.splits)

lemma table_names_map [simp]: "table_names (map (\<lambda>(m, u). (m, g m u)) S) = table_names S"
  by (induction S) (auto simp: table_names_def)

lemma references_set:
  "set (references S) = {x. \<exists>(n, t) \<in> set S. \<exists>c \<in> set (constraints t). referent (snd c) = Some x}"
  unfolding references_def by (force split: option.splits)

lemma table_ok_cong:
  assumes "table_ok D (m, u)" "D' m = D m"
    "\<And>c w ds. c \<in> set (constraints u) \<Longrightarrow> referent (snd c) = Some (w, ds) \<Longrightarrow> D' w = D w"
  shows "table_ok D' (m, u)"
proof -
  have "satisfied D' m (snd c)" if "c \<in> set (constraints u)" for c
    using that assms satisfied_cong [of D' m D "snd c"] by (fastforce simp: table_ok_def)
  then show ?thesis using assms(1,2) by (simp add: table_ok_def index_ok_def)
qed

lemma on_table_keeps:
  assumes v: "valid \<lparr>catalogue = S, rows = D\<rparr>" and t: "map_of S n = Some t"
    and S': "S' = map (\<lambda>(m, u). (m, if m = n then t' else u)) S"
    and refs: "\<And>c x. c \<in> set (constraints t') \<Longrightarrow> referent (snd c) = Some x \<Longrightarrow> fst x \<in> set (table_names S)"
    and self: "table_ok D' (n, t')"
    and others: "\<And>m u. (m, u) \<in> set S \<Longrightarrow> m \<noteq> n \<Longrightarrow> table_ok D' (m, u)"
  shows "valid \<lparr>catalogue = S', rows = D'\<rparr>"
proof -
  have names: "table_names S' = table_names S"
    using S' table_names_map [of "\<lambda>m u. if m = n then t' else u" S] by simp
  have old: "fst x \<in> set (table_names S)" if "x \<in> set (references S)" for x
    using that v by (auto simp: valid_def well_formed_def)
  have "fst x \<in> set (table_names S)" if "x \<in> set (references S')" for x
  proof -
    from that obtain m u c where mu: "(m, u) \<in> set S'" "c \<in> set (constraints u)" "referent (snd c) = Some x"
      by (auto simp: references_set)
    show ?thesis
    proof (cases "m = n")
      case True
      then have "u = t'" using mu(1) S' by auto
      then show ?thesis using refs mu by blast
    next
      case False
      then have "(m, u) \<in> set S" using mu(1) S' by auto
      then have "x \<in> set (references S)" using mu by (auto simp: references_set)
      then show ?thesis by (rule old)
    qed
  qed
  then have "well_formed S'" using v names by (auto simp: well_formed_def valid_def)
  moreover have "table_ok D' nt" if "nt \<in> set S'" for nt
    using that self others S' by (cases nt) (auto split: if_splits)
  ultimately show ?thesis by (simp add: valid_def)
qed

lemma same_rows_keep:
  assumes v: "valid \<lparr>catalogue = S, rows = D\<rparr>" and t: "map_of S n = Some t"
    and S': "S' = map (\<lambda>(m, u). (m, if m = n then t' else u)) S"
    and refs: "\<And>c x. c \<in> set (constraints t') - set (constraints t) \<Longrightarrow> referent (snd c) = Some x \<Longrightarrow>
      fst x \<in> set (table_names S)"
    and self: "table_ok D (n, t')"
  shows "valid \<lparr>catalogue = S', rows = D\<rparr>"
proof (rule on_table_keeps [OF v t S' _ self])
  fix c x
  assume "c \<in> set (constraints t')" "referent (snd c) = Some x"
  then show "fst x \<in> set (table_names S)"
  proof (cases "c \<in> set (constraints t)")
    case True
    then have "x \<in> set (references S)"
      using \<open>referent (snd c) = Some x\<close> map_of_SomeD [OF t] by (auto simp: references_set)
    then show ?thesis using v by (auto simp: valid_def well_formed_def)
  qed (use refs in blast)
qed (use v in \<open>auto simp: valid_def\<close>)

lemma valid_table:
  "valid \<lparr>catalogue = S, rows = D\<rparr> \<Longrightarrow> map_of S n = Some t \<Longrightarrow> table_ok D (n, t)"
  by (auto simp: valid_def dest: map_of_SomeD)

lemmas table_op_defs = add_column_def drop_column_def add_constraint_def drop_constraint_def
  create_index_def drop_index_def alter_nullable_def

lemma map_of_names: "map_of S n = Some t \<Longrightarrow> n \<in> set (table_names S)"
  by (force simp: table_names_def dest: map_of_SomeD)

lemma add_column_keeps:
  assumes v: "valid \<lparr>catalogue = S, rows = D\<rparr>" and "on_table n (add_column c) S = Inr S'"
    and "col_nullable c \<or> D n = []"
  shows "valid \<lparr>catalogue = S', rows = D\<rparr>"
proof -
  obtain t where t: "map_of S n = Some t" "col_name c \<notin> set (column_names t)"
    "S' = map (\<lambda>(m, u). (m, if m = n then t\<lparr>columns := columns t @ [c]\<rparr> else u)) S"
    using assms(2) by (auto simp: on_table_Inr add_column_def split: if_splits)
  have "row_typed (columns t @ [c]) r" if "r \<in> set (D n)" for r
  proof -
    have r: "row_typed (columns t) r" using valid_table [OF v t(1)] that by (simp add: table_ok_def)
    then have "col_name c \<notin> set (map fst r)" using t(2) by (auto simp: row_typed_def column_names_def)
    then have "map_of r (col_name c) = None" by (simp add: map_of_eq_None_iff)
    then show ?thesis using r assms(3) that by (auto simp: row_typed_def)
  qed
  then show ?thesis using valid_table [OF v t(1)]
    by (intro same_rows_keep [OF v t(1,3)]) (auto simp: table_ok_def)
qed

lemma add_constraint_keeps:
  assumes v: "valid \<lparr>catalogue = S, rows = D\<rparr>" and "on_table n (add_constraint S n name c) S = Inr S'"
    and "satisfied D n c"
  shows "valid \<lparr>catalogue = S', rows = D\<rparr>"
proof -
  obtain t where t: "map_of S n = Some t" "constraint_fault S n (columns t) c = None"
    "S' = map (\<lambda>(m, u). (m, if m = n then t\<lparr>constraints := constraints t @ [(name, c)]\<rparr> else u)) S"
    using assms(2) by (auto simp: on_table_Inr add_constraint_def split: if_splits option.splits)
  have "fst x \<in> set (table_names S)" if "referent c = Some x" for x
    using that t(2) map_of_names
    by (cases c) (auto simp: constraint_fault_def split: if_splits option.splits)
  then show ?thesis using valid_table [OF v t(1)] assms(3)
    by (intro same_rows_keep [OF v t(1,3)]) (auto simp: table_ok_def)
qed

lemma drop_constraint_keeps:
  assumes v: "valid \<lparr>catalogue = S, rows = D\<rparr>" and "on_table n (drop_constraint S n name) S = Inr S'"
  shows "valid \<lparr>catalogue = S', rows = D\<rparr>"
proof -
  obtain t where t: "map_of S n = Some t"
    "S' = map (\<lambda>(m, u). (m, if m = n then t\<lparr>constraints := filter (\<lambda>c. fst c \<noteq> name) (constraints t)\<rparr> else u)) S"
    using assms(2) by (auto simp: on_table_Inr drop_constraint_def split: if_splits)
  then show ?thesis using valid_table [OF v t(1)]
    by (intro same_rows_keep [OF v t]) (auto simp: table_ok_def)
qed

lemma create_index_keeps:
  assumes v: "valid \<lparr>catalogue = S, rows = D\<rparr>" and "on_table n (create_index S x) S = Inr S'"
    and "index_ok D n x"
  shows "valid \<lparr>catalogue = S', rows = D\<rparr>"
proof -
  obtain t where t: "map_of S n = Some t"
    "S' = map (\<lambda>(m, u). (m, if m = n then t\<lparr>indexes := indexes t @ [x]\<rparr> else u)) S"
    using assms(2) by (auto simp: on_table_Inr create_index_def split: if_splits)
  then show ?thesis using valid_table [OF v t(1)] assms(3)
    by (intro same_rows_keep [OF v t]) (auto simp: table_ok_def)
qed

lemma drop_index_keeps:
  assumes v: "valid \<lparr>catalogue = S, rows = D\<rparr>" and "on_table n (drop_index name) S = Inr S'"
  shows "valid \<lparr>catalogue = S', rows = D\<rparr>"
proof -
  obtain t where t: "map_of S n = Some t"
    "S' = map (\<lambda>(m, u). (m, if m = n then t\<lparr>indexes := filter (\<lambda>x. ix_name x \<noteq> name) (indexes t)\<rparr> else u)) S"
    using assms(2) by (auto simp: on_table_Inr drop_index_def split: if_splits)
  then show ?thesis using valid_table [OF v t(1)]
    by (intro same_rows_keep [OF v t]) (auto simp: table_ok_def)
qed

lemma alter_nullable_keeps:
  assumes v: "valid \<lparr>catalogue = S, rows = D\<rparr>" and "on_table n (alter_nullable c b) S = Inr S'"
    and nn: "\<not> b \<Longrightarrow> (\<forall>r \<in> set (D n). map_of r c \<noteq> None)"
  shows "valid \<lparr>catalogue = S', rows = D\<rparr>"
proof -
  let ?f = "\<lambda>k. if col_name k = c then Column c (col_type k) b else k"
  obtain t where t: "map_of S n = Some t"
    "S' = map (\<lambda>(m, u). (m, if m = n then t\<lparr>columns := map ?f (columns t)\<rparr> else u)) S"
    using assms(2) by (auto simp: on_table_Inr alter_nullable_def split: if_splits)
  have names: "map col_name (map ?f (columns t)) = map col_name (columns t)" by auto
  have "row_typed (map ?f (columns t)) r" if r: "r \<in> set (D n)" for r
    unfolding row_typed_def names
  proof (intro conjI ballI)
    have old: "row_typed (columns t) r" using r valid_table [OF v t(1)] by (simp add: table_ok_def)
    then show "set (map fst r) \<subseteq> set (map col_name (columns t))" by (simp add: row_typed_def)
    fix k assume "k \<in> set (map ?f (columns t))"
    then obtain k' where k': "k' \<in> set (columns t)" "k = ?f k'" by auto
    then have "case map_of r (col_name k') of None \<Rightarrow> col_nullable k' | Some v \<Rightarrow> has_type (col_type k') v"
      using old by (simp add: row_typed_def)
    then show "case map_of r (col_name k) of None \<Rightarrow> col_nullable k | Some v \<Rightarrow> has_type (col_type k) v"
      using k' nn r by (cases b) (auto split: option.splits)
  qed
  then show ?thesis using valid_table [OF v t(1)]
    by (intro same_rows_keep [OF v t]) (auto simp: table_ok_def)
qed

lemma drop_column_keeps:
  assumes v: "valid \<lparr>catalogue = S, rows = D\<rparr>" and op: "reshape (DropColumn n c) S = Inr S'"
  shows "valid \<lparr>catalogue = S', rows = change_rows (DropColumn n c) D\<rparr>"
proof -
  let ?cut = "filter (\<lambda>p. fst p \<noteq> c)"
  let ?D = "D(n := map ?cut (D n))"
  have free: "(n, ds) \<in> set (references S) \<Longrightarrow> c \<notin> set ds" for ds
    using op by (auto simp: list_ex_iff split: if_splits)
  obtain t where t: "map_of S n = Some t"
    "S' = map (\<lambda>(m, u). (m, if m = n then t\<lparr>columns := filter (\<lambda>k. col_name k \<noteq> c) (columns t),
        constraints := filter (\<lambda>k. c \<notin> set (constraint_cols (snd k))) (constraints t),
        indexes := filter (\<lambda>x. c \<notin> set (ix_cols x)) (indexes t)\<rparr> else u)) S"
    using op by (auto simp: on_table_Inr drop_column_def split: if_splits)
  have keep: "satisfied ?D m (snd k)"
    if "(m, u) \<in> set S" "k \<in> set (constraints u)" "m = n \<Longrightarrow> c \<notin> set (constraint_cols (snd k))" for m u k
  proof (rule satisfied_without)
    show "satisfied D m (snd k)" using v that by (auto simp: valid_def table_ok_def)
    show "c \<notin> set ds" if "referent (snd k) = Some (n, ds)" for ds
      using free [of ds] that \<open>(m, u) \<in> set S\<close> \<open>k \<in> set (constraints u)\<close> by (force simp: references_set)
  qed (rule that(3))
  have typed: "row_typed (filter (\<lambda>k. col_name k \<noteq> c) (columns t)) (?cut r)" if "r \<in> set (D n)" for r
  proof -
    have "row_typed (columns t) r" using that valid_table [OF v t(1)] by (simp add: table_ok_def)
    moreover have "set (map col_name (filter (\<lambda>k. col_name k \<noteq> c) (columns t)))
        = set (map col_name (columns t)) - {c}" by auto
    ultimately show ?thesis by (auto simp: row_typed_def map_of_without)
  qed
  show ?thesis
    unfolding change_rows.simps
  proof (rule on_table_keeps [OF v t])
    show "table_ok ?D (n, t\<lparr>columns := filter (\<lambda>k. col_name k \<noteq> c) (columns t),
        constraints := filter (\<lambda>k. c \<notin> set (constraint_cols (snd k))) (constraints t),
        indexes := filter (\<lambda>x. c \<notin> set (ix_cols x)) (indexes t)\<rparr>)"
      using typed keep [OF map_of_SomeD [OF t(1)]] valid_table [OF v t(1)]
      by (auto simp: table_ok_def index_ok_def unique_rows_without)
    show "table_ok ?D (m, u)" if "(m, u) \<in> set S" "m \<noteq> n" for m u
      using that keep [OF that(1)] v by (auto simp: table_ok_def valid_def index_ok_def)
  next
    fix k x
    assume "k \<in> set (constraints (t\<lparr>columns := filter (\<lambda>k. col_name k \<noteq> c) (columns t),
        constraints := filter (\<lambda>k. c \<notin> set (constraint_cols (snd k))) (constraints t),
        indexes := filter (\<lambda>x. c \<notin> set (ix_cols x)) (indexes t)\<rparr>))" "referent (snd k) = Some x"
    then have "x \<in> set (references S)" using map_of_SomeD [OF t(1)] by (auto simp: references_set)
    then show "fst x \<in> set (table_names S)" using v by (auto simp: valid_def well_formed_def)
  qed
qed

lemma referenced_table:
  assumes "valid \<lparr>catalogue = S, rows = D\<rparr>" "(m, u) \<in> set S" "c \<in> set (constraints u)"
    "referent (snd c) = Some (w, ds)"
  shows "w \<in> set (table_names S)"
proof -
  have "(w, ds) \<in> set (references S)" using assms(2-4) by (auto simp: references_set)
  then show ?thesis using assms(1) by (force simp: valid_def well_formed_def)
qed

lemma first_fault_None: "first_fault f xs = None \<longleftrightarrow> (\<forall>x \<in> set xs. f x = None)"
  by (induction xs) (auto split: option.splits)

lemma create_table_keeps:
  assumes v: "valid \<lparr>catalogue = S, rows = D\<rparr>" and op: "create_table n cols cons S = Inr S'"
  shows "valid \<lparr>catalogue = S', rows = D(n := [])\<rparr>"
proof -
  let ?named = "map (\<lambda>c. (constraint_name n c, snd c)) cons"
  let ?t = "\<lparr>columns = keyed_columns cols cons, constraints = ?named, indexes = []\<rparr>"
  have c: "first_fault (\<lambda>c. constraint_fault S n cols (snd c)) ?named = None" "n \<notin> set (relation_names S)"
    "S' = S @ [(n, ?t)]"
    using op by (auto simp: create_table_def Let_def split: if_splits option.splits)
  have n: "n \<notin> set (table_names S)"
    using c(2) by (force simp: relation_names_def table_names_def)
  have refs: "fst x \<in> set (table_names S)" if "k \<in> set ?named" "referent (snd k) = Some x" for k x
    using c(1) that map_of_names unfolding first_fault_None
    by (cases "snd k") (fastforce simp: constraint_fault_def split: if_splits option.splits)+
  have "fst x \<in> set (table_names S')" if "x \<in> set (references S')" for x
  proof -
    have "x \<in> set (references S) \<or> (\<exists>k \<in> set ?named. referent (snd k) = Some x)"
      using that unfolding references_set c(3) by auto
    moreover have "fst x \<in> set (table_names S)" if "x \<in> set (references S)"
      using that v by (auto simp: valid_def well_formed_def)
    ultimately have "fst x \<in> set (table_names S)" using refs by blast
    then show ?thesis by (simp add: c(3) table_names_def)
  qed
  then have "well_formed S'" using v n c(3) by (auto simp: valid_def well_formed_def table_names_def)
  moreover have "table_ok (D(n := [])) (m, u)" if "(m, u) \<in> set S" for m u
  proof (rule table_ok_cong)
    show "table_ok D (m, u)" using v that by (auto simp: valid_def)
    have "m \<in> set (table_names S)" using that by (force simp: table_names_def)
    then show "(D(n := [])) m = D m" using n by auto
    show "(D(n := [])) w = D w" if "k \<in> set (constraints u)" "referent (snd k) = Some (w, ds)" for k w ds
      using referenced_table [OF v \<open>(m, u) \<in> set S\<close> that] n by auto
  qed
  moreover have "table_ok (D(n := [])) (n, ?t)"
    by (auto simp: table_ok_def satisfied_no_rows)
  ultimately show ?thesis using c(3) by (auto simp: valid_def)
qed

lemma drop_table_keeps:
  assumes v: "valid \<lparr>catalogue = S, rows = D\<rparr>" and op: "drop_table n S = Inr S'"
  shows "valid \<lparr>catalogue = S', rows = D(n := [])\<rparr>"
proof -
  have S': "S' = filter (\<lambda>nt. fst nt \<noteq> n) S" and free: "n \<notin> fst ` set (references S')"
    using op by (auto simp: drop_table_def Let_def split: if_splits)
  have refs: "fst x \<in> set (table_names S')" if "x \<in> set (references S')" for x
  proof -
    have "x \<in> set (references S)" using that S' by (auto simp: references_set)
    then have "fst x \<in> set (table_names S)" using v by (auto simp: valid_def well_formed_def)
    moreover have "fst x \<noteq> n" using free that by auto
    ultimately show ?thesis using S' by (auto simp: table_names_def)
  qed
  have "distinct (table_names S')"
    using v S' by (auto simp: valid_def well_formed_def table_names_def distinct_map inj_on_def)
  then have "well_formed S'" using refs by (auto simp: well_formed_def)
  moreover have "table_ok (D(n := [])) (m, u)" if "(m, u) \<in> set S'" for m u
  proof (rule table_ok_cong)
    show "table_ok D (m, u)" using v that S' by (auto simp: valid_def)
    show "(D(n := [])) m = D m" using that S' by auto
    show "(D(n := [])) w = D w" if "k \<in> set (constraints u)" "referent (snd k) = Some (w, ds)" for k w ds
    proof -
      have "(w, ds) \<in> set (references S')" using \<open>(m, u) \<in> set S'\<close> that by (auto simp: references_set)
      then show ?thesis using free by force
    qed
  qed
  ultimately show ?thesis by (auto simp: valid_def)
qed

lemma delete_keeps:
  assumes v: "valid \<lparr>catalogue = S, rows = D\<rparr>" and r: "reject_rows (DeleteFrom t k) S D = None"
  shows "valid \<lparr>catalogue = S, rows = change_rows (DeleteFrom t k) D\<rparr>"
proof -
  let ?D = "D(t := filter (\<lambda>r. \<not> deleted k r) (D t))"
  have ok: "references_ok S ?D" using r by (auto simp: refuse_def split: if_splits)
  have "satisfied ?D m (snd c)" if "(m, u) \<in> set S" "c \<in> set (constraints u)" for m u c
  proof (cases "referent (snd c)")
    case None
    then show ?thesis using satisfied_deleted [of D m "snd c" t] v that by (auto simp: valid_def table_ok_def)
  next
    case (Some w)
    then show ?thesis using ok that by (fastforce simp: references_ok_def list_all_iff)
  qed
  then have "table_ok ?D (m, u)" if "(m, u) \<in> set S" for m u
    using that v by (auto simp: valid_def table_ok_def index_ok_def unique_rows_filter)
  then show ?thesis using v by (auto simp: valid_def)
qed

subsection \<open>Every directive keeps a valid database valid\<close>

lemma directive_keeps_valid:
  assumes "apply_directive x d = Inr d'" "valid d"
  shows "valid d'"
proof -
  obtain S D where d: "d = \<lparr>catalogue = S, rows = D\<rparr>" by (cases d)
  obtain S' where S': "reshape x S = Inr S'" "reject_rows x S D = None"
    "d' = \<lparr>catalogue = S', rows = change_rows x D\<rparr>"
    using assms(1) d by (auto simp: apply_directive_def and_then_Inr_iff split: option.splits)
  have v: "valid \<lparr>catalogue = S, rows = D\<rparr>" using assms(2) d by simp
  have "valid \<lparr>catalogue = S', rows = change_rows x D\<rparr>"
  proof (cases x)
    case (CreateTable n cols cons)
    then show ?thesis using create_table_keeps [OF v] S' by simp
  next
    case (DropTable n)
    then show ?thesis using drop_table_keeps [OF v] S' by simp
  next
    case (AddColumn n c)
    then show ?thesis using add_column_keeps [OF v] S' by (auto simp: refuse_def split: if_splits)
  next
    case (DropColumn n c)
    then show ?thesis using drop_column_keeps [OF v] S' by simp
  next
    case (CreateCheck name n k)
    then show ?thesis using add_constraint_keeps [OF v] S' by (auto simp: refuse_def split: if_splits)
  next
    case (CreateForeignKey name n u cs ds)
    then show ?thesis using add_constraint_keeps [OF v] S' by (auto simp: refuse_def split: if_splits)
  next
    case (DropConstraint name n)
    then show ?thesis using drop_constraint_keeps [OF v] S' by simp
  next
    case (CreateIndex name n cs u)
    then show ?thesis using create_index_keeps [OF v] S'
      by (auto simp: refuse_def index_ok_def split: if_splits)
  next
    case (DropIndex name n)
    then show ?thesis using drop_index_keeps [OF v] S' by simp
  next
    case (AlterNullable n c b)
    then show ?thesis using alter_nullable_keeps [OF v] S' by (auto simp: refuse_def split: if_splits)
  next
    case (DeleteFrom t k)
    then have "S' = S" using S' by (auto split: option.splits)
    then show ?thesis using delete_keeps [OF v, of t k] S'(2) DeleteFrom by simp
  qed
  then show ?thesis using S' by simp
qed

text \<open>A database engine: statements that are accepted keep what it promises.\<close>

locale ddl_engine =
  fixes step :: "'x \<Rightarrow> 's \<Rightarrow> 'e + 's" and good :: "'s \<Rightarrow> bool"
  assumes step_good: "step x s = Inr s' \<Longrightarrow> good s \<Longrightarrow> good s'"
begin

lemma all_good: "run_all step xs s = Inr s' \<Longrightarrow> good s \<Longrightarrow> good s'"
  by (induction xs arbitrary: s) (auto simp: and_then_Inr_iff intro: step_good)

end

interpretation engine: ddl_engine apply_directive valid
  by unfold_locales (rule directive_keeps_valid)

lemma script_keeps_valid: "run_script xs d = Inr d' \<Longrightarrow> valid d \<Longrightarrow> valid d'"
  unfolding run_script_def by (rule engine.all_good)

end
