(* ===== verification/Migrations.thy ===== *)
theory Migrations
  imports SchemaLaws
begin

text \<open>
  The Alembic revisions under \<open>src/migrations/versions\<close>, one pair of scripts per file with
  the text of every check and statement as the source has it, and the environment that runs
  them: the chain of revisions, the path from the version of the database to a target, and the
  single transaction of \<open>do_run_migrations\<close>, which leaves the database alone when a script
  is refused.
\<close>

record revision =
  rev_id :: string
  down_revision :: "string option"
  upgrade :: "directive list"
  downgrade :: "directive list"

subsection \<open>The revisions\<close>

text \<open>0001: Phase 0 baseline with no domain tables.\<close>

definition upgrade_0001 :: "directive list" where
  "upgrade_0001 = []"

definition downgrade_0001 :: "directive list" where
  "downgrade_0001 = []"

definition revision_0001 :: revision where
  "revision_0001 = \<lparr>rev_id = ''0001'', down_revision = None,
     upgrade = upgrade_0001, downgrade = downgrade_0001\<rparr>"

text \<open>0002: Create tenant persistence table.\<close>

definition upgrade_0002 :: "directive list" where
  "upgrade_0002 =
     [CreateTable ''tenants''
       [Column ''id'' UUID False,
        Column ''name'' (STRING 100) False,
        Column ''normalized_name'' (STRING 200) False,
        Column ''created_at'' TIMESTAMPTZ False]
       [(Some ''pk_tenants'', PrimaryKey [''id'']),
        (Some ''uq_tenants_normalized_name'', Unique [''normalized_name''])]]"

definition downgrade_0002 :: "directive list" where
  "downgrade_0002 =
     [DropTable ''tenants'']"

definition revision_0002 :: revision where
  "revision_0002 = \<lparr>rev_id = ''0002'', down_revision = Some ''0001'',
     upgrade = upgrade_0002, downgrade = downgrade_0002\<rparr>"

text \<open>0003: Create governed Agent identity table.\<close>

definition upgrade_0003 :: "directive list" where
  "upgrade_0003 =
     [CreateTable ''agents''
       [Column ''id'' UUID False,
        Column ''tenant_id'' UUID False,
        Column ''name'' (STRING 100) False,
        Column ''normalized_name'' (STRING 200) False,
        Column ''created_at'' TIMESTAMPTZ False]
       [(Some ''fk_agents_tenant_id_tenants'', ForeignKey [''tenant_id''] ''tenants'' [''id'']),
        (Some ''pk_agents'', PrimaryKey [''id'']),
        (Some ''uq_agents_tenant_id_normalized_name'', Unique [''tenant_id'', ''normalized_name''])]]"

definition downgrade_0003 :: "directive list" where
  "downgrade_0003 =
     [DropTable ''agents'']"

definition revision_0003 :: revision where
  "revision_0003 = \<lparr>rev_id = ''0003'', down_revision = Some ''0002'',
     upgrade = upgrade_0003, downgrade = downgrade_0003\<rparr>"

text \<open>0004: Create governed Model reference table.\<close>

definition upgrade_0004 :: "directive list" where
  "upgrade_0004 =
     [CreateTable ''models''
       [Column ''id'' UUID False,
        Column ''tenant_id'' UUID False,
        Column ''name'' (STRING 100) False,
        Column ''normalized_name'' (STRING 200) False,
        Column ''provider'' (STRING 50) False,
        Column ''provider_model_reference'' (STRING 255) False,
        Column ''created_at'' TIMESTAMPTZ False]
       [(Some ''fk_models_tenant_id_tenants'', ForeignKey [''tenant_id''] ''tenants'' [''id'']),
        (Some ''pk_models'', PrimaryKey [''id'']),
        (Some ''uq_models_tenant_id_normalized_name'', Unique [''tenant_id'', ''normalized_name''])]]"

definition downgrade_0004 :: "directive list" where
  "downgrade_0004 =
     [DropTable ''models'']"

definition revision_0004 :: revision where
  "revision_0004 = \<lparr>rev_id = ''0004'', down_revision = Some ''0003'',
     upgrade = upgrade_0004, downgrade = downgrade_0004\<rparr>"

text \<open>0005: Create Runtime Gateway Invocation table.\<close>

definition upgrade_0005 :: "directive list" where
  "upgrade_0005 =
     [CreateTable ''invocations''
       [Column ''id'' UUID False,
        Column ''tenant_id'' UUID False,
        Column ''agent_id'' UUID False,
        Column ''model_id'' UUID False,
        Column ''status'' (STRING 20) False,
        Column ''input_text'' TEXT False,
        Column ''output_text'' TEXT True,
        Column ''started_at'' TIMESTAMPTZ False,
        Column ''completed_at'' TIMESTAMPTZ False]
       [(Some ''ck_invocations_status_output'',
           Check (Or [And [Rel ''='' (Col ''status'') (Lit ''succeeded''), NotNull ''output_text''],
                 And [Rel ''='' (Col ''status'') (Lit ''failed''), IsNull ''output_text'']])),
        (Some ''fk_invocations_tenant_id_tenants'', ForeignKey [''tenant_id''] ''tenants'' [''id'']),
        (Some ''fk_invocations_agent_id_agents'', ForeignKey [''agent_id''] ''agents'' [''id'']),
        (Some ''fk_invocations_model_id_models'', ForeignKey [''model_id''] ''models'' [''id'']),
        (Some ''pk_invocations'', PrimaryKey [''id''])]]"

definition downgrade_0005 :: "directive list" where
  "downgrade_0005 =
     [DropTable ''invocations'']"

definition revision_0005 :: revision where
  "revision_0005 = \<lparr>rev_id = ''0005'', down_revision = Some ''0004'',
     upgrade = upgrade_0005, downgrade = downgrade_0005\<rparr>"

text \<open>0006: Create Agent-Model permissions and runtime policy decisions.\<close>

definition upgrade_0006 :: "directive list" where
  "upgrade_0006 =
     [CreateTable ''agent_model_permissions''
       [Column ''id'' UUID False,
        Column ''tenant_id'' UUID False,
        Column ''agent_id'' UUID False,
        Column ''model_id'' UUID False,
        Column ''effect'' (STRING 10) False,
        Column ''created_at'' TIMESTAMPTZ False,
        Column ''updated_at'' TIMESTAMPTZ False]
       [(Some ''ck_permissions_effect'', Check (In ''effect'' [''allow'', ''deny''])),
        (Some ''fk_permissions_tenant_id_tenants'', ForeignKey [''tenant_id''] ''tenants'' [''id'']),
        (Some ''fk_permissions_agent_id_agents'', ForeignKey [''agent_id''] ''agents'' [''id'']),
        (Some ''fk_permissions_model_id_models'', ForeignKey [''model_id''] ''models'' [''id'']),
        (Some ''pk_agent_model_permissions'', PrimaryKey [''id'']),
        (Some ''uq_permissions_tenant_agent_model'', Unique [''tenant_id'', ''agent_id'', ''model_id''])],
      CreateTable ''policy_decisions''
       [Column ''id'' UUID False,
        Column ''invocation_id'' UUID False,
        Column ''tenant_id'' UUID False,
        Column ''agent_id'' UUID False,
        Column ''model_id'' UUID False,
        Column ''permission_id'' UUID True,
        Column ''effect'' (STRING 10) False,
        Column ''decided_at'' TIMESTAMPTZ False]
       [(Some ''ck_policy_decisions_effect'', Check (In ''effect'' [''allow'', ''deny''])),
        (Some ''fk_policy_decisions_tenant_id_tenants'', ForeignKey [''tenant_id''] ''tenants'' [''id'']),
        (Some ''fk_policy_decisions_agent_id_agents'', ForeignKey [''agent_id''] ''agents'' [''id'']),
        (Some ''fk_policy_decisions_model_id_models'', ForeignKey [''model_id''] ''models'' [''id'']),
        (Some ''fk_policy_decisions_permission_id_permissions'',
           ForeignKey [''permission_id''] ''agent_model_permissions'' [''id'']),
        (Some ''pk_policy_decisions'', PrimaryKey [''id''])],
      CreateIndex ''ix_policy_decisions_invocation_id'' ''policy_decisions'' [''invocation_id''] True]"

definition downgrade_0006 :: "directive list" where
  "downgrade_0006 =
     [DropIndex ''ix_policy_decisions_invocation_id'' ''policy_decisions'',
      DropTable ''policy_decisions'',
      DropTable ''agent_model_permissions'']"

definition revision_0006 :: revision where
  "revision_0006 = \<lparr>rev_id = ''0006'', down_revision = Some ''0005'',
     upgrade = upgrade_0006, downgrade = downgrade_0006\<rparr>"

text \<open>0007: Link Invocations to policy decisions and add denied status.\<close>

definition upgrade_0007 :: "directive list" where
  "upgrade_0007 =
     [AddColumn ''invocations'' (Column ''policy_decision_id'' UUID True),
      CreateForeignKey ''fk_invocations_policy_decision_id_policy_decisions''
       ''invocations'' ''policy_decisions'' [''policy_decision_id''] [''id''],
      DropConstraint ''ck_invocations_status_output'' ''invocations'',
      CreateCheck ''ck_invocations_status_output'' ''invocations''
       (Or [And [Rel ''='' (Col ''status'') (Lit ''succeeded''), NotNull ''output_text''],
             And [In ''status'' [''failed'', ''denied''], IsNull ''output_text'']])]"

definition downgrade_0007 :: "directive list" where
  "downgrade_0007 =
     [DropConstraint ''ck_invocations_status_output'' ''invocations'',
      CreateCheck ''ck_invocations_status_output'' ''invocations''
       (Or [And [Rel ''='' (Col ''status'') (Lit ''succeeded''), NotNull ''output_text''],
             And [Rel ''='' (Col ''status'') (Lit ''failed''), IsNull ''output_text'']]),
      DropConstraint ''fk_invocations_policy_decision_id_policy_decisions'' ''invocations'',
      DropColumn ''invocations'' ''policy_decision_id'']"

definition revision_0007 :: revision where
  "revision_0007 = \<lparr>rev_id = ''0007'', down_revision = Some ''0006'',
     upgrade = upgrade_0007, downgrade = downgrade_0007\<rparr>"

text \<open>0008: Correlate Invocations with authenticated runtime principals.\<close>

definition upgrade_0008 :: "directive list" where
  "upgrade_0008 =
     [AddColumn ''invocations'' (Column ''runtime_principal_id'' (STRING 255) True)]"

definition downgrade_0008 :: "directive list" where
  "downgrade_0008 =
     [DropColumn ''invocations'' ''runtime_principal_id'']"

definition revision_0008 :: revision where
  "revision_0008 = \<lparr>rev_id = ''0008'', down_revision = Some ''0007'',
     upgrade = upgrade_0008, downgrade = downgrade_0008\<rparr>"

text \<open>0009: Add provider-neutral observability facts to Invocations.\<close>

definition upgrade_0009 :: "directive list" where
  "upgrade_0009 =
     [AddColumn ''invocations'' (Column ''duration_ms'' INTEGER True),
      AddColumn ''invocations'' (Column ''input_units'' INTEGER True),
      AddColumn ''invocations'' (Column ''output_units'' INTEGER True),
      AddColumn ''invocations'' (Column ''total_units'' INTEGER True),
      AddColumn ''invocations'' (Column ''provider_response_id'' (STRING 255) True),
      CreateCheck ''ck_invocations_duration_non_negative'' ''invocations''
       (Rel ''>='' (Col ''duration_ms'') (Numeral 0)),
      CreateCheck ''ck_invocations_input_units_non_negative'' ''invocations''
       (Rel ''>='' (Col ''input_units'') (Numeral 0)),
      CreateCheck ''ck_invocations_output_units_non_negative'' ''invocations''
       (Rel ''>='' (Col ''output_units'') (Numeral 0)),
      CreateCheck ''ck_invocations_total_units_non_negative'' ''invocations''
       (Rel ''>='' (Col ''total_units'') (Numeral 0))]"

definition downgrade_0009 :: "directive list" where
  "downgrade_0009 =
     [DropConstraint ''ck_invocations_total_units_non_negative'' ''invocations'',
      DropConstraint ''ck_invocations_output_units_non_negative'' ''invocations'',
      DropConstraint ''ck_invocations_input_units_non_negative'' ''invocations'',
      DropConstraint ''ck_invocations_duration_non_negative'' ''invocations'',
      DropColumn ''invocations'' ''provider_response_id'',
      DropColumn ''invocations'' ''total_units'',
      DropColumn ''invocations'' ''output_units'',
      DropColumn ''invocations'' ''input_units'',
      DropColumn ''invocations'' ''duration_ms'']"

definition revision_0009 :: revision where
  "revision_0009 = \<lparr>rev_id = ''0009'', down_revision = Some ''0008'',
     upgrade = upgrade_0009, downgrade = downgrade_0009\<rparr>"

text \<open>0010: Add Runtime Principal usage-limit decision evidence.\<close>

definition upgrade_0010 :: "directive list" where
  "upgrade_0010 =
     [DropConstraint ''ck_invocations_status_output'' ''invocations'',
      CreateCheck ''ck_invocations_status_output'' ''invocations''
       (Or [And [Rel ''='' (Col ''status'') (Lit ''succeeded''), NotNull ''output_text''],
             And [In ''status'' [''failed'', ''denied'', ''limited''], IsNull ''output_text'']]),
      AddColumn ''invocations'' (Column ''usage_consumed_units'' INTEGER True),
      AddColumn ''invocations'' (Column ''usage_limit_units'' INTEGER True),
      AddColumn ''invocations'' (Column ''usage_allowance_units'' INTEGER True),
      AddColumn ''invocations'' (Column ''usage_window_start'' TIMESTAMPTZ True),
      AddColumn ''invocations'' (Column ''usage_window_end'' TIMESTAMPTZ True),
      CreateCheck ''ck_invocations_usage_consumed_non_negative'' ''invocations''
       (Rel ''>='' (Col ''usage_consumed_units'') (Numeral 0)),
      CreateCheck ''ck_invocations_usage_limit_positive'' ''invocations''
       (Rel ''>'' (Col ''usage_limit_units'') (Numeral 0)),
      CreateCheck ''ck_invocations_usage_allowance_positive'' ''invocations''
       (Rel ''>'' (Col ''usage_allowance_units'') (Numeral 0)),
      CreateCheck ''ck_invocations_limited_evidence'' ''invocations''
       (Or [And [Rel ''='' (Col ''status'') (Lit ''limited''), NotNull ''usage_consumed_units'',
                  NotNull ''usage_limit_units'', NotNull ''usage_allowance_units'',
                  NotNull ''usage_window_start'', NotNull ''usage_window_end'',
                  Rel ''>'' (Plus (Col ''usage_consumed_units'') (Col ''usage_allowance_units'')) (Col ''usage_limit_units''),
                  Rel ''<='' (Col ''usage_allowance_units'') (Col ''usage_limit_units''),
                  IsNull ''total_units'', IsNull ''provider_response_id''],
             And [Rel ''<>'' (Col ''status'') (Lit ''limited''), IsNull ''usage_consumed_units'',
                  IsNull ''usage_limit_units'', IsNull ''usage_allowance_units'',
                  IsNull ''usage_window_start'', IsNull ''usage_window_end'']]),
      CreateIndex ''ix_invocations_runtime_principal_started_at''
        ''invocations'' [''runtime_principal_id'', ''started_at''] False]"

definition downgrade_0010 :: "directive list" where
  "downgrade_0010 =
     [DropIndex ''ix_invocations_runtime_principal_started_at'' ''invocations'',
      DropConstraint ''ck_invocations_limited_evidence'' ''invocations'',
      DropConstraint ''ck_invocations_usage_allowance_positive'' ''invocations'',
      DropConstraint ''ck_invocations_usage_limit_positive'' ''invocations'',
      DropConstraint ''ck_invocations_usage_consumed_non_negative'' ''invocations'',
      DropColumn ''invocations'' ''usage_window_end'',
      DropColumn ''invocations'' ''usage_window_start'',
      DropColumn ''invocations'' ''usage_allowance_units'',
      DropColumn ''invocations'' ''usage_limit_units'',
      DropColumn ''invocations'' ''usage_consumed_units'',
      DropConstraint ''ck_invocations_status_output'' ''invocations'',
      CreateCheck ''ck_invocations_status_output'' ''invocations''
       (Or [And [Rel ''='' (Col ''status'') (Lit ''succeeded''), NotNull ''output_text''],
             And [In ''status'' [''failed'', ''denied''], IsNull ''output_text'']])]"

definition revision_0010 :: revision where
  "revision_0010 = \<lparr>rev_id = ''0010'', down_revision = Some ''0009'',
     upgrade = upgrade_0010, downgrade = downgrade_0010\<rparr>"

text \<open>0011: Add immutable estimated Invocation cost snapshots.\<close>

definition upgrade_0011 :: "directive list" where
  "upgrade_0011 =
     [AddColumn ''invocations'' (Column ''cost_currency'' (STRING 3) True),
      AddColumn ''invocations'' (Column ''cost_input'' (NUMERIC 30 12) True),
      AddColumn ''invocations'' (Column ''cost_output'' (NUMERIC 30 12) True),
      AddColumn ''invocations'' (Column ''cost_total'' (NUMERIC 30 12) True),
      AddColumn ''invocations'' (Column ''pricing_version'' (STRING 255) True),
      AddColumn ''invocations'' (Column ''pricing_basis_units'' INTEGER True),
      AddColumn ''invocations'' (Column ''pricing_input_rate'' (NUMERIC 18 12) True),
      AddColumn ''invocations'' (Column ''pricing_output_rate'' (NUMERIC 18 12) True),
      CreateCheck ''ck_invocations_cost_snapshot_complete'' ''invocations''
       (Or [And [IsNull ''cost_currency'', IsNull ''cost_input'', IsNull ''cost_output'',
                  IsNull ''cost_total'', IsNull ''pricing_version'', IsNull ''pricing_basis_units'',
                  IsNull ''pricing_input_rate'', IsNull ''pricing_output_rate''],
             And [Rel ''='' (Col ''cost_currency'') (Lit ''USD''),
                  Rel ''>='' (Col ''cost_input'') (Numeral 0),
                  Rel ''>='' (Col ''cost_output'') (Numeral 0),
                  Rel ''='' (Col ''cost_total'') (Plus (Col ''cost_input'') (Col ''cost_output'')),
                  NotNull ''pricing_version'', Rel ''>'' (Col ''pricing_basis_units'') (Numeral 0),
                  Rel ''>='' (Col ''pricing_input_rate'') (Numeral 0),
                  Rel ''>='' (Col ''pricing_output_rate'') (Numeral 0)]])]"

definition downgrade_0011 :: "directive list" where
  "downgrade_0011 =
     [DropConstraint ''ck_invocations_cost_snapshot_complete'' ''invocations'',
      DropColumn ''invocations'' ''pricing_output_rate'',
      DropColumn ''invocations'' ''pricing_input_rate'',
      DropColumn ''invocations'' ''pricing_basis_units'',
      DropColumn ''invocations'' ''pricing_version'',
      DropColumn ''invocations'' ''cost_total'',
      DropColumn ''invocations'' ''cost_output'',
      DropColumn ''invocations'' ''cost_input'',
      DropColumn ''invocations'' ''cost_currency'']"

definition revision_0011 :: revision where
  "revision_0011 = \<lparr>rev_id = ''0011'', down_revision = Some ''0010'',
     upgrade = upgrade_0011, downgrade = downgrade_0011\<rparr>"

text \<open>0012: Add the bounded Tenant Runtime reporting index.\<close>

definition upgrade_0012 :: "directive list" where
  "upgrade_0012 =
     [CreateIndex ''ix_invocations_tenant_started_at''
        ''invocations'' [''tenant_id'', ''started_at''] False]"

definition downgrade_0012 :: "directive list" where
  "downgrade_0012 =
     [DropIndex ''ix_invocations_tenant_started_at'' ''invocations'']"

definition revision_0012 :: revision where
  "revision_0012 = \<lparr>rev_id = ''0012'', down_revision = Some ''0011'',
     upgrade = upgrade_0012, downgrade = downgrade_0012\<rparr>"

text \<open>0013: Add Tenant estimated-cost budget denial evidence.\<close>

definition upgrade_0013 :: "directive list" where
  "upgrade_0013 =
     [DropConstraint ''ck_invocations_status_output'' ''invocations'',
      CreateCheck ''ck_invocations_status_output'' ''invocations''
       (Or [And [Rel ''='' (Col ''status'') (Lit ''succeeded''), NotNull ''output_text''],
             And [In ''status'' [''failed'', ''denied'', ''limited'', ''cost_limited''],
                  IsNull ''output_text'']]),
      AddColumn ''invocations'' (Column ''cost_budget_consumed'' (NUMERIC 30 12) True),
      AddColumn ''invocations'' (Column ''cost_budget_limit'' (NUMERIC 30 12) True),
      AddColumn ''invocations'' (Column ''cost_budget_allowance'' (NUMERIC 30 12) True),
      AddColumn ''invocations'' (Column ''cost_budget_window_start'' TIMESTAMPTZ True),
      AddColumn ''invocations'' (Column ''cost_budget_window_end'' TIMESTAMPTZ True),
      CreateCheck ''ck_invocations_cost_budget_evidence'' ''invocations''
       (Or [And [Rel ''='' (Col ''status'') (Lit ''cost_limited''), NotNull ''cost_budget_consumed'',
                  NotNull ''cost_budget_limit'', NotNull ''cost_budget_allowance'',
                  NotNull ''cost_budget_window_start'', NotNull ''cost_budget_window_end'',
                  Rel ''>='' (Col ''cost_budget_consumed'') (Numeral 0),
                  Rel ''>'' (Col ''cost_budget_limit'') (Numeral 0),
                  Rel ''>'' (Col ''cost_budget_allowance'') (Numeral 0),
                  Rel ''<='' (Col ''cost_budget_allowance'') (Col ''cost_budget_limit''),
                  Rel ''>'' (Plus (Col ''cost_budget_consumed'') (Col ''cost_budget_allowance'')) (Col ''cost_budget_limit''),
                  Rel ''>'' (Col ''cost_budget_window_end'') (Col ''cost_budget_window_start''),
                  IsNull ''input_units'', IsNull ''output_units'', IsNull ''total_units'',
                  IsNull ''provider_response_id'', IsNull ''cost_total''],
             And [Rel ''<>'' (Col ''status'') (Lit ''cost_limited''), IsNull ''cost_budget_consumed'',
                  IsNull ''cost_budget_limit'', IsNull ''cost_budget_allowance'',
                  IsNull ''cost_budget_window_start'', IsNull ''cost_budget_window_end'']])]"

definition downgrade_0013 :: "directive list" where
  "downgrade_0013 =
     [DeleteFrom ''invocations'' (Rel ''='' (Col ''status'') (Lit ''cost_limited'')),
      DropConstraint ''ck_invocations_cost_budget_evidence'' ''invocations'',
      DropColumn ''invocations'' ''cost_budget_window_end'',
      DropColumn ''invocations'' ''cost_budget_window_start'',
      DropColumn ''invocations'' ''cost_budget_allowance'',
      DropColumn ''invocations'' ''cost_budget_limit'',
      DropColumn ''invocations'' ''cost_budget_consumed'',
      DropConstraint ''ck_invocations_status_output'' ''invocations'',
      CreateCheck ''ck_invocations_status_output'' ''invocations''
       (Or [And [Rel ''='' (Col ''status'') (Lit ''succeeded''), NotNull ''output_text''],
             And [In ''status'' [''failed'', ''denied'', ''limited''], IsNull ''output_text'']])]"

definition revision_0013 :: revision where
  "revision_0013 = \<lparr>rev_id = ''0013'', down_revision = Some ''0012'',
     upgrade = upgrade_0013, downgrade = downgrade_0013\<rparr>"

text \<open>0014: Add immutable Management governance audit evidence.\<close>

definition upgrade_0014 :: "directive list" where
  "upgrade_0014 =
     [CreateTable ''management_audit_records''
       [Column ''audit_id'' UUID False,
        Column ''principal_id'' (STRING 255) False,
        Column ''tenant_id'' UUID False,
        Column ''action'' (STRING 64) False,
        Column ''resource_type'' (STRING 64) False,
        Column ''resource_id'' UUID False,
        Column ''outcome'' (STRING 16) False,
        Column ''occurred_at'' TIMESTAMPTZ False,
        Column ''before_fingerprint'' (STRING 64) True,
        Column ''after_fingerprint'' (STRING 64) True]
       [(Some ''ck_management_audit_action'',
           Check (In ''action'' [''agent_model_permission_set''])),
        (Some ''ck_management_audit_resource_type'',
           Check (In ''resource_type'' [''agent_model_permission''])),
        (Some ''ck_management_audit_outcome'', Check (In ''outcome'' [''succeeded'', ''failed''])),
        (Some ''ck_management_audit_before_fingerprint'',
           Check (Or [IsNull ''before_fingerprint'', Matches ''before_fingerprint'' ''^[0-9a-f]{64}$''])),
        (Some ''ck_management_audit_after_fingerprint'',
           Check (Or [IsNull ''after_fingerprint'', Matches ''after_fingerprint'' ''^[0-9a-f]{64}$''])),
        (Some ''ck_management_audit_success_after'',
           Check (Or [Rel ''<>'' (Col ''outcome'') (Lit ''succeeded''), NotNull ''after_fingerprint''])),
        (Some ''fk_management_audit_tenant_id_tenants'', ForeignKey [''tenant_id''] ''tenants'' [''id'']),
        (None, PrimaryKey [''audit_id''])],
      CreateIndex ''ix_management_audit_tenant_occurred''
        ''management_audit_records'' [''tenant_id'', ''occurred_at''] False]"

definition downgrade_0014 :: "directive list" where
  "downgrade_0014 =
     [DropIndex ''ix_management_audit_tenant_occurred'' ''management_audit_records'',
      DropTable ''management_audit_records'']"

definition revision_0014 :: revision where
  "revision_0014 = \<lparr>rev_id = ''0014'', down_revision = Some ''0013'',
     upgrade = upgrade_0014, downgrade = downgrade_0014\<rparr>"

text \<open>0015: Add persisted Management principals and independent credentials.\<close>

definition actions_0015 :: "string list" where
  "actions_0015 =
     [''agent_model_permission_set'', ''management_principal_created'',
      ''management_credential_issued'', ''management_credential_revoked'',
      ''management_principal_disabled'', ''management_principal_scopes_set'']"

definition resources_0015 :: "string list" where
  "resources_0015 =
     [''agent_model_permission'', ''management_principal'', ''management_credential'']"

definition upgrade_0015 :: "directive list" where
  "upgrade_0015 =
     [CreateTable ''management_principals''
       [Column ''principal_id'' UUID False,
        Column ''display_name'' (STRING 100) False,
        Column ''can_manage_principals'' BOOLEAN False,
        Column ''created_at'' TIMESTAMPTZ False,
        Column ''disabled_at'' TIMESTAMPTZ True]
       [(None, PrimaryKey [''principal_id''])],
      CreateTable ''management_principal_tenant_scopes''
       [Column ''principal_id'' UUID False,
        Column ''tenant_id'' UUID False]
       [(Some ''fk_management_scope_principal'',
           ForeignKey [''principal_id''] ''management_principals'' [''principal_id'']),
        (Some ''fk_management_scope_tenant'', ForeignKey [''tenant_id''] ''tenants'' [''id'']),
        (None, PrimaryKey [''principal_id'', ''tenant_id''])],
      CreateTable ''management_credentials''
       [Column ''credential_id'' UUID False,
        Column ''principal_id'' UUID False,
        Column ''secret_verifier'' (STRING 64) False,
        Column ''label'' (STRING 100) True,
        Column ''created_at'' TIMESTAMPTZ False,
        Column ''expires_at'' TIMESTAMPTZ True,
        Column ''revoked_at'' TIMESTAMPTZ True]
       [(Some ''ck_management_credential_verifier'',
           Check (Matches ''secret_verifier'' ''^[0-9a-f]{64}$'')),
        (Some ''fk_management_credential_principal'',
           ForeignKey [''principal_id''] ''management_principals'' [''principal_id'']),
        (None, PrimaryKey [''credential_id''])],
      CreateIndex ''ix_management_credentials_principal_id''
        ''management_credentials'' [''principal_id''] False,
      AlterNullable ''management_audit_records'' ''tenant_id'' True,
      DropConstraint ''ck_management_audit_action'' ''management_audit_records'',
      DropConstraint ''ck_management_audit_resource_type'' ''management_audit_records'',
      CreateCheck ''ck_management_audit_action'' ''management_audit_records''
       (In ''action'' actions_0015),
      CreateCheck ''ck_management_audit_resource_type'' ''management_audit_records''
       (In ''resource_type'' resources_0015)]"

definition downgrade_0015 :: "directive list" where
  "downgrade_0015 =
     [DeleteFrom ''management_audit_records'' (IsNull ''tenant_id''),
      DropConstraint ''ck_management_audit_action'' ''management_audit_records'',
      DropConstraint ''ck_management_audit_resource_type'' ''management_audit_records'',
      CreateCheck ''ck_management_audit_action'' ''management_audit_records''
       (In ''action'' [''agent_model_permission_set'']),
      CreateCheck ''ck_management_audit_resource_type'' ''management_audit_records''
       (In ''resource_type'' [''agent_model_permission'']),
      AlterNullable ''management_audit_records'' ''tenant_id'' False,
      DropIndex ''ix_management_credentials_principal_id'' ''management_credentials'',
      DropTable ''management_credentials'',
      DropTable ''management_principal_tenant_scopes'',
      DropTable ''management_principals'']"

definition revision_0015 :: revision where
  "revision_0015 = \<lparr>rev_id = ''0015'', down_revision = Some ''0014'',
     upgrade = upgrade_0015, downgrade = downgrade_0015\<rparr>"

text \<open>0016: Add bounded Management credential authentication evidence.\<close>

definition upgrade_0016 :: "directive list" where
  "upgrade_0016 =
     [CreateTable ''management_authentication_evidence''
       [Column ''credential_id'' UUID False,
        Column ''principal_id'' UUID False,
        Column ''outcome'' (STRING 32) False,
        Column ''bucket_started_at'' TIMESTAMPTZ False,
        Column ''first_observed_at'' TIMESTAMPTZ False]
       [(Some ''ck_management_authentication_evidence_outcome'',
           Check (In ''outcome'' [''succeeded'', ''credential_mismatch'', ''revoked'', ''expired'',
                                  ''principal_disabled''])),
        (Some ''fk_management_auth_evidence_credential'',
           ForeignKey [''credential_id''] ''management_credentials'' [''credential_id'']),
        (Some ''fk_management_auth_evidence_principal'',
           ForeignKey [''principal_id''] ''management_principals'' [''principal_id'']),
        (None, PrimaryKey [''credential_id'', ''outcome'', ''bucket_started_at''])],
      CreateIndex ''ix_management_auth_evidence_bucket''
        ''management_authentication_evidence'' [''bucket_started_at''] False]"

definition downgrade_0016 :: "directive list" where
  "downgrade_0016 =
     [DropIndex ''ix_management_auth_evidence_bucket'' ''management_authentication_evidence'',
      DropTable ''management_authentication_evidence'']"

definition revision_0016 :: revision where
  "revision_0016 = \<lparr>rev_id = ''0016'', down_revision = Some ''0015'',
     upgrade = upgrade_0016, downgrade = downgrade_0016\<rparr>"

text \<open>0017: Index bounded Management authentication evidence queries.\<close>

definition upgrade_0017 :: "directive list" where
  "upgrade_0017 =
     [CreateIndex ''ix_management_auth_evidence_credential_observed''
        ''management_authentication_evidence'' [''credential_id'', ''first_observed_at''] False,
      CreateIndex ''ix_management_auth_evidence_principal_observed''
        ''management_authentication_evidence'' [''principal_id'', ''first_observed_at''] False]"

definition downgrade_0017 :: "directive list" where
  "downgrade_0017 =
     [DropIndex ''ix_management_auth_evidence_principal_observed'' ''management_authentication_evidence'',
      DropIndex ''ix_management_auth_evidence_credential_observed'' ''management_authentication_evidence'']"

definition revision_0017 :: revision where
  "revision_0017 = \<lparr>rev_id = ''0017'', down_revision = Some ''0016'',
     upgrade = upgrade_0017, downgrade = downgrade_0017\<rparr>"

text \<open>0018: Add persisted Runtime principals and credentials for provisioning.\<close>

definition old_actions_0018 :: "string list" where
  "old_actions_0018 =
     [''agent_model_permission_set'', ''management_principal_created'',
      ''management_credential_issued'', ''management_credential_revoked'',
      ''management_principal_disabled'', ''management_principal_scopes_set'']"

definition new_actions_0018 :: "string list" where
  "new_actions_0018 =
     old_actions_0018
     @ [''runtime_principal_created'', ''runtime_credential_issued'',
      ''runtime_credential_revoked'', ''runtime_principal_disabled'']"

definition old_resources_0018 :: "string list" where
  "old_resources_0018 =
     [''agent_model_permission'', ''management_principal'', ''management_credential'']"

definition new_resources_0018 :: "string list" where
  "new_resources_0018 =
     old_resources_0018
     @ [''runtime_principal'', ''runtime_credential'']"

definition audit_constraints_0018 :: "string list \<Rightarrow> string list \<Rightarrow> directive list" where
  "audit_constraints_0018 actions resources =
     [CreateCheck ''ck_management_audit_action'' ''management_audit_records''
       (In ''action'' actions),
      CreateCheck ''ck_management_audit_resource_type'' ''management_audit_records''
       (In ''resource_type'' resources)]"

definition upgrade_0018 :: "directive list" where
  "upgrade_0018 =
     [CreateTable ''runtime_principals''
       [Column ''principal_id'' UUID False,
        Column ''tenant_id'' UUID False,
        Column ''agent_id'' UUID False,
        Column ''created_at'' TIMESTAMPTZ False,
        Column ''disabled_at'' TIMESTAMPTZ True]
       [(Some ''fk_runtime_principal_tenant'', ForeignKey [''tenant_id''] ''tenants'' [''id'']),
        (Some ''fk_runtime_principal_agent'', ForeignKey [''agent_id''] ''agents'' [''id'']),
        (None, PrimaryKey [''principal_id''])],
      CreateIndex ''ix_runtime_principals_binding''
        ''runtime_principals'' [''tenant_id'', ''agent_id''] False,
      CreateTable ''runtime_credentials''
       [Column ''credential_id'' UUID False,
        Column ''principal_id'' UUID False,
        Column ''secret_verifier'' (STRING 64) False,
        Column ''label'' (STRING 100) True,
        Column ''created_at'' TIMESTAMPTZ False,
        Column ''expires_at'' TIMESTAMPTZ True,
        Column ''revoked_at'' TIMESTAMPTZ True]
       [(Some ''ck_runtime_credential_verifier'',
           Check (Matches ''secret_verifier'' ''^[0-9a-f]{64}$'')),
        (Some ''fk_runtime_credential_principal'',
           ForeignKey [''principal_id''] ''runtime_principals'' [''principal_id'']),
        (None, PrimaryKey [''credential_id''])],
      CreateIndex ''ix_runtime_credentials_principal_id'' ''runtime_credentials'' [''principal_id''] False,
      DropConstraint ''ck_management_audit_action'' ''management_audit_records'',
      DropConstraint ''ck_management_audit_resource_type'' ''management_audit_records'']
     @ audit_constraints_0018 new_actions_0018 new_resources_0018"

definition downgrade_0018 :: "directive list" where
  "downgrade_0018 =
     [DeleteFrom ''management_audit_records'' (In ''resource_type'' [''runtime_principal'',
                                                                     ''runtime_credential'']),
      DropConstraint ''ck_management_audit_action'' ''management_audit_records'',
      DropConstraint ''ck_management_audit_resource_type'' ''management_audit_records'']
     @ audit_constraints_0018 old_actions_0018 old_resources_0018
     @ [DropIndex ''ix_runtime_credentials_principal_id'' ''runtime_credentials'',
      DropTable ''runtime_credentials'',
      DropIndex ''ix_runtime_principals_binding'' ''runtime_principals'',
      DropTable ''runtime_principals'']"

definition revision_0018 :: revision where
  "revision_0018 = \<lparr>rev_id = ''0018'', down_revision = Some ''0017'',
     upgrade = upgrade_0018, downgrade = downgrade_0018\<rparr>"

text \<open>0019: Add persisted Runtime Principal usage-limit cutover preparation.\<close>

definition old_actions_0019 :: "string list" where
  "old_actions_0019 =
     [''agent_model_permission_set'', ''management_principal_created'',
      ''management_credential_issued'', ''management_credential_revoked'',
      ''management_principal_disabled'', ''management_principal_scopes_set'',
      ''runtime_principal_created'', ''runtime_credential_issued'',
      ''runtime_credential_revoked'', ''runtime_principal_disabled'']"

definition new_actions_0019 :: "string list" where
  "new_actions_0019 =
     old_actions_0019
     @ [''runtime_principal_usage_limits_initialized'']"

definition audit_constraint_0019 :: "string list \<Rightarrow> directive list" where
  "audit_constraint_0019 actions =
     [CreateCheck ''ck_management_audit_action'' ''management_audit_records''
       (In ''action'' actions)]"

definition upgrade_0019 :: "directive list" where
  "upgrade_0019 =
     [AddColumn ''runtime_principals'' (Column ''daily_usage_limit_units'' INTEGER True),
      AddColumn ''runtime_principals'' (Column ''per_invocation_allowance_units'' INTEGER True),
      CreateCheck ''ck_runtime_principal_usage_limits_together'' ''runtime_principals''
       (Or [And [IsNull ''daily_usage_limit_units'', IsNull ''per_invocation_allowance_units''],
             And [NotNull ''daily_usage_limit_units'', NotNull ''per_invocation_allowance_units'']]),
      CreateCheck ''ck_runtime_principal_daily_usage_limit_positive'' ''runtime_principals''
       (Or [IsNull ''daily_usage_limit_units'',
             Rel ''>'' (Col ''daily_usage_limit_units'') (Numeral 0)]),
      CreateCheck ''ck_runtime_principal_allowance_positive'' ''runtime_principals''
       (Or [IsNull ''per_invocation_allowance_units'',
             Rel ''>'' (Col ''per_invocation_allowance_units'') (Numeral 0)]),
      CreateCheck ''ck_runtime_principal_allowance_within_limit'' ''runtime_principals''
       (Or [IsNull ''daily_usage_limit_units'',
             Rel ''<='' (Col ''per_invocation_allowance_units'') (Col ''daily_usage_limit_units'')]),
      DropConstraint ''ck_management_audit_action'' ''management_audit_records'']
     @ audit_constraint_0019 new_actions_0019"

definition downgrade_0019 :: "directive list" where
  "downgrade_0019 =
     [DeleteFrom ''management_audit_records'' (Rel ''='' (Col ''action'') (Lit ''runtime_principal_usage_limits_initialized'')),
      DropConstraint ''ck_management_audit_action'' ''management_audit_records'']
     @ audit_constraint_0019 old_actions_0019
     @ [DropConstraint ''ck_runtime_principal_allowance_within_limit'' ''runtime_principals'',
      DropConstraint ''ck_runtime_principal_allowance_positive'' ''runtime_principals'',
      DropConstraint ''ck_runtime_principal_daily_usage_limit_positive'' ''runtime_principals'',
      DropConstraint ''ck_runtime_principal_usage_limits_together'' ''runtime_principals'',
      DropColumn ''runtime_principals'' ''per_invocation_allowance_units'',
      DropColumn ''runtime_principals'' ''daily_usage_limit_units'']"

definition revision_0019 :: revision where
  "revision_0019 = \<lparr>rev_id = ''0019'', down_revision = Some ''0018'',
     upgrade = upgrade_0019, downgrade = downgrade_0019\<rparr>"

text \<open>0020: Add immutable Runtime identity continuity preparation.\<close>

definition old_actions_0020 :: "string list" where
  "old_actions_0020 =
     [''agent_model_permission_set'', ''management_principal_created'',
      ''management_credential_issued'', ''management_credential_revoked'',
      ''management_principal_disabled'', ''management_principal_scopes_set'',
      ''runtime_principal_created'', ''runtime_credential_issued'',
      ''runtime_credential_revoked'', ''runtime_principal_disabled'',
      ''runtime_principal_usage_limits_initialized'']"

definition new_actions_0020 :: "string list" where
  "new_actions_0020 =
     old_actions_0020
     @ [''runtime_principal_identity_continuity_bound'']"

definition audit_constraint_0020 :: "string list \<Rightarrow> directive list" where
  "audit_constraint_0020 actions =
     [CreateCheck ''ck_management_audit_action'' ''management_audit_records''
       (In ''action'' actions)]"

definition upgrade_0020 :: "directive list" where
  "upgrade_0020 =
     [AddColumn ''runtime_principals'' (Column ''legacy_runtime_principal_id'' (STRING 255) True),
      AddColumn ''runtime_principals'' (Column ''identity_continuity_bound_at'' TIMESTAMPTZ True),
      CreateCheck ''ck_runtime_principal_continuity_together'' ''runtime_principals''
       (Or [And [IsNull ''legacy_runtime_principal_id'', IsNull ''identity_continuity_bound_at''],
             And [NotNull ''legacy_runtime_principal_id'', NotNull ''identity_continuity_bound_at'']]),
      CreateCheck ''ck_runtime_principal_legacy_id_nonblank'' ''runtime_principals''
       (Or [IsNull ''legacy_runtime_principal_id'',
             Rel ''>'' (Call ''length'' (Call ''btrim'' (Col ''legacy_runtime_principal_id''))) (Numeral 0)]),
      CreateIndex ''uq_runtime_principals_legacy_identity''
        ''runtime_principals'' [''legacy_runtime_principal_id''] True,
      DropConstraint ''ck_management_audit_action'' ''management_audit_records'']
     @ audit_constraint_0020 new_actions_0020"

definition downgrade_0020 :: "directive list" where
  "downgrade_0020 =
     [DeleteFrom ''management_audit_records'' (Rel ''='' (Col ''action'') (Lit ''runtime_principal_identity_continuity_bound'')),
      DropConstraint ''ck_management_audit_action'' ''management_audit_records'']
     @ audit_constraint_0020 old_actions_0020
     @ [DropIndex ''uq_runtime_principals_legacy_identity'' ''runtime_principals'',
      DropConstraint ''ck_runtime_principal_legacy_id_nonblank'' ''runtime_principals'',
      DropConstraint ''ck_runtime_principal_continuity_together'' ''runtime_principals'',
      DropColumn ''runtime_principals'' ''identity_continuity_bound_at'',
      DropColumn ''runtime_principals'' ''legacy_runtime_principal_id'']"

definition revision_0020 :: revision where
  "revision_0020 = \<lparr>rev_id = ''0020'', down_revision = Some ''0019'',
     upgrade = upgrade_0020, downgrade = downgrade_0020\<rparr>"

definition revisions :: "revision list" where
  "revisions = [revision_0001, revision_0002, revision_0003, revision_0004, revision_0005,
     revision_0006, revision_0007, revision_0008, revision_0009, revision_0010,
     revision_0011, revision_0012, revision_0013, revision_0014, revision_0015,
     revision_0016, revision_0017, revision_0018, revision_0019, revision_0020]"

subsection \<open>Running them\<close>

text \<open>A database under Alembic: its tables and the row of \<open>alembic_version\<close>, if any.\<close>

record deployment =
  version :: "string option"
  store :: database

definition blank :: deployment where
  "blank = \<lparr>version = None, store = \<lparr>catalogue = [], rows = \<lambda>n. []\<rparr>\<rparr>"

definition find_revision :: "string \<Rightarrow> revision option" where
  "find_revision v = find (\<lambda>r. rev_id r = v) revisions"

text \<open>
  The revisions after \<open>low\<close> up to \<open>high\<close>, oldest first, found by walking down from
  \<open>high\<close>; there is none when \<open>low\<close> is not an ancestor. The fuel is the number of
  revisions, which no chain exceeds.
\<close>

fun path :: "nat \<Rightarrow> string option \<Rightarrow> string option \<Rightarrow> revision list option" where
  "path n low high =
     (if high = low then Some []
      else (case (n, high) of
          (Suc m, Some v) \<Rightarrow>
            (case find_revision v of
               None \<Rightarrow> None
             | Some r \<Rightarrow> map_option (\<lambda>rs. rs @ [r]) (path m low (down_revision r)))
        | _ \<Rightarrow> None))"

definition revision_path :: "string option \<Rightarrow> string option \<Rightarrow> revision list option" where
  "revision_path = path (length revisions)"

definition upgrade_step :: "revision \<Rightarrow> deployment \<Rightarrow> ddl_error + deployment" where
  "upgrade_step r d = and_then (run_script (upgrade r) (store d))
     (\<lambda>s. Inr \<lparr>version = Some (rev_id r), store = s\<rparr>)"

definition downgrade_step :: "revision \<Rightarrow> deployment \<Rightarrow> ddl_error + deployment" where
  "downgrade_step r d = and_then (run_script (downgrade r) (store d))
     (\<lambda>s. Inr \<lparr>version = down_revision r, store = s\<rparr>)"

text \<open>Upgrading to a revision that is already applied does nothing.\<close>

definition upgrade_to :: "string \<Rightarrow> deployment \<Rightarrow> ddl_error + deployment" where
  "upgrade_to v d = (case revision_path (version d) (Some v) of
       Some rs \<Rightarrow> run_all upgrade_step rs d
     | None \<Rightarrow> (case revision_path (Some v) (version d) of
           Some rs \<Rightarrow> Inr d
         | None \<Rightarrow> Inl (UnknownRevision v)))"

text \<open>\<open>None\<close> is Alembic's \<open>base\<close>.\<close>

definition downgrade_to :: "string option \<Rightarrow> deployment \<Rightarrow> ddl_error + deployment" where
  "downgrade_to v d = (case revision_path v (version d) of
       None \<Rightarrow> Inl (UnknownRevision (case v of None \<Rightarrow> ''base'' | Some s \<Rightarrow> s))
     | Some rs \<Rightarrow> run_all downgrade_step (rev rs) d)"

text \<open>\<open>alembic upgrade head\<close>: the only revision no other one revises.\<close>

definition heads :: "revision list" where
  "heads = filter (\<lambda>r. list_all (\<lambda>s. down_revision s \<noteq> Some (rev_id r)) revisions) revisions"

definition upgrade_head :: "deployment \<Rightarrow> ddl_error + deployment" where
  "upgrade_head d = (case heads of [r] \<Rightarrow> upgrade_to (rev_id r) d | _ \<Rightarrow> Inl (UnknownRevision ''head''))"

text \<open>\<open>with context.begin_transaction(): context.run_migrations()\<close>.\<close>

definition do_run_migrations ::
  "(deployment \<Rightarrow> ddl_error + deployment) \<Rightarrow> deployment \<Rightarrow> (ddl_error + unit) \<times> deployment" where
  "do_run_migrations run d = (case run d of Inl e \<Rightarrow> (Inl e, d) | Inr d' \<Rightarrow> (Inr (), d'))"

end
