(* ===== verification/MappedTables.thy ===== *)
theory MappedTables
  imports Schema
begin

text \<open>
  The tables the SQLAlchemy models declare (\<open>SqlAlchemyBase.metadata\<close>), class by class:
  the columns with their types, the constraints of the columns and of \<open>__table_args__\<close>, the
  indexes. The tables of theory Store are the same rows as records. \<open>same_catalogue\<close> compares
  two catalogues up to the order of tables, constraints and indexes.
\<close>

definition mapped ::
  "string \<Rightarrow> column list \<Rightarrow> (string option \<times> tconstraint) list \<Rightarrow> index list \<Rightarrow> string \<times> table" where
  "mapped n cols cons ixs = (n,
     \<lparr>columns = keyed_columns cols cons,
      constraints = map (\<lambda>c. (constraint_name n c, snd c)) cons,
      indexes = ixs\<rparr>)"

definition tenant_row_table :: "string \<times> table" where
  "tenant_row_table = mapped ''tenants''
     [Column ''id'' UUID False,
      Column ''name'' (STRING 100) False,
      Column ''normalized_name'' (STRING 200) False,
      Column ''created_at'' TIMESTAMPTZ False]
     [(None, PrimaryKey [''id'']),
      (Some ''uq_tenants_normalized_name'', Unique [''normalized_name''])]
     []"

definition agent_row_table :: "string \<times> table" where
  "agent_row_table = mapped ''agents''
     [Column ''id'' UUID False,
      Column ''tenant_id'' UUID False,
      Column ''name'' (STRING 100) False,
      Column ''normalized_name'' (STRING 200) False,
      Column ''created_at'' TIMESTAMPTZ False]
     [(None, PrimaryKey [''id'']),
      (Some ''uq_agents_tenant_id_normalized_name'', Unique [''tenant_id'', ''normalized_name'']),
      (Some ''fk_agents_tenant_id_tenants'', ForeignKey [''tenant_id''] ''tenants'' [''id''])]
     []"

definition model_row_table :: "string \<times> table" where
  "model_row_table = mapped ''models''
     [Column ''id'' UUID False,
      Column ''tenant_id'' UUID False,
      Column ''name'' (STRING 100) False,
      Column ''normalized_name'' (STRING 200) False,
      Column ''provider'' (STRING 50) False,
      Column ''provider_model_reference'' (STRING 255) False,
      Column ''created_at'' TIMESTAMPTZ False]
     [(None, PrimaryKey [''id'']),
      (Some ''uq_models_tenant_id_normalized_name'', Unique [''tenant_id'', ''normalized_name'']),
      (Some ''fk_models_tenant_id_tenants'', ForeignKey [''tenant_id''] ''tenants'' [''id''])]
     []"

definition agent_model_permission_row_table :: "string \<times> table" where
  "agent_model_permission_row_table = mapped ''agent_model_permissions''
     [Column ''id'' UUID False,
      Column ''tenant_id'' UUID False,
      Column ''agent_id'' UUID False,
      Column ''model_id'' UUID False,
      Column ''effect'' (STRING 10) False,
      Column ''created_at'' TIMESTAMPTZ False,
      Column ''updated_at'' TIMESTAMPTZ False]
     [(None, PrimaryKey [''id'']),
      (Some ''uq_permissions_tenant_agent_model'', Unique [''tenant_id'', ''agent_id'', ''model_id'']),
      (Some ''ck_permissions_effect'', Check (In ''effect'' [''allow'', ''deny''])),
      (Some ''fk_permissions_tenant_id_tenants'', ForeignKey [''tenant_id''] ''tenants'' [''id'']),
      (Some ''fk_permissions_agent_id_agents'', ForeignKey [''agent_id''] ''agents'' [''id'']),
      (Some ''fk_permissions_model_id_models'', ForeignKey [''model_id''] ''models'' [''id''])]
     []"

definition policy_decision_row_table :: "string \<times> table" where
  "policy_decision_row_table = mapped ''policy_decisions''
     [Column ''id'' UUID False,
      Column ''invocation_id'' UUID False,
      Column ''tenant_id'' UUID False,
      Column ''agent_id'' UUID False,
      Column ''model_id'' UUID False,
      Column ''permission_id'' UUID True,
      Column ''effect'' (STRING 10) False,
      Column ''decided_at'' TIMESTAMPTZ False]
     [(None, PrimaryKey [''id'']),
      (Some ''ck_policy_decisions_effect'', Check (In ''effect'' [''allow'', ''deny''])),
      (Some ''fk_policy_decisions_tenant_id_tenants'', ForeignKey [''tenant_id''] ''tenants'' [''id'']),
      (Some ''fk_policy_decisions_agent_id_agents'', ForeignKey [''agent_id''] ''agents'' [''id'']),
      (Some ''fk_policy_decisions_model_id_models'', ForeignKey [''model_id''] ''models'' [''id'']),
      (Some ''fk_policy_decisions_permission_id_permissions'',
         ForeignKey [''permission_id''] ''agent_model_permissions'' [''id''])]
     [Index ''ix_policy_decisions_invocation_id'' [''invocation_id''] True]"

definition invocation_row_table :: "string \<times> table" where
  "invocation_row_table = mapped ''invocations''
     [Column ''id'' UUID False,
      Column ''tenant_id'' UUID False,
      Column ''agent_id'' UUID False,
      Column ''model_id'' UUID False,
      Column ''status'' (STRING 20) False,
      Column ''input_text'' TEXT False,
      Column ''output_text'' TEXT True,
      Column ''started_at'' TIMESTAMPTZ False,
      Column ''completed_at'' TIMESTAMPTZ False,
      Column ''policy_decision_id'' UUID True,
      Column ''runtime_principal_id'' (STRING 255) True,
      Column ''duration_ms'' INTEGER True,
      Column ''input_units'' INTEGER True,
      Column ''output_units'' INTEGER True,
      Column ''total_units'' INTEGER True,
      Column ''provider_response_id'' (STRING 255) True,
      Column ''usage_consumed_units'' INTEGER True,
      Column ''usage_limit_units'' INTEGER True,
      Column ''usage_allowance_units'' INTEGER True,
      Column ''usage_window_start'' TIMESTAMPTZ True,
      Column ''usage_window_end'' TIMESTAMPTZ True,
      Column ''cost_currency'' (STRING 3) True,
      Column ''cost_input'' (NUMERIC 30 12) True,
      Column ''cost_output'' (NUMERIC 30 12) True,
      Column ''cost_total'' (NUMERIC 30 12) True,
      Column ''pricing_version'' (STRING 255) True,
      Column ''pricing_basis_units'' INTEGER True,
      Column ''pricing_input_rate'' (NUMERIC 18 12) True,
      Column ''pricing_output_rate'' (NUMERIC 18 12) True,
      Column ''cost_budget_consumed'' (NUMERIC 30 12) True,
      Column ''cost_budget_limit'' (NUMERIC 30 12) True,
      Column ''cost_budget_allowance'' (NUMERIC 30 12) True,
      Column ''cost_budget_window_start'' TIMESTAMPTZ True,
      Column ''cost_budget_window_end'' TIMESTAMPTZ True]
     [(None, PrimaryKey [''id'']),
      (Some ''ck_invocations_status_output'',
         Check (Or [And [Rel ''='' (Col ''status'') (Lit ''succeeded''), NotNull ''output_text''],
               And [In ''status'' [''failed'', ''denied'', ''limited'', ''cost_limited''],
                    IsNull ''output_text'']])),
      (Some ''ck_invocations_duration_non_negative'',
         Check (Rel ''>='' (Col ''duration_ms'') (Numeral 0))),
      (Some ''ck_invocations_input_units_non_negative'',
         Check (Rel ''>='' (Col ''input_units'') (Numeral 0))),
      (Some ''ck_invocations_output_units_non_negative'',
         Check (Rel ''>='' (Col ''output_units'') (Numeral 0))),
      (Some ''ck_invocations_total_units_non_negative'',
         Check (Rel ''>='' (Col ''total_units'') (Numeral 0))),
      (Some ''ck_invocations_usage_consumed_non_negative'',
         Check (Rel ''>='' (Col ''usage_consumed_units'') (Numeral 0))),
      (Some ''ck_invocations_usage_limit_positive'',
         Check (Rel ''>'' (Col ''usage_limit_units'') (Numeral 0))),
      (Some ''ck_invocations_usage_allowance_positive'',
         Check (Rel ''>'' (Col ''usage_allowance_units'') (Numeral 0))),
      (Some ''ck_invocations_limited_evidence'',
         Check (Or [And [Rel ''='' (Col ''status'') (Lit ''limited''), NotNull ''usage_consumed_units'',
                    NotNull ''usage_limit_units'', NotNull ''usage_allowance_units'',
                    NotNull ''usage_window_start'', NotNull ''usage_window_end'',
                    Rel ''>'' (Plus (Col ''usage_consumed_units'') (Col ''usage_allowance_units'')) (Col ''usage_limit_units''),
                    Rel ''<='' (Col ''usage_allowance_units'') (Col ''usage_limit_units''),
                    IsNull ''total_units'', IsNull ''provider_response_id''],
               And [Rel ''<>'' (Col ''status'') (Lit ''limited''), IsNull ''usage_consumed_units'',
                    IsNull ''usage_limit_units'', IsNull ''usage_allowance_units'',
                    IsNull ''usage_window_start'', IsNull ''usage_window_end'']])),
      (Some ''ck_invocations_cost_snapshot_complete'',
         Check (Or [And [IsNull ''cost_currency'', IsNull ''cost_input'', IsNull ''cost_output'',
                    IsNull ''cost_total'', IsNull ''pricing_version'', IsNull ''pricing_basis_units'',
                    IsNull ''pricing_input_rate'', IsNull ''pricing_output_rate''],
               And [Rel ''='' (Col ''cost_currency'') (Lit ''USD''),
                    Rel ''>='' (Col ''cost_input'') (Numeral 0),
                    Rel ''>='' (Col ''cost_output'') (Numeral 0),
                    Rel ''='' (Col ''cost_total'') (Plus (Col ''cost_input'') (Col ''cost_output'')),
                    NotNull ''pricing_version'', Rel ''>'' (Col ''pricing_basis_units'') (Numeral 0),
                    Rel ''>='' (Col ''pricing_input_rate'') (Numeral 0),
                    Rel ''>='' (Col ''pricing_output_rate'') (Numeral 0)]])),
      (Some ''ck_invocations_cost_budget_evidence'',
         Check (Or [And [Rel ''='' (Col ''status'') (Lit ''cost_limited''), NotNull ''cost_budget_consumed'',
                    NotNull ''cost_budget_limit'', NotNull ''cost_budget_allowance'',
                    NotNull ''cost_budget_window_start'', NotNull ''cost_budget_window_end'',
                    Rel ''>='' (Col ''cost_budget_consumed'') (Numeral 0),
                    Rel ''>'' (Col ''cost_budget_limit'') (Numeral 0),
                    Rel ''>'' (Col ''cost_budget_allowance'') (Numeral 0),
                    Rel ''<='' (Col ''cost_budget_allowance'') (Col ''cost_budget_limit''),
                    Rel ''>'' (Plus (Col ''cost_budget_consumed'') (Col ''cost_budget_allowance'')) (Col ''cost_budget_limit''),
                    Rel ''>'' (Col ''cost_budget_window_end'') (Col ''cost_budget_window_start''),
                    IsNull ''input_units'', IsNull ''output_units'', IsNull ''total_units'',
                    IsNull ''provider_response_id'', IsNull ''cost_total''],
               And [Rel ''<>'' (Col ''status'') (Lit ''cost_limited''), IsNull ''cost_budget_consumed'',
                    IsNull ''cost_budget_limit'', IsNull ''cost_budget_allowance'',
                    IsNull ''cost_budget_window_start'', IsNull ''cost_budget_window_end'']])),
      (Some ''fk_invocations_tenant_id_tenants'', ForeignKey [''tenant_id''] ''tenants'' [''id'']),
      (Some ''fk_invocations_agent_id_agents'', ForeignKey [''agent_id''] ''agents'' [''id'']),
      (Some ''fk_invocations_model_id_models'', ForeignKey [''model_id''] ''models'' [''id'']),
      (Some ''fk_invocations_policy_decision_id_policy_decisions'',
         ForeignKey [''policy_decision_id''] ''policy_decisions'' [''id''])]
     [Index ''ix_invocations_runtime_principal_started_at'' [''runtime_principal_id'', ''started_at''] False,
      Index ''ix_invocations_tenant_started_at'' [''tenant_id'', ''started_at''] False]"

definition management_audit_record_row_table :: "string \<times> table" where
  "management_audit_record_row_table = mapped ''management_audit_records''
     [Column ''audit_id'' UUID False,
      Column ''principal_id'' (STRING 255) False,
      Column ''tenant_id'' UUID True,
      Column ''action'' (STRING 64) False,
      Column ''resource_type'' (STRING 64) False,
      Column ''resource_id'' UUID False,
      Column ''outcome'' (STRING 16) False,
      Column ''occurred_at'' TIMESTAMPTZ False,
      Column ''before_fingerprint'' (STRING 64) True,
      Column ''after_fingerprint'' (STRING 64) True]
     [(None, PrimaryKey [''audit_id'']),
      (Some ''ck_management_audit_action'',
         Check (In ''action'' [''agent_model_permission_set'', ''management_principal_created'',
                               ''management_credential_issued'', ''management_credential_revoked'',
                               ''management_principal_disabled'',
                               ''management_principal_scopes_set'', ''runtime_principal_created'',
                               ''runtime_credential_issued'', ''runtime_credential_revoked'',
                               ''runtime_principal_disabled'',
                               ''runtime_principal_usage_limits_initialized'',
                               ''runtime_principal_identity_continuity_bound''])),
      (Some ''ck_management_audit_resource_type'',
         Check (In ''resource_type'' [''agent_model_permission'', ''management_principal'',
                                      ''management_credential'', ''runtime_principal'',
                                      ''runtime_credential''])),
      (Some ''ck_management_audit_outcome'', Check (In ''outcome'' [''succeeded'', ''failed''])),
      (Some ''ck_management_audit_before_fingerprint'',
         Check (Or [IsNull ''before_fingerprint'', Matches ''before_fingerprint'' ''^[0-9a-f]{64}$''])),
      (Some ''ck_management_audit_after_fingerprint'',
         Check (Or [IsNull ''after_fingerprint'', Matches ''after_fingerprint'' ''^[0-9a-f]{64}$''])),
      (Some ''ck_management_audit_success_after'',
         Check (Or [Rel ''<>'' (Col ''outcome'') (Lit ''succeeded''), NotNull ''after_fingerprint''])),
      (Some ''fk_management_audit_tenant_id_tenants'', ForeignKey [''tenant_id''] ''tenants'' [''id''])]
     [Index ''ix_management_audit_tenant_occurred'' [''tenant_id'', ''occurred_at''] False]"

definition management_principal_row_table :: "string \<times> table" where
  "management_principal_row_table = mapped ''management_principals''
     [Column ''principal_id'' UUID False,
      Column ''display_name'' (STRING 100) False,
      Column ''can_manage_principals'' BOOLEAN False,
      Column ''created_at'' TIMESTAMPTZ False,
      Column ''disabled_at'' TIMESTAMPTZ True]
     [(None, PrimaryKey [''principal_id''])]
     []"

definition management_principal_tenant_scope_row_table :: "string \<times> table" where
  "management_principal_tenant_scope_row_table = mapped ''management_principal_tenant_scopes''
     [Column ''principal_id'' UUID False,
      Column ''tenant_id'' UUID False]
     [(None, PrimaryKey [''principal_id'', ''tenant_id'']),
      (Some ''fk_management_scope_principal'',
         ForeignKey [''principal_id''] ''management_principals'' [''principal_id'']),
      (Some ''fk_management_scope_tenant'', ForeignKey [''tenant_id''] ''tenants'' [''id''])]
     []"

definition management_credential_row_table :: "string \<times> table" where
  "management_credential_row_table = mapped ''management_credentials''
     [Column ''credential_id'' UUID False,
      Column ''principal_id'' UUID False,
      Column ''secret_verifier'' (STRING 64) False,
      Column ''label'' (STRING 100) True,
      Column ''created_at'' TIMESTAMPTZ False,
      Column ''expires_at'' TIMESTAMPTZ True,
      Column ''revoked_at'' TIMESTAMPTZ True]
     [(None, PrimaryKey [''credential_id'']),
      (Some ''ck_management_credential_verifier'',
         Check (Matches ''secret_verifier'' ''^[0-9a-f]{64}$'')),
      (Some ''fk_management_credential_principal'',
         ForeignKey [''principal_id''] ''management_principals'' [''principal_id''])]
     [Index ''ix_management_credentials_principal_id'' [''principal_id''] False]"

definition management_authentication_evidence_row_table :: "string \<times> table" where
  "management_authentication_evidence_row_table = mapped ''management_authentication_evidence''
     [Column ''credential_id'' UUID False,
      Column ''principal_id'' UUID False,
      Column ''outcome'' (STRING 32) False,
      Column ''bucket_started_at'' TIMESTAMPTZ False,
      Column ''first_observed_at'' TIMESTAMPTZ False]
     [(None, PrimaryKey [''credential_id'', ''outcome'', ''bucket_started_at'']),
      (Some ''ck_management_authentication_evidence_outcome'',
         Check (In ''outcome'' [''succeeded'', ''credential_mismatch'', ''revoked'', ''expired'',
                                ''principal_disabled''])),
      (Some ''fk_management_auth_evidence_credential'',
         ForeignKey [''credential_id''] ''management_credentials'' [''credential_id'']),
      (Some ''fk_management_auth_evidence_principal'',
         ForeignKey [''principal_id''] ''management_principals'' [''principal_id''])]
     [Index ''ix_management_auth_evidence_bucket'' [''bucket_started_at''] False,
      Index ''ix_management_auth_evidence_credential_observed'' [''credential_id'', ''first_observed_at''] False,
      Index ''ix_management_auth_evidence_principal_observed'' [''principal_id'', ''first_observed_at''] False]"

definition runtime_principal_row_table :: "string \<times> table" where
  "runtime_principal_row_table = mapped ''runtime_principals''
     [Column ''principal_id'' UUID False,
      Column ''tenant_id'' UUID False,
      Column ''agent_id'' UUID False,
      Column ''created_at'' TIMESTAMPTZ False,
      Column ''disabled_at'' TIMESTAMPTZ True,
      Column ''daily_usage_limit_units'' INTEGER True,
      Column ''per_invocation_allowance_units'' INTEGER True,
      Column ''legacy_runtime_principal_id'' (STRING 255) True,
      Column ''identity_continuity_bound_at'' TIMESTAMPTZ True]
     [(None, PrimaryKey [''principal_id'']),
      (Some ''ck_runtime_principal_usage_limits_together'',
         Check (Or [And [IsNull ''daily_usage_limit_units'', IsNull ''per_invocation_allowance_units''],
               And [NotNull ''daily_usage_limit_units'', NotNull ''per_invocation_allowance_units'']])),
      (Some ''ck_runtime_principal_daily_usage_limit_positive'',
         Check (Or [IsNull ''daily_usage_limit_units'',
               Rel ''>'' (Col ''daily_usage_limit_units'') (Numeral 0)])),
      (Some ''ck_runtime_principal_allowance_positive'',
         Check (Or [IsNull ''per_invocation_allowance_units'',
               Rel ''>'' (Col ''per_invocation_allowance_units'') (Numeral 0)])),
      (Some ''ck_runtime_principal_allowance_within_limit'',
         Check (Or [IsNull ''daily_usage_limit_units'',
               Rel ''<='' (Col ''per_invocation_allowance_units'') (Col ''daily_usage_limit_units'')])),
      (Some ''ck_runtime_principal_continuity_together'',
         Check (Or [And [IsNull ''legacy_runtime_principal_id'', IsNull ''identity_continuity_bound_at''],
               And [NotNull ''legacy_runtime_principal_id'', NotNull ''identity_continuity_bound_at'']])),
      (Some ''ck_runtime_principal_legacy_id_nonblank'',
         Check (Or [IsNull ''legacy_runtime_principal_id'',
               Rel ''>'' (Call ''length'' (Call ''btrim'' (Col ''legacy_runtime_principal_id''))) (Numeral 0)])),
      (Some ''fk_runtime_principal_tenant'', ForeignKey [''tenant_id''] ''tenants'' [''id'']),
      (Some ''fk_runtime_principal_agent'', ForeignKey [''agent_id''] ''agents'' [''id''])]
     [Index ''ix_runtime_principals_binding'' [''tenant_id'', ''agent_id''] False,
      Index ''uq_runtime_principals_legacy_identity'' [''legacy_runtime_principal_id''] True]"

definition runtime_credential_row_table :: "string \<times> table" where
  "runtime_credential_row_table = mapped ''runtime_credentials''
     [Column ''credential_id'' UUID False,
      Column ''principal_id'' UUID False,
      Column ''secret_verifier'' (STRING 64) False,
      Column ''label'' (STRING 100) True,
      Column ''created_at'' TIMESTAMPTZ False,
      Column ''expires_at'' TIMESTAMPTZ True,
      Column ''revoked_at'' TIMESTAMPTZ True]
     [(None, PrimaryKey [''credential_id'']),
      (Some ''ck_runtime_credential_verifier'',
         Check (Matches ''secret_verifier'' ''^[0-9a-f]{64}$'')),
      (Some ''fk_runtime_credential_principal'',
         ForeignKey [''principal_id''] ''runtime_principals'' [''principal_id''])]
     [Index ''ix_runtime_credentials_principal_id'' [''principal_id''] False]"

definition declared_tables :: schema where
  "declared_tables = [tenant_row_table, agent_row_table, model_row_table,
     agent_model_permission_row_table, policy_decision_row_table, invocation_row_table,
     management_audit_record_row_table, management_principal_row_table,
     management_principal_tenant_scope_row_table, management_credential_row_table,
     management_authentication_evidence_row_table, runtime_principal_row_table,
     runtime_credential_row_table]"

subsection \<open>Comparing catalogues\<close>

definition same_table :: "table \<Rightarrow> table \<Rightarrow> bool" where
  "same_table t u \<longleftrightarrow> columns t = columns u \<and> set (constraints t) = set (constraints u)
     \<and> set (indexes t) = set (indexes u)"

definition same_catalogue :: "schema \<Rightarrow> schema \<Rightarrow> bool" where
  "same_catalogue S T \<longleftrightarrow> set (table_names S) = set (table_names T)
     \<and> list_all (\<lambda>n. rel_option same_table (map_of S n) (map_of T n)) (table_names S)"

text \<open>Without the names of the primary keys, which only some of the scripts give.\<close>

definition without_key_names :: "schema \<Rightarrow> schema" where
  "without_key_names S = map (\<lambda>(n, t). (n, t\<lparr>constraints := map (\<lambda>(k, c).
     (case c of PrimaryKey _ \<Rightarrow> [] | _ \<Rightarrow> k, c)) (constraints t)\<rparr>)) S"

end
