(* ===== verification/CatalogueLaws.thy ===== *)
theory CatalogueLaws
  imports SchemaLaws MappedTables
begin

text \<open>
  Two catalogues that differ in the order of tables, constraints and indexes only
  (\<open>same_catalogue\<close>) accept the same directives and the same rows: \<open>same_reshape\<close>,
  \<open>same_valid\<close> and, for whole scripts, \<open>same_script\<close>. Scripts can be followed on the
  catalogue (\<open>run_all reshape\<close>) and on the rows (\<open>unopposed\<close>, \<open>rows_after\<close>) separately:
  \<open>run_script_split\<close>.
\<close>

subsection \<open>The same catalogue in another order\<close>

lemma map_of_eq_None: "map_of S n = None \<longleftrightarrow> n \<notin> set (table_names S)"
  by (simp add: map_of_eq_None_iff table_names_def)

lemma same_catalogue_iff:
  "same_catalogue S T \<longleftrightarrow> (\<forall>n. rel_option same_table (map_of S n) (map_of T n))"
proof
  assume s: "same_catalogue S T"
  show "\<forall>n. rel_option same_table (map_of S n) (map_of T n)"
  proof
    fix n
    show "rel_option same_table (map_of S n) (map_of T n)"
    proof (cases "n \<in> set (table_names S)")
      case True
      then show ?thesis using s by (simp add: same_catalogue_def list_all_iff)
    next
      case False
      then have "map_of S n = None" "map_of T n = None"
        using s by (simp_all add: same_catalogue_def map_of_eq_None)
      then show ?thesis by simp
    qed
  qed
next
  assume all: "\<forall>n. rel_option same_table (map_of S n) (map_of T n)"
  have "(map_of S n = None) = (map_of T n = None)" for n
    using all [rule_format, of n] by (cases "map_of S n"; cases "map_of T n") auto
  then have "set (table_names S) = set (table_names T)" unfolding map_of_eq_None by blast
  then show "same_catalogue S T" using all by (simp add: same_catalogue_def list_all_iff)
qed

lemma same_table_refl [simp]: "same_table t t"
  by (simp add: same_table_def)

lemma same_table_sym: "same_table t u \<Longrightarrow> same_table u t"
  by (simp add: same_table_def)

lemma same_table_trans: "same_table t u \<Longrightarrow> same_table u v \<Longrightarrow> same_table t v"
  by (simp add: same_table_def)

lemma same_catalogue_refl [simp]: "same_catalogue S S"
  by (simp add: same_catalogue_iff option.rel_refl)

lemma same_option_sym: "rel_option same_table x y \<Longrightarrow> rel_option same_table y x"
  by (cases x; cases y) (auto simp: same_table_sym)

lemma same_option_trans: "rel_option same_table x y \<Longrightarrow> rel_option same_table y z \<Longrightarrow> rel_option same_table x z"
  by (cases x; cases y; cases z) (auto intro: same_table_trans)

lemma same_catalogue_sym: "same_catalogue S T \<Longrightarrow> same_catalogue T S"
  unfolding same_catalogue_iff using same_option_sym by blast

lemma same_catalogue_trans: "same_catalogue S T \<Longrightarrow> same_catalogue T U \<Longrightarrow> same_catalogue S U"
  unfolding same_catalogue_iff using same_option_trans by blast

lemma same_names: "same_catalogue S T \<Longrightarrow> set (table_names S) = set (table_names T)"
  by (simp add: same_catalogue_def)

lemma same_map_of:
  assumes "same_catalogue S T" "map_of S n = Some t"
  obtains u where "map_of T n = Some u" "same_table t u"
proof -
  have "rel_option same_table (Some t) (map_of T n)"
    using assms by (metis same_catalogue_iff)
  then show ?thesis using that by (cases "map_of T n") auto
qed

text \<open>A cheaper test: constraints and indexes are looked up by name.\<close>

definition agree :: "(string \<times> 'a) list \<Rightarrow> (string \<times> 'a) list \<Rightarrow> bool" where
  "agree xs ys \<longleftrightarrow> list_all (\<lambda>x. map_of ys (fst x) = Some (snd x)) xs
     \<and> list_all (\<lambda>y. map_of xs (fst y) = Some (snd y)) ys"

definition alike_table :: "table \<Rightarrow> table \<Rightarrow> bool" where
  "alike_table t u \<longleftrightarrow> columns t = columns u \<and> agree (constraints t) (constraints u)
     \<and> set (indexes t) = set (indexes u)"

definition alike :: "schema \<Rightarrow> schema \<Rightarrow> bool" where
  "alike S T \<longleftrightarrow> list_all (\<lambda>nt. case map_of T (fst nt) of None \<Rightarrow> False | Some u \<Rightarrow> alike_table (snd nt) u) S
     \<and> list_all (\<lambda>n. n \<in> set (table_names S)) (table_names T)"

lemma agree_set: "agree xs ys \<Longrightarrow> set xs = set ys"
  unfolding agree_def list_all_iff by (metis (no_types, opaque_lifting) map_of_SomeD prod.collapse subsetI subset_antisym)

lemma alike_same:
  assumes "alike S T"
  shows "same_catalogue S T"
proof -
  have t: "\<exists>u. map_of T n = Some u \<and> alike_table t u" if "map_of S n = Some t" for n t
    using assms map_of_SomeD [OF that] by (fastforce simp: alike_def list_all_iff split: option.splits)
  have "same_table t u" if "alike_table t u" for t u
    using that agree_set by (auto simp: alike_table_def same_table_def)
  moreover have "map_of S n \<noteq> None" if "map_of T n \<noteq> None" for n
    using that assms by (simp add: alike_def list_all_iff map_of_eq_None)
  ultimately have "rel_option same_table (map_of S n) (map_of T n)" for n
    using t by (cases "map_of S n"; cases "map_of T n") fastforce+
  then show ?thesis by (simp add: same_catalogue_iff)
qed

text \<open>With distinct names, what a catalogue mentions depends on its tables only.\<close>

lemma member_map_of:
  "distinct (table_names S) \<Longrightarrow> (n, t) \<in> set S \<longleftrightarrow> map_of S n = Some t"
  unfolding table_names_def by (metis map_of_SomeD map_of_is_SomeI)

lemma same_member:
  assumes "same_catalogue S T" "distinct (table_names S)" "distinct (table_names T)" "(n, t) \<in> set S"
  obtains u where "(n, u) \<in> set T" "same_table t u"
  using assms same_map_of by (metis member_map_of)

lemma relation_names_set:
  "set (relation_names S) = {x. \<exists>(n, t) \<in> set S. x = n \<or> x \<in> ix_name ` set (indexes t)
     \<or> (\<exists>c \<in> set (constraints t). is_key (snd c) \<and> x = fst c)}"
proof (intro set_eqI iffI)
  fix x assume "x \<in> set (relation_names S)"
  then obtain n t where nt: "(n, t) \<in> set S"
    "x \<in> set (n # map ix_name (indexes t) @ map fst (filter (\<lambda>c. is_key (snd c)) (constraints t)))"
    by (auto simp: relation_names_def)
  then have "x = n \<or> x \<in> ix_name ` set (indexes t) \<or> (\<exists>c \<in> set (constraints t). is_key (snd c) \<and> x = fst c)"
    by auto
  then show "x \<in> {x. \<exists>(n, t) \<in> set S. x = n \<or> x \<in> ix_name ` set (indexes t)
     \<or> (\<exists>c \<in> set (constraints t). is_key (snd c) \<and> x = fst c)}" using nt(1) by blast
next
  fix x assume "x \<in> {x. \<exists>(n, t) \<in> set S. x = n \<or> x \<in> ix_name ` set (indexes t)
     \<or> (\<exists>c \<in> set (constraints t). is_key (snd c) \<and> x = fst c)}"
  then obtain n t where nt: "(n, t) \<in> set S" and "x = n \<or> x \<in> ix_name ` set (indexes t)
     \<or> (\<exists>c \<in> set (constraints t). is_key (snd c) \<and> x = fst c)" by blast
  then have "x \<in> set ((\<lambda>(n, t). n # map ix_name (indexes t)
      @ map fst (filter (\<lambda>c. is_key (snd c)) (constraints t))) (n, t))"
    by auto
  then show "x \<in> set (relation_names S)" using nt unfolding relation_names_def set_concat set_map by blast
qed

lemma same_relation_names_le:
  assumes "same_catalogue S T" "distinct (table_names S)" "distinct (table_names T)"
  shows "set (relation_names S) \<subseteq> set (relation_names T)"
proof
  fix x assume "x \<in> set (relation_names S)"
  then obtain n t where nt: "(n, t) \<in> set S" and x: "x = n \<or> x \<in> ix_name ` set (indexes t)
     \<or> (\<exists>c \<in> set (constraints t). is_key (snd c) \<and> x = fst c)"
    unfolding relation_names_set by auto
  obtain u where u: "(n, u) \<in> set T" "same_table t u" using same_member [OF assms nt] .
  then show "x \<in> set (relation_names T)" using x unfolding relation_names_set same_table_def by auto
qed

lemma same_references_le:
  assumes "same_catalogue S T" "distinct (table_names S)" "distinct (table_names T)"
  shows "set (references S) \<subseteq> set (references T)"
proof
  fix x assume "x \<in> set (references S)"
  then obtain n t c where nt: "(n, t) \<in> set S" and c: "c \<in> set (constraints t)" "referent (snd c) = Some x"
    unfolding references_set by auto
  obtain u where u: "(n, u) \<in> set T" "same_table t u" using same_member [OF assms nt] .
  then show "x \<in> set (references T)" using c unfolding references_set same_table_def by auto
qed

lemma same_mentions:
  assumes "same_catalogue S T" "distinct (table_names S)" "distinct (table_names T)"
  shows "set (relation_names S) = set (relation_names T)" "set (references S) = set (references T)"
  using assms same_relation_names_le same_references_le same_catalogue_sym by (meson subset_antisym)+

subsection \<open>Rows\<close>

lemma same_table_ok: "same_table t u \<Longrightarrow> table_ok D (n, t) = table_ok D (n, u)"
  by (simp add: table_ok_def same_table_def)

lemma valid_map_of:
  "valid d \<longleftrightarrow> well_formed (catalogue d)
     \<and> (\<forall>n t. map_of (catalogue d) n = Some t \<longrightarrow> table_ok (rows d) (n, t))"
  unfolding valid_def using member_map_of by (fastforce simp: well_formed_def)

lemma same_valid:
  assumes "same_catalogue S T" "distinct (table_names T)" "valid \<lparr>catalogue = S, rows = D\<rparr>"
  shows "valid \<lparr>catalogue = T, rows = D\<rparr>"
proof -
  have d: "distinct (table_names S)" using assms(3) by (simp add: valid_def well_formed_def)
  have "well_formed T"
    using assms same_mentions [OF assms(1) d assms(2)] same_names [OF assms(1)]
    by (simp add: valid_def well_formed_def)
  moreover have "table_ok D (n, u)" if u: "map_of T n = Some u" for n u
  proof -
    obtain t where "map_of S n = Some t" "same_table u t"
      using same_map_of [OF same_catalogue_sym [OF assms(1)] u] by blast
    then show ?thesis using assms(3) same_table_ok by (simp add: valid_map_of)
  qed
  ultimately show ?thesis by (simp add: valid_map_of)
qed

subsection \<open>Directives\<close>

text \<open>A change of one table that depends on what the table holds, not on its order.\<close>

definition order_free :: "(table \<Rightarrow> ddl_error + table) \<Rightarrow> (table \<Rightarrow> ddl_error + table) \<Rightarrow> bool" where
  "order_free f g \<longleftrightarrow> (\<forall>t u. same_table t u \<longrightarrow> rel_sum (=) same_table (f t) (g u))"

lemma order_freeI:
  "(\<And>t u. same_table t u \<Longrightarrow> rel_sum (=) same_table (f t) (g u)) \<Longrightarrow> order_free f g"
  by (simp add: order_free_def)

lemma map_of_changed:
  "map_of (map (\<lambda>(m, u). (m, if m = n then t' else u)) S) k
     = (if k = n \<and> map_of S n \<noteq> None then Some t' else map_of S k)"
  by (induction S) auto

lemma same_on_table:
  assumes "same_catalogue S T" "order_free f g" "on_table n f S = Inr S'"
  obtains T' where "on_table n g T = Inr T'" "same_catalogue S' T'"
proof -
  obtain t t' where t: "map_of S n = Some t" "f t = Inr t'"
    "S' = map (\<lambda>(m, u). (m, if m = n then t' else u)) S"
    using assms(3) by (auto simp: on_table_Inr)
  obtain u where u: "map_of T n = Some u" "same_table t u" using same_map_of [OF assms(1) t(1)] .
  have "rel_sum (=) same_table (Inr t') (g u)" using assms(2) u(2) t(2) unfolding order_free_def by metis
  then obtain u' where u': "g u = Inr u'" "same_table t' u'" by (cases "g u") auto
  let ?T = "map (\<lambda>(m, v). (m, if m = n then u' else v)) T"
  have "on_table n g T = Inr ?T" using u(1) u'(1) by (auto simp: on_table_Inr)
  moreover have "same_catalogue S' ?T"
    using assms(1) t(1,3) u(1) u'(2) unfolding same_catalogue_iff by (simp add: map_of_changed)
  ultimately show ?thesis using that by blast
qed

lemma order_free_ops:
  "order_free (add_column c) (add_column c)" "order_free (drop_column x) (drop_column x)"
  "order_free (drop_index i) (drop_index i)" "order_free (alter_nullable x b) (alter_nullable x b)"
  unfolding add_column_def drop_column_def drop_index_def alter_nullable_def
  by (auto intro!: order_freeI simp: same_table_def column_names_def list_ex_iff)

lemma same_has_key: "same_table t u \<Longrightarrow> has_key t cs = has_key u cs"
  by (simp add: has_key_def same_table_def list_ex_iff)

lemma same_constraint_fault:
  assumes "same_catalogue S T"
  shows "constraint_fault S n cs c = constraint_fault T n cs c"
proof (cases c)
  case (ForeignKey xs u ys)
  have "rel_option same_table (map_of S u) (map_of T u)" using assms by (simp add: same_catalogue_iff)
  then show ?thesis using ForeignKey same_has_key
    by (cases "map_of S u"; cases "map_of T u") (auto simp: constraint_fault_def)
qed (simp_all add: constraint_fault_def)

lemma order_free_constraint:
  assumes "same_catalogue S T"
  shows "order_free (add_constraint S n name c) (add_constraint T n name c)"
  unfolding add_constraint_def same_constraint_fault [OF assms]
  by (rule order_freeI) (auto simp: same_table_def split: option.split)

lemma order_free_drop_constraint:
  "set (references S) = set (references T) \<Longrightarrow> order_free (drop_constraint S n name) (drop_constraint T n name)"
  unfolding drop_constraint_def by (rule order_freeI) (auto simp: same_table_def list_ex_iff)

lemma order_free_index:
  "set (relation_names S) = set (relation_names T) \<Longrightarrow> order_free (create_index S x) (create_index T x)"
  unfolding create_index_def by (rule order_freeI) (auto simp: same_table_def column_names_def)

lemma same_create_table:
  assumes "same_catalogue S T" "distinct (table_names S)" "distinct (table_names T)"
    "create_table n cols cons S = Inr S'"
  obtains T' where "create_table n cols cons T = Inr T'" "same_catalogue S' T'"
proof -
  let ?named = "map (\<lambda>c. (constraint_name n c, snd c)) cons"
  let ?new = "[(n, \<lparr>columns = keyed_columns cols cons, constraints = ?named, indexes = []\<rparr>)]"
  have "create_table n cols cons T = Inr (T @ ?new) \<and> S' = S @ ?new"
    using assms(4) same_mentions [OF assms(1-3)] same_constraint_fault [OF assms(1)]
    by (auto simp: create_table_def Let_def list_ex_iff split: if_splits option.splits)
  moreover have "same_catalogue (S @ ?new) (T @ ?new)"
    unfolding same_catalogue_iff
  proof
    fix k
    have "rel_option same_table (map_of S k) (map_of T k)" using assms(1) by (simp add: same_catalogue_iff)
    then show "rel_option same_table (map_of (S @ ?new) k) (map_of (T @ ?new) k)"
      by (cases "map_of S k"; cases "map_of T k") (auto simp: map_add_def)
  qed
  ultimately show ?thesis using that by blast
qed

lemma map_of_kept: "map_of (filter (\<lambda>nt. fst nt \<noteq> n) S) k = (if k = n then None else map_of S k)"
  by (induction S) auto

lemma same_kept: "same_catalogue S T \<Longrightarrow>
    same_catalogue (filter (\<lambda>nt. fst nt \<noteq> n) S) (filter (\<lambda>nt. fst nt \<noteq> n) T)"
  by (simp add: same_catalogue_iff map_of_kept)

lemma distinct_kept: "distinct (table_names S) \<Longrightarrow> distinct (table_names (filter p S))"
  by (simp add: table_names_def distinct_map inj_on_def)

lemma same_drop_table:
  assumes "same_catalogue S T" "distinct (table_names S)" "distinct (table_names T)" "drop_table n S = Inr S'"
  obtains T' where "drop_table n T = Inr T'" "same_catalogue S' T'"
proof -
  let ?S = "filter (\<lambda>nt. fst nt \<noteq> n) S" and ?T = "filter (\<lambda>nt. fst nt \<noteq> n) T"
  have "set (references ?S) = set (references ?T)"
    using same_mentions(2) [OF same_kept [OF assms(1)]] assms(2,3) distinct_kept by blast
  then have "drop_table n T = Inr ?T \<and> S' = ?S"
    using assms(4) same_names [OF assms(1)] by (auto simp: drop_table_def Let_def split: if_splits)
  then show ?thesis using that same_kept [OF assms(1)] by blast
qed

lemma same_reshape:
  assumes same: "same_catalogue S T" and d: "distinct (table_names S)" "distinct (table_names T)"
    and step: "reshape x S = Inr S'"
  obtains T' where "reshape x T = Inr T'" "same_catalogue S' T'"
proof -
  note refs = same_mentions [OF same d]
  have "\<exists>T'. reshape x T = Inr T' \<and> same_catalogue S' T'"
  proof (cases x)
    case (CreateTable n cols cons)
    then show ?thesis using same_create_table [OF same d] step by (metis reshape.simps(1))
  next
    case (DropTable n)
    then show ?thesis using same_drop_table [OF same d] step by (metis reshape.simps(2))
  next
    case (AddColumn n c)
    then show ?thesis using same_on_table [OF same order_free_ops(1)] step by (metis reshape.simps(3))
  next
    case (DropColumn n c)
    then have ok: "\<not> list_ex (\<lambda>(t, ds). t = n \<and> c \<in> set ds) (references S)"
      "on_table n (drop_column c) S = Inr S'" using step by (auto split: if_splits)
    then have "\<not> list_ex (\<lambda>(t, ds). t = n \<and> c \<in> set ds) (references T)"
      using refs(2) by (simp add: list_ex_iff)
    then show ?thesis using same_on_table [OF same order_free_ops(2) ok(2)] DropColumn
      by (metis reshape.simps(4))
  next
    case (CreateCheck name n k)
    then show ?thesis using same_on_table [OF same order_free_constraint [OF same]] step
      by (metis reshape.simps(5))
  next
    case (CreateForeignKey name n u cs ds)
    then show ?thesis using same_on_table [OF same order_free_constraint [OF same]] step
      by (metis reshape.simps(6))
  next
    case (DropConstraint name n)
    then show ?thesis using same_on_table [OF same order_free_drop_constraint [OF refs(2)]] step
      by (metis reshape.simps(7))
  next
    case (CreateIndex name n cs u)
    then show ?thesis using same_on_table [OF same order_free_index [OF refs(1)]] step
      by (metis reshape.simps(8))
  next
    case (DropIndex name n)
    then show ?thesis using same_on_table [OF same order_free_ops(3)] step by (metis reshape.simps(9))
  next
    case (AlterNullable n c b)
    then show ?thesis using same_on_table [OF same order_free_ops(4)] step by (metis reshape.simps(10))
  next
    case (DeleteFrom t k)
    have "delete_fault t k T = delete_fault t k S"
    proof -
      have "rel_option same_table (map_of S t) (map_of T t)" using same by (simp add: same_catalogue_iff)
      then show ?thesis unfolding delete_fault_def
        by (cases "map_of S t"; cases "map_of T t") (auto simp: same_table_def column_names_def)
    qed
    then show ?thesis using DeleteFrom step same by (auto split: option.splits)
  qed
  then show ?thesis using that by blast
qed

lemma references_ok_iff:
  assumes "distinct (table_names S)"
  shows "references_ok S D \<longleftrightarrow> (\<forall>n t. map_of S n = Some t \<longrightarrow>
    (\<forall>c \<in> set (constraints t). referent (snd c) = None \<or> satisfied D n (snd c)))"
  unfolding references_ok_def list_all_iff using member_map_of [OF assms] by fastforce

lemma same_references_ok:
  assumes "same_catalogue S T" "distinct (table_names S)" "distinct (table_names T)" "references_ok S D"
  shows "references_ok T D"
  unfolding references_ok_iff [OF assms(3)]
proof (intro allI impI)
  fix n u assume u: "map_of T n = Some u"
  obtain t where "map_of S n = Some t" "same_table u t"
    using same_map_of [OF same_catalogue_sym [OF assms(1)] u] .
  then show "\<forall>c \<in> set (constraints u). referent (snd c) = None \<or> satisfied D n (snd c)"
    using assms(4) unfolding references_ok_iff [OF assms(2)] by (simp add: same_table_def)
qed

lemma same_reject_rows:
  assumes "same_catalogue S T" "distinct (table_names S)" "distinct (table_names T)"
  shows "reject_rows x S D = reject_rows x T D"
proof (cases x)
  case (DeleteFrom t k)
  have "references_ok S E = references_ok T E" for E
    using same_references_ok assms same_catalogue_sym by blast
  then show ?thesis using DeleteFrom by simp
qed simp_all

text \<open>A script does the same to both.\<close>

lemma same_script:
  assumes "same_catalogue S T" "valid \<lparr>catalogue = S, rows = D\<rparr>" "distinct (table_names T)"
    "run_script xs \<lparr>catalogue = S, rows = D\<rparr> = Inr d"
  obtains T' where "run_script xs \<lparr>catalogue = T, rows = D\<rparr> = Inr \<lparr>catalogue = T', rows = rows d\<rparr>"
    "same_catalogue (catalogue d) T'"
proof -
  have "\<exists>T'. run_script xs \<lparr>catalogue = T, rows = D\<rparr> = Inr \<lparr>catalogue = T', rows = rows d\<rparr>
      \<and> same_catalogue (catalogue d) T'"
    using assms
  proof (induction xs arbitrary: S T D)
    case Nil
    then show ?case by (auto simp: run_script_def)
  next
    case (Cons x xs)
    obtain S1 where S1: "reshape x S = Inr S1" "reject_rows x S D = None"
      and rest: "run_script xs \<lparr>catalogue = S1, rows = change_rows x D\<rparr> = Inr d"
      using Cons.prems(4)
      by (auto simp: run_script_def and_then_Inr_iff apply_directive_def split: option.splits)
    have dS: "distinct (table_names S)" using Cons.prems(2) by (simp add: valid_def well_formed_def)
    obtain T1 where T1: "reshape x T = Inr T1" "same_catalogue S1 T1"
      using same_reshape [OF Cons.prems(1) dS Cons.prems(3) S1(1)] .
    have rT: "reject_rows x T D = None" using S1(2) same_reject_rows [OF Cons.prems(1) dS Cons.prems(3)] by simp
    have vT: "valid \<lparr>catalogue = T, rows = D\<rparr>" using same_valid Cons.prems(1-3) by blast
    have aS: "apply_directive x \<lparr>catalogue = S, rows = D\<rparr> = Inr \<lparr>catalogue = S1, rows = change_rows x D\<rparr>"
      and aT: "apply_directive x \<lparr>catalogue = T, rows = D\<rparr> = Inr \<lparr>catalogue = T1, rows = change_rows x D\<rparr>"
      using S1 T1(1) rT by (simp_all add: apply_directive_def)
    have v1: "valid \<lparr>catalogue = S1, rows = change_rows x D\<rparr>" "distinct (table_names T1)"
      using directive_keeps_valid [OF aS Cons.prems(2)] directive_keeps_valid [OF aT vT]
      by (simp_all add: valid_def well_formed_def)
    show ?case using Cons.IH [OF T1(2) v1 rest] aT by (simp add: run_script_def)
  qed
  then show ?thesis using that by blast
qed

end
