(* ===== verification/RowLaws.thy ===== *)
theory RowLaws
  imports Migrations CatalogueLaws
begin

text \<open>
  What becomes of the rows. \<open>grown\<close> relates a database to a later one in which every table is
  still there with the same rows and at least the same columns; \<open>shrunk\<close> to one in which every
  row is still there that none of the deletions in the scripts names, with the same values in
  the columns that remain. A directive has the one effect or the other by its kind
  (\<open>upward\<close>, \<open>downward\<close>), and both carry over to scripts.
\<close>

definition columns_kept :: "table \<Rightarrow> table \<Rightarrow> bool" where
  "columns_kept t t' \<longleftrightarrow> (\<forall>c \<in> set (columns t). \<exists>c' \<in> set (columns t').
     col_name c' = col_name c \<and> col_type c' = col_type c)"

definition grown :: "database \<Rightarrow> database \<Rightarrow> bool" where
  "grown d d' \<longleftrightarrow> (\<forall>n t. map_of (catalogue d) n = Some t \<longrightarrow> rows d' n = rows d n
     \<and> (\<exists>t'. map_of (catalogue d') n = Some t' \<and> columns_kept t t'))"

text \<open>The deletions of the scripts: table and condition.\<close>

definition deletions :: "(string \<times> cond) list" where
  "deletions =
     [(''invocations'', Rel ''='' (Col ''status'') (Lit ''cost_limited'')),
      (''management_audit_records'', IsNull ''tenant_id''),
      (''management_audit_records'', In ''resource_type'' [''runtime_principal'', ''runtime_credential'']),
      (''management_audit_records'', Rel ''='' (Col ''action'') (Lit ''runtime_principal_usage_limits_initialized'')),
      (''management_audit_records'', Rel ''='' (Col ''action'') (Lit ''runtime_principal_identity_continuity_bound''))]"

definition spared :: "string \<Rightarrow> row \<Rightarrow> bool" where
  "spared n r \<longleftrightarrow> (\<forall>(t, k) \<in> set deletions. t = n \<longrightarrow> \<not> deleted k r)"

definition same_values :: "table \<Rightarrow> row \<Rightarrow> row \<Rightarrow> bool" where
  "same_values t r r' \<longleftrightarrow> (\<forall>c \<in> set (column_names t). map_of r' c = map_of r c)"

definition shrunk :: "database \<Rightarrow> database \<Rightarrow> bool" where
  "shrunk d d' \<longleftrightarrow> (\<forall>n t'. map_of (catalogue d') n = Some t' \<longrightarrow>
     (\<exists>t. map_of (catalogue d) n = Some t \<and> set (column_names t') \<subseteq> set (column_names t))
     \<and> (\<forall>r \<in> set (rows d n). spared n r \<longrightarrow> (\<exists>r' \<in> set (rows d' n). spared n r' \<and> same_values t' r r')))"

lemma columns_kept_refl [simp]: "columns_kept t t"
  by (auto simp: columns_kept_def)

lemma columns_kept_trans: "columns_kept t u \<Longrightarrow> columns_kept u v \<Longrightarrow> columns_kept t v"
  unfolding columns_kept_def by (metis (no_types))

lemma grown_refl: "grown d d"
  by (simp add: grown_def)

lemma grown_trans: "grown d e \<Longrightarrow> grown e f \<Longrightarrow> grown d f"
  unfolding grown_def using columns_kept_trans by fastforce

lemma same_values_trans:
  "same_values u r r' \<Longrightarrow> same_values v r' r'' \<Longrightarrow> set (column_names v) \<subseteq> set (column_names u) \<Longrightarrow> same_values v r r''"
  by (auto simp: same_values_def)

lemma shrunk_refl: "shrunk d d"
  by (auto simp: shrunk_def same_values_def)

lemma shrunk_trans:
  assumes "shrunk d e" "shrunk e f"
  shows "shrunk d f"
  unfolding shrunk_def
proof (intro allI impI conjI ballI)
  fix n t'' assume n: "map_of (catalogue f) n = Some t''"
  obtain t' where t': "map_of (catalogue e) n = Some t'" "set (column_names t'') \<subseteq> set (column_names t')"
    using assms(2) n unfolding shrunk_def by blast
  obtain t where t: "map_of (catalogue d) n = Some t" "set (column_names t') \<subseteq> set (column_names t)"
    using assms(1) t'(1) unfolding shrunk_def by blast
  show "\<exists>t. map_of (catalogue d) n = Some t \<and> set (column_names t'') \<subseteq> set (column_names t)" using t t'(2) by blast
  fix r assume r: "r \<in> set (rows d n)" "spared n r"
  obtain r' where r': "r' \<in> set (rows e n)" "spared n r'" "same_values t' r r'"
    using assms(1) t'(1) r unfolding shrunk_def by blast
  obtain r'' where r'': "r'' \<in> set (rows f n)" "spared n r''" "same_values t'' r' r''"
    using assms(2) n r'(1,2) unfolding shrunk_def by blast
  then show "\<exists>r'' \<in> set (rows f n). spared n r'' \<and> same_values t'' r r''"
    using same_values_trans [OF r'(3) r''(3) t'(2)] by blast
qed

subsection \<open>Directives\<close>

fun upward :: "directive \<Rightarrow> bool" where
  "upward (DropTable n) = False"
| "upward (DropColumn n c) = False"
| "upward (DeleteFrom n k) = False"
| "upward _ = True"

fun downward :: "directive \<Rightarrow> bool" where
  "downward (CreateTable n cols cons) = False"
| "downward (AddColumn n c) = False"
| "downward (DropColumn n c) = list_all (\<lambda>(t, k). t = n \<longrightarrow> c \<notin> set (cond_cols k)) deletions"
| "downward (DeleteFrom n k) = ((n, k) \<in> set deletions)"
| "downward _ = True"

lemma applied:
  assumes "apply_directive x d = Inr d'"
  shows "reshape x (catalogue d) = Inr (catalogue d')" "rows d' = change_rows x (rows d)"
  using assms by (auto simp: apply_directive_def and_then_Inr_iff split: option.splits)

lemma on_table_names:
  assumes "on_table n f S = Inr S'"
  obtains t t' where "map_of S n = Some t" "f t = Inr t'"
    "\<And>m. map_of S' m = (if m = n then Some t' else map_of S m)"
proof -
  obtain t t' where "map_of S n = Some t" "f t = Inr t'" "S' = map (\<lambda>(m, u). (m, if m = n then t' else u)) S"
    using assms by (auto simp: on_table_Inr)
  then show ?thesis using that by (simp add: map_of_changed)
qed

lemma grown_table:
  assumes "on_table n f (catalogue d) = Inr (catalogue d')" "rows d' = rows d"
    and "\<And>t t'. f t = Inr t' \<Longrightarrow> columns_kept t t'"
  shows "grown d d'"
proof -
  obtain t t' where t: "map_of (catalogue d) n = Some t" "f t = Inr t'"
    "\<And>m. map_of (catalogue d') m = (if m = n then Some t' else map_of (catalogue d) m)"
    using on_table_names [OF assms(1)] by metis
  show ?thesis using assms(2) assms(3) [OF t(2)] t(1,3) by (auto simp: grown_def)
qed

lemma columns_kept_map:
  "(\<And>k. col_name (f k) = col_name k \<and> col_type (f k) = col_type k) \<Longrightarrow> columns_kept t (t\<lparr>columns := map f (columns t)\<rparr>)"
  by (auto simp: columns_kept_def intro: imageI)

lemma alter_keeps_columns: "alter_nullable a b t = Inr t' \<Longrightarrow> columns_kept t t'"
  by (auto simp: alter_nullable_def split: if_splits intro!: columns_kept_map)

lemma others_keep_columns:
  "add_column c t = Inr t' \<Longrightarrow> columns_kept t t'"
  "add_constraint S n name k t = Inr t' \<Longrightarrow> columns_kept t t'"
  "drop_constraint S n name t = Inr t' \<Longrightarrow> columns_kept t t'"
  "create_index S x t = Inr t' \<Longrightarrow> columns_kept t t'"
  "drop_index name t = Inr t' \<Longrightarrow> columns_kept t t'"
  by (auto simp: columns_kept_def add_column_def add_constraint_def drop_constraint_def create_index_def
      drop_index_def split: if_splits option.splits)

lemmas ops_keep_columns = alter_keeps_columns others_keep_columns

lemma create_table_grows:
  assumes "create_table n cols cons S = Inr S'"
  shows "n \<notin> set (table_names S)" "map_of S m = Some t \<Longrightarrow> map_of S' m = Some t"
proof -
  have "n \<notin> set (relation_names S)" and S': "\<exists>t. S' = S @ [(n, t)]"
    using assms by (auto simp: create_table_def Let_def split: if_splits option.splits)
  then show "n \<notin> set (table_names S)" by (force simp: relation_names_def table_names_def)
  show "map_of S m = Some t \<Longrightarrow> map_of S' m = Some t" using S' by (auto simp: map_add_Some_iff)
qed

lemma directive_grows:
  assumes "apply_directive x d = Inr d'" "upward x"
  shows "grown d d'"
  using assms(2) applied [OF assms(1)] ops_keep_columns
proof (cases x)
  case (CreateTable n cols cons)
  then have S: "create_table n cols cons (catalogue d) = Inr (catalogue d')" "rows d' = (rows d)(n := [])"
    using applied [OF assms(1)] by simp_all
  have "m \<noteq> n" if "map_of (catalogue d) m = Some t" for m t
    using create_table_grows(1) [OF S(1)] that map_of_names by blast
  then show ?thesis using create_table_grows(2) [OF S(1)] S(2) by (auto simp: grown_def)
qed (auto intro!: grown_table)

lemma on_table_shrinks:
  assumes "on_table n f (catalogue d) = Inr (catalogue d')"
    and "\<And>t t'. f t = Inr t' \<Longrightarrow> set (column_names t') \<subseteq> set (column_names t)"
    and "\<And>t t' m r. f t = Inr t' \<Longrightarrow> m = n \<Longrightarrow> r \<in> set (rows d n) \<Longrightarrow> spared n r \<Longrightarrow>
      \<exists>r' \<in> set (rows d' n). spared n r' \<and> same_values t' r r'"
    and "\<And>m. m \<noteq> n \<Longrightarrow> rows d' m = rows d m"
  shows "shrunk d d'"
proof -
  obtain t t' where t: "map_of (catalogue d) n = Some t" "f t = Inr t'"
    "\<And>m. map_of (catalogue d') m = (if m = n then Some t' else map_of (catalogue d) m)"
    using on_table_names [OF assms(1)] by metis
  show ?thesis
    unfolding shrunk_def
  proof (intro allI impI conjI ballI)
    fix m u assume m: "map_of (catalogue d') m = Some u"
    show "\<exists>t. map_of (catalogue d) m = Some t \<and> set (column_names u) \<subseteq> set (column_names t)"
      using m t assms(2) [OF t(2)] by (cases "m = n") auto
    fix r assume r: "r \<in> set (rows d m)" "spared m r"
    show "\<exists>r' \<in> set (rows d' m). spared m r' \<and> same_values u r r'"
      using m r t assms(3) [OF t(2)] assms(4) [of m] by (cases "m = n") (auto simp: same_values_def)
  qed
qed

lemma same_values_refl [simp]: "same_values t r r"
  by (simp add: same_values_def)

lemma deleted_without: "c \<notin> set (cond_cols k) \<Longrightarrow> deleted k (filter (\<lambda>p. fst p \<noteq> c) r) = deleted k r"
  unfolding deleted_def by (subst holds_cong [of k _ r]) (auto simp: map_of_without)

lemma ops_drop_columns:
  "drop_column c t = Inr t' \<Longrightarrow> set (column_names t') \<subseteq> set (column_names t) - {c}"
  "add_constraint S n name k t = Inr t' \<Longrightarrow> set (column_names t') \<subseteq> set (column_names t)"
  "drop_constraint S n name t = Inr t' \<Longrightarrow> set (column_names t') \<subseteq> set (column_names t)"
  "create_index S x t = Inr t' \<Longrightarrow> set (column_names t') \<subseteq> set (column_names t)"
  "drop_index name t = Inr t' \<Longrightarrow> set (column_names t') \<subseteq> set (column_names t)"
  "alter_nullable a b t = Inr t' \<Longrightarrow> set (column_names t') \<subseteq> set (column_names t)"
  by (auto simp: column_names_def drop_column_def add_constraint_def drop_constraint_def create_index_def
      drop_index_def alter_nullable_def split: if_splits option.splits)

lemma drop_table_names:
  assumes "drop_table n S = Inr S'"
  shows "map_of S' m = (if m = n then None else map_of S m)"
  using assms by (auto simp: drop_table_def Let_def map_of_kept split: if_splits)

lemma same_rows_shrink:
  assumes "on_table n f (catalogue d) = Inr (catalogue d')" "rows d' = rows d"
    and "\<And>t t'. f t = Inr t' \<Longrightarrow> set (column_names t') \<subseteq> set (column_names t)"
  shows "shrunk d d'"
  using assms(2) by (intro on_table_shrinks [OF assms(1,3)]) auto

lemma drop_column_shrinks:
  assumes "on_table n (drop_column c) (catalogue d) = Inr (catalogue d')"
    and "rows d' = (rows d)(n := map (filter (\<lambda>p. fst p \<noteq> c)) (rows d n))"
    and kept: "\<forall>(t, k) \<in> set deletions. t = n \<longrightarrow> c \<notin> set (cond_cols k)"
  shows "shrunk d d'"
proof (rule on_table_shrinks [OF assms(1)])
  show "drop_column c t = Inr t' \<Longrightarrow> set (column_names t') \<subseteq> set (column_names t)" for t t'
    using ops_drop_columns(1) by blast
  fix t t' r
  assume t: "drop_column c t = Inr t'" and r: "r \<in> set (rows d n)" "spared n r"
  let ?r = "filter (\<lambda>p. fst p \<noteq> c) r"
  have "spared n ?r" using r(2) kept by (fastforce simp: spared_def deleted_without)
  moreover have "same_values t' r ?r"
    using ops_drop_columns(1) [OF t] by (auto simp: same_values_def map_of_without)
  ultimately show "\<exists>r' \<in> set (rows d' n). spared n r' \<and> same_values t' r r'"
    using r(1) assms(2) by auto
qed (simp add: assms(2))

lemma directive_shrinks:
  assumes "apply_directive x d = Inr d'" "downward x"
  shows "shrunk d d'"
proof (cases x)
  case (DropTable n)
  then have "drop_table n (catalogue d) = Inr (catalogue d')" "rows d' = (rows d)(n := [])"
    using applied [OF assms(1)] by simp_all
  then show ?thesis by (auto simp: shrunk_def drop_table_names same_values_def split: if_splits)
next
  case (DropColumn n c)
  then show ?thesis using applied [OF assms(1)] assms(2)
    by (intro drop_column_shrinks [of n c]) (auto simp: list_all_iff split: if_splits)
next
  case (DeleteFrom t k)
  then have "catalogue d' = catalogue d" "rows d' = (rows d)(t := filter (\<lambda>r. \<not> deleted k r) (rows d t))"
    using applied [OF assms(1)] by (auto split: option.splits)
  then show ?thesis using DeleteFrom assms(2) by (auto simp: shrunk_def spared_def)
qed (use applied [OF assms(1)] assms(2) in
      \<open>auto elim!: same_rows_shrink dest: ops_drop_columns(2-6) [THEN subsetD]\<close>)

subsection \<open>Scripts\<close>

lemma run_all_relates:
  assumes "\<And>x s s'. x \<in> set xs \<Longrightarrow> step x s = Inr s' \<Longrightarrow> R s s'" "\<And>s. R s s" "\<And>s t u. R s t \<Longrightarrow> R t u \<Longrightarrow> R s u"
    and "run_all step xs s = Inr s'"
  shows "R s s'"
  using assms(1,4)
proof (induction xs arbitrary: s)
  case (Cons x xs)
  then obtain t where "step x s = Inr t" "run_all step xs t = Inr s'" by (auto simp: and_then_Inr_iff)
  then show ?case using Cons.IH [of t] Cons.prems(1) assms(3) by (metis list.set_intros)
qed (use assms(2) in simp)

lemma script_grows: "run_script xs d = Inr d' \<Longrightarrow> list_all upward xs \<Longrightarrow> grown d d'"
  unfolding run_script_def list_all_iff
  by (rule run_all_relates [where R = grown]) (auto intro: directive_grows grown_refl grown_trans)

lemma script_shrinks: "run_script xs d = Inr d' \<Longrightarrow> list_all downward xs \<Longrightarrow> shrunk d d'"
  unfolding run_script_def list_all_iff
  by (rule run_all_relates [where R = shrunk]) (auto intro: directive_shrinks shrunk_refl shrunk_trans)

end
