(* ===== verification/MigrationLaws.thy ===== *)
theory MigrationLaws
  imports RowLaws
begin

text \<open>
  The migrations as a whole. The revisions form one line from the base to the head
  (\<open>history_is_linear\<close>); whatever is run leaves a valid database valid and loses no rows but
  the ones the downgrades name, and a refused run leaves it alone (\<open>migrations_keep_rows\<close>). Two downgrades narrow the check on the status
  of invocations without removing the rows it then rejects: a database that holds such a row
  cannot be taken below them (\<open>status_blocks_downgrade\<close>).
\<close>

subsection \<open>The line of revisions\<close>

lemmas revision_defs = revision_0001_def revision_0002_def revision_0003_def revision_0004_def
  revision_0005_def revision_0006_def revision_0007_def revision_0008_def revision_0009_def
  revision_0010_def revision_0011_def revision_0012_def revision_0013_def revision_0014_def
  revision_0015_def revision_0016_def revision_0017_def revision_0018_def revision_0019_def
  revision_0020_def

text \<open>The version after so many revisions: \<open>None\<close> at the base.\<close>

definition version_no :: "nat \<Rightarrow> string option" where
  "version_no k = (if k = 0 then None else Some (rev_id (revisions ! (k - 1))))"

lemma revisions_length [simp]: "length revisions = 20"
  by (simp add: revisions_def)

lemma revision_ids: "map rev_id revisions =
    [''0001'', ''0002'', ''0003'', ''0004'', ''0005'', ''0006'', ''0007'', ''0008'', ''0009'', ''0010'',
     ''0011'', ''0012'', ''0013'', ''0014'', ''0015'', ''0016'', ''0017'', ''0018'', ''0019'', ''0020'']"
  by (simp add: revisions_def revision_defs)

lemma revision_downs: "map down_revision revisions = None # map Some (butlast (map rev_id revisions))"
  by (simp add: revisions_def revision_defs)

lemma distinct_ids: "distinct (map rev_id revisions)"
  unfolding revision_ids by simp

lemma down_revision_no: "k < 20 \<Longrightarrow> down_revision (revisions ! k) = version_no k"
proof -
  assume k: "k < 20"
  have "down_revision (revisions ! k) = map down_revision revisions ! k" using k by simp
  also have "\<dots> = version_no k"
    using k unfolding revision_downs by (cases k) (simp_all add: version_no_def nth_butlast)
  finally show ?thesis .
qed

lemma version_no_inj:
  assumes "version_no i = version_no j" "i \<le> 20" "j \<le> 20"
  shows "i = j"
proof (cases "i = 0 \<or> j = 0")
  case True
  then show ?thesis using assms(1) by (auto simp: version_no_def split: if_splits)
next
  case False
  then have "map rev_id revisions ! (i - 1) = map rev_id revisions ! (j - 1)"
    using assms by (simp add: version_no_def)
  moreover have "i - 1 < length (map rev_id revisions)" "j - 1 < length (map rev_id revisions)"
    using False assms(2,3) by auto
  ultimately have "i - 1 = j - 1" using nth_eq_iff_index_eq [OF distinct_ids] by blast
  then show ?thesis using False by arith
qed

lemma find_distinct:
  "distinct (map f xs) \<Longrightarrow> k < length xs \<Longrightarrow> find (\<lambda>x. f x = f (xs ! k)) xs = Some (xs ! k)"
proof (induction xs arbitrary: k)
  case (Cons x xs)
  show ?case
  proof (cases k)
    case (Suc m)
    then have "f (xs ! m) \<in> f ` set xs" using Cons.prems(2) by simp
    then have "f x \<noteq> f (xs ! m)" using Cons.prems(1) by auto
    then show ?thesis using Suc Cons by simp
  qed simp
qed simp

lemma find_revision_no: "k < 20 \<Longrightarrow> find_revision (rev_id (revisions ! k)) = Some (revisions ! k)"
  using find_distinct [OF distinct_ids] by (simp add: find_revision_def)

declare path.simps [simp del]

lemma path_end: "path n v v = Some []"
  by (subst path.simps) simp

lemma path_back:
  assumes "v \<noteq> low" "find_revision w = Some r" "v = Some w"
  shows "path (Suc m) low v = map_option (\<lambda>rs. rs @ [r]) (path m low (down_revision r))"
  using assms by (subst path.simps) simp

lemma path_line:
  "i \<le> j \<Longrightarrow> j \<le> 20 \<Longrightarrow> j - i \<le> n \<Longrightarrow>
     path n (version_no i) (version_no j) = Some (drop i (take j revisions))"
proof (induction j arbitrary: n)
  case 0
  then show ?case by (simp add: path_end)
next
  case (Suc j)
  show ?case
  proof (cases "i = Suc j")
    case True
    then show ?thesis by (simp add: path_end)
  next
    case False
    then have ij: "i \<le> j" using Suc.prems(1) by simp
    have j: "j < 20" using Suc.prems(2) by simp
    obtain m where m: "n = Suc m" "j - i \<le> m" using Suc.prems(3) ij by (cases n) auto
    have ne: "version_no (Suc j) \<noteq> version_no i" using version_no_inj Suc.prems(1,2) False by auto
    have v: "version_no (Suc j) = Some (rev_id (revisions ! j))" by (simp add: version_no_def)
    have "path m (version_no i) (version_no j) = Some (drop i (take j revisions))"
      by (rule Suc.IH) (use ij j m in simp_all)
    then have "path n (version_no i) (version_no (Suc j)) = Some (drop i (take j revisions) @ [revisions ! j])"
      unfolding m(1) path_back [OF ne find_revision_no [OF j] v] down_revision_no [OF j] by simp
    also have "drop i (take j revisions) @ [revisions ! j] = drop i (take (Suc j) revisions)"
      using ij j by (simp only: take_Suc_conv_app_nth revisions_length drop_append length_take) simp
    finally show ?thesis .
  qed
qed

lemma revision_path_line:
  "i \<le> j \<Longrightarrow> j \<le> 20 \<Longrightarrow> revision_path (version_no i) (version_no j) = Some (drop i (take j revisions))"
  by (simp add: revision_path_def path_line)

text \<open>
  C40. The history of the schema is one line: walking down from any revision ends at the base,
  and has met every earlier revision exactly once, in order.
\<close>

theorem history_is_linear:
  assumes "r \<in> set revisions"
  shows "\<exists>k < length revisions. revisions ! k = r
    \<and> revision_path None (Some (rev_id r)) = Some (take (Suc k) revisions)"
proof -
  obtain k where k: "k < 20" "revisions ! k = r" using assms by (auto simp: in_set_conv_nth)
  have "version_no 0 = None" "version_no (Suc k) = Some (rev_id r)" using k by (simp_all add: version_no_def)
  then show ?thesis using revision_path_line [of 0 "Suc k"] k by auto
qed

theorem history_is_linear_witness:
  "\<exists>k < length revisions. revisions ! k = revision_0020
    \<and> revision_path None (Some (rev_id revision_0020)) = Some (take (Suc k) revisions)"
  by (rule history_is_linear) (simp add: revisions_def)

subsection \<open>Whatever is run keeps the database valid\<close>

interpretation upgrades: ddl_engine upgrade_step "\<lambda>d. valid (store d)"
  by unfold_locales (auto simp: upgrade_step_def and_then_Inr_iff intro: script_keeps_valid)

interpretation downgrades: ddl_engine downgrade_step "\<lambda>d. valid (store d)"
  by unfold_locales (auto simp: downgrade_step_def and_then_Inr_iff intro: script_keeps_valid)

lemma upgrade_to_valid: "upgrade_to v d = Inr d' \<Longrightarrow> valid (store d) \<Longrightarrow> valid (store d')"
  by (auto simp: upgrade_to_def split: option.splits intro: upgrades.all_good)

lemma downgrade_to_valid: "downgrade_to v d = Inr d' \<Longrightarrow> valid (store d) \<Longrightarrow> valid (store d')"
  by (auto simp: downgrade_to_def split: option.splits intro: downgrades.all_good)

subsection \<open>What is run loses no rows\<close>

lemmas upgrade_defs = upgrade_0001_def upgrade_0002_def upgrade_0003_def upgrade_0004_def
  upgrade_0005_def upgrade_0006_def upgrade_0007_def upgrade_0008_def upgrade_0009_def
  upgrade_0010_def upgrade_0011_def upgrade_0012_def upgrade_0013_def upgrade_0014_def
  upgrade_0015_def upgrade_0016_def upgrade_0017_def upgrade_0018_def upgrade_0019_def
  upgrade_0020_def audit_constraints_0018_def audit_constraint_0019_def audit_constraint_0020_def

lemmas downgrade_defs = downgrade_0001_def downgrade_0002_def downgrade_0003_def downgrade_0004_def
  downgrade_0005_def downgrade_0006_def downgrade_0007_def downgrade_0008_def downgrade_0009_def
  downgrade_0010_def downgrade_0011_def downgrade_0012_def downgrade_0013_def downgrade_0014_def
  downgrade_0015_def downgrade_0016_def downgrade_0017_def downgrade_0018_def downgrade_0019_def
  downgrade_0020_def audit_constraints_0018_def audit_constraint_0019_def audit_constraint_0020_def

lemma upgrades_upward: "list_all (\<lambda>r. list_all upward (upgrade r)) revisions"
  by (simp add: revisions_def revision_defs upgrade_defs)

lemma downgrades_downward: "list_all (\<lambda>r. list_all downward (downgrade r)) revisions"
  by (simp add: revisions_def revision_defs downgrade_defs deletions_def)

lemma path_members: "path n low high = Some rs \<Longrightarrow> set rs \<subseteq> set revisions"
proof (induction n low high arbitrary: rs rule: path.induct)
  case (1 n low high)
  show ?case
  proof (cases "high = low")
    case False
    then obtain m v r qs where r: "n = Suc m" "high = Some v" "find_revision v = Some r"
      "path m low (down_revision r) = Some qs" "rs = qs @ [r]"
      using "1.prems" by (subst (asm) path.simps) (auto split: nat.splits option.splits)
    have "r \<in> set revisions" using r(3) by (auto simp: find_revision_def find_Some_iff)
    then show ?thesis using "1.IH" [OF False refl r(1-4)] r(5) by simp
  qed (use "1.prems" in \<open>simp add: path_end\<close>)
qed

lemma upgrade_to_grows:
  assumes "upgrade_to v d = Inr d'"
  shows "grown (store d) (store d')"
proof (cases "revision_path (version d) (Some v)")
  case (Some rs)
  have "grown (store e) (store e')" if "r \<in> set rs" "upgrade_step r e = Inr e'" for r e e'
  proof -
    have "list_all upward (upgrade r)"
      using that(1) path_members [OF Some [unfolded revision_path_def]] upgrades_upward by (auto simp: list_all_iff)
    then show ?thesis using that(2) by (auto simp: upgrade_step_def and_then_Inr_iff intro: script_grows)
  qed
  note step = this
  have "run_all upgrade_step rs d = Inr d'" using assms Some by (simp add: upgrade_to_def)
  then show ?thesis
    by (rule run_all_relates [where R = "\<lambda>d d'. grown (store d) (store d')", rotated 3])
       (erule (1) step, rule grown_refl, erule (1) grown_trans)
qed (use assms grown_refl in \<open>auto simp: upgrade_to_def split: option.splits\<close>)

lemma downgrade_to_shrinks:
  assumes "downgrade_to v d = Inr d'"
  shows "shrunk (store d) (store d')"
proof -
  obtain rs where rs: "revision_path v (version d) = Some rs" "run_all downgrade_step (rev rs) d = Inr d'"
    using assms by (auto simp: downgrade_to_def split: option.splits)
  have "shrunk (store e) (store e')" if "r \<in> set rs" "downgrade_step r e = Inr e'" for r e e'
  proof -
    have "list_all downward (downgrade r)"
      using that(1) path_members [OF rs(1) [unfolded revision_path_def]] downgrades_downward by (auto simp: list_all_iff)
    then show ?thesis using that(2) by (auto simp: downgrade_step_def and_then_Inr_iff intro: script_shrinks)
  qed
  note step = this
  show ?thesis
    by (rule run_all_relates [where R = "\<lambda>d d'. shrunk (store d) (store d')", OF _ _ _ rs(2)])
       (simp add: step, rule shrunk_refl, erule (1) shrunk_trans)
qed

text \<open>
  C39. Migrations lose no data but what they name. An upgrade of a valid database keeps every
  stored table, with all its rows unchanged and all its columns. A downgrade keeps, in every
  table that remains, every row with its values in the columns that remain, except the
  cost-limited invocations and the audit records without a tenant, of runtime identities, of
  usage limits and of identity continuity. Both leave a valid database, and one that is refused
  leaves the database as it was.
\<close>

theorem migrations_keep_rows:
  assumes "valid (store d)"
  shows "(case do_run_migrations (upgrade_to v) d of
        (Inl e, d') \<Rightarrow> d' = d | (Inr u, d') \<Rightarrow> valid (store d') \<and> grown (store d) (store d'))
    \<and> (case do_run_migrations (downgrade_to w) d of
        (Inl e, d') \<Rightarrow> d' = d | (Inr u, d') \<Rightarrow> valid (store d') \<and> shrunk (store d) (store d'))"
  using assms upgrade_to_valid downgrade_to_valid upgrade_to_grows downgrade_to_shrinks
  by (simp add: do_run_migrations_def split: sum.splits)

text \<open>A database at revision 0002 with one tenant.\<close>

definition tenant_example :: row where
  "tenant_example = [(''id'', VUuid 1), (''name'', VText (lit ''a'')), (''normalized_name'', VText (lit ''a'')),
     (''created_at'', VTime 0)]"

definition deployed_example :: deployment where
  "deployed_example = \<lparr>version = Some ''0002'', store = \<lparr>catalogue =
     [(''tenants'', \<lparr>columns = [Column ''id'' UUID False, Column ''name'' (STRING 100) False,
         Column ''normalized_name'' (STRING 200) False, Column ''created_at'' TIMESTAMPTZ False],
       constraints = [(''pk_tenants'', PrimaryKey [''id'']), (''uq_tenants_normalized_name'', Unique [''normalized_name''])],
       indexes = []\<rparr>)],
     rows = (\<lambda>n. [])(''tenants'' := [tenant_example])\<rparr>\<rparr>"

lemma deployed_example_valid: "valid (store deployed_example)"
  by (simp add: deployed_example_def valid_def well_formed_def table_names_def references_def table_ok_def row_typed_def
      tenant_example_def unique_rows_def null_in_def key_of_def text_fits_def text_ok_def lit_simps)

lemma deployed_example_runs:
  "case upgrade_to ''0007'' deployed_example of Inl e \<Rightarrow> False
   | Inr d \<Rightarrow> version d = Some ''0007'' \<and> (case downgrade_to (Some ''0003'') d of Inl e \<Rightarrow> False
       | Inr d' \<Rightarrow> version d' = Some ''0003'' \<and> ''tenants'' \<in> set (table_names (catalogue (store d'))))"
  by code_simp

theorem migrations_keep_rows_witness:
  "\<exists>d d'. do_run_migrations (upgrade_to ''0007'') deployed_example = (Inr (), d) \<and> version d = Some ''0007''
     \<and> rows (store d) ''tenants'' = [tenant_example]
     \<and> do_run_migrations (downgrade_to (Some ''0003'')) d = (Inr (), d') \<and> version d' = Some ''0003''
     \<and> rows (store d') ''tenants'' \<noteq> []"
proof -
  obtain d d' where run: "upgrade_to ''0007'' deployed_example = Inr d" "version d = Some ''0007''"
    "downgrade_to (Some ''0003'') d = Inr d'" "version d' = Some ''0003''"
    "''tenants'' \<in> set (table_names (catalogue (store d')))"
    using deployed_example_runs by (auto split: sum.splits)
  then have up: "do_run_migrations (upgrade_to ''0007'') deployed_example = (Inr (), d)"
    and down: "do_run_migrations (downgrade_to (Some ''0003'')) d = (Inr (), d')"
    by (simp_all add: do_run_migrations_def)
  have "valid (store d)" "grown (store deployed_example) (store d)"
    using migrations_keep_rows [OF deployed_example_valid, of "''0007''" None] up by auto
  moreover have "shrunk (store d) (store d')"
    using migrations_keep_rows [OF calculation(1), of "''0007''" "Some ''0003''"] down by auto
  moreover have kept: "rows (store d) ''tenants'' = [tenant_example]"
    using calculation(2) by (simp add: grown_def deployed_example_def)
  moreover have "spared ''tenants'' tenant_example" by (simp add: spared_def deletions_def)
  moreover obtain t' where "map_of (catalogue (store d')) ''tenants'' = Some t'"
    using run(5) map_of_eq_None by (cases "map_of (catalogue (store d')) ''tenants''") auto
  ultimately have "rows (store d') ''tenants'' \<noteq> []" unfolding shrunk_def by fastforce
  then show ?thesis using up down kept run by blast
qed

subsection \<open>Rows that block a downgrade\<close>

definition has_status :: "string \<Rightarrow> data \<Rightarrow> bool" where
  "has_status q D \<longleftrightarrow> (\<exists>r \<in> set (D ''invocations''). map_of r ''status'' = Some (VText (lit q)))"

text \<open>Directives that neither remove invocations of another status than \<open>cost_limited\<close> nor their status.\<close>

fun status_kept :: "directive \<Rightarrow> bool" where
  "status_kept (CreateTable n cols cons) = (n \<noteq> ''invocations'')"
| "status_kept (DropTable n) = (n \<noteq> ''invocations'')"
| "status_kept (DropColumn n c) = (n \<noteq> ''invocations'' \<or> c \<noteq> ''status'')"
| "status_kept (DeleteFrom n k) = (n \<noteq> ''invocations'' \<or> k = Rel ''='' (Col ''status'') (Lit ''cost_limited''))"
| "status_kept _ = True"

lemma lit_inject [simp]: "lit a = lit b \<longleftrightarrow> a = b"
  by (auto simp: lit_def inj_map_eq_map inj_def)

lemma change_rows_status:
  assumes "has_status q D" "status_kept x" "q \<noteq> ''cost_limited''"
  shows "has_status q (change_rows x D)"
proof -
  obtain r where r: "r \<in> set (D ''invocations'')" "map_of r ''status'' = Some (VText (lit q))"
    using assms(1) by (auto simp: has_status_def)
  show ?thesis
  proof (cases x)
    case (DropColumn n c)
    show ?thesis
    proof (cases "n = ''invocations''")
      case True
      have "map_of (filter (\<lambda>p. fst p \<noteq> c) r) ''status'' = Some (VText (lit q))"
        using r(2) assms(2) DropColumn True by (simp add: map_of_without)
      then show ?thesis using r(1) DropColumn True by (auto simp: has_status_def)
    next
      case False
      then show ?thesis using r DropColumn by (auto simp: has_status_def)
    qed
  next
    case (DeleteFrom n k)
    have "\<not> deleted (Rel ''='' (Col ''status'') (Lit ''cost_limited'')) r"
      using r(2) assms(3) by (simp add: deleted_def of_column_def)
    then show ?thesis using r DeleteFrom assms(2) by (auto simp: has_status_def)
  qed (use r assms(2) in \<open>auto simp: has_status_def\<close>)
qed

lemma directive_status:
  assumes "apply_directive x d = Inr d'" "has_status q (rows d)" "status_kept x" "q \<noteq> ''cost_limited''"
  shows "has_status q (rows d')"
  using assms change_rows_status
  by (auto simp: apply_directive_def and_then_Inr_iff split: option.splits)

lemma script_status:
  assumes "run_script xs d = Inr d'" "has_status q (rows d)" "list_all status_kept xs" "q \<noteq> ''cost_limited''"
  shows "has_status q (rows d')"
  using assms
proof (induction xs arbitrary: d)
  case (Cons x xs)
  then obtain e where "apply_directive x d = Inr e" "run_script xs e = Inr d'"
    by (auto simp: run_script_def and_then_Inr_iff)
  then show ?case using Cons directive_status by simp
qed (simp add: run_script_def)

text \<open>A script that checks for another set of statuses is refused.\<close>

lemma script_blocked:
  assumes "has_status q (rows d)" "list_all status_kept xs" "q \<noteq> ''cost_limited''"
    and "CreateCheck name ''invocations'' k \<in> set xs"
    and "\<And>r. map_of r ''status'' = Some (VText (lit q)) \<Longrightarrow> \<not> accepts k r"
  shows "run_script xs d \<noteq> Inr d'"
  using assms(1,2,4)
proof (induction xs arbitrary: d)
  case (Cons x xs)
  show ?case
  proof
    assume run: "run_script (x # xs) d = Inr d'"
    then obtain e where e: "apply_directive x d = Inr e" "run_script xs e = Inr d'"
      by (auto simp: run_script_def and_then_Inr_iff)
    have "has_status q (rows e)" using directive_status [OF e(1)] Cons.prems assms(3) by simp
    then have "CreateCheck name ''invocations'' k \<notin> set xs" using Cons.IH [of e] Cons.prems e(2) by auto
    then have "x = CreateCheck name ''invocations'' k" using Cons.prems(3) by auto
    then have "reject_rows x (catalogue d) (rows d) \<noteq> None"
      using Cons.prems(1) assms(5) by (auto simp: has_status_def refuse_def)
    then show False using e(1) by (auto simp: apply_directive_def and_then_Inr_iff)
  qed
qed simp

lemma downgrades_keep_status: "list_all (\<lambda>r. list_all status_kept (downgrade r)) (drop 6 revisions)"
  by (simp add: revisions_def revision_defs downgrade_defs)

lemma steps_keep_status:
  assumes "run_all downgrade_step rs d = Inr d'" "has_status q (rows (store d))" "q \<noteq> ''cost_limited''"
    and "set rs \<subseteq> set (drop 6 revisions)"
  shows "has_status q (rows (store d'))"
  using assms
proof (induction rs arbitrary: d)
  case (Cons r rs)
  then obtain e where e: "downgrade_step r d = Inr e" "run_all downgrade_step rs e = Inr d'"
    by (auto simp: and_then_Inr_iff)
  have "list_all status_kept (downgrade r)"
    using downgrades_keep_status Cons.prems(4) unfolding list_all_iff by auto
  then have "has_status q (rows (store e))"
    using e(1) script_status Cons.prems(2,3) by (fastforce simp: downgrade_step_def and_then_Inr_iff)
  then show ?case using Cons.IH [OF e(2)] Cons.prems(3,4) by simp
qed simp

lemma check_0010_rejects:
  "map_of r ''status'' = Some (VText (lit ''limited'')) \<Longrightarrow>
     \<not> accepts (Or [And [Rel ''='' (Col ''status'') (Lit ''succeeded''), NotNull ''output_text''],
             And [In ''status'' [''failed'', ''denied''], IsNull ''output_text'']]) r"
  by (simp add: accepts_def of_column_def)

lemma check_0007_rejects:
  "map_of r ''status'' = Some (VText (lit ''denied'')) \<Longrightarrow>
     \<not> accepts (Or [And [Rel ''='' (Col ''status'') (Lit ''succeeded''), NotNull ''output_text''],
             And [Rel ''='' (Col ''status'') (Lit ''failed''), IsNull ''output_text'']]) r"
  by (simp add: accepts_def of_column_def)

lemma downgrade_0010_blocked: "has_status ''limited'' (rows d) \<Longrightarrow> run_script downgrade_0010 d \<noteq> Inr d'"
  by (rule script_blocked [OF _ _ _ _ check_0010_rejects]) (simp_all add: downgrade_0010_def)

lemma downgrade_0007_blocked: "has_status ''denied'' (rows d) \<Longrightarrow> run_script downgrade_0007 d \<noteq> Inr d'"
  by (rule script_blocked [OF _ _ _ _ check_0007_rejects]) (simp_all add: downgrade_0007_def)

text \<open>
  C38. A database that holds a \<open>limited\<close> invocation cannot be taken from revision 0010 or later
  to one before 0010, and one that holds a \<open>denied\<close> invocation not below 0007: the run is
  refused and changes nothing. The downgrades re-create the narrower check on the status
  without deleting the rows it rejects, as the downgrade of 0013 does for \<open>cost_limited\<close>.
\<close>

theorem status_blocks_downgrade:
  assumes "(q, b) = (''limited'', 10) \<or> (q, b) = (''denied'', 7)"
    and "version d = version_no j" "i < b" "b \<le> j" "j \<le> 20"
    and "has_status q (rows (store d))"
  shows "\<exists>e. do_run_migrations (downgrade_to (version_no i)) d = (Inl e, d)"
proof -
  have b: "6 \<le> b" "b \<le> 20" "q \<noteq> ''cost_limited''" "0 < b" using assms(1) by auto
  have path: "revision_path (version_no i) (version d) = Some (drop i (take j revisions))"
    unfolding assms(2) by (rule revision_path_line) (use assms(3,4,5) in auto)
  have split: "rev (drop i (take j revisions))
      = rev (drop b (take j revisions)) @ revisions ! (b - 1) # rev (drop i (take (b - 1) revisions))"
  proof -
    have "take j revisions = take b revisions @ drop b (take j revisions)"
      using assms(4) by (metis append_take_drop_id min.absorb1 take_take)
    moreover have "take b revisions = take (b - 1) revisions @ [revisions ! (b - 1)]"
      using b take_Suc_conv_app_nth [of "b - 1" revisions] by simp
    ultimately have "take j revisions = take (b - 1) revisions @ revisions ! (b - 1) # drop b (take j revisions)"
      by (metis append_Cons append_Nil append_assoc)
    moreover have "drop i (take (b - 1) revisions @ xs) = drop i (take (b - 1) revisions) @ xs" for xs
      using assms(3) b by simp
    ultimately have "drop i (take j revisions)
        = drop i (take (b - 1) revisions) @ revisions ! (b - 1) # drop b (take j revisions)"
      by metis
    then show ?thesis by simp
  qed
  have "run_all downgrade_step (rev (drop i (take j revisions))) d \<noteq> Inr d'" for d'
  proof
    assume "run_all downgrade_step (rev (drop i (take j revisions))) d = Inr d'"
    then obtain e e' where e: "run_all downgrade_step (rev (drop b (take j revisions))) d = Inr e"
      "downgrade_step (revisions ! (b - 1)) e = Inr e'"
      unfolding split run_all_append by (auto simp: and_then_Inr_iff)
    have "set (rev (drop b (take j revisions))) \<subseteq> set (drop 6 revisions)"
      using b(1) by (metis drop_take set_drop_subset_set_drop set_rev set_take_subset subset_trans)
    then have "has_status q (rows (store e))" using steps_keep_status [OF e(1) assms(6) b(3)] by blast
    then have "run_script (downgrade (revisions ! (b - 1))) (store e) \<noteq> Inr s" for s
      using assms(1) downgrade_0010_blocked downgrade_0007_blocked
      by (auto simp: revisions_def revision_0010_def revision_0007_def)
    then show False using e(2) by (auto simp: downgrade_step_def and_then_Inr_iff)
  qed
  then obtain e where "run_all downgrade_step (rev (drop i (take j revisions))) d = Inl e"
    by (cases "run_all downgrade_step (rev (drop i (take j revisions))) d") auto
  then show ?thesis using path by (simp add: do_run_migrations_def downgrade_to_def)
qed

text \<open>A database at the head with one invocation that a usage limit stopped.\<close>

definition limited_database :: deployment where
  "limited_database = \<lparr>version = Some ''0020'', store = \<lparr>catalogue = declared_tables,
     rows = (\<lambda>n. [])(''invocations'' := [[(''status'', VText (lit ''limited''))]])\<rparr>\<rparr>"

theorem status_blocks_downgrade_witness:
  "\<exists>e. do_run_migrations (downgrade_to (version_no 9)) limited_database = (Inl e, limited_database)"
  by (rule status_blocks_downgrade [of "''limited''" 10 _ 20])
     (simp_all add: limited_database_def version_no_def has_status_def revisions_def revision_0020_def)

subsection \<open>A check that does not check what its name says\<close>

text \<open>
  A cost snapshot with a currency and a version but no amounts passes the check on complete
  snapshots: the comparisons with missing values are unknown.
\<close>

lemma incomplete_snapshot_accepted:
  assumes "map_of (constraints (snd invocation_row_table)) ''ck_invocations_cost_snapshot_complete'' = Some (Check k)"
  shows "accepts k [(''cost_currency'', VText (lit ''USD'')), (''pricing_version'', VText (lit ''v1''))]"
  using assms
  by (simp add: invocation_row_table_def mapped_def constraint_name_def)
     (erule subst, simp add: accepts_def of_column_def)

end
