(* ===== verification/Spec2Isabelle.thy ===== *)
theory Spec2Isabelle
  imports Divergences Startup ReportingProperties MigrationLaws
begin

text \<open>
  The VALOR control plane (\<open>src/src/valor\<close>) registers tenants, the AI agents and models they
  own, and permissions between them; it runs model invocations for authenticated runtime
  principals under a usage limit and a tenant's cost budget; and it manages the identities,
  credentials and audit trail of the people and runtimes that use it. This library models its
  domain and application layers, its PostgreSQL repositories, its validated settings and its
  HTTP routes with what they answer.

  \<^bold>\<open>Parts, from the bottom\<close>

  \<^item> \<open>Prelude\<close>: computations \<open>('e, 's, 'a) op = 's \<Rightarrow> ('e + 'a) \<times> 's\<close>, in which an exception is
    the left value and leaves the state as it was when it was raised; \<open>bnd\<close>, \<open>catch\<close>, \<open>lift\<close>,
    \<open>reads\<close>; tables as lists of rows. \<open>Platform\<close>: the strings of Python as lists of code points,
    UUIDs as 128-bit words; what the program takes from outside (Unicode tables beyond ASCII,
    SHA-256 and HMAC, zone offsets) is a field of the record \<open>platform\<close>, and what one request
    takes from outside (identities, clock readings, the random secret, reachability of the
    database) a field of \<open>request\<close>. \<open>PyTime\<close> and \<open>PyDecimal\<close> model \<open>datetime\<close> and \<open>decimal\<close>;
    \<open>DecimalRounding\<close> bounds the rounding error.
  \<^item> \<open>Errors\<close>: every exception of the program as one datatype. \<open>Store\<close>: the tables of all ORM
    models with their constraints, and the unit of work of \<open>infrastructure/sqlalchemy_uow.py\<close> as
    a pair of committed and working tables. \<open>Repository\<close>: the locale of the repository port.
  \<^item> \<open>Tenancy\<close> (\<open>identity_tenancy\<close>), \<open>Registry\<close> (\<open>ai_asset_registry\<close>), \<open>AuditTrail\<close>
    (\<open>management_audit\<close>), \<open>Policy\<close> (\<open>policy_risk\<close>): values, constructors, rows, repositories and
    handlers. \<open>Catalogue\<close> joins them into one step relation with the invariant \<open>catalogue_ok\<close>;
    \<open>CatalogueProperties\<close> holds what it promises.
  \<^item> \<open>Settings\<close> (\<open>bootstrap/settings.py\<close>): the validated configuration sections.
  \<^item> \<open>Usage\<close>, \<open>Cost\<close>, \<open>Invocation\<close>, \<open>InvocationStore\<close>, \<open>Gateway\<close> (\<open>runtime_gateway\<close>): usage and its
    UTC day, decimal cost attribution and budgets, the aggregate with its five constructors
    and its table, and \<open>CreateInvocationHandler\<close> in the stages it runs: admission, policy, usage
    limit, budget, provider, persistence. \<open>GatewayLaws\<close> gives the effect of a run on the tables,
    \<open>GatewayBudget\<close> an accounting locale interpreted for usage and for cost;
    \<open>GatewayProperties\<close> holds the properties, \<open>Fixtures\<close> and \<open>GatewayExample\<close> the concrete run they
    are applied to.
  \<^item> \<open>MgmtIdentity\<close>, \<open>MgmtAuth\<close> (\<open>management_identity\<close>): principals, credentials, bearer tokens,
    \<open>ManagementIdentityService\<close>, the authenticator with its hourly evidence, and the inventories.
    \<open>MgmtLifecycle\<close>, \<open>MgmtInvariants\<close>, \<open>MgmtAuthLaws\<close> prove the lemmas of the step relation
    \<open>mgmt_step\<close>; \<open>ManagerAccess\<close> says, for histories of steps with a time each, what access of
    managers is left (the locale \<open>access_control\<close>, interpreted for the commands here and for
    requests in \<open>System\<close>); \<open>MgmtProperties\<close>, \<open>MgmtAuthProperties\<close> and \<open>ManagerProperties\<close> hold the
    properties.
  \<^item> \<open>RuntimeIdentity\<close> (\<open>runtime_identity\<close>) with \<open>RuntimeLifecycle\<close>, \<open>RuntimeInvariants\<close> and
    \<open>RuntimeProperties\<close>: runtime principals, their credentials and limits, and the binding of
    configured legacy identities. \<open>WriteOnce\<close> states the locale of a column that is written once,
    \<open>Atomicity\<close> that a command which fails changes nothing.
  \<^item> \<open>Reporting\<close>, \<open>ReportingProperties\<close> (\<open>runtime_gateway/*/reporting.py\<close>): the report of a tenant.
  \<^item> \<open>Security\<close> (\<open>security\<close>): principals, tenant authorization, the two bearer dependencies.
    \<open>Problem\<close> (\<open>*/presentation/errors.py\<close>): the problem document of every exception. \<open>Responses\<close>
    (\<open>*/presentation/*schemas.py\<close>): the bodies of answers. \<open>Http\<close> (\<open>*/presentation/*routes.py\<close>,
    \<open>bootstrap/application.py\<close>): the endpoints, their routes, and \<open>serve\<close>, one HTTP request.
  \<^item> The system over HTTP. \<open>HttpLaws\<close> shows that serving a request is a step of authentication, of
    the catalogue, of either identity context or of the gateway, or changes nothing; \<open>System\<close> joins
    the step relations of the contexts into one by their frames, with the invariant \<open>system_ok\<close>
    and the accounting locale interpreted again over all steps. \<open>HttpProperties\<close> states the
    invariant, the histories, the managers and the ledgers for any sequence of requests;
    \<open>HttpAccess\<close> who is refused; \<open>Isolation\<close> that tenants neither see nor touch each other;
    \<open>Delivery\<close> that a permitted request is answered and stays readable; \<open>Replies\<close> the shape of
    every reply; \<open>Startup\<close> that \<open>create_app\<close> follows the validated settings. \<open>Divergences\<close> holds the
    places where the code does something its documents or its other parts do not say.
  \<^item> The schema. \<open>Sql\<close>: the conditions of checks with their three-valued meaning on a row. \<open>Schema\<close>:
    tables, constraints, indexes and the directives of Alembic, with what PostgreSQL documents of
    each: what it does to the catalogue, demands of the rows and does to them. \<open>Migrations\<close>
    (\<open>src/migrations\<close>): both scripts of all twenty revisions and the run of a path of them in one
    transaction. \<open>MappedTables\<close> (\<open>*/infrastructure/models.py\<close>): the tables the models declare.
    \<open>SchemaLaws\<close>: every accepted directive keeps the database valid, the contract of the locale
    \<open>ddl_engine\<close>. \<open>CatalogueLaws\<close>: catalogues in another order behave the same. \<open>RowLaws\<close>:
    what becomes of tables, columns and rows, by the kind of each directive in the scripts.
    \<open>MigrationLaws\<close> holds the properties of the migrations.

  \<^bold>\<open>Bounds\<close>. Python's integers are \<open>int\<close>; PostgreSQL's \<open>integer\<close> columns reject what does not fit 32
  bits, \<open>varchar\<close> columns what is too long or holds a zero code point. Decimal arithmetic is
  the default context (28 digits, half even) or the one the code names. The only definition with
  fuel is the walk along \<open>down_revision\<close>, which gets one unit per revision and, by
  \<open>history_is_linear\<close>, needs no more; every loop of the modelled code is over a list or a number. UUIDs of one request are what its
  \<open>request\<close> draws; where a property needs them new, or not nil, it says so.

  \<^bold>\<open>Not modelled\<close>. What FastAPI, pydantic and uvicorn do with a request before a route sees it
  (URL matching, JSON, typed parameters, the Authorization header) is not part of the repository:
  a request is an endpoint with its typed parameters. The engine, logging and the health router
  (the liveness probe and the readiness probe with its 503) are left out, as are the error page
  FastAPI shows under \<open>debug\<close> and the offline mode of the migrations. Requests are served one
  after the other: a request with several transactions, such as an invocation, is not interleaved
  with others, so what concurrent requests may overshoot is not covered, and the advisory locks and row
  locks of PostgreSQL are not modelled. Nor are lone surrogates in strings, and failures of the
  connection once a transaction has begun: the database is unreachable from the start or not at
  all. \<open>Schema\<close> models documented behaviour of PostgreSQL, which is not code of this repository;
  the theorems on migrations rest on it and on every script.
\<close>

end
